(* ===== verification/Prelude.thy ===== *)
theory Prelude
  imports
    Main
    "HOL-Library.Char_ord"
    "HOL-Library.List_Lexorder"
    "HOL-Library.Product_Lexorder"
    "HOL-Library.Sublist"
begin

text \<open>
  Shared vocabulary of the development: the error values of the Go packages, Go strings and
  64-bit integers, the error-and-state combinators in which every store operation is
  written, a small weakest-precondition calculus for them, and generic lemmas on lists of
  rows. The collections \<open>wp\<close> and \<open>keeps_intros\<close> drive the component proofs.
\<close>

named_theorems wp \<open>weakest-precondition equations of the combinators\<close>
named_theorems keeps_intros \<open>introduction rules for database invariants\<close>

section \<open>Errors\<close>

text \<open>
  The error values of \<open>httpx/errors.go\<close> and of the stores. \<open>ErrNoRows\<close>, \<open>PgUnique\<close> and
  \<open>PgForeignKey\<close> are what the PostgreSQL driver reports (no row to scan, SQLSTATE 23505,
  SQLSTATE 23503); \<open>PgFault\<close> stands for every other failure of a statement (connection
  lost, context cancelled, malformed argument).
\<close>

datatype goerr =
    ErrNotFound | ErrInvalidInput | ErrConflict | ErrForbidden
  | ErrNoRows | PgUnique | PgForeignKey | PgFault
  | ErrTokenNotFound | ErrTokenConsumed | ErrTokenExpired | ErrTokenRevoked
  | ErrTokenInvalid | ErrTokenConflict | ErrDeviceConflict
  | ErrInvalidCredentials
  | ErrLogsInvalid | ErrDeviceInfoInvalid | ErrTelemetryInvalid
  | ErrDeviceNotFound | ErrDeviceUnauthorized
  | ErrRand | ErrText string

definition isUniqueViolation :: "goerr \<Rightarrow> bool" where
  "isUniqueViolation e \<longleftrightarrow> e = PgUnique"

section \<open>Go strings\<close>

text \<open>
  A Go string is a list of bytes. \<open>white_runes\<close> are the UTF-8 encodings of the code points
  with the Unicode White_Space property, which \<open>strings.TrimSpace\<close> removes at both ends.
\<close>

definition white_runes :: "string list" where
  "white_runes =
     [[CHR 0x09], [CHR 0x0A], [CHR 0x0B], [CHR 0x0C], [CHR 0x0D], [CHR 0x20],
      [CHR 0xC2, CHR 0x85], [CHR 0xC2, CHR 0xA0], [CHR 0xE1, CHR 0x9A, CHR 0x80]]
     @ map (\<lambda>b. [CHR 0xE2, CHR 0x80, b])
         [CHR 0x80, CHR 0x81, CHR 0x82, CHR 0x83, CHR 0x84, CHR 0x85, CHR 0x86, CHR 0x87,
          CHR 0x88, CHR 0x89, CHR 0x8A, CHR 0xA8, CHR 0xA9, CHR 0xAF]
     @ [[CHR 0xE2, CHR 0x81, CHR 0x9F], [CHR 0xE3, CHR 0x80, CHR 0x80]]"

lemma white_runes_nonempty: "[] \<notin> set white_runes"
  by (simp add: white_runes_def)

text \<open>Removing leading occurrences of the (non-empty) strings of a list.\<close>

function strip_front :: "string list \<Rightarrow> string \<Rightarrow> string" where
  "strip_front ws s =
     (case List.find (\<lambda>w. w \<noteq> [] \<and> prefix w s) ws of
        None \<Rightarrow> s
      | Some w \<Rightarrow> strip_front ws (drop (length w) s))"
  by pat_completeness auto
termination
proof (relation "measure (\<lambda>(ws, s). length s)", goal_cases)
  case (2 ws s w)
  then have "w \<noteq> [] \<and> prefix w s" by (auto simp: find_Some_iff)
  then show ?case by (auto simp: prefix_def)
qed simp

declare strip_front.simps [simp del]

definition TrimSpace :: "string \<Rightarrow> string" where
  "TrimSpace s = rev (strip_front (map rev white_runes) (rev (strip_front white_runes s)))"

lemma strip_front_None:
  "(\<forall>w \<in> set ws. w \<noteq> [] \<longrightarrow> \<not> prefix w s) \<Longrightarrow> strip_front ws s = s"
proof -
  assume "\<forall>w \<in> set ws. w \<noteq> [] \<longrightarrow> \<not> prefix w s"
  then have "List.find (\<lambda>w. w \<noteq> [] \<and> prefix w s) ws = None" by (auto simp: find_None_iff)
  then show ?thesis by (simp add: strip_front.simps [of ws s])
qed

lemma strip_front_Some:
  "List.find (\<lambda>w. w \<noteq> [] \<and> prefix w s) ws = Some v \<Longrightarrow>
   strip_front ws s = strip_front ws (drop (length v) s)"
  by (simp add: strip_front.simps [of ws s])

lemma strip_front_Nil [simp]: "strip_front ws [] = []"
  by (rule strip_front_None) auto

lemma strip_front_result:
  "w \<in> set ws \<Longrightarrow> w \<noteq> [] \<Longrightarrow> \<not> prefix w (strip_front ws s)"
proof (induction ws s rule: strip_front.induct)
  case (1 ws s)
  show ?case
  proof (cases "List.find (\<lambda>w. w \<noteq> [] \<and> prefix w s) ws")
    case None
    then have "\<forall>w \<in> set ws. w \<noteq> [] \<longrightarrow> \<not> prefix w s" by (auto simp: find_None_iff)
    then show ?thesis using 1(2,3) by (simp add: strip_front_None)
  next
    case (Some v)
    then show ?thesis using 1 by (simp add: strip_front_Some)
  qed
qed

lemma strip_front_suffix: "suffix (strip_front ws s) s"
proof (induction ws s rule: strip_front.induct)
  case (1 ws s)
  show ?case
  proof (cases "List.find (\<lambda>w. w \<noteq> [] \<and> prefix w s) ws")
    case None
    then have "\<forall>w \<in> set ws. w \<noteq> [] \<longrightarrow> \<not> prefix w s" by (auto simp: find_None_iff)
    then show ?thesis by (simp add: strip_front_None)
  next
    case (Some v)
    then have "suffix (strip_front ws (drop (length v) s)) (drop (length v) s)" by (rule 1)
    with Some show ?thesis
      by (simp add: strip_front_Some) (metis suffix_drop suffix_order.trans)
  qed
qed

text \<open>Trimming a trimmed string changes nothing.\<close>

lemma TrimSpace_idem [simp]: "TrimSpace (TrimSpace s) = TrimSpace s"
proof -
  let ?t = "strip_front white_runes s"
  let ?u = "strip_front (map rev white_runes) (rev ?t)"
  have pre: "prefix (rev ?u) ?t"
    using strip_front_suffix [of "map rev white_runes" "rev ?t"] by (simp add: suffix_to_prefix)
  have "strip_front white_runes (rev ?u) = rev ?u"
  proof (rule strip_front_None, intro ballI impI notI)
    fix w assume "w \<in> set white_runes" "w \<noteq> []" "prefix w (rev ?u)"
    moreover from this pre have "prefix w ?t" by (blast intro: prefix_order.trans)
    ultimately show False using strip_front_result by blast
  qed
  moreover have "strip_front (map rev white_runes) ?u = ?u"
    by (rule strip_front_None) (blast dest: strip_front_result)
  ultimately show ?thesis by (simp add: TrimSpace_def)
qed

lemma TrimSpace_Nil [simp]: "TrimSpace [] = []"
  by (simp add: TrimSpace_def)

text \<open>A string without white space is not trimmed.\<close>

lemma TrimSpace_plain:
  assumes "\<forall>w \<in> set white_runes. \<not> set w \<subseteq> set s"
  shows "TrimSpace s = s"
proof -
  have "strip_front white_runes s = s"
    using assms set_mono_prefix by (intro strip_front_None) blast
  moreover have "strip_front (map rev white_runes) (rev s) = rev s"
    using assms set_mono_prefix by (intro strip_front_None) fastforce
  ultimately show ?thesis by (simp add: TrimSpace_def)
qed

text \<open>
  \<open>strings.ToLower\<close> and \<open>strings.ToUpper\<close> on the ASCII letters; other bytes are kept, so
  the model covers strings whose non-ASCII letters have no case.
\<close>

definition lower_char :: "char \<Rightarrow> char" where
  "lower_char c = (if CHR ''A'' \<le> c \<and> c \<le> CHR ''Z'' then char_of (of_char c + 32 :: nat) else c)"

definition upper_char :: "char \<Rightarrow> char" where
  "upper_char c = (if CHR ''a'' \<le> c \<and> c \<le> CHR ''z'' then char_of (of_char c - 32 :: nat) else c)"

definition ToLower :: "string \<Rightarrow> string" where "ToLower = map lower_char"
definition ToUpper :: "string \<Rightarrow> string" where "ToUpper = map upper_char"

section \<open>64-bit integers\<close>

text \<open>Go's \<open>int\<close> and \<open>int64\<close> on the server's platforms: two's complement, wrapping.\<close>

definition wrap64 :: "int \<Rightarrow> int" where
  "wrap64 x = (x + 2 ^ 63) mod 2 ^ 64 - 2 ^ 63"

definition is_int64 :: "int \<Rightarrow> bool" where
  "is_int64 x \<longleftrightarrow> - (2 ^ 63) \<le> x \<and> x < 2 ^ 63"

lemma is_int64_wrap64 [simp]: "is_int64 (wrap64 x)"
  using pos_mod_bound [of "2 ^ 64" "x + 2 ^ 63"] pos_mod_sign [of "2 ^ 64" "x + 2 ^ 63"]
  unfolding wrap64_def is_int64_def by auto

lemma wrap64_id: "is_int64 x \<Longrightarrow> wrap64 x = x"
  by (simp add: wrap64_def is_int64_def)

section \<open>Actions: state passing with early return\<close>

text \<open>
  A store operation takes the state and returns an error or a value together with the new
  state. \<open>bindE\<close> is Go's \<open>x, err := m; if err != nil { return err }\<close>, \<open>handleE\<close> the same with
  an error branch of its own.
\<close>

type_synonym ('s, 'a) act = "'s \<Rightarrow> (goerr + 'a) \<times> 's"

definition returnE :: "'a \<Rightarrow> ('s, 'a) act" where
  "returnE x = (\<lambda>w. (Inr x, w))"

definition throwE :: "goerr \<Rightarrow> ('s, 'a) act" where
  "throwE e = (\<lambda>w. (Inl e, w))"

definition bindE :: "('s, 'a) act \<Rightarrow> ('a \<Rightarrow> ('s, 'b) act) \<Rightarrow> ('s, 'b) act" where
  "bindE m f = (\<lambda>w. case m w of (Inl e, w') \<Rightarrow> (Inl e, w') | (Inr x, w') \<Rightarrow> f x w')"

definition handleE :: "('s, 'a) act \<Rightarrow> (goerr \<Rightarrow> ('s, 'a) act) \<Rightarrow> ('s, 'a) act" where
  "handleE m h = (\<lambda>w. case m w of (Inl e, w') \<Rightarrow> h e w' | (Inr x, w') \<Rightarrow> (Inr x, w'))"

definition elseE :: "('s, 'a) act \<Rightarrow> (goerr \<Rightarrow> ('s, 'b) act) \<Rightarrow> ('a \<Rightarrow> ('s, 'b) act) \<Rightarrow> ('s, 'b) act" where
  "elseE m h f = (\<lambda>w. case m w of (Inl e, w') \<Rightarrow> h e w' | (Inr x, w') \<Rightarrow> f x w')"

text \<open>The loop \<open>for _, x := range xs { y, err := f(x); ...; out = append(out, y) }\<close>.\<close>

fun mapE :: "('a \<Rightarrow> ('s, 'b) act) \<Rightarrow> 'a list \<Rightarrow> ('s, 'b list) act" where
  "mapE f [] = returnE []"
| "mapE f (x # xs) = bindE (f x) (\<lambda>y. bindE (mapE f xs) (\<lambda>ys. returnE (y # ys)))"

text \<open>
  \<open>ErrNoRows\<close> answered with another error:
  \<open>if errors.Is(err, pgx.ErrNoRows) { return ..., e }\<close>.
\<close>

definition no_rows_as :: "goerr \<Rightarrow> ('s, 'a) act \<Rightarrow> ('s, 'a) act" where
  "no_rows_as e m = handleE m (\<lambda>e'. throwE (if e' = ErrNoRows then e else e'))"

subsection \<open>Weakest preconditions\<close>

definition post :: "('s, 'a) act \<Rightarrow> 's \<Rightarrow> ('a \<Rightarrow> 's \<Rightarrow> bool) \<Rightarrow> (goerr \<Rightarrow> 's \<Rightarrow> bool) \<Rightarrow> bool" where
  "post m w Q E = (case m w of (Inl e, w') \<Rightarrow> E e w' | (Inr x, w') \<Rightarrow> Q x w')"

lemma post_returnE [wp]: "post (returnE x) w Q E = Q x w"
  by (simp add: post_def returnE_def)

lemma post_throwE [wp]: "post (throwE e) w Q E = E e w"
  by (simp add: post_def throwE_def)

lemma post_bindE [wp]: "post (bindE m f) w Q E = post m w (\<lambda>x w'. post (f x) w' Q E) E"
  by (auto simp: post_def bindE_def split: prod.splits sum.splits)

lemma post_handleE [wp]: "post (handleE m h) w Q E = post m w Q (\<lambda>e w'. post (h e) w' Q E)"
  by (auto simp: post_def handleE_def split: prod.splits sum.splits)

lemma post_elseE [wp]:
  "post (elseE m h f) w Q E = post m w (\<lambda>x w'. post (f x) w' Q E) (\<lambda>e w'. post (h e) w' Q E)"
  by (auto simp: post_def elseE_def split: prod.splits sum.splits)

lemma post_if [wp]: "post (if b then m else n) w Q E = (if b then post m w Q E else post n w Q E)"
  by simp

lemma post_no_rows_as [wp]:
  "post (no_rows_as e m) w Q E = post m w Q (\<lambda>e'. E (if e' = ErrNoRows then e else e'))"
  by (simp add: no_rows_as_def wp)

lemma post_Inr: "post m w Q E \<Longrightarrow> m w = (Inr x, w') \<Longrightarrow> Q x w'"
  by (simp add: post_def)

lemma post_Inl: "post m w Q E \<Longrightarrow> m w = (Inl e, w') \<Longrightarrow> E e w'"
  by (simp add: post_def)

lemma post_snd: "post m w (\<lambda>_. P) (\<lambda>_. P) = P (snd (m w))"
  by (auto simp: post_def split: prod.splits sum.splits)

lemma post_mono:
  "post m w Q E \<Longrightarrow> (\<And>x w'. Q x w' \<Longrightarrow> Q' x w') \<Longrightarrow> (\<And>e w'. E e w' \<Longrightarrow> E' e w') \<Longrightarrow> post m w Q' E'"
  by (auto simp: post_def split: prod.splits sum.splits)

lemma post_conj:
  "post m w Q E \<Longrightarrow> post m w Q' E' \<Longrightarrow>
   post m w (\<lambda>x w'. Q x w' \<and> Q' x w') (\<lambda>e w'. E e w' \<and> E' e w')"
  by (auto simp: post_def split: prod.splits sum.splits)

text \<open>An action that ends in a known result.\<close>

lemma post_result: "m w = r \<longleftrightarrow> post m w (\<lambda>x w'. r = (Inr x, w')) (\<lambda>e w'. r = (Inl e, w'))"
  by (cases "m w") (auto simp: post_def split: sum.splits)

lemma post_bind_rule:
  "post m w Q' E \<Longrightarrow> (\<And>x w'. Q' x w' \<Longrightarrow> post (f x) w' Q E) \<Longrightarrow> post (bindE m f) w Q E"
  unfolding post_bindE by (rule post_mono)

lemma post_fst_Inr: "post m w Q E \<Longrightarrow> fst (m w) = Inr x \<Longrightarrow> Q x (snd (m w))"
  by (cases "m w") (simp add: post_def)

lemma post_fst_Inl: "post m w Q E \<Longrightarrow> fst (m w) = Inl e \<Longrightarrow> E e (snd (m w))"
  by (cases "m w") (simp add: post_def)

lemma fst_eq_post: "post m w (\<lambda>x _. r = Inr x) (\<lambda>e _. r = Inl e) \<Longrightarrow> fst (m w) = r"
  by (auto simp: post_def split: prod.splits sum.splits)

lemma resultI: "post m w (\<lambda>x w'. r = (Inr x, w')) (\<lambda>e w'. r = (Inl e, w')) \<Longrightarrow> m w = r"
  by (simp add: post_result)

text \<open>A loop keeps what every iteration keeps.\<close>

lemma post_mapE:
  assumes "\<And>x w. x \<in> set xs \<Longrightarrow> I w \<Longrightarrow> post (f x) w (\<lambda>_. I) (\<lambda>_. I)" and "I w"
  shows "post (mapE f xs) w (\<lambda>_. I) (\<lambda>_. I)"
  using assms
proof (induction xs arbitrary: w)
  case Nil
  then show ?case by (simp add: wp)
next
  case (Cons x xs)
  have step: "post (f x) w (\<lambda>_. I) (\<lambda>_. I)" using Cons.prems by simp
  have rest: "post (mapE f xs) w' (\<lambda>_. I) (\<lambda>_. I)" if "I w'" for w'
    using Cons.prems(1) that by (intro Cons.IH) auto
  show ?case
    unfolding mapE.simps post_bindE post_returnE by (rule post_mono [OF step]) (fact rest)
qed

section \<open>Lists of rows\<close>

text \<open>
  \<open>UPDATE t SET ... WHERE p\<close> rewrites the rows that satisfy \<open>p\<close>; its \<open>RETURNING\<close> clause yields
  the rewritten rows.
\<close>

definition upd_where :: "('r \<Rightarrow> bool) \<Rightarrow> ('r \<Rightarrow> 'r) \<Rightarrow> 'r list \<Rightarrow> 'r list" where
  "upd_where p f rs = map (\<lambda>r. if p r then f r else r) rs"

definition returning :: "('r \<Rightarrow> bool) \<Rightarrow> ('r \<Rightarrow> 'r) \<Rightarrow> 'r list \<Rightarrow> 'r list" where
  "returning p f rs = map f (filter p rs)"

lemma upd_where_none: "(\<forall>r \<in> set rs. \<not> p r) \<Longrightarrow> upd_where p f rs = rs"
  by (simp add: upd_where_def map_idI)

lemma set_upd_where:
  "set (upd_where p f rs) = {r \<in> set rs. \<not> p r} \<union> f ` {r \<in> set rs. p r}"
  by (auto simp: upd_where_def)

lemma map_upd_where:
  "(\<And>r. p r \<Longrightarrow> g (f r) = g r) \<Longrightarrow> map g (upd_where p f rs) = map g rs"
  by (simp add: upd_where_def)

lemma length_upd_where [simp]: "length (upd_where p f rs) = length rs"
  by (simp add: upd_where_def)

lemma upd_where_cong:
  "(\<And>r. r \<in> set rs \<Longrightarrow> p r = q r \<and> (p r \<longrightarrow> f r = g r)) \<Longrightarrow> upd_where p f rs = upd_where q g rs"
  by (simp add: upd_where_def)

lemma filter_upd_where:
  "(\<And>r. p (f r) = p r) \<Longrightarrow> filter p (upd_where p f rs) = map f (filter p rs)"
  by (induction rs) (simp_all add: upd_where_def)

lemma upd_where_twice:
  "(\<And>r. p (g r) = p r) \<Longrightarrow> upd_where p f (upd_where p g rs) = upd_where p (\<lambda>r. f (g r)) rs"
  by (simp add: upd_where_def)

lemma upd_where_append: "upd_where p f (rs @ ss) = upd_where p f rs @ upd_where p f ss"
  by (simp add: upd_where_def)

text \<open>
  A key that no two rows share: a row is the only one with its key, and updating by key
  changes that row alone.
\<close>

lemma distinct_key_unique:
  "distinct (map k rs) \<Longrightarrow> r \<in> set rs \<Longrightarrow> s \<in> set rs \<Longrightarrow> k r = k s \<Longrightarrow> r = s"
  by (auto simp: distinct_map inj_on_def)

lemma filter_eq_single: "distinct rs \<Longrightarrow> r \<in> set rs \<Longrightarrow> filter (\<lambda>s. s = r) rs = [r]"
  by (induction rs) (auto simp: filter_empty_conv)

lemma filter_key_single:
  assumes "distinct (map k rs)" "r \<in> set rs" "\<And>s. p s \<Longrightarrow> k s = k r" "p r"
  shows "filter p rs = [r]"
proof -
  have "filter p rs = filter (\<lambda>s. s = r) rs"
    by (rule filter_cong) (use assms in \<open>auto dest: distinct_key_unique\<close>)
  also have "\<dots> = [r]"
    using assms(1,2) by (intro filter_eq_single) (auto simp: distinct_map)
  finally show ?thesis .
qed

lemma returning_single:
  "filter p rs = [r] \<Longrightarrow> returning p f rs = [f r]"
  by (simp add: returning_def)

text \<open>Narrowing a selection that yields a single row.\<close>

lemma filter_sub_single:
  assumes "filter q rs = [c]" "\<And>r. p r \<Longrightarrow> q r"
  shows "filter p rs = (if p c then [c] else [])"
proof -
  have "filter p rs = filter p (filter q rs)"
    unfolding filter_filter by (rule filter_cong) (use assms(2) in auto)
  with assms(1) show ?thesis by simp
qed

lemma filter_single_mem: "filter q rs = c # cs \<Longrightarrow> c \<in> set rs \<and> q c"
proof -
  assume "filter q rs = c # cs"
  then have "c \<in> set (filter q rs)" by simp
  then show ?thesis by simp
qed

lemma upd_sub_single:
  assumes "filter q rs = [c]" "\<And>r. p r \<Longrightarrow> q r"
  shows "upd_where p f rs = (if p c then upd_where q f rs else rs)"
proof -
  have only: "r = c" if "r \<in> set rs" "q r" for r
  proof -
    have "r \<in> set (filter q rs)" using that by simp
    with assms(1) show ?thesis by simp
  qed
  show ?thesis
  proof (cases "p c")
    case True
    then have "upd_where p f rs = upd_where q f rs"
      by (intro upd_where_cong) (use only assms(2) in auto)
    with True show ?thesis by simp
  next
    case False
    then have "upd_where p f rs = rs"
      by (intro upd_where_none) (use only assms(2) in auto)
    with False show ?thesis by simp
  qed
qed

text \<open>\<open>LIMIT n OFFSET m\<close>.\<close>

definition page_rows :: "int \<Rightarrow> int \<Rightarrow> 'r list \<Rightarrow> 'r list" where
  "page_rows lim off rs = take (nat lim) (drop (nat off) rs)"

lemma set_page_rows: "set (page_rows l m rs) \<subseteq> set rs"
  by (auto simp: page_rows_def dest: in_set_takeD in_set_dropD)

lemma length_page_rows: "length (page_rows l m rs) \<le> nat l"
  by (simp add: page_rows_def)

end
