(* ===== verification/Sessions.thy ===== *)
theory Sessions
  imports Prelude
begin

text \<open>
  Administrator sessions: \<open>auth/rbac.go\<close> and \<open>auth/service.go\<close>. The service keeps its sessions in
  a map from identifier to session; a session is issued by a login, dies by logout, and an
  expired one is removed when it is next presented. \<open>s.now()\<close> and \<open>uuid.NewString()\<close> are
  arguments of the operations that read them, and the mutex makes every operation one step.
\<close>

section \<open>Permissions\<close>

type_synonym permission = string

definition PermissionAdminRead :: permission where "PermissionAdminRead = ''admin.read''"
definition PermissionAdminWrite :: permission where "PermissionAdminWrite = ''admin.write''"
definition PermissionDevicesRead :: permission where "PermissionDevicesRead = ''devices.read''"
definition PermissionDevicesWrite :: permission where "PermissionDevicesWrite = ''devices.write''"

definition AllPermissions :: "permission list" where
  "AllPermissions = [PermissionAdminRead, PermissionAdminWrite, PermissionDevicesRead, PermissionDevicesWrite]"

fun HasPermission :: "permission list \<Rightarrow> permission \<Rightarrow> bool" where
  "HasPermission [] target = False"
| "HasPermission (perm # perms) target = (if perm = target then True else HasPermission perms target)"

lemma HasPermission_iff: "HasPermission perms target \<longleftrightarrow> target \<in> set perms"
  by (induction perms) auto

section \<open>The service\<close>

record session =
  ses_id :: string
  ses_username :: string
  ses_permissions :: "permission list"
  ses_expires :: int

record auth_service =
  svc_username :: string
  svc_password :: string
  svc_ttl :: int
  svc_permissions :: "permission list"
  svc_sessions :: "string \<rightharpoonup> session"

definition NewServiceWithPermissions :: "string \<Rightarrow> string \<Rightarrow> int \<Rightarrow> permission list \<Rightarrow> auth_service" where
  "NewServiceWithPermissions username password ttl permissions =
     \<lparr>svc_username = username, svc_password = password, svc_ttl = ttl,
      svc_permissions = permissions, svc_sessions = Map.empty\<rparr>"

definition NewService :: "string \<Rightarrow> string \<Rightarrow> int \<Rightarrow> auth_service" where
  "NewService username password ttl = NewServiceWithPermissions username password ttl AllPermissions"

definition IssueSession ::
  "string \<Rightarrow> permission list \<Rightarrow> string \<Rightarrow> int \<Rightarrow> auth_service \<Rightarrow> session \<times> auth_service" where
  "IssueSession username permissions sid t s =
     (let session = \<lparr>ses_id = sid, ses_username = username, ses_permissions = permissions,
            ses_expires = t + svc_ttl s\<rparr>
      in (session, s\<lparr>svc_sessions := (svc_sessions s)(sid \<mapsto> session)\<rparr>))"

definition Login ::
  "string \<Rightarrow> string \<Rightarrow> string \<Rightarrow> int \<Rightarrow> auth_service \<Rightarrow> (goerr + session) \<times> auth_service" where
  "Login username password sid t s =
     (if username \<noteq> svc_username s then (Inl ErrInvalidCredentials, s)
      else if password \<noteq> svc_password s then (Inl ErrInvalidCredentials, s)
      else case IssueSession username (svc_permissions s) sid t s of (session, s') \<Rightarrow> (Inr session, s'))"

definition auth_Authenticate :: "string \<Rightarrow> int \<Rightarrow> auth_service \<Rightarrow> session option \<times> auth_service" where
  "auth_Authenticate sid t s =
     (case svc_sessions s sid of
        None \<Rightarrow> (None, s)
      | Some session \<Rightarrow>
          if t > ses_expires session then (None, s\<lparr>svc_sessions := (svc_sessions s)(sid := None)\<rparr>)
          else (Some session, s))"

definition Logout :: "string \<Rightarrow> auth_service \<Rightarrow> auth_service" where
  "Logout sid s = s\<lparr>svc_sessions := (svc_sessions s)(sid := None)\<rparr>"

definition Authorize :: "string \<Rightarrow> permission \<Rightarrow> int \<Rightarrow> auth_service \<Rightarrow> session option \<times> auth_service" where
  "Authorize sid permission t s =
     (case auth_Authenticate sid t s of
        (None, s') \<Rightarrow> (None, s')
      | (Some session, s') \<Rightarrow>
          if \<not> HasPermission (ses_permissions session) permission then (None, s') else (Some session, s'))"

section \<open>The service as a state machine\<close>

text \<open>The calls the handlers make, with what each reads of the clock and the generator.\<close>

datatype auth_event =
    EvLogin string string string int
  | EvIssue string "permission list" string int
  | EvAuthenticate string int
  | EvAuthorize string permission int
  | EvLogout string

inductive auth_step :: "auth_event \<Rightarrow> auth_service \<Rightarrow> auth_service \<Rightarrow> bool" where
  login: "auth_step (EvLogin u p sid t) s (snd (Login u p sid t s))"
| issue: "auth_step (EvIssue u perms sid t) s (snd (IssueSession u perms sid t s))"
| authenticate: "auth_step (EvAuthenticate sid t) s (snd (auth_Authenticate sid t s))"
| authorize: "auth_step (EvAuthorize sid perm t) s (snd (Authorize sid perm t s))"
| logout: "auth_step (EvLogout sid) s (Logout sid s)"

inductive auth_run :: "auth_service \<Rightarrow> auth_event list \<Rightarrow> auth_service \<Rightarrow> bool" for s0 where
  start: "auth_run s0 [] s0"
| step: "auth_run s0 evs s \<Longrightarrow> auth_step ev s s' \<Longrightarrow> auth_run s0 (evs @ [ev]) s'"

inductive_cases auth_stepE: "auth_step ev s s'"

text \<open>
  What the service promises, without the map: the session last issued under an identifier,
  unless it was logged out since.
\<close>

fun issued_by :: "auth_service \<Rightarrow> string \<Rightarrow> auth_event \<Rightarrow> session option \<Rightarrow> session option" where
  "issued_by s0 i (EvLogin u p sid t) old =
     (if sid = i \<and> u = svc_username s0 \<and> p = svc_password s0
      then Some \<lparr>ses_id = sid, ses_username = u, ses_permissions = svc_permissions s0,
             ses_expires = t + svc_ttl s0\<rparr>
      else old)"
| "issued_by s0 i (EvIssue u perms sid t) old =
     (if sid = i then Some \<lparr>ses_id = sid, ses_username = u, ses_permissions = perms,
             ses_expires = t + svc_ttl s0\<rparr>
      else old)"
| "issued_by s0 i (EvLogout sid) old = (if sid = i then None else old)"
| "issued_by s0 i _ old = old"

definition held_session :: "auth_service \<Rightarrow> auth_event list \<Rightarrow> string \<Rightarrow> session option" where
  "held_session s0 evs i = fold (issued_by s0 i) evs None"

fun event_time :: "auth_event \<Rightarrow> int option" where
  "event_time (EvLogin u p sid t) = Some t"
| "event_time (EvIssue u perms sid t) = Some t"
| "event_time (EvAuthenticate sid t) = Some t"
| "event_time (EvAuthorize sid perm t) = Some t"
| "event_time (EvLogout sid) = None"

definition timed_by :: "int \<Rightarrow> auth_event list \<Rightarrow> bool" where
  "timed_by T evs \<longleftrightarrow> (\<forall>ev \<in> set evs. case event_time ev of None \<Rightarrow> True | Some t \<Rightarrow> t \<le> T)"

lemma held_session_snoc: "held_session s0 (evs @ [ev]) i = issued_by s0 i ev (held_session s0 evs i)"
  by (simp add: held_session_def)

lemma Authorize_state: "snd (Authorize sid perm t s) = snd (auth_Authenticate sid t s)"
  by (simp add: Authorize_def split: prod.splits option.splits)

text \<open>The configuration never changes.\<close>

lemma auth_run_config:
  "auth_run s0 evs s \<Longrightarrow> svc_username s = svc_username s0 \<and> svc_password s = svc_password s0 \<and>
     svc_ttl s = svc_ttl s0 \<and> svc_permissions s = svc_permissions s0"
proof (induction rule: auth_run.induct)
  case (step evs s ev s')
  from step.hyps(2) show ?case
    by (rule auth_stepE)
      (use step.IH in \<open>auto simp: Login_def IssueSession_def Let_def auth_Authenticate_def Authorize_state
         Logout_def split: option.splits if_splits\<close>)
qed simp

text \<open>
  The map agrees with what is promised, except for sessions that expired before \<open>T\<close> and were
  removed when they were presented.
\<close>

definition tracks :: "auth_service \<Rightarrow> auth_event list \<Rightarrow> int \<Rightarrow> auth_service \<Rightarrow> bool" where
  "tracks s0 evs T s \<longleftrightarrow> (\<forall>i. svc_sessions s i = held_session s0 evs i \<or>
     svc_sessions s i = None \<and> (\<exists>ses. held_session s0 evs i = Some ses \<and> ses_expires ses < T))"

lemma tracks_Authenticate:
  assumes "tracks s0 evs T s" "t \<le> T"
  shows "tracks s0 evs T (snd (auth_Authenticate i t s))"
proof -
  have *: "svc_sessions s j = held_session s0 evs j \<or>
     svc_sessions s j = None \<and> (\<exists>ses. held_session s0 evs j = Some ses \<and> ses_expires ses < T)" for j
    using assms(1) by (simp add: tracks_def)
  show ?thesis
  proof (cases "svc_sessions s i")
    case None
    then show ?thesis using assms(1) by (simp add: auth_Authenticate_def)
  next
    case (Some ses)
    then have "held_session s0 evs i = Some ses" using * [of i] by simp
    then show ?thesis
      using Some assms(2) * by (auto simp: tracks_def auth_Authenticate_def)
  qed
qed

lemma auth_run_tracks:
  "auth_run s0 evs s \<Longrightarrow> svc_sessions s0 = Map.empty \<Longrightarrow> timed_by T evs \<Longrightarrow> tracks s0 evs T s"
proof (induction rule: auth_run.induct)
  case start
  then show ?case by (simp add: tracks_def held_session_def)
next
  case (step evs s ev s')
  have IH: "tracks s0 evs T s" using step.IH step.prems by (simp add: timed_by_def)
  note config = auth_run_config [OF step.hyps(1)]
  from step.hyps(2) show ?case
  proof (rule auth_stepE)
    fix u p sid t assume "ev = EvLogin u p sid t" "s' = snd (Login u p sid t s)"
    then show ?thesis
      using IH config by (auto simp: tracks_def held_session_snoc Login_def IssueSession_def Let_def)
  next
    fix u perms sid t assume "ev = EvIssue u perms sid t" "s' = snd (IssueSession u perms sid t s)"
    then show ?thesis
      using IH config by (auto simp: tracks_def held_session_snoc IssueSession_def Let_def)
  next
    fix sid t assume ev: "ev = EvAuthenticate sid t" "s' = snd (auth_Authenticate sid t s)"
    then have "t \<le> T" using step.prems(2) by (simp add: timed_by_def)
    from tracks_Authenticate [OF IH this, of sid] show ?thesis
      using ev by (simp add: tracks_def held_session_snoc)
  next
    fix sid perm t assume ev: "ev = EvAuthorize sid perm t" "s' = snd (Authorize sid perm t s)"
    then have "t \<le> T" using step.prems(2) by (simp add: timed_by_def)
    from tracks_Authenticate [OF IH this, of sid] show ?thesis
      using ev by (simp add: tracks_def held_session_snoc Authorize_state)
  next
    fix sid assume "ev = EvLogout sid" "s' = Logout sid s"
    then show ?thesis
      using IH by (auto simp: tracks_def held_session_snoc Logout_def)
  qed
qed

text \<open>
  Refinement: after any sequence of calls on a new service, a session authenticates exactly
  when it was issued, was not logged out, and has not expired.
\<close>

lemma auth_run_authenticates:
  assumes "auth_run s0 evs s" "svc_sessions s0 = Map.empty" "timed_by t evs"
  shows "fst (auth_Authenticate i t s) =
    (case held_session s0 evs i of None \<Rightarrow> None | Some ses \<Rightarrow> if t \<le> ses_expires ses then Some ses else None)"
proof -
  have "svc_sessions s i = held_session s0 evs i \<or>
     svc_sessions s i = None \<and> (\<exists>ses. held_session s0 evs i = Some ses \<and> ses_expires ses < t)"
    using auth_run_tracks [OF assms] by (simp add: tracks_def)
  then show ?thesis
    by (cases "svc_sessions s i"; cases "held_session s0 evs i") (auto simp: auth_Authenticate_def)
qed

text \<open>A session is stored under its own identifier.\<close>

lemma auth_run_ids:
  "auth_run s0 evs s \<Longrightarrow> svc_sessions s0 = Map.empty \<Longrightarrow> svc_sessions s i = Some ses \<Longrightarrow> ses_id ses = i"
proof (induction arbitrary: i ses rule: auth_run.induct)
  case (step evs s ev s')
  from step.hyps(2) show ?case
    by (rule auth_stepE)
      (use step in \<open>auto simp: Login_def IssueSession_def Let_def auth_Authenticate_def Authorize_state
         Logout_def split: option.splits if_splits\<close>)
qed simp

section \<open>Properties\<close>

text \<open>
  C13: Sessions refine their specification: after any sequence of logins, session issues,
  authentications, authorisations and logouts on a new service, with a clock that does not go
  back, presenting an identifier yields the session last issued under it, unless it was logged
  out since or has expired, and nothing otherwise.
\<close>

theorem sessions_refine:
  assumes "auth_run (NewServiceWithPermissions u p ttl perms) evs s" "timed_by t evs"
  shows "fst (auth_Authenticate i t s) =
    (case held_session (NewServiceWithPermissions u p ttl perms) evs i of
       None \<Rightarrow> None | Some ses \<Rightarrow> if t \<le> ses_expires ses then Some ses else None)"
  by (rule auth_run_authenticates [OF assms(1) _ assms(2)]) (simp add: NewServiceWithPermissions_def)

lemma auth_run_login:
  "auth_run s0 [EvLogin u p sid t] (snd (Login u p sid t s0))"
  using auth_run.step [OF auth_run.start auth_step.login, of s0] by simp

theorem sessions_refine_witness:
  "\<exists>s ses. auth_run (NewServiceWithPermissions ''admin'' ''pw'' 60 [PermissionAdminRead]) [EvLogin ''admin'' ''pw'' ''1'' 100] s \<and>
     fst (auth_Authenticate ''1'' 160 s) = Some ses \<and> fst (auth_Authenticate ''1'' 161 s) = None"
proof -
  let ?s0 = "NewServiceWithPermissions ''admin'' ''pw'' 60 [PermissionAdminRead]"
  note run = auth_run_login [of ?s0 "''admin''" "''pw''" "''1''" 100]
  have "timed_by 160 [EvLogin ''admin'' ''pw'' ''1'' 100]" "timed_by 161 [EvLogin ''admin'' ''pw'' ''1'' 100]"
    by (simp_all add: timed_by_def)
  from sessions_refine [OF run this(1), of "''1''"] sessions_refine [OF run this(2), of "''1''"] run
  show ?thesis by (auto simp: held_session_def NewServiceWithPermissions_def)
qed

text \<open>
  Authorisation lets through exactly the stored, unexpired sessions that carry the
  permission asked for, and removes an expired session it is shown.
\<close>

theorem Authorize_exact:
  "(fst (Authorize sid perm t s) = Some ses \<longleftrightarrow>
     svc_sessions s sid = Some ses \<and> t \<le> ses_expires ses \<and> perm \<in> set (ses_permissions ses)) \<and>
   svc_sessions (snd (Authorize sid perm t s)) = (svc_sessions s)(sid :=
     (case svc_sessions s sid of None \<Rightarrow> None | Some ses \<Rightarrow> if t \<le> ses_expires ses then Some ses else None))"
  by (auto simp: Authorize_def auth_Authenticate_def HasPermission_iff fun_eq_iff split: option.splits)

end
