(* ===== verification/Database.thy ===== *)
theory Database
  imports Prelude Sessions
begin

text \<open>
  The PostgreSQL schema of \<open>server/migrations\<close> as lists of rows, and the world a store
  operation acts on: the tables, the clock, the identifier and random sources, the possible
  failure of each SQL statement, the open transaction the MQTT messages sent and the objects of the
  artifact store. The
  primitives \<open>query\<close>, \<open>exec\<close>, \<open>with_tx\<close> and \<open>commit\<close> are how the stores reach the tables.
  Identifiers are canonical UUID text; a malformed one makes PostgreSQL reject the
  statement, which is one of the failures \<open>sql_fault\<close> allows.
\<close>

section \<open>JSON values\<close>

text \<open>
  What \<open>encoding/json\<close> decodes into \<open>any\<close>; a number is the text \<open>json.Marshal\<close> renders it as.
  An \<open>obj\<close> is a \<open>map[string]any\<close>, its entries without repeated keys.
\<close>

datatype json = JNull | JBool bool | JNum string | JStr string
  | JArr "json list" | JObj "(string \<times> json) list"

type_synonym obj = "(string \<times> json) list"

section \<open>Rows\<close>

text \<open>
  \<open>RecordBase\<close>, which the packages embed in their structs, with times in microseconds (the
  precision of \<open>timestamptz\<close>). The rows of a table extend it with the table's columns.
\<close>

record record_base =
  rec_id :: string
  rec_tenant :: string
  rec_status :: string
  created_at :: int
  updated_at :: int
  deleted_at :: "int option"

record role_row = record_base +
  role_name :: string
  role_permissions :: "string list"

record user_row = record_base +
  user_email :: string
  user_password_hash :: string
  user_role_id :: string

record group_row = record_base +
  group_name :: string

record policy_row = record_base +
  pol_name :: string
  pol_version :: int
  pol_kiosk_mode :: bool
  pol_kiosk_app :: string
  pol_restrictions :: json

record device_row = record_base +
  dev_name :: string
  dev_secret_hash :: string
  dev_policy_id :: "string option"
  dev_extras :: "obj option"

record membership =
  dg_tenant :: string
  dg_device :: string
  dg_group :: string

record app_row = record_base +
  app_package :: string
  app_name :: string
  app_system_owned :: bool

record version_row =
  ver_id :: string
  ver_tenant :: string
  ver_app :: string
  ver_status :: string
  ver_name :: string
  ver_code :: int
  ver_artifact :: "string option"
  ver_checksum :: string
  ver_published :: "int option"
  ver_created :: int

record artifact_row = record_base +
  art_storage_key :: string
  art_checksum :: string
  art_size :: int
  art_mime :: string

record file_row = record_base +
  file_name :: string
  file_artifact_id :: string
  file_checksum :: string
  file_mime :: string

record cert_row = record_base +
  cert_name :: string
  cert_artifact_id :: string
  cert_checksum :: string

record mfile_row = record_base +
  mf_file_id :: string
  mf_path :: string
  mf_replace :: bool

record binding_row = record_base +
  bind_policy :: string
  bind_item :: string

record token_row =
  tok_id :: string
  tok_tenant :: string
  tok_hash :: string
  tok_status :: string
  tok_expires :: int
  tok_consumed :: "int option"
  tok_revoked :: "int option"
  tok_created :: int
  tok_updated :: int

record command_row =
  cmd_id :: string
  cmd_tenant :: string
  cmd_device :: string
  cmd_type :: string
  cmd_payload :: obj
  cmd_status :: string
  cmd_expires :: "int option"
  cmd_acked :: "int option"
  cmd_result :: obj
  cmd_created :: int
  cmd_updated :: int

record log_row =
  log_id :: string
  log_tenant :: string
  log_device :: string
  log_observed :: int
  log_source :: string
  log_level :: string
  log_message :: string
  log_payload :: obj
  log_created :: int

text \<open>A row of \<open>device_info\<close> or of \<open>device_telemetry\<close>.\<close>

record info_row =
  info_id :: string
  info_tenant :: string
  info_device :: string
  info_observed :: int
  info_payload :: obj
  info_created :: int

record audit_row =
  evt_id :: string
  evt_tenant :: string
  evt_actor :: string
  evt_action :: string
  evt_resource_type :: string
  evt_resource_id :: string
  evt_details :: obj
  evt_created :: int

record database =
  tenants :: "string list"
  roles :: "role_row list"
  users :: "user_row list"
  groups :: "group_row list"
  policies :: "policy_row list"
  devices :: "device_row list"
  device_groups :: "membership list"
  enrollment_tokens :: "token_row list"
  device_telemetry :: "info_row list"
  apps :: "app_row list"
  app_versions :: "version_row list"
  artifacts :: "artifact_row list"
  files :: "file_row list"
  certificates :: "cert_row list"
  managed_files :: "mfile_row list"
  commands :: "command_row list"
  device_logs :: "log_row list"
  device_info :: "info_row list"
  policy_apps :: "binding_row list"
  policy_certificates :: "binding_row list"
  policy_managed_files :: "binding_row list"
  audit_events :: "audit_row list"

section \<open>The world\<close>

text \<open>
  \<open>CommandMessage\<close> of \<open>push/push.go\<close>, and the calls a store makes on the MQTT dynamic
  security provisioner.
\<close>

record command_message =
  msg_type :: string
  msg_command_id :: string
  msg_tenant :: string
  msg_device :: string
  msg_payload :: obj
  msg_created :: int

datatype prov_call = ProvUpsert string string | ProvDisable string

text \<open>
  The environment is read, never written: the successive readings of \<open>s.now()\<close> and of
  PostgreSQL's \<open>now()\<close>, the UUIDs (those PostgreSQL generates included) and random secrets handed out, which statements fail,
  SHA-256, the canonical text of a string that \<open>uuid.Parse\<close> accepts, PostgreSQL's rendering of
  a \<open>jsonb\<close> value as text, whether a publisher (and the outcome of each publish) and a provisioner are
  configured, which calls of the object store succeed, and bcrypt: the hashes it generates and
  the passwords it accepts for a hash. \<open>float_text\<close> is the text of a number that has been decoded
  into a \<open>float64\<close>, \<open>map_order\<close> and \<open>obj_order\<close> the order of each iteration over a map.
\<close>

record env =
  clock_src :: "nat \<Rightarrow> int"
  pg_clock :: "nat \<Rightarrow> int"
  uuid_src :: "nat \<Rightarrow> string"
  rand_src :: "nat \<Rightarrow> string option"
  sql_fault :: "nat \<Rightarrow> bool"
  sha256 :: "string \<Rightarrow> string"
  uuid_parse :: "string \<Rightarrow> string option"
  jsonb_text :: "obj \<Rightarrow> string"
  has_publisher :: bool
  publish_ok :: "nat \<Rightarrow> bool"
  has_provisioner :: bool
  object_ok :: "nat \<Rightarrow> bool"
  bcrypt_gen :: "nat \<Rightarrow> string \<Rightarrow> string option"
  bcrypt_match :: "string \<Rightarrow> string \<Rightarrow> bool"
  float_text :: "string \<Rightarrow> string"
  map_order :: "nat \<Rightarrow> (string \<times> string) list \<Rightarrow> (string \<times> string) list"
  obj_order :: "nat \<Rightarrow> obj \<Rightarrow> obj"

record world =
  env :: env
  db :: database
  txn :: "(database \<times> int) option"
  ticks :: nat
  uuid_no :: nat
  rand_no :: nat
  stmts :: nat
  pub_no :: nat
  outbox :: "command_message list"
  prov_log :: "prov_call list"
  objects :: "(string \<times> string) list"
  object_no :: nat
  map_no :: nat
  auth :: auth_service

type_synonym 'a action = "(world, 'a) act"

definition now :: "int action" where
  "now = (\<lambda>w. (Inr (clock_src (env w) (ticks w)), w\<lparr>ticks := Suc (ticks w)\<rparr>))"

definition NewString :: "string action" where
  "NewString = (\<lambda>w. (Inr (uuid_src (env w) (uuid_no w)), w\<lparr>uuid_no := Suc (uuid_no w)\<rparr>))"

definition asks :: "(env \<Rightarrow> 'a) \<Rightarrow> 'a action" where
  "asks f = (\<lambda>w. (Inr (f (env w)), w))"

section \<open>SQL statements\<close>

text \<open>
  A statement sees the transaction's \<open>now()\<close> and the tables; it is rejected with an error
  or yields its result and the new tables. An injected failure happens before any effect.
\<close>

type_synonym 'a stmt = "int \<Rightarrow> database \<Rightarrow> goerr + ('a \<times> database)"

definition pg_now :: "world \<Rightarrow> int" where
  "pg_now w = (case txn w of Some (_, t) \<Rightarrow> t | None \<Rightarrow> pg_clock (env w) (stmts w))"

definition tick_stmt :: "world \<Rightarrow> world" where
  "tick_stmt w = w\<lparr>stmts := Suc (stmts w)\<rparr>"

definition faulty :: "world \<Rightarrow> bool" where
  "faulty w = sql_fault (env w) (stmts w)"

definition exec :: "'a stmt \<Rightarrow> 'a action" where
  "exec s = (\<lambda>w.
     if faulty w then (Inl PgFault, tick_stmt w)
     else case s (pg_now w) (db w) of
         Inl e \<Rightarrow> (Inl e, tick_stmt w)
       | Inr (x, d) \<Rightarrow> (Inr x, tick_stmt w\<lparr>db := d\<rparr>))"

definition query :: "(database \<Rightarrow> 'a) \<Rightarrow> 'a action" where
  "query f = (\<lambda>w. if faulty w then (Inl PgFault, tick_stmt w) else (Inr (f (db w)), tick_stmt w))"

text \<open>\<open>QueryRow(...).Scan\<close>: the first row, or \<open>pgx.ErrNoRows\<close>.\<close>

definition scan_first :: "'a list \<Rightarrow> 'a action" where
  "scan_first rs = (case rs of [] \<Rightarrow> throwE ErrNoRows | r # _ \<Rightarrow> returnE r)"

definition query_row :: "(database \<Rightarrow> 'a list) \<Rightarrow> 'a action" where
  "query_row f = bindE (query f) scan_first"

definition exec_row :: "'a list stmt \<Rightarrow> 'a action" where
  "exec_row s = bindE (exec s) scan_first"

text \<open>
  \<open>BeginTx\<close> with its \<open>defer tx.Rollback\<close>: whatever has not been committed when the function
  returns is undone. \<open>commit\<close> ends the transaction; a failed one leaves it to the rollback.
\<close>

definition rollback :: "world \<Rightarrow> world" where
  "rollback w = (case txn w of None \<Rightarrow> w | Some (d, _) \<Rightarrow> w\<lparr>db := d, txn := None\<rparr>)"

definition with_tx :: "'a action \<Rightarrow> 'a action" where
  "with_tx m = (\<lambda>w.
     if faulty w then (Inl PgFault, tick_stmt w)
     else case m (tick_stmt w\<lparr>txn := Some (db w, pg_clock (env w) (stmts w))\<rparr>) of
         (r, w') \<Rightarrow> (r, rollback w'))"

definition commit :: "unit action" where
  "commit = (\<lambda>w. if faulty w then (Inl PgFault, tick_stmt w) else (Inr (), tick_stmt w\<lparr>txn := None\<rparr>))"

text \<open>
  \<open>INSERT\<close>: a violated unique constraint is reported before a violated foreign key, which
  PostgreSQL checks at the end of the statement.
\<close>

definition insert_into :: "bool \<Rightarrow> bool \<Rightarrow> 'a \<Rightarrow> database \<Rightarrow> goerr + ('a \<times> database)" where
  "insert_into uniq refs x d =
     (if \<not> uniq then Inl PgUnique else if \<not> refs then Inl PgForeignKey else Inr (x, d))"

section \<open>Weakest preconditions of the primitives\<close>

lemma post_now [wp]:
  "post now w Q E = Q (clock_src (env w) (ticks w)) (w\<lparr>ticks := Suc (ticks w)\<rparr>)"
  by (simp add: now_def post_def)

lemma post_NewString [wp]:
  "post NewString w Q E = Q (uuid_src (env w) (uuid_no w)) (w\<lparr>uuid_no := Suc (uuid_no w)\<rparr>)"
  by (simp add: NewString_def post_def)

lemma post_asks [wp]: "post (asks f) w Q E = Q (f (env w)) w"
  by (simp add: asks_def post_def)

lemma post_exec [wp]:
  "post (exec s) w Q E =
     (if faulty w then E PgFault (tick_stmt w)
      else case s (pg_now w) (db w) of
          Inl e \<Rightarrow> E e (tick_stmt w)
        | Inr (x, d) \<Rightarrow> Q x (tick_stmt w\<lparr>db := d\<rparr>))"
  by (auto simp: exec_def post_def split: sum.splits)

lemma post_query [wp]:
  "post (query f) w Q E = (if faulty w then E PgFault (tick_stmt w) else Q (f (db w)) (tick_stmt w))"
  by (simp add: query_def post_def)

lemma post_scan_first [wp]:
  "post (scan_first rs) w Q E = (case rs of [] \<Rightarrow> E ErrNoRows w | r # _ \<Rightarrow> Q r w)"
  by (simp add: scan_first_def wp split: list.splits)

lemma post_query_row [wp]:
  "post (query_row f) w Q E =
     (if faulty w then E PgFault (tick_stmt w)
      else case f (db w) of [] \<Rightarrow> E ErrNoRows (tick_stmt w) | r # _ \<Rightarrow> Q r (tick_stmt w))"
  by (simp add: query_row_def wp)

lemma post_exec_row [wp]:
  "post (exec_row s) w Q E =
     (if faulty w then E PgFault (tick_stmt w)
      else case s (pg_now w) (db w) of
          Inl e \<Rightarrow> E e (tick_stmt w)
        | Inr (rs, d) \<Rightarrow>
            (case rs of [] \<Rightarrow> E ErrNoRows (tick_stmt w\<lparr>db := d\<rparr>)
             | r # _ \<Rightarrow> Q r (tick_stmt w\<lparr>db := d\<rparr>)))"
  by (simp add: exec_row_def wp split: sum.splits)

lemma post_commit [wp]:
  "post commit w Q E = (if faulty w then E PgFault (tick_stmt w) else Q () (tick_stmt w\<lparr>txn := None\<rparr>))"
  by (simp add: commit_def post_def)

lemma post_with_tx [wp]:
  "post (with_tx m) w Q E =
     (if faulty w then E PgFault (tick_stmt w)
      else post m (tick_stmt w\<lparr>txn := Some (db w, pg_clock (env w) (stmts w))\<rparr>)
             (\<lambda>x w'. Q x (rollback w')) (\<lambda>e w'. E e (rollback w')))"
  by (auto simp: with_tx_def post_def split: prod.splits sum.splits)

text \<open>How the world's fields change under the primitives.\<close>

lemma tick_stmt_simps [simp]:
  "db (tick_stmt w) = db w" "txn (tick_stmt w) = txn w" "env (tick_stmt w) = env w"
  "ticks (tick_stmt w) = ticks w" "uuid_no (tick_stmt w) = uuid_no w"
  "rand_no (tick_stmt w) = rand_no w" "pub_no (tick_stmt w) = pub_no w" "outbox (tick_stmt w) = outbox w"
  "prov_log (tick_stmt w) = prov_log w" "objects (tick_stmt w) = objects w"
  "object_no (tick_stmt w) = object_no w" "map_no (tick_stmt w) = map_no w" "auth (tick_stmt w) = auth w" "stmts (tick_stmt w) = Suc (stmts w)"
  by (simp_all add: tick_stmt_def)

lemma rollback_simps [simp]:
  "txn (rollback w) = None" "env (rollback w) = env w"
  "outbox (rollback w) = outbox w" "prov_log (rollback w) = prov_log w"
  "objects (rollback w) = objects w" "object_no (rollback w) = object_no w" "map_no (rollback w) = map_no w"
  "auth (rollback w) = auth w"
  by (auto simp: rollback_def split: option.splits)

lemma db_rollback: "db (rollback w) = (case txn w of None \<Rightarrow> db w | Some (d, _) \<Rightarrow> d)"
  by (auto simp: rollback_def split: option.splits)

lemma db_rollback_open: "txn w = Some (d, t) \<Longrightarrow> db (rollback w) = d"
  by (simp add: db_rollback)

text \<open>A world in which no statement fails.\<close>

definition no_faults :: "world \<Rightarrow> bool" where
  "no_faults w \<longleftrightarrow> (\<forall>n. \<not> sql_fault (env w) n)"

lemma no_faultsD [simp]: "no_faults w \<Longrightarrow> \<not> sql_fault (env w) n"
  by (simp add: no_faults_def)

lemma not_faulty [simp]: "no_faults w \<Longrightarrow> env w' = env w \<Longrightarrow> \<not> faulty w'"
  by (simp add: faulty_def)

section \<open>Invariants of the tables\<close>

text \<open>
  \<open>holds P w\<close>: the tables satisfy \<open>P\<close>, and so do those an open transaction would return to.
  \<open>keeps P m\<close>: the action \<open>m\<close> preserves that, whichever statements fail and wherever it
  returns. It follows from the same fact about each SQL statement of \<open>m\<close>.
\<close>

definition holds :: "(database \<Rightarrow> bool) \<Rightarrow> world \<Rightarrow> bool" where
  "holds P w \<longleftrightarrow> P (db w) \<and> (\<forall>d t. txn w = Some (d, t) \<longrightarrow> P d)"

definition keeps :: "(database \<Rightarrow> bool) \<Rightarrow> 'a action \<Rightarrow> bool" where
  "keeps P m \<longleftrightarrow> (\<forall>w. holds P w \<longrightarrow> post m w (\<lambda>_. holds P) (\<lambda>_. holds P))"

definition stmt_keeps :: "(database \<Rightarrow> bool) \<Rightarrow> 'a stmt \<Rightarrow> bool" where
  "stmt_keeps P s \<longleftrightarrow> (\<forall>t d x d'. P d \<longrightarrow> s t d = Inr (x, d') \<longrightarrow> P d')"

lemma keepsD: "keeps P m \<Longrightarrow> holds P w \<Longrightarrow> holds P (snd (m w))"
  by (simp add: keeps_def post_snd)

lemma holds_tick [simp]: "holds P (tick_stmt w) = holds P w"
  by (simp add: holds_def)

lemma holds_ticks [simp]: "holds P (w\<lparr>ticks := n\<rparr>) = holds P w"
  by (simp add: holds_def)

lemma holds_uuid_no [simp]: "holds P (w\<lparr>uuid_no := n\<rparr>) = holds P w"
  by (simp add: holds_def)

lemma keeps_returnE [keeps_intros]: "keeps P (returnE x)"
  by (simp add: keeps_def wp)

lemma keeps_throwE [keeps_intros]: "keeps P (throwE e)"
  by (simp add: keeps_def wp)

lemma keeps_bindE [keeps_intros]:
  "keeps P m \<Longrightarrow> (\<And>x. keeps P (f x)) \<Longrightarrow> keeps P (bindE m f)"
  unfolding keeps_def post_bindE by (blast intro: post_mono)

lemma keeps_handleE [keeps_intros]:
  "keeps P m \<Longrightarrow> (\<And>e. keeps P (h e)) \<Longrightarrow> keeps P (handleE m h)"
  unfolding keeps_def post_handleE by (blast intro: post_mono)

lemma keeps_elseE [keeps_intros]:
  "keeps P m \<Longrightarrow> (\<And>e. keeps P (h e)) \<Longrightarrow> (\<And>x. keeps P (f x)) \<Longrightarrow> keeps P (elseE m h f)"
  unfolding keeps_def post_elseE by (blast intro: post_mono)

lemma keeps_no_rows_as [keeps_intros]: "keeps P m \<Longrightarrow> keeps P (no_rows_as e m)"
  by (simp add: keeps_def wp)

lemma keeps_if [keeps_intros]:
  "(b \<Longrightarrow> keeps P m) \<Longrightarrow> (\<not> b \<Longrightarrow> keeps P n) \<Longrightarrow> keeps P (if b then m else n)"
  by simp

lemma keeps_mapE [keeps_intros]: "(\<And>x. keeps P (f x)) \<Longrightarrow> keeps P (mapE f xs)"
  unfolding keeps_def by (blast intro: post_mapE)

lemma keeps_now [keeps_intros]: "keeps P now"
  by (simp add: keeps_def wp)

lemma keeps_NewString [keeps_intros]: "keeps P NewString"
  by (simp add: keeps_def wp)

lemma keeps_asks [keeps_intros]: "keeps P (asks f)"
  by (simp add: keeps_def wp)

lemma keeps_query [keeps_intros]: "keeps P (query f)"
  by (simp add: keeps_def wp)

lemma keeps_scan_first [keeps_intros]: "keeps P (scan_first rs)"
  by (simp add: keeps_def wp split: list.splits)

lemma keeps_query_row [keeps_intros]: "keeps P (query_row f)"
  unfolding query_row_def by (intro keeps_intros)

lemma keeps_exec [keeps_intros]: "stmt_keeps P s \<Longrightarrow> keeps P (exec s)"
  by (auto simp: keeps_def wp stmt_keeps_def holds_def split: sum.splits prod.splits)

lemma keeps_exec_row [keeps_intros]: "stmt_keeps P s \<Longrightarrow> keeps P (exec_row s)"
  unfolding exec_row_def by (intro keeps_intros)

lemma keeps_commit [keeps_intros]: "keeps P commit"
  by (simp add: keeps_def wp holds_def)

lemma holds_rollback: "holds P w \<Longrightarrow> holds P (rollback w)"
  by (auto simp: holds_def db_rollback split: option.splits)

lemma keeps_with_tx [keeps_intros]:
  assumes "keeps P m"
  shows "keeps P (with_tx m)"
  unfolding keeps_def
proof (intro allI impI)
  fix w assume w: "holds P w"
  let ?w = "tick_stmt w\<lparr>txn := Some (db w, pg_clock (env w) (stmts w))\<rparr>"
  have "holds P ?w" using w by (simp add: holds_def)
  with assms have "post m ?w (\<lambda>_. holds P) (\<lambda>_. holds P)" by (simp add: keeps_def)
  then have "post m ?w (\<lambda>_ w'. holds P (rollback w')) (\<lambda>_ w'. holds P (rollback w'))"
    by (rule post_mono) (rule holds_rollback, assumption)+
  with w show "post (with_tx m) w (\<lambda>_. holds P) (\<lambda>_. holds P)" by (simp add: post_with_tx)
qed

text \<open>An action that ends with no transaction open when it starts with none.\<close>

definition idles :: "'a action \<Rightarrow> bool" where
  "idles m \<longleftrightarrow> (\<forall>w. txn w = None \<longrightarrow> post m w (\<lambda>_ w'. txn w' = None) (\<lambda>_ w'. txn w' = None))"

lemma idlesD: "idles m \<Longrightarrow> txn w = None \<Longrightarrow> txn (snd (m w)) = None"
  by (simp add: idles_def post_snd)

lemma idles_with_tx [keeps_intros]: "idles (with_tx m)"
  by (auto simp: idles_def with_tx_def post_def split: prod.splits sum.splits)

lemma idles_returnE [keeps_intros]: "idles (returnE x)"
  by (simp add: idles_def wp)

lemma idles_throwE [keeps_intros]: "idles (throwE e)"
  by (simp add: idles_def wp)

lemma idles_bindE [keeps_intros]: "idles m \<Longrightarrow> (\<And>x. idles (f x)) \<Longrightarrow> idles (bindE m f)"
  unfolding idles_def post_bindE by (blast intro: post_mono)

lemma idles_handleE [keeps_intros]: "idles m \<Longrightarrow> (\<And>e. idles (h e)) \<Longrightarrow> idles (handleE m h)"
  unfolding idles_def post_handleE by (blast intro: post_mono)

lemma idles_elseE [keeps_intros]:
  "idles m \<Longrightarrow> (\<And>e. idles (h e)) \<Longrightarrow> (\<And>x. idles (f x)) \<Longrightarrow> idles (elseE m h f)"
  unfolding idles_def post_elseE by (blast intro: post_mono)

lemma idles_no_rows_as [keeps_intros]: "idles m \<Longrightarrow> idles (no_rows_as e m)"
  by (simp add: idles_def wp)

lemma idles_if [keeps_intros]: "idles m \<Longrightarrow> idles n \<Longrightarrow> idles (if b then m else n)"
  by simp

lemma idles_mapE [keeps_intros]: "(\<And>x. idles (f x)) \<Longrightarrow> idles (mapE f xs)"
  unfolding idles_def by (blast intro: post_mapE)

lemma idles_now [keeps_intros]: "idles now"
  by (simp add: idles_def wp)

lemma idles_NewString [keeps_intros]: "idles NewString"
  by (simp add: idles_def wp)

lemma idles_asks [keeps_intros]: "idles (asks f)"
  by (simp add: idles_def wp)

lemma idles_query [keeps_intros]: "idles (query f)"
  by (simp add: idles_def wp)

lemma idles_scan_first [keeps_intros]: "idles (scan_first rs)"
  by (simp add: idles_def wp split: list.splits)

lemma idles_query_row [keeps_intros]: "idles (query_row f)"
  unfolding query_row_def by (intro keeps_intros)

lemma idles_exec [keeps_intros]: "idles (exec s)"
  by (auto simp: idles_def wp split: sum.splits)

lemma idles_exec_row [keeps_intros]: "idles (exec_row s)"
  unfolding exec_row_def by (intro keeps_intros)

section \<open>Reading tables\<close>

text \<open>\<open>ORDER BY created_at, id\<close> and \<open>ORDER BY created_at DESC, id DESC\<close>.\<close>

definition oldest_first :: "'a record_base_scheme list \<Rightarrow> 'a record_base_scheme list" where
  "oldest_first rs = sort_key (\<lambda>r. (created_at r, rec_id r)) rs"

definition newest_first :: "'a record_base_scheme list \<Rightarrow> 'a record_base_scheme list" where
  "newest_first rs = rev (oldest_first rs)"

lemma set_oldest_first [simp]: "set (oldest_first rs) = set rs"
  by (simp add: oldest_first_def)

lemma set_newest_first [simp]: "set (newest_first rs) = set rs"
  by (simp add: newest_first_def)

text \<open>\<open>WHERE tenant_id = $1 AND id = $2\<close>, and the soft delete the stores share.\<close>

definition by_id :: "string \<Rightarrow> string \<Rightarrow> 'a record_base_scheme \<Rightarrow> bool" where
  "by_id tn i r \<longleftrightarrow> rec_tenant r = tn \<and> rec_id r = i"

definition in_tenant :: "string \<Rightarrow> 'a record_base_scheme \<Rightarrow> bool" where
  "in_tenant tn r \<longleftrightarrow> rec_tenant r = tn"

definition retire_row :: "int \<Rightarrow> 'a record_base_scheme \<Rightarrow> 'a record_base_scheme" where
  "retire_row t r = r\<lparr>rec_status := ''retired'', deleted_at := Some t, updated_at := t\<rparr>"

lemma retire_row_simps [simp]:
  "rec_id (retire_row t r) = rec_id r" "rec_tenant (retire_row t r) = rec_tenant r"
  "rec_status (retire_row t r) = ''retired''" "deleted_at (retire_row t r) = Some t"
  "updated_at (retire_row t r) = t" "created_at (retire_row t r) = created_at r"
  by (simp_all add: retire_row_def)

lemma by_id_retire_row [simp]: "by_id tn i (retire_row t r) = by_id tn i r"
  by (simp add: by_id_def)

end
