(* ===== verification/Tokens.thy ===== *)
theory Tokens
  imports Database
begin

text \<open>
  \<open>enrollment/token.go\<close> and \<open>checksum/checksum.go\<close>: secrets are 32 random bytes in unpadded
  URL-safe base64, and what is stored is the base64 of their SHA-256. The encoding is
  concrete (\<open>base64.RawURLEncoding\<close>), SHA-256 is a parameter.
\<close>

section \<open>base64.RawURLEncoding\<close>

definition base64_alphabet :: string where
  "base64_alphabet =
     ''ABCDEFGHIJKLMNOPQRSTUVWXYZabcdefghijklmnopqrstuvwxyz0123456789-_''"

definition enc_char :: "nat \<Rightarrow> char" where
  "enc_char n = base64_alphabet ! n"

definition dec_char :: "char \<Rightarrow> nat option" where
  "dec_char c = map_option fst (List.find (\<lambda>(i, x). x = c) (enumerate 0 base64_alphabet))"

text \<open>Bytes are given by their values 0 to 255; three bytes become four characters.\<close>

fun encode_bytes :: "nat list \<Rightarrow> string" where
  "encode_bytes [] = []"
| "encode_bytes [a] = [enc_char (a div 4), enc_char (a mod 4 * 16)]"
| "encode_bytes [a, b] =
     [enc_char (a div 4), enc_char (a mod 4 * 16 + b div 16), enc_char (b mod 16 * 4)]"
| "encode_bytes (a # b # c # rest) =
     [enc_char (a div 4), enc_char (a mod 4 * 16 + b div 16),
      enc_char (b mod 16 * 4 + c div 64), enc_char (c mod 64)] @ encode_bytes rest"

definition EncodeToString :: "string \<Rightarrow> string" where
  "EncodeToString s = encode_bytes (map of_char s)"

text \<open>
  \<open>DecodeString\<close>: carriage returns and newlines are skipped, a lone final character is an
  error, and the unused low bits of the last character are ignored.
\<close>

fun decode_quads :: "nat list \<Rightarrow> nat list option" where
  "decode_quads [] = Some []"
| "decode_quads [p] = None"
| "decode_quads [p, q] = Some [(p * 4 + q div 16) mod 256]"
| "decode_quads [p, q, r] = Some [(p * 4 + q div 16) mod 256, (q * 16 + r div 4) mod 256]"
| "decode_quads (p # q # r # s # rest) =
     map_option (\<lambda>bs. (p * 4 + q div 16) mod 256 # (q * 16 + r div 4) mod 256
                      # (r * 64 + s) mod 256 # bs) (decode_quads rest)"

fun dec_chars :: "string \<Rightarrow> nat list option" where
  "dec_chars [] = Some []"
| "dec_chars (c # cs) =
     (if c = CHR 0x0A \<or> c = CHR 0x0D then dec_chars cs
      else case dec_char c of
          None \<Rightarrow> None
        | Some n \<Rightarrow> map_option (Cons n) (dec_chars cs))"

definition DecodeString :: "string \<Rightarrow> string option" where
  "DecodeString s =
     (case dec_chars s of
        None \<Rightarrow> None
      | Some ns \<Rightarrow> map_option (map char_of) (decode_quads ns))"

lemma length_base64_alphabet [simp]: "length base64_alphabet = 64"
  by (simp add: base64_alphabet_def)

lemma distinct_base64_alphabet: "distinct base64_alphabet"
  by (simp add: base64_alphabet_def)

lemma dec_enc_char: "n < 64 \<Longrightarrow> dec_char (enc_char n) = Some n"
proof -
  assume n: "n < 64"
  have "List.find (\<lambda>(i, x). x = enc_char n) (enumerate 0 base64_alphabet)
        = Some (n, enc_char n)"
    using n distinct_base64_alphabet
    by (auto simp: find_Some_iff enc_char_def nth_enumerate_eq nth_eq_iff_index_eq
        intro!: exI [of _ n])
  then show ?thesis by (simp add: dec_char_def)
qed

lemma enc_char_plain: "n < 64 \<Longrightarrow> enc_char n \<noteq> CHR 0x0A \<and> enc_char n \<noteq> CHR 0x0D"
proof -
  assume "n < 64"
  then have "enc_char n \<in> set base64_alphabet" by (simp add: enc_char_def)
  then show ?thesis by (auto simp: base64_alphabet_def)
qed

text \<open>The sextets of an encoding, and decoding them.\<close>

fun sextets :: "nat list \<Rightarrow> nat list" where
  "sextets [] = []"
| "sextets [a] = [a div 4, a mod 4 * 16]"
| "sextets [a, b] = [a div 4, a mod 4 * 16 + b div 16, b mod 16 * 4]"
| "sextets (a # b # c # rest) =
     [a div 4, a mod 4 * 16 + b div 16, b mod 16 * 4 + c div 64, c mod 64] @ sextets rest"

lemma encode_bytes_sextets: "encode_bytes bs = map enc_char (sextets bs)"
  by (induction bs rule: encode_bytes.induct) simp_all

lemma sextet_bounds:
  fixes a b c :: nat
  assumes "a < 256" "b < 256" "c < 256"
  shows "a div 4 < 64" "a mod 4 * 16 < 64" "a mod 4 * 16 + b div 16 < 64"
    "b mod 16 * 4 < 64" "b mod 16 * 4 + c div 64 < 64" "c mod 64 < 64"
  using assms by arith+

lemma sextets_bound: "list_all (\<lambda>b. b < 256) bs \<Longrightarrow> list_all (\<lambda>n. n < 64) (sextets bs)"
proof (induction bs rule: sextets.induct)
  case (4 a b c rest)
  then show ?case using sextet_bounds [of a b c] by simp
next
  case (3 a b)
  then show ?case using sextet_bounds [of a b 0] by simp
next
  case (2 a)
  then show ?case using sextet_bounds [of a 0 0] by simp
qed simp

lemma dec_chars_enc: "list_all (\<lambda>n. n < 64) ns \<Longrightarrow> dec_chars (map enc_char ns) = Some ns"
  by (induction ns) (simp_all add: dec_enc_char enc_char_plain)

lemma byte_sextet_arith:
  fixes a b c :: nat
  assumes "a < 256" "b < 256" "c < 256"
  shows "(a div 4 * 4 + (a mod 4 * 16 + b div 16) div 16) mod 256 = a"
    and "((a mod 4 * 16 + b div 16) * 16 + (b mod 16 * 4 + c div 64) div 4) mod 256 = b"
    and "((b mod 16 * 4 + c div 64) * 64 + c mod 64) mod 256 = c"
proof -
  have b: "b div 16 < 16" and c: "c div 64 < 4" using assms by (simp_all add: less_mult_imp_div_less)
  have 1: "(a mod 4 * 16 + b div 16) div 16 = a mod 4" using b by simp
  have 2: "(b mod 16 * 4 + c div 64) div 4 = b mod 16" using c by simp
  show "(a div 4 * 4 + (a mod 4 * 16 + b div 16) div 16) mod 256 = a"
    using assms by (simp add: 1)
  have "(a mod 4 * 16 + b div 16) * 16 + b mod 16 = a mod 4 * 256 + b"
    using div_mult_mod_eq [of b 16] by (simp add: add_mult_distrib)
  then show "((a mod 4 * 16 + b div 16) * 16 + (b mod 16 * 4 + c div 64) div 4) mod 256 = b"
    using assms by (simp add: 2)
  have "(b mod 16 * 4 + c div 64) * 64 + c mod 64 = b mod 16 * 256 + c"
    using div_mult_mod_eq [of c 64] by (simp add: add_mult_distrib)
  then show "((b mod 16 * 4 + c div 64) * 64 + c mod 64) mod 256 = c"
    using assms by simp
qed

lemma decode_quads_sextets:
  "list_all (\<lambda>b. b < 256) bs \<Longrightarrow> decode_quads (sextets bs) = Some bs"
proof (induction bs rule: sextets.induct)
  case (4 a b c rest)
  then show ?case using byte_sextet_arith [of a b c] by simp
next
  case (3 a b)
  then show ?case using byte_sextet_arith [of a b 0] by simp
next
  case (2 a)
  then show ?case using byte_sextet_arith(1) [of a 0 0] by simp
qed simp

lemma DecodeString_EncodeToString [simp]: "DecodeString (EncodeToString s) = Some s"
proof -
  let ?bs = "map of_char s :: nat list"
  have "list_all (\<lambda>b. b < 256) ?bs" by (simp add: list_all_iff)
  then show ?thesis
    by (simp add: DecodeString_def EncodeToString_def encode_bytes_sextets dec_chars_enc
        sextets_bound decode_quads_sextets comp_def)
qed

lemma EncodeToString_inject [simp]: "EncodeToString s = EncodeToString t \<longleftrightarrow> s = t"
  by (metis DecodeString_EncodeToString option.inject)

lemma EncodeToString_empty: "EncodeToString s = [] \<longleftrightarrow> s = []"
  using EncodeToString_inject [of s "[]"] by (simp add: EncodeToString_def)

section \<open>Hashes and secrets\<close>

definition SHA256Base64URL :: "(string \<Rightarrow> string) \<Rightarrow> string \<Rightarrow> string" where
  "SHA256Base64URL sha content = EncodeToString (sha content)"

definition HashToken :: "(string \<Rightarrow> string) \<Rightarrow> string \<Rightarrow> string" where
  "HashToken sha secret = EncodeToString (sha secret)"

definition NewTokenSecret :: "string action" where
  "NewTokenSecret = (\<lambda>w.
     case rand_src (env w) (rand_no w) of
       None \<Rightarrow> (Inl ErrRand, w\<lparr>rand_no := Suc (rand_no w)\<rparr>)
     | Some raw \<Rightarrow> (Inr (EncodeToString raw), w\<lparr>rand_no := Suc (rand_no w)\<rparr>))"

lemma post_NewTokenSecret [wp]:
  "post NewTokenSecret w Q E =
     (case rand_src (env w) (rand_no w) of
        None \<Rightarrow> E ErrRand (w\<lparr>rand_no := Suc (rand_no w)\<rparr>)
      | Some raw \<Rightarrow> Q (EncodeToString raw) (w\<lparr>rand_no := Suc (rand_no w)\<rparr>))"
  by (simp add: NewTokenSecret_def post_def split: option.splits)

lemma holds_rand_no [simp]: "holds P (w\<lparr>rand_no := n\<rparr>) = holds P w"
  by (simp add: holds_def)

lemma keeps_NewTokenSecret [keeps_intros]: "keeps P NewTokenSecret"
  by (simp add: keeps_def wp split: option.splits)

lemma idles_NewTokenSecret [keeps_intros]: "idles NewTokenSecret"
  by (simp add: idles_def wp split: option.splits)

text \<open>The text of a secret has no character that is trimmed.\<close>

lemma set_EncodeToString: "set (EncodeToString s) \<subseteq> set base64_alphabet"
proof -
  let ?bs = "map of_char s :: nat list"
  have "list_all (\<lambda>n. n < 64) (sextets ?bs)" by (rule sextets_bound) (simp add: list_all_iff)
  then have "enc_char n \<in> set base64_alphabet" if "n \<in> set (sextets ?bs)" for n
    using that by (simp add: list_all_iff enc_char_def)
  then show ?thesis by (auto simp: EncodeToString_def encode_bytes_sextets)
qed

lemma TrimSpace_EncodeToString [simp]: "TrimSpace (EncodeToString s) = EncodeToString s"
proof (rule TrimSpace_plain)
  have "\<forall>w \<in> set white_runes. \<not> set w \<subseteq> set base64_alphabet" by code_simp
  then show "\<forall>w \<in> set white_runes. \<not> set w \<subseteq> set (EncodeToString s)"
    using set_EncodeToString [of s] by blast
qed

section \<open>Properties\<close>

text \<open>
  The encoding of secrets and hashes is faithful: decoding gives back the bytes that were
  encoded, so different bytes have different texts; a text has four characters for every three
  bytes, rounded up, all from the URL-safe alphabet.
\<close>

theorem base64_roundtrip:
  "DecodeString (EncodeToString s) = Some s \<and>
   (EncodeToString s = EncodeToString t \<longleftrightarrow> s = t) \<and>
   length (EncodeToString s) = (4 * length s + 2) div 3 \<and>
   set (EncodeToString s) \<subseteq> set base64_alphabet"
proof -
  have len: "length (encode_bytes bs) = (4 * length bs + 2) div 3" for bs
    by (induction bs rule: encode_bytes.induct) simp_all
  from set_EncodeToString [of s]
  show ?thesis by (simp add: EncodeToString_def len) (simp add: EncodeToString_def [symmetric])
qed

end
