(* ===== verification/Pagination.thy ===== *)
theory Pagination
  imports Database
begin

text \<open>
  \<open>pagination/pagination.go\<close> and the request side of it in \<open>httpx/http.go\<close>: limits and
  offsets are 64-bit \<open>int\<close>s, and the stores turn them into \<open>LIMIT\<close> and \<open>OFFSET\<close>.
\<close>

record page_params =
  pg_limit :: int
  pg_offset :: int

definition DefaultLimit :: int where "DefaultLimit = 25"

definition Normalize :: "page_params \<Rightarrow> int \<Rightarrow> int \<Rightarrow> page_params" where
  "Normalize p defaultLimit maxLimit =
     (let dl = (if defaultLimit \<le> 0 then DefaultLimit else defaultLimit);
          dl = (if maxLimit > 0 \<and> dl > maxLimit then maxLimit else dl);
          l = (if pg_limit p \<le> 0 then dl else pg_limit p);
          l = (if maxLimit > 0 \<and> l > maxLimit then maxLimit else l);
          off = (if pg_offset p < 0 then 0 else pg_offset p)
      in \<lparr>pg_limit = l, pg_offset = off\<rparr>)"

definition Offset :: "int \<Rightarrow> int \<Rightarrow> int" where
  "Offset page limit =
     (if page \<le> 1 \<or> limit \<le> 0 then 0 else wrap64 (wrap64 (page - 1) * limit))"

definition Page :: "int \<Rightarrow> int \<Rightarrow> int" where
  "Page offset limit =
     (if limit \<le> 0 then 1
      else wrap64 ((if offset < 0 then 0 else offset) div limit + 1))"

section \<open>The request's parameters\<close>

text \<open>
  \<open>strconv.Atoi\<close>: an optional sign and at least one decimal digit, within 64 bits.
\<close>

definition digit_val :: "char \<Rightarrow> int option" where
  "digit_val c = (if CHR ''0'' \<le> c \<and> c \<le> CHR ''9'' then Some (int (of_char c) - 48) else None)"

fun digits_val :: "int \<Rightarrow> string \<Rightarrow> int option" where
  "digits_val acc [] = Some acc"
| "digits_val acc (c # cs) =
     (case digit_val c of None \<Rightarrow> None | Some d \<Rightarrow> digits_val (acc * 10 + d) cs)"

definition Atoi :: "string \<Rightarrow> int option" where
  "Atoi s =
     (let (neg, ds) = (case s of
            [] \<Rightarrow> (False, [])
          | c # cs \<Rightarrow> if c = CHR ''-'' then (True, cs)
                      else if c = CHR ''+'' then (False, cs) else (False, s))
      in if ds = [] then None
         else case digits_val 0 ds of
             None \<Rightarrow> None
           | Some n \<Rightarrow> let v = (if neg then - n else n) in if is_int64 v then Some v else None)"

definition positive_or :: "int \<Rightarrow> string \<Rightarrow> int" where
  "positive_or fallback raw =
     (let t = TrimSpace raw
      in if t = [] then fallback
         else case Atoi t of Some n \<Rightarrow> if n > 0 then n else fallback | None \<Rightarrow> fallback)"

text \<open>\<open>RequestPaginationParams\<close>, given the values of the query's \<open>page\<close> and \<open>limit\<close>.\<close>

definition RequestPaginationParams :: "string \<Rightarrow> string \<Rightarrow> int \<Rightarrow> page_params" where
  "RequestPaginationParams rawPage rawLimit maxLimit =
     (let page = positive_or 1 rawPage;
          limit = positive_or DefaultLimit rawLimit;
          params = Normalize \<lparr>pg_limit = limit, pg_offset = 0\<rparr> DefaultLimit maxLimit
      in params\<lparr>pg_offset := Offset page (pg_limit params)\<rparr>)"

text \<open>What every paginated store query does with its parameters.\<close>

definition paged :: "page_params \<Rightarrow> 'r list \<Rightarrow> 'r list" where
  "paged p rs =
     (let q = Normalize p DefaultLimit 100 in page_rows (pg_limit q) (pg_offset q) rs)"

section \<open>Lemmas\<close>

lemma Normalize_bounds:
  "0 < m \<Longrightarrow> 1 \<le> pg_limit (Normalize p dl m) \<and> pg_limit (Normalize p dl m) \<le> m
     \<and> 0 \<le> pg_offset (Normalize p dl m)"
  by (auto simp: Normalize_def Let_def DefaultLimit_def)

lemma Normalize_id:
  "0 < pg_limit p \<Longrightarrow> pg_limit p \<le> m \<Longrightarrow> 0 \<le> pg_offset p \<Longrightarrow> Normalize p dl m = p"
  by (auto simp: Normalize_def Let_def)

lemma set_paged: "set (paged p rs) \<subseteq> set rs"
  unfolding paged_def Let_def by (rule set_page_rows)

lemma length_paged: "length (paged p rs) \<le> 100"
proof -
  have "pg_limit (Normalize p DefaultLimit 100) \<le> 100" using Normalize_bounds by simp
  moreover have "length (paged p rs) \<le> nat (pg_limit (Normalize p DefaultLimit 100))"
    by (simp add: paged_def Let_def length_page_rows)
  ultimately show ?thesis by linarith
qed

lemma Offset_exact:
  "1 \<le> page \<Longrightarrow> 0 < limit \<Longrightarrow> is_int64 page \<Longrightarrow> is_int64 ((page - 1) * limit) \<Longrightarrow>
   Offset page limit = (page - 1) * limit"
  by (auto simp: Offset_def wrap64_id is_int64_def)

lemma paged_page:
  assumes "0 < l" "l \<le> 100" "1 \<le> page" "is_int64 page" "is_int64 ((page - 1) * l)"
  shows "paged \<lparr>pg_limit = l, pg_offset = Offset page l\<rparr> rs
         = take (nat l) (drop (nat (page - 1) * nat l) rs)"
  using assms
  by (simp add: paged_def Normalize_id Offset_exact page_rows_def nat_mult_distrib)

text \<open>Cutting a list into chunks of equal size and gluing them gives a prefix of the list.\<close>

lemma concat_chunks:
  "concat (map (\<lambda>k. take l (drop (k * l) rs)) [0..<n]) = take (n * l) rs"
  by (induction n) (simp_all add: take_add [symmetric] add.commute)

section \<open>Properties\<close>

text \<open>
  Every page is bounded: for a positive maximum, whatever limit, default and offset a request
  asks for, the normalised limit is between 1 and the maximum and the offset is not negative,
  and parameters already in these bounds are kept.
\<close>

theorem Normalize_sane:
  assumes "0 < maxLimit"
  shows "1 \<le> pg_limit (Normalize p dl maxLimit) \<and> pg_limit (Normalize p dl maxLimit) \<le> maxLimit \<and>
    0 \<le> pg_offset (Normalize p dl maxLimit) \<and>
    (1 \<le> pg_limit p \<and> pg_limit p \<le> maxLimit \<and> 0 \<le> pg_offset p \<longrightarrow> Normalize p dl maxLimit = p) \<and>
    Normalize (Normalize p dl maxLimit) dl maxLimit = Normalize p dl maxLimit"
proof -
  note b = Normalize_bounds [OF assms, of p dl]
  moreover from b have "Normalize (Normalize p dl maxLimit) dl maxLimit = Normalize p dl maxLimit"
    by (intro Normalize_id) simp_all
  moreover have "Normalize p dl maxLimit = p" if "1 \<le> pg_limit p \<and> pg_limit p \<le> maxLimit \<and> 0 \<le> pg_offset p"
    by (rule Normalize_id) (use that in simp_all)
  ultimately show ?thesis by blast
qed

theorem Normalize_sane_witness:
  "pg_limit (Normalize \<lparr>pg_limit = 900, pg_offset = - 3\<rparr> 0 100) = 100 \<and>
   Normalize (Normalize \<lparr>pg_limit = 900, pg_offset = - 3\<rparr> 0 100) 0 100
     = Normalize \<lparr>pg_limit = 900, pg_offset = - 3\<rparr> 0 100"
  using Normalize_sane [of 100 "\<lparr>pg_limit = 900, pg_offset = - 3\<rparr>" 0]
  by (simp add: Normalize_def DefaultLimit_def)

text \<open>
  Turning the pages shows every row exactly once: with a page size within the bounds, the
  first \<open>n\<close> pages, put one after the other, are the first \<open>n\<close> times the page size rows of the
  listing, and page \<open>k\<close> starts at the offset whose page number is \<open>k\<close>. The bound says that the
  offsets fit into 64 bits.
\<close>

theorem pages_partition:
  assumes "0 < l" "l \<le> 100" "int n * l < 2 ^ 63"
  shows "concat (map (\<lambda>k. paged \<lparr>pg_limit = l, pg_offset = Offset (int k + 1) l\<rparr> rs) [0..<n])
      = take (n * nat l) rs \<and>
    (k < n \<longrightarrow> Page (Offset (int k + 1) l) l = int k + 1)"
proof (rule conjI)
  have fits: "is_int64 (int k + 1)" "is_int64 (int k * l)" "0 \<le> int k * l" if "k < n" for k
  proof -
    have "int k + 1 \<le> int n * 1" using that by simp
    also have "\<dots> \<le> int n * l" using assms(1) by (intro mult_left_mono) simp_all
    finally show "is_int64 (int k + 1)" using assms(3) by (simp add: is_int64_def)
    have "int k * l \<le> int n * l" using that assms(1) by (intro mult_right_mono) simp_all
    moreover show "0 \<le> int k * l" using assms(1) by simp
    ultimately show "is_int64 (int k * l)" using assms(3) unfolding is_int64_def by linarith
  qed
  have page: "paged \<lparr>pg_limit = l, pg_offset = Offset (int k + 1) l\<rparr> rs = take (nat l) (drop (k * nat l) rs)"
    if "k < n" for k
    using paged_page [of l "int k + 1" rs] assms fits [OF that] by simp
  have "map (\<lambda>k. paged \<lparr>pg_limit = l, pg_offset = Offset (int k + 1) l\<rparr> rs) [0..<n]
      = map (\<lambda>k. take (nat l) (drop (k * nat l) rs)) [0..<n]"
    by (rule map_cong) (simp_all add: page)
  then show "concat (map (\<lambda>k. paged \<lparr>pg_limit = l, pg_offset = Offset (int k + 1) l\<rparr> rs) [0..<n])
      = take (n * nat l) rs"
    by (simp only: concat_chunks)
  show "k < n \<longrightarrow> Page (Offset (int k + 1) l) l = int k + 1"
  proof
    assume k: "k < n"
    have "Offset (int k + 1) l = int k * l"
      using Offset_exact [of "int k + 1" l] assms(1) fits [OF k] by simp
    then show "Page (Offset (int k + 1) l) l = int k + 1"
      using assms(1) fits(1) [OF k] fits(3) [OF k] not_le [of 0 "int k * l"] by (simp add: Page_def wrap64_id)
  qed
qed

theorem pages_partition_witness:
  "concat (map (\<lambda>k. paged \<lparr>pg_limit = 2, pg_offset = Offset (int k + 1) 2\<rparr> [1, 2, 3 :: nat]) [0..<2]) = [1, 2, 3 :: nat] \<and>
   Page (Offset 2 2) 2 = 2"
  using pages_partition [of 2 2 "[1, 2, 3 :: nat]" 1] by simp

end
