(* ===== verification/Tables.thy ===== *)
theory Tables
  imports Database
begin

text \<open>
  What the stores do to one table: the \<open>INSERT ... RETURNING\<close>, \<open>UPDATE ... RETURNING\<close> and
  \<open>DELETE\<close> statements, the lookup and the soft delete by identifier, and the contract of a
  table as the locales \<open>table\<close> and \<open>base_table\<close>, interpreted for every table of the schema.
  The second half is a calculus for all-or-nothing behaviour: \<open>atomic m\<close> says that an
  operation that returns an error has changed no table.
\<close>

section \<open>Statements on a table\<close>

type_synonym 'r updater = "('r list \<Rightarrow> 'r list) \<Rightarrow> database \<Rightarrow> database"

definition insert_row ::
  "'r updater \<Rightarrow> (database \<Rightarrow> bool) \<Rightarrow> (database \<Rightarrow> bool) \<Rightarrow> (int \<Rightarrow> 'r) \<Rightarrow> 'r list stmt" where
  "insert_row put uniq refs mk = (\<lambda>t d.
     insert_into (uniq d) (refs d) [mk t] (put (\<lambda>rs. rs @ [mk t]) d))"

text \<open>
  \<open>UPDATE\<close>: the constraints are only checked for rows that are rewritten, so a statement
  that matches no row succeeds with an empty result.
\<close>

definition update_rows ::
  "(database \<Rightarrow> 'r list) \<Rightarrow> 'r updater \<Rightarrow> (database \<Rightarrow> goerr option) \<Rightarrow> ('r \<Rightarrow> bool) \<Rightarrow> ('r \<Rightarrow> 'r)
   \<Rightarrow> 'r list stmt" where
  "update_rows get put chk p f = (\<lambda>t d.
     case (if list_ex p (get d) then chk d else None) of
       Some e \<Rightarrow> Inl e
     | None \<Rightarrow> Inr (returning p f (get d), put (upd_where p f) d))"

definition delete_rows ::
  "(database \<Rightarrow> 'r list) \<Rightarrow> 'r updater \<Rightarrow> ('r \<Rightarrow> bool) \<Rightarrow> int stmt" where
  "delete_rows get put p = (\<lambda>t d.
     Inr (int (length (filter p (get d))), put (filter (\<lambda>r. \<not> p r)) d))"

definition no_check :: "database \<Rightarrow> goerr option" where
  "no_check d = None"

definition get_by_id ::
  "(database \<Rightarrow> 'a record_base_scheme list) \<Rightarrow> string \<Rightarrow> string \<Rightarrow> 'a record_base_scheme action" where
  "get_by_id get tn i = no_rows_as ErrNotFound (query_row (\<lambda>d. filter (by_id tn i) (get d)))"

definition retire_by_id ::
  "(database \<Rightarrow> 'a record_base_scheme list) \<Rightarrow> 'a record_base_scheme updater \<Rightarrow> string \<Rightarrow> string
   \<Rightarrow> 'a record_base_scheme action" where
  "retire_by_id get put tn i =
     bindE now (\<lambda>t. no_rows_as ErrNotFound
       (exec_row (update_rows get put no_check (by_id tn i) (retire_row t))))"

text \<open>A key without repetitions, as a primary key or a unique index demands.\<close>

definition fresh :: "('r \<Rightarrow> 'k) \<Rightarrow> 'k \<Rightarrow> 'r list \<Rightarrow> bool" where
  "fresh key k rs = (k \<notin> set (map key rs))"

definition has_key :: "('r \<Rightarrow> 'k) \<Rightarrow> 'k \<Rightarrow> 'r list \<Rightarrow> bool" where
  "has_key key k rs = (k \<in> set (map key rs))"

definition tenant_id :: "'a record_base_scheme \<Rightarrow> string \<times> string" where
  "tenant_id r = (rec_tenant r, rec_id r)"

lemma by_id_tenant_id: "by_id tn i r \<longleftrightarrow> tenant_id r = (tn, i)"
  by (auto simp: by_id_def tenant_id_def)

lemma update_rows_no_check [simp]:
  "update_rows get put no_check p f t d = Inr (returning p f (get d), put (upd_where p f) d)"
  by (simp add: update_rows_def no_check_def)

lemma filter_by_id_fresh: "fresh rec_id i rs \<Longrightarrow> filter (by_id tn i) rs = []"
  by (auto simp: fresh_def by_id_def filter_empty_conv image_iff)

section \<open>The contract of a table\<close>

text \<open>
  \<open>put\<close> replaces the rows that \<open>get\<close> reads; \<open>key\<close> is the primary key. From that follow the
  facts every store needs: inserting a row with a fresh key and rewriting rows without
  touching the key keep the keys distinct, and a statement addressed by key affects one row.
\<close>

locale table =
  fixes get :: "database \<Rightarrow> 'r list"
    and put :: "('r list \<Rightarrow> 'r list) \<Rightarrow> database \<Rightarrow> database"
    and key :: "'r \<Rightarrow> 'k"
  assumes get_put [simp]: "get (put f d) = f (get d)"
    and put_cong: "f (get d) = g (get d) \<Longrightarrow> put f d = put g d"
    and put_id: "put (\<lambda>rs. rs) d = d"
begin

lemma put_same: "f (get d) = get d \<Longrightarrow> put f d = d"
  using put_cong [of f d "\<lambda>rs. rs"] put_id by simp

lemma put_get: "d' = put f d \<Longrightarrow> d' = put (\<lambda>_. get d') d"
  by (simp add: put_cong [of f d "\<lambda>_. f (get d)"])

lemma insert_Inr:
  assumes "insert_row put uniq refs mk t d = Inr (rs, d')"
  shows "uniq d \<and> refs d \<and> rs = [mk t] \<and> d' = put (\<lambda>rs. rs @ [mk t]) d \<and> get d' = get d @ [mk t]"
  using assms by (auto simp: insert_row_def insert_into_def split: if_splits)

lemma insert_keeps_keys:
  assumes "\<And>d. uniq d \<Longrightarrow> fresh key (key (mk t)) (get d)"
    and "insert_row put uniq refs mk t d = Inr (rs, d')" and "distinct (map key (get d))"
  shows "distinct (map key (get d'))"
  using insert_Inr [OF assms(2)] assms(1,3) by (auto simp: fresh_def)

lemma update_keeps_keys:
  assumes "\<And>r. p r \<Longrightarrow> key (f r) = key r" and "distinct (map key (get d))"
  shows "distinct (map key (get (put (upd_where p f) d)))"
  using assms by (simp add: map_upd_where)

lemma delete_keeps_keys:
  "distinct (map key (get d)) \<Longrightarrow> distinct (map key (get (put (filter p) d)))"
  by (simp add: distinct_map_filter)

lemma keyed_single:
  assumes "distinct (map key (get d))" "r \<in> set (get d)"
  shows "filter (\<lambda>s. key s = key r) (get d) = [r]"
  by (rule filter_key_single [OF assms]) simp_all

end

text \<open>Tables whose rows extend \<open>RecordBase\<close>: lookup and soft delete by identifier.\<close>

locale base_table = table get put rec_id
  for get :: "database \<Rightarrow> 'a record_base_scheme list"
    and put :: "('a record_base_scheme list \<Rightarrow> 'a record_base_scheme list) \<Rightarrow> database \<Rightarrow> database"
begin

lemma by_id_single:
  assumes "distinct (map rec_id (get d))" "r \<in> set (get d)" "by_id tn i r"
  shows "filter (by_id tn i) (get d) = [r]"
  by (rule filter_key_single [OF assms(1,2)]) (use assms(3) in \<open>auto simp: by_id_def\<close>)

lemma get_by_id_found:
  assumes "no_faults w" "distinct (map rec_id (get (db w)))" "r \<in> set (get (db w))" "by_id tn i r"
  shows "get_by_id get tn i w = (Inr r, tick_stmt w)"
  by (rule resultI) (use assms in \<open>simp add: get_by_id_def wp by_id_single\<close>)

lemma get_by_id_missing:
  assumes "no_faults w" "\<forall>r \<in> set (get (db w)). \<not> by_id tn i r"
  shows "get_by_id get tn i w = (Inl ErrNotFound, tick_stmt w)"
  by (rule resultI) (use assms in \<open>simp add: get_by_id_def wp filter_False\<close>)

lemma retire_by_id_Inr:
  assumes "retire_by_id get put tn i w = (Inr r, w')" "distinct (map rec_id (get (db w)))"
  shows "\<exists>s t. s \<in> set (get (db w)) \<and> by_id tn i s \<and> r = retire_row t s
      \<and> get (db w') = upd_where (by_id tn i) (retire_row t) (get (db w))
      \<and> db w' = put (upd_where (by_id tn i) (retire_row t)) (db w)"
proof -
  let ?t = "clock_src (env w) (ticks w)"
  have "post (retire_by_id get put tn i) w
     (\<lambda>r w'. \<exists>s. s \<in> set (get (db w)) \<and> by_id tn i s \<and> r = retire_row ?t s
       \<and> db w' = put (upd_where (by_id tn i) (retire_row ?t)) (db w)) (\<lambda>_ _. True)"
    by (auto simp: retire_by_id_def wp returning_def map_eq_Cons_conv split: list.splits
        intro!: exI [of _ "hd (filter (by_id tn i) (get (db w)))"] dest!: filter_eq_ConsD)
  from post_Inr [OF this assms(1)] show ?thesis by (metis get_put)
qed

lemma retire_by_id_found:
  assumes "no_faults w" "distinct (map rec_id (get (db w)))" "r \<in> set (get (db w))" "by_id tn i r"
  shows "fst (retire_by_id get put tn i w) = Inr (retire_row (clock_src (env w) (ticks w)) r)"
proof -
  have "post (retire_by_id get put tn i) w
      (\<lambda>x w'. x = retire_row (clock_src (env w) (ticks w)) r) (\<lambda>_ _. False)"
    using assms by (simp add: retire_by_id_def wp returning_def by_id_single)
  then show ?thesis by (auto simp: post_def split: prod.splits sum.splits)
qed

end

interpretation roles_t: base_table roles roles_update by unfold_locales (simp_all cong: database.fold_congs)
interpretation users_t: base_table users users_update by unfold_locales (simp_all cong: database.fold_congs)
interpretation groups_t: base_table groups groups_update by unfold_locales (simp_all cong: database.fold_congs)
interpretation policies_t: base_table policies policies_update by unfold_locales (simp_all cong: database.fold_congs)
interpretation devices_t: base_table devices devices_update by unfold_locales (simp_all cong: database.fold_congs)
interpretation apps_t: base_table apps apps_update by unfold_locales (simp_all cong: database.fold_congs)
interpretation artifacts_t: base_table artifacts artifacts_update by unfold_locales (simp_all cong: database.fold_congs)
interpretation files_t: base_table files files_update by unfold_locales (simp_all cong: database.fold_congs)
interpretation certificates_t: base_table certificates certificates_update by unfold_locales (simp_all cong: database.fold_congs)
interpretation managed_files_t: base_table managed_files managed_files_update by unfold_locales (simp_all cong: database.fold_congs)
interpretation policy_apps_t: base_table policy_apps policy_apps_update by unfold_locales (simp_all cong: database.fold_congs)
interpretation policy_certificates_t: base_table policy_certificates policy_certificates_update
  by unfold_locales (simp_all cong: database.fold_congs)
interpretation policy_managed_files_t: base_table policy_managed_files policy_managed_files_update
  by unfold_locales (simp_all cong: database.fold_congs)
interpretation tokens_t: table enrollment_tokens enrollment_tokens_update tok_id
  by unfold_locales (simp_all cong: database.fold_congs)
interpretation commands_t: table commands commands_update cmd_id by unfold_locales (simp_all cong: database.fold_congs)
interpretation versions_t: table app_versions app_versions_update ver_id by unfold_locales (simp_all cong: database.fold_congs)
interpretation logs_t: table device_logs device_logs_update log_id by unfold_locales (simp_all cong: database.fold_congs)
interpretation device_info_t: table device_info device_info_update info_id by unfold_locales (simp_all cong: database.fold_congs)
interpretation telemetry_t: table device_telemetry device_telemetry_update info_id
  by unfold_locales (simp_all cong: database.fold_congs)
interpretation memberships_t:
  table device_groups device_groups_update "\<lambda>m. (dg_tenant m, dg_device m, dg_group m)"
  by unfold_locales (simp_all cong: database.fold_congs)

text \<open>Renaming the row of an identifier to a name no other row has keeps the names distinct.\<close>

lemma distinct_rename:
  assumes "distinct (map rec_id rs)" "distinct (map (\<lambda>r. (rec_tenant r, nm r)) rs)"
    and "\<not> list_ex (\<lambda>r. rec_tenant r = tn \<and> nm r = name \<and> rec_id r \<noteq> i) rs"
    and "\<And>r. nm (f r) = name \<and> rec_tenant (f r) = rec_tenant r" and at: "\<And>r. p r \<Longrightarrow> by_id tn i r"
  shows "distinct (map (\<lambda>r. (rec_tenant r, nm r)) (upd_where p f rs))"
proof -
  let ?g = "\<lambda>r. if p r then (rec_tenant r, name) else (rec_tenant r, nm r)"
  have "map (\<lambda>r. (rec_tenant r, nm r)) (upd_where p f rs) = map ?g rs"
    using assms(4) by (simp add: upd_where_def)
  moreover have "inj_on ?g (set rs)"
  proof (rule inj_onI)
    fix r s assume rs: "r \<in> set rs" "s \<in> set rs" and eq: "?g r = ?g s"
    have other: "\<not> (rec_tenant x = tn \<and> nm x = name \<and> rec_id x \<noteq> i)" if "x \<in> set rs" for x
      using assms(3) that by (auto simp: list_ex_iff)
    show "r = s"
    proof (cases "p r \<or> p s")
      case True
      then have "rec_id r = i" "rec_id s = i"
        using eq other [OF rs(1)] other [OF rs(2)] by (auto simp: by_id_def split: if_splits dest!: at)
      then show ?thesis using assms(1) rs by (auto dest: distinct_key_unique)
    next
      case False
      then show ?thesis using eq assms(2) rs by (auto dest: distinct_key_unique)
    qed
  qed
  moreover have "distinct rs" using assms(1) by (simp add: distinct_map)
  ultimately show ?thesis by (simp add: distinct_map)
qed


text \<open>A row is active, or retired and marked as deleted.\<close>

definition life_ok :: "'a record_base_scheme \<Rightarrow> bool" where
  "life_ok r \<longleftrightarrow> rec_status r = ''active'' \<and> deleted_at r = None \<or>
     rec_status r = ''retired'' \<and> deleted_at r \<noteq> None"

lemma life_ok_retire_row [simp]: "life_ok (retire_row t r)"
  by (simp add: life_ok_def)

section \<open>All or nothing\<close>

text \<open>
  \<open>stays m\<close>: \<open>m\<close> neither opens nor ends a transaction. \<open>reads m\<close>: moreover it changes no
  table. \<open>sure m\<close>: \<open>m\<close> cannot return an error. \<open>tx_body m\<close>: run in a transaction, \<open>m\<close> only
  returns an error while the transaction is still open.
\<close>

definition stays :: "'a action \<Rightarrow> bool" where
  "stays m \<longleftrightarrow> (\<forall>w. post m w (\<lambda>_ w'. txn w' = txn w) (\<lambda>_ w'. txn w' = txn w))"

definition reads :: "'a action \<Rightarrow> bool" where
  "reads m \<longleftrightarrow> (\<forall>w. post m w (\<lambda>_ w'. txn w' = txn w \<and> db w' = db w)
                         (\<lambda>_ w'. txn w' = txn w \<and> db w' = db w))"

definition sure :: "'a action \<Rightarrow> bool" where
  "sure m \<longleftrightarrow> (\<forall>w. post m w (\<lambda>_ _. True) (\<lambda>_ _. False))"

definition tx_body :: "'a action \<Rightarrow> bool" where
  "tx_body m \<longleftrightarrow> (\<forall>w x. txn w = Some x \<longrightarrow> post m w (\<lambda>_ _. True) (\<lambda>_ w'. txn w' = Some x))"

definition atomic :: "'a action \<Rightarrow> bool" where
  "atomic m \<longleftrightarrow> (\<forall>w. txn w = None \<longrightarrow>
     post m w (\<lambda>_ w'. txn w' = None) (\<lambda>_ w'. txn w' = None \<and> db w' = db w))"

lemma atomicD: "atomic m \<Longrightarrow> txn w = None \<Longrightarrow> m w = (Inl e, w') \<Longrightarrow> db w' = db w \<and> txn w' = None"
  unfolding atomic_def by (drule spec [of _ w]) (simp add: post_def)

lemma reads_stays: "reads m \<Longrightarrow> stays m"
  unfolding reads_def stays_def by (blast intro: post_mono)

lemma reads_db: "reads m \<Longrightarrow> db (snd (m w)) = db w"
  unfolding post_snd [symmetric, of "\<lambda>w'. db w' = db w"] reads_def by (blast intro: post_mono)

lemma stays_returnE [keeps_intros]: "stays (returnE x)"
  by (simp add: stays_def wp)

lemma stays_throwE [keeps_intros]: "stays (throwE e)"
  by (simp add: stays_def wp)

lemma post_chain:
  assumes "post m w (\<lambda>_ w'. P w w') (\<lambda>_ w'. P w w')" "\<And>x w'. post (f x) w' (\<lambda>_. P w') (\<lambda>_. P w')"
    and "\<And>a b c. P a b \<Longrightarrow> P b c \<Longrightarrow> P a c"
  shows "post m w (\<lambda>x w'. post (f x) w' (\<lambda>_. P w) (\<lambda>_. P w)) (\<lambda>_. P w)"
  by (rule post_mono [OF assms(1)]) (blast intro: post_mono [OF assms(2)] assms(3))+

lemma stays_bindE [keeps_intros]: "stays m \<Longrightarrow> (\<And>x. stays (f x)) \<Longrightarrow> stays (bindE m f)"
  unfolding stays_def post_bindE by (intro allI post_chain) auto

lemma staysD: "stays m \<Longrightarrow> post m w (\<lambda>_ w'. txn w' = txn w) (\<lambda>_ w'. txn w' = txn w)"
  by (simp add: stays_def)

lemma stays_if [keeps_intros]: "stays m \<Longrightarrow> stays n \<Longrightarrow> stays (if b then m else n)"
  by simp

lemma stays_no_rows_as [keeps_intros]: "stays m \<Longrightarrow> stays (no_rows_as e m)"
  by (simp add: stays_def wp)

lemma stays_mapE [keeps_intros]: "(\<And>x. stays (f x)) \<Longrightarrow> stays (mapE f xs)"
  by (induction xs) (auto intro!: keeps_intros)

lemma stays_now [keeps_intros]: "stays now"
  by (simp add: stays_def wp)

lemma stays_NewString [keeps_intros]: "stays NewString"
  by (simp add: stays_def wp)

lemma stays_query [keeps_intros]: "stays (query f)"
  by (simp add: stays_def wp)

lemma stays_query_row [keeps_intros]: "stays (query_row f)"
  by (auto simp: stays_def wp split: list.splits)

lemma stays_exec [keeps_intros]: "stays (exec s)"
  by (auto simp: stays_def wp split: sum.splits)

lemma stays_exec_row [keeps_intros]: "stays (exec_row s)"
  by (auto simp: stays_def wp split: sum.splits list.splits)

lemma reads_returnE [keeps_intros]: "reads (returnE x)"
  by (simp add: reads_def wp)

lemma reads_throwE [keeps_intros]: "reads (throwE e)"
  by (simp add: reads_def wp)

lemma reads_bindE [keeps_intros]: "reads m \<Longrightarrow> (\<And>x. reads (f x)) \<Longrightarrow> reads (bindE m f)"
  unfolding reads_def post_bindE by (intro allI post_chain) auto

lemma reads_if [keeps_intros]: "reads m \<Longrightarrow> reads n \<Longrightarrow> reads (if b then m else n)"
  by simp

lemma reads_no_rows_as [keeps_intros]: "reads m \<Longrightarrow> reads (no_rows_as e m)"
  by (simp add: reads_def wp)

lemma reads_mapE [keeps_intros]: "(\<And>x. reads (f x)) \<Longrightarrow> reads (mapE f xs)"
  by (induction xs) (auto intro!: keeps_intros)

lemma reads_now [keeps_intros]: "reads now"
  by (simp add: reads_def wp)

lemma reads_NewString [keeps_intros]: "reads NewString"
  by (simp add: reads_def wp)

lemma reads_asks [keeps_intros]: "reads (asks f)"
  by (simp add: reads_def wp)

lemma stays_asks [keeps_intros]: "stays (asks f)"
  by (simp add: stays_def wp)

lemma reads_query [keeps_intros]: "reads (query f)"
  by (simp add: reads_def wp)

lemma reads_query_row [keeps_intros]: "reads (query_row f)"
  by (auto simp: reads_def wp split: list.splits)

lemma reads_get_by_id [keeps_intros]: "reads (get_by_id get tn i)"
  unfolding get_by_id_def by (intro keeps_intros)

text \<open>
  A single statement either fails before it changes anything or succeeds; a transaction is
  undone by its deferred rollback.
\<close>

lemma sure_returnE [keeps_intros]: "sure (returnE x)"
  by (simp add: sure_def wp)

lemma sure_bindE [keeps_intros]: "sure m \<Longrightarrow> (\<And>x. sure (f x)) \<Longrightarrow> sure (bindE m f)"
  unfolding sure_def post_bindE by (blast intro: post_mono)

lemma tx_body_returnE [keeps_intros]: "tx_body (returnE x)"
  by (simp add: tx_body_def wp)

lemma tx_body_commit [keeps_intros]: "tx_body commit"
  by (simp add: tx_body_def wp)

lemma tx_bodyD:
  "tx_body m \<Longrightarrow> txn w = Some x \<Longrightarrow> post m w (\<lambda>_ _. True) (\<lambda>_ w'. txn w' = Some x)"
  unfolding tx_body_def by blast

lemma tx_body_stays: "stays m \<Longrightarrow> tx_body m"
  unfolding tx_body_def by (auto intro: post_mono [OF staysD])

lemma tx_body_bindE: "stays m \<Longrightarrow> (\<And>x. tx_body (f x)) \<Longrightarrow> tx_body (bindE m f)"
  unfolding tx_body_def [of "bindE m f"] post_bindE
  by (intro allI impI, rule post_mono [OF staysD]) (auto intro: tx_bodyD)

lemma sureD: "sure m \<Longrightarrow> post m w (\<lambda>_ _. True) E"
  by (auto simp: sure_def intro: post_mono)

lemma tx_body_final: "tx_body m \<Longrightarrow> (\<And>x. sure (f x)) \<Longrightarrow> tx_body (bindE m f)"
  unfolding tx_body_def [of "bindE m f"] post_bindE
  by (intro allI impI, rule post_mono [OF tx_bodyD]) (auto intro: sureD)

lemma tx_body_if [keeps_intros]: "tx_body m \<Longrightarrow> tx_body n \<Longrightarrow> tx_body (if b then m else n)"
  by simp

lemma tx_body_throwE [keeps_intros]: "tx_body (throwE e)"
  by (simp add: tx_body_def wp)

lemma atomic_with_tx: "tx_body m \<Longrightarrow> atomic (with_tx m)"
proof -
  assume m: "tx_body m"
  show ?thesis
    unfolding atomic_def post_with_tx
  proof (intro allI impI)
    fix w :: world assume w: "txn w = None"
    let ?w = "tick_stmt w\<lparr>txn := Some (db w, pg_clock (env w) (stmts w))\<rparr>"
    have "post m ?w (\<lambda>_ _. True) (\<lambda>_ w'. txn w' = Some (db w, pg_clock (env w) (stmts w)))"
      using m by (simp add: tx_body_def)
    then have "post m ?w (\<lambda>_ w'. txn (rollback w') = None)
        (\<lambda>_ w'. txn (rollback w') = None \<and> db (rollback w') = db w)"
      by (rule post_mono) (auto simp: db_rollback)
    with w show "if faulty w then txn (tick_stmt w) = None \<and> db (tick_stmt w) = db w
       else post m ?w (\<lambda>_ w'. txn (rollback w') = None)
              (\<lambda>_ w'. txn (rollback w') = None \<and> db (rollback w') = db w)"
      by simp
  qed
qed

lemma atomic_reads: "reads m \<Longrightarrow> atomic m"
  unfolding reads_def atomic_def by (auto intro: post_mono)

lemma atomic_throwE [keeps_intros]: "atomic (throwE e)"
  by (simp add: atomic_def wp)

lemma atomic_returnE [keeps_intros]: "atomic (returnE e)"
  by (simp add: atomic_def wp)

lemma atomic_bind_reads: "reads m \<Longrightarrow> (\<And>x. atomic (f x)) \<Longrightarrow> atomic (bindE m f)"
proof -
  assume m: "reads m" and f: "\<And>x. atomic (f x)"
  show ?thesis
    unfolding atomic_def post_bindE
  proof (intro allI impI)
    fix w :: world assume w: "txn w = None"
    have "post (f x) w' (\<lambda>_ w'. txn w' = None) (\<lambda>_ w'. txn w' = None \<and> db w' = db w)"
      if "txn w' = txn w \<and> db w' = db w" for x w'
      using f [unfolded atomic_def, rule_format, of w' x] that w by simp
    then show "post m w
        (\<lambda>x w'. post (f x) w' (\<lambda>_ w'. txn w' = None) (\<lambda>_ w'. txn w' = None \<and> db w' = db w))
        (\<lambda>_ w'. txn w' = None \<and> db w' = db w)"
      by (rule post_mono [OF m [unfolded reads_def, rule_format, of w]]) (use w in simp_all)
  qed
qed

lemma post_sure_stays:
  assumes "sure m" "stays m" "txn w = None"
  shows "post m w (\<lambda>_ w'. txn w' = None) E"
proof -
  have "post m w (\<lambda>_ w'. True \<and> txn w' = txn w) (\<lambda>_ w'. False \<and> txn w' = txn w)"
    by (rule post_conj [OF sureD [OF assms(1)] staysD [OF assms(2)]])
  then show ?thesis by (rule post_mono) (simp_all add: assms(3))
qed

lemma atomic_bind_sure:
  assumes m: "atomic m" and f: "\<And>x. sure (f x)" "\<And>x. stays (f x)"
  shows "atomic (bindE m f)"
  unfolding atomic_def post_bindE
proof (intro allI impI)
  fix w :: world assume w: "txn w = None"
  show "post m w (\<lambda>x w'. post (f x) w' (\<lambda>_ w'. txn w' = None) (\<lambda>_ w'. txn w' = None \<and> db w' = db w))
          (\<lambda>_ w'. txn w' = None \<and> db w' = db w)"
    by (rule post_mono [OF m [unfolded atomic_def, rule_format, OF w]])
      (auto intro: post_sure_stays f)
qed

lemma atomic_no_rows_as [keeps_intros]: "atomic m \<Longrightarrow> atomic (no_rows_as e m)"
  by (simp add: atomic_def wp)

lemma atomic_if [keeps_intros]: "atomic m \<Longrightarrow> atomic n \<Longrightarrow> atomic (if b then m else n)"
  by simp

lemma atomic_exec [keeps_intros]: "atomic (exec s)"
  by (auto simp: atomic_def wp split: sum.splits)

text \<open>
  \<open>exec_row\<close> is atomic when the statement changes nothing in the case that it returns no row.
\<close>

lemma atomic_exec_row:
  assumes "\<And>t d d'. s t d = Inr ([], d') \<Longrightarrow> d' = d"
  shows "atomic (exec_row s)"
  using assms by (auto simp: atomic_def wp split: sum.splits list.splits)

lemma returning_Nil: "returning p f rs = [] \<longleftrightarrow> (\<forall>r \<in> set rs. \<not> p r)"
  by (simp add: returning_def filter_empty_conv)

lemma returning_Nil_upd: "returning p f rs = [] \<Longrightarrow> upd_where p f rs = rs"
  by (simp add: returning_Nil upd_where_none)

lemma atomic_insert_row [keeps_intros]: "atomic (exec_row (insert_row put uniq refs mk))"
  by (rule atomic_exec_row) (auto simp: insert_row_def insert_into_def split: if_splits)

lemma atomic_update_rows [keeps_intros]:
  assumes "\<And>d. put (\<lambda>_. get d) d = d" "\<And>f d. put f d = put (\<lambda>_. f (get d)) d"
  shows "atomic (exec_row (update_rows get put chk p f))"
proof (rule atomic_exec_row)
  fix t d d' assume "update_rows get put chk p f t d = Inr ([], d')"
  then have "upd_where p f (get d) = get d" "d' = put (upd_where p f) d"
    by (auto simp: update_rows_def returning_Nil_upd split: option.splits if_splits)
  then show "d' = d" using assms by metis
qed

text \<open>The usual shape of a transaction: statements, then a commit, then the result.\<close>

lemma tx_body_commit_return [keeps_intros]: "tx_body (bindE commit (\<lambda>_. returnE r))"
  by (intro tx_body_final keeps_intros)

lemmas tx_intros = atomic_with_tx tx_body_commit_return tx_body_bindE atomic_bind_reads

section \<open>Evolution of rows\<close>

text \<open>
  Most tables never lose a row and only change it along a preorder: a retired device stays
  retired, a consumed token stays consumed. \<open>evolves get key step m\<close> says that the action \<open>m\<close>
  moves every row along \<open>step\<close>; the locale gives the facts for one table from the preorder
  laws of its \<open>step\<close>.
\<close>

definition rows_evolve :: "('r \<Rightarrow> 'k) \<Rightarrow> ('r \<Rightarrow> 'r \<Rightarrow> bool) \<Rightarrow> 'r list \<Rightarrow> 'r list \<Rightarrow> bool" where
  "rows_evolve key step rs rs' \<longleftrightarrow> (\<forall>r \<in> set rs. \<exists>r' \<in> set rs'. key r' = key r \<and> step r r')"

definition evolves ::
  "(database \<Rightarrow> 'r list) \<Rightarrow> ('r \<Rightarrow> 'k) \<Rightarrow> ('r \<Rightarrow> 'r \<Rightarrow> bool) \<Rightarrow> 'a action \<Rightarrow> bool" where
  "evolves get key step m \<longleftrightarrow> (\<forall>d0. keeps (\<lambda>d. rows_evolve key step (get d0) (get d)) m)"

locale evolving = table get put key
  for get :: "database \<Rightarrow> 'r list"
    and put :: "('r list \<Rightarrow> 'r list) \<Rightarrow> database \<Rightarrow> database"
    and key :: "'r \<Rightarrow> 'k" +
  fixes step :: "'r \<Rightarrow> 'r \<Rightarrow> bool"
  assumes step_refl: "step r r"
    and step_trans: "step r s \<Longrightarrow> step s t \<Longrightarrow> step r t"
begin

lemma evolve_refl: "rows_evolve key step rs rs"
  by (auto simp: rows_evolve_def intro: step_refl)

lemma evolve_trans:
  "rows_evolve key step rs ss \<Longrightarrow> rows_evolve key step ss ts \<Longrightarrow> rows_evolve key step rs ts"
  unfolding rows_evolve_def by (metis step_trans)

lemma evolve_append: "rows_evolve key step rs (rs @ ss)"
  by (auto simp: rows_evolve_def intro: step_refl)

lemma evolve_update:
  "(\<And>r. p r \<Longrightarrow> key (f r) = key r \<and> step r (f r)) \<Longrightarrow> rows_evolve key step rs (upd_where p f rs)"
  unfolding rows_evolve_def upd_where_def
  by (rule ballI, rule_tac x = "if p r then f r else r" in bexI) (simp_all add: step_refl)

lemma stmt_evolves:
  "(\<And>t d x d'. s t d = Inr (x, d') \<Longrightarrow> rows_evolve key step (get d) (get d')) \<Longrightarrow>
   stmt_keeps (\<lambda>d. rows_evolve key step (get d0) (get d)) s"
  unfolding stmt_keeps_def by (blast intro: evolve_trans)

lemma stmt_elsewhere:
  "(\<And>t d x d'. s t d = Inr (x, d') \<Longrightarrow> get d' = get d) \<Longrightarrow>
   stmt_keeps (\<lambda>d. rows_evolve key step (get d0) (get d)) s"
  by (rule stmt_evolves) (simp add: evolve_refl)

lemma insert_evolves:
  "stmt_keeps (\<lambda>d. rows_evolve key step (get d0) (get d)) (insert_row put uniq refs mk)"
  by (rule stmt_evolves) (auto dest!: insert_Inr simp: evolve_append)

lemma update_evolves:
  "(\<And>r. p r \<Longrightarrow> key (f r) = key r \<and> step r (f r)) \<Longrightarrow>
   stmt_keeps (\<lambda>d. rows_evolve key step (get d0) (get d)) (update_rows get put chk p f)"
  by (rule stmt_evolves)
    (auto simp: update_rows_def split: option.splits if_splits intro!: evolve_update)

lemma evolvesI: "(\<And>d0. keeps (\<lambda>d. rows_evolve key step (get d0) (get d)) m) \<Longrightarrow> evolves get key step m"
  by (simp add: evolves_def)

lemma evolvesD:
  "evolves get key step m \<Longrightarrow> txn w = None \<Longrightarrow>
   rows_evolve key step (get (db w)) (get (db (snd (m w))))"
proof -
  assume "evolves get key step m" "txn w = None"
  then have "holds (\<lambda>d. rows_evolve key step (get (db w)) (get d)) (snd (m w))"
    by (intro keepsD) (simp_all add: evolves_def holds_def evolve_refl)
  then show ?thesis by (simp add: holds_def)
qed

end

end
