(* ===== verification/Samples.thy ===== *)
theory Samples
  imports Tokens
begin

text \<open>
  A concrete world on which the theorems are exercised: a deterministic environment in which
  no statement fails and \<open>sha256\<close> is an injective stand-in, and a small tenant.
\<close>

definition sample_env :: env where
  "sample_env = \<lparr>clock_src = \<lambda>n. 1000 + int n, pg_clock = \<lambda>n. 500 + int n,
     uuid_src = \<lambda>n. ''u'' @ replicate n CHR ''x'', rand_src = \<lambda>n. Some (''r'' @ replicate n CHR ''r''),
     sql_fault = \<lambda>_. False, sha256 = \<lambda>s. CHR ''#'' # s, uuid_parse = Some, jsonb_text = \<lambda>_. [],
     has_publisher = True, publish_ok = \<lambda>_. True, has_provisioner = True,
     object_ok = \<lambda>_. True, bcrypt_gen = \<lambda>_ s. Some (''$2'' @ s), bcrypt_match = \<lambda>h s. h = ''$2'' @ s,
     float_text = \<lambda>s. s, map_order = \<lambda>_ xs. xs, obj_order = \<lambda>_ xs. xs\<rparr>"

definition empty_database :: database where
  "empty_database = \<lparr>tenants = [''t''], roles = [], users = [], groups = [], policies = [], devices = [],
     device_groups = [], enrollment_tokens = [], device_telemetry = [], apps = [], app_versions = [],
     artifacts = [], files = [], certificates = [], managed_files = [], commands = [],
     device_logs = [], device_info = [], policy_apps = [], policy_certificates = [],
     policy_managed_files = [], audit_events = []\<rparr>"

definition world_of :: "database \<Rightarrow> world" where
  "world_of d = \<lparr>env = sample_env, db = d, txn = None, ticks = 0, uuid_no = 0, rand_no = 0,
     stmts = 0, pub_no = 0, outbox = [], prov_log = [], objects = [], object_no = 0, map_no = 0,
     auth = NewService ''admin'' ''pw'' 3600000000\<rparr>"

definition sample_group :: group_row where
  "sample_group = \<lparr>rec_id = ''g'', rec_tenant = ''t'', rec_status = ''active'', created_at = 1,
     updated_at = 1, deleted_at = None, group_name = ''staff''\<rparr>"

definition sample_device :: "string \<Rightarrow> string \<Rightarrow> string \<Rightarrow> device_row" where
  "sample_device i st h = \<lparr>rec_id = i, rec_tenant = ''t'', rec_status = st, created_at = 1,
     updated_at = 1, deleted_at = None, dev_name = ''phone'', dev_secret_hash = h,
     dev_policy_id = None, dev_extras = None\<rparr>"

text \<open>The hash under which \<open>sample_env\<close> stores the secret \<open>s\<close>.\<close>

definition sample_hash :: "string \<Rightarrow> string" where
  "sample_hash s = HashToken (sha256 sample_env) s"

definition sample_token :: "string \<Rightarrow> string \<Rightarrow> string \<Rightarrow> int \<Rightarrow> token_row" where
  "sample_token i h st expires = \<lparr>tok_id = i, tok_tenant = ''t'', tok_hash = h, tok_status = st,
     tok_expires = expires, tok_consumed = None, tok_revoked = None, tok_created = 1, tok_updated = 1\<rparr>"

definition sample_command :: "string \<Rightarrow> string \<Rightarrow> string \<Rightarrow> int option \<Rightarrow> command_row" where
  "sample_command i dev st expires = \<lparr>cmd_id = i, cmd_tenant = ''t'', cmd_device = dev,
     cmd_type = ''ping'', cmd_payload = [], cmd_status = st, cmd_expires = expires,
     cmd_acked = None, cmd_result = [], cmd_created = 1, cmd_updated = 1\<rparr>"

definition sample_policy :: "string \<Rightarrow> json \<Rightarrow> policy_row" where
  "sample_policy i r = \<lparr>rec_id = i, rec_tenant = ''t'', rec_status = ''active'', created_at = 1,
     updated_at = 1, deleted_at = None, pol_name = ''kiosk'', pol_version = 1,
     pol_kiosk_mode = True, pol_kiosk_app = [], pol_restrictions = r\<rparr>"

definition sample_app :: "string \<Rightarrow> bool \<Rightarrow> app_row" where
  "sample_app i owned = \<lparr>rec_id = i, rec_tenant = ''t'', rec_status = ''active'', created_at = 1,
     updated_at = 1, deleted_at = None, app_package = ''com.x'', app_name = ''X'',
     app_system_owned = owned\<rparr>"

lemma world_of_simps [simp]:
  "txn (world_of d) = None" "db (world_of d) = d" "env (world_of d) = sample_env"
  "ticks (world_of d) = 0" "no_faults (world_of d)"
  by (simp_all add: world_of_def no_faults_def sample_env_def)

end
