(* ===== verification/Devices.thy ===== *)
theory Devices
  imports Tables Tokens Pagination Samples
begin

text \<open>
  Devices and groups: \<open>device/model.go\<close>, \<open>device/postgres/store.go\<close>, \<open>group/model.go\<close> and
  \<open>group/postgres/store.go\<close>. A device is created \<open>pending\<close>, belongs to groups, is updated,
  authenticated by the hash of its secret, and retired, after which its MQTT account is
  disabled.
\<close>

section \<open>Statuses and data\<close>

definition StatusPending :: string where "StatusPending = ''pending''"
definition StatusEnrolled :: string where "StatusEnrolled = ''enrolled''"
definition StatusActive :: string where "StatusActive = ''active''"
definition StatusLocked :: string where "StatusLocked = ''locked''"
definition StatusSuspended :: string where "StatusSuspended = ''suspended''"
definition StatusRetired :: string where "StatusRetired = ''retired''"
definition StatusWiped :: string where "StatusWiped = ''wiped''"

lemmas device_statuses = StatusPending_def StatusEnrolled_def StatusActive_def StatusLocked_def
  StatusSuspended_def StatusRetired_def StatusWiped_def

record device = record_base +
  dv_name :: string
  dv_policy_id :: "string option"
  dv_group_ids :: "string list"
  dv_extras :: "obj option"

record device_upsert =
  du_name :: string
  du_secret_hash :: string
  du_policy_id :: string
  du_group_ids :: "string list"

record overview_stats =
  ov_total :: int
  ov_active :: int
  ov_pending :: int
  ov_retired_or_wiped :: int
  ov_assigned_policy :: int

record status_counts =
  n_pending :: int
  n_enrolled :: int
  n_active :: int
  n_locked :: int
  n_suspended :: int
  n_retired :: int
  n_wiped :: int

definition RecordID :: "'a record_base_scheme \<Rightarrow> string" where "RecordID d = rec_id d"
definition RecordStatus :: "'a record_base_scheme \<Rightarrow> string" where "RecordStatus d = rec_status d"

section \<open>Helpers\<close>

text \<open>The loop of \<open>uniqueStrings\<close>, with the set of the strings seen.\<close>

fun unique_loop :: "string set \<Rightarrow> string list \<Rightarrow> string list" where
  "unique_loop seen [] = []"
| "unique_loop seen (x # xs) =
     (let item = TrimSpace x
      in if item = [] then unique_loop seen xs
         else if item \<in> seen then unique_loop seen xs
         else item # unique_loop (insert item seen) xs)"

definition uniqueStrings :: "string list \<Rightarrow> string list" where
  "uniqueStrings items = sort (unique_loop {} items)"

definition canAuthenticateDeviceStatus :: "string \<Rightarrow> bool" where
  "canAuthenticateDeviceStatus status \<longleftrightarrow> \<not> (status = StatusRetired \<or> status = StatusWiped)"

text \<open>
  The aggregate \<open>array_agg(DISTINCT group_id ORDER BY group_id)\<close> over the device's
  memberships, and the record \<open>scanDevice\<close> builds from a row and that array.
\<close>

definition device_group_ids :: "database \<Rightarrow> 'a record_base_scheme \<Rightarrow> string list" where
  "device_group_ids d r =
     sort (remdups (map dg_group
       (filter (\<lambda>m. dg_tenant m = rec_tenant r \<and> dg_device m = rec_id r) (device_groups d))))"

definition scanDevice :: "device_row \<Rightarrow> string list \<Rightarrow> device" where
  "scanDevice r groupIDs =
     \<lparr>rec_id = rec_id r, rec_tenant = rec_tenant r, rec_status = rec_status r,
      created_at = created_at r, updated_at = updated_at r, deleted_at = deleted_at r,
      dv_name = dev_name r, dv_policy_id = dev_policy_id r, dv_group_ids = groupIDs,
      dv_extras = dev_extras r\<rparr>"

definition device_view :: "database \<Rightarrow> device_row \<Rightarrow> device" where
  "device_view d r = scanDevice r (device_group_ids d r)"

definition policy_ref :: "string \<Rightarrow> string option" where
  "policy_ref p = (if p = [] then None else Some p)"

definition policy_ref_ok :: "string \<Rightarrow> string option \<Rightarrow> database \<Rightarrow> bool" where
  "policy_ref_ok tn p d = (case p of None \<Rightarrow> True | Some i \<Rightarrow> has_key tenant_id (tn, i) (policies d))"

section \<open>The device store\<close>

definition ensureActiveGroups :: "string \<Rightarrow> string list \<Rightarrow> unit list action" where
  "ensureActiveGroups tn groupIDs =
     mapE (\<lambda>g. if g = [] then returnE ()
               else no_rows_as ErrNotFound
                 (bindE (query_row (\<lambda>d. filter (\<lambda>r. by_id tn g r \<and> rec_status r = ''active'') (groups d)))
                   (\<lambda>_. returnE ()))) groupIDs"

definition insert_device ::
  "string \<Rightarrow> string \<Rightarrow> device_upsert \<Rightarrow> string option \<Rightarrow> int \<Rightarrow> device_row list stmt" where
  "insert_device tn i req p t = insert_row devices_update
     (\<lambda>d. fresh rec_id i (devices d))
     (\<lambda>d. tn \<in> set (tenants d) \<and> policy_ref_ok tn p d)
     (\<lambda>pgnow. \<lparr>rec_id = i, rec_tenant = tn, rec_status = StatusPending, created_at = pgnow,
              updated_at = t, deleted_at = None, dev_name = du_name req,
              dev_secret_hash = du_secret_hash req, dev_policy_id = p, dev_extras = None\<rparr>)"

definition insert_membership :: "string \<Rightarrow> string \<Rightarrow> string \<Rightarrow> membership list stmt" where
  "insert_membership tn i g = insert_row device_groups_update
     (\<lambda>d. \<not> list_ex (\<lambda>m. dg_tenant m = tn \<and> dg_device m = i \<and> dg_group m = g) (device_groups d))
     (\<lambda>d. has_key tenant_id (tn, i) (devices d) \<and> has_key tenant_id (tn, g) (groups d))
     (\<lambda>_. \<lparr>dg_tenant = tn, dg_device = i, dg_group = g\<rparr>)"

definition loadDevice :: "string \<Rightarrow> string \<Rightarrow> device action" where
  "loadDevice tn i = no_rows_as ErrNotFound
     (query_row (\<lambda>d. map (device_view d) (filter (by_id tn i) (devices d))))"

definition CreateDevice :: "string \<Rightarrow> device_upsert \<Rightarrow> device action" where
  "CreateDevice tn req =
     (if du_name req = [] \<or> du_secret_hash req = [] then throwE ErrInvalidInput
      else bindE now (\<lambda>t. bindE NewString (\<lambda>deviceID.
        let groupIDs = uniqueStrings (du_group_ids req); policyID = policy_ref (du_policy_id req)
        in with_tx (bindE (ensureActiveGroups tn groupIDs) (\<lambda>_.
           bindE (exec_row (insert_device tn deviceID req policyID t)) (\<lambda>created.
           bindE (mapE (\<lambda>g. exec (insert_membership tn (rec_id created) g)) groupIDs) (\<lambda>_.
           bindE (loadDevice tn (rec_id created)) (\<lambda>r.
           bindE commit (\<lambda>_. returnE r)))))))))"

definition ListDevices :: "string \<Rightarrow> page_params \<Rightarrow> device list action" where
  "ListDevices tn page =
     query (\<lambda>d. map (device_view d) (paged page (newest_first (filter (in_tenant tn) (devices d)))))"

definition ListActiveDevices :: "string \<Rightarrow> device list action" where
  "ListActiveDevices tn = query (\<lambda>d. map (device_view d) (oldest_first
     (filter (\<lambda>r. in_tenant tn r \<and> rec_status r \<in> {StatusActive, StatusEnrolled}) (devices d))))"

definition count_rows :: "('r \<Rightarrow> bool) \<Rightarrow> 'r list \<Rightarrow> int" where
  "count_rows p rs = int (length (filter p rs))"

definition GetOverviewStats :: "string \<Rightarrow> overview_stats action" where
  "GetOverviewStats tn = query (\<lambda>d. let rs = filter (in_tenant tn) (devices d) in
     \<lparr>ov_total = int (length rs),
      ov_active = count_rows (\<lambda>r. rec_status r = StatusActive) rs,
      ov_pending = count_rows (\<lambda>r. rec_status r = StatusPending) rs,
      ov_retired_or_wiped =
        count_rows (\<lambda>r. ToLower (rec_status r) \<in> {StatusRetired, StatusWiped}) rs,
      ov_assigned_policy = count_rows (\<lambda>r. dev_policy_id r \<noteq> None) rs\<rparr>)"

definition GetStatusCounts :: "string \<Rightarrow> status_counts action" where
  "GetStatusCounts tn = query (\<lambda>d.
     let n = (\<lambda>st. count_rows (\<lambda>r. rec_status r = st) (filter (in_tenant tn) (devices d)))
     in \<lparr>n_pending = n StatusPending, n_enrolled = n StatusEnrolled, n_active = n StatusActive,
         n_locked = n StatusLocked, n_suspended = n StatusSuspended, n_retired = n StatusRetired,
         n_wiped = n StatusWiped\<rparr>)"

definition GetDevice :: "string \<Rightarrow> string \<Rightarrow> device action" where
  "GetDevice tn i = no_rows_as ErrNotFound
     (query_row (\<lambda>d. map (device_view d) (filter (by_id tn i) (devices d))))"

definition update_device ::
  "string \<Rightarrow> string \<Rightarrow> device_upsert \<Rightarrow> string option \<Rightarrow> int \<Rightarrow> device_row list stmt" where
  "update_device tn i req p t = update_rows devices devices_update
     (\<lambda>d. if policy_ref_ok tn p d then None else Some PgForeignKey) (by_id tn i)
     (\<lambda>r. r\<lparr>dev_name := du_name req,
            dev_secret_hash := (if du_secret_hash req = [] then dev_secret_hash r else du_secret_hash req),
            dev_policy_id := p, updated_at := t\<rparr>)"

definition delete_memberships :: "string \<Rightarrow> string \<Rightarrow> int stmt" where
  "delete_memberships tn i = delete_rows device_groups device_groups_update
     (\<lambda>m. dg_tenant m = tn \<and> dg_device m = i)"

definition UpdateDevice :: "string \<Rightarrow> string \<Rightarrow> device_upsert \<Rightarrow> device action" where
  "UpdateDevice tn i req =
     (if du_name req = [] then throwE ErrInvalidInput
      else bindE now (\<lambda>t.
        let policyID = policy_ref (du_policy_id req); groupIDs = uniqueStrings (du_group_ids req)
        in with_tx (bindE (ensureActiveGroups tn groupIDs) (\<lambda>_.
           bindE (no_rows_as ErrNotFound (exec_row (update_device tn i req policyID t))) (\<lambda>updated.
           bindE (exec (delete_memberships tn (rec_id updated))) (\<lambda>_.
           bindE (mapE (\<lambda>g. exec (insert_membership tn (rec_id updated) g)) groupIDs) (\<lambda>_.
           bindE (loadDevice tn (rec_id updated)) (\<lambda>r.
           bindE commit (\<lambda>_. returnE r))))))))) "

text \<open>
  The calls on the provisioner: they are made when one is configured, and their errors are
  only logged.
\<close>

definition provision :: "prov_call \<Rightarrow> unit action" where
  "provision c = (\<lambda>w. (Inr (),
     if has_provisioner (env w) then w\<lparr>prov_log := prov_log w @ [c]\<rparr> else w))"

definition RetireDevice :: "string \<Rightarrow> string \<Rightarrow> device action" where
  "RetireDevice tn i =
     bindE now (\<lambda>t.
     bindE (no_rows_as ErrNotFound (exec_row (\<lambda>pg d.
        case update_rows devices devices_update no_check (by_id tn i)
               (\<lambda>r. r\<lparr>rec_status := StatusRetired, deleted_at := Some t, updated_at := t\<rparr>) pg d of
          Inl e \<Rightarrow> Inl e
        | Inr (rs, d') \<Rightarrow> Inr (map (device_view d') rs, d')))) (\<lambda>r.
     bindE (provision (ProvDisable (rec_id r))) (\<lambda>_. returnE r)))"

definition scanAuthenticatedDevice :: "device action \<Rightarrow> device action" where
  "scanAuthenticatedDevice scanner =
     bindE (no_rows_as ErrNotFound scanner) (\<lambda>r.
       if \<not> canAuthenticateDeviceStatus (rec_status r) then throwE ErrNotFound else returnE r)"

definition Authenticate :: "string \<Rightarrow> string \<Rightarrow> string \<Rightarrow> device action" where
  "Authenticate tn i secret =
     (if tn = [] \<or> i = [] \<or> secret = [] then throwE ErrInvalidInput
      else bindE (asks sha256) (\<lambda>sha. scanAuthenticatedDevice (query_row (\<lambda>d. map (device_view d)
        (filter (\<lambda>r. by_id tn i r \<and> dev_secret_hash r = HashToken sha secret) (devices d))))))"

section \<open>The group store\<close>

definition insert_group :: "string \<Rightarrow> string \<Rightarrow> string \<Rightarrow> int \<Rightarrow> group_row list stmt" where
  "insert_group tn i name t = insert_row groups_update
     (\<lambda>d. fresh rec_id i (groups d) \<and> fresh (\<lambda>r. (rec_tenant r, group_name r)) (tn, name) (groups d))
     (\<lambda>d. tn \<in> set (tenants d))
     (\<lambda>pgnow. \<lparr>rec_id = i, rec_tenant = tn, rec_status = ''active'', created_at = pgnow,
              updated_at = t, deleted_at = None, group_name = name\<rparr>)"

definition CreateGroup :: "string \<Rightarrow> string \<Rightarrow> group_row action" where
  "CreateGroup tn name =
     (if name = [] then throwE ErrInvalidInput
      else bindE NewString (\<lambda>i. bindE now (\<lambda>t. exec_row (insert_group tn i name t))))"

definition ListGroups :: "string \<Rightarrow> page_params \<Rightarrow> group_row list action" where
  "ListGroups tn page = query (\<lambda>d. paged page (newest_first (filter (in_tenant tn) (groups d))))"

definition ListActiveGroups :: "string \<Rightarrow> group_row list action" where
  "ListActiveGroups tn =
     query (\<lambda>d. newest_first (filter (\<lambda>r. in_tenant tn r \<and> rec_status r = ''active'') (groups d)))"

definition GetGroup :: "string \<Rightarrow> string \<Rightarrow> group_row action" where
  "GetGroup tn i = get_by_id groups tn i"

definition ListGroupDevices :: "string \<Rightarrow> string \<Rightarrow> page_params \<Rightarrow> device list action" where
  "ListGroupDevices tn g page = query (\<lambda>d. map (device_view d) (paged page (oldest_first
     (filter (\<lambda>r. in_tenant tn r \<and>
         list_ex (\<lambda>m. dg_tenant m = rec_tenant r \<and> dg_device m = rec_id r \<and> dg_group m = g)
           (device_groups d)) (devices d)))))"

definition UpdateGroup :: "string \<Rightarrow> string \<Rightarrow> string \<Rightarrow> group_row action" where
  "UpdateGroup tn i name =
     (if name = [] then throwE ErrInvalidInput
      else bindE now (\<lambda>t. no_rows_as ErrNotFound (exec_row (update_rows groups groups_update
        (\<lambda>d. if list_ex (\<lambda>r. rec_tenant r = tn \<and> group_name r = name \<and> rec_id r \<noteq> i) (groups d)
             then Some PgUnique else None)
        (by_id tn i) (\<lambda>r. r\<lparr>group_name := name, updated_at := t\<rparr>)))))"

definition RetireGroup :: "string \<Rightarrow> string \<Rightarrow> group_row action" where
  "RetireGroup tn i = retire_by_id groups groups_update tn i"

section \<open>The list helpers\<close>

lemma set_unique_loop: "set (unique_loop seen xs) = TrimSpace ` set xs - {[]} - seen"
  by (induction xs arbitrary: seen) (auto simp: Let_def)

lemma distinct_unique_loop: "distinct (unique_loop seen xs)"
  by (induction xs arbitrary: seen) (auto simp: Let_def set_unique_loop)

lemma set_uniqueStrings: "set (uniqueStrings xs) = TrimSpace ` set xs - {[]}"
  by (simp add: uniqueStrings_def set_unique_loop)

lemma distinct_uniqueStrings: "distinct (uniqueStrings xs)"
  by (simp add: uniqueStrings_def distinct_unique_loop)

lemma sorted_uniqueStrings: "sorted (uniqueStrings xs)"
  by (simp add: uniqueStrings_def)

lemma sort_uniqueStrings [simp]: "sort (remdups (uniqueStrings xs)) = uniqueStrings xs"
  by (simp add: distinct_uniqueStrings sorted_sort_id sorted_uniqueStrings distinct_remdups_id)

lemma device_view_simps [simp]:
  "rec_id (device_view d r) = rec_id r" "rec_tenant (device_view d r) = rec_tenant r"
  "rec_status (device_view d r) = rec_status r" "created_at (device_view d r) = created_at r"
  "updated_at (device_view d r) = updated_at r" "deleted_at (device_view d r) = deleted_at r"
  "dv_name (device_view d r) = dev_name r" "dv_policy_id (device_view d r) = dev_policy_id r"
  "dv_extras (device_view d r) = dev_extras r" "dv_group_ids (device_view d r) = device_group_ids d r"
  by (simp_all add: device_view_def scanDevice_def)

section \<open>Keys and references\<close>

text \<open>
  The constraints of the schema on devices, groups and memberships: distinct identifiers and
  memberships, and no dangling reference.
\<close>

definition member_key :: "membership \<Rightarrow> string \<times> string \<times> string" where
  "member_key m = (dg_tenant m, dg_device m, dg_group m)"

definition device_schema :: "database \<Rightarrow> bool" where
  "device_schema d \<longleftrightarrow>
     distinct (map rec_id (devices d)) \<and> distinct (map rec_id (groups d)) \<and>
     distinct (map (\<lambda>g. (rec_tenant g, group_name g)) (groups d)) \<and>
     distinct (map member_key (device_groups d)) \<and>
     list_all (\<lambda>m. has_key tenant_id (dg_tenant m, dg_device m) (devices d) \<and>
                   has_key tenant_id (dg_tenant m, dg_group m) (groups d)) (device_groups d) \<and>
     list_all (\<lambda>r. rec_tenant r \<in> set (tenants d) \<and>
                   policy_ref_ok (rec_tenant r) (dev_policy_id r) d) (devices d)"

lemma has_key_upd_where [simp]:
  "(\<And>r. p r \<Longrightarrow> key (f r) = key r) \<Longrightarrow> has_key key k (upd_where p f rs) = has_key key k rs"
  by (simp only: has_key_def map_upd_where)

lemma has_key_append [simp]: "has_key key k (rs @ ss) \<longleftrightarrow> has_key key k rs \<or> has_key key k ss"
  by (simp add: has_key_def)

lemma policy_ref_ok_simps [simp]:
  "policy_ref_ok tn p (tenants_update f1 d) = policy_ref_ok tn p d"
  "policy_ref_ok tn p (roles_update f2 d) = policy_ref_ok tn p d"
  "policy_ref_ok tn p (users_update f3 d) = policy_ref_ok tn p d"
  "policy_ref_ok tn p (groups_update f4 d) = policy_ref_ok tn p d"
  "policy_ref_ok tn p (devices_update f5 d) = policy_ref_ok tn p d"
  "policy_ref_ok tn p (device_groups_update f6 d) = policy_ref_ok tn p d"
  "policy_ref_ok tn p (enrollment_tokens_update f7 d) = policy_ref_ok tn p d"
  "policy_ref_ok tn p (device_telemetry_update f8 d) = policy_ref_ok tn p d"
  "policy_ref_ok tn p (apps_update f9 d) = policy_ref_ok tn p d"
  "policy_ref_ok tn p (app_versions_update f10 d) = policy_ref_ok tn p d"
  "policy_ref_ok tn p (artifacts_update f11 d) = policy_ref_ok tn p d"
  "policy_ref_ok tn p (files_update f12 d) = policy_ref_ok tn p d"
  "policy_ref_ok tn p (certificates_update f13 d) = policy_ref_ok tn p d"
  "policy_ref_ok tn p (managed_files_update f14 d) = policy_ref_ok tn p d"
  "policy_ref_ok tn p (commands_update f15 d) = policy_ref_ok tn p d"
  "policy_ref_ok tn p (device_logs_update f16 d) = policy_ref_ok tn p d"
  "policy_ref_ok tn p (device_info_update f17 d) = policy_ref_ok tn p d"
  "policy_ref_ok tn p (policy_apps_update f18 d) = policy_ref_ok tn p d"
  "policy_ref_ok tn p (policy_certificates_update f19 d) = policy_ref_ok tn p d"
  "policy_ref_ok tn p (policy_managed_files_update f20 d) = policy_ref_ok tn p d"
  by (simp_all add: policy_ref_ok_def split: option.split)

lemma list_all_upd_where:
  "list_all P rs \<Longrightarrow> (\<And>r. r \<in> set rs \<Longrightarrow> p r \<Longrightarrow> P r \<Longrightarrow> P (f r)) \<Longrightarrow> list_all P (upd_where p f rs)"
  by (auto simp: upd_where_def list_all_iff)

lemma list_all_filterI: "list_all P rs \<Longrightarrow> list_all P (filter q rs)"
  by (simp add: list_all_iff)

text \<open>An update that keeps identity, tenant and policy reference keeps the schema.\<close>

lemma device_schema_update:
  assumes "device_schema d"
    and "\<And>r. r \<in> set (devices d) \<Longrightarrow> p r \<Longrightarrow> policy_ref_ok (rec_tenant r) (dev_policy_id (f r)) d"
    and "\<And>r. p r \<Longrightarrow> rec_tenant (f r) = rec_tenant r \<and> rec_id (f r) = rec_id r"
  shows "device_schema (devices_update (upd_where p f) d)"
proof -
  have "list_all (\<lambda>r. rec_tenant r \<in> set (tenants d) \<and> policy_ref_ok (rec_tenant r) (dev_policy_id r) d)
          (upd_where p f (devices d))"
    using assms(1) by (intro list_all_upd_where)
      (use assms(2,3) in \<open>simp_all add: device_schema_def list_all_iff\<close>)
  then show ?thesis
    using assms(1,3) by (simp add: device_schema_def map_upd_where tenant_id_def)
qed

lemma schema_insert_device [keeps_intros]:
  "stmt_keeps device_schema (insert_device tn i req p t)"
proof -
  have "device_schema d'" if d: "device_schema d"
    and ins: "insert_device tn i req p t pg d = Inr (rs, d')" for pg d rs d'
  proof -
    note new = devices_t.insert_Inr [OF ins [unfolded insert_device_def]]
    show ?thesis
      using d new by (auto simp: device_schema_def fresh_def list_all_iff)
  qed
  then show ?thesis by (auto simp: stmt_keeps_def)
qed

lemma schema_update_device [keeps_intros]:
  "stmt_keeps device_schema (update_device tn i req p t)"
  unfolding stmt_keeps_def update_device_def update_rows_def
  by (auto intro!: device_schema_update simp: by_id_def list_ex_iff split: if_splits)

lemma schema_insert_membership [keeps_intros]:
  "stmt_keeps device_schema (insert_membership tn i g)"
proof -
  have "device_schema d'" if d: "device_schema d"
    and ins: "insert_membership tn i g pg d = Inr (rs, d')" for pg d rs d'
  proof -
    note new = memberships_t.insert_Inr [OF ins [unfolded insert_membership_def]]
    show ?thesis
      using d new by (auto simp: device_schema_def list_all_iff list_ex_iff member_key_def)
  qed
  then show ?thesis by (auto simp: stmt_keeps_def)
qed

lemma schema_delete_memberships [keeps_intros]:
  "stmt_keeps device_schema (delete_memberships tn i)"
proof -
  have "device_schema (device_groups_update (filter p) d)" if d: "device_schema d" for p d
    using d by (simp add: device_schema_def distinct_map_filter list_all_filterI)
  then show ?thesis by (auto simp: stmt_keeps_def delete_memberships_def delete_rows_def)
qed

lemma schema_insert_group [keeps_intros]:
  "stmt_keeps device_schema (insert_group tn i name t)"
proof -
  have "device_schema d'" if d: "device_schema d"
    and ins: "insert_group tn i name t pg d = Inr (rs, d')" for pg d rs d'
  proof -
    note new = groups_t.insert_Inr [OF ins [unfolded insert_group_def]]
    show ?thesis
      using d new by (auto simp: device_schema_def fresh_def list_all_iff)
  qed
  then show ?thesis by (auto simp: stmt_keeps_def)
qed

lemma schema_retire_device:
  "stmt_keeps device_schema (\<lambda>pg d.
     case update_rows devices devices_update no_check (by_id tn i)
            (\<lambda>r. r\<lparr>rec_status := StatusRetired, deleted_at := Some t, updated_at := t\<rparr>) pg d of
       Inl e \<Rightarrow> Inl e
     | Inr (rs, d') \<Rightarrow> Inr (map (device_view d') rs, d'))"
proof -
  have "device_schema (devices_update (upd_where (by_id tn i)
      (\<lambda>r. r\<lparr>rec_status := StatusRetired, deleted_at := Some t, updated_at := t\<rparr>)) d)"
    if d: "device_schema d" for d
    using d by (intro device_schema_update [OF d]) (auto simp: device_schema_def list_all_iff)
  then show ?thesis by (auto simp: stmt_keeps_def)
qed

lemma group_schema_update:
  assumes "device_schema d" "\<And>r. p r \<Longrightarrow> rec_tenant (f r) = rec_tenant r \<and> rec_id (f r) = rec_id r"
    and "distinct (map (\<lambda>g. (rec_tenant g, group_name g)) (upd_where p f (groups d)))"
  shows "device_schema (groups_update (upd_where p f) d)"
  using assms by (simp add: device_schema_def map_upd_where tenant_id_def)

lemma keeps_provision [keeps_intros]: "keeps P (provision c)"
  by (auto simp: keeps_def post_def provision_def holds_def)

lemma post_provision [wp]:
  "post (provision c) w Q E =
     Q () (if has_provisioner (env w) then w\<lparr>prov_log := prov_log w @ [c]\<rparr> else w)"
  by (simp add: provision_def post_def)

lemma stays_provision [keeps_intros]: "stays (provision c)"
  by (simp add: stays_def wp)

lemma sure_provision [keeps_intros]: "sure (provision c)"
  by (simp add: sure_def wp)

lemma idles_provision [keeps_intros]: "idles (provision c)"
  by (simp add: idles_def wp)

lemma reads_ensureActiveGroups [keeps_intros]: "reads (ensureActiveGroups tn gs)"
  unfolding ensureActiveGroups_def by (intro keeps_intros)

lemma keeps_reads: "reads m \<Longrightarrow> keeps P m"
  unfolding reads_def keeps_def by (auto simp: holds_def intro: post_mono)

lemma keeps_ensureActiveGroups [keeps_intros]: "keeps P (ensureActiveGroups tn gs)"
  by (intro keeps_reads keeps_intros)

lemma reads_loadDevice [keeps_intros]: "reads (loadDevice tn i)"
  unfolding loadDevice_def by (intro keeps_intros)

lemma keeps_loadDevice [keeps_intros]: "keeps P (loadDevice tn i)"
  by (intro keeps_reads keeps_intros)

lemma keeps_get_by_id [keeps_intros]: "keeps P (get_by_id get tn i)"
  by (intro keeps_reads keeps_intros)

lemmas device_ops = CreateDevice_def UpdateDevice_def RetireDevice_def GetDevice_def ListDevices_def
  ListActiveDevices_def GetOverviewStats_def GetStatusCounts_def Authenticate_def
  scanAuthenticatedDevice_def

lemmas group_ops = CreateGroup_def UpdateGroup_def RetireGroup_def GetGroup_def ListGroups_def
  ListActiveGroups_def ListGroupDevices_def

text \<open>Every operation of the two stores keeps the schema, whichever statements fail.\<close>

lemma schema_device_ops:
  "keeps device_schema (CreateDevice tn req)" "keeps device_schema (UpdateDevice tn i req)"
  "keeps device_schema (RetireDevice tn i)" "keeps device_schema (Authenticate tn i secret)"
  unfolding device_ops Let_def by (intro keeps_intros schema_retire_device)+

lemma schema_group_ops:
  "keeps device_schema (CreateGroup tn name)" "keeps device_schema (UpdateGroup tn i name)"
  "keeps device_schema (RetireGroup tn i)"
proof -
  show "keeps device_schema (CreateGroup tn name)"
    unfolding group_ops by (intro keeps_intros)
  have upd: "stmt_keeps device_schema (update_rows groups groups_update
      (\<lambda>d. if list_ex (\<lambda>r. rec_tenant r = tn \<and> group_name r = name \<and> rec_id r \<noteq> i) (groups d)
           then Some PgUnique else None)
      (by_id tn i) (\<lambda>r. r\<lparr>group_name := name, updated_at := t\<rparr>))" for t
  proof -
    have "distinct (map (\<lambda>g. (rec_tenant g, group_name g))
        (upd_where (by_id tn i) (\<lambda>r. r\<lparr>group_name := name, updated_at := t\<rparr>) (groups d)))"
      if "device_schema d" "list_ex (by_id tn i) (groups d) \<Longrightarrow>
          \<not> list_ex (\<lambda>r. rec_tenant r = tn \<and> group_name r = name \<and> rec_id r \<noteq> i) (groups d)" for d
    proof (cases "list_ex (by_id tn i) (groups d)")
      case True
      then show ?thesis using that by (intro distinct_rename) (auto simp: device_schema_def)
    next
      case False
      then show ?thesis
        using that by (simp add: upd_where_none list_ex_iff device_schema_def)
    qed
    then show ?thesis
      unfolding stmt_keeps_def update_rows_def
      by (auto intro!: group_schema_update split: if_splits)
  qed
  show "keeps device_schema (UpdateGroup tn i name)"
    unfolding group_ops by (intro keeps_intros upd)
  have "stmt_keeps device_schema (update_rows groups groups_update no_check (by_id tn i) (retire_row t))" for t
    unfolding stmt_keeps_def
  proof (intro allI impI)
    fix pg d x d' assume d: "device_schema d"
      and "update_rows groups groups_update no_check (by_id tn i) (retire_row t) pg d = Inr (x, d')"
    moreover have "device_schema (groups_update (upd_where (by_id tn i) (retire_row t)) d)"
      by (rule group_schema_update) (use d in \<open>simp_all add: map_upd_where retire_row_def device_schema_def\<close>)
    ultimately show "device_schema d'" by simp
  qed
  then show "keeps device_schema (RetireGroup tn i)"
    unfolding group_ops retire_by_id_def by (intro keeps_intros)
qed

text \<open>An operation that returns an error has changed nothing.\<close>

lemma atomic_device_ops:
  "atomic (CreateDevice tn req)" "atomic (UpdateDevice tn i req)" "atomic (RetireDevice tn i)"
proof -
  show "atomic (CreateDevice tn req)"
    unfolding device_ops Let_def by (intro keeps_intros tx_intros reads_stays)
  show "atomic (UpdateDevice tn i req)"
    unfolding device_ops Let_def update_device_def by (intro keeps_intros tx_intros reads_stays)
  have "atomic (exec_row (\<lambda>pg d.
      case update_rows devices devices_update no_check (by_id tn i)
             (\<lambda>r. r\<lparr>rec_status := StatusRetired, deleted_at := Some t, updated_at := t\<rparr>) pg d of
        Inl e \<Rightarrow> Inl e
      | Inr (rs, d') \<Rightarrow> Inr (map (device_view d') rs, d')))" for t
    by (rule atomic_exec_row) (auto simp: returning_Nil_upd)
  then show "atomic (RetireDevice tn i)"
    unfolding device_ops by (intro keeps_intros tx_intros atomic_bind_sure atomic_no_rows_as)
qed

lemma atomic_group_ops:
  "atomic (CreateGroup tn name)" "atomic (UpdateGroup tn i name)" "atomic (RetireGroup tn i)"
  unfolding group_ops retire_by_id_def insert_group_def by (intro keeps_intros tx_intros | simp)+

section \<open>What the operations do\<close>

lemma post_ensureActiveGroups:
  "post (ensureActiveGroups tn gs) w
     (\<lambda>_ w'. db w' = db w \<and> txn w' = txn w \<and>
        (\<forall>g \<in> set gs. g \<noteq> [] \<longrightarrow> (\<exists>r \<in> set (groups (db w)). by_id tn g r \<and> rec_status r = ''active'')))
     (\<lambda>_ _. True)"
proof (induction gs arbitrary: w)
  case Nil
  then show ?case by (simp add: ensureActiveGroups_def wp)
next
  case (Cons g gs)
  note IH = Cons.IH [unfolded ensureActiveGroups_def]
  show ?case
  proof (cases "g = []")
    case True
    then show ?thesis
      unfolding ensureActiveGroups_def by (simp add: wp) (rule post_mono [OF IH]; simp)
  next
    case False
    let ?f = "filter (\<lambda>r. by_id tn g r \<and> rec_status r = ''active'') (groups (db w))"
    have "\<exists>r \<in> set (groups (db w)). by_id tn g r \<and> rec_status r = ''active''" if "?f = r # rs" for r rs
      using filter_eq_ConsD [OF that] by auto
    with False show ?thesis
      unfolding ensureActiveGroups_def
      by (auto simp: wp split: list.splits intro!: post_mono [OF IH])
  qed
qed

lemma insert_membership_eq:
  "insert_membership tn i g t d =
     (if list_ex (\<lambda>m. dg_tenant m = tn \<and> dg_device m = i \<and> dg_group m = g) (device_groups d)
      then Inl PgUnique
      else if \<not> (has_key tenant_id (tn, i) (devices d) \<and> has_key tenant_id (tn, g) (groups d))
      then Inl PgForeignKey
      else Inr ([\<lparr>dg_tenant = tn, dg_device = i, dg_group = g\<rparr>],
                device_groups_update (\<lambda>ms. ms @ [\<lparr>dg_tenant = tn, dg_device = i, dg_group = g\<rparr>]) d))"
  by (simp add: insert_membership_def insert_row_def insert_into_def)

lemma post_insert_memberships:
  "post (mapE (\<lambda>g. exec (insert_membership tn i g)) gs) w
     (\<lambda>_ w'. txn w' = txn w \<and> db w' = device_groups_update
        (\<lambda>ms. ms @ map (\<lambda>g. \<lparr>dg_tenant = tn, dg_device = i, dg_group = g\<rparr>) gs) (db w))
     (\<lambda>_ _. True)"
proof (induction gs arbitrary: w)
  case Nil
  then show ?case by (simp add: wp)
next
  case (Cons g gs)
  show ?case
    unfolding mapE.simps
    by (auto simp: wp insert_membership_eq comp_def intro!: post_mono [OF Cons.IH])
qed

text \<open>The groups of a device after its memberships have been written.\<close>

lemma device_group_ids_written:
  assumes "\<forall>m \<in> set ms. \<not> (dg_tenant m = rec_tenant r \<and> dg_device m = rec_id r)"
    and "device_groups d = ms @ map (\<lambda>g. \<lparr>dg_tenant = rec_tenant r, dg_device = rec_id r, dg_group = g\<rparr>) gs"
  shows "device_group_ids d r = sort (remdups gs)"
  using assms by (simp add: device_group_ids_def filter_False filter_map comp_def)

lemma no_memberships_of_fresh:
  assumes "device_schema d" "fresh rec_id i (devices d)" "m \<in> set (device_groups d)"
  shows "dg_device m \<noteq> i"
  using assms by (auto simp: device_schema_def list_all_iff has_key_def fresh_def tenant_id_def)

definition new_device :: "world \<Rightarrow> string \<Rightarrow> device_upsert \<Rightarrow> device_row" where
  "new_device w tn req =
     \<lparr>rec_id = uuid_src (env w) (uuid_no w), rec_tenant = tn, rec_status = ''pending'',
      created_at = pg_clock (env w) (stmts w), updated_at = clock_src (env w) (ticks w),
      deleted_at = None, dev_name = du_name req, dev_secret_hash = du_secret_hash req,
      dev_policy_id = policy_ref (du_policy_id req), dev_extras = None\<rparr>"

definition memberships_of :: "string \<Rightarrow> string \<Rightarrow> string list \<Rightarrow> membership list" where
  "memberships_of tn i gs = map (\<lambda>g. \<lparr>dg_tenant = tn, dg_device = i, dg_group = g\<rparr>) gs"

definition active_group :: "database \<Rightarrow> string \<Rightarrow> string \<Rightarrow> bool" where
  "active_group d tn g \<longleftrightarrow> (\<exists>r \<in> set (groups d). by_id tn g r \<and> rec_status r = ''active'')"

lemma insert_device_eq:
  "insert_device tn i req p t pg d =
     (if \<not> fresh rec_id i (devices d) then Inl PgUnique
      else if \<not> (tn \<in> set (tenants d) \<and> policy_ref_ok tn p d) then Inl PgForeignKey
      else let r = \<lparr>rec_id = i, rec_tenant = tn, rec_status = ''pending'', created_at = pg,
              updated_at = t, deleted_at = None, dev_name = du_name req,
              dev_secret_hash = du_secret_hash req, dev_policy_id = p, dev_extras = None\<rparr>
        in Inr ([r], devices_update (\<lambda>rs. rs @ [r]) d))"
  by (simp add: insert_device_def insert_row_def insert_into_def StatusPending_def Let_def)

lemma post_loadDevice [wp]:
  "post (loadDevice tn i) w Q E =
     (if faulty w then E PgFault (tick_stmt w)
      else case filter (by_id tn i) (devices (db w)) of
          [] \<Rightarrow> E ErrNotFound (tick_stmt w)
        | r # _ \<Rightarrow> Q (device_view (db w) r) (tick_stmt w))"
  by (simp add: loadDevice_def wp split: list.splits)

lemma post_CreateDevice:
  assumes "txn w = None" "device_schema (db w)"
  shows "post (CreateDevice tn req) w
     (\<lambda>dv w'. let gs = uniqueStrings (du_group_ids req); r = new_device w tn req in
        dv = scanDevice r gs \<and> devices (db w') = devices (db w) @ [r] \<and>
        device_groups (db w') = device_groups (db w) @ memberships_of tn (rec_id r) gs \<and>
        (\<forall>g \<in> set gs. active_group (db w) tn g))
     (\<lambda>_ _. True)"
proof -
  let ?gs = "uniqueStrings (du_group_ids req)" and ?r = "new_device w tn req"
  let ?d = "devices_update (\<lambda>rs. rs @ [?r]) (db w)"
  have view: "device_view d ?r = scanDevice ?r ?gs"
    if "device_groups d = device_groups (db w) @ memberships_of tn (rec_id ?r) ?gs"
      "fresh rec_id (uuid_src (env w) (uuid_no w)) (devices (db w))" for d
  proof -
    have "device_group_ids d ?r = sort (remdups ?gs)"
      by (rule device_group_ids_written [where ms = "device_groups (db w)"])
        (use that no_memberships_of_fresh [OF assms(2) that(2)] in
          \<open>auto simp: memberships_of_def new_device_def\<close>)
    then show ?thesis by (simp add: device_view_def)
  qed
  have ne: "g \<noteq> []" if "g \<in> set ?gs" for g using that by (auto simp: set_uniqueStrings)
  have none: "filter (by_id tn (rec_id ?r)) (devices (db w)) = []"
    if "fresh rec_id (uuid_src (env w) (uuid_no w)) (devices (db w))"
    using filter_by_id_fresh [OF that] by (simp add: new_device_def)
  have new: "by_id tn (rec_id ?r) ?r" by (simp add: by_id_def new_device_def)
  have act: "active_group (db w) tn g"
    if "\<forall>g\<in>set ?gs. g \<noteq> [] \<longrightarrow> (\<exists>r\<in>set (groups (db w)). by_id tn g r \<and> rec_status r = ''active'')"
      "g \<in> set ?gs" for g
    using that ne by (auto simp: active_group_def)
  show ?thesis
  proof (cases "du_name req = [] \<or> du_secret_hash req = []")
    case True
    then show ?thesis by (simp add: CreateDevice_def wp)
  next
    case False
    note fold_new = new_device_def [of w tn req, symmetric]
    show ?thesis
      using False unfolding CreateDevice_def Let_def
      apply (simp add: wp)
      apply (intro impI)
      apply (rule post_mono [OF post_ensureActiveGroups])
       apply (simp_all add: insert_device_eq Let_def pg_now_def fold_new)
      apply (intro impI)
      apply (rule post_mono [OF post_insert_memberships])
       apply (simp_all add: db_rollback none new view memberships_of_def act)
      done
  qed
qed

definition updated_device :: "int \<Rightarrow> device_upsert \<Rightarrow> device_row \<Rightarrow> device_row" where
  "updated_device t req r = r\<lparr>dev_name := du_name req,
     dev_secret_hash := (if du_secret_hash req = [] then dev_secret_hash r else du_secret_hash req),
     dev_policy_id := policy_ref (du_policy_id req), updated_at := t\<rparr>"

lemma update_device_eq:
  "update_device tn i req (policy_ref (du_policy_id req)) t pg d =
     (if list_ex (by_id tn i) (devices d) \<and> \<not> policy_ref_ok tn (policy_ref (du_policy_id req)) d
      then Inl PgForeignKey
      else Inr (returning (by_id tn i) (updated_device t req) (devices d),
                devices_update (upd_where (by_id tn i) (updated_device t req)) d))"
proof -
  have "(\<lambda>r. r\<lparr>dev_name := du_name req,
      dev_secret_hash := (if du_secret_hash req = [] then dev_secret_hash r else du_secret_hash req),
      dev_policy_id := policy_ref (du_policy_id req), updated_at := t\<rparr>) = updated_device t req"
    by (simp add: fun_eq_iff updated_device_def)
  then show ?thesis by (simp add: update_device_def update_rows_def)
qed

lemma updated_device_simps [simp]:
  "rec_id (updated_device t req r) = rec_id r" "rec_tenant (updated_device t req r) = rec_tenant r"
  "rec_status (updated_device t req r) = rec_status r" "by_id tn i (updated_device t req r) = by_id tn i r"
  by (simp_all add: updated_device_def by_id_def)

lemma delete_memberships_eq:
  "delete_memberships tn i t d =
     Inr (int (length (filter (\<lambda>m. dg_tenant m = tn \<and> dg_device m = i) (device_groups d))),
          device_groups_update (filter (\<lambda>m. \<not> (dg_tenant m = tn \<and> dg_device m = i))) d)"
  by (simp add: delete_memberships_def delete_rows_def)

lemma post_UpdateDevice:
  assumes "txn w = None" "device_schema (db w)"
  shows "post (UpdateDevice tn i req) w
     (\<lambda>dv w'. \<exists>r \<in> set (devices (db w)). by_id tn i r \<and>
        (let gs = uniqueStrings (du_group_ids req);
             f = updated_device (clock_src (env w) (ticks w)) req
         in dv = scanDevice (f r) gs \<and>
            devices (db w') = upd_where (by_id tn i) f (devices (db w)) \<and>
            device_groups (db w') =
              filter (\<lambda>m. \<not> (dg_tenant m = tn \<and> dg_device m = i)) (device_groups (db w))
              @ memberships_of tn i gs \<and>
            (\<forall>g \<in> set gs. active_group (db w) tn g)))
     (\<lambda>_ _. True)"
proof (cases "list_ex (by_id tn i) (devices (db w)) \<and> du_name req \<noteq> []")
  case False
  then show ?thesis
    by (cases "du_name req = []")
      (auto simp: UpdateDevice_def Let_def wp update_device_eq returning_def filter_False list_ex_iff
        intro!: post_mono [OF post_ensureActiveGroups])
next
  case True
  then obtain r where r: "r \<in> set (devices (db w))" "by_id tn i r" by (auto simp: list_ex_iff)
  have one: "filter (by_id tn i) (devices (db w)) = [r]"
    using assms(2) r by (intro devices_t.by_id_single) (auto simp: device_schema_def)
  let ?gs = "uniqueStrings (du_group_ids req)" and ?f = "updated_device (clock_src (env w) (ticks w)) req"
  have view: "device_view d (?f r) = scanDevice (?f r) ?gs"
    if "device_groups d = filter (\<lambda>m. dg_tenant m = tn \<longrightarrow> dg_device m \<noteq> i) ms @ memberships_of tn i ?gs"
    for d ms
  proof -
    have "device_group_ids d (?f r) = sort (remdups ?gs)"
      by (rule device_group_ids_written
            [where ms = "filter (\<lambda>m. dg_tenant m = tn \<longrightarrow> dg_device m \<noteq> i) ms"])
        (use that r(2) in \<open>auto simp: memberships_of_def by_id_def\<close>)
    then show ?thesis by (simp add: device_view_def)
  qed
  have act: "active_group (db w) tn g"
    if "\<forall>g\<in>set ?gs. g \<noteq> [] \<longrightarrow> (\<exists>r\<in>set (groups (db w)). by_id tn g r \<and> rec_status r = ''active'')"
      "g \<in> set ?gs" for g
    using that by (auto simp: active_group_def set_uniqueStrings)
  have id: "rec_id r = i" using r(2) by (simp add: by_id_def)
  show ?thesis
    using True unfolding UpdateDevice_def Let_def
    apply (simp add: wp)
    apply (intro impI)
    apply (rule post_mono [OF post_ensureActiveGroups])
     apply (simp_all add: update_device_eq delete_memberships_eq one returning_single id)
    apply (intro impI)
    apply (rule post_mono [OF post_insert_memberships])
     apply (simp_all add: db_rollback filter_upd_where one)
    using r view act
    apply (auto simp: memberships_of_def intro!: bexI [of _ r])
    done
qed

lemma fst_Authenticate:
  assumes "no_faults w"
  shows "fst (Authenticate tn i secret w) =
     (if tn = [] \<or> i = [] \<or> secret = [] then Inl ErrInvalidInput
      else case filter (\<lambda>r. by_id tn i r \<and> dev_secret_hash r = HashToken (sha256 (env w)) secret)
                  (devices (db w)) of
          [] \<Rightarrow> Inl ErrNotFound
        | r # _ \<Rightarrow> if canAuthenticateDeviceStatus (rec_status r)
                   then Inr (device_view (db w) r) else Inl ErrNotFound)"
  by (rule fst_eq_post)
    (use assms in \<open>auto simp: Authenticate_def scanAuthenticatedDevice_def wp split: list.splits\<close>)

lemma Authenticate_Inr:
  assumes "fst (Authenticate tn i secret w) = Inr dv"
  shows "\<exists>r \<in> set (devices (db w)). by_id tn i r \<and>
    dev_secret_hash r = HashToken (sha256 (env w)) secret \<and>
    rec_status r \<noteq> ''retired'' \<and> rec_status r \<noteq> ''wiped'' \<and> dv = device_view (db w) r"
proof -
  have "post (Authenticate tn i secret) w (\<lambda>dv _. \<exists>r \<in> set (devices (db w)). by_id tn i r \<and>
    dev_secret_hash r = HashToken (sha256 (env w)) secret \<and>
    rec_status r \<noteq> ''retired'' \<and> rec_status r \<noteq> ''wiped'' \<and> dv = device_view (db w) r) (\<lambda>_ _. True)"
    by (auto simp: Authenticate_def scanAuthenticatedDevice_def wp canAuthenticateDeviceStatus_def
        device_statuses filter_eq_Cons_iff split: list.splits)
  from post_fst_Inr [OF this assms] show ?thesis .
qed

lemma reads_Authenticate [keeps_intros]: "reads (Authenticate tn i secret)"
  unfolding Authenticate_def scanAuthenticatedDevice_def by (intro keeps_intros)

definition retired_device :: "int \<Rightarrow> device_row \<Rightarrow> device_row" where
  "retired_device t r = r\<lparr>rec_status := ''retired'', deleted_at := Some t, updated_at := t\<rparr>"

lemma post_RetireDevice:
  assumes "device_schema (db w)"
  shows "post (RetireDevice tn i) w
     (\<lambda>dv w'. \<exists>r \<in> set (devices (db w)). by_id tn i r \<and>
        (let f = retired_device (clock_src (env w) (ticks w))
         in dv = device_view (db w') (f r) \<and>
            db w' = devices_update (upd_where (by_id tn i) f) (db w) \<and>
            prov_log w' = (if has_provisioner (env w) then prov_log w @ [ProvDisable i] else prov_log w)))
     (\<lambda>e w'. db w' = db w \<and> prov_log w' = prov_log w)"
proof -
  have f: "(\<lambda>r. r\<lparr>rec_status := StatusRetired, deleted_at := Some t, updated_at := t\<rparr>) = retired_device t" for t
    by (simp add: fun_eq_iff retired_device_def StatusRetired_def)
  show ?thesis
  proof (cases "\<exists>r \<in> set (devices (db w)). by_id tn i r")
    case True
    then obtain r where r: "r \<in> set (devices (db w))" "by_id tn i r" by auto
    then have "filter (by_id tn i) (devices (db w)) = [r]"
      using assms by (intro devices_t.by_id_single) (auto simp: device_schema_def)
    with r show ?thesis
      unfolding RetireDevice_def f
      by (auto simp: wp returning_single Let_def by_id_def retired_device_def intro!: bexI [of _ r])
  next
    case False
    then show ?thesis
      unfolding RetireDevice_def f
      by (auto simp: wp returning_def filter_False upd_where_none Let_def)
  qed
qed

section \<open>The life of a device\<close>

text \<open>
  A device row keeps its tenant and its creation time; its status only moves from \<open>pending\<close>
  to \<open>enrolled\<close>, from there to \<open>active\<close>, and from anything to \<open>retired\<close>; its extras are only
  written while pending.
\<close>

definition device_step :: "device_row \<Rightarrow> device_row \<Rightarrow> bool" where
  "device_step r r' \<longleftrightarrow>
     rec_tenant r' = rec_tenant r \<and> created_at r' = created_at r \<and>
     (rec_status r' = rec_status r \<or> rec_status r' = ''retired'' \<or>
      rec_status r = ''pending'' \<and> rec_status r' = ''enrolled'' \<or>
      rec_status r \<in> {''pending'', ''enrolled''} \<and> rec_status r' = ''active'') \<and>
     (dev_extras r' = dev_extras r \<or> rec_status r = ''pending'')"

interpretation devices_e: evolving devices devices_update rec_id device_step
  by unfold_locales (auto simp: device_step_def)

lemma device_ops_evolve:
  "evolves devices rec_id device_step (CreateDevice tn req)"
  "evolves devices rec_id device_step (UpdateDevice tn i req)"
  "evolves devices rec_id device_step (RetireDevice tn i)"
proof -
  note intros = devices_e.evolvesI keeps_intros
  have members: "stmt_keeps (\<lambda>d. rows_evolve rec_id device_step (devices d0) (devices d))
      (insert_membership tn i g)" for d0 :: database and tn i g
    by (rule devices_e.stmt_elsewhere) (auto simp: insert_membership_eq split: if_splits)
  show "evolves devices rec_id device_step (CreateDevice tn req)"
    unfolding CreateDevice_def Let_def insert_device_def
    by (intro intros members devices_e.insert_evolves)
  show "evolves devices rec_id device_step (UpdateDevice tn i req)"
    unfolding UpdateDevice_def Let_def
    apply (intro intros members)
     apply (unfold update_device_def)
     apply (rule devices_e.update_evolves, simp add: device_step_def)
    apply (rule devices_e.stmt_elsewhere, auto simp: delete_memberships_eq)
    done
  show "evolves devices rec_id device_step (RetireDevice tn i)"
    unfolding RetireDevice_def
    by (intro intros devices_e.stmt_evolves)
      (auto intro!: devices_e.evolve_update simp: device_step_def StatusRetired_def)
qed

section \<open>Properties\<close>

text \<open>A database with an active group, and one with a device in it.\<close>

definition group_database :: database where
  "group_database = empty_database\<lparr>groups := [sample_group]\<rparr>"

definition device_database :: "string \<Rightarrow> database" where
  "device_database st = group_database\<lparr>devices := [sample_device ''d'' st (sample_hash ''s'')],
     device_groups := [\<lparr>dg_tenant = ''t'', dg_device = ''d'', dg_group = ''g''\<rparr>]\<rparr>"

definition sample_upsert :: device_upsert where
  "sample_upsert = \<lparr>du_name = ''tablet'', du_secret_hash = ''h'', du_policy_id = [], du_group_ids = ['' g '', ''g'', []]\<rparr>"

lemma device_schema_samples:
  "device_schema group_database" "device_schema (device_database st)"
  by (simp_all add: device_schema_def group_database_def device_database_def empty_database_def
      sample_group_def sample_device_def member_key_def has_key_def tenant_id_def policy_ref_ok_def)

text \<open>
  The group identifiers of a request are normalised: every identifier is trimmed, blank
  ones are dropped, each occurs once, and the result is in order.
\<close>

theorem uniqueStrings_normalises:
  "set (uniqueStrings xs) = {g. g \<noteq> [] \<and> (\<exists>x. x \<in> set xs \<and> TrimSpace x = g)} \<and>
   distinct (uniqueStrings xs) \<and> sorted (uniqueStrings xs)"
  by (auto simp: set_uniqueStrings distinct_uniqueStrings sorted_uniqueStrings)

text \<open>
  A device that is created is pending, carries the name, secret hash and policy of the
  request and a fresh identifier, is a member of exactly the requested groups, all of which
  are active, and nothing else in the two tables changes. The answer shows the row and its groups.
\<close>

theorem CreateDevice_creates:
  assumes "fst (CreateDevice tn req w) = Inr dv" "txn w = None" "device_schema (db w)"
  shows "let d' = db (snd (CreateDevice tn req w)); gs = uniqueStrings (du_group_ids req) in
    \<exists>r. devices d' = devices (db w) @ [r] \<and> rec_id r \<notin> rec_id ` set (devices (db w)) \<and>
      rec_tenant r = tn \<and> rec_status r = ''pending'' \<and> dev_name r = du_name req \<and>
      dev_secret_hash r = du_secret_hash req \<and> dev_policy_id r = policy_ref (du_policy_id req) \<and>
      device_groups d' = device_groups (db w) @ memberships_of tn (rec_id r) gs \<and>
      (\<forall>g \<in> set gs. active_group (db w) tn g) \<and> dv = scanDevice r gs \<and> device_schema d'"
proof -
  let ?w = "snd (CreateDevice tn req w)"
  have "holds device_schema ?w"
    using keepsD [OF schema_device_ops(1), of w tn req] assms(2,3) by (simp add: holds_def)
  then have d: "device_schema (db ?w)" by (simp add: holds_def)
  moreover have "rec_id r \<notin> rec_id ` set (devices (db w))" if "devices (db ?w) = devices (db w) @ [r]" for r
    using d that by (simp add: device_schema_def)
  ultimately show ?thesis
    using post_fst_Inr [OF post_CreateDevice [OF assms(2,3)] assms(1)]
    by (auto simp: Let_def new_device_def)
qed

theorem CreateDevice_creates_witness:
  "\<exists>dv. fst (CreateDevice ''t'' sample_upsert (world_of group_database)) = Inr dv \<and>
     dv_group_ids dv = [''g'']"
proof -
  let ?w = "world_of group_database"
  have "case fst (CreateDevice ''t'' sample_upsert ?w) of Inr dv \<Rightarrow> True | Inl e \<Rightarrow> False"
    by code_simp
  then obtain dv where dv: "fst (CreateDevice ''t'' sample_upsert ?w) = Inr dv"
    by (auto split: sum.splits)
  from CreateDevice_creates [OF dv] obtain r where "dv = scanDevice r (uniqueStrings (du_group_ids sample_upsert))"
    by (auto simp: device_schema_samples Let_def)
  moreover have "uniqueStrings (du_group_ids sample_upsert) = [''g'']" by code_simp
  ultimately show ?thesis using dv by (simp add: scanDevice_def)
qed

text \<open>
  An update rewrites the name and the policy of the one device with that identifier, its
  secret only if the request gives one, and its memberships to exactly the requested groups;
  its status, and every other device and membership, stay as they were.
\<close>

theorem UpdateDevice_updates:
  assumes "fst (UpdateDevice tn i req w) = Inr dv" "txn w = None" "device_schema (db w)"
  shows "let d' = db (snd (UpdateDevice tn i req w)); gs = uniqueStrings (du_group_ids req) in
    \<exists>r r'. r \<in> set (devices (db w)) \<and> by_id tn i r \<and>
      devices d' = upd_where (by_id tn i) (\<lambda>_. r') (devices (db w)) \<and>
      rec_id r' = i \<and> rec_tenant r' = tn \<and> rec_status r' = rec_status r \<and> created_at r' = created_at r \<and>
      dev_name r' = du_name req \<and> dev_policy_id r' = policy_ref (du_policy_id req) \<and>
      dev_secret_hash r' = (if du_secret_hash req = [] then dev_secret_hash r else du_secret_hash req) \<and>
      filter (\<lambda>m. dg_tenant m = tn \<and> dg_device m = i) (device_groups d') = memberships_of tn i gs \<and>
      filter (\<lambda>m. \<not> (dg_tenant m = tn \<and> dg_device m = i)) (device_groups d') =
        filter (\<lambda>m. \<not> (dg_tenant m = tn \<and> dg_device m = i)) (device_groups (db w)) \<and>
      (\<forall>g \<in> set gs. active_group (db w) tn g) \<and> dv = scanDevice r' gs"
proof -
  let ?gs = "uniqueStrings (du_group_ids req)" and ?f = "updated_device (clock_src (env w) (ticks w)) req"
  have mine: "filter (\<lambda>m. dg_tenant m = tn \<and> dg_device m = i) (memberships_of tn i ?gs) = memberships_of tn i ?gs"
    "filter (\<lambda>m. dg_tenant m = tn \<longrightarrow> dg_device m \<noteq> i) (memberships_of tn i ?gs) = []"
    "filter (\<lambda>m. (dg_tenant m = tn \<longrightarrow> dg_device m \<noteq> i) \<and> dg_tenant m = tn \<and> dg_device m = i) ms = []" for ms
    by (auto simp: memberships_of_def filter_empty_conv)
  obtain r where r: "r \<in> set (devices (db w))" "by_id tn i r" "dv = scanDevice (?f r) ?gs"
    "devices (db (snd (UpdateDevice tn i req w))) = upd_where (by_id tn i) ?f (devices (db w))"
    "device_groups (db (snd (UpdateDevice tn i req w))) =
        filter (\<lambda>m. \<not> (dg_tenant m = tn \<and> dg_device m = i)) (device_groups (db w)) @ memberships_of tn i ?gs"
    "\<forall>g \<in> set ?gs. active_group (db w) tn g"
    using post_fst_Inr [OF post_UpdateDevice [OF assms(2,3)] assms(1)] by (auto simp: Let_def)
  have ids: "distinct (map rec_id (devices (db w)))" using assms(3) by (simp add: device_schema_def)
  have only: "s = r" if "s \<in> set (devices (db w))" "by_id tn i s" for s
    using distinct_key_unique [OF ids that(1) r(1)] that(2) r(2) by (simp add: by_id_def)
  have "upd_where (by_id tn i) ?f (devices (db w)) = upd_where (by_id tn i) (\<lambda>_. ?f r) (devices (db w))"
    by (rule upd_where_cong) (auto dest: only)
  then show ?thesis
    unfolding Let_def
    by (intro exI [of _ r] exI [of _ "?f r"]) (use r in \<open>simp add: mine by_id_def, simp add: updated_device_def\<close>)
qed

theorem UpdateDevice_updates_witness:
  "\<exists>dv r. fst (UpdateDevice ''t'' ''d'' sample_upsert (world_of (device_database ''active''))) = Inr dv \<and>
     dv = scanDevice r [''g''] \<and> rec_status r = ''active''"
proof -
  let ?w = "world_of (device_database ''active'')"
  have "case fst (UpdateDevice ''t'' ''d'' sample_upsert ?w) of Inr dv \<Rightarrow> True | Inl e \<Rightarrow> False"
    by code_simp
  then obtain dv where dv: "fst (UpdateDevice ''t'' ''d'' sample_upsert ?w) = Inr dv"
    by (auto split: sum.splits)
  from UpdateDevice_updates [OF dv] obtain r r' where
    "r \<in> set (devices (device_database ''active''))" "rec_status r' = rec_status r"
    "dv = scanDevice r' (uniqueStrings (du_group_ids sample_upsert))"
    by (auto simp: device_schema_samples Let_def)
  moreover have "uniqueStrings (du_group_ids sample_upsert) = [''g'']" by code_simp
  ultimately show ?thesis using dv by (auto simp: device_database_def sample_device_def)
qed

text \<open>
  Retiring a device marks it retired and deleted, changes no other row, and has its broker
  account disabled when a provisioner is configured; from then on no secret authenticates it.
\<close>

theorem RetireDevice_retires:
  assumes "fst (RetireDevice tn i w) = Inr dv" "device_schema (db w)"
    and "db w1 = db (snd (RetireDevice tn i w))"
  shows "(\<exists>r t. r \<in> set (devices (db w)) \<and> by_id tn i r \<and>
      devices (db w1) = upd_where (by_id tn i)
        (\<lambda>_. r\<lparr>rec_status := ''retired'', deleted_at := Some t, updated_at := t\<rparr>) (devices (db w)) \<and>
      device_groups (db w1) = device_groups (db w)) \<and>
    (has_provisioner (env w) \<longrightarrow> prov_log (snd (RetireDevice tn i w)) = prov_log w @ [ProvDisable i]) \<and>
    fst (Authenticate tn i secret w1) \<noteq> Inr dv'"
proof -
  let ?f = "retired_device (clock_src (env w) (ticks w))"
  obtain r where r: "r \<in> set (devices (db w))" "by_id tn i r"
    "db w1 = devices_update (upd_where (by_id tn i) ?f) (db w)"
    "has_provisioner (env w) \<longrightarrow> prov_log (snd (RetireDevice tn i w)) = prov_log w @ [ProvDisable i]"
    using post_fst_Inr [OF post_RetireDevice [OF assms(2)] assms(1)] assms(3) by (auto simp: Let_def)
  have ids: "distinct (map rec_id (devices (db w)))" using assms(2) by (simp add: device_schema_def)
  have only: "s = r" if "s \<in> set (devices (db w))" "by_id tn i s" for s
    using distinct_key_unique [OF ids that(1) r(1)] that(2) r(2) by (simp add: by_id_def)
  have "upd_where (by_id tn i) ?f (devices (db w)) = upd_where (by_id tn i) (\<lambda>_. ?f r) (devices (db w))"
    by (rule upd_where_cong) (auto dest: only)
  then have rows: "devices (db w1) = upd_where (by_id tn i) (\<lambda>_. ?f r) (devices (db w))" by (simp add: r(3))
  have "fst (Authenticate tn i secret w1) \<noteq> Inr dv'"
  proof
    assume "fst (Authenticate tn i secret w1) = Inr dv'"
    from Authenticate_Inr [OF this] obtain s
      where "s \<in> set (devices (db w1))" "by_id tn i s" "rec_status s \<noteq> ''retired''" by blast
    then show False by (auto simp: rows set_upd_where retired_device_def)
  qed
  moreover have "rec_status (?f r) = ''retired''" "device_groups (db w1) = device_groups (db w)"
    by (simp_all add: r(3) retired_device_def)
  ultimately show ?thesis using r(1,2,4) rows unfolding retired_device_def by blast
qed

theorem RetireDevice_retires_witness:
  "\<exists>w1. fst (Authenticate ''t'' ''d'' ''s'' (world_of (device_database ''active''))) = Inr
       (device_view (device_database ''active'') (sample_device ''d'' ''active'' (sample_hash ''s''))) \<and>
     db w1 = db (snd (RetireDevice ''t'' ''d'' (world_of (device_database ''active'')))) \<and>
     (\<forall>dv. fst (Authenticate ''t'' ''d'' ''s'' w1) \<noteq> Inr dv)"
proof -
  let ?w = "world_of (device_database ''active'')"
  let ?w1 = "snd (RetireDevice ''t'' ''d'' ?w)"
  have "case fst (RetireDevice ''t'' ''d'' ?w) of Inr dv \<Rightarrow> True | Inl e \<Rightarrow> False" by code_simp
  then obtain dv where dv: "fst (RetireDevice ''t'' ''d'' ?w) = Inr dv" by (auto split: sum.splits)
  have "\<forall>dv'. fst (Authenticate ''t'' ''d'' ''s'' ?w1) \<noteq> Inr dv'"
    using RetireDevice_retires [OF dv _ refl] by (simp add: device_schema_samples)
  moreover have "fst (Authenticate ''t'' ''d'' ''s'' ?w) =
      Inr (device_view (device_database ''active'') (sample_device ''d'' ''active'' (sample_hash ''s'')))"
    by code_simp
  ultimately show ?thesis by blast
qed

text \<open>
  C12: Authentication, exactly: with the statements succeeding, a device gets in if and only if
  a device of the tenant has that identifier and the hash of the secret, and is neither retired
  nor wiped; the answer is that device with its groups, otherwise "not found".
\<close>

theorem Authenticate_decides:
  assumes "no_faults w" "device_schema (db w)" "tn \<noteq> []" "i \<noteq> []" "secret \<noteq> []"
  shows "(fst (Authenticate tn i secret w) = Inr dv \<longleftrightarrow>
      (\<exists>r. r \<in> set (devices (db w)) \<and> by_id tn i r \<and> dev_secret_hash r = HashToken (sha256 (env w)) secret \<and>
           rec_status r \<noteq> ''retired'' \<and> rec_status r \<noteq> ''wiped'' \<and> dv = device_view (db w) r)) \<and>
    (fst (Authenticate tn i secret w) = Inl ErrNotFound \<longleftrightarrow>
      \<not> (\<exists>r. r \<in> set (devices (db w)) \<and> by_id tn i r \<and> dev_secret_hash r = HashToken (sha256 (env w)) secret \<and>
           rec_status r \<noteq> ''retired'' \<and> rec_status r \<noteq> ''wiped''))"
proof -
  let ?p = "\<lambda>r. by_id tn i r \<and> dev_secret_hash r = HashToken (sha256 (env w)) secret"
  have ids: "distinct (map rec_id (devices (db w)))" using assms(2) by (simp add: device_schema_def)
  show ?thesis
  proof (cases "filter ?p (devices (db w))")
    case Nil
    then have "\<not> (\<exists>r \<in> set (devices (db w)). ?p r)" by (auto simp: filter_empty_conv)
    then show ?thesis using assms by (auto simp: fst_Authenticate filter_False)
  next
    case (Cons r rs)
    then have r: "r \<in> set (devices (db w))" "?p r" using filter_single_mem [OF Cons] by auto
    have only: "s = r" if "s \<in> set (devices (db w))" "by_id tn i s" for s
      using distinct_key_unique [OF ids that(1) r(1)] that(2) r(2) by (simp add: by_id_def)
    show ?thesis
      using assms Cons r
      by (auto simp: fst_Authenticate canAuthenticateDeviceStatus_def device_statuses dest: only)
  qed
qed

theorem Authenticate_decides_witness:
  "(\<exists>dv. fst (Authenticate ''t'' ''d'' ''s'' (world_of (device_database ''locked''))) = Inr dv) \<and>
   fst (Authenticate ''t'' ''d'' ''wrong'' (world_of (device_database ''locked''))) = Inl ErrNotFound"
proof -
  let ?d = "device_database ''locked''"
  let ?r = "sample_device ''d'' ''locked'' (sample_hash ''s'')"
  have row: "set (devices ?d) = {?r}" by (simp add: device_database_def)
  have "by_id ''t'' ''d'' ?r" "dev_secret_hash ?r = HashToken (sha256 sample_env) ''s''"
    "dev_secret_hash ?r \<noteq> HashToken (sha256 sample_env) ''wrong''"
    by (simp_all add: by_id_def sample_device_def sample_hash_def HashToken_def sample_env_def)
  then show ?thesis
    using Authenticate_decides [of "world_of ?d" "''t''" "''d''" "''s''" "device_view ?d ?r"]
      Authenticate_decides [of "world_of ?d" "''t''" "''d''" "''wrong''"]
    by (auto simp: device_schema_samples row sample_device_def)
qed

text \<open>
  The writing operations on devices and groups are all or nothing: one that returns an
  error, be it for a failed statement, a violated constraint or a missing row, leaves the
  tables exactly as they were.
\<close>

theorem device_writes_all_or_nothing:
  assumes "txn w = None"
  shows "(fst (CreateDevice tn req w) = Inl e \<longrightarrow> db (snd (CreateDevice tn req w)) = db w) \<and>
    (fst (UpdateDevice tn i req w) = Inl e \<longrightarrow> db (snd (UpdateDevice tn i req w)) = db w) \<and>
    (fst (RetireDevice tn i w) = Inl e \<longrightarrow> db (snd (RetireDevice tn i w)) = db w) \<and>
    (fst (CreateGroup tn name w) = Inl e \<longrightarrow> db (snd (CreateGroup tn name w)) = db w) \<and>
    (fst (UpdateGroup tn i name w) = Inl e \<longrightarrow> db (snd (UpdateGroup tn i name w)) = db w) \<and>
    (fst (RetireGroup tn i w) = Inl e \<longrightarrow> db (snd (RetireGroup tn i w)) = db w)"
proof -
  have out: "fst (m w) = Inl e \<longrightarrow> db (snd (m w)) = db w" if "atomic m" for m :: "'z action"
    using atomicD [OF that assms, of e "snd (m w)"] by (cases "m w") simp
  show ?thesis
    by (intro conjI out atomic_device_ops atomic_group_ops)
qed

text \<open>The third statement of \<open>CreateDevice\<close>, its insertion into the memberships, fails.\<close>

definition failing_world :: "nat \<Rightarrow> database \<Rightarrow> world" where
  "failing_world n d = (world_of d)\<lparr>env := sample_env\<lparr>sql_fault := \<lambda>k. k = n\<rparr>\<rparr>"

theorem device_writes_all_or_nothing_witness:
  "fst (CreateDevice ''t'' sample_upsert (failing_world 3 group_database)) = Inl PgFault \<and>
   db (snd (CreateDevice ''t'' sample_upsert (failing_world 3 group_database))) = group_database"
proof -
  let ?w = "failing_world 3 group_database"
  have e: "fst (CreateDevice ''t'' sample_upsert ?w) = Inl PgFault" by code_simp
  have "txn ?w = None" "db ?w = group_database" by (simp_all add: failing_world_def)
  with device_writes_all_or_nothing [of ?w "''t''" sample_upsert PgFault] e show ?thesis by simp
qed

end
