(* ===== verification/Enrollment.thy ===== *)
theory Enrollment
  imports Devices
begin

text \<open>
  Enrollment tokens: \<open>enrollment/model.go\<close>, \<open>enrollment/token.go\<close> and
  \<open>enrollment/postgres/store.go\<close>. A token is issued with an expiry, and consumed when a pending
  device is bound with it; the device then receives the secret it authenticates with.
\<close>

section \<open>Data\<close>

definition TokenStatusIssued :: string where "TokenStatusIssued = ''issued''"
definition TokenStatusConsumed :: string where "TokenStatusConsumed = ''consumed''"
definition TokenStatusExpired :: string where "TokenStatusExpired = ''expired''"
definition TokenStatusRevoked :: string where "TokenStatusRevoked = ''revoked''"

lemmas token_statuses = TokenStatusIssued_def TokenStatusConsumed_def TokenStatusExpired_def
  TokenStatusRevoked_def

record token =
  tk_id :: string
  tk_tenant :: string
  tk_status :: string
  tk_expires :: int
  tk_consumed :: "int option"
  tk_revoked :: "int option"
  tk_created :: int
  tk_updated :: int

record issued_token =
  it_token :: token
  it_secret :: string

record bound_device =
  bd_device_id :: string
  bd_device_secret :: string
  bd_status :: string

text \<open>The zero \<open>time.Time\<close>, 1 January of the year 1, in microseconds of the Unix epoch.\<close>

definition zero_time :: int where "zero_time = - 62135596800000000"

section \<open>Statements\<close>

definition scanToken :: "token_row \<Rightarrow> token" where
  "scanToken r = \<lparr>tk_id = tok_id r, tk_tenant = tok_tenant r, tk_status = tok_status r,
     tk_expires = tok_expires r, tk_consumed = tok_consumed r, tk_revoked = tok_revoked r,
     tk_created = tok_created r, tk_updated = tok_updated r\<rparr>"

definition loadTokenByHashForUpdate :: "string \<Rightarrow> string \<Rightarrow> token action" where
  "loadTokenByHashForUpdate tn h = no_rows_as ErrTokenNotFound (query_row (\<lambda>d.
     map scanToken (filter (\<lambda>r. tok_tenant r = tn \<and> tok_hash r = h) (enrollment_tokens d))))"

definition loadTokenByIDForUpdate :: "string \<Rightarrow> string \<Rightarrow> token action" where
  "loadTokenByIDForUpdate tn i = no_rows_as ErrTokenNotFound (query_row (\<lambda>d.
     map scanToken (filter (\<lambda>r. tok_tenant r = tn \<and> tok_id r = i) (enrollment_tokens d))))"

definition loadDeviceStatusByTenantAndDeviceIDForUpdate :: "string \<Rightarrow> string \<Rightarrow> string action" where
  "loadDeviceStatusByTenantAndDeviceIDForUpdate tn i = no_rows_as ErrNotFound (query_row (\<lambda>d.
     map rec_status (filter (by_id tn i) (devices d))))"

definition update_token :: "token \<Rightarrow> token_row list stmt" where
  "update_token k = update_rows enrollment_tokens enrollment_tokens_update no_check
     (\<lambda>r. tok_tenant r = tk_tenant k \<and> tok_id r = tk_id k)
     (\<lambda>r. r\<lparr>tok_status := tk_status k, tok_consumed := tk_consumed k,
            tok_revoked := tk_revoked k, tok_updated := tk_updated k\<rparr>)"

definition updateToken :: "token \<Rightarrow> unit action" where
  "updateToken k = bindE (exec (update_token k)) (\<lambda>_. returnE ())"

definition insert_token :: "string \<Rightarrow> string \<Rightarrow> string \<Rightarrow> int \<Rightarrow> int \<Rightarrow> token_row list stmt" where
  "insert_token tn i h expires t = insert_row enrollment_tokens_update
     (\<lambda>d. fresh tok_id i (enrollment_tokens d) \<and>
          fresh (\<lambda>r. (tok_tenant r, tok_hash r)) (tn, h) (enrollment_tokens d))
     (\<lambda>d. tn \<in> set (tenants d))
     (\<lambda>pgnow. \<lparr>tok_id = i, tok_tenant = tn, tok_hash = h, tok_status = TokenStatusIssued,
              tok_expires = expires, tok_consumed = None, tok_revoked = None,
              tok_created = pgnow, tok_updated = t\<rparr>)"

section \<open>The store\<close>

definition IssueToken :: "string \<Rightarrow> int \<Rightarrow> issued_token action" where
  "IssueToken tn expiresAt =
     (if tn = [] \<or> expiresAt = zero_time then throwE ErrInvalidInput
      else bindE now (\<lambda>t.
        if \<not> expiresAt > t then throwE ErrInvalidInput
        else bindE NewTokenSecret (\<lambda>secret. bindE NewString (\<lambda>i. bindE (asks sha256) (\<lambda>sha.
          bindE (exec_row (insert_token tn i (HashToken sha secret) expiresAt t)) (\<lambda>r.
          returnE \<lparr>it_token = scanToken r, it_secret = secret\<rparr>))))))"

text \<open>The \<open>switch\<close> on the status of a token that is not issued any more.\<close>

definition token_status_error :: "string \<Rightarrow> goerr" where
  "token_status_error st =
     (if st = TokenStatusConsumed then ErrTokenConsumed
      else if st = TokenStatusExpired then ErrTokenExpired
      else if st = TokenStatusRevoked then ErrTokenRevoked
      else ErrTokenConflict)"

definition expire_and_fail :: "token \<Rightarrow> int \<Rightarrow> 'a action" where
  "expire_and_fail k t =
     bindE (updateToken (k\<lparr>tk_status := TokenStatusExpired, tk_updated := t\<rparr>)) (\<lambda>_.
     bindE commit (\<lambda>_. throwE ErrTokenExpired))"

definition inspectToken :: "string \<Rightarrow> string \<Rightarrow> bool \<Rightarrow> token action" where
  "inspectToken tn secret consume =
     (if tn = [] \<or> secret = [] then throwE ErrInvalidInput
      else bindE now (\<lambda>t. bindE (asks sha256) (\<lambda>sha. with_tx (
        bindE (loadTokenByHashForUpdate tn (HashToken sha secret)) (\<lambda>k.
        if tk_status k = TokenStatusIssued \<and> \<not> tk_expires k > t then expire_and_fail k t
        else if tk_status k = TokenStatusIssued then
          (if consume then
             (let k' = k\<lparr>tk_status := TokenStatusConsumed, tk_consumed := Some t, tk_updated := t\<rparr>
              in bindE (updateToken k') (\<lambda>_. bindE commit (\<lambda>_. returnE k')))
           else bindE commit (\<lambda>_. returnE k))
        else throwE (token_status_error (tk_status k)))))))"

definition ValidateToken :: "string \<Rightarrow> string \<Rightarrow> token action" where
  "ValidateToken tn secret = inspectToken tn secret False"

definition ConsumeToken :: "string \<Rightarrow> string \<Rightarrow> token action" where
  "ConsumeToken tn secret = inspectToken tn secret True"

text \<open>
  \<open>tx.Commit\<close> in \<open>BindDevice\<close>: a failed commit disables the MQTT account again.
\<close>

definition commit_or_disable :: "string \<Rightarrow> unit action" where
  "commit_or_disable deviceID =
     handleE commit (\<lambda>e. bindE (provision (ProvDisable deviceID)) (\<lambda>_. throwE e))"

definition bind_device_row :: "string \<Rightarrow> string \<Rightarrow> string \<Rightarrow> obj option \<Rightarrow> int \<Rightarrow> device_row list stmt" where
  "bind_device_row tn deviceID h extras t = update_rows devices devices_update no_check
     (\<lambda>r. by_id tn deviceID r \<and> rec_status r = StatusPending)
     (\<lambda>r. r\<lparr>dev_secret_hash := h, rec_status := StatusEnrolled, dev_extras := extras, updated_at := t\<rparr>)"

definition BindDevice :: "string \<Rightarrow> string \<Rightarrow> string \<Rightarrow> obj option \<Rightarrow> bound_device action" where
  "BindDevice tn tok deviceID extras =
     (if tn = [] \<or> tok = [] \<or> deviceID = [] then throwE ErrInvalidInput
      else bindE now (\<lambda>t. bindE NewTokenSecret (\<lambda>secret. bindE (asks sha256) (\<lambda>sha. with_tx (
        bindE (loadTokenByHashForUpdate tn (HashToken sha tok)) (\<lambda>k.
        bindE (loadDeviceStatusByTenantAndDeviceIDForUpdate tn deviceID) (\<lambda>deviceStatus.
        if deviceStatus \<noteq> StatusPending then throwE ErrDeviceConflict
        else if tk_status k = TokenStatusIssued \<and> \<not> tk_expires k > t then expire_and_fail k t
        else if tk_status k \<noteq> TokenStatusIssued then throwE (token_status_error (tk_status k))
        else
          bindE (no_rows_as ErrNotFound
            (exec_row (bind_device_row tn deviceID (HashToken sha secret) extras t))) (\<lambda>r.
          bindE (updateToken
            (k\<lparr>tk_status := TokenStatusConsumed, tk_consumed := Some t, tk_updated := t\<rparr>)) (\<lambda>_.
          bindE (provision (ProvUpsert deviceID secret)) (\<lambda>_.
          bindE (commit_or_disable deviceID) (\<lambda>_.
          returnE \<lparr>bd_device_id = rec_id r, bd_device_secret = secret, bd_status = rec_status r\<rparr>)))))))))))"

definition newest_tokens :: "token_row list \<Rightarrow> token_row list" where
  "newest_tokens rs = rev (sort_key (\<lambda>r. (tok_created r, tok_id r)) rs)"

definition ListTokens :: "string \<Rightarrow> page_params \<Rightarrow> token list action" where
  "ListTokens tn page =
     (if tn = [] then throwE ErrInvalidInput
      else query (\<lambda>d. map scanToken (paged page
        (newest_tokens (filter (\<lambda>r. tok_tenant r = tn) (enrollment_tokens d))))))"

definition RevokeToken :: "string \<Rightarrow> string \<Rightarrow> token action" where
  "RevokeToken tn i =
     (if tn = [] \<or> i = [] then throwE ErrInvalidInput
      else bindE now (\<lambda>t. with_tx (
        bindE (loadTokenByIDForUpdate tn i) (\<lambda>k.
        if tk_status k = TokenStatusIssued then
          (let k' = k\<lparr>tk_status := TokenStatusRevoked, tk_revoked := Some t, tk_updated := t\<rparr>
           in bindE (updateToken k') (\<lambda>_. bindE commit (\<lambda>_. returnE k')))
        else throwE (token_status_error (tk_status k))))))"

definition ExpireTokens :: "int \<Rightarrow> int action" where
  "ExpireTokens before =
     bindE now (\<lambda>t. bindE (exec (update_rows enrollment_tokens enrollment_tokens_update no_check
       (\<lambda>r. tok_status r = TokenStatusIssued \<and> tok_expires r \<le> before)
       (\<lambda>r. r\<lparr>tok_status := TokenStatusExpired, tok_updated := t\<rparr>)))
       (\<lambda>rs. returnE (int (length rs))))"

section \<open>The effect of the statements\<close>

text \<open>The primary key and the unique hash of the tokens.\<close>

definition token_schema :: "database \<Rightarrow> bool" where
  "token_schema d \<longleftrightarrow> distinct (map tok_id (enrollment_tokens d)) \<and>
     distinct (map (\<lambda>r. (tok_tenant r, tok_hash r)) (enrollment_tokens d))"

definition expire_row :: "int \<Rightarrow> token_row \<Rightarrow> token_row" where
  "expire_row t r = r\<lparr>tok_status := ''expired'', tok_updated := t\<rparr>"

definition consume_row :: "int \<Rightarrow> token_row \<Rightarrow> token_row" where
  "consume_row t r = r\<lparr>tok_status := ''consumed'', tok_consumed := Some t, tok_updated := t\<rparr>"

definition revoke_row :: "int \<Rightarrow> token_row \<Rightarrow> token_row" where
  "revoke_row t r = r\<lparr>tok_status := ''revoked'', tok_revoked := Some t, tok_updated := t\<rparr>"

definition bound_row :: "string \<Rightarrow> obj option \<Rightarrow> int \<Rightarrow> device_row \<Rightarrow> device_row" where
  "bound_row h extras t r =
     r\<lparr>dev_secret_hash := h, rec_status := ''enrolled'', dev_extras := extras, updated_at := t\<rparr>"

definition at_token :: "token_row \<Rightarrow> (token_row \<Rightarrow> token_row) \<Rightarrow> database \<Rightarrow> database" where
  "at_token r f = enrollment_tokens_update (upd_where (\<lambda>s. tok_id s = tok_id r) f)"

lemmas token_rows = expire_row_def consume_row_def revoke_row_def

lemma token_row_simps [simp]:
  "tok_id (expire_row t r) = tok_id r" "tok_id (consume_row t r) = tok_id r"
  "tok_id (revoke_row t r) = tok_id r"
  "tok_tenant (expire_row t r) = tok_tenant r" "tok_tenant (consume_row t r) = tok_tenant r"
  "tok_tenant (revoke_row t r) = tok_tenant r"
  "tok_hash (expire_row t r) = tok_hash r" "tok_hash (consume_row t r) = tok_hash r"
  "tok_hash (revoke_row t r) = tok_hash r"
  by (simp_all add: token_rows)

lemma bound_row_simps [simp]:
  "rec_id (bound_row h x t r) = rec_id r" "rec_tenant (bound_row h x t r) = rec_tenant r"
  "rec_status (bound_row h x t r) = ''enrolled''" "dev_secret_hash (bound_row h x t r) = h"
  by (simp_all add: bound_row_def)

lemma at_token_simps [simp]:
  "devices (at_token r f d) = devices d" "groups (at_token r f d) = groups d"
  "device_groups (at_token r f d) = device_groups d" "tenants (at_token r f d) = tenants d"
  "commands (at_token r f d) = commands d" "policies (at_token r f d) = policies d"
  "enrollment_tokens (at_token r f d) = upd_where (\<lambda>s. tok_id s = tok_id r) f (enrollment_tokens d)"
  by (simp_all add: at_token_def)

text \<open>
  Writing back a token that was read in the same transaction rewrites its row: the row is the
  only one with that identifier.
\<close>

lemma update_token_read:
  assumes "token_schema d" "r \<in> set (enrollment_tokens d)"
    and "tk_id k = tok_id r" "tk_tenant k = tok_tenant r"
    and "r\<lparr>tok_status := tk_status k, tok_consumed := tk_consumed k,
            tok_revoked := tk_revoked k, tok_updated := tk_updated k\<rparr> = f r"
  shows "\<exists>rs. update_token k t d = Inr (rs, at_token r f d)"
proof -
  have "upd_where (\<lambda>s. tok_tenant s = tk_tenant k \<and> tok_id s = tk_id k)
          (\<lambda>s. s\<lparr>tok_status := tk_status k, tok_consumed := tk_consumed k,
                tok_revoked := tk_revoked k, tok_updated := tk_updated k\<rparr>) (enrollment_tokens d)
        = upd_where (\<lambda>s. tok_id s = tok_id r) f (enrollment_tokens d)"
  proof (rule upd_where_cong)
    fix s assume s: "s \<in> set (enrollment_tokens d)"
    have "s = r" if "tok_id s = tok_id r"
      using assms(1,2) s that by (auto simp: token_schema_def dest: distinct_key_unique)
    then show "(tok_tenant s = tk_tenant k \<and> tok_id s = tk_id k) = (tok_id s = tok_id r) \<and>
        (tok_tenant s = tk_tenant k \<and> tok_id s = tk_id k \<longrightarrow>
         s\<lparr>tok_status := tk_status k, tok_consumed := tk_consumed k,
           tok_revoked := tk_revoked k, tok_updated := tk_updated k\<rparr> = f s)"
      using assms(3-5) by auto
  qed
  then have "enrollment_tokens_update (upd_where (\<lambda>s. tok_tenant s = tk_tenant k \<and> tok_id s = tk_id k)
          (\<lambda>s. s\<lparr>tok_status := tk_status k, tok_consumed := tk_consumed k,
                tok_revoked := tk_revoked k, tok_updated := tk_updated k\<rparr>)) d = at_token r f d"
    unfolding at_token_def by (rule tokens_t.put_cong)
  then show ?thesis by (simp add: update_token_def)
qed

lemma scanToken_simps [simp]:
  "tk_id (scanToken r) = tok_id r" "tk_tenant (scanToken r) = tok_tenant r"
  "tk_status (scanToken r) = tok_status r" "tk_expires (scanToken r) = tok_expires r"
  "tk_consumed (scanToken r) = tok_consumed r" "tk_revoked (scanToken r) = tok_revoked r"
  "tk_created (scanToken r) = tok_created r" "tk_updated (scanToken r) = tok_updated r"
  by (simp_all add: scanToken_def)

lemma post_updateToken_read:
  assumes "token_schema (db w)" "r \<in> set (enrollment_tokens (db w))"
    and "tk_id k = tok_id r" "tk_tenant k = tok_tenant r"
    and "r\<lparr>tok_status := tk_status k, tok_consumed := tk_consumed k,
            tok_revoked := tk_revoked k, tok_updated := tk_updated k\<rparr> = f r"
  shows "post (updateToken k) w Q E =
     (if faulty w then E PgFault (tick_stmt w) else Q () (tick_stmt w\<lparr>db := at_token r f (db w)\<rparr>))"
  using update_token_read [where f = f, OF assms, of "pg_now w"] by (auto simp: updateToken_def wp)

section \<open>The effect of the operations\<close>

lemma post_loadTokenByHash [wp]:
  "post (loadTokenByHashForUpdate tn h) w Q E =
     (if faulty w then E PgFault (tick_stmt w)
      else case filter (\<lambda>r. tok_tenant r = tn \<and> tok_hash r = h) (enrollment_tokens (db w)) of
          [] \<Rightarrow> E ErrTokenNotFound (tick_stmt w)
        | r # _ \<Rightarrow> Q (scanToken r) (tick_stmt w))"
  by (simp add: loadTokenByHashForUpdate_def wp split: list.splits)

lemma post_loadTokenByID [wp]:
  "post (loadTokenByIDForUpdate tn i) w Q E =
     (if faulty w then E PgFault (tick_stmt w)
      else case filter (\<lambda>r. tok_tenant r = tn \<and> tok_id r = i) (enrollment_tokens (db w)) of
          [] \<Rightarrow> E ErrTokenNotFound (tick_stmt w)
        | r # _ \<Rightarrow> Q (scanToken r) (tick_stmt w))"
  by (simp add: loadTokenByIDForUpdate_def wp split: list.splits)

lemma post_loadDeviceStatus [wp]:
  "post (loadDeviceStatusByTenantAndDeviceIDForUpdate tn i) w Q E =
     (if faulty w then E PgFault (tick_stmt w)
      else case filter (by_id tn i) (devices (db w)) of
          [] \<Rightarrow> E ErrNotFound (tick_stmt w)
        | r # _ \<Rightarrow> Q (rec_status r) (tick_stmt w))"
  by (simp add: loadDeviceStatusByTenantAndDeviceIDForUpdate_def wp split: list.splits)

lemma post_commit_or_disable [wp]:
  "post (commit_or_disable i) w Q E =
     (if faulty w then post (provision (ProvDisable i)) (tick_stmt w) (\<lambda>_. E PgFault) E
      else Q () (tick_stmt w\<lparr>txn := None\<rparr>))"
  by (simp add: commit_or_disable_def wp)

lemma token_by_hash_single:
  assumes "token_schema d" "filter (\<lambda>r. tok_tenant r = tn \<and> tok_hash r = h) (enrollment_tokens d) = r # rs"
  shows "r \<in> set (enrollment_tokens d) \<and> tok_tenant r = tn \<and> tok_hash r = h \<and> rs = []"
proof -
  have r: "r \<in> set (enrollment_tokens d)" "tok_tenant r = tn" "tok_hash r = h"
    using arg_cong [OF assms(2), of set] by auto
  then have "filter (\<lambda>r. tok_tenant r = tn \<and> tok_hash r = h) (enrollment_tokens d) = [r]"
    using assms(1)
    by (intro filter_key_single [where k = "\<lambda>r. (tok_tenant r, tok_hash r)"]) (auto simp: token_schema_def)
  then show ?thesis using r assms(2) by simp
qed

lemma post_expire_and_fail:
  assumes "token_schema (db w)" "r \<in> set (enrollment_tokens (db w))" "k = scanToken r"
  shows "post (expire_and_fail k t) w Q E =
     (if faulty w then E PgFault (tick_stmt w)
      else let w1 = tick_stmt w\<lparr>db := at_token r (expire_row t) (db w)\<rparr>
        in if faulty w1 then E PgFault (tick_stmt w1)
           else E ErrTokenExpired (tick_stmt w1\<lparr>txn := None\<rparr>))"
proof -
  have "post (updateToken (k\<lparr>tk_status := TokenStatusExpired, tk_updated := t\<rparr>)) w Q' E' =
     (if faulty w then E' PgFault (tick_stmt w)
      else Q' () (tick_stmt w\<lparr>db := at_token r (expire_row t) (db w)\<rparr>))" for Q' E'
    by (rule post_updateToken_read)
      (use assms in \<open>simp_all add: expire_row_def TokenStatusExpired_def\<close>)
  then show ?thesis by (simp add: expire_and_fail_def wp Let_def)
qed

definition expired_token_of :: "world \<Rightarrow> string \<Rightarrow> token_row \<Rightarrow> bool" where
  "expired_token_of w h r \<longleftrightarrow> r \<in> set (enrollment_tokens (db w)) \<and> tok_hash r = h \<and>
     tok_status r = ''issued'' \<and> tok_expires r \<le> clock_src (env w) (ticks w)"

definition live_token_of :: "world \<Rightarrow> string \<Rightarrow> string \<Rightarrow> token_row \<Rightarrow> bool" where
  "live_token_of w tn h r \<longleftrightarrow> r \<in> set (enrollment_tokens (db w)) \<and> tok_tenant r = tn \<and>
     tok_hash r = h \<and> tok_status r = ''issued'' \<and> clock_src (env w) (ticks w) < tok_expires r"

text \<open>
  On success of \<open>inspectToken\<close> the token was issued and not expired, and is consumed if so
  asked. On an error nothing has changed, unless the error is that the token has just expired.
\<close>

lemma post_inspectToken:
  assumes "txn w = None" "token_schema (db w)"
  shows "post (inspectToken tn secret consume) w
     (\<lambda>k w'. \<exists>r. live_token_of w tn (HashToken (sha256 (env w)) secret) r \<and>
        (let f = (if consume then consume_row (clock_src (env w) (ticks w)) else (\<lambda>r. r))
         in k = scanToken (f r) \<and> db w' = at_token r f (db w)))
     (\<lambda>e w'. db w' = db w \<or> e = ErrTokenExpired \<and>
        (\<exists>r. expired_token_of w (HashToken (sha256 (env w)) secret) r \<and>
             db w' = at_token r (expire_row (clock_src (env w) (ticks w))) (db w)))"
proof (cases "filter (\<lambda>r. tok_tenant r = tn \<and> tok_hash r = HashToken (sha256 (env w)) secret)
                (enrollment_tokens (db w))")
  case Nil
  then show ?thesis using assms(1)
    by (cases "tn = [] \<or> secret = []") (auto simp: inspectToken_def wp db_rollback)
next
  case (Cons r rs)
  let ?h = "HashToken (sha256 (env w)) secret" and ?t = "clock_src (env w) (ticks w)"
  note single = token_by_hash_single [OF assms(2) Cons]
  then have r: "r \<in> set (enrollment_tokens (db w))" by simp
  have upd: "post (updateToken (scanToken (consume_row ?t r))) w' Q' E' =
     (if faulty w' then E' PgFault (tick_stmt w')
      else Q' () (tick_stmt w'\<lparr>db := at_token r (consume_row ?t) (db w')\<rparr>))"
    if "db w' = db w" for w' Q' E'
    by (rule post_updateToken_read) (use assms r that in \<open>simp_all add: consume_row_def\<close>)
  have exp: "post (expire_and_fail (scanToken r) ?t) w' Q' E' =
     (if faulty w' then E' PgFault (tick_stmt w')
      else let w1 = tick_stmt w'\<lparr>db := at_token r (expire_row ?t) (db w')\<rparr>
        in if faulty w1 then E' PgFault (tick_stmt w1)
           else E' ErrTokenExpired (tick_stmt w1\<lparr>txn := None\<rparr>))"
    if "db w' = db w" for w' and Q' :: "token \<Rightarrow> world \<Rightarrow> bool" and E'
    by (rule post_expire_and_fail) (use assms r that in simp_all)
  have id: "at_token r (\<lambda>r. r) d = d" for d
    unfolding at_token_def by (rule tokens_t.put_same) (simp add: upd_where_def)
  have scan: "scanToken r\<lparr>tk_status := TokenStatusConsumed, tk_consumed := Some t, tk_updated := t\<rparr>
      = scanToken (consume_row t r)" for t
    by (simp add: scanToken_def consume_row_def TokenStatusConsumed_def)
  show ?thesis
    using assms single
    by (cases "tn = [] \<or> secret = []")
      (auto simp: inspectToken_def wp Cons db_rollback exp Let_def upd id
        scan [unfolded token_statuses]
        live_token_of_def expired_token_of_def token_statuses)
qed

lemma token_by_id_single:
  assumes "token_schema d" "filter (\<lambda>r. tok_tenant r = tn \<and> tok_id r = i) (enrollment_tokens d) = r # rs"
  shows "r \<in> set (enrollment_tokens d) \<and> tok_tenant r = tn \<and> tok_id r = i"
  using arg_cong [OF assms(2), of set] by auto

lemma post_RevokeToken:
  assumes "txn w = None" "token_schema (db w)"
  shows "post (RevokeToken tn i) w
     (\<lambda>k w'. \<exists>r \<in> set (enrollment_tokens (db w)). tok_tenant r = tn \<and> tok_id r = i \<and>
        tok_status r = ''issued'' \<and>
        (let f = revoke_row (clock_src (env w) (ticks w))
         in k = scanToken (f r) \<and> db w' = at_token r f (db w)))
     (\<lambda>e w'. db w' = db w)"
proof (cases "filter (\<lambda>r. tok_tenant r = tn \<and> tok_id r = i) (enrollment_tokens (db w))")
  case Nil
  then show ?thesis using assms(1)
    by (cases "tn = [] \<or> i = []") (auto simp: RevokeToken_def wp db_rollback)
next
  case (Cons r rs)
  let ?t = "clock_src (env w) (ticks w)"
  note single = token_by_id_single [OF assms(2) Cons]
  then have r: "r \<in> set (enrollment_tokens (db w))" by simp
  have upd: "post (updateToken (scanToken (revoke_row ?t r))) w' Q' E' =
     (if faulty w' then E' PgFault (tick_stmt w')
      else Q' () (tick_stmt w'\<lparr>db := at_token r (revoke_row ?t) (db w')\<rparr>))"
    if "db w' = db w" for w' Q' E'
    by (rule post_updateToken_read) (use assms r that in \<open>simp_all add: revoke_row_def\<close>)
  have scan: "scanToken r\<lparr>tk_status := TokenStatusRevoked, tk_revoked := Some t, tk_updated := t\<rparr>
      = scanToken (revoke_row t r)" for t
    by (simp add: scanToken_def revoke_row_def TokenStatusRevoked_def)
  show ?thesis
    using assms single
    by (cases "tn = [] \<or> i = []")
      (auto simp: RevokeToken_def wp Cons db_rollback Let_def upd scan [unfolded token_statuses]
        token_statuses intro!: bexI [of _ r])
qed

lemma post_IssueToken:
  "post (IssueToken tn expires) w
     (\<lambda>x w'. \<exists>raw. rand_src (env w) (rand_no w) = Some raw \<and>
        (let r = \<lparr>tok_id = uuid_src (env w) (uuid_no w), tok_tenant = tn,
               tok_hash = HashToken (sha256 (env w)) (EncodeToString raw), tok_status = ''issued'',
               tok_expires = expires, tok_consumed = None, tok_revoked = None,
               tok_created = pg_now w,
               tok_updated = clock_src (env w) (ticks w)\<rparr>
         in x = \<lparr>it_token = scanToken r, it_secret = EncodeToString raw\<rparr> \<and>
            db w' = enrollment_tokens_update (\<lambda>rs. rs @ [r]) (db w) \<and>
            clock_src (env w) (ticks w) < expires \<and>
            fresh tok_id (tok_id r) (enrollment_tokens (db w)) \<and>
            fresh (\<lambda>r. (tok_tenant r, tok_hash r)) (tn, tok_hash r) (enrollment_tokens (db w))))
     (\<lambda>e w'. db w' = db w)"
  by (auto simp: IssueToken_def wp insert_token_def insert_row_def insert_into_def Let_def
      TokenStatusIssued_def pg_now_def split: option.splits)

lemma bind_device_row_pending:
  assumes "filter (by_id tn i) (devices d) = [r]" "rec_status r = ''pending''"
  shows "bind_device_row tn i h extras t pg d =
     Inr ([bound_row h extras t r], devices_update (upd_where (by_id tn i) (bound_row h extras t)) d)"
proof -
  have mem: "s = r" if "s \<in> set (devices d)" "by_id tn i s" for s
  proof -
    have "s \<in> set (filter (by_id tn i) (devices d))" using that by simp
    then show ?thesis using assms(1) by simp
  qed
  have f: "filter (\<lambda>r. by_id tn i r \<and> rec_status r = StatusPending) (devices d) = [r]"
  proof -
    have "filter (\<lambda>r. by_id tn i r \<and> rec_status r = StatusPending) (devices d)
        = filter (by_id tn i) (devices d)"
      by (rule filter_cong) (use mem assms(2) in \<open>auto simp: StatusPending_def\<close>)
    with assms(1) show ?thesis by simp
  qed
  have "devices_update (upd_where (\<lambda>r. by_id tn i r \<and> rec_status r = StatusPending)
        (\<lambda>r. r\<lparr>dev_secret_hash := h, rec_status := StatusEnrolled, dev_extras := extras, updated_at := t\<rparr>)) d
      = devices_update (upd_where (by_id tn i) (bound_row h extras t)) d"
    by (rule devices_t.put_cong, rule upd_where_cong)
      (use mem assms(2) in \<open>auto simp: bound_row_def StatusEnrolled_def StatusPending_def\<close>)
  with f show ?thesis
    by (simp add: bind_device_row_def wp returning_single bound_row_def StatusEnrolled_def)
qed

text \<open>
  What \<open>BindDevice\<close> does: on success the token was live and the device pending; the token is
  consumed, the device enrolled with the hash of the new secret, and the broker account is
  set up with that secret. On an error the tables are as before, except that a token found
  expired is marked so.
\<close>

definition bound_state ::
  "world \<Rightarrow> token_row \<Rightarrow> string \<Rightarrow> string \<Rightarrow> string \<Rightarrow> obj option \<Rightarrow> database" where
  "bound_state w r tn i secret extras =
     (let t = clock_src (env w) (ticks w)
      in at_token r (consume_row t)
           (devices_update (upd_where (by_id tn i) (bound_row (HashToken (sha256 (env w)) secret) extras t))
             (db w)))"

lemma post_BindDevice:
  assumes "txn w = None" "token_schema (db w)" "device_schema (db w)"
  shows "post (BindDevice tn tok i extras) w
     (\<lambda>b w'. \<exists>r v raw. live_token_of w tn (HashToken (sha256 (env w)) tok) r \<and>
        v \<in> set (devices (db w)) \<and> by_id tn i v \<and> rec_status v = ''pending'' \<and>
        rand_src (env w) (rand_no w) = Some raw \<and>
        b = \<lparr>bd_device_id = i, bd_device_secret = EncodeToString raw, bd_status = ''enrolled''\<rparr> \<and>
        db w' = bound_state w r tn i (EncodeToString raw) extras \<and>
        prov_log w' = prov_log w @
          (if has_provisioner (env w) then [ProvUpsert i (EncodeToString raw)] else []))
     (\<lambda>e w'. (db w' = db w \<or> e = ErrTokenExpired \<and>
        (\<exists>r. expired_token_of w (HashToken (sha256 (env w)) tok) r \<and>
             db w' = at_token r (expire_row (clock_src (env w) (ticks w))) (db w))) \<and>
        (prov_log w' = prov_log w \<or> (\<exists>s. prov_log w' = prov_log w @ [ProvUpsert i s, ProvDisable i])))"
proof (cases "filter (\<lambda>r. tok_tenant r = tn \<and> tok_hash r = HashToken (sha256 (env w)) tok)
                (enrollment_tokens (db w))")
  case Nil
  then show ?thesis using assms(1)
    by (cases "tn = [] \<or> tok = [] \<or> i = []")
      (auto simp: BindDevice_def wp db_rollback split: option.splits)
next
  case (Cons r rs)
  let ?h = "HashToken (sha256 (env w)) tok" and ?t = "clock_src (env w) (ticks w)"
  note single = token_by_hash_single [OF assms(2) Cons]
  then have r: "r \<in> set (enrollment_tokens (db w))" by simp
  have scan: "scanToken r\<lparr>tk_status := TokenStatusConsumed, tk_consumed := Some t, tk_updated := t\<rparr>
      = scanToken (consume_row t r)" for t
    by (simp add: scanToken_def consume_row_def TokenStatusConsumed_def)
  have upd: "post (updateToken (scanToken (consume_row ?t r))) w' Q' E' =
     (if faulty w' then E' PgFault (tick_stmt w')
      else Q' () (tick_stmt w'\<lparr>db := at_token r (consume_row ?t) (db w')\<rparr>))"
    if "enrollment_tokens (db w') = enrollment_tokens (db w)" for w' Q' E'
    by (rule post_updateToken_read)
      (use assms r that in \<open>simp_all add: consume_row_def token_schema_def\<close>)
  have exp: "post (expire_and_fail (scanToken r) ?t) w' Q' E' =
     (if faulty w' then E' PgFault (tick_stmt w')
      else let w1 = tick_stmt w'\<lparr>db := at_token r (expire_row ?t) (db w')\<rparr>
        in if faulty w1 then E' PgFault (tick_stmt w1)
           else E' ErrTokenExpired (tick_stmt w1\<lparr>txn := None\<rparr>))"
    if "db w' = db w" for w' and Q' :: "bound_device \<Rightarrow> world \<Rightarrow> bool" and E'
    by (rule post_expire_and_fail) (use assms r that in simp_all)
  show ?thesis
  proof (cases "filter (by_id tn i) (devices (db w))")
    case Nil
    then show ?thesis using assms(1)
      by (cases "tn = [] \<or> tok = [] \<or> i = []")
        (auto simp: BindDevice_def wp db_rollback Cons split: option.splits)
  next
    case dev: (Cons v vs)
    then have "v \<in> set (filter (by_id tn i) (devices (db w)))" by simp
    then have v: "v \<in> set (devices (db w))" "by_id tn i v" by simp_all
    then have one: "filter (by_id tn i) (devices (db w)) = [v]"
      using assms(3) by (intro devices_t.by_id_single) (auto simp: device_schema_def)
    then have iv: "rec_id v = i" using v by (simp add: by_id_def)
    show ?thesis
      using assms single v iv
      by (cases "tn = [] \<or> tok = [] \<or> i = []"; cases "rec_status v = ''pending''";
          cases "tok_status r = ''issued''"; cases "?t < tok_expires r";
          cases "rand_src (env w) (rand_no w)")
        (auto simp: BindDevice_def wp Cons one db_rollback bind_device_row_pending [of tn i _ v] exp
          scan [unfolded token_statuses] upd Let_def live_token_of_def expired_token_of_def
          token_statuses StatusPending_def bound_state_def)
  qed
qed

lemma post_ExpireTokens:
  "post (ExpireTokens before) w
     (\<lambda>n w'. let p = (\<lambda>r. tok_status r = ''issued'' \<and> tok_expires r \<le> before) in
        n = int (length (filter p (enrollment_tokens (db w)))) \<and>
        db w' = enrollment_tokens_update (upd_where p (expire_row (clock_src (env w) (ticks w)))) (db w))
     (\<lambda>e w'. db w' = db w)"
proof -
  have "(\<lambda>r. r\<lparr>tok_status := ''expired'', tok_updated := t\<rparr>) = expire_row t" for t
    by (simp add: fun_eq_iff expire_row_def)
  then show ?thesis by (simp add: ExpireTokens_def wp token_statuses returning_def)
qed

section \<open>The life of a token\<close>

text \<open>
  A token keeps its tenant, hash, expiry and creation time, and no operation touches it once
  it is not issued any more.
\<close>

definition token_step :: "token_row \<Rightarrow> token_row \<Rightarrow> bool" where
  "token_step r r' \<longleftrightarrow>
     tok_tenant r' = tok_tenant r \<and> tok_hash r' = tok_hash r \<and> tok_expires r' = tok_expires r \<and>
     tok_created r' = tok_created r \<and> (r' = r \<or> tok_status r = ''issued'')"

interpretation tokens_e: evolving enrollment_tokens enrollment_tokens_update tok_id token_step
  by unfold_locales (auto simp: token_step_def)

lemma token_step_rows:
  "tok_status r = ''issued'' \<Longrightarrow>
   token_step r (expire_row t r) \<and> token_step r (consume_row t r) \<and> token_step r (revoke_row t r)"
  by (simp add: token_step_def token_rows)

definition tokens_evolve :: "database \<Rightarrow> database \<Rightarrow> bool" where
  "tokens_evolve d d' \<longleftrightarrow> rows_evolve tok_id token_step (enrollment_tokens d) (enrollment_tokens d')"

lemma tokens_evolve_at_token:
  assumes "token_schema d" "r \<in> set (enrollment_tokens d)"
    and "token_step r (f r)" "\<And>s. tok_id (f s) = tok_id s"
  shows "rows_evolve tok_id token_step (enrollment_tokens d)
           (upd_where (\<lambda>s. tok_id s = tok_id r) f (enrollment_tokens d))"
proof -
  have "upd_where (\<lambda>s. tok_id s = tok_id r) f (enrollment_tokens d)
      = upd_where (\<lambda>s. s = r) f (enrollment_tokens d)"
    by (rule upd_where_cong) (use assms(1,2) in \<open>auto simp: token_schema_def dest: distinct_key_unique\<close>)
  then show ?thesis using assms(3,4) by (auto intro: tokens_e.evolve_update)
qed

lemma token_schema_at_token:
  assumes "token_schema d" "\<And>s. tok_id (f s) = tok_id s \<and> tok_tenant (f s) = tok_tenant s \<and> tok_hash (f s) = tok_hash s"
  shows "token_schema (at_token r f d)"
  using assms by (simp add: token_schema_def map_upd_where)

section \<open>Properties\<close>

text \<open>A pending device \<open>d\<close> and an issued token for the secret \<open>k\<close>.\<close>

definition enroll_database :: database where
  "enroll_database = (device_database ''pending'')\<lparr>
     enrollment_tokens := [sample_token ''k1'' (sample_hash ''k'') ''issued'' 5000]\<rparr>"

lemma device_schema_tokens [simp]: "device_schema (enrollment_tokens_update f d) = device_schema d"
  by (simp add: device_schema_def)

lemma by_id_bound_row [simp]: "by_id tn i (bound_row h x t r) = by_id tn i r"
  by (simp add: by_id_def)

lemma enroll_schema_samples:
  "device_schema enroll_database" "token_schema enroll_database"
  by (simp_all add: enroll_database_def token_schema_def device_schema_samples)

lemma BindDevice_live:
  assumes "no_faults w" "txn w = None" "token_schema (db w)" "device_schema (db w)"
    and "live_token_of w tn (HashToken (sha256 (env w)) tok) r" "v \<in> set (devices (db w))" "by_id tn i v"
    and "rec_status v = ''pending''" "rand_src (env w) (rand_no w) = Some raw" "tn \<noteq> []" "tok \<noteq> []" "i \<noteq> []"
  shows "\<exists>b. fst (BindDevice tn tok i extras w) = Inr b"
proof -
  let ?h = "HashToken (sha256 (env w)) tok" and ?t = "clock_src (env w) (ticks w)"
  have r: "r \<in> set (enrollment_tokens (db w))" "tok_tenant r = tn" "tok_hash r = ?h"
    "tok_status r = ''issued''" "?t < tok_expires r"
    using assms(5) by (auto simp: live_token_of_def)
  have tok: "filter (\<lambda>r. tok_tenant r = tn \<and> tok_hash r = ?h) (enrollment_tokens (db w)) = [r]"
    using assms(3) r
    by (intro filter_key_single [where k = "\<lambda>r. (tok_tenant r, tok_hash r)"]) (auto simp: token_schema_def)
  have one: "filter (by_id tn i) (devices (db w)) = [v]"
    using assms(4,6,7) by (intro devices_t.by_id_single) (auto simp: device_schema_def)
  have scan: "scanToken r\<lparr>tk_status := ''consumed'', tk_consumed := Some t, tk_updated := t\<rparr>
      = scanToken (consume_row t r)" for t
    by (simp add: scanToken_def consume_row_def)
  have upd: "post (updateToken (scanToken (consume_row ?t r))) w' Q' E' =
     (if faulty w' then E' PgFault (tick_stmt w')
      else Q' () (tick_stmt w'\<lparr>db := at_token r (consume_row ?t) (db w')\<rparr>))"
    if "enrollment_tokens (db w') = enrollment_tokens (db w)" for w' Q' E'
    by (rule post_updateToken_read)
      (use assms(3) r(1) that in \<open>simp_all add: consume_row_def token_schema_def\<close>)
  have "post (BindDevice tn tok i extras) w (\<lambda>_ _. True) (\<lambda>_ _. False)"
    using assms r
    by (simp add: BindDevice_def wp tok one bind_device_row_pending [OF one] scan upd token_statuses
        StatusPending_def)
  then show ?thesis by (cases "BindDevice tn tok i extras w") (auto simp: post_def split: sum.splits)
qed

text \<open>
  C4: Enrolment, exactly: with the statements and the random source working, \<open>BindDevice\<close>
  succeeds if and only if the tenant has an issued, unexpired token with that secret and a
  pending device with that identifier.
\<close>

theorem BindDevice_decides:
  assumes "no_faults w" "txn w = None" "token_schema (db w)" "device_schema (db w)"
    and "tn \<noteq> []" "tok \<noteq> []" "i \<noteq> []" "rand_src (env w) (rand_no w) \<noteq> None"
  shows "(\<exists>b. fst (BindDevice tn tok i extras w) = Inr b) \<longleftrightarrow>
    (\<exists>r v. r \<in> set (enrollment_tokens (db w)) \<and> tok_tenant r = tn \<and>
       tok_hash r = HashToken (sha256 (env w)) tok \<and> tok_status r = ''issued'' \<and>
       clock_src (env w) (ticks w) < tok_expires r \<and>
       v \<in> set (devices (db w)) \<and> by_id tn i v \<and> rec_status v = ''pending'')" (is "?ok \<longleftrightarrow> ?live")
proof
  assume ?ok
  then obtain b where "fst (BindDevice tn tok i extras w) = Inr b" ..
  from post_fst_Inr [OF post_BindDevice [OF assms(2-4)] this] show ?live
    by (auto simp: live_token_of_def)
next
  assume ?live
  then obtain r v where rv: "live_token_of w tn (HashToken (sha256 (env w)) tok) r"
    "v \<in> set (devices (db w))" "by_id tn i v" "rec_status v = ''pending''"
    by (auto simp: live_token_of_def)
  obtain raw where "rand_src (env w) (rand_no w) = Some raw" using assms(8) by blast
  then show ?ok by (rule BindDevice_live [OF assms(1-4) rv _ assms(5-7)])
qed

theorem BindDevice_decides_witness:
  "\<exists>b. fst (BindDevice ''t'' ''k'' ''d'' None (world_of enroll_database)) = Inr b"
proof -
  have "rand_src (env (world_of enroll_database)) (rand_no (world_of enroll_database)) \<noteq> None"
    by (simp add: sample_env_def)
  from BindDevice_decides [OF _ _ _ _ _ _ _ this, of "''t''" "''k''" "''d''" None]
  show ?thesis
    by (simp add: enroll_schema_samples)
      (simp add: enroll_database_def device_database_def sample_token_def sample_hash_def sample_device_def
        by_id_def sample_env_def)
qed




definition expired_database :: database where
  "expired_database = (device_database ''pending'')\<lparr>
     enrollment_tokens := [sample_token ''k1'' (sample_hash ''k'') ''issued'' 10]\<rparr>"


text \<open>
  Enrolment and authentication fit together: the secret a device receives when it is bound
  authenticates that device, now enrolled, and only secrets with the same hash do.
\<close>

lemma bound_device_authenticates:
  assumes "fst (BindDevice tn tok i extras w) = Inr b" "txn w = None" "token_schema (db w)" "device_schema (db w)"
    and "db w1 = db (snd (BindDevice tn tok i extras w))" "env w1 = env w" "no_faults w1"
    and "rand_src (env w) (rand_no w) \<noteq> Some []" "tn \<noteq> []" "i \<noteq> []" "s \<noteq> []"
  shows "(\<exists>dv. fst (Authenticate tn i (bd_device_secret b) w1) = Inr dv \<and>
      rec_id dv = i \<and> rec_status dv = ''enrolled'') \<and>
    ((\<exists>dv. fst (Authenticate tn i s w1) = Inr dv) \<longleftrightarrow>
      HashToken (sha256 (env w)) s = HashToken (sha256 (env w)) (bd_device_secret b))"
proof -
  let ?h = "HashToken (sha256 (env w)) (bd_device_secret b)" and ?t = "clock_src (env w) (ticks w)"
  obtain r v raw where v: "v \<in> set (devices (db w))" "by_id tn i v"
    and raw: "rand_src (env w) (rand_no w) = Some raw" "bd_device_secret b = EncodeToString raw"
    and d: "db w1 = bound_state w r tn i (EncodeToString raw) extras"
    using post_fst_Inr [OF post_BindDevice [OF assms(2-4)] assms(1)] assms(5)
    by (metis bound_device.select_convs(2))
  have one: "filter (by_id tn i) (devices (db w)) = [v]"
    using assms(4) v by (intro devices_t.by_id_single) (auto simp: device_schema_def)
  have row: "filter (by_id tn i) (devices (db w1)) = [bound_row ?h extras ?t v]"
    by (simp add: d bound_state_def Let_def filter_upd_where raw one)
  have match: "filter (\<lambda>r. by_id tn i r \<and> dev_secret_hash r = h) (devices (db w1))
      = (if h = ?h then [bound_row ?h extras ?t v] else [])" for h
    using filter_sub_single [OF row, of "\<lambda>r. by_id tn i r \<and> dev_secret_hash r = h"] v(2)
    by (auto simp: by_id_def)
  have "bd_device_secret b \<noteq> []" using assms(8) raw by (simp add: EncodeToString_empty)
  moreover have "rec_id v = i" using v(2) by (simp add: by_id_def)
  ultimately show ?thesis
    using assms(6,7,9-11)
    by (simp add: fst_Authenticate match canAuthenticateDeviceStatus_def device_statuses)
qed

text \<open>What inspecting the token of a secret answers, when the statements succeed.\<close>

lemma fst_inspectToken:
  assumes "no_faults w" "token_schema (db w)" "r \<in> set (enrollment_tokens (db w))" "tok_tenant r = tn"
    and "tok_hash r = HashToken (sha256 (env w)) secret" "tn \<noteq> []" "secret \<noteq> []"
    and "tok_status r = ''issued'' \<longrightarrow> clock_src (env w) (ticks w) < tok_expires r"
  shows "fst (inspectToken tn secret consume w) =
    (if tok_status r = ''issued''
     then Inr (scanToken (if consume then consume_row (clock_src (env w) (ticks w)) r else r))
     else Inl (token_status_error (tok_status r)))"
proof -
  let ?h = "HashToken (sha256 (env w)) secret" and ?t = "clock_src (env w) (ticks w)"
  have tok: "filter (\<lambda>r. tok_tenant r = tn \<and> tok_hash r = ?h) (enrollment_tokens (db w)) = [r]"
    using assms(2-5)
    by (intro filter_key_single [where k = "\<lambda>r. (tok_tenant r, tok_hash r)"]) (auto simp: token_schema_def)
  have scan: "scanToken r\<lparr>tk_status := ''consumed'', tk_consumed := Some t, tk_updated := t\<rparr>
      = scanToken (consume_row t r)" for t
    by (simp add: scanToken_def consume_row_def)
  have upd: "post (updateToken (scanToken (consume_row ?t r))) w' Q' E' =
     (if faulty w' then E' PgFault (tick_stmt w')
      else Q' () (tick_stmt w'\<lparr>db := at_token r (consume_row ?t) (db w')\<rparr>))"
    if "db w' = db w" for w' Q' E'
    by (rule post_updateToken_read) (use assms(2,3) that in \<open>simp_all add: consume_row_def\<close>)
  show ?thesis
    by (rule fst_eq_post) (use assms in \<open>auto simp: inspectToken_def wp tok token_statuses Let_def scan upd\<close>)
qed

lemma sole_token:
  "token_schema d \<Longrightarrow> r \<in> set (enrollment_tokens d) \<Longrightarrow> (\<And>s. tok_id (f s) = tok_id s) \<Longrightarrow>
   f r \<in> set (enrollment_tokens (at_token r f d))"
  by (auto simp: set_upd_where)

text \<open>
  A token that was issued validates: until it expires, the secret that \<open>IssueToken\<close> returned
  is accepted for the tenant and yields the issued token, whose identifier is new and whose
  secret is stored as a hash only.
\<close>

theorem issue_then_validate:
  assumes "fst (IssueToken tn expires w) = Inr x" "token_schema (db w)"
    and "db w1 = db (snd (IssueToken tn expires w))" "env w1 = env w" "no_faults w1"
    and "clock_src (env w) (ticks w1) < expires" "rand_src (env w) (rand_no w) \<noteq> Some []" "tn \<noteq> []"
  shows "fst (ValidateToken tn (it_secret x) w1) = Inr (it_token x) \<and>
    tk_id (it_token x) \<notin> tok_id ` set (enrollment_tokens (db w)) \<and>
    tk_status (it_token x) = ''issued'' \<and> tk_expires (it_token x) = expires \<and>
    (\<exists>r. enrollment_tokens (db w1) = enrollment_tokens (db w) @ [r] \<and> it_token x = scanToken r \<and>
       tok_hash r = HashToken (sha256 (env w)) (it_secret x))"
proof -
  obtain r where x: "it_token x = scanToken r" "tok_hash r = HashToken (sha256 (env w)) (it_secret x)"
    "tok_tenant r = tn" "tok_status r = ''issued''" "tok_expires r = expires" "it_secret x \<noteq> []"
    and d: "db w1 = enrollment_tokens_update (\<lambda>rs. rs @ [r]) (db w)"
    and new: "fresh tok_id (tok_id r) (enrollment_tokens (db w))"
      "fresh (\<lambda>r. (tok_tenant r, tok_hash r)) (tn, tok_hash r) (enrollment_tokens (db w))"
    using post_fst_Inr [OF post_IssueToken assms(1)] assms(3,7)
    by (auto simp: Let_def EncodeToString_empty)
  have "token_schema (db w1)" using assms(2) new x by (auto simp: d token_schema_def fresh_def)
  then have "fst (inspectToken tn (it_secret x) False w1) = Inr (scanToken r)"
    using fst_inspectToken [of w1 r tn "it_secret x" False] assms x by (simp add: d)
  then show ?thesis
    using x new by (auto simp: ValidateToken_def d fresh_def)
qed

theorem issue_then_validate_witness:
  "\<exists>x. fst (IssueToken ''t'' 5000 (world_of enroll_database)) = Inr x \<and>
     fst (ValidateToken ''t'' (it_secret x)
       (world_of (db (snd (IssueToken ''t'' 5000 (world_of enroll_database)))))) = Inr (it_token x)"
proof -
  let ?w = "world_of enroll_database"
  let ?w1 = "world_of (db (snd (IssueToken ''t'' 5000 ?w)))"
  have "case fst (IssueToken ''t'' 5000 ?w) of Inr x \<Rightarrow> True | Inl e \<Rightarrow> False" by code_simp
  then obtain x where x: "fst (IssueToken ''t'' 5000 ?w) = Inr x" by (auto split: sum.splits)
  from issue_then_validate [OF x, of ?w1] x show ?thesis
    by (auto simp: enroll_schema_samples sample_env_def)
qed

text \<open>
  A token is good for one use: consuming it marks that token, and no other, consumed, and
  afterwards its secret is refused as consumed, for validation and for consumption alike.
\<close>

theorem consume_token_once:
  assumes "fst (ConsumeToken tn secret w) = Inr k" "txn w = None" "token_schema (db w)"
    and "db w1 = db (snd (ConsumeToken tn secret w))" "env w1 = env w" "no_faults w1"
    and "tn \<noteq> []" "secret \<noteq> []"
  shows "(\<exists>r. r \<in> set (enrollment_tokens (db w)) \<and> tok_status r = ''issued'' \<and>
      clock_src (env w) (ticks w) < tok_expires r \<and>
      k = scanToken (consume_row (clock_src (env w) (ticks w)) r) \<and>
      enrollment_tokens (db w1) =
        upd_where (\<lambda>s. tok_id s = tok_id r) (consume_row (clock_src (env w) (ticks w))) (enrollment_tokens (db w))) \<and>
    fst (ConsumeToken tn secret w1) = Inl ErrTokenConsumed \<and>
    fst (ValidateToken tn secret w1) = Inl ErrTokenConsumed"
proof -
  let ?t = "clock_src (env w) (ticks w)" and ?h = "HashToken (sha256 (env w)) secret"
  obtain r where r: "live_token_of w tn ?h r" "k = scanToken (consume_row ?t r)"
    "db w1 = at_token r (consume_row ?t) (db w)"
    using post_fst_Inr [OF post_inspectToken [OF assms(2,3)] assms(1) [unfolded ConsumeToken_def]] assms(4)
    by (auto simp: ConsumeToken_def Let_def)
  have live: "r \<in> set (enrollment_tokens (db w))" "tok_tenant r = tn" "tok_hash r = ?h"
    "tok_status r = ''issued''" "?t < tok_expires r"
    using r(1) by (auto simp: live_token_of_def)
  have sch: "token_schema (db w1)" unfolding r(3) by (rule token_schema_at_token [OF assms(3)]) simp
  have mem: "consume_row ?t r \<in> set (enrollment_tokens (db w1))"
    unfolding r(3) by (rule sole_token [OF assms(3) live(1)]) simp
  have "fst (inspectToken tn secret c w1) = Inl ErrTokenConsumed" for c
    using fst_inspectToken [OF assms(6) sch mem, of tn secret c] live assms(5,7,8)
    by (simp add: consume_row_def token_status_error_def token_statuses)
  then show ?thesis
    using r live by (auto simp: ConsumeToken_def ValidateToken_def)
qed

theorem consume_token_once_witness:
  "\<exists>k. fst (ConsumeToken ''t'' ''k'' (world_of enroll_database)) = Inr k \<and>
     fst (ConsumeToken ''t'' ''k''
       (world_of (db (snd (ConsumeToken ''t'' ''k'' (world_of enroll_database)))))) = Inl ErrTokenConsumed"
proof -
  let ?w = "world_of enroll_database"
  let ?w1 = "world_of (db (snd (ConsumeToken ''t'' ''k'' ?w)))"
  have "case fst (ConsumeToken ''t'' ''k'' ?w) of Inr x \<Rightarrow> True | Inl e \<Rightarrow> False" by code_simp
  then obtain k where k: "fst (ConsumeToken ''t'' ''k'' ?w) = Inr k" by (auto split: sum.splits)
  from consume_token_once [OF k, of ?w1] k show ?thesis by (auto simp: enroll_schema_samples)
qed

text \<open>
  A revoked token binds nothing: \<open>RevokeToken\<close> only succeeds on an issued token of the
  tenant, and from then on no device can be bound with its secret and inspecting it answers
  that it is revoked.
\<close>

theorem revoked_token_refused:
  assumes "fst (RevokeToken tn j w) = Inr k" "txn w = None" "token_schema (db w)" "device_schema (db w)"
    and "db w1 = db (snd (RevokeToken tn j w))" "env w1 = env w" "no_faults w1" "txn w1 = None"
    and "r \<in> set (enrollment_tokens (db w))" "tok_id r = j" "tok_hash r = HashToken (sha256 (env w)) secret"
    and "tn \<noteq> []" "secret \<noteq> []"
  shows "tok_tenant r = tn \<and> tok_status r = ''issued'' \<and>
    fst (ConsumeToken tn secret w1) = Inl ErrTokenRevoked \<and> fst (BindDevice tn secret i extras w1) \<noteq> Inr b"
proof -
  let ?t = "clock_src (env w) (ticks w)"
  obtain r' where r': "r' \<in> set (enrollment_tokens (db w))" "tok_tenant r' = tn" "tok_id r' = j"
    "tok_status r' = ''issued''" "db w1 = at_token r' (revoke_row ?t) (db w)"
    using post_fst_Inr [OF post_RevokeToken [OF assms(2,3)] assms(1)] assms(5) by (auto simp: Let_def)
  have "r' = r" using assms(3,9,10) r'(1,3) by (auto simp: token_schema_def dest: distinct_key_unique)
  note r = r' [unfolded this]
  have sch: "token_schema (db w1)" unfolding r(5) by (rule token_schema_at_token [OF assms(3)]) simp
  have mem: "revoke_row ?t r \<in> set (enrollment_tokens (db w1))"
    unfolding r(5) by (rule sole_token [OF assms(3,9)]) simp
  have inspect: "fst (inspectToken tn secret c w1) = Inl ErrTokenRevoked" for c
    using fst_inspectToken [OF assms(7) sch mem, of tn secret c] r assms(6,11-13)
    by (simp add: revoke_row_def token_status_error_def token_statuses)
  have dev: "device_schema (db w1)"
    using assms(4) by (simp add: r(5) at_token_def)
  have "fst (BindDevice tn secret i extras w1) \<noteq> Inr b"
  proof
    assume "fst (BindDevice tn secret i extras w1) = Inr b"
    from post_fst_Inr [OF post_BindDevice [OF assms(8) sch dev] this] obtain s
      where "live_token_of w1 tn (HashToken (sha256 (env w1)) secret) s" by blast
    then have s: "s \<in> set (enrollment_tokens (db w1))" "tok_tenant s = tn"
      "tok_hash s = tok_hash r" "tok_status s = ''issued''"
      using assms(6,11) by (auto simp: live_token_of_def)
    moreover have "s = revoke_row ?t r"
      using sch s mem r(2) by (auto simp: token_schema_def dest: distinct_key_unique)
    ultimately show False by (simp add: revoke_row_def)
  qed
  with inspect r show ?thesis by (simp add: ConsumeToken_def)
qed

theorem revoked_token_refused_witness:
  "fst (ConsumeToken ''t'' ''k'' (world_of enroll_database)) \<noteq> Inl ErrTokenRevoked \<and>
   fst (ConsumeToken ''t'' ''k''
     (world_of (db (snd (RevokeToken ''t'' ''k1'' (world_of enroll_database)))))) = Inl ErrTokenRevoked"
proof -
  let ?w = "world_of enroll_database"
  let ?w1 = "world_of (db (snd (RevokeToken ''t'' ''k1'' ?w)))"
  have "case fst (RevokeToken ''t'' ''k1'' ?w) of Inr x \<Rightarrow> True | Inl e \<Rightarrow> False" by code_simp
  then obtain k where k: "fst (RevokeToken ''t'' ''k1'' ?w) = Inr k" by (auto split: sum.splits)
  have "case fst (ConsumeToken ''t'' ''k'' ?w) of Inr x \<Rightarrow> True | Inl e \<Rightarrow> False" by code_simp
  moreover have "sample_token ''k1'' (sample_hash ''k'') ''issued'' 5000 \<in> set (enrollment_tokens (db ?w))"
    by (simp add: enroll_database_def)
  ultimately show ?thesis
    using revoked_token_refused [OF k, of ?w1 "sample_token ''k1'' (sample_hash ''k'') ''issued'' 5000" "''k''"]
    by (auto simp: enroll_schema_samples sample_token_def sample_hash_def)
qed

text \<open>
  The expiry sweep: it expires exactly the issued tokens whose expiry is not after the given
  instant, counts them, leaves every other row alone, and a second sweep finds none.
\<close>

theorem ExpireTokens_sweeps:
  assumes "no_faults w" "db w1 = db (snd (ExpireTokens before w))" "env w1 = env w"
  shows "fst (ExpireTokens before w) =
      Inr (int (length (filter (\<lambda>r. tok_status r = ''issued'' \<and> tok_expires r \<le> before) (enrollment_tokens (db w))))) \<and>
    enrollment_tokens (db w1) = map (\<lambda>r. if tok_status r = ''issued'' \<and> tok_expires r \<le> before
        then r\<lparr>tok_status := ''expired'', tok_updated := clock_src (env w) (ticks w)\<rparr> else r)
      (enrollment_tokens (db w)) \<and>
    fst (ExpireTokens before w1) = Inr 0"
proof -
  let ?p = "\<lambda>r. tok_status r = ''issued'' \<and> tok_expires r \<le> before" and ?t = "clock_src (env w) (ticks w)"
  have row: "(\<lambda>r. r\<lparr>tok_status := ''expired'', tok_updated := t\<rparr>) = expire_row t" for t
    by (simp add: fun_eq_iff expire_row_def)
  have ok: "fst (ExpireTokens before u) = Inr (int (length (filter ?p (enrollment_tokens (db u)))))"
    if "no_faults u" for u
    by (rule fst_eq_post) (use that in \<open>simp add: ExpireTokens_def wp token_statuses returning_def\<close>)
  from post_fst_Inr [OF post_ExpireTokens ok [OF assms(1)]] assms(2)
  have rows: "enrollment_tokens (db w1) = upd_where ?p (expire_row ?t) (enrollment_tokens (db w))"
    by (simp add: Let_def)
  have "filter ?p (enrollment_tokens (db w1)) = []"
    by (auto simp: rows filter_empty_conv set_upd_where expire_row_def)
  then show ?thesis
    using ok [OF assms(1)] ok [of w1] assms(1,3) rows
    by (simp add: upd_where_def expire_row_def no_faults_def)
qed

theorem ExpireTokens_sweeps_witness:
  "fst (ExpireTokens 10 (world_of expired_database)) = Inr 1"
  using ExpireTokens_sweeps [of "world_of expired_database" "world_of (db (snd (ExpireTokens 10 (world_of expired_database))))" 10]
  by (simp add: expired_database_def sample_token_def)

end
