(* ===== verification/Commands.thy ===== *)
theory Commands
  imports Devices "HOL-Library.Multiset"
begin

text \<open>
  Commands: \<open>commands/model.go\<close>, \<open>commands/catalog.go\<close>, \<open>commands/postgres/store.go\<close>, and the
  topic and message of \<open>push/push.go\<close>. A command is queued for each target device, published
  over MQTT and marked sent, listed to the device while pending, acknowledged by it, or
  expired.
\<close>

section \<open>Data\<close>

definition StatusQueued :: string where "StatusQueued = ''queued''"
definition StatusSent :: string where "StatusSent = ''sent''"
definition StatusDelivered :: string where "StatusDelivered = ''delivered''"
definition StatusAcked :: string where "StatusAcked = ''acked''"
definition StatusFailed :: string where "StatusFailed = ''failed''"
definition StatusExpired :: string where "StatusExpired = ''expired''"

lemmas command_statuses = StatusQueued_def StatusSent_def StatusDelivered_def StatusAcked_def
  StatusFailed_def StatusExpired_def

definition TargetDevice :: string where "TargetDevice = ''device''"
definition TargetGroup :: string where "TargetGroup = ''group''"
definition TargetBroadcast :: string where "TargetBroadcast = ''broadcast''"

record target =
  tg_type :: string
  tg_device :: string
  tg_group :: string

record command_upsert =
  cu_type :: string
  cu_payload :: "obj option"
  cu_expires :: "int option"
  cu_target :: target

record ack =
  ack_status :: string
  ack_message :: string
  ack_details :: "obj option"

record command_stats =
  cs_total :: int
  cs_sent :: int
  cs_acked :: int
  cs_failed :: int

record type_spec =
  ts_type :: string
  ts_label :: string
  ts_target :: string
  ts_summary :: string

definition builtinTypes :: "type_spec list" where
  "builtinTypes =
     [\<lparr>ts_type = ''ping'', ts_label = ''ping'', ts_target = TargetDevice,
       ts_summary = ''device health check''\<rparr>,
      \<lparr>ts_type = ''reboot'', ts_label = ''reboot'', ts_target = TargetDevice,
       ts_summary = ''restart the device''\<rparr>,
      \<lparr>ts_type = ''sync_config'', ts_label = ''sync_config'', ts_target = TargetDevice,
       ts_summary = ''refresh the device configuration''\<rparr>,
      \<lparr>ts_type = ''exit_kiosk'', ts_label = ''exit_kiosk'', ts_target = TargetDevice,
       ts_summary = ''leave kiosk mode''\<rparr>,
      \<lparr>ts_type = ''launch_companion_app'', ts_label = ''launch_companion_app'', ts_target = TargetDevice,
       ts_summary = ''launch a declared companion app''\<rparr>]"

definition BuiltinTypes :: "type_spec list" where
  "BuiltinTypes = [] @ builtinTypes"

definition IsBuiltinType :: "string \<Rightarrow> bool" where
  "IsBuiltinType commandType =
     (let t = TrimSpace commandType
      in if t = [] then False else list_ex (\<lambda>spec. ts_type spec = t) builtinTypes)"

section \<open>Publishing\<close>

definition deviceCommandTopicPrefix :: string where "deviceCommandTopicPrefix = ''devices''"

definition deviceCommandTopic :: "string \<Rightarrow> string" where
  "deviceCommandTopic deviceID =
     deviceCommandTopicPrefix @ ''/'' @ TrimSpace deviceID @ ''/commands''"

definition TopicForDevice :: "string \<Rightarrow> string" where
  "TopicForDevice deviceID = deviceCommandTopic deviceID"

text \<open>
  \<open>PublishCommand\<close> up to the MQTT exchange, whose outcome is \<open>publish_ok\<close>; it returns whether
  the message was delivered to the broker.
\<close>

definition PublishCommand :: "string \<Rightarrow> command_message \<Rightarrow> bool action" where
  "PublishCommand deviceID m = (\<lambda>w.
     if TrimSpace deviceID = [] \<or> TrimSpace (msg_type m) = [] then (Inr False, w)
     else if publish_ok (env w) (pub_no w)
     then (Inr True, w\<lparr>pub_no := Suc (pub_no w), outbox := outbox w @ [m]\<rparr>)
     else (Inr False, w\<lparr>pub_no := Suc (pub_no w)\<rparr>))"

definition message_of :: "command_row \<Rightarrow> command_message" where
  "message_of c = \<lparr>msg_type = cmd_type c, msg_command_id = cmd_id c, msg_tenant = cmd_tenant c,
     msg_device = cmd_device c, msg_payload = cmd_payload c, msg_created = cmd_created c\<rparr>"

section \<open>Statements\<close>

definition pending_status :: "string \<Rightarrow> bool" where
  "pending_status st \<longleftrightarrow> st = StatusQueued \<or> st = StatusSent"

definition due :: "int \<Rightarrow> command_row \<Rightarrow> bool" where
  "due t c \<longleftrightarrow> pending_status (cmd_status c) \<and> (case cmd_expires c of None \<Rightarrow> False | Some e \<Rightarrow> e \<le> t)"

definition deliverable :: "int \<Rightarrow> command_row \<Rightarrow> bool" where
  "deliverable t c \<longleftrightarrow> pending_status (cmd_status c) \<and> (case cmd_expires c of None \<Rightarrow> True | Some e \<Rightarrow> t < e)"

definition set_expired :: "int \<Rightarrow> command_row \<Rightarrow> command_row" where
  "set_expired t c = c\<lparr>cmd_status := StatusExpired, cmd_updated := t\<rparr>"

definition for_device :: "string \<Rightarrow> string \<Rightarrow> command_row \<Rightarrow> bool" where
  "for_device tn dev c \<longleftrightarrow> cmd_tenant c = tn \<and> cmd_device c = dev"

definition insert_command ::
  "string \<Rightarrow> string \<Rightarrow> string \<Rightarrow> command_upsert \<Rightarrow> obj \<Rightarrow> int \<Rightarrow> command_row list stmt" where
  "insert_command tn i dev req payload t = insert_row commands_update
     (\<lambda>d. fresh cmd_id i (commands d))
     (\<lambda>d. tn \<in> set (tenants d) \<and> has_key tenant_id (tn, dev) (devices d))
     (\<lambda>_. \<lparr>cmd_id = i, cmd_tenant = tn, cmd_device = dev, cmd_type = cu_type req,
          cmd_payload = payload, cmd_status = StatusQueued, cmd_expires = cu_expires req,
          cmd_acked = None, cmd_result = [], cmd_created = t, cmd_updated = t\<rparr>)"

definition oldest_commands :: "command_row list \<Rightarrow> command_row list" where
  "oldest_commands cs = sort_key (\<lambda>c. (cmd_created c, cmd_id c)) cs"

definition newest_commands :: "command_row list \<Rightarrow> command_row list" where
  "newest_commands cs = rev (oldest_commands cs)"

section \<open>The store\<close>

text \<open>Devices that a command may be sent to.\<close>

definition eligible :: "string \<Rightarrow> device_row \<Rightarrow> bool" where
  "eligible tn r \<longleftrightarrow> in_tenant tn r \<and> rec_status r \<noteq> StatusRetired \<and> rec_status r \<noteq> StatusWiped"

definition resolveTargets :: "string \<Rightarrow> target \<Rightarrow> string list action" where
  "resolveTargets tn tg =
     (if tg_type tg = [] \<or> tg_type tg = TargetDevice then
        (if tg_device tg = [] then throwE ErrInvalidInput
         else query (\<lambda>d. map rec_id (oldest_first
           (filter (\<lambda>r. eligible tn r \<and> rec_id r = tg_device tg) (devices d)))))
      else if tg_type tg = TargetGroup then
        (if tg_group tg = [] then throwE ErrInvalidInput
         else query (\<lambda>d. map rec_id (oldest_first
           (filter (\<lambda>r. eligible tn r \<and>
              list_ex (\<lambda>m. dg_tenant m = tn \<and> dg_group m = tg_group tg \<and> dg_device m = rec_id r)
                (device_groups d) \<and>
              list_ex (\<lambda>g. by_id tn (tg_group tg) g \<and> rec_status g = ''active'') (groups d))
             (devices d)))))
      else if tg_type tg = TargetBroadcast then
        query (\<lambda>d. map rec_id (oldest_first (filter (eligible tn) (devices d))))
      else throwE (ErrText ''invalid command target type''))"

definition markSent :: "string \<Rightarrow> string \<Rightarrow> string \<Rightarrow> unit action" where
  "markSent tn dev i =
     bindE now (\<lambda>t. bindE (exec (update_rows commands commands_update no_check
       (\<lambda>c. for_device tn dev c \<and> cmd_id c = i \<and> cmd_status c = StatusQueued)
       (\<lambda>c. c\<lparr>cmd_status := StatusSent, cmd_updated := t\<rparr>))) (\<lambda>_. returnE ()))"

text \<open>
  The loop over the new commands: errors of the publisher and of \<open>markSent\<close> are logged and the
  loop goes on.
\<close>

fun publish_all :: "command_row list \<Rightarrow> unit action" where
  "publish_all [] = returnE ()"
| "publish_all (c # cs) =
     bindE (PublishCommand (cmd_device c) (message_of c)) (\<lambda>sent.
     bindE (if sent then handleE (markSent (cmd_tenant c) (cmd_device c) (cmd_id c)) (\<lambda>_. returnE ())
            else returnE ()) (\<lambda>_. publish_all cs))"

definition publishEnqueued :: "command_row list \<Rightarrow> unit action" where
  "publishEnqueued items = (\<lambda>w. if has_publisher (env w) then publish_all items w else (Inr (), w))"

definition Enqueue :: "string \<Rightarrow> command_upsert \<Rightarrow> command_row list action" where
  "Enqueue tn req =
     (if tn = [] \<or> cu_type req = [] then throwE ErrInvalidInput
      else bindE now (\<lambda>t.
        let payload = (case cu_payload req of None \<Rightarrow> [] | Some p \<Rightarrow> p)
        in bindE (resolveTargets tn (cu_target req)) (\<lambda>targets.
           bindE (with_tx (
             bindE (mapE (\<lambda>dev. bindE NewString (\<lambda>i.
                 exec_row (insert_command tn i dev req payload t))) targets) (\<lambda>out.
             if out = [] then throwE ErrNotFound
             else bindE commit (\<lambda>_. returnE out)))) (\<lambda>out.
           bindE (publishEnqueued out) (\<lambda>_. returnE out)))))"

definition ListRecent :: "string \<Rightarrow> page_params \<Rightarrow> command_row list action" where
  "ListRecent tn page =
     (if tn = [] then throwE ErrInvalidInput
      else query (\<lambda>d. paged page (newest_commands (filter (\<lambda>c. cmd_tenant c = tn) (commands d)))))"

definition ListRecentAll :: "string \<Rightarrow> command_row list action" where
  "ListRecentAll tn =
     (if tn = [] then throwE ErrInvalidInput
      else query (\<lambda>d. newest_commands (filter (\<lambda>c. cmd_tenant c = tn) (commands d))))"

definition commands_GetOverviewStats :: "string \<Rightarrow> command_stats action" where
  "commands_GetOverviewStats tn =
     (if tn = [] then throwE ErrInvalidInput
      else query (\<lambda>d. let recent = take 50 (newest_commands (filter (\<lambda>c. cmd_tenant c = tn) (commands d)))
        in \<lparr>cs_total = int (length recent),
            cs_sent = count_rows (\<lambda>c. cmd_status c = StatusSent) recent,
            cs_acked = count_rows (\<lambda>c. cmd_status c = StatusAcked) recent,
            cs_failed = count_rows (\<lambda>c. cmd_status c = StatusFailed) recent\<rparr>))"

definition commands_Get :: "string \<Rightarrow> string \<Rightarrow> command_row action" where
  "commands_Get tn i =
     (if tn = [] \<or> i = [] then throwE ErrInvalidInput
      else no_rows_as ErrNotFound
        (query_row (\<lambda>d. filter (\<lambda>c. cmd_tenant c = tn \<and> cmd_id c = i) (commands d))))"

definition expireDueCommands :: "string \<Rightarrow> string \<Rightarrow> unit action" where
  "expireDueCommands tn dev =
     bindE now (\<lambda>t. bindE (exec (update_rows commands commands_update no_check
       (\<lambda>c. for_device tn dev c \<and> due t c) (set_expired t))) (\<lambda>_. returnE ()))"

definition ListPending :: "string \<Rightarrow> string \<Rightarrow> page_params \<Rightarrow> command_row list action" where
  "ListPending tn dev page =
     (if tn = [] \<or> dev = [] then throwE ErrInvalidInput
      else bindE (expireDueCommands tn dev) (\<lambda>_. bindE now (\<lambda>t.
        query (\<lambda>d. paged page (oldest_commands
          (filter (\<lambda>c. for_device tn dev c \<and> deliverable t c) (commands d)))))))"

definition ListPendingForDevice :: "string \<Rightarrow> string \<Rightarrow> command_row list action" where
  "ListPendingForDevice tn dev =
     (if tn = [] \<or> dev = [] then throwE ErrInvalidInput
      else bindE now (\<lambda>t. query (\<lambda>d. oldest_commands
        (filter (\<lambda>c. for_device tn dev c \<and> deliverable t c) (commands d)))))"

definition ExpireDueCommands :: "string \<Rightarrow> int action" where
  "ExpireDueCommands tn =
     (if tn = [] then throwE ErrInvalidInput
      else bindE now (\<lambda>t. bindE (exec (update_rows commands commands_update no_check
        (\<lambda>c. cmd_tenant c = tn \<and> due t c) (set_expired t)))
        (\<lambda>rs. returnE (int (length rs)))))"

definition expireDueCommand :: "string \<Rightarrow> string \<Rightarrow> string \<Rightarrow> unit action" where
  "expireDueCommand tn dev i =
     bindE now (\<lambda>t. bindE (exec (update_rows commands commands_update no_check
       (\<lambda>c. for_device tn dev c \<and> cmd_id c = i \<and> due t c) (set_expired t))) (\<lambda>_. returnE ()))"

definition commandForDevice :: "string \<Rightarrow> string \<Rightarrow> string \<Rightarrow> command_row action" where
  "commandForDevice tn dev i = no_rows_as ErrNotFound
     (query_row (\<lambda>d. filter (\<lambda>c. for_device tn dev c \<and> cmd_id c = i) (commands d)))"

definition ack_result :: "ack \<Rightarrow> obj" where
  "ack_result req =
     [(''status'', JStr (ack_status req))]
     @ (if ack_message req = [] then [] else [(''message'', JStr (ack_message req))])
     @ (case ack_details req of None \<Rightarrow> [] | Some o' \<Rightarrow> [(''details'', JObj o')])"

definition ack_update :: "string \<Rightarrow> string \<Rightarrow> string \<Rightarrow> ack \<Rightarrow> int \<Rightarrow> command_row list stmt" where
  "ack_update tn dev i req t = update_rows commands commands_update no_check
     (\<lambda>c. for_device tn dev c \<and> cmd_id c = i \<and> deliverable t c)
     (\<lambda>c. c\<lparr>cmd_status := ack_status req, cmd_acked := Some t, cmd_result := ack_result req,
            cmd_updated := t\<rparr>)"

definition Acknowledge :: "string \<Rightarrow> string \<Rightarrow> string \<Rightarrow> ack \<Rightarrow> command_row action" where
  "Acknowledge tn dev i req =
     (if tn = [] \<or> dev = [] \<or> i = [] \<or> ack_status req = [] then throwE ErrInvalidInput
      else if \<not> (ack_status req = StatusAcked \<or> ack_status req = StatusFailed)
      then throwE ErrInvalidInput
      else bindE now (\<lambda>t. with_tx (
        bindE (expireDueCommand tn dev i) (\<lambda>_.
        elseE (no_rows_as ErrNotFound (exec_row (ack_update tn dev i req t)))
          (\<lambda>e. if e \<noteq> ErrNotFound then throwE e
               else bindE (commandForDevice tn dev i) (\<lambda>existing.
                 if cmd_status existing = StatusAcked \<or> cmd_status existing = StatusFailed
                 then returnE existing else throwE ErrNotFound))
          (\<lambda>rec'. bindE commit (\<lambda>_. returnE rec'))))))"

section \<open>The life of a command\<close>

text \<open>
  A command keeps what was asked of the device. While it is queued or sent it can move
  forward; acked, failed and expired are final: the row is never written again.
\<close>

definition command_step :: "command_row \<Rightarrow> command_row \<Rightarrow> bool" where
  "command_step c c' \<longleftrightarrow>
     cmd_tenant c' = cmd_tenant c \<and> cmd_device c' = cmd_device c \<and> cmd_type c' = cmd_type c \<and>
     cmd_payload c' = cmd_payload c \<and> cmd_expires c' = cmd_expires c \<and> cmd_created c' = cmd_created c \<and>
     (c' = c \<or> pending_status (cmd_status c)) \<and>
     (cmd_status c = ''sent'' \<longrightarrow> cmd_status c' \<noteq> ''queued'')"

interpretation commands_e: evolving commands commands_update cmd_id command_step
  by unfold_locales (auto simp: command_step_def pending_status_def command_statuses)

lemma command_step_expired: "due t c \<Longrightarrow> command_step c (set_expired t' c)"
  by (simp add: command_step_def set_expired_def due_def StatusExpired_def)

lemma command_step_sent:
  "cmd_status c = StatusQueued \<Longrightarrow> command_step c (c\<lparr>cmd_status := StatusSent, cmd_updated := t\<rparr>)"
  by (simp add: command_step_def pending_status_def command_statuses)

lemma command_step_acked:
  "deliverable t c \<Longrightarrow> ack_status req = StatusAcked \<or> ack_status req = StatusFailed \<Longrightarrow>
   command_step c (c\<lparr>cmd_status := ack_status req, cmd_acked := Some t', cmd_result := ack_result req,
            cmd_updated := t'\<rparr>)"
  by (auto simp: command_step_def deliverable_def command_statuses)

lemma cmd_id_set_expired [simp]: "cmd_id (set_expired t c) = cmd_id c"
  by (simp add: set_expired_def)

lemma keeps_PublishCommand [keeps_intros]: "keeps P (PublishCommand i m)"
  by (auto simp: keeps_def post_def PublishCommand_def holds_def)

lemma keeps_publishEnqueued [keeps_intros]:
  "keeps P (publish_all cs) \<Longrightarrow> keeps P (publishEnqueued cs)"
  by (auto simp: keeps_def post_def publishEnqueued_def split: prod.splits sum.splits)

lemma reads_resolveTargets [keeps_intros]: "reads (resolveTargets tn tg)"
  unfolding resolveTargets_def by (intro keeps_intros)

lemma keeps_resolveTargets [keeps_intros]: "keeps P (resolveTargets tn tg)"
  by (intro keeps_reads keeps_intros)

lemma evolves_publish_all:
  "keeps (\<lambda>d. rows_evolve cmd_id command_step (commands (d0 :: database)) (commands d)) (publish_all cs)"
proof (induction cs)
  case Nil
  then show ?case by (simp add: keeps_intros)
next
  case (Cons c cs)
  have "stmt_keeps (\<lambda>d. rows_evolve cmd_id command_step (commands d0) (commands d))
     (update_rows commands commands_update no_check
       (\<lambda>x. for_device (cmd_tenant c) (cmd_device c) x \<and> cmd_id x = cmd_id c \<and> cmd_status x = StatusQueued)
       (\<lambda>x. x\<lparr>cmd_status := StatusSent, cmd_updated := t\<rparr>))" for t
    by (rule commands_e.update_evolves) (simp add: command_step_sent)
  with Cons show ?case
    unfolding publish_all.simps markSent_def by (intro keeps_intros)
qed

lemmas command_ops = ListRecent_def ListRecentAll_def commands_GetOverviewStats_def commands_Get_def
  ListPending_def ListPendingForDevice_def ExpireDueCommands_def

text \<open>Every operation moves the commands along their life cycle.\<close>

lemma command_ops_evolve:
  "evolves commands cmd_id command_step (Enqueue tn req)"
  "evolves commands cmd_id command_step (ListPending tn dev page)"
  "evolves commands cmd_id command_step (ListPendingForDevice tn dev)"
  "evolves commands cmd_id command_step (ExpireDueCommands tn)"
  "evolves commands cmd_id command_step (Acknowledge tn dev i ack)"
proof -
  note intros = commands_e.evolvesI keeps_intros
  have expire: "stmt_keeps (\<lambda>d. rows_evolve cmd_id command_step (commands d0) (commands d))
      (update_rows commands commands_update no_check p (set_expired t))"
    if "\<And>c. p c \<Longrightarrow> due t c" for d0 :: database and p t
    by (rule commands_e.update_evolves) (auto intro: command_step_expired that)
  show "evolves commands cmd_id command_step (Enqueue tn req)"
    unfolding Enqueue_def Let_def insert_command_def
    by (intro intros evolves_publish_all commands_e.insert_evolves)
  show "evolves commands cmd_id command_step (ListPending tn dev page)"
    unfolding ListPending_def expireDueCommands_def by (intro intros expire) simp
  show "evolves commands cmd_id command_step (ListPendingForDevice tn dev)"
    unfolding ListPendingForDevice_def by (intro intros)
  show "evolves commands cmd_id command_step (ExpireDueCommands tn)"
    unfolding ExpireDueCommands_def by (intro intros expire) simp
  show "evolves commands cmd_id command_step (Acknowledge tn dev i ack)"
  proof (cases "ack_status ack = StatusAcked \<or> ack_status ack = StatusFailed")
    case True
    have "stmt_keeps (\<lambda>d. rows_evolve cmd_id command_step (commands d0) (commands d))
        (ack_update tn dev i ack t)" for d0 :: database and t
      unfolding ack_update_def
      by (rule commands_e.update_evolves) (use True in \<open>auto intro: command_step_acked\<close>)
    then show ?thesis
      unfolding Acknowledge_def expireDueCommand_def commandForDevice_def
      by (intro intros expire) simp_all
  next
    case False
    then show ?thesis unfolding Acknowledge_def by (auto intro!: intros)
  qed
qed

section \<open>Acknowledging\<close>

definition command_schema :: "database \<Rightarrow> bool" where
  "command_schema d \<longleftrightarrow> distinct (map cmd_id (commands d))"

definition acked_row :: "ack \<Rightarrow> int \<Rightarrow> command_row \<Rightarrow> command_row" where
  "acked_row req t c = c\<lparr>cmd_status := ack_status req, cmd_acked := Some t,
     cmd_result := ack_result req, cmd_updated := t\<rparr>"

definition named_command :: "string \<Rightarrow> string \<Rightarrow> string \<Rightarrow> command_row \<Rightarrow> bool" where
  "named_command tn dev i c \<longleftrightarrow> for_device tn dev c \<and> cmd_id c = i"

lemma named_command_single:
  assumes "command_schema d" "c \<in> set (commands d)" "named_command tn dev i c"
  shows "filter (named_command tn dev i) (commands d) = [c]"
  by (rule filter_key_single [where k = cmd_id])
    (use assms in \<open>auto simp: command_schema_def named_command_def\<close>)

lemma acked_row_eq:
  "(\<lambda>c. c\<lparr>cmd_status := ack_status req, cmd_acked := Some t, cmd_result := ack_result req,
     cmd_updated := t\<rparr>) = acked_row req t"
  by (simp add: fun_eq_iff acked_row_def)

lemma named_command_simps [simp]:
  "named_command tn dev i (acked_row req t c) = named_command tn dev i c"
  "named_command tn dev i (set_expired t c) = named_command tn dev i c"
  by (simp_all add: named_command_def acked_row_def set_expired_def for_device_def)

text \<open>The statements of \<open>Acknowledge\<close> on a table that holds the command once.\<close>

lemma expire_named:
  assumes "filter (named_command tn dev i) (commands d) = [c]"
  shows "commands_update (upd_where (\<lambda>c. for_device tn dev c \<and> cmd_id c = i \<and> due t c) (set_expired t)) d
    = (if due t c then commands_update (upd_where (named_command tn dev i) (set_expired t)) d else d)"
proof -
  have "upd_where (\<lambda>c. for_device tn dev c \<and> cmd_id c = i \<and> due t c) (set_expired t) (commands d)
      = (if due t c then upd_where (named_command tn dev i) (set_expired t) (commands d) else commands d)"
    using upd_sub_single [OF assms, of "\<lambda>c. for_device tn dev c \<and> cmd_id c = i \<and> due t c"]
      filter_single_mem [OF assms] by (simp add: named_command_def)
  then show ?thesis
    by (auto intro: commands_t.put_cong commands_t.put_same)
qed

lemma ack_named:
  assumes "filter (named_command tn dev i) (commands d) = [c]"
  shows "ack_update tn dev i req t pg d =
    (if deliverable t c
     then Inr ([acked_row req t c], commands_update (upd_where (named_command tn dev i) (acked_row req t)) d)
     else Inr ([], d))"
proof -
  let ?p = "\<lambda>c. for_device tn dev c \<and> cmd_id c = i \<and> deliverable t c"
  have f: "filter ?p (commands d) = (if deliverable t c then [c] else [])"
    using filter_sub_single [OF assms, of ?p] filter_single_mem [OF assms]
    by (simp add: named_command_def)
  have "upd_where ?p (acked_row req t) (commands d)
      = (if deliverable t c then upd_where (named_command tn dev i) (acked_row req t) (commands d) else commands d)"
    using upd_sub_single [OF assms, of ?p] filter_single_mem [OF assms] by (simp add: named_command_def)
  then have "commands_update (upd_where ?p (acked_row req t)) d = (if deliverable t c then
      commands_update (upd_where (named_command tn dev i) (acked_row req t)) d else d)"
    by (auto intro: commands_t.put_cong commands_t.put_same)
  with f show ?thesis
    by (simp add: ack_update_def acked_row_eq returning_def)
qed

lemma post_Acknowledge:
  assumes "txn w = None" "command_schema (db w)"
  shows "post (Acknowledge tn dev i req) w
     (\<lambda>r w'. \<exists>c \<in> set (commands (db w)). named_command tn dev i c \<and>
        (deliverable (clock_src (env w) (ticks w)) c \<and>
           \<not> due (clock_src (env w) (Suc (ticks w))) c \<and>
           (ack_status req = ''acked'' \<or> ack_status req = ''failed'') \<and>
           r = acked_row req (clock_src (env w) (ticks w)) c \<and>
           db w' = commands_update (upd_where (named_command tn dev i)
                     (acked_row req (clock_src (env w) (ticks w)))) (db w)
         \<or> (cmd_status c = ''acked'' \<or> cmd_status c = ''failed'') \<and> r = c \<and> db w' = db w))
     (\<lambda>e w'. db w' = db w)"
proof (cases "tn = [] \<or> dev = [] \<or> i = [] \<or> ack_status req = [] \<or>
    \<not> (ack_status req = StatusAcked \<or> ack_status req = StatusFailed)")
  case True
  then show ?thesis by (auto simp: Acknowledge_def wp)
next
  case valid: False
  let ?f = "filter (named_command tn dev i) (commands (db w))"
  have nm: "(\<lambda>c. for_device tn dev c \<and> cmd_id c = i) = named_command tn dev i"
    by (simp add: fun_eq_iff named_command_def)
  let ?t = "clock_src (env w) (ticks w)" and ?t2 = "clock_src (env w) (Suc (ticks w))"
  show ?thesis
  proof (cases ?f)
    case Nil
    then have no: "c \<in> set (commands (db w)) \<Longrightarrow> \<not> (for_device tn dev c \<and> cmd_id c = i)" for c
      by (auto simp: filter_empty_conv named_command_def)
    have same: "commands_update (upd_where (\<lambda>c. for_device tn dev c \<and> cmd_id c = i \<and> P c) g) (db w) = db w" for P g
      by (intro commands_t.put_same upd_where_none) (use no in auto)
    have none: "returning (\<lambda>c. for_device tn dev c \<and> cmd_id c = i \<and> P c) g (commands (db w)) = []" for P g
      by (simp add: returning_Nil) (use no in auto)
    show ?thesis
      using assms valid Nil
      by (simp add: Acknowledge_def wp expireDueCommand_def commandForDevice_def ack_update_def nm
          same none db_rollback)
  next
    case (Cons c cs)
    then have c: "c \<in> set (commands (db w))" "named_command tn dev i c"
      using filter_single_mem [OF Cons] by auto
    then have one: "?f = [c]" using assms(2) by (intro named_command_single)
    have one': "filter (named_command tn dev i)
        (upd_where (named_command tn dev i) (set_expired t) (commands (db w))) = [set_expired t c]" for t
      using one by (simp add: filter_upd_where)
    have st: "\<not> deliverable t (set_expired t' c)" "cmd_status (set_expired t' c) = ''expired''" for t t'
      by (simp_all add: deliverable_def pending_status_def set_expired_def command_statuses)
    show ?thesis
      using assms valid c one
      by (cases "due ?t2 c"; cases "deliverable ?t c")
        (auto simp: Acknowledge_def wp expireDueCommand_def commandForDevice_def nm expire_named
          ack_named one' st db_rollback command_statuses intro!: bexI [of _ c])
  qed
qed

section \<open>Enqueueing\<close>

text \<open>The devices a target names: one device, the members of an active group, or all.\<close>

definition is_target :: "database \<Rightarrow> string \<Rightarrow> target \<Rightarrow> device_row \<Rightarrow> bool" where
  "is_target d tn tg r \<longleftrightarrow> r \<in> set (devices d) \<and> rec_tenant r = tn \<and>
     rec_status r \<noteq> ''retired'' \<and> rec_status r \<noteq> ''wiped'' \<and>
     ((tg_type tg = [] \<or> tg_type tg = ''device'') \<and> rec_id r = tg_device tg \<or>
      tg_type tg = ''group'' \<and> active_group d tn (tg_group tg) \<and>
        (\<exists>m \<in> set (device_groups d). dg_tenant m = tn \<and> dg_group m = tg_group tg \<and> dg_device m = rec_id r) \<or>
      tg_type tg = ''broadcast'')"

lemma distinct_ids_filter:
  assumes "distinct (map rec_id rs)"
  shows "distinct (map rec_id (oldest_first (filter p rs)))"
proof -
  have "distinct rs" "inj_on rec_id (set rs)" using assms by (simp_all add: distinct_map)
  then show ?thesis
    by (simp add: distinct_map oldest_first_def) (rule inj_on_subset, assumption, auto)
qed

lemma post_resolveTargets:
  assumes "device_schema (db w)"
  shows "post (resolveTargets tn tg) w
     (\<lambda>ids w'. db w' = db w \<and> txn w' = txn w \<and> distinct ids \<and>
        set ids = rec_id ` {r. is_target (db w) tn tg r})
     (\<lambda>e w'. db w' = db w)"
proof -
  have ids: "distinct (map rec_id (devices (db w)))" using assms by (simp add: device_schema_def)
  have "distinct (map rec_id (oldest_first (filter p (devices (db w)))))" for p
    by (rule distinct_ids_filter [OF ids])
  moreover have "list_ex (\<lambda>g. by_id tn (tg_group tg) g \<and> rec_status g = ''active'') (groups (db w))
      \<longleftrightarrow> active_group (db w) tn (tg_group tg)"
    by (simp add: active_group_def list_ex_iff)
  ultimately show ?thesis
    by (auto simp: resolveTargets_def wp is_target_def eligible_def in_tenant_def list_ex_iff
        device_statuses TargetDevice_def TargetGroup_def TargetBroadcast_def)
qed

definition queued_for :: "string \<Rightarrow> command_upsert \<Rightarrow> int \<Rightarrow> command_row \<Rightarrow> bool" where
  "queued_for tn req t c \<longleftrightarrow> cmd_tenant c = tn \<and> cmd_type c = cu_type req \<and>
     cmd_payload c = (case cu_payload req of None \<Rightarrow> [] | Some p \<Rightarrow> p) \<and> cmd_status c = ''queued'' \<and>
     cmd_expires c = cu_expires req \<and> cmd_acked c = None \<and> cmd_result c = [] \<and>
     cmd_created c = t \<and> cmd_updated c = t"

lemma insert_command_eq:
  "insert_command tn i dev req payload t pg d =
     (if \<not> fresh cmd_id i (commands d) then Inl PgUnique
      else if \<not> (tn \<in> set (tenants d) \<and> has_key tenant_id (tn, dev) (devices d)) then Inl PgForeignKey
      else let c = \<lparr>cmd_id = i, cmd_tenant = tn, cmd_device = dev, cmd_type = cu_type req,
          cmd_payload = payload, cmd_status = ''queued'', cmd_expires = cu_expires req,
          cmd_acked = None, cmd_result = [], cmd_created = t, cmd_updated = t\<rparr>
        in Inr ([c], commands_update (\<lambda>cs. cs @ [c]) d))"
  by (simp add: insert_command_def insert_row_def insert_into_def StatusQueued_def Let_def)

lemma post_insert_commands:
  "post (mapE (\<lambda>dev. bindE NewString (\<lambda>i. exec_row (insert_command tn i dev req
       (case cu_payload req of None \<Rightarrow> [] | Some p \<Rightarrow> p) t))) targets) w
     (\<lambda>out w'. txn w' = txn w \<and> db w' = commands_update (\<lambda>cs. cs @ out) (db w) \<and>
        map cmd_device out = targets \<and> list_all (queued_for tn req t) out)
     (\<lambda>_ w'. txn w' = txn w)"
proof (induction targets arbitrary: w)
  case Nil
  then show ?case by (simp add: wp)
next
  case (Cons dev targets)
  show ?case
    unfolding mapE.simps
    by (auto simp: wp insert_command_eq Let_def comp_def queued_for_def intro!: post_mono [OF Cons.IH])
qed

text \<open>Marking commands sent adds none and removes none.\<close>

lemma markSent_ids: "keeps (\<lambda>d. map cmd_id (commands d) = ids) (publish_all cs)"
proof (induction cs)
  case (Cons c cs)
  have "stmt_keeps (\<lambda>d. map cmd_id (commands d) = ids) (update_rows commands commands_update no_check
       (\<lambda>x. for_device (cmd_tenant c) (cmd_device c) x \<and> cmd_id x = cmd_id c \<and> cmd_status x = StatusQueued)
       (\<lambda>x. x\<lparr>cmd_status := StatusSent, cmd_updated := t\<rparr>))" for t
    by (auto simp: stmt_keeps_def map_upd_where)
  with Cons show ?case
    unfolding publish_all.simps markSent_def by (intro keeps_intros)
qed (simp add: keeps_intros)

lemma keeps_conj: "keeps P m \<Longrightarrow> keeps Q m \<Longrightarrow> keeps (\<lambda>d. P d \<and> Q d) m"
proof -
  assume P: "keeps P m" and Q: "keeps Q m"
  show ?thesis
    unfolding keeps_def
  proof (intro allI impI)
    fix w assume "holds (\<lambda>d. P d \<and> Q d) w"
    then have "post m w (\<lambda>_. holds P) (\<lambda>_. holds P)" "post m w (\<lambda>_. holds Q) (\<lambda>_. holds Q)"
      using P Q by (auto simp: keeps_def holds_def)
    from post_conj [OF this] show "post m w (\<lambda>_. holds (\<lambda>d. P d \<and> Q d)) (\<lambda>_. holds (\<lambda>d. P d \<and> Q d))"
      by (rule post_mono) (auto simp: holds_def)
  qed
qed

lemma sure_publish_all: "sure (publish_all cs)"
proof (induction cs)
  case (Cons c cs)
  have "sure (PublishCommand i m)" for i m
    by (simp add: sure_def post_def PublishCommand_def)
  moreover have "sure (handleE m (\<lambda>_. returnE ()))" for m
    unfolding sure_def post_handleE post_returnE by (simp add: post_def split: prod.split sum.split)
  ultimately show ?case
    unfolding publish_all.simps by (intro keeps_intros Cons) (auto intro: keeps_intros)
qed (simp add: keeps_intros)

lemma post_publishEnqueued:
  assumes "txn w = None"
  shows "post (publishEnqueued cs) w
     (\<lambda>_ w'. rows_evolve cmd_id command_step (commands (db w)) (commands (db w')) \<and>
        map cmd_id (commands (db w')) = map cmd_id (commands (db w)))
     (\<lambda>_ _. False)"
proof -
  let ?P = "\<lambda>d. rows_evolve cmd_id command_step (commands (db w)) (commands d)"
    and ?Q = "\<lambda>d. map cmd_id (commands d) = map cmd_id (commands (db w))"
  have "keeps (\<lambda>d. ?P d \<and> ?Q d) (publishEnqueued cs)"
    by (intro keeps_intros keeps_conj evolves_publish_all markSent_ids)
  moreover have "holds (\<lambda>d. ?P d \<and> ?Q d) w"
    using assms by (simp add: holds_def commands_e.evolve_refl)
  ultimately have "post (publishEnqueued cs) w (\<lambda>_. holds (\<lambda>d. ?P d \<and> ?Q d)) (\<lambda>_. holds (\<lambda>d. ?P d \<and> ?Q d))"
    by (simp add: keeps_def)
  moreover have "post (publishEnqueued cs) w (\<lambda>_ _. True) (\<lambda>_ _. False)"
    using sure_publish_all [of cs]
    by (auto simp: sure_def publishEnqueued_def post_def split: prod.splits)
  ultimately have "post (publishEnqueued cs) w (\<lambda>_ w'. holds (\<lambda>d. ?P d \<and> ?Q d) w' \<and> True)
      (\<lambda>_ w'. holds (\<lambda>d. ?P d \<and> ?Q d) w' \<and> False)"
    by (rule post_conj)
  then show ?thesis by (rule post_mono) (simp_all add: holds_def)
qed

text \<open>
  \<open>Enqueue\<close> inserts one queued command for every target and none for anything else; the
  publishing that follows only moves commands along their life cycle. An error leaves the
  table as it was.
\<close>

lemma post_Enqueue:
  assumes "txn w = None" "device_schema (db w)"
  shows "post (Enqueue tn req) w
     (\<lambda>out w'. out \<noteq> [] \<and> list_all (queued_for tn req (clock_src (env w) (ticks w))) out \<and>
        distinct (map cmd_device out) \<and>
        set (map cmd_device out) = rec_id ` {r. is_target (db w) tn (cu_target req) r} \<and>
        map cmd_id (commands (db w')) = map cmd_id (commands (db w) @ out) \<and>
        rows_evolve cmd_id command_step (commands (db w) @ out) (commands (db w')))
     (\<lambda>e w'. db w' = db w)"
proof (cases "tn = [] \<or> cu_type req = []")
  case True
  then show ?thesis by (auto simp: Enqueue_def wp)
next
  case False
  let ?t = "clock_src (env w) (ticks w)" and ?w = "w\<lparr>ticks := Suc (ticks w)\<rparr>"
  have "post (resolveTargets tn (cu_target req)) ?w
     (\<lambda>ids w'. db w' = db w \<and> txn w' = None \<and> distinct ids \<and>
        set ids = rec_id ` {r. is_target (db w) tn (cu_target req) r}) (\<lambda>e w'. db w' = db w)"
    using post_resolveTargets [of ?w tn "cu_target req"] assms by simp
  then show ?thesis
    using False unfolding Enqueue_def Let_def
    apply (simp add: wp)
    apply (rule post_mono)
      apply assumption
     apply (simp_all add: wp)
    apply (intro impI)
    apply (rule post_mono [OF post_insert_commands])
     apply (auto simp: wp db_rollback intro!: post_mono [OF post_publishEnqueued])
    done
qed

section \<open>Properties\<close>

text \<open>Two devices, one of them retired, and commands in several states.\<close>

definition command_database :: database where
  "command_database = (device_database ''active'')\<lparr>
     devices := [sample_device ''d'' ''active'' (sample_hash ''s''),
                 sample_device ''e'' ''retired'' (sample_hash ''s2'')],
     commands := [sample_command ''c1'' ''d'' ''sent'' None, sample_command ''c2'' ''d'' ''queued'' (Some 10),
                  sample_command ''c3'' ''d'' ''queued'' (Some 9000), sample_command ''c4'' ''d'' ''acked'' (Some 10)]\<rparr>"

definition sample_broadcast :: command_upsert where
  "sample_broadcast = \<lparr>cu_type = ''ping'', cu_payload = None, cu_expires = None,
     cu_target = \<lparr>tg_type = ''broadcast'', tg_device = [], tg_group = []\<rparr>\<rparr>"

definition sample_ack :: ack where
  "sample_ack = \<lparr>ack_status = ''acked'', ack_message = ''ok'', ack_details = None\<rparr>"

lemma command_schema_samples: "command_schema command_database" "device_schema command_database"
  by (simp_all add: command_schema_def command_database_def sample_command_def device_schema_def
      device_database_def group_database_def empty_database_def sample_group_def sample_device_def
      member_key_def has_key_def tenant_id_def policy_ref_ok_def)

text \<open>
  C10: Enqueueing creates one queued command for every device the target names, a single device,
  the members of an active group or the whole tenant, never for a retired or wiped one, and
  for nothing else. Publishing afterwards only moves the new commands, and no others than
  queued ones, along their life cycle.
\<close>

theorem Enqueue_targets:
  assumes "fst (Enqueue tn req w) = Inr out" "txn w = None" "device_schema (db w)"
  shows "out \<noteq> [] \<and> distinct (map cmd_device out) \<and>
    set (map cmd_device out) = {i. \<exists>r. r \<in> set (devices (db w)) \<and> rec_id r = i \<and> rec_tenant r = tn \<and>
       rec_status r \<noteq> ''retired'' \<and> rec_status r \<noteq> ''wiped'' \<and>
       (let tg = cu_target req in
          (tg_type tg = [] \<or> tg_type tg = ''device'') \<and> i = tg_device tg \<or>
          tg_type tg = ''group'' \<and> active_group (db w) tn (tg_group tg) \<and>
            (\<exists>m. m \<in> set (device_groups (db w)) \<and> dg_tenant m = tn \<and> dg_group m = tg_group tg \<and> dg_device m = i) \<or>
          tg_type tg = ''broadcast'')} \<and>
    list_all (queued_for tn req (clock_src (env w) (ticks w))) out \<and>
    map cmd_id (commands (db (snd (Enqueue tn req w)))) = map cmd_id (commands (db w) @ out) \<and>
    rows_evolve cmd_id command_step (commands (db w) @ out) (commands (db (snd (Enqueue tn req w))))"
proof -
  have "rec_id ` {r. is_target (db w) tn (cu_target req) r} =
    {i. \<exists>r. r \<in> set (devices (db w)) \<and> rec_id r = i \<and> rec_tenant r = tn \<and>
       rec_status r \<noteq> ''retired'' \<and> rec_status r \<noteq> ''wiped'' \<and>
       (let tg = cu_target req in
          (tg_type tg = [] \<or> tg_type tg = ''device'') \<and> i = tg_device tg \<or>
          tg_type tg = ''group'' \<and> active_group (db w) tn (tg_group tg) \<and>
            (\<exists>m. m \<in> set (device_groups (db w)) \<and> dg_tenant m = tn \<and> dg_group m = tg_group tg \<and> dg_device m = i) \<or>
          tg_type tg = ''broadcast'')}" (is "?L = ?R")
  proof (rule set_eqI)
    show "i \<in> ?L \<longleftrightarrow> i \<in> ?R" for i
      unfolding is_target_def Let_def image_iff mem_Collect_eq Bex_def by blast
  qed
  with post_fst_Inr [OF post_Enqueue [OF assms(2,3)] assms(1)] show ?thesis by simp
qed

theorem Enqueue_targets_witness:
  "\<exists>c. fst (Enqueue ''t'' sample_broadcast (world_of command_database)) = Inr [c] \<and>
     queued_for ''t'' sample_broadcast 1000 c"
proof -
  let ?w = "world_of command_database"
  have "case fst (Enqueue ''t'' sample_broadcast ?w) of Inr out \<Rightarrow> length out = 1 | Inl e \<Rightarrow> False" by code_simp
  then obtain c where c: "fst (Enqueue ''t'' sample_broadcast ?w) = Inr [c]"
    by (auto split: sum.splits simp: length_Suc_conv)
  from Enqueue_targets [OF c] c show ?thesis
    by (auto simp: command_schema_samples sample_env_def)
qed



text \<open>
  Acknowledging is idempotent: repeating it, at any later time and with whatever status,
  message and details, answers the recorded acknowledgement and changes nothing.
\<close>

theorem Acknowledge_idempotent:
  assumes "fst (Acknowledge tn dev i req w) = Inr r" "txn w = None" "command_schema (db w)"
    and "db w1 = db (snd (Acknowledge tn dev i req w))" "txn w1 = None" "no_faults w1"
    and "ack_status req' = ''acked'' \<or> ack_status req' = ''failed''"
  shows "fst (Acknowledge tn dev i req' w1) = Inr r \<and> db (snd (Acknowledge tn dev i req' w1)) = db w1"
proof -
  have args: "tn \<noteq> []" "dev \<noteq> []" "i \<noteq> []"
    using assms(1) by (auto simp: Acknowledge_def throwE_def)
  have acked: "r \<in> set (commands (db w1)) \<and> named_command tn dev i r \<and>
      (cmd_status r = ''acked'' \<or> cmd_status r = ''failed'')"
    using post_fst_Inr [OF post_Acknowledge [OF assms(2,3)] assms(1)]
    by (auto simp: assms(4) set_upd_where acked_row_def named_command_def for_device_def)
  have sch: "command_schema (db w1)"
    using post_fst_Inr [OF post_Acknowledge [OF assms(2,3)] assms(1)] assms(3)
    by (auto simp: assms(4) command_schema_def map_upd_where acked_row_def)
  have one: "filter (named_command tn dev i) (commands (db w1)) = [r]"
    using named_command_single [OF sch] acked by blast
  have nm: "(\<lambda>c. for_device tn dev c \<and> cmd_id c = i) = named_command tn dev i"
    by (simp add: fun_eq_iff named_command_def)
  have final: "\<not> due t r" "\<not> deliverable t r" for t
    using acked by (auto simp: due_def deliverable_def pending_status_def command_statuses)
  have "post (Acknowledge tn dev i req') w1 (\<lambda>x w'. x = r \<and> db w' = db w1) (\<lambda>_ _. False)"
    using assms(5-7) args acked
    by (auto simp: Acknowledge_def wp expireDueCommand_def commandForDevice_def nm expire_named [OF one]
        ack_named [OF one] one final command_statuses db_rollback)
  then show ?thesis
    by (cases "Acknowledge tn dev i req' w1") (auto simp: post_def split: sum.splits)
qed

theorem Acknowledge_idempotent_witness:
  "\<exists>r. fst (Acknowledge ''t'' ''d'' ''c1'' sample_ack (world_of command_database)) = Inr r \<and>
     fst (Acknowledge ''t'' ''d'' ''c1'' (sample_ack\<lparr>ack_status := ''failed''\<rparr>)
       (world_of (db (snd (Acknowledge ''t'' ''d'' ''c1'' sample_ack (world_of command_database)))))) = Inr r"
proof -
  let ?w = "world_of command_database"
  have "case fst (Acknowledge ''t'' ''d'' ''c1'' sample_ack ?w) of Inr r \<Rightarrow> True | Inl e \<Rightarrow> False" by code_simp
  then obtain r where r: "fst (Acknowledge ''t'' ''d'' ''c1'' sample_ack ?w) = Inr r" by (auto split: sum.splits)
  from Acknowledge_idempotent [OF r, of "world_of (db (snd (Acknowledge ''t'' ''d'' ''c1'' sample_ack ?w)))"
      "sample_ack\<lparr>ack_status := ''failed''\<rparr>"] r
  show ?thesis by (simp add: command_schema_samples sample_ack_def)
qed

text \<open>
  A device is shown its pending commands: exactly the queued and sent ones that have not
  expired at the time of the call, each as stored, oldest first.
\<close>

theorem ListPendingForDevice_lists:
  assumes "no_faults w" "tn \<noteq> []" "dev \<noteq> []"
  shows "\<exists>cs. fst (ListPendingForDevice tn dev w) = Inr cs \<and>
    set cs = {c. c \<in> set (commands (db w)) \<and> cmd_tenant c = tn \<and> cmd_device c = dev \<and>
       (cmd_status c = ''queued'' \<or> cmd_status c = ''sent'') \<and>
       \<not> (\<exists>e. cmd_expires c = Some e \<and> e \<le> clock_src (env w) (ticks w))} \<and>
    mset cs \<subseteq># mset (commands (db w)) \<and> sorted (map (\<lambda>c. (cmd_created c, cmd_id c)) cs) \<and>
    db (snd (ListPendingForDevice tn dev w)) = db w"
proof -
  let ?p = "\<lambda>c. for_device tn dev c \<and> deliverable (clock_src (env w) (ticks w)) c"
  let ?cs = "oldest_commands (filter ?p (commands (db w)))"
  have "post (ListPendingForDevice tn dev) w (\<lambda>x w'. x = ?cs \<and> db w' = db w) (\<lambda>_ _. False)"
    using assms by (simp add: ListPendingForDevice_def wp)
  then have "fst (ListPendingForDevice tn dev w) = Inr ?cs" "db (snd (ListPendingForDevice tn dev w)) = db w"
    by (auto simp: post_def split: prod.splits sum.splits)
  moreover have "set ?cs = {c. c \<in> set (commands (db w)) \<and> cmd_tenant c = tn \<and> cmd_device c = dev \<and>
       (cmd_status c = ''queued'' \<or> cmd_status c = ''sent'') \<and>
       \<not> (\<exists>e. cmd_expires c = Some e \<and> e \<le> clock_src (env w) (ticks w))}"
    by (auto simp: oldest_commands_def for_device_def deliverable_def pending_status_def command_statuses
        split: option.splits)
  moreover have "mset ?cs \<subseteq># mset (commands (db w))"
    by (simp add: oldest_commands_def mset_filter multiset_filter_subset)
  moreover have "sorted (map (\<lambda>c. (cmd_created c, cmd_id c)) ?cs)" by (simp add: oldest_commands_def)
  ultimately show ?thesis by blast
qed

theorem ListPendingForDevice_lists_witness:
  "\<exists>cs. fst (ListPendingForDevice ''t'' ''d'' (world_of command_database)) = Inr cs \<and>
     sample_command ''c1'' ''d'' ''sent'' None \<in> set cs \<and>
     sample_command ''c2'' ''d'' ''queued'' (Some 10) \<notin> set cs"
proof -
  from ListPendingForDevice_lists [of "world_of command_database" "''t''" "''d''"] obtain cs
    where "fst (ListPendingForDevice ''t'' ''d'' (world_of command_database)) = Inr cs"
      "set cs = {c. c \<in> set (commands command_database) \<and> cmd_tenant c = ''t'' \<and> cmd_device c = ''d'' \<and>
       (cmd_status c = ''queued'' \<or> cmd_status c = ''sent'') \<and>
       \<not> (\<exists>e. cmd_expires c = Some e \<and> e \<le> clock_src sample_env 0)}" by auto
  then show ?thesis
    by (intro exI [of _ cs]) (simp add: command_database_def sample_command_def sample_env_def)
qed

text \<open>
  The expiry of due commands: exactly the pending commands of the tenant whose expiry is not
  after the time of the call become expired and are counted; every other command stays, and
  immediately afterwards, with the clock not yet past another expiry, nothing is due.
\<close>

theorem ExpireDueCommands_expires:
  assumes "no_faults w" "tn \<noteq> []"
  shows "let t = clock_src (env w) (ticks w); d' = db (snd (ExpireDueCommands tn w));
      due_now = (\<lambda>c. cmd_tenant c = tn \<and> (cmd_status c = ''queued'' \<or> cmd_status c = ''sent'') \<and>
        (\<exists>e. cmd_expires c = Some e \<and> e \<le> t)) in
    fst (ExpireDueCommands tn w) = Inr (int (length (filter due_now (commands (db w))))) \<and>
    commands d' = map (\<lambda>c. if due_now c then c\<lparr>cmd_status := ''expired'', cmd_updated := t\<rparr> else c) (commands (db w)) \<and>
    filter due_now (commands d') = [] \<and> devices d' = devices (db w)"
proof -
  let ?t = "clock_src (env w) (ticks w)"
  let ?p = "\<lambda>c. cmd_tenant c = tn \<and> due ?t c"
  define q :: "command_row \<Rightarrow> bool" where "q = (\<lambda>c. cmd_tenant c = tn \<and> (cmd_status c = ''queued'' \<or> cmd_status c = ''sent'') \<and>
        (\<exists>e. cmd_expires c = Some e \<and> e \<le> ?t))"
  have p: "?p = q"
    by (auto simp: q_def fun_eq_iff due_def pending_status_def command_statuses split: option.splits)
  have "post (ExpireDueCommands tn) w (\<lambda>n w'. n = int (length (filter ?p (commands (db w)))) \<and>
      db w' = commands_update (upd_where ?p (set_expired ?t)) (db w)) (\<lambda>_ _. False)"
    using assms by (simp add: ExpireDueCommands_def wp returning_def)
  then have run: "fst (ExpireDueCommands tn w) = Inr (int (length (filter q (commands (db w)))))"
    "db (snd (ExpireDueCommands tn w)) = commands_update (upd_where q (set_expired ?t)) (db w)"
    by (auto simp: p post_def split: prod.splits sum.splits)
  have "\<not> due ?t (set_expired ?t c)" for c
    by (simp add: due_def pending_status_def set_expired_def command_statuses)
  then have "filter ?p (upd_where ?p (set_expired ?t) (commands (db w))) = []"
    unfolding filter_empty_conv set_upd_where by blast
  then have "filter q (commands (db (snd (ExpireDueCommands tn w)))) = []" by (simp add: p run)
  moreover have "commands (db (snd (ExpireDueCommands tn w))) =
      map (\<lambda>c. if q c then c\<lparr>cmd_status := ''expired'', cmd_updated := ?t\<rparr> else c) (commands (db w))"
    by (simp add: run upd_where_def set_expired_def StatusExpired_def)
  moreover have "devices (db (snd (ExpireDueCommands tn w))) = devices (db w)" by (simp add: run)
  ultimately show ?thesis using run(1) unfolding Let_def q_def by blast
qed

theorem ExpireDueCommands_expires_witness:
  "fst (ExpireDueCommands ''t'' (world_of command_database)) = Inr 1"
  using ExpireDueCommands_expires [of "world_of command_database" "''t''"]
  by (simp add: Let_def command_database_def sample_command_def sample_env_def)

end
