(* ===== verification/Policies.thy ===== *)
theory Policies
  imports Tables Tokens Pagination Samples
begin

text \<open>
  Policies and what is bound to them: \<open>policy/model.go\<close> and \<open>policy/postgres/store.go\<close>. A policy
  has a version that every update increments and JSON restrictions; an update that keeps the
  kiosk mode without giving an exit passcode keeps the stored one. Apps, certificates and
  managed files are bound to a policy through three tables of the same shape, which the
  locale \<open>binding_table\<close> describes once.
\<close>

section \<open>Data\<close>

record policy_upsert =
  pu_name :: string
  pu_version :: int
  pu_kiosk_mode :: bool
  pu_kiosk_app :: string
  pu_restrictions :: "json option"

record policy_stats =
  ps_total :: int
  ps_active :: int
  ps_retired :: int

record restrictions_payload =
  rp_allow :: "string list"
  rp_block :: "string list"
  rp_suspend :: "string list"
  rp_keep_screen_on :: bool
  rp_stay_awake :: bool
  rp_unlock_on_boot :: bool
  rp_passcode :: string
  rp_passcode_hash :: string

definition no_restrictions :: restrictions_payload where
  "no_restrictions = \<lparr>rp_allow = [], rp_block = [], rp_suspend = [], rp_keep_screen_on = False,
     rp_stay_awake = False, rp_unlock_on_boot = False, rp_passcode = [], rp_passcode_hash = []\<rparr>"

section \<open>Decoding the restrictions\<close>

text \<open>
  \<open>json.Unmarshal\<close> into \<open>policyRestrictionsPayload\<close>: keys match the field names without regard
  to case, unknown keys are skipped, \<open>null\<close> leaves a string or a boolean as it is, and a value
  of the wrong type is skipped but makes the result an error. The second component says that
  there was no error.
\<close>

fun decode_element :: "json \<Rightarrow> string \<times> bool" where
  "decode_element (JStr s) = (s, True)"
| "decode_element JNull = ([], True)"
| "decode_element _ = ([], False)"

fun decode_strings :: "json \<Rightarrow> string list \<Rightarrow> string list \<times> bool" where
  "decode_strings (JArr xs) old = (map (fst \<circ> decode_element) xs, list_all (snd \<circ> decode_element) xs)"
| "decode_strings JNull old = ([], True)"
| "decode_strings _ old = (old, False)"

fun decode_bool :: "json \<Rightarrow> bool \<Rightarrow> bool \<times> bool" where
  "decode_bool (JBool b) old = (b, True)"
| "decode_bool JNull old = (old, True)"
| "decode_bool _ old = (old, False)"

fun decode_string :: "json \<Rightarrow> string \<Rightarrow> string \<times> bool" where
  "decode_string (JStr s) old = (s, True)"
| "decode_string JNull old = (old, True)"
| "decode_string _ old = (old, False)"

definition decode_field :: "string \<times> json \<Rightarrow> restrictions_payload \<times> bool \<Rightarrow> restrictions_payload \<times> bool" where
  "decode_field kv acc =
     (let (p, ok) = acc; k = ToLower (fst kv); v = snd kv
      in if k = ''allowpackages'' then
           (case decode_strings v (rp_allow p) of (x, b) \<Rightarrow> (p\<lparr>rp_allow := x\<rparr>, ok \<and> b))
         else if k = ''blockpackages'' then
           (case decode_strings v (rp_block p) of (x, b) \<Rightarrow> (p\<lparr>rp_block := x\<rparr>, ok \<and> b))
         else if k = ''suspendpackages'' then
           (case decode_strings v (rp_suspend p) of (x, b) \<Rightarrow> (p\<lparr>rp_suspend := x\<rparr>, ok \<and> b))
         else if k = ''kioskkeepscreenon'' then
           (case decode_bool v (rp_keep_screen_on p) of (x, b) \<Rightarrow> (p\<lparr>rp_keep_screen_on := x\<rparr>, ok \<and> b))
         else if k = ''kioskstayawakewhilepluggedin'' then
           (case decode_bool v (rp_stay_awake p) of (x, b) \<Rightarrow> (p\<lparr>rp_stay_awake := x\<rparr>, ok \<and> b))
         else if k = ''kioskunlockonboot'' then
           (case decode_bool v (rp_unlock_on_boot p) of (x, b) \<Rightarrow> (p\<lparr>rp_unlock_on_boot := x\<rparr>, ok \<and> b))
         else if k = ''kioskexitpasscode'' then
           (case decode_string v (rp_passcode p) of (x, b) \<Rightarrow> (p\<lparr>rp_passcode := x\<rparr>, ok \<and> b))
         else if k = ''kioskexitpasscodehash'' then
           (case decode_string v (rp_passcode_hash p) of (x, b) \<Rightarrow> (p\<lparr>rp_passcode_hash := x\<rparr>, ok \<and> b))
         else (p, ok))"

fun decode_restrictions :: "json \<Rightarrow> restrictions_payload \<times> bool" where
  "decode_restrictions (JObj kvs) = fold decode_field kvs (no_restrictions, True)"
| "decode_restrictions JNull = (no_restrictions, True)"
| "decode_restrictions _ = (no_restrictions, False)"

text \<open>\<open>json.Marshal\<close> with the \<open>omitempty\<close> options of the struct.\<close>

definition strings_entry :: "string \<Rightarrow> string list \<Rightarrow> obj" where
  "strings_entry k xs = (if xs = [] then [] else [(k, JArr (map JStr xs))])"

definition bool_entry :: "string \<Rightarrow> bool \<Rightarrow> obj" where
  "bool_entry k b = (if b then [(k, JBool True)] else [])"

definition string_entry :: "string \<Rightarrow> string \<Rightarrow> obj" where
  "string_entry k s = (if s = [] then [] else [(k, JStr s)])"

definition encode_restrictions :: "restrictions_payload \<Rightarrow> json" where
  "encode_restrictions p = JObj
     (strings_entry ''allowPackages'' (rp_allow p) @ strings_entry ''blockPackages'' (rp_block p) @
      strings_entry ''suspendPackages'' (rp_suspend p) @
      bool_entry ''kioskKeepScreenOn'' (rp_keep_screen_on p) @
      bool_entry ''kioskStayAwakeWhilePluggedIn'' (rp_stay_awake p) @
      bool_entry ''kioskUnlockOnBoot'' (rp_unlock_on_boot p) @
      string_entry ''kioskExitPasscode'' (rp_passcode p) @
      string_entry ''kioskExitPasscodeHash'' (rp_passcode_hash p))"

definition kioskExitPasscodeConfigured :: "json \<Rightarrow> bool" where
  "kioskExitPasscodeConfigured r =
     (if r = JNull then False
      else case decode_restrictions r of
        (p, ok) \<Rightarrow> if \<not> ok then False
          else TrimSpace (rp_passcode p) \<noteq> [] \<or> TrimSpace (rp_passcode_hash p) \<noteq> [])"

definition mergeKioskExitPasscode :: "json \<Rightarrow> json \<Rightarrow> json" where
  "mergeKioskExitPasscode existing next' =
     (let current = fst (decode_restrictions existing);
          updated = fst (decode_restrictions next');
          updated = (if TrimSpace (rp_passcode updated) = [] then
              (let u = updated\<lparr>rp_passcode := TrimSpace (rp_passcode current)\<rparr>
               in if rp_passcode u = []
                  then u\<lparr>rp_passcode_hash := TrimSpace (rp_passcode_hash current)\<rparr> else u)
            else updated)
      in encode_restrictions updated)"

section \<open>The policy store\<close>

text \<open>Absent or \<open>null\<close> restrictions become the empty object.\<close>

definition given_restrictions :: "json option \<Rightarrow> json" where
  "given_restrictions r = (case r of None \<Rightarrow> JObj [] | Some JNull \<Rightarrow> JObj [] | Some j \<Rightarrow> j)"

definition version_key :: "policy_row \<Rightarrow> string \<times> string \<times> int" where
  "version_key r = (rec_tenant r, pol_name r, pol_version r)"

definition insert_policy :: "string \<Rightarrow> string \<Rightarrow> policy_upsert \<Rightarrow> int \<Rightarrow> policy_row list stmt" where
  "insert_policy tn i req t = insert_row policies_update
     (\<lambda>d. fresh rec_id i (policies d) \<and> fresh version_key (tn, pu_name req, 1) (policies d))
     (\<lambda>d. tn \<in> set (tenants d))
     (\<lambda>pgnow. \<lparr>rec_id = i, rec_tenant = tn, rec_status = ''active'', created_at = pgnow,
              updated_at = t, deleted_at = None, pol_name = pu_name req, pol_version = 1,
              pol_kiosk_mode = pu_kiosk_mode req, pol_kiosk_app = pu_kiosk_app req,
              pol_restrictions = given_restrictions (pu_restrictions req)\<rparr>)"

definition CreatePolicy :: "string \<Rightarrow> policy_upsert \<Rightarrow> policy_row action" where
  "CreatePolicy tn req =
     (if pu_name req = [] then throwE ErrInvalidInput
      else bindE NewString (\<lambda>i. bindE now (\<lambda>t. exec_row (insert_policy tn i req t))))"

definition ListPolicies :: "string \<Rightarrow> page_params \<Rightarrow> policy_row list action" where
  "ListPolicies tn page =
     query (\<lambda>d. paged page (newest_first (filter (in_tenant tn) (policies d))))"

definition ListActivePolicies :: "string \<Rightarrow> policy_row list action" where
  "ListActivePolicies tn = query (\<lambda>d. newest_first
     (filter (\<lambda>r. in_tenant tn r \<and> rec_status r = ''active'') (policies d)))"

definition policy_GetOverviewStats :: "string \<Rightarrow> policy_stats action" where
  "policy_GetOverviewStats tn = query (\<lambda>d. let rs = filter (in_tenant tn) (policies d) in
     \<lparr>ps_total = int (length rs),
      ps_active = int (length (filter (\<lambda>r. rec_status r = ''active'') rs)),
      ps_retired = int (length (filter (\<lambda>r. rec_status r = ''retired'') rs))\<rparr>)"

definition GetPolicy :: "string \<Rightarrow> string \<Rightarrow> policy_row action" where
  "GetPolicy tn i = (if tn = [] \<or> i = [] then throwE ErrInvalidInput else get_by_id policies tn i)"

text \<open>
  \<open>version\<close> is a 32-bit \<open>integer\<close> column: \<open>version + 1\<close> out of its range makes the statement fail,
  as does a name and version that another policy of the tenant has.
\<close>

definition update_policy ::
  "string \<Rightarrow> string \<Rightarrow> policy_upsert \<Rightarrow> json \<Rightarrow> int \<Rightarrow> policy_row list stmt" where
  "update_policy tn i req restrictions t = update_rows policies policies_update
     (\<lambda>d. if list_ex (\<lambda>r. by_id tn i r \<and> pol_version r + 1 > 2147483647) (policies d) then Some PgFault
          else if list_ex (\<lambda>r. by_id tn i r \<and> list_ex (\<lambda>s. rec_id s \<noteq> i \<and>
                 version_key s = (tn, pu_name req, pol_version r + 1)) (policies d)) (policies d)
          then Some PgUnique else None)
     (by_id tn i)
     (\<lambda>r. r\<lparr>pol_name := pu_name req, pol_version := pol_version r + 1,
            pol_kiosk_mode := pu_kiosk_mode req, pol_kiosk_app := pu_kiosk_app req,
            pol_restrictions := restrictions, updated_at := t\<rparr>)"

definition UpdatePolicy :: "string \<Rightarrow> string \<Rightarrow> policy_upsert \<Rightarrow> policy_row action" where
  "UpdatePolicy tn i req =
     (if pu_name req = [] then throwE ErrInvalidInput
      else
        let restrictions = given_restrictions (pu_restrictions req)
        in bindE (if pu_kiosk_mode req then
             bindE (no_rows_as ErrNotFound (query_row (\<lambda>d. filter (by_id tn i) (policies d)))) (\<lambda>e.
               returnE (if pol_kiosk_mode e \<and> \<not> kioskExitPasscodeConfigured restrictions
                        then mergeKioskExitPasscode (pol_restrictions e) restrictions
                        else restrictions))
           else returnE restrictions) (\<lambda>restrictions.
           bindE now (\<lambda>t. no_rows_as ErrNotFound (exec_row (update_policy tn i req restrictions t)))))"

definition RetirePolicy :: "string \<Rightarrow> string \<Rightarrow> policy_row action" where
  "RetirePolicy tn i = retire_by_id policies policies_update tn i"

section \<open>Bindings\<close>

text \<open>
  The queries and statements on \<open>policy_apps\<close>, \<open>policy_certificates\<close> and
  \<open>policy_managed_files\<close>, which differ only in the table and the column of the bound item.
\<close>

type_synonym bindings = "database \<Rightarrow> binding_row list"

definition bound_to :: "string \<Rightarrow> string \<Rightarrow> binding_row \<Rightarrow> bool" where
  "bound_to tn pid r \<longleftrightarrow> rec_tenant r = tn \<and> bind_policy r = pid"

definition binding_of :: "string \<Rightarrow> string \<Rightarrow> string \<Rightarrow> binding_row \<Rightarrow> bool" where
  "binding_of tn pid item r \<longleftrightarrow> bound_to tn pid r \<and> bind_item r = item"

definition list_bindings :: "bindings \<Rightarrow> string \<Rightarrow> string \<Rightarrow> page_params \<Rightarrow> binding_row list action" where
  "list_bindings get tn pid page =
     query (\<lambda>d. paged page (oldest_first (filter (bound_to tn pid) (get d))))"

definition list_active_bindings :: "bindings \<Rightarrow> string \<Rightarrow> string \<Rightarrow> binding_row list action" where
  "list_active_bindings get tn pid = query (\<lambda>d. oldest_first
     (filter (\<lambda>r. bound_to tn pid r \<and> rec_status r = ''active'') (get d)))"

definition get_binding :: "bindings \<Rightarrow> string \<Rightarrow> string \<Rightarrow> string \<Rightarrow> binding_row action" where
  "get_binding get tn pid item =
     no_rows_as ErrNotFound (query_row (\<lambda>d. filter (binding_of tn pid item) (get d)))"

text \<open>\<open>INSERT ... ON CONFLICT (tenant, policy, item) DO UPDATE\<close>.\<close>

definition upsert_binding ::
  "bindings \<Rightarrow> binding_row updater \<Rightarrow> (database \<Rightarrow> bool) \<Rightarrow> string \<Rightarrow> string \<Rightarrow> string \<Rightarrow> string \<Rightarrow> int
   \<Rightarrow> binding_row list stmt" where
  "upsert_binding get put refs tn pid item i t = (\<lambda>pg d.
     if list_ex (binding_of tn pid item) (get d)
     then update_rows get put no_check (binding_of tn pid item)
            (\<lambda>r. r\<lparr>rec_status := ''active'', updated_at := t, deleted_at := None\<rparr>) pg d
     else insert_row put (\<lambda>d. fresh rec_id i (get d))
            (\<lambda>d. tn \<in> set (tenants d) \<and> has_key tenant_id (tn, pid) (policies d) \<and> refs d)
            (\<lambda>_. \<lparr>rec_id = i, rec_tenant = tn, rec_status = ''active'', created_at = t,
                 updated_at = t, deleted_at = None, bind_policy = pid, bind_item = item\<rparr>) pg d)"

definition live_row :: "string \<Rightarrow> string \<Rightarrow> 'a record_base_scheme \<Rightarrow> bool" where
  "live_row tn i r \<longleftrightarrow> by_id tn i r \<and> rec_status r \<noteq> ''retired''"

definition add_binding ::
  "bindings \<Rightarrow> binding_row updater \<Rightarrow> (database \<Rightarrow> 'a record_base_scheme list) \<Rightarrow>
   string \<Rightarrow> string \<Rightarrow> string \<Rightarrow> binding_row action" where
  "add_binding get put items tn pid item =
     (if tn = [] \<or> pid = [] \<or> item = [] then throwE ErrInvalidInput
      else
        bindE (no_rows_as ErrNotFound (query_row (\<lambda>d. filter (live_row tn pid) (policies d)))) (\<lambda>_.
        bindE (no_rows_as ErrNotFound (query_row (\<lambda>d. filter (live_row tn item) (items d)))) (\<lambda>_.
        bindE NewString (\<lambda>i. bindE now (\<lambda>t.
        handleE (exec_row (upsert_binding get put (\<lambda>d. has_key tenant_id (tn, item) (items d)) tn pid item i t))
          (\<lambda>e. throwE (if isUniqueViolation e then ErrConflict else e)))))))"

definition remove_binding ::
  "bindings \<Rightarrow> binding_row updater \<Rightarrow> string \<Rightarrow> string \<Rightarrow> string \<Rightarrow> unit action" where
  "remove_binding get put tn pid item =
     bindE now (\<lambda>t.
     bindE (exec (update_rows get put no_check (binding_of tn pid item)
        (\<lambda>r. r\<lparr>rec_status := ''disabled'', updated_at := t, deleted_at := Some t\<rparr>))) (\<lambda>rs.
     if rs = [] then throwE ErrNotFound else returnE ()))"

definition ListPolicyApps :: "string \<Rightarrow> string \<Rightarrow> page_params \<Rightarrow> binding_row list action" where
  "ListPolicyApps tn pid page = list_bindings policy_apps tn pid page"
definition ListActivePolicyApps :: "string \<Rightarrow> string \<Rightarrow> binding_row list action" where
  "ListActivePolicyApps tn pid = list_active_bindings policy_apps tn pid"
definition GetPolicyApp :: "string \<Rightarrow> string \<Rightarrow> string \<Rightarrow> binding_row action" where
  "GetPolicyApp tn pid item = get_binding policy_apps tn pid item"
definition AddPolicyApp :: "string \<Rightarrow> string \<Rightarrow> string \<Rightarrow> binding_row action" where
  "AddPolicyApp tn pid item = add_binding policy_apps policy_apps_update apps tn pid item"
definition RemovePolicyApp :: "string \<Rightarrow> string \<Rightarrow> string \<Rightarrow> unit action" where
  "RemovePolicyApp tn pid item = remove_binding policy_apps policy_apps_update tn pid item"

definition ListPolicyCertificates :: "string \<Rightarrow> string \<Rightarrow> page_params \<Rightarrow> binding_row list action" where
  "ListPolicyCertificates tn pid page = list_bindings policy_certificates tn pid page"
definition ListActivePolicyCertificates :: "string \<Rightarrow> string \<Rightarrow> binding_row list action" where
  "ListActivePolicyCertificates tn pid = list_active_bindings policy_certificates tn pid"
definition GetPolicyCertificate :: "string \<Rightarrow> string \<Rightarrow> string \<Rightarrow> binding_row action" where
  "GetPolicyCertificate tn pid item = get_binding policy_certificates tn pid item"
definition AddPolicyCertificate :: "string \<Rightarrow> string \<Rightarrow> string \<Rightarrow> binding_row action" where
  "AddPolicyCertificate tn pid item =
     add_binding policy_certificates policy_certificates_update certificates tn pid item"
definition RemovePolicyCertificate :: "string \<Rightarrow> string \<Rightarrow> string \<Rightarrow> unit action" where
  "RemovePolicyCertificate tn pid item =
     remove_binding policy_certificates policy_certificates_update tn pid item"

definition ListPolicyManagedFiles :: "string \<Rightarrow> string \<Rightarrow> page_params \<Rightarrow> binding_row list action" where
  "ListPolicyManagedFiles tn pid page = list_bindings policy_managed_files tn pid page"
definition ListActivePolicyManagedFiles :: "string \<Rightarrow> string \<Rightarrow> binding_row list action" where
  "ListActivePolicyManagedFiles tn pid = list_active_bindings policy_managed_files tn pid"
definition GetPolicyManagedFile :: "string \<Rightarrow> string \<Rightarrow> string \<Rightarrow> binding_row action" where
  "GetPolicyManagedFile tn pid item = get_binding policy_managed_files tn pid item"
definition AddPolicyManagedFile :: "string \<Rightarrow> string \<Rightarrow> string \<Rightarrow> binding_row action" where
  "AddPolicyManagedFile tn pid item =
     add_binding policy_managed_files policy_managed_files_update managed_files tn pid item"
definition RemovePolicyManagedFile :: "string \<Rightarrow> string \<Rightarrow> string \<Rightarrow> unit action" where
  "RemovePolicyManagedFile tn pid item =
     remove_binding policy_managed_files policy_managed_files_update tn pid item"

section \<open>Restrictions\<close>

lemma lower_keys [simp]:
  "ToLower ''allowPackages'' = ''allowpackages''" "ToLower ''blockPackages'' = ''blockpackages''"
  "ToLower ''suspendPackages'' = ''suspendpackages''"
  "ToLower ''kioskKeepScreenOn'' = ''kioskkeepscreenon''"
  "ToLower ''kioskStayAwakeWhilePluggedIn'' = ''kioskstayawakewhilepluggedin''"
  "ToLower ''kioskUnlockOnBoot'' = ''kioskunlockonboot''"
  "ToLower ''kioskExitPasscode'' = ''kioskexitpasscode''"
  "ToLower ''kioskExitPasscodeHash'' = ''kioskexitpasscodehash''"
  by code_simp+

lemma decode_strings_JStr [simp]: "decode_strings (JArr (map JStr xs)) old = (xs, True)"
  by (simp add: comp_def list_all_iff)

lemma decode_encode_restrictions: "decode_restrictions (encode_restrictions p) = (p, True)"
  by (simp add: encode_restrictions_def strings_entry_def bool_entry_def string_entry_def
      decode_field_def no_restrictions_def del: decode_strings.simps)

lemma configured_encode:
  "kioskExitPasscodeConfigured (encode_restrictions p) \<longleftrightarrow>
     TrimSpace (rp_passcode p) \<noteq> [] \<or> TrimSpace (rp_passcode_hash p) \<noteq> []"
  unfolding kioskExitPasscodeConfigured_def decode_encode_restrictions
  by (simp add: encode_restrictions_def)

text \<open>Merging keeps a passcode that was configured.\<close>

lemma merge_configured:
  assumes "kioskExitPasscodeConfigured existing"
  shows "kioskExitPasscodeConfigured (mergeKioskExitPasscode existing next')"
proof -
  have "TrimSpace (rp_passcode (fst (decode_restrictions existing))) \<noteq> [] \<or>
      TrimSpace (rp_passcode_hash (fst (decode_restrictions existing))) \<noteq> []"
    using assms by (auto simp: kioskExitPasscodeConfigured_def split: if_splits prod.splits)
  then show ?thesis
    by (auto simp: mergeKioskExitPasscode_def configured_encode Let_def)
qed

lemma post_UpdatePolicy:
  assumes "distinct (map rec_id (policies (db w)))"
  shows "post (UpdatePolicy tn i req) w
     (\<lambda>r' w'. \<exists>r restrictions t. r \<in> set (policies (db w)) \<and> by_id tn i r \<and>
        t = clock_src (env w) (ticks w) \<and>
        restrictions =
          (let given = given_restrictions (pu_restrictions req)
           in if pu_kiosk_mode req \<and> pol_kiosk_mode r \<and> \<not> kioskExitPasscodeConfigured given
              then mergeKioskExitPasscode (pol_restrictions r) given else given) \<and>
        r' = r\<lparr>pol_name := pu_name req, pol_version := pol_version r + 1,
               pol_kiosk_mode := pu_kiosk_mode req, pol_kiosk_app := pu_kiosk_app req,
               pol_restrictions := restrictions, updated_at := t\<rparr> \<and>
        pol_version r' \<le> 2147483647 \<and>
        policies (db w') = upd_where (by_id tn i) (\<lambda>_. r') (policies (db w)))
     (\<lambda>e w'. db w' = db w)"
proof (cases "\<exists>r \<in> set (policies (db w)). by_id tn i r")
  case True
  then obtain r where r: "r \<in> set (policies (db w))" "by_id tn i r" by auto
  then have one: "filter (by_id tn i) (policies (db w)) = [r]"
    using assms by (intro policies_t.by_id_single)
  have only: "s = r" if "s \<in> set (policies (db w))" "by_id tn i s" for s
  proof -
    have "s \<in> set (filter (by_id tn i) (policies (db w)))" using that by simp
    then show ?thesis by (simp add: one)
  qed
  let ?g = "\<lambda>j t r. r\<lparr>pol_name := pu_name req, pol_version := pol_version r + 1,
     pol_kiosk_mode := pu_kiosk_mode req, pol_kiosk_app := pu_kiosk_app req,
     pol_restrictions := j, updated_at := t\<rparr>"
  have upd: "policies_update (upd_where (by_id tn i) (?g j t)) (db w)
      = policies_update (upd_where (by_id tn i) (\<lambda>_. ?g j t r)) (db w)" for j t
    by (intro policies_t.put_cong upd_where_cong) (use only in auto)
  have ex: "list_ex (by_id tn i) (policies (db w))" using r by (auto simp: list_ex_iff)
  have range: "list_ex (\<lambda>r. by_id tn i r \<and> P r) (policies (db w)) \<longleftrightarrow> P r" for P
    unfolding list_ex_iff using r only by blast
  have stmt: "update_policy tn i req j t pg (db w) =
      (if pol_version r + 1 > 2147483647 then Inl PgFault
       else if list_ex (\<lambda>s. rec_id s \<noteq> i \<and> version_key s = (tn, pu_name req, pol_version r + 1)) (policies (db w))
       then Inl PgUnique
       else Inr ([?g j t r], policies_update (upd_where (by_id tn i) (\<lambda>_. ?g j t r)) (db w)))" for j t pg
    unfolding update_policy_def update_rows_def range upd [symmetric]
    by (simp add: ex returning_single [OF one])
  show ?thesis
    using r
    by (cases "pu_name req = []"; cases "pu_kiosk_mode req")
      (auto simp: UpdatePolicy_def wp one Let_def stmt)
next
  case False
  then have "filter (by_id tn i) (policies (db w)) = []" "\<not> list_ex (by_id tn i) (policies (db w))"
    by (auto simp: filter_empty_conv list_ex_iff)
  then show ?thesis
    by (cases "pu_name req = []"; cases "pu_kiosk_mode req")
      (auto simp: UpdatePolicy_def wp Let_def update_policy_def update_rows_def returning_def
        policies_t.put_same upd_where_none list_ex_iff)
qed

section \<open>The contract of a binding table\<close>

definition binding_key :: "binding_row \<Rightarrow> string \<times> string \<times> string" where
  "binding_key r = (rec_tenant r, bind_policy r, bind_item r)"

definition binding_schema :: "bindings \<Rightarrow> database \<Rightarrow> bool" where
  "binding_schema get d \<longleftrightarrow> distinct (map rec_id (get d)) \<and> distinct (map binding_key (get d))"

lemma binding_of_key: "binding_of tn pid item r \<longleftrightarrow> binding_key r = (tn, pid, item)"
  by (auto simp: binding_of_def bound_to_def binding_key_def)

lemma sorted_filter_mem: "filter p (oldest_first rs) = oldest_first (filter p rs)"
  by (simp add: oldest_first_def filter_sort)

locale binding_table = base_table get put
  for get :: "database \<Rightarrow> binding_row list"
    and put :: "(binding_row list \<Rightarrow> binding_row list) \<Rightarrow> database \<Rightarrow> database"
begin

lemma binding_single:
  assumes "binding_schema get d" "r \<in> set (get d)" "binding_of tn pid item r"
  shows "filter (binding_of tn pid item) (get d) = [r]"
  by (rule filter_key_single [where k = binding_key])
    (use assms in \<open>auto simp: binding_schema_def binding_of_key\<close>)

text \<open>Adding leaves exactly one binding of the item, an active one, and touches no other row.\<close>

lemma post_add:
  assumes "binding_schema get (db w)"
  shows "post (add_binding get put items tn pid item) w
     (\<lambda>r w'. rec_status r = ''active'' \<and> deleted_at r = None \<and>
        filter (binding_of tn pid item) (get (db w')) = [r] \<and>
        filter (\<lambda>s. \<not> binding_of tn pid item s) (get (db w')) =
          filter (\<lambda>s. \<not> binding_of tn pid item s) (get (db w)) \<and>
        list_ex (live_row tn pid) (policies (db w)) \<and> list_ex (live_row tn item) (items (db w)) \<and>
        (\<forall>s \<in> set (get (db w)). binding_of tn pid item s \<longrightarrow> rec_id r = rec_id s \<and> created_at r = created_at s))
     (\<lambda>e w'. db w' = db w)"
proof -
  let ?f = "\<lambda>t r :: binding_row. r\<lparr>rec_status := ''active'', updated_at := t, deleted_at := None\<rparr>"
  have live: "list_ex (live_row tn i) rs \<longleftrightarrow> filter (live_row tn i) rs \<noteq> []"
    for i and rs :: "'b record_base_scheme list"
    by (simp add: list_ex_iff filter_empty_conv)
  have live': "list_ex (live_row tn i) rs \<longleftrightarrow> filter (live_row tn i) rs \<noteq> []"
    for i and rs :: "policy_row list"
    by (simp add: list_ex_iff filter_empty_conv)
  have of: "binding_of tn pid item (?f t r) = binding_of tn pid item r" for t r
    by (simp add: binding_of_def bound_to_def)
  show ?thesis
  proof (cases "list_ex (binding_of tn pid item) (get (db w))")
    case True
    then obtain r where r: "r \<in> set (get (db w))" "binding_of tn pid item r" by (auto simp: list_ex_iff)
    have one: "filter (binding_of tn pid item) (get (db w)) = [r]"
      by (rule binding_single [OF assms r])
    have only: "s = r" if "s \<in> set (get (db w))" "binding_of tn pid item s" for s
    proof -
      have "s \<in> set (filter (binding_of tn pid item) (get (db w)))" using that by simp
      then show ?thesis by (simp add: one)
    qed
    have rest: "filter (\<lambda>s. \<not> binding_of tn pid item s) (upd_where (binding_of tn pid item) (?f t) rs)
        = filter (\<lambda>s. \<not> binding_of tn pid item s) rs" for t rs
      by (induction rs) (auto simp: upd_where_def of)
    have same: "\<forall>s \<in> set (get (db w)). binding_of tn pid item s \<longrightarrow>
        rec_id r = rec_id s \<and> created_at r = created_at s"
      using only by blast
    show ?thesis
      using True same
      by (cases "filter (live_row tn pid) (policies (db w))"; cases "filter (live_row tn item) (items (db w))")
        (simp_all add: add_binding_def wp upsert_binding_def one returning_single filter_upd_where of rest
          live live')
  next
    case False
    then have none: "filter (binding_of tn pid item) (get (db w)) = []"
      and no: "\<forall>s \<in> set (get (db w)). \<not> binding_of tn pid item s"
      by (auto simp: filter_empty_conv list_ex_iff)
    have mk: "binding_of tn pid item \<lparr>rec_id = i, rec_tenant = tn, rec_status = st, created_at = t,
        updated_at = t, deleted_at = None, bind_policy = pid, bind_item = item\<rparr>" for i st t
      by (simp add: binding_of_def bound_to_def)
    show ?thesis
      using False no
      by (cases "filter (live_row tn pid) (policies (db w))"; cases "filter (live_row tn item) (items (db w))")
        (simp_all add: add_binding_def wp upsert_binding_def none insert_row_def insert_into_def mk
          live live')
  qed
qed

lemma post_remove:
  "post (remove_binding get put tn pid item) w
     (\<lambda>_ w'. list_ex (binding_of tn pid item) (get (db w)) \<and>
        (\<forall>r \<in> set (get (db w')). binding_of tn pid item r \<longrightarrow> rec_status r = ''disabled'') \<and>
        filter (\<lambda>s. \<not> binding_of tn pid item s) (get (db w')) =
          filter (\<lambda>s. \<not> binding_of tn pid item s) (get (db w)))
     (\<lambda>e w'. db w' = db w)"
proof -
  let ?f = "\<lambda>t r :: binding_row. r\<lparr>rec_status := ''disabled'', updated_at := t, deleted_at := Some t\<rparr>"
  have of: "binding_of tn pid item (?f t r) = binding_of tn pid item r" for t r
    by (simp add: binding_of_def bound_to_def)
  have rest: "filter (\<lambda>s. \<not> binding_of tn pid item s) (upd_where (binding_of tn pid item) (?f t) rs)
      = filter (\<lambda>s. \<not> binding_of tn pid item s) rs" for t rs
    by (induction rs) (auto simp: upd_where_def of)
  show ?thesis
    by (auto simp: remove_binding_def wp rest returning_Nil put_same upd_where_none set_upd_where of
        list_ex_iff)
qed

text \<open>What the active listing shows after an addition and after a removal.\<close>

lemma listed_after_add:
  assumes "fst (add_binding get put items tn pid item w) = Inr r" "binding_schema get (db w)"
    and "db w1 = db (snd (add_binding get put items tn pid item w))" "\<not> faulty w1"
  shows "\<exists>rs. fst (list_active_bindings get tn pid w1) = Inr rs \<and> filter (binding_of tn pid item) rs = [r]"
proof -
  note add = post_fst_Inr [OF post_add [OF assms(2)] assms(1)]
  have active: "filter (\<lambda>s. (bound_to tn pid s \<and> rec_status s = ''active'') \<and> binding_of tn pid item s) (get (db w1)) = [r]"
  proof -
    have one: "filter (binding_of tn pid item) (get (db w1)) = [r]" using add assms(3) by simp
    then have "binding_of tn pid item r" by (rule filter_single_mem [THEN conjunct2])
    then show ?thesis
      using filter_sub_single [OF one, of "\<lambda>s. (bound_to tn pid s \<and> rec_status s = ''active'') \<and> binding_of tn pid item s"] add
      by (simp add: binding_of_def)
  qed
  have "fst (list_active_bindings get tn pid w1) =
      Inr (oldest_first (filter (\<lambda>r. bound_to tn pid r \<and> rec_status r = ''active'') (get (db w1))))"
    using assms(4) by (simp add: list_active_bindings_def query_def)
  moreover have "filter (binding_of tn pid item)
      (oldest_first (filter (\<lambda>r. bound_to tn pid r \<and> rec_status r = ''active'') (get (db w1)))) = [r]"
    unfolding sorted_filter_mem filter_filter using active by (simp add: oldest_first_def conj_commute)
  ultimately show ?thesis by blast
qed

lemma not_listed_after_remove:
  assumes "fst (remove_binding get put tn pid item w) = Inr ()"
    and "db w1 = db (snd (remove_binding get put tn pid item w))" "\<not> faulty w1"
  shows "\<exists>rs. fst (list_active_bindings get tn pid w1) = Inr rs \<and> list_all (\<lambda>r. bind_item r \<noteq> item) rs"
proof -
  note rem = post_fst_Inr [OF post_remove assms(1)]
  have "fst (list_active_bindings get tn pid w1) =
      Inr (oldest_first (filter (\<lambda>r. bound_to tn pid r \<and> rec_status r = ''active'') (get (db w1))))"
    using assms(3) by (simp add: list_active_bindings_def query_def)
  then show ?thesis
    using rem assms(2) by (auto simp: list_all_iff binding_of_def)
qed

end

interpretation policy_apps_b: binding_table policy_apps policy_apps_update by unfold_locales
interpretation policy_certificates_b: binding_table policy_certificates policy_certificates_update
  by unfold_locales
interpretation policy_managed_files_b: binding_table policy_managed_files policy_managed_files_update
  by unfold_locales

section \<open>Properties\<close>

text \<open>A tenant with a kiosk policy whose exit passcode is \<open>42\<close>, an app, and a certificate.\<close>

definition kiosk_restrictions :: json where
  "kiosk_restrictions = JObj [(''kioskExitPasscode'', JStr ''42'')]"

definition policy_database :: database where
  "policy_database = empty_database\<lparr>policies := [sample_policy ''p'' kiosk_restrictions],
     apps := [sample_app ''a'' False]\<rparr>"

definition sample_policy_upsert :: policy_upsert where
  "sample_policy_upsert = \<lparr>pu_name = ''kiosk'', pu_version = 1, pu_kiosk_mode = True,
     pu_kiosk_app = ''com.x'', pu_restrictions = None\<rparr>"

text \<open>
  The restrictions of a policy survive being written and read: decoding the encoding of any
  payload gives that payload without an error, so different payloads have different encodings.
\<close>

theorem restrictions_roundtrip:
  "decode_restrictions (encode_restrictions p) = (p, True) \<and>
   (encode_restrictions p = encode_restrictions q \<longleftrightarrow> p = q)"
proof (intro conjI iffI)
  show "decode_restrictions (encode_restrictions p) = (p, True)" by (rule decode_encode_restrictions)
  assume "encode_restrictions p = encode_restrictions q"
  then have "(p, True) = (q, True)" unfolding decode_encode_restrictions [symmetric] by (rule arg_cong)
  then show "p = q" by simp
qed (rule arg_cong)

text \<open>
  An update rewrites one policy, keeping its identity, and increments its version by one;
  the restrictions are the ones given, except that a policy that stays in kiosk mode and is
  given no exit passcode keeps the passcode, or the passcode hash, it had: if one was
  configured, one still is.
\<close>

theorem UpdatePolicy_updates:
  assumes "fst (UpdatePolicy tn i req w) = Inr r'" "distinct (map rec_id (policies (db w)))"
  shows "\<exists>r. r \<in> set (policies (db w)) \<and> by_id tn i r \<and>
    policies (db (snd (UpdatePolicy tn i req w))) = upd_where (\<lambda>s. s = r) (\<lambda>_. r') (policies (db w)) \<and>
    rec_id r' = i \<and> rec_tenant r' = tn \<and> rec_status r' = rec_status r \<and> created_at r' = created_at r \<and>
    pol_name r' = pu_name req \<and> pol_version r' = pol_version r + 1 \<and> pol_version r' < 2 ^ 31 \<and>
    pol_kiosk_mode r' = pu_kiosk_mode req \<and> pol_kiosk_app r' = pu_kiosk_app req \<and>
    (\<not> (pol_kiosk_mode r \<and> pol_kiosk_mode r') \<or>
       kioskExitPasscodeConfigured (given_restrictions (pu_restrictions req)) \<longrightarrow>
       pol_restrictions r' = given_restrictions (pu_restrictions req)) \<and>
    (pol_kiosk_mode r \<and> pol_kiosk_mode r' \<and> kioskExitPasscodeConfigured (pol_restrictions r) \<longrightarrow>
       kioskExitPasscodeConfigured (pol_restrictions r'))"
proof -
  obtain r where r: "r \<in> set (policies (db w))" "by_id tn i r"
    and r': "r' = r\<lparr>pol_name := pu_name req, pol_version := pol_version r + 1,
        pol_kiosk_mode := pu_kiosk_mode req, pol_kiosk_app := pu_kiosk_app req,
        pol_restrictions := (let given = given_restrictions (pu_restrictions req)
           in if pu_kiosk_mode req \<and> pol_kiosk_mode r \<and> \<not> kioskExitPasscodeConfigured given
              then mergeKioskExitPasscode (pol_restrictions r) given else given),
        updated_at := clock_src (env w) (ticks w)\<rparr>" "pol_version r' \<le> 2147483647"
    and d: "policies (db (snd (UpdatePolicy tn i req w))) = upd_where (by_id tn i) (\<lambda>_. r') (policies (db w))"
    using post_fst_Inr [OF post_UpdatePolicy [OF assms(2)] assms(1)] by blast
  have only: "s = r" if "s \<in> set (policies (db w))" "by_id tn i s" for s
    using distinct_key_unique [OF assms(2) that(1) r(1)] that(2) r(2) by (simp add: by_id_def)
  have "upd_where (by_id tn i) (\<lambda>_. r') (policies (db w)) = upd_where (\<lambda>s. s = r) (\<lambda>_. r') (policies (db w))"
    by (rule upd_where_cong) (use r(2) in \<open>auto dest: only\<close>)
  with d have rows: "policies (db (snd (UpdatePolicy tn i req w))) = upd_where (\<lambda>s. s = r) (\<lambda>_. r') (policies (db w))"
    by simp
  have id: "rec_id r = i" "rec_tenant r = tn" using r(2) by (simp_all add: by_id_def)
  show ?thesis
    by (rule exI [of _ r], unfold rows)
      (use r r'(2) id in \<open>simp add: r'(1) Let_def merge_configured\<close>)
qed

theorem UpdatePolicy_updates_witness:
  "\<exists>r'. fst (UpdatePolicy ''t'' ''p'' sample_policy_upsert (world_of policy_database)) = Inr r' \<and>
     pol_version r' = 2 \<and> kioskExitPasscodeConfigured (pol_restrictions r')"
proof -
  let ?w = "world_of policy_database"
  have "case fst (UpdatePolicy ''t'' ''p'' sample_policy_upsert ?w) of Inr r \<Rightarrow> True | Inl e \<Rightarrow> False"
    by code_simp
  then obtain r' where r': "fst (UpdatePolicy ''t'' ''p'' sample_policy_upsert ?w) = Inr r'"
    by (auto split: sum.splits)
  have "distinct (map rec_id (policies (db ?w)))" by (simp add: policy_database_def)
  from UpdatePolicy_updates [OF r' this] obtain r where "r \<in> set (policies policy_database)"
    "pol_version r' = pol_version r + 1" "pol_kiosk_mode r' = pu_kiosk_mode sample_policy_upsert"
    "pol_kiosk_mode r \<and> pol_kiosk_mode r' \<and> kioskExitPasscodeConfigured (pol_restrictions r) \<longrightarrow>
       kioskExitPasscodeConfigured (pol_restrictions r')" by auto
  moreover have "kioskExitPasscodeConfigured kiosk_restrictions" by code_simp
  ultimately show ?thesis
    using r' by (auto simp: policy_database_def sample_policy_def sample_policy_upsert_def)
qed

text \<open>
  Binding an app, a certificate or a managed file to a live policy makes it show up exactly
  once in the active listing of the policy, as the binding that was returned.
\<close>

theorem added_binding_listed:
  assumes "no_faults w1" "binding_schema policy_apps (db w)" "binding_schema policy_certificates (db w)"
    "binding_schema policy_managed_files (db w)"
  shows "(fst (AddPolicyApp tn pid item w) = Inr r \<and> db w1 = db (snd (AddPolicyApp tn pid item w)) \<longrightarrow>
      (\<exists>rs. fst (ListActivePolicyApps tn pid w1) = Inr rs \<and> filter (binding_of tn pid item) rs = [r])) \<and>
    (fst (AddPolicyCertificate tn pid item w) = Inr r \<and> db w1 = db (snd (AddPolicyCertificate tn pid item w)) \<longrightarrow>
      (\<exists>rs. fst (ListActivePolicyCertificates tn pid w1) = Inr rs \<and> filter (binding_of tn pid item) rs = [r])) \<and>
    (fst (AddPolicyManagedFile tn pid item w) = Inr r \<and> db w1 = db (snd (AddPolicyManagedFile tn pid item w)) \<longrightarrow>
      (\<exists>rs. fst (ListActivePolicyManagedFiles tn pid w1) = Inr rs \<and> filter (binding_of tn pid item) rs = [r]))"
proof -
  have ok: "\<not> faulty w1" using assms(1) by simp
  show ?thesis
    unfolding AddPolicyApp_def ListActivePolicyApps_def AddPolicyCertificate_def
      ListActivePolicyCertificates_def AddPolicyManagedFile_def ListActivePolicyManagedFiles_def
    using policy_apps_b.listed_after_add [OF _ assms(2) _ ok]
      policy_certificates_b.listed_after_add [OF _ assms(3) _ ok]
      policy_managed_files_b.listed_after_add [OF _ assms(4) _ ok]
    by blast
qed

theorem added_binding_listed_witness:
  "\<exists>r rs. fst (AddPolicyApp ''t'' ''p'' ''a'' (world_of policy_database)) = Inr r \<and>
     fst (ListActivePolicyApps ''t'' ''p''
       (world_of (db (snd (AddPolicyApp ''t'' ''p'' ''a'' (world_of policy_database)))))) = Inr rs \<and>
     filter (binding_of ''t'' ''p'' ''a'') rs = [r]"
proof -
  let ?w = "world_of policy_database"
  let ?w1 = "world_of (db (snd (AddPolicyApp ''t'' ''p'' ''a'' ?w)))"
  have "case fst (AddPolicyApp ''t'' ''p'' ''a'' ?w) of Inr r \<Rightarrow> True | Inl e \<Rightarrow> False" by code_simp
  then obtain r where r: "fst (AddPolicyApp ''t'' ''p'' ''a'' ?w) = Inr r" by (auto split: sum.splits)
  have "no_faults ?w1" "binding_schema policy_apps (db ?w)" "binding_schema policy_certificates (db ?w)"
    "binding_schema policy_managed_files (db ?w)"
    by (simp_all add: binding_schema_def policy_database_def empty_database_def)
  from added_binding_listed [OF this, of "''t''" "''p''" "''a''" r] r show ?thesis by auto
qed

text \<open>
  Removing a binding takes the item out of the active listing of the policy, and fails, with
  nothing changed, when the item was never bound to it.
\<close>

theorem removed_binding_not_listed:
  assumes "no_faults w1"
  shows "(fst (RemovePolicyApp tn pid item w) = Inr () \<and> db w1 = db (snd (RemovePolicyApp tn pid item w)) \<longrightarrow>
      (\<exists>rs. fst (ListActivePolicyApps tn pid w1) = Inr rs \<and> list_all (\<lambda>r. bind_item r \<noteq> item) rs)) \<and>
    (fst (RemovePolicyCertificate tn pid item w) = Inr () \<and> db w1 = db (snd (RemovePolicyCertificate tn pid item w)) \<longrightarrow>
      (\<exists>rs. fst (ListActivePolicyCertificates tn pid w1) = Inr rs \<and> list_all (\<lambda>r. bind_item r \<noteq> item) rs)) \<and>
    (fst (RemovePolicyManagedFile tn pid item w) = Inr () \<and> db w1 = db (snd (RemovePolicyManagedFile tn pid item w)) \<longrightarrow>
      (\<exists>rs. fst (ListActivePolicyManagedFiles tn pid w1) = Inr rs \<and> list_all (\<lambda>r. bind_item r \<noteq> item) rs)) \<and>
    (fst (RemovePolicyApp tn pid item w) = Inl e \<longrightarrow> db (snd (RemovePolicyApp tn pid item w)) = db w)"
proof -
  have ok: "\<not> faulty w1" using assms(1) by simp
  show ?thesis
    unfolding RemovePolicyApp_def ListActivePolicyApps_def RemovePolicyCertificate_def
      ListActivePolicyCertificates_def RemovePolicyManagedFile_def ListActivePolicyManagedFiles_def
    using policy_apps_b.not_listed_after_remove [OF _ _ ok]
      policy_certificates_b.not_listed_after_remove [OF _ _ ok]
      policy_managed_files_b.not_listed_after_remove [OF _ _ ok]
      post_fst_Inl [OF policy_apps_b.post_remove]
    by blast
qed

text \<open>The policy database with the app bound.\<close>

definition bound_policy_database :: database where
  "bound_policy_database = policy_database\<lparr>policy_apps := [\<lparr>rec_id = ''b'', rec_tenant = ''t'',
     rec_status = ''active'', created_at = 1, updated_at = 1, deleted_at = None,
     bind_policy = ''p'', bind_item = ''a''\<rparr>]\<rparr>"

theorem removed_binding_not_listed_witness:
  "\<exists>rs. fst (RemovePolicyApp ''t'' ''p'' ''a'' (world_of bound_policy_database)) = Inr () \<and>
     fst (ListActivePolicyApps ''t'' ''p''
       (world_of (db (snd (RemovePolicyApp ''t'' ''p'' ''a'' (world_of bound_policy_database)))))) = Inr rs \<and>
     list_all (\<lambda>r. bind_item r \<noteq> ''a'') rs"
proof -
  let ?w = "world_of bound_policy_database"
  let ?w1 = "world_of (db (snd (RemovePolicyApp ''t'' ''p'' ''a'' ?w)))"
  have r: "fst (RemovePolicyApp ''t'' ''p'' ''a'' ?w) = Inr ()" by code_simp
  have "no_faults ?w1" by simp
  from removed_binding_not_listed [OF this, of "''t''" "''p''" "''a''" ?w] r show ?thesis by auto
qed

end
