(* ===== verification/Apps.thy ===== *)
theory Apps
  imports Tables Tokens Pagination Samples
begin

text \<open>
  Apps and their versions: \<open>apps/model.go\<close> and \<open>apps/postgres/store.go\<close>. An app that the system
  owns (the agent itself) can only be changed by \<open>UpsertSystemOwnedApp\<close>; a version refers to an
  artifact whose checksum must agree.
\<close>

section \<open>Data\<close>

record app_upsert =
  au_package :: string
  au_name :: string

record version_upsert =
  vu_name :: string
  vu_code :: int
  vu_artifact :: "string option"
  vu_checksum :: string
  vu_publish :: bool

record version_view =
  vv_version :: version_row
  vv_artifact :: "artifact_row option"

record app_stats =
  as_total :: int
  as_active :: int

section \<open>Apps\<close>

definition package_key :: "app_row \<Rightarrow> string \<times> string" where
  "package_key r = (rec_tenant r, app_package r)"

definition insert_app :: "string \<Rightarrow> string \<Rightarrow> app_upsert \<Rightarrow> bool \<Rightarrow> int \<Rightarrow> app_row list stmt" where
  "insert_app tn i req owned t = insert_row apps_update
     (\<lambda>d. fresh rec_id i (apps d) \<and> fresh package_key (tn, au_package req) (apps d))
     (\<lambda>d. tn \<in> set (tenants d))
     (\<lambda>pgnow. \<lparr>rec_id = i, rec_tenant = tn, rec_status = ''active'', created_at = pgnow,
              updated_at = t, deleted_at = None, app_package = au_package req,
              app_name = au_name req, app_system_owned = owned\<rparr>)"

definition conflict_of_unique :: "'a action \<Rightarrow> 'a action" where
  "conflict_of_unique m = handleE m (\<lambda>e. throwE (if isUniqueViolation e then ErrConflict else e))"

definition UpsertSystemOwnedApp :: "string \<Rightarrow> app_upsert \<Rightarrow> app_row action" where
  "UpsertSystemOwnedApp tn req =
     (if au_package req = [] \<or> au_name req = [] then throwE ErrInvalidInput
      else elseE (query_row (\<lambda>d. filter (\<lambda>r. package_key r = (tn, au_package req)) (apps d)))
        (\<lambda>e. if e = ErrNoRows then
             bindE NewString (\<lambda>i. bindE now (\<lambda>t.
               conflict_of_unique (exec_row (insert_app tn i req True t))))
           else throwE e)
        (\<lambda>r. if \<not> app_system_owned r then throwE ErrForbidden
           else bindE now (\<lambda>t. conflict_of_unique (exec_row (update_rows apps apps_update no_check
               (\<lambda>r. package_key r = (tn, au_package req) \<and> app_system_owned r)
               (\<lambda>r. r\<lparr>app_name := au_name req, rec_status := ''active'', updated_at := t\<rparr>))))))"

definition CreateApp :: "string \<Rightarrow> app_upsert \<Rightarrow> app_row action" where
  "CreateApp tn req =
     (if au_package req = [] \<or> au_name req = [] then throwE ErrInvalidInput
      else bindE NewString (\<lambda>i. bindE now (\<lambda>t.
        conflict_of_unique (exec_row (insert_app tn i req False t)))))"

definition ListApps :: "string \<Rightarrow> page_params \<Rightarrow> app_row list action" where
  "ListApps tn page = query (\<lambda>d. paged page (newest_first (filter (in_tenant tn) (apps d))))"

definition apps_GetOverviewStats :: "string \<Rightarrow> app_stats action" where
  "apps_GetOverviewStats tn = query (\<lambda>d. let rs = filter (in_tenant tn) (apps d) in
     \<lparr>as_total = int (length rs), as_active = int (length (filter (\<lambda>r. rec_status r = ''active'') rs))\<rparr>)"

definition GetApp :: "string \<Rightarrow> string \<Rightarrow> app_row action" where
  "GetApp tn i = get_by_id apps tn i"

definition GetAppByPackageName :: "string \<Rightarrow> string \<Rightarrow> app_row action" where
  "GetAppByPackageName tn p =
     no_rows_as ErrNotFound (query_row (\<lambda>d. filter (\<lambda>r. package_key r = (tn, p)) (apps d)))"

definition isSystemOwnedApp :: "string \<Rightarrow> string \<Rightarrow> bool action" where
  "isSystemOwnedApp tn i =
     no_rows_as ErrNotFound (query_row (\<lambda>d. map app_system_owned (filter (by_id tn i) (apps d))))"

text \<open>
  The answer when the guarded update found no row: forbidden if the app exists and the system
  owns it, otherwise not found, also when looking it up failed.
\<close>

definition forbidden_or_missing :: "string \<Rightarrow> string \<Rightarrow> 'a action" where
  "forbidden_or_missing tn i =
     elseE (isSystemOwnedApp tn i) (\<lambda>_. throwE ErrNotFound)
       (\<lambda>locked. throwE (if locked then ErrForbidden else ErrNotFound))"

definition update_app :: "string \<Rightarrow> string \<Rightarrow> app_upsert \<Rightarrow> int \<Rightarrow> app_row list stmt" where
  "update_app tn i req t = update_rows apps apps_update
     (\<lambda>d. if list_ex (\<lambda>r. package_key r = (tn, au_package req) \<and> rec_id r \<noteq> i) (apps d)
          then Some PgUnique else None)
     (\<lambda>r. by_id tn i r \<and> \<not> app_system_owned r)
     (\<lambda>r. r\<lparr>app_package := au_package req, app_name := au_name req, updated_at := t\<rparr>)"

definition UpdateApp :: "string \<Rightarrow> string \<Rightarrow> app_upsert \<Rightarrow> app_row action" where
  "UpdateApp tn i req =
     (if au_package req = [] \<or> au_name req = [] then throwE ErrInvalidInput
      else bindE now (\<lambda>t. handleE (exec_row (update_app tn i req t))
        (\<lambda>e. if e = ErrNoRows then forbidden_or_missing tn i
             else throwE (if isUniqueViolation e then ErrConflict else e))))"

definition RetireApp :: "string \<Rightarrow> string \<Rightarrow> app_row action" where
  "RetireApp tn i =
     bindE now (\<lambda>t. handleE (exec_row (update_rows apps apps_update no_check
         (\<lambda>r. by_id tn i r \<and> \<not> app_system_owned r) (retire_row t)))
       (\<lambda>e. if e = ErrNoRows then forbidden_or_missing tn i else throwE e))"

section \<open>Versions\<close>

definition of_app :: "string \<Rightarrow> string \<Rightarrow> version_row \<Rightarrow> bool" where
  "of_app tn a v \<longleftrightarrow> ver_tenant v = tn \<and> ver_app v = a"

definition newest_versions :: "version_row list \<Rightarrow> version_row list" where
  "newest_versions vs = rev (sort_key (\<lambda>v. (ver_created v, ver_id v)) vs)"

definition ListVersions :: "string \<Rightarrow> string \<Rightarrow> page_params \<Rightarrow> version_row list action" where
  "ListVersions tn a page =
     bindE (no_rows_as ErrNotFound (query_row (\<lambda>d. filter (by_id tn a) (apps d)))) (\<lambda>_.
     query (\<lambda>d. paged page (newest_versions (filter (of_app tn a) (app_versions d)))))"

definition GetVersionByCode :: "string \<Rightarrow> string \<Rightarrow> int \<Rightarrow> version_row action" where
  "GetVersionByCode tn a code = no_rows_as ErrNotFound (query_row (\<lambda>d.
     take 1 (newest_versions (filter (\<lambda>v. of_app tn a v \<and> ver_code v = code) (app_versions d)))))"

definition publication :: "version_row \<Rightarrow> int \<times> int \<times> string" where
  "publication v = (case ver_published v of None \<Rightarrow> ver_created v | Some t \<Rightarrow> t, ver_created v, ver_id v)"

definition GetLatestPublishedVersion :: "string \<Rightarrow> string \<Rightarrow> version_row action" where
  "GetLatestPublishedVersion tn a = no_rows_as ErrNotFound (query_row (\<lambda>d.
     take 1 (rev (sort_key publication
       (filter (\<lambda>v. of_app tn a v \<and> ver_status v = ''published'') (app_versions d))))))"

text \<open>
  The \<open>LEFT JOIN\<close> with the artifact, whose creation time is not read and stays the zero time.
\<close>

definition joined_artifact :: "version_row \<Rightarrow> database \<Rightarrow> artifact_row option" where
  "joined_artifact v d =
     (case filter (\<lambda>x. rec_tenant x = ver_tenant v \<and> Some (rec_id x) = ver_artifact v) (artifacts d) of
        [] \<Rightarrow> None
      | x # _ \<Rightarrow> Some (x\<lparr>created_at := - 62135596800000000\<rparr>))"

definition GetVersion :: "string \<Rightarrow> string \<Rightarrow> string \<Rightarrow> version_view action" where
  "GetVersion tn a i = no_rows_as ErrNotFound (query_row (\<lambda>d.
     map (\<lambda>v. \<lparr>vv_version = v, vv_artifact = joined_artifact v d\<rparr>)
       (filter (\<lambda>v. of_app tn a v \<and> ver_id v = i) (app_versions d))))"

definition insert_version :: "string \<Rightarrow> string \<Rightarrow> string \<Rightarrow> version_upsert \<Rightarrow> int \<Rightarrow> version_row list stmt" where
  "insert_version tn a i req t = insert_row app_versions_update
     (\<lambda>d. fresh ver_id i (app_versions d) \<and>
          fresh (\<lambda>v. (ver_tenant v, ver_app v, ver_name v, ver_code v))
            (tn, a, vu_name req, vu_code req) (app_versions d))
     (\<lambda>d. tn \<in> set (tenants d) \<and> has_key tenant_id (tn, a) (apps d))
     (\<lambda>_. \<lparr>ver_id = i, ver_tenant = tn, ver_app = a,
          ver_status = (if vu_publish req then ''published'' else ''uploaded''),
          ver_name = vu_name req, ver_code = vu_code req, ver_artifact = vu_artifact req,
          ver_checksum = vu_checksum req,
          ver_published = (if vu_publish req then Some t else None), ver_created = t\<rparr>)"

definition check_artifact :: "string \<Rightarrow> version_upsert \<Rightarrow> unit action" where
  "check_artifact tn req =
     (case vu_artifact req of
        None \<Rightarrow> returnE ()
      | Some i \<Rightarrow> bindE (no_rows_as ErrNotFound
            (query_row (\<lambda>d. map art_checksum (filter (by_id tn i) (artifacts d))))) (\<lambda>stored.
          if stored \<noteq> vu_checksum req then throwE ErrInvalidInput else returnE ()))"

definition CreateVersion :: "string \<Rightarrow> string \<Rightarrow> version_upsert \<Rightarrow> version_row action" where
  "CreateVersion tn a req =
     (if vu_name req = [] \<or> vu_code req \<le> 0 \<or> vu_checksum req = [] then throwE ErrInvalidInput
      else bindE now (\<lambda>t. with_tx (
        bindE (no_rows_as ErrNotFound
          (query_row (\<lambda>d. filter (\<lambda>r. by_id tn a r \<and> rec_status r \<noteq> ''retired'') (apps d)))) (\<lambda>_.
        bindE (check_artifact tn req) (\<lambda>_.
        bindE NewString (\<lambda>i.
        bindE (conflict_of_unique (exec_row (insert_version tn a i req t))) (\<lambda>v.
        bindE commit (\<lambda>_. returnE v))))))))"

section \<open>The system's apps\<close>

text \<open>
  An app keeps its tenant, its creation time and whether the system owns it. A system-owned
  app moreover keeps its package name and deletion mark, and is never retired.
\<close>

definition app_step :: "app_row \<Rightarrow> app_row \<Rightarrow> bool" where
  "app_step r r' \<longleftrightarrow> rec_tenant r' = rec_tenant r \<and> created_at r' = created_at r \<and>
     app_system_owned r' = app_system_owned r \<and>
     (app_system_owned r \<longrightarrow> app_package r' = app_package r \<and> deleted_at r' = deleted_at r \<and>
        (rec_status r' = rec_status r \<or> rec_status r' = ''active''))"

interpretation apps_e: evolving apps apps_update rec_id app_step
  by unfold_locales (auto simp: app_step_def)

lemma keeps_conflict_of_unique [keeps_intros]: "keeps P m \<Longrightarrow> keeps P (conflict_of_unique m)"
  unfolding conflict_of_unique_def by (intro keeps_intros)

lemma post_conflict_of_unique [wp]:
  "post (conflict_of_unique m) w Q E = post m w Q (\<lambda>e. E (if isUniqueViolation e then ErrConflict else e))"
  by (simp add: conflict_of_unique_def wp)

lemma reads_isSystemOwnedApp [keeps_intros]: "reads (isSystemOwnedApp tn i)"
  unfolding isSystemOwnedApp_def by (intro keeps_intros)

lemma reads_forbidden_or_missing [keeps_intros]: "reads (forbidden_or_missing tn i)"
proof -
  have "post (isSystemOwnedApp tn i) w
      (\<lambda>_ w'. txn w' = txn w \<and> db w' = db w) (\<lambda>_ w'. txn w' = txn w \<and> db w' = db w)" for w
    using reads_isSystemOwnedApp by (simp add: reads_def)
  then show ?thesis by (simp add: reads_def forbidden_or_missing_def wp)
qed

lemma keeps_of_reads: "reads m \<Longrightarrow> keeps P m"
  unfolding reads_def keeps_def by (auto simp: holds_def intro: post_mono)

lemma keeps_forbidden_or_missing [keeps_intros]: "keeps P (forbidden_or_missing tn i)"
  by (intro keeps_of_reads keeps_intros)

lemma app_ops_evolve:
  "evolves apps rec_id app_step (UpsertSystemOwnedApp tn up)"
  "evolves apps rec_id app_step (CreateApp tn up)"
  "evolves apps rec_id app_step (UpdateApp tn i up)"
  "evolves apps rec_id app_step (RetireApp tn i)"
  "evolves apps rec_id app_step (CreateVersion tn i ver)"
proof -
  note intros = apps_e.evolvesI keeps_intros apps_e.insert_evolves apps_e.update_evolves
  show "evolves apps rec_id app_step (UpsertSystemOwnedApp tn up)"
    unfolding UpsertSystemOwnedApp_def insert_app_def by (intro intros) (simp add: app_step_def)
  show "evolves apps rec_id app_step (CreateApp tn up)"
    unfolding CreateApp_def insert_app_def by (intro intros)
  show "evolves apps rec_id app_step (UpdateApp tn i up)"
    unfolding UpdateApp_def update_app_def by (intro intros) (simp add: app_step_def)
  show "evolves apps rec_id app_step (RetireApp tn i)"
    unfolding RetireApp_def by (intro intros) (simp add: app_step_def retire_row_def)
  have check: "keeps P (check_artifact tn ver)" for P
    unfolding check_artifact_def by (cases "vu_artifact ver") (auto intro!: keeps_intros)
  have ins: "stmt_keeps (\<lambda>d. rows_evolve rec_id app_step (apps (d0 :: database)) (apps d)) (insert_version tn i j ver t)"
    for d0 j t
    by (rule apps_e.stmt_elsewhere) (auto simp: insert_version_def insert_row_def insert_into_def split: if_splits)
  show "evolves apps rec_id app_step (CreateVersion tn i ver)"
    unfolding CreateVersion_def by (intro apps_e.evolvesI keeps_intros check ins)
qed

text \<open>A new version belongs to a live app, and its artifact has the checksum the request gives.\<close>

lemma post_CreateVersion:
  assumes "txn w = None"
  shows "post (CreateVersion tn a req) w
     (\<lambda>v w'. ver_tenant v = tn \<and> ver_app v = a \<and> ver_name v = vu_name req \<and> ver_code v = vu_code req \<and>
        0 < ver_code v \<and> ver_artifact v = vu_artifact req \<and> ver_checksum v = vu_checksum req \<and>
        (ver_status v = (if vu_publish req then ''published'' else ''uploaded'')) \<and>
        (\<exists>r \<in> set (apps (db w)). by_id tn a r \<and> rec_status r \<noteq> ''retired'') \<and>
        (\<forall>i. vu_artifact req = Some i \<longrightarrow> (\<exists>x \<in> set (artifacts (db w)). by_id tn i x \<and> art_checksum x = ver_checksum v)) \<and>
        fresh (\<lambda>v. (ver_tenant v, ver_app v, ver_name v, ver_code v))
          (tn, a, ver_name v, ver_code v) (app_versions (db w)) \<and>
        db w' = app_versions_update (\<lambda>vs. vs @ [v]) (db w))
     (\<lambda>_ w'. db w' = db w)"
proof -
  let ?app = "filter (\<lambda>r. by_id tn a r \<and> rec_status r \<noteq> ''retired'') (apps (db w))"
  have app: "\<exists>r \<in> set (apps (db w)). by_id tn a r \<and> rec_status r \<noteq> ''retired''" if "?app = x # xs" for x xs
    using filter_single_mem [OF that] by auto
  have art: "\<exists>x \<in> set (artifacts (db w)). by_id tn i x \<and> art_checksum x = c"
    if "filter (by_id tn i) (artifacts (db w)) = y # ys" "art_checksum y = c" for i y ys c
    using filter_single_mem [OF that(1)] that(2) by auto
  show ?thesis
    using assms
    by (cases "vu_name req = [] \<or> vu_code req \<le> 0 \<or> vu_checksum req = []"; cases ?app; cases "vu_artifact req")
      (auto simp: CreateVersion_def check_artifact_def wp insert_version_def insert_row_def insert_into_def
        db_rollback dest: app intro: art split: list.split)
qed

text \<open>The latest published version is published, belongs to the app, and none was published later.\<close>

lemma fst_GetLatestPublishedVersion:
  assumes "fst (GetLatestPublishedVersion tn a w) = Inr v"
  shows "v \<in> set (app_versions (db w)) \<and> of_app tn a v \<and> ver_status v = ''published'' \<and>
    (\<forall>u \<in> set (app_versions (db w)). of_app tn a u \<and> ver_status u = ''published'' \<longrightarrow> publication u \<le> publication v)"
proof -
  let ?vs = "filter (\<lambda>v. of_app tn a v \<and> ver_status v = ''published'') (app_versions (db w))"
  have "post (GetLatestPublishedVersion tn a) w (\<lambda>v _. \<exists>vs. rev (sort_key publication ?vs) = v # vs) (\<lambda>_ _. True)"
    by (cases "rev (sort_key publication ?vs)") (simp_all add: GetLatestPublishedVersion_def wp)
  from post_fst_Inr [OF this assms] obtain vs where vs: "rev (sort_key publication ?vs) = v # vs" by blast
  then have sorted: "sort_key publication ?vs = rev vs @ [v]" unfolding rev_eq_Cons_iff .
  then have "set (sort_key publication ?vs) = insert v (set vs)" by simp
  then have mem: "set ?vs = insert v (set vs)" by simp
  have "sorted (map publication (sort_key publication ?vs))" by (rule sorted_sort_key)
  then have "sorted (map publication (rev vs @ [v]))" unfolding sorted .
  then have "\<forall>u \<in> set vs. publication u \<le> publication v" by (simp add: sorted_append)
  then show ?thesis using mem by auto
qed

section \<open>Properties\<close>

text \<open>An app with an artifact.\<close>

definition app_database :: database where
  "app_database = empty_database\<lparr>apps := [sample_app ''a'' False],
     artifacts := [\<lparr>rec_id = ''f'', rec_tenant = ''t'', rec_status = ''active'', created_at = 1,
       updated_at = 1, deleted_at = None, art_storage_key = ''k'', art_checksum = ''c'', art_size = 3,
       art_mime = ''apk''\<rparr>]\<rparr>"

definition sample_version :: version_upsert where
  "sample_version = \<lparr>vu_name = ''1.0'', vu_code = 1, vu_artifact = Some ''f'', vu_checksum = ''c'', vu_publish = True\<rparr>"

text \<open>
  A version is only created for an app of the tenant that is not retired, with a positive
  code, under a name and code the app does not have yet, and with the checksum of the artifact
  it names; it is then published or uploaded as asked, and is the only row added. A failure
  changes nothing.
\<close>

theorem CreateVersion_checked:
  assumes "txn w = None"
  shows "case fst (CreateVersion tn a req w) of
      Inr v \<Rightarrow> db (snd (CreateVersion tn a req w)) = app_versions_update (\<lambda>vs. vs @ [v]) (db w) \<and>
        ver_tenant v = tn \<and> ver_app v = a \<and> ver_name v = vu_name req \<and> ver_code v = vu_code req \<and> 0 < ver_code v \<and>
        ver_artifact v = vu_artifact req \<and> ver_checksum v = vu_checksum req \<and>
        (ver_status v = (if vu_publish req then ''published'' else ''uploaded'')) \<and>
        (\<exists>r. r \<in> set (apps (db w)) \<and> by_id tn a r \<and> rec_status r \<noteq> ''retired'') \<and>
        (\<forall>i. ver_artifact v = Some i \<longrightarrow>
          (\<exists>x. x \<in> set (artifacts (db w)) \<and> by_id tn i x \<and> art_checksum x = ver_checksum v)) \<and>
        \<not> (\<exists>u. u \<in> set (app_versions (db w)) \<and> of_app tn a u \<and> ver_name u = ver_name v \<and> ver_code u = ver_code v)
    | Inl e \<Rightarrow> db (snd (CreateVersion tn a req w)) = db w"
proof (cases "fst (CreateVersion tn a req w)")
  case (Inl e)
  from post_fst_Inl [OF post_CreateVersion [OF assms] this] Inl show ?thesis by simp
next
  case (Inr v)
  note v = post_fst_Inr [OF post_CreateVersion [OF assms] Inr]
  have "\<not> (\<exists>u. u \<in> set (app_versions (db w)) \<and> of_app tn a u \<and> ver_name u = ver_name v \<and> ver_code u = ver_code v)"
  proof
    assume "\<exists>u. u \<in> set (app_versions (db w)) \<and> of_app tn a u \<and> ver_name u = ver_name v \<and> ver_code u = ver_code v"
    then have "(tn, a, ver_name v, ver_code v) \<in> set (map (\<lambda>v. (ver_tenant v, ver_app v, ver_name v, ver_code v))
        (app_versions (db w)))"
      by (force simp: of_app_def)
    then show False using v unfolding fresh_def by metis
  qed
  with v Inr show ?thesis by auto
qed

theorem CreateVersion_checked_witness:
  "\<exists>v. fst (CreateVersion ''t'' ''a'' sample_version (world_of app_database)) = Inr v \<and>
     ver_status v = ''published'' \<and>
     db (snd (CreateVersion ''t'' ''a'' sample_version (world_of app_database)))
       = app_versions_update (\<lambda>vs. vs @ [v]) app_database"
proof -
  let ?w = "world_of app_database"
  have "case fst (CreateVersion ''t'' ''a'' sample_version ?w) of Inr r \<Rightarrow> True | Inl e \<Rightarrow> False" by code_simp
  then obtain v where v: "fst (CreateVersion ''t'' ''a'' sample_version ?w) = Inr v" by (auto split: sum.splits)
  with CreateVersion_checked [of ?w "''t''" "''a''" sample_version] show ?thesis
    by (auto simp: sample_version_def)
qed

text \<open>
  The latest published version of an app is one of its published versions, and none of them
  was published later; with the statement succeeding, one is found if and only if the app has
  a published version.
\<close>

theorem GetLatestPublishedVersion_latest:
  assumes "no_faults w"
  shows "case fst (GetLatestPublishedVersion tn a w) of
      Inr v \<Rightarrow> v \<in> set (app_versions (db w)) \<and> of_app tn a v \<and> ver_status v = ''published'' \<and>
        (\<forall>u. u \<in> set (app_versions (db w)) \<and> of_app tn a u \<and> ver_status u = ''published'' \<longrightarrow>
          publication u \<le> publication v)
    | Inl e \<Rightarrow> e = ErrNotFound \<and>
        \<not> (\<exists>u. u \<in> set (app_versions (db w)) \<and> of_app tn a u \<and> ver_status u = ''published'')"
proof (cases "fst (GetLatestPublishedVersion tn a w)")
  case (Inr v)
  from fst_GetLatestPublishedVersion [OF Inr] Inr show ?thesis by auto
next
  case (Inl e)
  let ?vs = "filter (\<lambda>v. of_app tn a v \<and> ver_status v = ''published'') (app_versions (db w))"
  have "post (GetLatestPublishedVersion tn a) w (\<lambda>_ _. True) (\<lambda>e _. e = ErrNotFound \<and> ?vs = [])"
  proof (cases "rev (sort_key publication ?vs)")
    case Nil
    then have sorted: "sort_key publication ?vs = []" unfolding rev_is_Nil_conv .
    have "set ?vs = set (sort_key publication ?vs)" by (rule set_sort [symmetric])
    also have "\<dots> = {}" unfolding sorted by simp
    finally have "?vs = []" unfolding set_empty .
    with assms show ?thesis by (simp add: GetLatestPublishedVersion_def wp)
  next
    case (Cons v vs)
    with assms show ?thesis by (simp add: GetLatestPublishedVersion_def wp)
  qed
  from post_fst_Inl [OF this Inl] Inl show ?thesis by (auto simp: filter_empty_conv)
qed

definition version_database :: database where
  "version_database = app_database\<lparr>app_versions := map (\<lambda>k. \<lparr>ver_id = [k], ver_tenant = ''t'', ver_app = ''a'',
     ver_status = (if k = CHR ''3'' then ''uploaded'' else ''published''), ver_name = ''v'', ver_code = int (of_char k),
     ver_artifact = None, ver_checksum = ''c'', ver_published = Some (int (of_char k)), ver_created = 1\<rparr>) ''213''\<rparr>"

theorem GetLatestPublishedVersion_latest_witness:
  "\<exists>v. fst (GetLatestPublishedVersion ''t'' ''a'' (world_of version_database)) = Inr v \<and>
     ver_id v = ''2'' \<and> ver_status v = ''published''"
proof -
  have "case fst (GetLatestPublishedVersion ''t'' ''a'' (world_of version_database)) of
      Inr v \<Rightarrow> ver_id v = ''2'' | Inl e \<Rightarrow> False" by code_simp
  then obtain v where "fst (GetLatestPublishedVersion ''t'' ''a'' (world_of version_database)) = Inr v" "ver_id v = ''2''"
    by (auto split: sum.splits)
  with GetLatestPublishedVersion_latest [of "world_of version_database" "''t''" "''a''"] show ?thesis by auto
qed

end
