(* ===== verification/Ingest.thy ===== *)
theory Ingest
  imports Devices
begin

text \<open>
  What devices report: \<open>logs/postgres/store.go\<close>, \<open>deviceinfo/postgres/store.go\<close> and
  \<open>telemetry/postgres/store.go\<close> with their models. The three uploads share their shape: in one
  transaction the device is authenticated by its secret, the records are inserted, the device
  is touched, and its first upload makes an enrolled device active. The locale \<open>ingestion\<close>
  describes that shape once.
\<close>

section \<open>Data\<close>

record log_entry =
  le_id :: string
  le_observed :: int
  le_source :: string
  le_level :: string
  le_message :: string
  le_payload :: "obj option"

record log_upload =
  lu_schema :: int
  lu_observed :: int
  lu_entries :: "log_entry list"

record log_record =
  lr_id :: string
  lr_tenant :: string
  lr_device :: string
  lr_observed :: int
  lr_source :: string
  lr_level :: string
  lr_message :: string
  lr_payload :: obj

record log_filter =
  lf_device :: string
  lf_source :: string
  lf_level :: string
  lf_query :: string
  lf_since :: "int option"
  lf_until :: "int option"
  lf_limit :: int
  lf_offset :: int
  lf_page :: page_params

record info_upload =
  iu_observed :: int
  iu_payload :: "obj option"

record info_record =
  ir_id :: string
  ir_tenant :: string
  ir_device :: string
  ir_observed :: int
  ir_payload :: obj

record info_filter =
  if_device :: string
  if_query :: string
  if_since :: "int option"
  if_until :: "int option"
  if_limit :: int
  if_offset :: int
  if_page :: page_params

record telemetry_upload =
  te_observed :: int
  te_heartbeat :: "obj option"
  te_battery :: "obj option"
  te_network :: "obj option"
  te_location :: "obj option"
  te_app_state :: "obj option"

text \<open>The zero \<open>time.Time\<close>, in microseconds of the Unix epoch.\<close>

definition zero_instant :: int where "zero_instant = - 62135596800000000"

section \<open>Pattern matching\<close>

text \<open>
  \<open>LIKE\<close> on bytes: \<open>%\<close> matches any string, \<open>_\<close> any character, a backslash quotes the next
  character. \<open>ILIKE\<close> ignores case.
\<close>

function like :: "string \<Rightarrow> string \<Rightarrow> bool" where
  "like [] s = (s = [])"
| "like (c # p) [] = (c = CHR 0x25 \<and> like p [])"
| "like (c # p) (x # s) =
     (if c = CHR 0x25 then like p (x # s) \<or> like (c # p) s
      else if c = CHR ''_'' then like p s
      else case p of
          q # p' \<Rightarrow> if c = CHR 0x5C then x = q \<and> like p' s else x = c \<and> like p s
        | [] \<Rightarrow> x = c \<and> like p s)"
  by pat_completeness auto
termination
  by (relation "measure (\<lambda>(p, s). length p + length s)") auto

definition contains_like :: "string \<Rightarrow> string \<Rightarrow> bool" where
  "contains_like q s = like (CHR 0x25 # ToLower q @ [CHR 0x25]) (ToLower s)"

section \<open>The authenticated device\<close>

definition loadDeviceForSecret :: "string \<Rightarrow> string \<Rightarrow> string \<Rightarrow> device_row action" where
  "loadDeviceForSecret tn dev secret =
     bindE (no_rows_as ErrDeviceNotFound
       (query_row (\<lambda>d. filter (\<lambda>r. by_id tn dev r \<and> deleted_at r = None) (devices d)))) (\<lambda>r.
     if rec_status r = StatusRetired \<or> rec_status r = StatusWiped then throwE ErrDeviceUnauthorized
     else bindE (asks sha256) (\<lambda>sha.
       if dev_secret_hash r \<noteq> HashToken sha secret then throwE ErrDeviceUnauthorized else returnE r))"

definition deviceinfo_loadDeviceForSecret :: "string \<Rightarrow> string \<Rightarrow> string \<Rightarrow> device_row action" where
  "deviceinfo_loadDeviceForSecret tn dev secret = loadDeviceForSecret tn dev secret"

definition telemetry_loadDeviceForSecret :: "string \<Rightarrow> string \<Rightarrow> string \<Rightarrow> device_row action" where
  "telemetry_loadDeviceForSecret tn dev secret = loadDeviceForSecret tn dev secret"

text \<open>\<open>UPDATE devices SET updated_at\<close>, then \<open>SET status = 'active'\<close> if it was enrolled.\<close>

definition touch_device :: "device_row \<Rightarrow> int \<Rightarrow> unit action" where
  "touch_device r t =
     bindE (exec (update_rows devices devices_update no_check (\<lambda>s. rec_id s = rec_id r)
       (\<lambda>s. s\<lparr>updated_at := t\<rparr>))) (\<lambda>_.
     if rec_status r = StatusEnrolled then
       bindE (exec (update_rows devices devices_update no_check (\<lambda>s. rec_id s = rec_id r)
         (\<lambda>s. s\<lparr>rec_status := StatusActive, updated_at := t\<rparr>))) (\<lambda>_. returnE ())
     else returnE ())"

section \<open>Logs\<close>

definition scan_log :: "log_row \<Rightarrow> log_record" where
  "scan_log r = \<lparr>lr_id = log_id r, lr_tenant = log_tenant r, lr_device = log_device r,
     lr_observed = log_observed r, lr_source = log_source r, lr_level = log_level r,
     lr_message = log_message r, lr_payload = log_payload r\<rparr>"

text \<open>
  \<open>INSERT ... ON CONFLICT (id) DO NOTHING\<close>, united with the row that already has the
  identifier.
\<close>

definition insert_log :: "log_row \<Rightarrow> log_row list stmt" where
  "insert_log r = (\<lambda>pg d.
     if list_ex (\<lambda>s. log_id s = log_id r) (device_logs d)
     then Inr (filter (\<lambda>s. log_id s = log_id r) (device_logs d), d)
     else insert_row device_logs_update (\<lambda>_. True)
       (\<lambda>d. log_tenant r \<in> set (tenants d) \<and> has_key tenant_id (log_tenant r, log_device r) (devices d))
       (\<lambda>_. r) pg d)"

definition log_row_of :: "string \<Rightarrow> string \<Rightarrow> string \<Rightarrow> int \<Rightarrow> int \<Rightarrow> log_entry \<Rightarrow> log_row" where
  "log_row_of tn dev i t fallback entry =
     (let observed = le_observed entry;
          observed = (if observed = zero_instant then fallback else observed);
          observed = (if observed = zero_instant then t else observed);
          payload = (case le_payload entry of None \<Rightarrow> [] | Some p \<Rightarrow> p)
      in \<lparr>log_id = i, log_tenant = tn, log_device = dev, log_observed = observed,
          log_source = TrimSpace (le_source entry), log_level = TrimSpace (le_level entry),
          log_message = TrimSpace (le_message entry), log_payload = payload, log_created = t\<rparr>)"

definition insertLog :: "string \<Rightarrow> string \<Rightarrow> int \<Rightarrow> int \<Rightarrow> log_entry \<Rightarrow> log_record action" where
  "insertLog tn dev t fallback entry =
     bindE (asks uuid_parse) (\<lambda>parse.
     if TrimSpace (le_id entry) = [] then throwE ErrLogsInvalid
     else case parse (TrimSpace (le_id entry)) of
         None \<Rightarrow> throwE ErrLogsInvalid
       | Some i \<Rightarrow>
           if TrimSpace (le_message entry) = [] \<and> (le_payload entry = None \<or> le_payload entry = Some [])
           then throwE ErrLogsInvalid
           else bindE (exec_row (insert_log (log_row_of tn dev i t fallback entry)))
                  (\<lambda>r. returnE (scan_log r)))"

definition logs_Upload :: "string \<Rightarrow> string \<Rightarrow> string \<Rightarrow> log_upload \<Rightarrow> log_record list action" where
  "logs_Upload tn dev secret req =
     (if tn = [] \<or> dev = [] \<or> secret = [] then throwE ErrInvalidInput
      else if lu_entries req = [] then throwE ErrLogsInvalid
      else with_tx (
        bindE (loadDeviceForSecret tn dev secret) (\<lambda>r. bindE now (\<lambda>t.
        bindE (mapE (insertLog tn (rec_id r) t (lu_observed req)) (lu_entries req)) (\<lambda>records.
        bindE (touch_device r t) (\<lambda>_. bindE commit (\<lambda>_. returnE records)))))))"

text \<open>The page of a search: \<open>Pagination\<close>, or the plain \<open>Limit\<close> and \<open>Offset\<close>.\<close>

definition search_page :: "page_params \<Rightarrow> int \<Rightarrow> int \<Rightarrow> page_params" where
  "search_page page limit offset =
     Normalize (if pg_limit page = 0 \<and> pg_offset page = 0 \<and> (limit \<noteq> 0 \<or> offset \<noteq> 0)
                then \<lparr>pg_limit = limit, pg_offset = offset\<rparr> else page) 100 500"

definition within :: "int option \<Rightarrow> int option \<Rightarrow> int \<Rightarrow> bool" where
  "within since until t \<longleftrightarrow>
     (case since of None \<Rightarrow> True | Some a \<Rightarrow> a \<le> t) \<and> (case until of None \<Rightarrow> True | Some b \<Rightarrow> t \<le> b)"

definition log_matches :: "(obj \<Rightarrow> string) \<Rightarrow> string \<Rightarrow> log_filter \<Rightarrow> log_row \<Rightarrow> bool" where
  "log_matches txt tn f l \<longleftrightarrow> log_tenant l = tn \<and>
     (lf_device f = [] \<or> log_device l = lf_device f) \<and>
     (lf_source f = [] \<or> log_source l = lf_source f) \<and>
     (lf_level f = [] \<or> log_level l = lf_level f) \<and>
     (lf_query f = [] \<or> contains_like (lf_query f) (log_message l) \<or>
        contains_like (lf_query f) (log_source l) \<or> contains_like (lf_query f) (txt (log_payload l))) \<and>
     within (lf_since f) (lf_until f) (log_observed l)"

definition logs_Search :: "string \<Rightarrow> log_filter \<Rightarrow> log_record list action" where
  "logs_Search tn f =
     (if tn = [] then throwE ErrInvalidInput
      else bindE (asks jsonb_text) (\<lambda>txt. query (\<lambda>d.
        let p = search_page (lf_page f) (lf_limit f) (lf_offset f)
        in map scan_log (page_rows (pg_limit p) (pg_offset p)
             (rev (sort_key (\<lambda>l. (log_observed l, log_created l, log_id l))
               (filter (\<lambda>l. log_matches txt tn f l \<and> has_key rec_id (log_device l) (devices d))
                 (device_logs d))))))))"

section \<open>Device info\<close>

definition scan_info :: "info_row \<Rightarrow> info_record" where
  "scan_info r = \<lparr>ir_id = info_id r, ir_tenant = info_tenant r, ir_device = info_device r,
     ir_observed = info_observed r, ir_payload = info_payload r\<rparr>"

definition insert_info ::
  "(database \<Rightarrow> info_row list) \<Rightarrow> info_row updater \<Rightarrow> info_row \<Rightarrow> info_row list stmt" where
  "insert_info get put r = insert_row put (\<lambda>d. fresh info_id (info_id r) (get d))
     (\<lambda>d. info_tenant r \<in> set (tenants d) \<and> has_key tenant_id (info_tenant r, info_device r) (devices d))
     (\<lambda>_. r)"

definition insertDeviceInfo :: "string \<Rightarrow> string \<Rightarrow> string \<Rightarrow> int \<Rightarrow> info_upload \<Rightarrow> info_record action" where
  "insertDeviceInfo tn deviceID rowID t req =
     (let observed = (if iu_observed req = zero_instant then t else iu_observed req);
          payload = (case iu_payload req of None \<Rightarrow> [] | Some p \<Rightarrow> p)
      in bindE NewString (\<lambda>i. bindE (exec_row (insert_info device_info device_info_update
           \<lparr>info_id = i, info_tenant = tn, info_device = rowID, info_observed = observed,
            info_payload = payload, info_created = t\<rparr>)) (\<lambda>r.
         returnE ((scan_info r)\<lparr>ir_device := deviceID\<rparr>))))"

definition deviceinfo_Upload :: "string \<Rightarrow> string \<Rightarrow> string \<Rightarrow> info_upload \<Rightarrow> info_record list action" where
  "deviceinfo_Upload tn dev secret req =
     (if tn = [] \<or> dev = [] \<or> secret = [] then throwE ErrInvalidInput
      else if iu_payload req = None \<or> iu_payload req = Some [] then throwE ErrDeviceInfoInvalid
      else with_tx (
        bindE (deviceinfo_loadDeviceForSecret tn dev secret) (\<lambda>r. bindE now (\<lambda>t.
        bindE (insertDeviceInfo tn dev (rec_id r) t req) (\<lambda>x.
        bindE (touch_device r t) (\<lambda>_. bindE commit (\<lambda>_. returnE [x])))))))"

definition info_matches :: "(obj \<Rightarrow> string) \<Rightarrow> string \<Rightarrow> info_filter \<Rightarrow> info_row \<Rightarrow> bool" where
  "info_matches txt tn f l \<longleftrightarrow> info_tenant l = tn \<and>
     (if_device f = [] \<or> info_device l = if_device f) \<and>
     (if_query f = [] \<or> contains_like (if_query f) (txt (info_payload l))) \<and>
     within (if_since f) (if_until f) (info_observed l)"

definition newest_infos :: "info_row list \<Rightarrow> info_row list" where
  "newest_infos rs = rev (sort_key (\<lambda>l. (info_observed l, info_created l, info_id l)) rs)"

definition deviceinfo_Search :: "string \<Rightarrow> info_filter \<Rightarrow> info_record list action" where
  "deviceinfo_Search tn f =
     (if tn = [] then throwE ErrInvalidInput
      else bindE (asks jsonb_text) (\<lambda>txt. query (\<lambda>d.
        let p = search_page (if_page f) (if_limit f) (if_offset f)
        in map scan_info (page_rows (pg_limit p) (pg_offset p)
             (newest_infos (filter (\<lambda>l. info_matches txt tn f l \<and> has_key rec_id (info_device l) (devices d))
               (device_info d)))))))"

text \<open>
  \<open>SELECT DISTINCT ON (device)\<close> with the newest row first: the newest row of each of the wanted
  devices, as a map from device to record (an association list in the order of the rows).
\<close>

definition latest_by :: "string list \<Rightarrow> info_row list \<Rightarrow> (string \<times> info_record) list" where
  "latest_by ids rs = concat (map (\<lambda>i.
     case newest_infos (filter (\<lambda>r. info_device r = i) rs) of
       [] \<Rightarrow> [] | r # _ \<Rightarrow> [(i, scan_info r)]) (sort ids))"

definition ListLatestByDeviceIDs :: "string \<Rightarrow> string list \<Rightarrow> (string \<times> info_record) list action" where
  "ListLatestByDeviceIDs tn deviceIDs =
     (if tn = [] then throwE ErrInvalidInput
      else let ids = unique_loop {} deviceIDs
        in if ids = [] then returnE []
           else query (\<lambda>d. latest_by ids
             (filter (\<lambda>r. info_tenant r = tn \<and> has_key rec_id (info_device r) (devices d)) (device_info d))))"

section \<open>Telemetry\<close>

definition payload_entry :: "string \<Rightarrow> obj option \<Rightarrow> obj" where
  "payload_entry k v = (case v of None \<Rightarrow> [] | Some p \<Rightarrow> [(k, JObj p)])"

definition buildPayload :: "telemetry_upload \<Rightarrow> goerr + obj" where
  "buildPayload req =
     (if te_heartbeat req = None \<and> te_battery req = None \<and> te_network req = None \<and>
         te_location req = None \<and> te_app_state req = None then Inl ErrTelemetryInvalid
      else Inr (payload_entry ''heartbeat'' (te_heartbeat req) @ payload_entry ''battery'' (te_battery req) @
        payload_entry ''network'' (te_network req) @ payload_entry ''location'' (te_location req) @
        payload_entry ''appState'' (te_app_state req)))"

definition telemetry_Upload :: "string \<Rightarrow> string \<Rightarrow> string \<Rightarrow> telemetry_upload \<Rightarrow> info_record action" where
  "telemetry_Upload tn dev secret req =
     (if tn = [] \<or> dev = [] \<or> secret = [] then throwE ErrInvalidInput
      else case buildPayload req of
        Inl e \<Rightarrow> throwE e
      | Inr payload \<Rightarrow> bindE now (\<lambda>t. with_tx (
          bindE (telemetry_loadDeviceForSecret tn dev secret) (\<lambda>r.
          let observed = (if te_observed req = zero_instant then t else te_observed req)
          in bindE NewString (\<lambda>i.
             bindE (exec_row (insert_info device_telemetry device_telemetry_update
               \<lparr>info_id = i, info_tenant = tn, info_device = rec_id r, info_observed = observed,
                info_payload = payload, info_created = t\<rparr>)) (\<lambda>x.
             bindE (touch_device r t) (\<lambda>_. bindE commit (\<lambda>_. returnE (scan_info x)))))))))"

definition telemetry_uniqueStrings :: "string list \<Rightarrow> string list" where
  "telemetry_uniqueStrings values = unique_loop {} values"

definition telemetry_ListLatestByDeviceIDs :: "string \<Rightarrow> string list \<Rightarrow> (string \<times> info_record) list action" where
  "telemetry_ListLatestByDeviceIDs tn deviceIDs =
     (if tn = [] then throwE ErrInvalidInput
      else let ids = telemetry_uniqueStrings deviceIDs
        in if ids = [] then returnE []
           else query (\<lambda>d. latest_by ids (filter (\<lambda>r. info_tenant r = tn) (device_telemetry d))))"

section \<open>The shape of an upload\<close>

definition authentic :: "env \<Rightarrow> database \<Rightarrow> string \<Rightarrow> string \<Rightarrow> string \<Rightarrow> device_row \<Rightarrow> bool" where
  "authentic e d tn dev secret r \<longleftrightarrow> r \<in> set (devices d) \<and> by_id tn dev r \<and> deleted_at r = None \<and>
     rec_status r \<noteq> ''retired'' \<and> rec_status r \<noteq> ''wiped'' \<and>
     dev_secret_hash r = HashToken (sha256 e) secret"

lemma post_loadDeviceForSecret:
  "post (loadDeviceForSecret tn dev secret) w
     (\<lambda>r w'. authentic (env w) (db w) tn dev secret r \<and> db w' = db w \<and> txn w' = txn w \<and>
        env w' = env w \<and> ticks w' = ticks w)
     (\<lambda>_ w'. txn w' = txn w)"
  by (auto simp: loadDeviceForSecret_def wp authentic_def device_statuses filter_eq_Cons_iff
      split: list.splits)

definition seen_row :: "device_row \<Rightarrow> int \<Rightarrow> device_row \<Rightarrow> device_row" where
  "seen_row r t s = s\<lparr>rec_status := (if rec_status r = ''enrolled'' then ''active'' else rec_status s),
     updated_at := t\<rparr>"

definition seen :: "device_row \<Rightarrow> int \<Rightarrow> database \<Rightarrow> database" where
  "seen r t = devices_update (upd_where (\<lambda>s. rec_id s = rec_id r) (seen_row r t))"

lemma seen_simps [simp]:
  "device_logs (seen r t d) = device_logs d" "device_info (seen r t d) = device_info d"
  "device_telemetry (seen r t d) = device_telemetry d"
  "devices (seen r t d) = upd_where (\<lambda>s. rec_id s = rec_id r) (seen_row r t) (devices d)"
  by (simp_all add: seen_def)

lemma post_touch_device:
  "post (touch_device r t) w
     (\<lambda>_ w'. txn w' = txn w \<and> db w' = seen r t (db w)) (\<lambda>_ w'. txn w' = txn w)"
proof -
  let ?p = "\<lambda>s :: device_row. rec_id s = rec_id r"
  have "(\<lambda>s. s\<lparr>rec_status := ''active'', updated_at := t\<rparr>) = seen_row r t" if "rec_status r = ''enrolled''"
    using that by (simp add: fun_eq_iff seen_row_def)
  then have "devices_update (\<lambda>rs. upd_where ?p (\<lambda>s. s\<lparr>rec_status := ''active'', updated_at := t\<rparr>)
          (upd_where ?p (\<lambda>s. s\<lparr>updated_at := t\<rparr>) rs)) (db w) = seen r t (db w)"
    if "rec_status r = ''enrolled''"
    unfolding seen_def
    by (intro devices_t.put_cong) (simp add: upd_where_twice, simp add: that seen_row_def cong: if_cong)
  moreover have "(\<lambda>s. s\<lparr>updated_at := t\<rparr>) = seen_row r t" if "rec_status r \<noteq> ''enrolled''"
    using that by (simp add: fun_eq_iff seen_row_def)
  then have "devices_update (upd_where ?p (\<lambda>s. s\<lparr>updated_at := t\<rparr>)) (db w) = seen r t (db w)"
    if "rec_status r \<noteq> ''enrolled''"
    unfolding seen_def using that by simp
  ultimately show ?thesis
    by (auto simp: touch_device_def wp device_statuses comp_def)
qed

text \<open>
  The contract of an ingestion: \<open>ins\<close> inserts the records of an authenticated device, as
  \<open>spec\<close> says, touches no device and neither opens nor ends a transaction. Then the whole
  upload succeeds only for an authentic device, stores the records and marks it seen; any
  error leaves the tables as they were.
\<close>

locale ingestion =
  fixes ins :: "device_row \<Rightarrow> int \<Rightarrow> 'x action"
    and spec :: "env \<Rightarrow> device_row \<Rightarrow> int \<Rightarrow> database \<Rightarrow> 'x \<Rightarrow> database \<Rightarrow> bool"
  assumes ins_spec: "post (ins r t) w
      (\<lambda>x w'. txn w' = txn w \<and> spec (env w) r t (db w) x (db w')) (\<lambda>_ w'. txn w' = txn w)"
begin

lemma post_store:
  assumes "txn w = Some (db w, pg)" "authentic (env w) (db w) tn dev secret r"
  shows "post (bindE (ins r t) (\<lambda>x. bindE (touch_device r t) (\<lambda>_. bindE commit (\<lambda>_. returnE (g x))))) w
     (\<lambda>y w'. \<exists>r x d1. authentic (env w) (db w) tn dev secret r \<and> y = g x \<and>
        spec (env w) r t (db w) x d1 \<and> db (rollback w') = seen r t d1)
     (\<lambda>_ w'. db (rollback w') = db w)"
proof -
  have final: "post (bindE (touch_device r t) (\<lambda>_. bindE commit (\<lambda>_. returnE (g x)))) w1
     (\<lambda>y w'. \<exists>r x d1. authentic (env w) (db w) tn dev secret r \<and> y = g x \<and>
        spec (env w) r t (db w) x d1 \<and> db (rollback w') = seen r t d1)
     (\<lambda>_ w'. db (rollback w') = db w)"
    if "txn w1 = txn w \<and> spec (env w) r t (db w) x (db w1)" for x w1
    using that assms
    by (auto simp: wp db_rollback intro!: post_mono [OF post_touch_device])
  show ?thesis
    unfolding post_bindE [of "ins r t"]
    by (rule post_mono [OF ins_spec]) (use assms final in \<open>auto simp: db_rollback\<close>)
qed

lemma post_store_in:
  assumes "txn w = Some (d, pg)" "db w = d" "env w = e" "authentic e d tn dev secret r"
  shows "post (bindE (ins r t) (\<lambda>x. bindE (touch_device r t) (\<lambda>_. bindE commit (\<lambda>_. returnE (g x))))) w
     (\<lambda>y w'. \<exists>r x d1. authentic e d tn dev secret r \<and> y = g x \<and>
        spec e r t d x d1 \<and> db (rollback w') = seen r t d1)
     (\<lambda>_ w'. db (rollback w') = d)"
  using post_store [of w pg tn dev secret r t g] assms by simp

lemma post_upload:
  assumes "txn w = None"
  shows "post (with_tx (bindE (loadDeviceForSecret tn dev secret) (\<lambda>r. bindE now (\<lambda>t.
       bindE (ins r t) (\<lambda>x. bindE (touch_device r t) (\<lambda>_. bindE commit (\<lambda>_. returnE (g x)))))))) w
     (\<lambda>y w'. \<exists>r x d1. authentic (env w) (db w) tn dev secret r \<and> y = g x \<and>
        spec (env w) r (clock_src (env w) (ticks w)) (db w) x d1 \<and>
        db w' = seen r (clock_src (env w) (ticks w)) d1)
     (\<lambda>_ w'. db w' = db w)"
proof (cases "faulty w")
  case True
  then show ?thesis by (simp add: wp)
next
  case False
  show ?thesis
    unfolding post_with_tx if_not_P [OF False] post_bindE [of "loadDeviceForSecret tn dev secret"]
      post_bindE [of now] post_now
  proof (rule post_mono [OF post_loadDeviceForSecret], goal_cases)
    case (1 r w')
    then have same: "ticks w' = ticks w" "env w' = env w" by simp_all
    show ?case
      unfolding same by (rule post_store_in) (use 1 assms in simp_all)
  qed (use assms in \<open>simp add: db_rollback_open\<close>)
qed

lemma post_upload_at:
  assumes "txn w = None"
  shows "post (with_tx (bindE (loadDeviceForSecret tn dev secret) (\<lambda>r.
       bindE (ins r t) (\<lambda>x. bindE (touch_device r t) (\<lambda>_. bindE commit (\<lambda>_. returnE (g x))))))) w
     (\<lambda>y w'. \<exists>r x d1. authentic (env w) (db w) tn dev secret r \<and> y = g x \<and>
        spec (env w) r t (db w) x d1 \<and> db w' = seen r t d1)
     (\<lambda>_ w'. db w' = db w)"
proof (cases "faulty w")
  case True
  then show ?thesis by (simp add: wp)
next
  case False
  show ?thesis
    unfolding post_with_tx if_not_P [OF False] post_bindE [of "loadDeviceForSecret tn dev secret"]
    by (rule post_mono [OF post_loadDeviceForSecret], elim conjE, rule post_store_in)
      (use assms in \<open>simp_all add: db_rollback_open\<close>)
qed

end

subsection \<open>Logs\<close>

text \<open>
  The entries of an upload are stored under their identifiers: entry \<open>e\<close> yields the row with
  its identifier, which is new or was there before; every new row belongs to the device.
\<close>

definition entry_id :: "env \<Rightarrow> log_entry \<Rightarrow> string option" where
  "entry_id e x = (if TrimSpace (le_id x) = [] then None else uuid_parse e (TrimSpace (le_id x)))"

definition stores_entry :: "env \<Rightarrow> database \<Rightarrow> log_entry \<Rightarrow> log_record \<Rightarrow> bool" where
  "stores_entry e d x y \<longleftrightarrow> entry_id e x = Some (lr_id y) \<and> (\<exists>l \<in> set (device_logs d). y = scan_log l)"

definition logs_spec ::
  "string \<Rightarrow> log_entry list \<Rightarrow> env \<Rightarrow> device_row \<Rightarrow> int \<Rightarrow> database \<Rightarrow> log_record list \<Rightarrow> database \<Rightarrow> bool" where
  "logs_spec tn entries e r t d ys d' \<longleftrightarrow>
     (\<exists>new. d' = device_logs_update (\<lambda>ls. ls @ new) d \<and> list_all2 (stores_entry e d') entries ys \<and>
        (\<forall>l \<in> set new. log_tenant l = tn \<and> log_device l = rec_id r \<and> log_created l = t \<and>
            log_id l \<notin> set (map log_id (device_logs d)) \<and> Some (log_id l) \<in> entry_id e ` set entries) \<and>
        distinct (map log_id new))"

lemma log_row_of_simps [simp]:
  "log_id (log_row_of tn dev i t f x) = i" "log_tenant (log_row_of tn dev i t f x) = tn"
  "log_device (log_row_of tn dev i t f x) = dev" "log_created (log_row_of tn dev i t f x) = t"
  by (simp_all add: log_row_of_def Let_def)

lemma post_insertLog:
  "post (insertLog tn dev t fallback x) w
     (\<lambda>y w'. txn w' = txn w \<and> env w' = env w \<and>
        (\<exists>new. db w' = device_logs_update (\<lambda>ls. ls @ new) (db w) \<and> stores_entry (env w) (db w') x y \<and>
          (\<forall>l \<in> set new. log_tenant l = tn \<and> log_device l = dev \<and> log_created l = t \<and>
            log_id l \<notin> set (map log_id (device_logs (db w))) \<and> entry_id (env w) x = Some (log_id l)) \<and>
          distinct (map log_id new)))
     (\<lambda>_ w'. txn w' = txn w)"
proof (cases "entry_id (env w) x")
  case None
  then show ?thesis
    by (auto simp: insertLog_def wp entry_id_def split: if_splits)
next
  case (Some i)
  then have id: "TrimSpace (le_id x) \<noteq> []" "uuid_parse (env w) (TrimSpace (le_id x)) = Some i"
    by (auto simp: entry_id_def split: if_splits)
  let ?f = "filter (\<lambda>s. log_id s = i) (device_logs (db w))"
  show ?thesis
  proof (cases ?f)
    case Nil
    then have none: "\<not> list_ex (\<lambda>s. log_id s = i) (device_logs (db w))" "i \<notin> log_id ` set (device_logs (db w))"
      by (auto simp: filter_empty_conv list_ex_iff)
    have new: "insert_log r pg (db w) =
        (if log_tenant r \<in> set (tenants (db w)) \<and> has_key tenant_id (log_tenant r, log_device r) (devices (db w))
         then Inr ([r], device_logs_update (\<lambda>ls. ls @ [r]) (db w)) else Inl PgForeignKey)"
      if "log_id r = i" for r pg
      using none that by (simp add: insert_log_def insert_row_def insert_into_def)
    show ?thesis
      using id none(2)
      by (auto simp: insertLog_def wp new stores_entry_def scan_log_def Some intro!: exI [of _ "[_]"])
  next
    case (Cons l ls)
    then have l: "l \<in> set (device_logs (db w))" "log_id l = i"
      using filter_single_mem [OF Cons] by auto
    then have ex: "list_ex (\<lambda>s. log_id s = i) (device_logs (db w))" by (auto simp: list_ex_iff)
    have old: "insert_log r pg (db w) = Inr (l # ls, db w)" if "log_id r = i" for r pg
      using ex that Cons by (simp add: insert_log_def)
    have same: "db w = device_logs_update (\<lambda>ls. ls @ []) (db w)"
      by (rule sym, rule logs_t.put_same) simp
    have stored: "stores_entry (env w) (db w) x (scan_log l)"
      using l Some by (auto simp: stores_entry_def scan_log_def)
    show ?thesis
      using id
      by (simp add: insertLog_def wp old)
        (intro impI exI [of _ "[]"] conjI same stored; simp)
  qed
qed

lemma stores_entry_mono:
  "stores_entry e d x y \<Longrightarrow> set (device_logs d) \<subseteq> set (device_logs d') \<Longrightarrow> stores_entry e d' x y"
  by (auto simp: stores_entry_def)

lemma post_insertLogs:
  "post (mapE (insertLog tn (rec_id r) t fallback) entries) w
     (\<lambda>ys w'. txn w' = txn w \<and> logs_spec tn entries (env w) r t (db w) ys (db w'))
     (\<lambda>_ w'. txn w' = txn w)"
proof (induction entries arbitrary: w)
  case Nil
  have "device_logs_update (\<lambda>ls. ls @ []) d = d" for d :: database
    by (rule logs_t.put_same) simp
  then show ?case
    by (auto simp: wp logs_spec_def intro!: exI [of _ "[]"])
next
  case (Cons x entries)
  have step: "post (bindE (mapE (insertLog tn (rec_id r) t fallback) entries) (\<lambda>ys. returnE (y # ys))) w1
      (\<lambda>ys w'. txn w' = txn w \<and> logs_spec tn (x # entries) (env w) r t (db w) ys (db w'))
      (\<lambda>_ w'. txn w' = txn w)"
    if w1: "txn w1 = txn w" "env w1 = env w"
      and one: "db w1 = device_logs_update (\<lambda>ls. ls @ new) (db w)" "stores_entry (env w) (db w1) x y"
        "\<forall>l \<in> set new. log_tenant l = tn \<and> log_device l = rec_id r \<and> log_created l = t \<and>
           log_id l \<notin> set (map log_id (device_logs (db w))) \<and> entry_id (env w) x = Some (log_id l)"
        "distinct (map log_id new)" for y w1 new
  proof -
    have "logs_spec tn (x # entries) (env w) r t (db w) (y # ys) d'"
      if "logs_spec tn entries (env w) r t (db w1) ys d'" for ys d'
    proof -
      from that obtain more where more:
        "d' = device_logs_update (\<lambda>ls. ls @ more) (db w1)" "list_all2 (stores_entry (env w) d') entries ys"
        "\<forall>l \<in> set more. log_tenant l = tn \<and> log_device l = rec_id r \<and> log_created l = t \<and>
           log_id l \<notin> set (map log_id (device_logs (db w1))) \<and> Some (log_id l) \<in> entry_id (env w) ` set entries"
        "distinct (map log_id more)"
        by (auto simp: logs_spec_def)
      have d': "d' = device_logs_update (\<lambda>ls. ls @ (new @ more)) (db w)"
        using more(1) one(1) by (simp add: comp_def)
      have "stores_entry (env w) d' x y"
        by (rule stores_entry_mono [OF one(2)]) (simp add: more(1))
      moreover have "distinct (map log_id (new @ more))"
      proof -
        have "log_id ` set new \<inter> log_id ` set more = {}"
        proof (intro equals0I)
          fix k assume k: "k \<in> log_id ` set new \<inter> log_id ` set more"
          then obtain l where "l \<in> set more" "k = log_id l" by auto
          then have "k \<notin> log_id ` set new" using more(3) by (simp add: one(1))
          then show False using k by simp
        qed
        then show ?thesis using one(4) more(4) by simp
      qed
      ultimately show ?thesis
        unfolding logs_spec_def
        by (intro exI [of _ "new @ more"] conjI d') (use more one in auto)
    qed
    then show ?thesis
      using w1 by (auto simp: wp intro!: post_mono [OF Cons.IH])
  qed
  show ?case
    unfolding mapE.simps post_bindE [of "insertLog tn (rec_id r) t fallback x"]
    by (rule post_mono [OF post_insertLog]) (auto intro!: step)
qed

interpretation logs_i: ingestion "\<lambda>r t. mapE (insertLog tn (rec_id r) t fallback) entries" "logs_spec tn entries"
  for tn fallback entries
  by unfold_locales (rule post_insertLogs)

lemma post_logs_Upload:
  assumes "txn w = None"
  shows "post (logs_Upload tn dev secret req) w
     (\<lambda>ys w'. \<exists>r d1. authentic (env w) (db w) tn dev secret r \<and>
        logs_spec tn (lu_entries req) (env w) r (clock_src (env w) (ticks w)) (db w) ys d1 \<and>
        db w' = seen r (clock_src (env w) (ticks w)) d1)
     (\<lambda>_ w'. db w' = db w)"
proof (cases "tn = [] \<or> dev = [] \<or> secret = [] \<or> lu_entries req = []")
  case True
  then show ?thesis by (auto simp: logs_Upload_def wp)
next
  case False
  then have eq: "logs_Upload tn dev secret req =
      with_tx (bindE (loadDeviceForSecret tn dev secret) (\<lambda>r. bindE now (\<lambda>t.
        bindE (mapE (insertLog tn (rec_id r) t (lu_observed req)) (lu_entries req)) (\<lambda>records.
        bindE (touch_device r t) (\<lambda>_. bindE commit (\<lambda>_. returnE records))))))"
    by (simp add: logs_Upload_def)
  show ?thesis
    unfolding eq by (rule post_mono [OF logs_i.post_upload [OF assms]]) auto
qed

subsection \<open>Device info and telemetry\<close>

definition info_spec ::
  "(database \<Rightarrow> info_row list) \<Rightarrow> info_row updater \<Rightarrow> string \<Rightarrow> int \<Rightarrow> obj \<Rightarrow>
   env \<Rightarrow> device_row \<Rightarrow> int \<Rightarrow> database \<Rightarrow> info_row \<Rightarrow> database \<Rightarrow> bool" where
  "info_spec get put tn observed payload e r t d x d' \<longleftrightarrow>
     info_tenant x = tn \<and> info_device x = rec_id r \<and>
     info_observed x = (if observed = zero_instant then t else observed) \<and>
     info_payload x = payload \<and> info_created x = t \<and>
     fresh info_id (info_id x) (get d) \<and> d' = put (\<lambda>rs. rs @ [x]) d"

lemma post_insert_info:
  "post (bindE NewString (\<lambda>i. exec_row (insert_info get put
      \<lparr>info_id = i, info_tenant = tn, info_device = rec_id r,
       info_observed = (if observed = zero_instant then t else observed),
       info_payload = payload, info_created = t\<rparr>))) w
     (\<lambda>x w'. txn w' = txn w \<and> info_spec get put tn observed payload (env w) r t (db w) x (db w'))
     (\<lambda>_ w'. txn w' = txn w)"
  by (simp add: wp insert_info_def insert_row_def insert_into_def info_spec_def)

interpretation info_i: ingestion
  "\<lambda>r t. bindE NewString (\<lambda>i. exec_row (insert_info get put
      \<lparr>info_id = i, info_tenant = tn, info_device = rec_id r,
       info_observed = (if observed = zero_instant then t else observed),
       info_payload = payload, info_created = t\<rparr>))"
  "info_spec get put tn observed payload"
  for get put tn observed payload
  by unfold_locales (rule post_insert_info)

lemma bindE_assoc: "bindE (bindE m f) g = bindE m (\<lambda>x. bindE (f x) g)"
  by (auto simp: bindE_def fun_eq_iff split: prod.splits sum.splits)

lemma bindE_returnE: "bindE (returnE x) f = f x"
  by (simp add: bindE_def returnE_def)

lemma post_deviceinfo_Upload:
  assumes "txn w = None"
  shows "post (deviceinfo_Upload tn dev secret req) w
     (\<lambda>ys w'. \<exists>r x d1 p. authentic (env w) (db w) tn dev secret r \<and> iu_payload req = Some p \<and> p \<noteq> [] \<and>
        info_spec device_info device_info_update tn (iu_observed req) p
          (env w) r (clock_src (env w) (ticks w)) (db w) x d1 \<and>
        ys = [(scan_info x)\<lparr>ir_device := dev\<rparr>] \<and> db w' = seen r (clock_src (env w) (ticks w)) d1)
     (\<lambda>_ w'. db w' = db w)"
proof (cases "tn = [] \<or> dev = [] \<or> secret = [] \<or> iu_payload req = None \<or> iu_payload req = Some []")
  case True
  then show ?thesis by (auto simp: deviceinfo_Upload_def wp)
next
  case False
  then obtain p where p: "iu_payload req = Some p" "p \<noteq> []" by auto
  have eq: "deviceinfo_Upload tn dev secret req =
      with_tx (bindE (loadDeviceForSecret tn dev secret) (\<lambda>r. bindE now (\<lambda>t.
        bindE (bindE NewString (\<lambda>i. exec_row (insert_info device_info device_info_update
          \<lparr>info_id = i, info_tenant = tn, info_device = rec_id r,
           info_observed = (if iu_observed req = zero_instant then t else iu_observed req),
           info_payload = p, info_created = t\<rparr>))) (\<lambda>x.
        bindE (touch_device r t) (\<lambda>_. bindE commit (\<lambda>_. returnE [(scan_info x)\<lparr>ir_device := dev\<rparr>]))))))"
    using False p
    by (simp add: deviceinfo_Upload_def deviceinfo_loadDeviceForSecret_def insertDeviceInfo_def Let_def
        bindE_assoc bindE_returnE)
  show ?thesis
    unfolding eq
    by (rule post_mono [OF info_i.post_upload [OF assms, where g = "\<lambda>x. [(scan_info x)\<lparr>ir_device := dev\<rparr>]"]])
      (use p in auto)
qed

lemma post_telemetry_Upload:
  assumes "txn w = None"
  shows "post (telemetry_Upload tn dev secret req) w
     (\<lambda>y w'. \<exists>r x d1 p. authentic (env w) (db w) tn dev secret r \<and> buildPayload req = Inr p \<and>
        info_spec device_telemetry device_telemetry_update tn (te_observed req) p
          (env w) r (clock_src (env w) (ticks w)) (db w) x d1 \<and>
        y = scan_info x \<and> db w' = seen r (clock_src (env w) (ticks w)) d1)
     (\<lambda>_ w'. db w' = db w)"
proof (cases "tn = [] \<or> dev = [] \<or> secret = [] \<or> (\<exists>e. buildPayload req = Inl e)")
  case True
  then show ?thesis by (cases "tn = [] \<or> dev = [] \<or> secret = []") (auto simp: telemetry_Upload_def wp)
next
  case False
  then obtain p where p: "buildPayload req = Inr p" by (cases "buildPayload req") auto
  have eq: "telemetry_Upload tn dev secret req =
      bindE now (\<lambda>t. with_tx (bindE (loadDeviceForSecret tn dev secret) (\<lambda>r.
        bindE (bindE NewString (\<lambda>i. exec_row (insert_info device_telemetry device_telemetry_update
          \<lparr>info_id = i, info_tenant = tn, info_device = rec_id r,
           info_observed = (if te_observed req = zero_instant then t else te_observed req),
           info_payload = p, info_created = t\<rparr>))) (\<lambda>x.
        bindE (touch_device r t) (\<lambda>_. bindE commit (\<lambda>_. returnE (scan_info x)))))))"
    using False p
    by (simp add: telemetry_Upload_def telemetry_loadDeviceForSecret_def Let_def bindE_assoc)
  show ?thesis
    unfolding eq post_bindE [of now] post_now
    by (rule post_mono [OF info_i.post_upload_at [where g = scan_info]]) (use p assms in auto)
qed

section \<open>Properties\<close>

text \<open>An enrolled device, another active one, and a log entry of the latter.\<close>

definition sample_log :: "string \<Rightarrow> string \<Rightarrow> log_row" where
  "sample_log i dev = \<lparr>log_id = i, log_tenant = ''t'', log_device = dev, log_observed = 1, log_source = ''agent'',
     log_level = ''info'', log_message = ''started'', log_payload = [], log_created = 1\<rparr>"

definition ingest_database :: database where
  "ingest_database = empty_database\<lparr>
     devices := [sample_device ''d'' ''enrolled'' (sample_hash ''s''),
                 sample_device ''e'' ''active'' (sample_hash ''s2'')],
     device_logs := [sample_log ''l1'' ''e'']\<rparr>"

definition sample_entry :: "string \<Rightarrow> log_entry" where
  "sample_entry i = \<lparr>le_id = i, le_observed = 7, le_source = ''agent'', le_level = ''warn'',
     le_message = '' low battery '', le_payload = None\<rparr>"

definition sample_upload :: "string list \<Rightarrow> log_upload" where
  "sample_upload is = \<lparr>lu_schema = 1, lu_observed = 7, lu_entries = map sample_entry is\<rparr>"

text \<open>
  An upload of logs is accepted only from a device of the tenant that is neither deleted,
  retired nor wiped and shows its secret. Each entry is answered by the stored record with its
  identifier; the records added are the ones of entries whose identifiers were not there, all
  of them the device's; and an enrolled device becomes active. A failure changes nothing.
\<close>

theorem logs_Upload_stores:
  assumes "txn w = None"
  shows "case fst (logs_Upload tn dev secret req w) of
      Inr ys \<Rightarrow> \<exists>r new. authentic (env w) (db w) tn dev secret r \<and>
        device_logs (db (snd (logs_Upload tn dev secret req w))) = device_logs (db w) @ new \<and>
        list_all2 (\<lambda>x y. entry_id (env w) x = Some (lr_id y) \<and> y \<in> scan_log ` set (device_logs (db w) @ new))
          (lu_entries req) ys \<and>
        distinct (map log_id new) \<and>
        list_all (\<lambda>l. log_tenant l = tn \<and> log_device l = dev \<and> log_id l \<notin> log_id ` set (device_logs (db w)) \<and>
          Some (log_id l) \<in> entry_id (env w) ` set (lu_entries req)) new \<and>
        devices (db (snd (logs_Upload tn dev secret req w))) = upd_where (\<lambda>s. rec_id s = dev)
          (\<lambda>s. s\<lparr>rec_status := (if rec_status r = ''enrolled'' then ''active'' else rec_status s),
                 updated_at := clock_src (env w) (ticks w)\<rparr>) (devices (db w))
    | Inl e \<Rightarrow> db (snd (logs_Upload tn dev secret req w)) = db w"
proof (cases "fst (logs_Upload tn dev secret req w)")
  case (Inl e)
  from post_fst_Inl [OF post_logs_Upload [OF assms] this] Inl show ?thesis by simp
next
  case (Inr ys)
  let ?t = "clock_src (env w) (ticks w)"
  obtain r d1 where r: "authentic (env w) (db w) tn dev secret r"
    and spec: "logs_spec tn (lu_entries req) (env w) r ?t (db w) ys d1"
    and d: "db (snd (logs_Upload tn dev secret req w)) = seen r ?t d1"
    using post_fst_Inr [OF post_logs_Upload [OF assms] Inr] by blast
  from spec obtain new where new: "d1 = device_logs_update (\<lambda>ls. ls @ new) (db w)"
    "list_all2 (stores_entry (env w) d1) (lu_entries req) ys"
    "\<forall>l \<in> set new. log_tenant l = tn \<and> log_device l = rec_id r \<and> log_created l = ?t \<and>
        log_id l \<notin> set (map log_id (device_logs (db w))) \<and> Some (log_id l) \<in> entry_id (env w) ` set (lu_entries req)"
    "distinct (map log_id new)"
    by (auto simp: logs_spec_def)
  have id: "rec_id r = dev" using r by (simp add: authentic_def by_id_def)
  have row: "seen_row r ?t = (\<lambda>s. s\<lparr>rec_status := (if rec_status r = ''enrolled'' then ''active'' else rec_status s),
      updated_at := ?t\<rparr>)"
    by (simp add: fun_eq_iff seen_row_def)
  have "list_all2 (\<lambda>x y. entry_id (env w) x = Some (lr_id y) \<and> y \<in> scan_log ` set (device_logs (db w) @ new))
      (lu_entries req) ys"
    by (rule list_all2_mono [OF new(2)]) (auto simp: stores_entry_def new(1))
  moreover have "list_all (\<lambda>l. log_tenant l = tn \<and> log_device l = dev \<and> log_id l \<notin> log_id ` set (device_logs (db w)) \<and>
      Some (log_id l) \<in> entry_id (env w) ` set (lu_entries req)) new"
    using new(3) by (simp add: list_all_iff id)
  ultimately show ?thesis
    unfolding Inr sum.case d
    by (intro exI [of _ r] exI [of _ new]) (simp add: r new(1,4) id row)
qed

theorem logs_Upload_stores_witness:
  "\<exists>ys. fst (logs_Upload ''t'' ''d'' ''s'' (sample_upload [''l2'']) (world_of ingest_database)) = Inr ys \<and>
     length ys = 1 \<and>
     map rec_status (devices (db (snd (logs_Upload ''t'' ''d'' ''s'' (sample_upload [''l2'']) (world_of ingest_database)))))
       = [''active'', ''active'']"
proof -
  let ?w = "world_of ingest_database"
  have "case fst (logs_Upload ''t'' ''d'' ''s'' (sample_upload [''l2'']) ?w) of Inr r \<Rightarrow> True | Inl e \<Rightarrow> False"
    by code_simp
  then obtain ys where ys: "fst (logs_Upload ''t'' ''d'' ''s'' (sample_upload [''l2'']) ?w) = Inr ys"
    by (auto split: sum.splits)
  have "txn ?w = None" by simp
  from logs_Upload_stores [OF this, of "''t''" "''d''" "''s''" "sample_upload [''l2'']"] ys show ?thesis
    by (auto simp: authentic_def ingest_database_def sample_device_def by_id_def upd_where_def
        sample_upload_def list_all2_Cons1)
qed

text \<open>
  C14: An upload can be repeated: a device that sends the same entries again, because the answer was
  lost, stores none of them a second time and is answered by the same records.
\<close>

theorem logs_Upload_repeatable:
  assumes "fst (logs_Upload tn dev secret req w) = Inr ys" "txn w = None"
    and "db w1 = db (snd (logs_Upload tn dev secret req w))" "env w1 = env w" "txn w1 = None"
    and "fst (logs_Upload tn dev secret req w1) = Inr ys1" "distinct (map log_id (device_logs (db w)))"
  shows "ys1 = ys \<and> device_logs (db (snd (logs_Upload tn dev secret req w1))) = device_logs (db w1)"
proof -
  obtain r d1 where spec: "logs_spec tn (lu_entries req) (env w) r (clock_src (env w) (ticks w)) (db w) ys d1"
    and d: "db w1 = seen r (clock_src (env w) (ticks w)) d1"
    using post_fst_Inr [OF post_logs_Upload [OF assms(2)] assms(1)] assms(3) by metis
  obtain r' d2 where spec': "logs_spec tn (lu_entries req) (env w) r' (clock_src (env w) (ticks w1)) (db w1) ys1 d2"
    and d': "db (snd (logs_Upload tn dev secret req w1)) = seen r' (clock_src (env w) (ticks w1)) d2"
    using post_fst_Inr [OF post_logs_Upload [OF assms(5)] assms(6)] assms(4) by metis
  from spec obtain new where new: "device_logs d1 = device_logs (db w) @ new"
    "list_all2 (stores_entry (env w) d1) (lu_entries req) ys"
    "\<forall>l \<in> set new. log_id l \<notin> set (map log_id (device_logs (db w)))" "distinct (map log_id new)"
    by (auto simp: logs_spec_def)
  from spec' obtain new' where new': "device_logs d2 = device_logs (db w1) @ new'"
    "list_all2 (stores_entry (env w) d2) (lu_entries req) ys1"
    "\<forall>l \<in> set new'. log_id l \<notin> set (map log_id (device_logs (db w1))) \<and>
       Some (log_id l) \<in> entry_id (env w) ` set (lu_entries req)"
    by (auto simp: logs_spec_def)
  have logs: "device_logs (db w1) = device_logs d1" by (simp add: d)
  have have_id: "i \<in> set (map log_id (device_logs d1))" if "Some i \<in> entry_id (env w) ` set (lu_entries req)" for i
  proof -
    from that obtain x where x: "x \<in> set (lu_entries req)" "entry_id (env w) x = Some i" by auto
    then obtain k where "k < length (lu_entries req)" "lu_entries req ! k = x" by (auto simp: in_set_conv_nth)
    then have "stores_entry (env w) d1 x (ys ! k)" using new(2) by (auto simp: list_all2_conv_all_nth)
    then show ?thesis using x(2) by (auto simp: stores_entry_def scan_log_def)
  qed
  have none: "new' = []"
  proof (rule ccontr)
    assume "new' \<noteq> []"
    then obtain l where "l \<in> set new'" by (cases new') auto
    then show False using new'(3) have_id by (auto simp: logs)
  qed
  have "log_id ` set (device_logs (db w)) \<inter> log_id ` set new = {}"
    using new(3) by (auto simp: image_iff) metis
  then have ids: "distinct (map log_id (device_logs d1))" using assms(7) new(1,4) by simp
  have same: "y = z" if s: "stores_entry (env w) d1 x y" "stores_entry (env w) d2 x z" for x y z
  proof -
    obtain l m where l: "l \<in> set (device_logs d1)" "y = scan_log l" and m: "m \<in> set (device_logs d1)" "z = scan_log m"
      using s none new'(1) logs by (auto simp: stores_entry_def)
    moreover have "log_id l = log_id m" using s l m by (auto simp: stores_entry_def scan_log_def)
    ultimately show ?thesis using distinct_key_unique [OF ids l(1) m(1)] by simp
  qed
  have "ys1 = ys"
  proof (rule nth_equalityI)
    show len: "length ys1 = length ys"
      using new(2) new'(2) by (simp add: list_all2_lengthD [symmetric])
    show "ys1 ! k = ys ! k" if "k < length ys1" for k
      using same [of "lu_entries req ! k" "ys ! k" "ys1 ! k"] new(2) new'(2) that len
      by (simp add: list_all2_conv_all_nth)
  qed
  with d' none new'(1) show ?thesis by simp
qed

theorem logs_Upload_repeatable_witness:
  "\<exists>ys. fst (logs_Upload ''t'' ''d'' ''s'' (sample_upload [''l2'', ''l3'', ''l2'']) (world_of ingest_database)) = Inr ys \<and>
     fst (logs_Upload ''t'' ''d'' ''s'' (sample_upload [''l2'', ''l3'', ''l2''])
       (world_of (db (snd (logs_Upload ''t'' ''d'' ''s'' (sample_upload [''l2'', ''l3'', ''l2'']) (world_of ingest_database)))))) = Inr ys"
proof -
  let ?w = "world_of ingest_database" and ?q = "sample_upload [''l2'', ''l3'', ''l2'']"
  let ?w1 = "world_of (db (snd (logs_Upload ''t'' ''d'' ''s'' ?q ?w)))"
  have "case fst (logs_Upload ''t'' ''d'' ''s'' ?q ?w) of Inr r \<Rightarrow> True | Inl e \<Rightarrow> False" by code_simp
  then obtain ys where ys: "fst (logs_Upload ''t'' ''d'' ''s'' ?q ?w) = Inr ys" by (auto split: sum.splits)
  have "case fst (logs_Upload ''t'' ''d'' ''s'' ?q ?w1) of Inr r \<Rightarrow> True | Inl e \<Rightarrow> False" by code_simp
  then obtain ys1 where ys1: "fst (logs_Upload ''t'' ''d'' ''s'' ?q ?w1) = Inr ys1" by (auto split: sum.splits)
  have "distinct (map log_id (device_logs (db ?w)))" by (simp add: ingest_database_def)
  from logs_Upload_repeatable [OF ys _ _ _ _ ys1 this] ys ys1 show ?thesis by simp
qed

text \<open>
  Identifiers of log entries are not checked against the tenant and the device: an upload whose
  entry carries the identifier of another device's record stores nothing for it and is
  answered by that record, message included.
\<close>

theorem logs_Upload_foreign_record:
  assumes "fst (logs_Upload tn dev secret req w) = Inr [y]" "txn w = None" "lu_entries req = [x]"
    and "l \<in> set (device_logs (db w))" "entry_id (env w) x = Some (log_id l)"
    and "distinct (map log_id (device_logs (db w)))"
  shows "y = scan_log l \<and> lr_device y = log_device l \<and> lr_message y = log_message l \<and>
    device_logs (db (snd (logs_Upload tn dev secret req w))) = device_logs (db w)"
proof -
  obtain r d1 where spec: "logs_spec tn [x] (env w) r (clock_src (env w) (ticks w)) (db w) [y] d1"
    and d: "db (snd (logs_Upload tn dev secret req w)) = seen r (clock_src (env w) (ticks w)) d1"
    using post_fst_Inr [OF post_logs_Upload [OF assms(2)] assms(1)] assms(3) by metis
  from spec obtain new where new: "device_logs d1 = device_logs (db w) @ new" "stores_entry (env w) d1 x y"
    "\<forall>k \<in> set new. log_id k \<notin> set (map log_id (device_logs (db w))) \<and> Some (log_id k) = entry_id (env w) x"
    by (auto simp: logs_spec_def)
  have none: "new = []"
  proof (rule ccontr)
    assume "new \<noteq> []"
    then obtain k where "k \<in> set new" by (cases new) auto
    then show False using new(3) assms(4,5) by auto
  qed
  from new(2) obtain m where m: "m \<in> set (device_logs (db w))" "y = scan_log m" "log_id m = log_id l"
    using assms(5) none new(1) by (auto simp: stores_entry_def scan_log_def)
  have "m = l" by (rule distinct_key_unique [OF assms(6) m(1) assms(4) m(3)])
  with m d none new(1) show ?thesis by (simp add: scan_log_def)
qed

theorem logs_Upload_foreign_record_witness:
  "\<exists>y. fst (logs_Upload ''t'' ''d'' ''s'' (sample_upload [''l1'']) (world_of ingest_database)) = Inr [y] \<and>
     lr_device y = ''e'' \<and> lr_message y = ''started''"
proof -
  let ?w = "world_of ingest_database" and ?q = "sample_upload [''l1'']"
  have "case fst (logs_Upload ''t'' ''d'' ''s'' ?q ?w) of Inr ys \<Rightarrow> length ys = 1 | Inl e \<Rightarrow> False" by code_simp
  then obtain y where y: "fst (logs_Upload ''t'' ''d'' ''s'' ?q ?w) = Inr [y]"
    by (auto split: sum.splits simp: length_Suc_conv)
  have "entry_id (env ?w) (sample_entry ''l1'') = Some (log_id (sample_log ''l1'' ''e''))" by code_simp
  from logs_Upload_foreign_record [OF y _ _ _ this] y show ?thesis
    by (auto simp: sample_upload_def ingest_database_def sample_log_def)
qed

text \<open>
  Telemetry and device information that is accepted is stored as one new record of the
  authenticated device, observed when the device says or else now, and an enrolled device
  becomes active; a device that does not show its secret, is retired or wiped, or sends
  nothing changes nothing.
\<close>

theorem telemetry_Upload_stores:
  assumes "txn w = None"
  shows "case fst (telemetry_Upload tn dev secret req w) of
      Inr y \<Rightarrow> \<exists>r x t. authentic (env w) (db w) tn dev secret r \<and> buildPayload req = Inr (info_payload x) \<and>
        t = clock_src (env w) (ticks w) \<and> y = scan_info x \<and> info_tenant x = tn \<and> info_device x = dev \<and>
        info_observed x = (if te_observed req = zero_instant then t else te_observed req) \<and> info_created x = t \<and>
        device_telemetry (db (snd (telemetry_Upload tn dev secret req w))) = device_telemetry (db w) @ [x] \<and>
        info_id x \<notin> info_id ` set (device_telemetry (db w)) \<and>
        devices (db (snd (telemetry_Upload tn dev secret req w))) = upd_where (\<lambda>s. rec_id s = dev)
          (\<lambda>s. s\<lparr>rec_status := (if rec_status r = ''enrolled'' then ''active'' else rec_status s), updated_at := t\<rparr>)
          (devices (db w))
    | Inl e \<Rightarrow> db (snd (telemetry_Upload tn dev secret req w)) = db w"
proof (cases "fst (telemetry_Upload tn dev secret req w)")
  case (Inl e)
  from post_fst_Inl [OF post_telemetry_Upload [OF assms] this] Inl show ?thesis by simp
next
  case (Inr y)
  let ?t = "clock_src (env w) (ticks w)"
  obtain r x d1 p where r: "authentic (env w) (db w) tn dev secret r" and p: "buildPayload req = Inr p"
    and spec: "info_spec device_telemetry device_telemetry_update tn (te_observed req) p
          (env w) r ?t (db w) x d1" and y: "y = scan_info x"
    and d: "db (snd (telemetry_Upload tn dev secret req w)) = seen r ?t d1"
    using post_fst_Inr [OF post_telemetry_Upload [OF assms] Inr] by blast
  have id: "rec_id r = dev" using r by (simp add: authentic_def by_id_def)
  have row: "seen_row r ?t = (\<lambda>s. s\<lparr>rec_status := (if rec_status r = ''enrolled'' then ''active'' else rec_status s),
      updated_at := ?t\<rparr>)"
    by (simp add: fun_eq_iff seen_row_def)
  show ?thesis
    unfolding Inr sum.case d
    by (intro exI [of _ r] exI [of _ x] exI [of _ ?t])
      (use spec r p y in \<open>auto simp: info_spec_def id row fresh_def\<close>)
qed

definition sample_telemetry :: telemetry_upload where
  "sample_telemetry = \<lparr>te_observed = zero_instant, te_heartbeat = Some [], te_battery = Some [(''level'', JNum ''80'')],
     te_network = None, te_location = None, te_app_state = None\<rparr>"

theorem telemetry_Upload_stores_witness:
  "\<exists>y. fst (telemetry_Upload ''t'' ''d'' ''s'' sample_telemetry (world_of ingest_database)) = Inr y \<and>
     ir_device y = ''d'' \<and> ir_observed y = 1000"
proof -
  let ?w = "world_of ingest_database"
  have "case fst (telemetry_Upload ''t'' ''d'' ''s'' sample_telemetry ?w) of Inr r \<Rightarrow> True | Inl e \<Rightarrow> False"
    by code_simp
  then obtain y where y: "fst (telemetry_Upload ''t'' ''d'' ''s'' sample_telemetry ?w) = Inr y"
    by (auto split: sum.splits)
  have "txn ?w = None" by simp
  from telemetry_Upload_stores [OF this, of "''t''" "''d''" "''s''" sample_telemetry] y show ?thesis
    by (auto simp: scan_info_def sample_telemetry_def sample_env_def)
qed

end
