(* ===== verification/Lifecycle.thy ===== *)
theory Lifecycle
  imports Enrollment Commands Ingest Policies Apps
begin

text \<open>
  The stores together: every operation that changes a table is a step of one transition
  system over the world, whatever statements fail in it. The schema of the tables is
  invariant, and along every sequence of steps devices, tokens, commands and apps only move
  along their life cycles.
\<close>

section \<open>Steps\<close>

inductive store_step :: "world \<Rightarrow> world \<Rightarrow> bool" where
  create_device: "store_step w (snd (CreateDevice tn dreq w))"
| update_device: "store_step w (snd (UpdateDevice tn i dreq w))"
| retire_device: "store_step w (snd (RetireDevice tn i w))"
| create_group: "store_step w (snd (CreateGroup tn name w))"
| update_group: "store_step w (snd (UpdateGroup tn i name w))"
| retire_group: "store_step w (snd (RetireGroup tn i w))"
| issue_token: "store_step w (snd (IssueToken tn t w))"
| validate_token: "store_step w (snd (ValidateToken tn s w))"
| consume_token: "store_step w (snd (ConsumeToken tn s w))"
| bind_device: "store_step w (snd (BindDevice tn s i extras w))"
| revoke_token: "store_step w (snd (RevokeToken tn i w))"
| expire_tokens: "store_step w (snd (ExpireTokens t w))"
| enqueue: "store_step w (snd (Enqueue tn creq w))"
| list_pending: "store_step w (snd (ListPending tn i page w))"
| expire_commands: "store_step w (snd (ExpireDueCommands tn w))"
| acknowledge: "store_step w (snd (Acknowledge tn i j areq w))"
| upload_logs: "store_step w (snd (logs_Upload tn i s lreq w))"
| upload_info: "store_step w (snd (deviceinfo_Upload tn i s ireq w))"
| upload_telemetry: "store_step w (snd (telemetry_Upload tn i s treq w))"
| create_policy: "store_step w (snd (CreatePolicy tn preq w))"
| update_policy: "store_step w (snd (UpdatePolicy tn i preq w))"
| retire_policy: "store_step w (snd (RetirePolicy tn i w))"
| add_app: "store_step w (snd (AddPolicyApp tn i j w))"
| remove_app: "store_step w (snd (RemovePolicyApp tn i j w))"
| add_certificate: "store_step w (snd (AddPolicyCertificate tn i j w))"
| remove_certificate: "store_step w (snd (RemovePolicyCertificate tn i j w))"
| add_managed_file: "store_step w (snd (AddPolicyManagedFile tn i j w))"
| remove_managed_file: "store_step w (snd (RemovePolicyManagedFile tn i j w))"
| upsert_system_app: "store_step w (snd (UpsertSystemOwnedApp tn apreq w))"
| create_app: "store_step w (snd (CreateApp tn apreq w))"
| update_app: "store_step w (snd (UpdateApp tn i apreq w))"
| retire_app: "store_step w (snd (RetireApp tn i w))"
| create_version: "store_step w (snd (CreateVersion tn i vreq w))"

inductive store_reach :: "world \<Rightarrow> world \<Rightarrow> bool" for w0 where
  start: "store_reach w0 w0"
| step: "store_reach w0 w \<Longrightarrow> store_step w w' \<Longrightarrow> store_reach w0 w'"

inductive_cases store_stepE: "store_step w w'"

section \<open>The invariant and the evolution\<close>

definition store_schema :: "database \<Rightarrow> bool" where
  "store_schema d \<longleftrightarrow> device_schema d \<and> token_schema d \<and> command_schema d"

definition evolved :: "database \<Rightarrow> database \<Rightarrow> bool" where
  "evolved d d' \<longleftrightarrow>
     rows_evolve rec_id device_step (devices d) (devices d') \<and>
     rows_evolve tok_id token_step (enrollment_tokens d) (enrollment_tokens d') \<and>
     rows_evolve cmd_id command_step (commands d) (commands d') \<and>
     rows_evolve rec_id app_step (apps d) (apps d')"

lemma evolved_refl: "evolved d d"
  by (simp add: evolved_def devices_e.evolve_refl tokens_e.evolve_refl commands_e.evolve_refl
      apps_e.evolve_refl)

lemma evolved_trans: "evolved d d' \<Longrightarrow> evolved d' d'' \<Longrightarrow> evolved d d''"
  unfolding evolved_def
  by (blast intro: devices_e.evolve_trans tokens_e.evolve_trans commands_e.evolve_trans
      apps_e.evolve_trans)

text \<open>What an operation has to do: end with no transaction open, keep the schema, evolve.\<close>

definition sound :: "'a action \<Rightarrow> bool" where
  "sound m \<longleftrightarrow> (\<forall>w. txn w = None \<longrightarrow> store_schema (db w) \<longrightarrow>
     txn (snd (m w)) = None \<and> store_schema (db (snd (m w))) \<and> evolved (db w) (db (snd (m w))))"

section \<open>Operations that leave tables alone\<close>

definition leaves :: "(database \<Rightarrow> 'v) \<Rightarrow> 'a action \<Rightarrow> bool" where
  "leaves get m \<longleftrightarrow> (\<forall>v. keeps (\<lambda>d. get d = v) m)"

lemma leavesD: "leaves get m \<Longrightarrow> txn w = None \<Longrightarrow> get (db (snd (m w))) = get (db w)"
proof -
  assume "leaves get m" "txn w = None"
  then have "holds (\<lambda>d. get d = get (db w)) (snd (m w))"
    by (intro keepsD) (simp_all add: leaves_def holds_def)
  then show ?thesis by (simp add: holds_def)
qed

named_theorems stmt_leaves \<open>statements that leave tables alone\<close>

lemma leaves_insert [stmt_leaves]:
  "(\<And>f d. get (put f d) = get d) \<Longrightarrow> stmt_keeps (\<lambda>d. get d = v) (insert_row put uniq refs mk)"
  by (auto simp: stmt_keeps_def insert_row_def insert_into_def split: if_splits)

lemma leaves_update [stmt_leaves]:
  "(\<And>f d. get (put f d) = get d) \<Longrightarrow> stmt_keeps (\<lambda>d. get d = v) (update_rows get' put chk p f)"
  by (auto simp: stmt_keeps_def update_rows_def split: option.splits if_splits)

lemma leaves_delete [stmt_leaves]:
  "(\<And>f d. get (put f d) = get d) \<Longrightarrow> stmt_keeps (\<lambda>d. get d = v) (delete_rows get' put p)"
  by (auto simp: stmt_keeps_def delete_rows_def)

definition other_than_devices :: "database \<Rightarrow> token_row list \<times> command_row list \<times> app_row list" where
  "other_than_devices d = (enrollment_tokens d, commands d, apps d)"

definition device_tables ::
  "database \<Rightarrow> string list \<times> group_row list \<times> device_row list \<times> membership list \<times> (string \<times> string) list" where
  "device_tables d = (tenants d, groups d, devices d, device_groups d, map tenant_id (policies d))"

lemma policy_ref_ok_keys:
  "map tenant_id (policies d') = map tenant_id (policies d) \<Longrightarrow> policy_ref_ok tn p d' = policy_ref_ok tn p d"
  by (simp add: policy_ref_ok_def has_key_def split: option.split)

lemma device_schema_tables:
  "device_tables d' = device_tables d \<Longrightarrow> device_schema d' = device_schema d"
proof -
  assume t: "device_tables d' = device_tables d"
  then have "policy_ref_ok tn p d' = policy_ref_ok tn p d" for tn p
    by (intro policy_ref_ok_keys) (simp add: device_tables_def)
  with t show ?thesis by (simp add: device_tables_def device_schema_def)
qed

subsection \<open>Devices and groups\<close>

lemma device_ops_leave:
  "leaves other_than_devices (CreateDevice tn req)" "leaves other_than_devices (UpdateDevice tn i req)"
  "leaves other_than_devices (RetireDevice tn i)" "leaves other_than_devices (CreateGroup tn name)"
  "leaves other_than_devices (UpdateGroup tn i name)" "leaves other_than_devices (RetireGroup tn i)"
proof -
  note defs = insert_device_def insert_membership_def update_device_def delete_memberships_def
    insert_group_def retire_by_id_def Let_def
  have simps: "other_than_devices (devices_update f1 d) = other_than_devices d"
    "other_than_devices (device_groups_update f2 d) = other_than_devices d"
    "other_than_devices (groups_update f3 d) = other_than_devices d" for f1 f2 f3 d
    by (simp_all add: other_than_devices_def)
  show "leaves other_than_devices (CreateDevice tn req)" "leaves other_than_devices (UpdateDevice tn i req)"
    "leaves other_than_devices (CreateGroup tn name)" "leaves other_than_devices (UpdateGroup tn i name)"
    "leaves other_than_devices (RetireGroup tn i)"
    unfolding leaves_def device_ops group_ops defs
    by (intro allI keeps_intros stmt_leaves simps)+
  show "leaves other_than_devices (RetireDevice tn i)"
    unfolding leaves_def RetireDevice_def
    by (intro allI keeps_intros) (auto simp: stmt_keeps_def simps)
qed

lemma idles_device_ops:
  "idles (CreateDevice tn req)" "idles (UpdateDevice tn i req)" "idles (RetireDevice tn i)"
  "idles (CreateGroup tn name)" "idles (UpdateGroup tn i name)" "idles (RetireGroup tn i)"
  unfolding device_ops group_ops retire_by_id_def Let_def by (intro keeps_intros)+

lemma sound_device_op:
  assumes "idles m" "keeps device_schema m" "evolves devices rec_id device_step m" "leaves other_than_devices m"
  shows "sound m"
  unfolding sound_def
proof (intro allI impI)
  fix w :: world assume w: "txn w = None" "store_schema (db w)"
  let ?w = "snd (m w)"
  have "device_schema (db ?w)"
    using keepsD [OF assms(2), of w] w by (simp add: holds_def store_schema_def)
  moreover have "rows_evolve rec_id device_step (devices (db w)) (devices (db ?w))"
    by (rule devices_e.evolvesD [OF assms(3) w(1)])
  moreover have "other_than_devices (db ?w) = other_than_devices (db w)"
    by (rule leavesD [OF assms(4) w(1)])
  ultimately show "txn ?w = None \<and> store_schema (db ?w) \<and> evolved (db w) (db ?w)"
    using w idlesD [OF assms(1) w(1)]
    by (simp add: other_than_devices_def store_schema_def token_schema_def command_schema_def evolved_def
        tokens_e.evolve_refl commands_e.evolve_refl apps_e.evolve_refl)
qed

lemma group_ops_evolve:
  "evolves devices rec_id device_step (CreateGroup tn name)"
  "evolves devices rec_id device_step (UpdateGroup tn i name)"
  "evolves devices rec_id device_step (RetireGroup tn i)"
proof -
  note intros = devices_e.evolvesI keeps_intros devices_e.stmt_elsewhere
  have ins: "get d' = get d" if "insert_row groups_update u r mk t d = Inr (x, d')" "\<And>f d. get (groups_update f d) = get d"
    for u r mk t d x d' and get :: "database \<Rightarrow> device_row list"
    using that by (auto simp: insert_row_def insert_into_def split: if_splits)
  have upd: "get d' = get d" if "update_rows groups groups_update c p f t d = Inr (x, d')" "\<And>f d. get (groups_update f d) = get d"
    for c p f t d x d' and get :: "database \<Rightarrow> device_row list"
    using that by (auto simp: update_rows_def split: option.splits if_splits)
  show "evolves devices rec_id device_step (CreateGroup tn name)"
    unfolding CreateGroup_def insert_group_def by (intro intros) (erule ins, simp)
  show "evolves devices rec_id device_step (UpdateGroup tn i name)"
    unfolding UpdateGroup_def by (intro intros) (erule upd, simp)
  show "evolves devices rec_id device_step (RetireGroup tn i)"
    unfolding RetireGroup_def retire_by_id_def by (intro intros) (erule upd, simp)
qed

lemmas sound_devices =
  sound_device_op [OF idles_device_ops(1) schema_device_ops(1) device_ops_evolve(1) device_ops_leave(1)]
  sound_device_op [OF idles_device_ops(2) schema_device_ops(2) device_ops_evolve(2) device_ops_leave(2)]
  sound_device_op [OF idles_device_ops(3) schema_device_ops(3) device_ops_evolve(3) device_ops_leave(3)]
  sound_device_op [OF idles_device_ops(4) schema_group_ops(1) group_ops_evolve(1) device_ops_leave(4)]
  sound_device_op [OF idles_device_ops(5) schema_group_ops(2) group_ops_evolve(2) device_ops_leave(5)]
  sound_device_op [OF idles_device_ops(6) schema_group_ops(3) group_ops_evolve(3) device_ops_leave(6)]

subsection \<open>Enrollment\<close>

text \<open>What one operation may make of the tables, as a relation on databases.\<close>

definition progress :: "database \<Rightarrow> database \<Rightarrow> bool" where
  "progress d d' \<longleftrightarrow> store_schema d' \<and> evolved d d'"

lemma progress_refl: "store_schema d \<Longrightarrow> progress d d"
  by (simp add: progress_def evolved_refl)

lemma sound_post:
  assumes "idles m"
    and "\<And>w. txn w = None \<Longrightarrow> store_schema (db w) \<Longrightarrow>
      post m w (\<lambda>_ w'. progress (db w) (db w')) (\<lambda>_ w'. progress (db w) (db w'))"
  shows "sound m"
  using assms unfolding sound_def by (simp add: post_snd idlesD progress_def)

definition store_tables where
  "store_tables d = (device_tables d, enrollment_tokens d, commands d, apps d)"

lemma progress_tables:
  assumes "store_tables d1 = store_tables d'" "progress d d'"
  shows "progress d d1"
proof -
  have "device_schema d1 = device_schema d'"
    using assms(1) by (intro device_schema_tables) (simp add: store_tables_def)
  then show ?thesis
    using assms
    by (simp add: progress_def store_schema_def token_schema_def command_schema_def evolved_def
        store_tables_def device_tables_def)
qed

lemma device_schema_at_token [simp]: "device_schema (at_token r f d) = device_schema d"
  by (rule device_schema_tables) (simp add: device_tables_def)

lemma at_token_apps [simp]: "apps (at_token r f d) = apps d"
  by (simp add: at_token_def)

lemma progress_at_token:
  assumes "store_schema d" "r \<in> set (enrollment_tokens d)" "token_step r (f r)"
    and "\<And>s. tok_id (f s) = tok_id s \<and> tok_tenant (f s) = tok_tenant s \<and> tok_hash (f s) = tok_hash s"
  shows "progress d (at_token r f d)"
proof -
  have "token_schema (at_token r f d)"
    by (rule token_schema_at_token) (use assms in \<open>auto simp: store_schema_def\<close>)
  moreover have "rows_evolve tok_id token_step (enrollment_tokens d) (enrollment_tokens (at_token r f d))"
    using assms by (simp add: tokens_evolve_at_token store_schema_def)
  ultimately show ?thesis
    using assms(1)
    by (simp add: progress_def store_schema_def command_schema_def evolved_def devices_e.evolve_refl
        commands_e.evolve_refl apps_e.evolve_refl)
qed

lemma progress_trans:
  "progress d d' \<Longrightarrow> progress d' d'' \<Longrightarrow> progress d d''"
  unfolding progress_def by (blast intro: evolved_trans)

text \<open>Rewriting device rows along their life cycle, without touching keys and references.\<close>

lemma progress_devices:
  assumes "store_schema d" "\<And>r. r \<in> set (devices d) \<Longrightarrow> p r \<Longrightarrow> rec_id (f r) = rec_id r \<and> device_step r (f r)"
    and "\<And>r. rec_id (f r) = rec_id r \<and> rec_tenant (f r) = rec_tenant r \<and> dev_policy_id (f r) = dev_policy_id r"
  shows "progress d (devices_update (upd_where p f) d)"
proof -
  have refs: "list_all (\<lambda>r. rec_tenant r \<in> set (tenants d) \<and> policy_ref_ok (rec_tenant r) (dev_policy_id r) d) (devices d)"
    using assms(1) by (simp add: store_schema_def device_schema_def)
  have "device_schema (devices_update (upd_where p f) d)"
    by (rule device_schema_update)
      (use assms(1,3) refs in \<open>auto simp: store_schema_def list_all_iff\<close>)
  moreover have "rows_evolve rec_id device_step (devices d) (upd_where p f (devices d))"
  proof -
    have "upd_where p f (devices d) = upd_where (\<lambda>r. p r \<and> r \<in> set (devices d)) f (devices d)"
      by (rule upd_where_cong) auto
    then show ?thesis using assms(2) by (auto intro: devices_e.evolve_update)
  qed
  ultimately show ?thesis
    using assms(1)
    by (simp add: progress_def store_schema_def token_schema_def command_schema_def evolved_def
        tokens_e.evolve_refl commands_e.evolve_refl apps_e.evolve_refl)
qed

lemma progress_expired_token:
  "store_schema d \<Longrightarrow> expired_token_of w h r \<Longrightarrow> db w = d \<Longrightarrow> progress d (at_token r (expire_row t) d)"
  by (rule progress_at_token) (auto simp: expired_token_of_def token_step_rows)

lemma idles_commit [keeps_intros]: "idles commit"
  by (simp add: idles_def wp)

lemma idles_token_ops:
  "idles (inspectToken tn s c)" "idles (BindDevice tn s i x)" "idles (RevokeToken tn i)"
  "idles (IssueToken tn t)" "idles (ExpireTokens t)"
  unfolding inspectToken_def BindDevice_def RevokeToken_def IssueToken_def ExpireTokens_def
  by (intro keeps_intros)+

lemma sound_inspectToken: "sound (inspectToken tn s c)"
proof (rule sound_post [OF idles_token_ops(1)])
  fix w :: world assume w: "txn w = None" "store_schema (db w)"
  then have tokens: "token_schema (db w)" by (simp add: store_schema_def)
  show "post (inspectToken tn s c) w (\<lambda>_ w'. progress (db w) (db w')) (\<lambda>_ w'. progress (db w) (db w'))"
  proof (rule post_mono [OF post_inspectToken [OF w(1) tokens]], goal_cases)
    case (1 k w')
    then obtain r where r: "live_token_of w tn (HashToken (sha256 (env w)) s) r"
      "db w' = at_token r (if c then consume_row (clock_src (env w) (ticks w)) else (\<lambda>r. r)) (db w)"
      by (auto simp: Let_def)
    then show ?case
      using w by (auto intro!: progress_at_token simp: live_token_of_def token_step_rows tokens_e.step_refl)
  next
    case (2 e w')
    then show ?case using w by (auto intro: progress_refl progress_expired_token)
  qed
qed

lemma sound_RevokeToken: "sound (RevokeToken tn i)"
proof (rule sound_post [OF idles_token_ops(3)])
  fix w :: world assume w: "txn w = None" "store_schema (db w)"
  then have tokens: "token_schema (db w)" by (simp add: store_schema_def)
  show "post (RevokeToken tn i) w (\<lambda>_ w'. progress (db w) (db w')) (\<lambda>_ w'. progress (db w) (db w'))"
    by (rule post_mono [OF post_RevokeToken [OF w(1) tokens]])
      (use w in \<open>auto simp: Let_def token_step_rows intro!: progress_refl progress_at_token\<close>)
qed

lemma sound_BindDevice: "sound (BindDevice tn s i x)"
proof (rule sound_post [OF idles_token_ops(2)])
  fix w :: world assume w: "txn w = None" "store_schema (db w)"
  then have sch: "token_schema (db w)" "device_schema (db w)" by (simp_all add: store_schema_def)
  have ids: "distinct (map rec_id (devices (db w)))" using sch(2) by (simp add: device_schema_def)
  show "post (BindDevice tn s i x) w (\<lambda>_ w'. progress (db w) (db w')) (\<lambda>_ w'. progress (db w) (db w'))"
  proof (rule post_mono [OF post_BindDevice [OF w(1) sch]], goal_cases)
    case (1 b w')
    then obtain r v raw where r: "live_token_of w tn (HashToken (sha256 (env w)) s) r"
      and v: "v \<in> set (devices (db w))" "by_id tn i v" "rec_status v = ''pending''"
      and d: "db w' = bound_state w r tn i (EncodeToString raw) x" by blast
    let ?t = "clock_src (env w) (ticks w)" and ?h = "HashToken (sha256 (env w)) (EncodeToString raw)"
    let ?d = "devices_update (upd_where (by_id tn i) (bound_row ?h x ?t)) (db w)"
    have one: "u = v" if "u \<in> set (devices (db w))" "by_id tn i u" for u
      using distinct_key_unique [OF ids that(1) v(1)] that(2) v(2) by (simp add: by_id_def)
    have step: "progress (db w) ?d"
      by (rule progress_devices [OF w(2)])
        (use v(3) in \<open>auto dest!: one simp: device_step_def bound_row_def\<close>)
    have "progress ?d (at_token r (consume_row ?t) ?d)"
      by (rule progress_at_token)
        (use step r in \<open>auto simp: progress_def live_token_of_def token_step_rows\<close>)
    from progress_trans [OF step this] show ?case by (simp add: d bound_state_def Let_def)
  next
    case (2 e w')
    then show ?case using w by (auto intro: progress_refl progress_expired_token)
  qed
qed

lemma progress_tokens:
  assumes "store_schema d" "token_schema (enrollment_tokens_update f d)"
    and "rows_evolve tok_id token_step (enrollment_tokens d) (f (enrollment_tokens d))"
  shows "progress d (enrollment_tokens_update f d)"
proof -
  have "device_schema (enrollment_tokens_update f d) = device_schema d"
    by (rule device_schema_tables) (simp add: device_tables_def)
  then show ?thesis
    using assms
    by (simp add: progress_def store_schema_def command_schema_def evolved_def devices_e.evolve_refl
        commands_e.evolve_refl apps_e.evolve_refl)
qed

lemma sound_IssueToken: "sound (IssueToken tn t)"
proof (rule sound_post [OF idles_token_ops(4)])
  fix w :: world assume w: "txn w = None" "store_schema (db w)"
  show "post (IssueToken tn t) w (\<lambda>_ w'. progress (db w) (db w')) (\<lambda>_ w'. progress (db w) (db w'))"
    by (rule post_mono [OF post_IssueToken])
      (use w in \<open>auto simp: Let_def fresh_def store_schema_def token_schema_def
         intro!: progress_refl progress_tokens tokens_e.evolve_append\<close>)
qed

lemma sound_ExpireTokens: "sound (ExpireTokens t)"
proof (rule sound_post [OF idles_token_ops(5)])
  fix w :: world assume w: "txn w = None" "store_schema (db w)"
  then have tokens: "token_schema (db w)" by (simp add: store_schema_def)
  show "post (ExpireTokens t) w (\<lambda>_ w'. progress (db w) (db w')) (\<lambda>_ w'. progress (db w) (db w'))"
    by (rule post_mono [OF post_ExpireTokens])
      (use w tokens in \<open>auto simp: Let_def token_schema_def map_upd_where token_step_rows
         intro!: progress_refl progress_tokens tokens_e.evolve_update\<close>)
qed

subsection \<open>Commands\<close>

definition other_than_commands where
  "other_than_commands d = (device_tables d, enrollment_tokens d, apps d)"

lemma other_than_commands_update [simp]:
  "other_than_commands (commands_update f d) = other_than_commands d"
  by (simp add: other_than_commands_def device_tables_def)

lemma sound_command_op:
  assumes "idles m" "keeps command_schema m" "evolves commands cmd_id command_step m" "leaves other_than_commands m"
  shows "sound m"
  unfolding sound_def
proof (intro allI impI)
  fix w :: world assume w: "txn w = None" "store_schema (db w)"
  let ?w = "snd (m w)"
  have "command_schema (db ?w)"
    using keepsD [OF assms(2), of w] w by (simp add: holds_def store_schema_def)
  moreover have "rows_evolve cmd_id command_step (commands (db w)) (commands (db ?w))"
    by (rule commands_e.evolvesD [OF assms(3) w(1)])
  moreover have same: "other_than_commands (db ?w) = other_than_commands (db w)"
    by (rule leavesD [OF assms(4) w(1)])
  moreover have "device_schema (db ?w) = device_schema (db w)"
    using same by (intro device_schema_tables) (simp add: other_than_commands_def)
  ultimately show "txn ?w = None \<and> store_schema (db ?w) \<and> evolved (db w) (db ?w)"
    using w idlesD [OF assms(1) w(1)]
    by (simp add: other_than_commands_def device_tables_def store_schema_def token_schema_def evolved_def
        tokens_e.evolve_refl devices_e.evolve_refl apps_e.evolve_refl)
qed

lemma idles_publishEnqueued [keeps_intros]: "idles (publishEnqueued cs)"
proof -
  have pub: "idles (PublishCommand i m)" for i m
    by (auto simp: idles_def post_def PublishCommand_def)
  have "idles (publish_all cs)"
  proof (induction cs)
    case (Cons c cs)
    then show ?case unfolding publish_all.simps markSent_def by (intro keeps_intros pub)
  qed (simp add: keeps_intros)
  then show ?thesis
    by (auto simp: idles_def post_def publishEnqueued_def split: prod.splits sum.splits)
qed

lemma idles_of_reads: "reads m \<Longrightarrow> idles m"
  unfolding reads_def idles_def by (auto intro: post_mono)

lemma idles_command_ops:
  "idles (Enqueue tn creq)" "idles (ListPending tn i page)" "idles (ExpireDueCommands tn)"
  "idles (Acknowledge tn i j areq)"
  unfolding Enqueue_def ListPending_def ExpireDueCommands_def Acknowledge_def expireDueCommands_def Let_def
  by (intro keeps_intros idles_of_reads)+

text \<open>Statements on the commands keep their keys.\<close>

lemma command_schema_update:
  "(\<And>c. cmd_id (f c) = cmd_id c) \<Longrightarrow> stmt_keeps command_schema (update_rows commands commands_update chk p f)"
  by (auto simp: stmt_keeps_def update_rows_def command_schema_def map_upd_where split: option.splits if_splits)

lemma command_schema_insert: "stmt_keeps command_schema (insert_command tn i dev req payload t)"
  by (auto simp: stmt_keeps_def insert_command_eq command_schema_def fresh_def Let_def split: if_splits)

lemma schema_publish_all: "keeps command_schema (publish_all cs)"
proof (induction cs)
  case (Cons c cs)
  then show ?case
    unfolding publish_all.simps markSent_def by (intro keeps_intros command_schema_update) simp_all
qed (simp add: keeps_intros)

lemma schema_command_ops:
  "keeps command_schema (Enqueue tn creq)" "keeps command_schema (ListPending tn i page)"
  "keeps command_schema (ExpireDueCommands tn)" "keeps command_schema (Acknowledge tn i j areq)"
proof -
  note intros = keeps_intros command_schema_update cmd_id_set_expired
  show "keeps command_schema (Enqueue tn creq)"
    unfolding Enqueue_def Let_def by (intro intros schema_publish_all command_schema_insert)
  show "keeps command_schema (ListPending tn i page)" "keeps command_schema (ExpireDueCommands tn)"
    unfolding ListPending_def ExpireDueCommands_def expireDueCommands_def by (intro intros)+
  show "keeps command_schema (Acknowledge tn i j areq)"
    unfolding Acknowledge_def expireDueCommand_def commandForDevice_def ack_update_def
    by (intro intros) simp
qed

lemma leaves_publish_all: "keeps (\<lambda>d. other_than_commands d = v) (publish_all cs)"
proof (induction cs)
  case (Cons c cs)
  then show ?case
    unfolding publish_all.simps markSent_def by (intro keeps_intros stmt_leaves) simp_all
qed (simp add: keeps_intros)

lemma command_ops_leave:
  "leaves other_than_commands (Enqueue tn creq)" "leaves other_than_commands (ListPending tn i page)"
  "leaves other_than_commands (ExpireDueCommands tn)" "leaves other_than_commands (Acknowledge tn i j areq)"
proof -
  note intros = allI keeps_intros stmt_leaves other_than_commands_update
  show "leaves other_than_commands (Enqueue tn creq)"
    unfolding leaves_def Enqueue_def Let_def insert_command_def by (intro intros leaves_publish_all)
  show "leaves other_than_commands (ListPending tn i page)" "leaves other_than_commands (ExpireDueCommands tn)"
    unfolding leaves_def ListPending_def ExpireDueCommands_def expireDueCommands_def by (intro intros)+
  show "leaves other_than_commands (Acknowledge tn i j areq)"
    unfolding leaves_def Acknowledge_def expireDueCommand_def commandForDevice_def ack_update_def
    by (intro intros)
qed

lemmas sound_commands =
  sound_command_op [OF idles_command_ops(1) schema_command_ops(1) command_ops_evolve(1) command_ops_leave(1)]
  sound_command_op [OF idles_command_ops(2) schema_command_ops(2) command_ops_evolve(2) command_ops_leave(2)]
  sound_command_op [OF idles_command_ops(3) schema_command_ops(3) command_ops_evolve(4) command_ops_leave(3)]
  sound_command_op [OF idles_command_ops(4) schema_command_ops(4) command_ops_evolve(5) command_ops_leave(4)]

subsection \<open>Ingestion\<close>

lemma idles_uploads:
  "idles (logs_Upload tn i s lreq)" "idles (deviceinfo_Upload tn i s ireq)" "idles (telemetry_Upload tn i s treq)"
proof -
  show "idles (logs_Upload tn i s lreq)" "idles (deviceinfo_Upload tn i s ireq)"
    unfolding logs_Upload_def deviceinfo_Upload_def by (intro keeps_intros)+
  show "idles (telemetry_Upload tn i s treq)"
    by (cases "buildPayload treq") (auto simp: telemetry_Upload_def intro!: keeps_intros)
qed

lemma progress_seen:
  assumes "store_schema d" "authentic e d tn i s r" "store_tables d1 = store_tables d"
  shows "progress d (seen r t d1)"
proof -
  have ids: "distinct (map rec_id (devices d))"
    using assms(1) by (simp add: store_schema_def device_schema_def)
  have r: "r \<in> set (devices d)" using assms(2) by (simp add: authentic_def)
  have "progress d (seen r t d)"
    unfolding seen_def
    by (rule progress_devices [OF assms(1)])
      (use distinct_key_unique [OF ids _ r] in \<open>auto simp: device_step_def seen_row_def\<close>)
  moreover have "store_tables (seen r t d1) = store_tables (seen r t d)"
    using assms(3) by (simp add: store_tables_def device_tables_def seen_def)
  ultimately show ?thesis by (rule progress_tables [rotated])
qed

lemma store_tables_ingest [simp]:
  "store_tables (device_logs_update f1 d) = store_tables d"
  "store_tables (device_info_update f2 d) = store_tables d"
  "store_tables (device_telemetry_update f2 d) = store_tables d"
  by (simp_all add: store_tables_def device_tables_def)

lemma sound_uploads:
  "sound (logs_Upload tn i s lreq)" "sound (deviceinfo_Upload tn i s ireq)" "sound (telemetry_Upload tn i s treq)"
proof -
  show "sound (logs_Upload tn i s lreq)"
    by (rule sound_post [OF idles_uploads(1)], rule post_mono [OF post_logs_Upload])
      (auto simp: logs_spec_def intro!: progress_refl progress_seen)
  show "sound (deviceinfo_Upload tn i s ireq)"
    by (rule sound_post [OF idles_uploads(2)], rule post_mono [OF post_deviceinfo_Upload])
      (auto simp: info_spec_def intro!: progress_refl progress_seen)
  show "sound (telemetry_Upload tn i s treq)"
    by (rule sound_post [OF idles_uploads(3)], rule post_mono [OF post_telemetry_Upload])
      (auto simp: info_spec_def intro!: progress_refl progress_seen)
qed

subsection \<open>Policies and bindings\<close>

lemma sound_elsewhere:
  assumes "idles m" "leaves store_tables m"
  shows "sound m"
  unfolding sound_def
proof (intro allI impI)
  fix w :: world assume w: "txn w = None" "store_schema (db w)"
  have "progress (db w) (db (snd (m w)))"
    by (rule progress_tables [OF leavesD [OF assms(2) w(1)] progress_refl [OF w(2)]])
  then show "txn (snd (m w)) = None \<and> store_schema (db (snd (m w))) \<and> evolved (db w) (db (snd (m w)))"
    using idlesD [OF assms(1) w(1)] by (simp add: progress_def)
qed

lemma store_tables_bindings [simp]:
  "store_tables (policy_apps_update f1 d) = store_tables d"
  "store_tables (policy_certificates_update f2 d) = store_tables d"
  "store_tables (policy_managed_files_update f3 d) = store_tables d"
  "store_tables (app_versions_update f4 d) = store_tables d"
  by (simp_all add: store_tables_def device_tables_def)

lemma stmt_keeps_upsert_binding:
  assumes "\<And>f d. store_tables (put f d) = store_tables d"
  shows "stmt_keeps (\<lambda>d. store_tables d = v) (upsert_binding get put refs tn pid item i t)"
  using assms
  by (auto simp: stmt_keeps_def upsert_binding_def insert_row_def insert_into_def split: if_splits)

lemma sound_add_binding:
  assumes "\<And>f d. store_tables (put f d) = store_tables d"
  shows "sound (add_binding get put items tn pid item)"
proof (rule sound_elsewhere)
  show "idles (add_binding get put items tn pid item)"
    unfolding add_binding_def by (intro keeps_intros)
  show "leaves store_tables (add_binding get put items tn pid item)"
    unfolding leaves_def add_binding_def by (intro allI keeps_intros stmt_keeps_upsert_binding assms)
qed

lemma sound_remove_binding:
  assumes "\<And>f d. store_tables (put f d) = store_tables d"
  shows "sound (remove_binding get put tn pid item)"
proof (rule sound_elsewhere)
  show "idles (remove_binding get put tn pid item)"
    unfolding remove_binding_def by (intro keeps_intros)
  show "leaves store_tables (remove_binding get put tn pid item)"
    unfolding leaves_def remove_binding_def by (intro allI keeps_intros stmt_leaves assms)
qed

lemma sound_bindings:
  "sound (AddPolicyApp tn i j)" "sound (RemovePolicyApp tn i j)"
  "sound (AddPolicyCertificate tn i j)" "sound (RemovePolicyCertificate tn i j)"
  "sound (AddPolicyManagedFile tn i j)" "sound (RemovePolicyManagedFile tn i j)"
  unfolding AddPolicyApp_def RemovePolicyApp_def AddPolicyCertificate_def RemovePolicyCertificate_def
    AddPolicyManagedFile_def RemovePolicyManagedFile_def
  by (rule sound_add_binding sound_remove_binding, simp)+

lemma store_tables_policies:
  "map tenant_id (f (policies d)) = map tenant_id (policies d) \<Longrightarrow> store_tables (policies_update f d) = store_tables d"
  by (simp add: store_tables_def device_tables_def)

lemma policies_rewritten:
  assumes "\<And>r. rec_id (f r) = rec_id r \<and> rec_tenant (f r) = rec_tenant r"
  shows "stmt_keeps (\<lambda>d. store_tables d = v) (update_rows policies policies_update chk p f)"
proof -
  have "store_tables (policies_update (upd_where p f) d) = store_tables d" for d
    by (rule store_tables_policies) (simp add: map_upd_where tenant_id_def assms)
  then show ?thesis by (auto simp: stmt_keeps_def update_rows_def split: option.splits if_splits)
qed

lemma progress_new_policy:
  assumes "store_schema d"
  shows "progress d (policies_update (\<lambda>rs. rs @ [r]) d)"
proof -
  have ref: "policy_ref_ok tn p d \<Longrightarrow> policy_ref_ok tn p (policies_update (\<lambda>rs. rs @ [r]) d)" for tn p
    by (auto simp: policy_ref_ok_def split: option.splits)
  have "device_schema (policies_update (\<lambda>rs. rs @ [r]) d)"
    using assms ref by (auto simp: store_schema_def device_schema_def list_all_iff)
  then show ?thesis
    using assms
    by (simp add: progress_def store_schema_def token_schema_def command_schema_def evolved_def
        devices_e.evolve_refl tokens_e.evolve_refl commands_e.evolve_refl apps_e.evolve_refl)
qed

lemma sound_policies:
  "sound (CreatePolicy tn req)" "sound (UpdatePolicy tn i req)" "sound (RetirePolicy tn i)"
proof -
  show "sound (CreatePolicy tn req)"
  proof (rule sound_post)
    show "idles (CreatePolicy tn req)" unfolding CreatePolicy_def by (intro keeps_intros)
    fix w :: world assume "store_schema (db w)"
    then show "post (CreatePolicy tn req) w (\<lambda>_ w'. progress (db w) (db w')) (\<lambda>_ w'. progress (db w) (db w'))"
      by (auto simp: CreatePolicy_def wp insert_policy_def insert_row_def insert_into_def
          intro: progress_refl progress_new_policy)
  qed
  show "sound (UpdatePolicy tn i req)"
  proof (rule sound_elsewhere)
    show "idles (UpdatePolicy tn i req)" unfolding UpdatePolicy_def Let_def by (intro keeps_intros)
    show "leaves store_tables (UpdatePolicy tn i req)"
      unfolding leaves_def UpdatePolicy_def Let_def update_policy_def
      by (intro allI keeps_intros policies_rewritten) simp
  qed
  show "sound (RetirePolicy tn i)"
  proof (rule sound_elsewhere)
    show "idles (RetirePolicy tn i)" unfolding RetirePolicy_def retire_by_id_def by (intro keeps_intros)
    show "leaves store_tables (RetirePolicy tn i)"
      unfolding leaves_def RetirePolicy_def retire_by_id_def
      by (intro allI keeps_intros policies_rewritten) simp
  qed
qed

subsection \<open>Apps\<close>

definition other_than_apps where
  "other_than_apps d = (device_tables d, enrollment_tokens d, commands d)"

lemma other_than_apps_update [simp]:
  "other_than_apps (apps_update f d) = other_than_apps d"
  "other_than_apps (app_versions_update g d) = other_than_apps d"
  by (simp_all add: other_than_apps_def device_tables_def)

lemma sound_app_op:
  assumes "idles m" "evolves apps rec_id app_step m" "leaves other_than_apps m"
  shows "sound m"
  unfolding sound_def
proof (intro allI impI)
  fix w :: world assume w: "txn w = None" "store_schema (db w)"
  let ?w = "snd (m w)"
  have "rows_evolve rec_id app_step (apps (db w)) (apps (db ?w))"
    by (rule apps_e.evolvesD [OF assms(2) w(1)])
  moreover have same: "other_than_apps (db ?w) = other_than_apps (db w)"
    by (rule leavesD [OF assms(3) w(1)])
  moreover have "device_schema (db ?w) = device_schema (db w)"
    using same by (intro device_schema_tables) (simp add: other_than_apps_def)
  ultimately show "txn ?w = None \<and> store_schema (db ?w) \<and> evolved (db w) (db ?w)"
    using w idlesD [OF assms(1) w(1)]
    by (simp add: other_than_apps_def device_tables_def store_schema_def token_schema_def command_schema_def
        evolved_def tokens_e.evolve_refl devices_e.evolve_refl commands_e.evolve_refl)
qed

lemma sound_apps:
  "sound (UpsertSystemOwnedApp tn up)" "sound (CreateApp tn up)" "sound (UpdateApp tn i up)"
  "sound (RetireApp tn i)" "sound (CreateVersion tn i ver)"
proof -
  have idle: "idles (conflict_of_unique m)" if "idles m" for m :: "'z action"
    unfolding conflict_of_unique_def by (intro keeps_intros that)
  note idle_intros = keeps_intros idle idles_of_reads
  note leave_intros = allI keeps_intros stmt_leaves other_than_apps_update
  note ops = UpsertSystemOwnedApp_def CreateApp_def UpdateApp_def RetireApp_def insert_app_def update_app_def
  show "sound (UpsertSystemOwnedApp tn up)"
    by (rule sound_app_op [OF _ app_ops_evolve(1)]; unfold leaves_def ops; intro idle_intros leave_intros)
  show "sound (CreateApp tn up)"
    by (rule sound_app_op [OF _ app_ops_evolve(2)]; unfold leaves_def ops; intro idle_intros leave_intros)
  show "sound (UpdateApp tn i up)"
    by (rule sound_app_op [OF _ app_ops_evolve(3)]; unfold leaves_def ops; intro idle_intros leave_intros)
  show "sound (RetireApp tn i)"
    by (rule sound_app_op [OF _ app_ops_evolve(4)]; unfold leaves_def ops; intro idle_intros leave_intros)
  have check: "keeps P (check_artifact tn ver)" for P
    unfolding check_artifact_def by (cases "vu_artifact ver") (auto intro!: keeps_intros)
  show "sound (CreateVersion tn i ver)"
    by (rule sound_app_op [OF _ app_ops_evolve(5)]; unfold leaves_def CreateVersion_def insert_version_def;
      intro idle_intros leave_intros check)
qed

section \<open>Every step is sound\<close>

lemma store_step_sound:
  assumes "store_step w w'" "txn w = None" "store_schema (db w)"
  shows "txn w' = None \<and> store_schema (db w') \<and> evolved (db w) (db w')"
proof -
  have run: "txn (snd (m w)) = None \<and> store_schema (db (snd (m w))) \<and> evolved (db w) (db (snd (m w)))"
    if "sound m" for m :: "'z action"
    using that assms(2,3) by (simp add: sound_def)
  note all = sound_devices sound_inspectToken sound_RevokeToken sound_BindDevice sound_IssueToken
    sound_ExpireTokens sound_commands sound_uploads sound_policies sound_bindings sound_apps
  from assms(1) show ?thesis
    by cases (simp_all only: ValidateToken_def ConsumeToken_def all run)
qed

text \<open>The invariant of the reachable worlds.\<close>

lemma reach_sound:
  assumes "store_reach w0 w" "txn w0 = None" "store_schema (db w0)"
  shows "txn w = None \<and> store_schema (db w) \<and> evolved (db w0) (db w)"
  using assms(1)
proof (induction rule: store_reach.induct)
  case start
  then show ?case using assms(2,3) by (simp add: evolved_refl)
next
  case (step w w')
  then have "txn w' = None \<and> store_schema (db w') \<and> evolved (db w) (db w')"
    by (intro store_step_sound) simp_all
  with step.IH show ?case by (blast intro: evolved_trans)
qed

text \<open>The row of a key, later.\<close>

lemma rows_evolveD:
  assumes "rows_evolve key stp rs rs'" "distinct (map key rs')" "r \<in> set rs" "s \<in> set rs'" "key s = key r"
  shows "stp r s"
proof -
  obtain r' where "r' \<in> set rs'" "key r' = key r" "stp r r'"
    using assms(1,3) by (auto simp: rows_evolve_def)
  moreover have "r' = s" using assms calculation by (auto dest: distinct_key_unique)
  ultimately show ?thesis by simp
qed

end
