(* ===== verification/Files.thy ===== *)
theory Files
  imports Apps
begin

text \<open>
  Uploaded artifacts and what refers to them: \<open>files/model.go\<close>, \<open>files/postgres/store.go\<close>,
  \<open>certificates/model.go\<close>, \<open>certificates/postgres/store.go\<close> and \<open>artifactcleanup/cleanup.go\<close> with
  the \<open>Delete\<close> of \<open>artifacts/s3/store.go\<close>. A file and a certificate each refer to an artifact, which
  is created with them or reused when its storage key is known; the two stores repeat the same
  code, and the locale \<open>asset_store\<close> states once what both guarantee. The cleanup pass removes
  the artifacts nothing refers to, from the object store and from the table.
\<close>

section \<open>Data\<close>

text \<open>\<open>files.RecordBase\<close> has no creation time, so \<open>Artifact\<close> and \<open>File\<close> do not show one.\<close>

record file_base =
  fb_id :: string
  fb_tenant :: string
  fb_status :: string
  fb_updated :: int
  fb_deleted :: "int option"

record artifact = file_base +
  a_storage_key :: string
  a_checksum :: string
  a_size :: int
  a_mime :: string

record file_view = file_base +
  fv_name :: string
  fv_artifact_id :: string
  fv_checksum :: string
  fv_mime :: string
  fv_artifact :: "artifact option"

text \<open>\<open>FileUpsert\<close>; \<open>CertificateUpsert\<close> has the same fields.\<close>

record asset_upsert =
  su_name :: string
  su_storage_key :: string
  su_checksum :: string
  su_size :: int
  su_mime :: string

record certificate_view =
  cv_row :: cert_row
  cv_artifact :: "artifact option"

record cert_stats =
  cs_total :: int
  cs_active :: int

definition scanArtifact :: "artifact_row \<Rightarrow> artifact" where
  "scanArtifact a = \<lparr>fb_id = rec_id a, fb_tenant = rec_tenant a, fb_status = rec_status a,
     fb_updated = updated_at a, fb_deleted = deleted_at a, a_storage_key = art_storage_key a,
     a_checksum = art_checksum a, a_size = art_size a, a_mime = art_mime a\<rparr>"

definition scanFile :: "file_row \<Rightarrow> file_view" where
  "scanFile f = \<lparr>fb_id = rec_id f, fb_tenant = rec_tenant f, fb_status = rec_status f,
     fb_updated = updated_at f, fb_deleted = deleted_at f, fv_name = file_name f,
     fv_artifact_id = file_artifact_id f, fv_checksum = file_checksum f, fv_mime = file_mime f,
     fv_artifact = None\<rparr>"

definition scanFileWithArtifact :: "file_row \<Rightarrow> artifact_row \<Rightarrow> file_view" where
  "scanFileWithArtifact f a = (scanFile f)\<lparr>fv_artifact := Some (scanArtifact a)\<rparr>"

definition scanCertificate :: "cert_row \<Rightarrow> certificate_view" where
  "scanCertificate c = \<lparr>cv_row = c, cv_artifact = None\<rparr>"

definition scanCertificateWithArtifact :: "cert_row \<Rightarrow> artifact_row \<Rightarrow> certificate_view" where
  "scanCertificateWithArtifact c a = \<lparr>cv_row = c, cv_artifact = Some (scanArtifact a)\<rparr>"

section \<open>Artifacts\<close>

definition storage_key :: "artifact_row \<Rightarrow> string \<times> string" where
  "storage_key a = (rec_tenant a, art_storage_key a)"

definition invalid_asset :: "asset_upsert \<Rightarrow> bool" where
  "invalid_asset req \<longleftrightarrow> su_name req = [] \<or> su_storage_key req = [] \<or> su_checksum req = [] \<or>
     su_mime req = [] \<or> su_size req < 0"

definition insert_artifact :: "string \<Rightarrow> asset_upsert \<Rightarrow> string \<Rightarrow> int \<Rightarrow> artifact_row list stmt" where
  "insert_artifact tn req i t = insert_row artifacts_update
     (\<lambda>d. fresh rec_id i (artifacts d) \<and> fresh storage_key (tn, su_storage_key req) (artifacts d))
     (\<lambda>d. tn \<in> set (tenants d))
     (\<lambda>pgnow. \<lparr>rec_id = i, rec_tenant = tn, rec_status = ''active'', created_at = pgnow,
        updated_at = t, deleted_at = None, art_storage_key = su_storage_key req,
        art_checksum = su_checksum req, art_size = su_size req, art_mime = su_mime req\<rparr>)"

text \<open>
  The artifact of a storage key: the stored one if it agrees with the request (whatever its
  status), a conflict if it does not, a new one if there is none.
\<close>

definition ensureArtifact :: "string \<Rightarrow> asset_upsert \<Rightarrow> artifact action" where
  "ensureArtifact tn req =
     elseE (query_row (\<lambda>d. filter (\<lambda>a. storage_key a = (tn, su_storage_key req)) (artifacts d)))
       (\<lambda>e. if e \<noteq> ErrNoRows then throwE e
          else bindE NewString (\<lambda>i. bindE now (\<lambda>t.
            bindE (conflict_of_unique (exec_row (insert_artifact tn req i t))) (\<lambda>a.
            returnE (scanArtifact a)))))
       (\<lambda>a. if art_checksum a \<noteq> su_checksum req \<or> art_size a \<noteq> su_size req \<or> art_mime a \<noteq> su_mime req
          then throwE ErrConflict
          else returnE (scanArtifact a))"

definition loadArtifactByID :: "string \<Rightarrow> string \<Rightarrow> artifact action" where
  "loadArtifactByID tn i =
     bindE (query_row (\<lambda>d. filter (by_id tn i) (artifacts d))) (\<lambda>a. returnE (scanArtifact a))"

text \<open>The rows of \<open>JOIN artifacts a ON a.tenant_id = ... AND a.id = ...\<close>.\<close>

definition artifacts_of :: "string \<Rightarrow> string \<Rightarrow> database \<Rightarrow> artifact_row list" where
  "artifacts_of tn i d = filter (by_id tn i) (artifacts d)"

definition referenced :: "database \<Rightarrow> artifact_row \<Rightarrow> bool" where
  "referenced d a \<longleftrightarrow>
     list_ex (\<lambda>f. rec_tenant f = rec_tenant a \<and> file_artifact_id f = rec_id a) (files d) \<or>
     list_ex (\<lambda>c. rec_tenant c = rec_tenant a \<and> cert_artifact_id c = rec_id a) (certificates d)"

definition orphan :: "string \<Rightarrow> database \<Rightarrow> artifact_row \<Rightarrow> bool" where
  "orphan tn d a \<longleftrightarrow> rec_tenant a = tn \<and> \<not> referenced d a \<and>
     \<not> list_ex (\<lambda>v. ver_tenant v = rec_tenant a \<and> ver_artifact v = Some (rec_id a)) (app_versions d)"

text \<open>\<open>ORDER BY created_at\<close>; rows created at the same instant are in table order.\<close>

definition ListOrphanArtifacts :: "string \<Rightarrow> artifact list action" where
  "ListOrphanArtifacts tn =
     query (\<lambda>d. map scanArtifact (sort_key created_at (filter (orphan tn d) (artifacts d))))"

definition RetireArtifact :: "string \<Rightarrow> string \<Rightarrow> artifact action" where
  "RetireArtifact tn i = bindE now (\<lambda>t.
     bindE (exec_row (update_rows artifacts artifacts_update no_check (by_id tn i) (retire_row t))) (\<lambda>a.
     returnE (scanArtifact a)))"

text \<open>
  \<open>DELETE\<close>: the foreign keys of \<open>files\<close> and \<open>certificates\<close> refuse it for an artifact in use;
  \<open>app_versions\<close> has none.
\<close>

definition delete_artifact :: "string \<Rightarrow> string \<Rightarrow> int stmt" where
  "delete_artifact tn i = (\<lambda>t d.
     if list_ex (\<lambda>a. by_id tn i a \<and> referenced d a) (artifacts d) then Inl PgForeignKey
     else delete_rows artifacts artifacts_update (by_id tn i) t d)"

definition DeleteArtifact :: "string \<Rightarrow> string \<Rightarrow> unit action" where
  "DeleteArtifact tn i = bindE (exec (delete_artifact tn i)) (\<lambda>_. returnE ())"

lemma scanArtifact_simps [simp]:
  "fb_id (scanArtifact a) = rec_id a" "fb_tenant (scanArtifact a) = rec_tenant a"
  "fb_status (scanArtifact a) = rec_status a" "a_storage_key (scanArtifact a) = art_storage_key a"
  by (simp_all add: scanArtifact_def)

section \<open>Files\<close>

definition file_key :: "file_row \<Rightarrow> string \<times> string" where
  "file_key f = (rec_tenant f, file_name f)"

definition insert_file :: "string \<Rightarrow> asset_upsert \<Rightarrow> string \<Rightarrow> string \<Rightarrow> int \<Rightarrow> file_row list stmt" where
  "insert_file tn req artifactID i t = insert_row files_update
     (\<lambda>d. fresh rec_id i (files d) \<and> fresh file_key (tn, su_name req) (files d))
     (\<lambda>d. tn \<in> set (tenants d) \<and> has_key tenant_id (tn, artifactID) (artifacts d))
     (\<lambda>pgnow. \<lparr>rec_id = i, rec_tenant = tn, rec_status = ''active'', created_at = pgnow,
        updated_at = t, deleted_at = None, file_name = su_name req, file_artifact_id = artifactID,
        file_checksum = su_checksum req, file_mime = su_mime req\<rparr>)"

definition CreateFile :: "string \<Rightarrow> asset_upsert \<Rightarrow> file_view action" where
  "CreateFile tn req =
     (if invalid_asset req then throwE ErrInvalidInput
      else with_tx (
        bindE (ensureArtifact tn req) (\<lambda>artifact.
        bindE NewString (\<lambda>i. bindE now (\<lambda>t.
        bindE (conflict_of_unique (exec_row (insert_file tn req (fb_id artifact) i t))) (\<lambda>f.
        bindE commit (\<lambda>_. returnE ((scanFile f)\<lparr>fv_artifact := Some artifact\<rparr>))))))))"

definition file_join :: "database \<Rightarrow> file_row \<Rightarrow> file_view list" where
  "file_join d f = map (scanFileWithArtifact f) (artifacts_of (rec_tenant f) (file_artifact_id f) d)"

definition ListFiles :: "string \<Rightarrow> page_params \<Rightarrow> file_view list action" where
  "ListFiles tn page =
     query (\<lambda>d. paged page (concat (map (file_join d) (oldest_first (filter (in_tenant tn) (files d))))))"

definition GetFile :: "string \<Rightarrow> string \<Rightarrow> file_view action" where
  "GetFile tn i = no_rows_as ErrNotFound
     (query_row (\<lambda>d. concat (map (file_join d) (filter (by_id tn i) (files d)))))"

text \<open>The artifact of a retired file is looked up afterwards; a failure of that is ignored.\<close>

definition RetireFile :: "string \<Rightarrow> string \<Rightarrow> file_view action" where
  "RetireFile tn i =
     bindE (retire_by_id files files_update tn i) (\<lambda>f.
     elseE (loadArtifactByID tn (file_artifact_id f))
       (\<lambda>_. returnE (scanFile f))
       (\<lambda>a. returnE ((scanFile f)\<lparr>fv_artifact := Some a\<rparr>)))"

section \<open>Certificates\<close>

definition cert_key :: "cert_row \<Rightarrow> string \<times> string" where
  "cert_key c = (rec_tenant c, cert_name c)"

definition insert_certificate ::
  "string \<Rightarrow> asset_upsert \<Rightarrow> string \<Rightarrow> string \<Rightarrow> int \<Rightarrow> cert_row list stmt" where
  "insert_certificate tn req artifactID i t = insert_row certificates_update
     (\<lambda>d. fresh rec_id i (certificates d) \<and> fresh cert_key (tn, su_name req) (certificates d))
     (\<lambda>d. tn \<in> set (tenants d) \<and> has_key tenant_id (tn, artifactID) (artifacts d))
     (\<lambda>pgnow. \<lparr>rec_id = i, rec_tenant = tn, rec_status = ''active'', created_at = pgnow,
        updated_at = t, deleted_at = None, cert_name = su_name req, cert_artifact_id = artifactID,
        cert_checksum = su_checksum req\<rparr>)"

text \<open>The certificate store has its own copies of the two artifact functions, word for word.\<close>

definition certificates_ensureArtifact :: "string \<Rightarrow> asset_upsert \<Rightarrow> artifact action" where
  "certificates_ensureArtifact tn req = ensureArtifact tn req"

definition certificates_loadArtifactByID :: "string \<Rightarrow> string \<Rightarrow> artifact action" where
  "certificates_loadArtifactByID tn i = loadArtifactByID tn i"

definition CreateCertificate :: "string \<Rightarrow> asset_upsert \<Rightarrow> certificate_view action" where
  "CreateCertificate tn req =
     (if invalid_asset req then throwE ErrInvalidInput
      else with_tx (
        bindE (certificates_ensureArtifact tn req) (\<lambda>artifact.
        bindE NewString (\<lambda>i. bindE now (\<lambda>t.
        bindE (conflict_of_unique (exec_row (insert_certificate tn req (fb_id artifact) i t))) (\<lambda>c.
        bindE commit (\<lambda>_. returnE ((scanCertificate c)\<lparr>cv_artifact := Some artifact\<rparr>))))))))"

definition cert_join :: "database \<Rightarrow> cert_row \<Rightarrow> certificate_view list" where
  "cert_join d c = map (scanCertificateWithArtifact c) (artifacts_of (rec_tenant c) (cert_artifact_id c) d)"

definition ListCertificates :: "string \<Rightarrow> page_params \<Rightarrow> certificate_view list action" where
  "ListCertificates tn page = query (\<lambda>d. paged page
     (concat (map (cert_join d) (newest_first (filter (in_tenant tn) (certificates d))))))"

definition ListActiveCertificates :: "string \<Rightarrow> page_params \<Rightarrow> certificate_view list action" where
  "ListActiveCertificates tn page = query (\<lambda>d. paged page
     (concat (map (cert_join d)
       (newest_first (filter (\<lambda>c. in_tenant tn c \<and> rec_status c = ''active'') (certificates d))))))"

definition certificates_GetOverviewStats :: "string \<Rightarrow> cert_stats action" where
  "certificates_GetOverviewStats tn = query (\<lambda>d. let cs = filter (in_tenant tn) (certificates d) in
     \<lparr>cs_total = int (length cs), cs_active = int (length (filter (\<lambda>c. rec_status c = ''active'') cs))\<rparr>)"

definition GetCertificate :: "string \<Rightarrow> string \<Rightarrow> certificate_view action" where
  "GetCertificate tn i = no_rows_as ErrNotFound
     (query_row (\<lambda>d. concat (map (cert_join d) (filter (by_id tn i) (certificates d)))))"

definition RetireCertificate :: "string \<Rightarrow> string \<Rightarrow> certificate_view action" where
  "RetireCertificate tn i =
     bindE (retire_by_id certificates certificates_update tn i) (\<lambda>c.
     elseE (certificates_loadArtifactByID tn (cert_artifact_id c))
       (\<lambda>_. returnE (scanCertificate c))
       (\<lambda>a. returnE ((scanCertificate c)\<lparr>cv_artifact := Some a\<rparr>)))"

section \<open>What a store of assets guarantees\<close>

text \<open>
  Creating a file and creating a certificate are the same transaction around a different
  insert. \<open>stored_artifact\<close> is the state after \<open>ensureArtifact\<close>: the artifact \<open>a\<close> agrees with the
  request and is either one of the stored ones or a new one under an unused storage key.
\<close>

definition agrees :: "string \<Rightarrow> asset_upsert \<Rightarrow> artifact_row \<Rightarrow> bool" where
  "agrees tn req a \<longleftrightarrow> storage_key a = (tn, su_storage_key req) \<and> art_checksum a = su_checksum req \<and>
     art_size a = su_size req \<and> art_mime a = su_mime req"

definition stored_artifact :: "string \<Rightarrow> asset_upsert \<Rightarrow> artifact_row \<Rightarrow> database \<Rightarrow> database \<Rightarrow> bool" where
  "stored_artifact tn req a d d' \<longleftrightarrow> agrees tn req a \<and>
     (a \<in> set (artifacts d) \<and> d' = d \<or>
      fresh rec_id (rec_id a) (artifacts d) \<and> fresh storage_key (storage_key a) (artifacts d) \<and>
      tn \<in> set (tenants d) \<and> rec_status a = ''active'' \<and> deleted_at a = None \<and>
      d' = artifacts_update (\<lambda>as. as @ [a]) d)"

lemma post_ensureArtifact:
  "post (ensureArtifact tn req) w
     (\<lambda>x w'. \<exists>a. x = scanArtifact a \<and> stored_artifact tn req a (db w) (db w') \<and> txn w' = txn w)
     (\<lambda>_ w'. db w' = db w \<and> txn w' = txn w)"
proof -
  have mem: "a \<in> set (artifacts d) \<and> storage_key a = k" if "filter (\<lambda>a. storage_key a = k) (artifacts d) = a # as"
    for a as k d
    using filter_single_mem [OF that] .
  show ?thesis
    unfolding ensureArtifact_def
    by (auto simp: wp insert_artifact_def insert_row_def insert_into_def stored_artifact_def agrees_def
        storage_key_def [of "\<lparr>rec_id = _, rec_tenant = _, rec_status = _, created_at = _, updated_at = _,
          deleted_at = _, art_storage_key = _, art_checksum = _, art_size = _, art_mime = _\<rparr>"]
        dest!: mem split: list.splits)
qed

locale asset_store = base_table get put
  for get :: "database \<Rightarrow> 'a record_base_scheme list"
    and put :: "('a record_base_scheme list \<Rightarrow> 'a record_base_scheme list) \<Rightarrow> database \<Rightarrow> database" +
  fixes ins :: "string \<Rightarrow> asset_upsert \<Rightarrow> string \<Rightarrow> string \<Rightarrow> int \<Rightarrow> 'a record_base_scheme list stmt"
    and describes :: "string \<Rightarrow> asset_upsert \<Rightarrow> string \<Rightarrow> 'a record_base_scheme \<Rightarrow> bool"
    and name_key :: "'a record_base_scheme \<Rightarrow> string \<times> string"
  assumes ins_Inr: "ins tn req aid i t pg d = Inr (rs, d') \<Longrightarrow>
      \<exists>r. rs = [r] \<and> d' = put (\<lambda>rs. rs @ [r]) d \<and> describes tn req aid r \<and> rec_tenant r = tn \<and>
        rec_status r = ''active'' \<and> deleted_at r = None \<and> name_key r = (tn, su_name req) \<and>
        fresh rec_id (rec_id r) (get d) \<and> fresh name_key (tn, su_name req) (get d) \<and>
        tn \<in> set (tenants d) \<and> has_key tenant_id (tn, aid) (artifacts d)"
    and get_artifacts: "get (artifacts_update f d) = get d"
begin

text \<open>The rows after a successful creation: the new row, and its artifact if that was new.\<close>

definition created where
  "created tn req r a d d' \<longleftrightarrow> describes tn req (rec_id a) r \<and> rec_tenant r = tn \<and>
     rec_status r = ''active'' \<and> deleted_at r = None \<and>
     name_key r = (tn, su_name req) \<and> fresh rec_id (rec_id r) (get d) \<and>
     fresh name_key (tn, su_name req) (get d) \<and> tn \<in> set (tenants d) \<and>
     (\<exists>d1. stored_artifact tn req a d d1 \<and> has_key tenant_id (tn, rec_id a) (artifacts d1) \<and>
       d' = put (\<lambda>rs. rs @ [r]) d1)"

lemma post_create:
  assumes "txn w = None"
  shows "post (with_tx (
        bindE (ensureArtifact tn req) (\<lambda>artifact.
        bindE NewString (\<lambda>i. bindE now (\<lambda>t.
        bindE (conflict_of_unique (exec_row (ins tn req (fb_id artifact) i t))) (\<lambda>r.
        bindE commit (\<lambda>_. returnE (view r artifact))))))) ) w
     (\<lambda>v w'. txn w' = None \<and> (\<exists>r a. v = view r (scanArtifact a) \<and> created tn req r a (db w) (db w')))
     (\<lambda>_ w'. txn w' = None \<and> db w' = db w)"
proof -
  let ?w = "tick_stmt w\<lparr>txn := Some (db w, pg_clock (env w) (stmts w))\<rparr>"
  show ?thesis
    unfolding post_with_tx post_bindE
  proof (simp add: assms, intro impI, rule post_mono [OF post_ensureArtifact], goal_cases)
    case (1 x w')
    then obtain a where x: "x = scanArtifact a" and a: "stored_artifact tn req a (db w) (db w')"
      and t: "txn w' = Some (db w, pg_clock (env w) (stmts w))" by auto
    have same: "get (db w') = get (db w)" "tenants (db w') = tenants (db w)"
      using a by (auto simp: stored_artifact_def get_artifacts)
    have made: "\<exists>s b. view r x = view s (scanArtifact b) \<and> created tn req s b (db w) d'"
      if "ins tn req (fb_id x) i u pg (db w') = Inr (r # rs, d')" for i u pg r rs d'
      by (rule exI [of _ r], rule exI [of _ a])
        (use ins_Inr [OF that] a same in \<open>auto simp: x created_def\<close>)
    show ?case
      using t by (auto simp: wp db_rollback made split: sum.splits list.splits)
  next
    case (2 e w')
    then show ?case by (simp add: db_rollback)
  qed
qed

end

definition file_describes :: "string \<Rightarrow> asset_upsert \<Rightarrow> string \<Rightarrow> file_row \<Rightarrow> bool" where
  "file_describes tn req aid f \<longleftrightarrow>
     file_artifact_id f = aid \<and> file_checksum f = su_checksum req \<and> file_mime f = su_mime req"

definition cert_describes :: "string \<Rightarrow> asset_upsert \<Rightarrow> string \<Rightarrow> cert_row \<Rightarrow> bool" where
  "cert_describes tn req aid c \<longleftrightarrow> cert_artifact_id c = aid \<and> cert_checksum c = su_checksum req"

interpretation file_assets: asset_store files files_update insert_file file_describes file_key
  by unfold_locales
    (auto simp: insert_file_def insert_row_def insert_into_def file_describes_def file_key_def split: if_splits)

interpretation cert_assets: asset_store certificates certificates_update insert_certificate cert_describes cert_key
  by unfold_locales
    (auto simp: insert_certificate_def insert_row_def insert_into_def cert_describes_def cert_key_def split: if_splits)

lemma post_CreateFile:
  assumes "txn w = None"
  shows "post (CreateFile tn req) w
     (\<lambda>v w'. txn w' = None \<and> \<not> invalid_asset req \<and>
        (\<exists>f a. v = scanFileWithArtifact f a \<and> file_assets.created tn req f a (db w) (db w')))
     (\<lambda>_ w'. txn w' = None \<and> db w' = db w)"
proof (cases "invalid_asset req")
  case False
  show ?thesis
    unfolding CreateFile_def if_not_P [OF False]
    by (rule post_mono [OF file_assets.post_create [OF assms]]) (auto simp: False scanFileWithArtifact_def)
qed (simp add: CreateFile_def wp assms)

lemma post_CreateCertificate:
  assumes "txn w = None"
  shows "post (CreateCertificate tn req) w
     (\<lambda>v w'. txn w' = None \<and> \<not> invalid_asset req \<and>
        (\<exists>c a. v = scanCertificateWithArtifact c a \<and> cert_assets.created tn req c a (db w) (db w')))
     (\<lambda>_ w'. txn w' = None \<and> db w' = db w)"
proof (cases "invalid_asset req")
  case False
  show ?thesis
    unfolding CreateCertificate_def if_not_P [OF False] certificates_ensureArtifact_def
    by (rule post_mono [OF cert_assets.post_create [OF assms]])
      (auto simp: False scanCertificateWithArtifact_def scanCertificate_def)
qed (simp add: CreateCertificate_def wp assms)

section \<open>Well-formed rows\<close>

text \<open>
  Every row of the four tables is of the form the code relies on: identifiers and names are
  unique, the status is active or retired (and a retired row has a deletion time), a file and a
  certificate name an artifact of their tenant and repeat its checksum, and a managed file names
  a file of its tenant under a trimmed path.
\<close>

definition artifact_ok :: "artifact_row \<Rightarrow> bool" where
  "artifact_ok a \<longleftrightarrow> life_ok a \<and> art_storage_key a \<noteq> [] \<and> art_checksum a \<noteq> [] \<and> art_mime a \<noteq> [] \<and> 0 \<le> art_size a"

definition file_ok :: "artifact_row list \<Rightarrow> file_row \<Rightarrow> bool" where
  "file_ok as f \<longleftrightarrow> life_ok f \<and> file_name f \<noteq> [] \<and>
     list_ex (\<lambda>a. by_id (rec_tenant f) (file_artifact_id f) a \<and> art_checksum a = file_checksum f \<and>
       art_mime a = file_mime f) as"

definition cert_ok :: "artifact_row list \<Rightarrow> cert_row \<Rightarrow> bool" where
  "cert_ok as c \<longleftrightarrow> life_ok c \<and> cert_name c \<noteq> [] \<and>
     list_ex (\<lambda>a. by_id (rec_tenant c) (cert_artifact_id c) a \<and> art_checksum a = cert_checksum c) as"

definition managed_ok :: "file_row list \<Rightarrow> mfile_row \<Rightarrow> bool" where
  "managed_ok fs m \<longleftrightarrow> life_ok m \<and> mf_path m \<noteq> [] \<and> TrimSpace (mf_path m) = mf_path m \<and>
     has_key tenant_id (rec_tenant m, mf_file_id m) fs"

definition path_key :: "mfile_row \<Rightarrow> string \<times> string" where
  "path_key m = (rec_tenant m, mf_path m)"

definition asset_schema :: "database \<Rightarrow> bool" where
  "asset_schema d \<longleftrightarrow>
     distinct (map rec_id (artifacts d)) \<and> distinct (map storage_key (artifacts d)) \<and>
     distinct (map rec_id (files d)) \<and> distinct (map file_key (files d)) \<and>
     distinct (map rec_id (certificates d)) \<and> distinct (map cert_key (certificates d)) \<and>
     distinct (map rec_id (managed_files d)) \<and> distinct (map path_key (managed_files d)) \<and>
     list_all artifact_ok (artifacts d) \<and> list_all (file_ok (artifacts d)) (files d) \<and>
     list_all (cert_ok (artifacts d)) (certificates d) \<and> list_all (managed_ok (files d)) (managed_files d)"

definition asset_tables where
  "asset_tables d = (artifacts d, files d, certificates d, managed_files d)"

lemma asset_schema_tables: "asset_tables d' = asset_tables d \<Longrightarrow> asset_schema d' = asset_schema d"
  by (simp add: asset_tables_def asset_schema_def)

lemma asset_row_simps [simp]:
  "art_storage_key (retire_row t a) = art_storage_key a" "art_checksum (retire_row t a) = art_checksum a"
  "art_size (retire_row t a) = art_size a" "art_mime (retire_row t a) = art_mime a"
  "file_name (retire_row t f) = file_name f" "file_artifact_id (retire_row t f) = file_artifact_id f"
  "file_checksum (retire_row t f) = file_checksum f" "file_mime (retire_row t f) = file_mime f"
  "cert_name (retire_row t c) = cert_name c" "cert_artifact_id (retire_row t c) = cert_artifact_id c"
  "cert_checksum (retire_row t c) = cert_checksum c" "mf_file_id (retire_row t m) = mf_file_id m"
  "mf_path (retire_row t m) = mf_path m" "mf_replace (retire_row t m) = mf_replace m"
  by (simp_all add: retire_row_def)

text \<open>Lists of artifacts and of files as the referring rows see them.\<close>

lemma file_ok_append: "file_ok as f \<Longrightarrow> file_ok (as @ bs) f"
  by (simp add: file_ok_def)

lemma cert_ok_append: "cert_ok as c \<Longrightarrow> cert_ok (as @ bs) c"
  by (simp add: cert_ok_def)

lemma list_ex_upd_where: "(\<And>r. P (f r) = P r) \<Longrightarrow> list_ex P (upd_where p f rs) = list_ex P rs"
  by (induction rs) (simp_all add: upd_where_def)

lemma file_ok_retire: "file_ok (upd_where (by_id tn i) (retire_row t) as) f \<longleftrightarrow> file_ok as f"
  by (simp add: file_ok_def list_ex_upd_where)

lemma cert_ok_retire: "cert_ok (upd_where (by_id tn i) (retire_row t) as) c \<longleftrightarrow> cert_ok as c"
  by (simp add: cert_ok_def list_ex_upd_where)

lemma managed_ok_retire: "managed_ok (upd_where (by_id tn i) (retire_row t) fs) m \<longleftrightarrow> managed_ok fs m"
  by (simp add: managed_ok_def has_key_def map_upd_where tenant_id_def)

lemma managed_ok_append: "managed_ok fs m \<Longrightarrow> managed_ok (fs @ gs) m"
  by (simp add: managed_ok_def has_key_def)

text \<open>Deleting an artifact nothing refers to.\<close>

lemma list_ex_filter: "(\<And>r. r \<in> set rs \<Longrightarrow> P r \<Longrightarrow> q r) \<Longrightarrow> list_ex P (filter q rs) = list_ex P rs"
  by (auto simp: list_ex_iff)

lemma delete_artifact_schema:
  assumes "asset_schema d" "delete_artifact tn i t d = Inr (n, d')"
  shows "asset_schema d'"
proof -
  let ?as = "filter (\<lambda>a. \<not> by_id tn i a) (artifacts d)"
  have d': "d' = artifacts_update (filter (\<lambda>a. \<not> by_id tn i a)) d"
    and free: "\<not> list_ex (\<lambda>a. by_id tn i a \<and> referenced d a) (artifacts d)"
    using assms(2) by (auto simp: delete_artifact_def delete_rows_def split: if_splits)
  have "file_ok ?as f" if "f \<in> set (files d)" "file_ok (artifacts d) f" for f
    using that free unfolding file_ok_def
    by (subst list_ex_filter) (auto simp: list_ex_iff referenced_def by_id_def)
  moreover have "cert_ok ?as c" if "c \<in> set (certificates d)" "cert_ok (artifacts d) c" for c
    using that free unfolding cert_ok_def
    by (subst list_ex_filter) (auto simp: list_ex_iff referenced_def by_id_def)
  ultimately show ?thesis
    using assms(1) by (simp add: asset_schema_def d' distinct_map_filter list_all_iff)
qed

section \<open>Every operation keeps the rows well-formed\<close>

lemma schema_new_artifact:
  assumes "asset_schema d" "stored_artifact tn req a d d1" "\<not> invalid_asset req"
  shows "asset_schema d1 \<and> files d1 = files d \<and> certificates d1 = certificates d \<and> artifact_ok a \<and> a \<in> set (artifacts d1)"
proof (cases "d1 = d \<and> a \<in> set (artifacts d)")
  case True
  then show ?thesis using assms(1) by (simp add: asset_schema_def list_all_iff)
next
  case False
  then have d1: "d1 = artifacts_update (\<lambda>as. as @ [a]) d"
    and a: "fresh rec_id (rec_id a) (artifacts d)" "fresh storage_key (storage_key a) (artifacts d)"
      "rec_status a = ''active''" "deleted_at a = None" "agrees tn req a"
    using assms(2) by (auto simp: stored_artifact_def)
  have "artifact_ok a"
    using a assms(3) by (auto simp: artifact_ok_def life_ok_def agrees_def storage_key_def invalid_asset_def)
  with a assms(1) show ?thesis
    by (auto simp: asset_schema_def d1 fresh_def list_all_iff intro: file_ok_append cert_ok_append)
qed

lemma schema_new_file:
  assumes "asset_schema d" "file_assets.created tn req f a d d'" "\<not> invalid_asset req"
  shows "asset_schema d'"
proof -
  from assms(2) obtain d1 where f: "file_describes tn req (rec_id a) f" "rec_tenant f = tn"
      "rec_status f = ''active''" "deleted_at f = None" "file_key f = (tn, su_name req)"
      "fresh rec_id (rec_id f) (files d)" "fresh file_key (tn, su_name req) (files d)"
    and a: "stored_artifact tn req a d d1" and d': "d' = files_update (\<lambda>rs. rs @ [f]) d1"
    by (auto simp: file_assets.created_def)
  note d1 = schema_new_artifact [OF assms(1) a assms(3)]
  have ag: "agrees tn req a" using a by (simp add: stored_artifact_def)
  have "file_ok (artifacts d1) f"
    using f ag d1 assms(3)
    by (auto simp: file_ok_def life_ok_def list_ex_iff file_describes_def agrees_def storage_key_def by_id_def
        file_key_def invalid_asset_def)
  with d1 f show ?thesis
    by (auto simp: asset_schema_def d' fresh_def list_all_iff intro: managed_ok_append)
qed

lemma schema_new_certificate:
  assumes "asset_schema d" "cert_assets.created tn req c a d d'" "\<not> invalid_asset req"
  shows "asset_schema d'"
proof -
  from assms(2) obtain d1 where c: "cert_describes tn req (rec_id a) c" "rec_tenant c = tn"
      "rec_status c = ''active''" "deleted_at c = None" "cert_key c = (tn, su_name req)"
      "fresh rec_id (rec_id c) (certificates d)" "fresh cert_key (tn, su_name req) (certificates d)"
    and a: "stored_artifact tn req a d d1" and d': "d' = certificates_update (\<lambda>rs. rs @ [c]) d1"
    by (auto simp: cert_assets.created_def)
  note d1 = schema_new_artifact [OF assms(1) a assms(3)]
  have ag: "agrees tn req a" using a by (simp add: stored_artifact_def)
  have "cert_ok (artifacts d1) c"
    using c ag d1 assms(3)
    by (auto simp: cert_ok_def life_ok_def list_ex_iff cert_describes_def agrees_def storage_key_def by_id_def
        cert_key_def invalid_asset_def)
  with d1 c show ?thesis
    by (auto simp: asset_schema_def d' fresh_def list_all_iff)
qed

text \<open>The soft deletes, as statements.\<close>

lemma keyed_retire: "(\<And>r. k (retire_row t r) = k r) \<Longrightarrow> map k (upd_where p (retire_row t) rs) = map k rs"
  by (simp add: map_upd_where)

lemma schema_retire [keeps_intros]:
  "stmt_keeps asset_schema (update_rows artifacts artifacts_update no_check (by_id tn i) (retire_row t))"
  "stmt_keeps asset_schema (update_rows files files_update no_check (by_id tn i) (retire_row t))"
  "stmt_keeps asset_schema (update_rows certificates certificates_update no_check (by_id tn i) (retire_row t))"
  "stmt_keeps asset_schema (update_rows managed_files managed_files_update no_check (by_id tn i) (retire_row t))"
  by (auto simp: stmt_keeps_def asset_schema_def list_all_iff set_upd_where file_ok_retire cert_ok_retire managed_ok_retire
      map_upd_where storage_key_def file_key_def cert_key_def path_key_def artifact_ok_def)
   (auto simp: file_ok_def cert_ok_def managed_ok_def)

lemma schema_delete_artifact [keeps_intros]: "stmt_keeps asset_schema (delete_artifact tn i)"
  by (auto simp: stmt_keeps_def intro: delete_artifact_schema)

section \<open>When a file can be created\<close>

text \<open>
  What stands in the way of a request: another artifact under its storage key that does not
  agree with it, or a file of its name.
\<close>

definition key_conflict :: "database \<Rightarrow> string \<Rightarrow> asset_upsert \<Rightarrow> bool" where
  "key_conflict d tn req \<longleftrightarrow>
     list_ex (\<lambda>a. storage_key a = (tn, su_storage_key req) \<and> \<not> agrees tn req a) (artifacts d)"

definition name_taken :: "database \<Rightarrow> string \<Rightarrow> asset_upsert \<Rightarrow> bool" where
  "name_taken d tn req \<longleftrightarrow> list_ex (\<lambda>f. file_key f = (tn, su_name req)) (files d)"

lemma has_key_mem: "r \<in> set rs \<Longrightarrow> key r = k \<Longrightarrow> has_key key k rs"
  by (auto simp: has_key_def)

lemma fresh_append [simp]: "fresh key k (rs @ ss) \<longleftrightarrow> fresh key k rs \<and> fresh key k ss"
  by (auto simp: fresh_def)

lemma filter_key_singleton: "distinct (map k rs) \<Longrightarrow> filter (\<lambda>r. k r = x) rs = a # as \<Longrightarrow> as = []"
proof -
  assume d: "distinct (map k rs)" and f: "filter (\<lambda>r. k r = x) rs = a # as"
  then have a: "a \<in> set rs" "k a = x" using filter_single_mem [OF f] by auto
  have "filter (\<lambda>r. k r = x) rs = [a]" by (rule filter_key_single [OF d a(1)]) (simp_all add: a)
  with f show ?thesis by simp
qed

lemma CreateFile_branches:
  assumes "no_faults w" "asset_schema (db w)" "tn \<in> set (tenants (db w))"
    and "\<forall>n. fresh rec_id (uuid_src (env w) n) (artifacts (db w)) \<and> fresh rec_id (uuid_src (env w) n) (files (db w))"
  shows "post (CreateFile tn req) w
     (\<lambda>_ _. \<not> invalid_asset req \<and> \<not> key_conflict (db w) tn req \<and> \<not> name_taken (db w) tn req)
     (\<lambda>e _. if invalid_asset req then e = ErrInvalidInput
            else e = ErrConflict \<and> (key_conflict (db w) tn req \<or> name_taken (db w) tn req))"
proof -
  let ?k = "(tn, su_storage_key req)"
  let ?as = "filter (\<lambda>a. storage_key a = ?k) (artifacts (db w))"
  have dist: "distinct (map storage_key (artifacts (db w)))" using assms(2) by (simp add: asset_schema_def)
  have taken: "fresh file_key (tn, su_name req) (files (db w)) \<longleftrightarrow> \<not> name_taken (db w) tn req"
    by (force simp: fresh_def name_taken_def list_ex_iff)
  show ?thesis
  proof (cases ?as)
    case Nil
    then have "fresh storage_key ?k (artifacts (db w))" "\<not> key_conflict (db w) tn req"
      by (auto simp: fresh_def filter_empty_conv key_conflict_def list_ex_iff)
    with Nil assms show ?thesis
      by (auto simp: CreateFile_def ensureArtifact_def wp insert_artifact_def insert_file_def insert_row_def
          insert_into_def has_key_def tenant_id_def taken isUniqueViolation_def)
  next
    case (Cons a as)
    with filter_key_singleton [OF dist Cons] have one: "?as = [a]" by simp
    have a: "a \<in> set (artifacts (db w))" "storage_key a = ?k" using filter_single_mem [OF Cons] by auto
    have "list_ex (\<lambda>a. storage_key a = ?k \<and> P a) (artifacts (db w)) \<longleftrightarrow> P a" for P
    proof -
      have "list_ex (\<lambda>a. storage_key a = ?k \<and> P a) (artifacts (db w)) \<longleftrightarrow> list_ex P ?as"
        by (auto simp: list_ex_iff)
      then show ?thesis by (simp add: one)
    qed
    then have "key_conflict (db w) tn req \<longleftrightarrow> \<not> agrees tn req a" by (simp add: key_conflict_def)
    moreover have "has_key tenant_id (tn, rec_id a) (artifacts (db w))"
      using a by (auto simp: storage_key_def tenant_id_def intro: has_key_mem)
    ultimately show ?thesis
      using assms one a
      by (auto simp: CreateFile_def ensureArtifact_def wp insert_file_def insert_row_def
          insert_into_def taken agrees_def isUniqueViolation_def)
  qed
qed

section \<open>Properties\<close>

text \<open>
  Creating a file. With the statements working and unused identifiers, it succeeds exactly if
  the request is complete, no other artifact lies under the storage key and no file of the
  tenant has the name; then one file row is added that refers to the artifact of the storage
  key, stored or new, with the request's checksum and type, and nothing else changes. Otherwise
  the answer is invalid input or a conflict, and nothing changes.
\<close>

theorem CreateFile_stores:
  assumes "txn w = None" "no_faults w" "asset_schema (db w)" "tn \<in> set (tenants (db w))"
    and "\<forall>n. fresh rec_id (uuid_src (env w) n) (artifacts (db w)) \<and> fresh rec_id (uuid_src (env w) n) (files (db w))"
  shows "case fst (CreateFile tn req w) of
      Inr v \<Rightarrow> \<not> invalid_asset req \<and> \<not> key_conflict (db w) tn req \<and> \<not> name_taken (db w) tn req \<and>
        (\<exists>f a. v = scanFileWithArtifact f a \<and> rec_status f = ''active'' \<and> file_name f = su_name req \<and>
          by_id tn (file_artifact_id f) a \<and> art_storage_key a = su_storage_key req \<and>
          file_checksum f = su_checksum req \<and> art_checksum a = su_checksum req \<and>
          file_mime f = su_mime req \<and> art_mime a = su_mime req \<and> art_size a = su_size req \<and>
          (a \<in> set (artifacts (db w)) \<and>
             db (snd (CreateFile tn req w)) = files_update (\<lambda>fs. fs @ [f]) (db w) \<or>
           db (snd (CreateFile tn req w)) =
             files_update (\<lambda>fs. fs @ [f]) (artifacts_update (\<lambda>as. as @ [a]) (db w))))
    | Inl e \<Rightarrow> db (snd (CreateFile tn req w)) = db w \<and>
        (if invalid_asset req then e = ErrInvalidInput
         else e = ErrConflict \<and> (key_conflict (db w) tn req \<or> name_taken (db w) tn req))"
proof -
  note post = post_conj [OF post_CreateFile [OF assms(1)] CreateFile_branches [OF assms(2-5)]]
  show ?thesis
  proof (cases "fst (CreateFile tn req w)")
    case (Inl e)
    from post_fst_Inl [OF post this] Inl show ?thesis by simp
  next
    case (Inr v)
    note ok = post_fst_Inr [OF post Inr]
    then obtain f a d1 where v: "v = scanFileWithArtifact f a"
      and f: "file_describes tn req (rec_id a) f" "rec_status f = ''active''" "file_key f = (tn, su_name req)"
      and a: "stored_artifact tn req a (db w) d1"
      and d: "db (snd (CreateFile tn req w)) = files_update (\<lambda>fs. fs @ [f]) d1"
      by (auto simp: file_assets.created_def)
    have facts: "file_name f = su_name req" "by_id tn (file_artifact_id f) a" "art_storage_key a = su_storage_key req"
      "file_checksum f = su_checksum req" "art_checksum a = su_checksum req" "file_mime f = su_mime req"
      "art_mime a = su_mime req" "art_size a = su_size req"
      using f a by (auto simp: stored_artifact_def agrees_def storage_key_def file_describes_def file_key_def by_id_def)
    have "a \<in> set (artifacts (db w)) \<and> d1 = db w \<or> d1 = artifacts_update (\<lambda>as. as @ [a]) (db w)"
      using a by (auto simp: stored_artifact_def)
    then show ?thesis using ok Inr v f facts d by auto
  qed
qed

definition asset_database :: database where
  "asset_database = empty_database\<lparr>
     artifacts := [\<lparr>rec_id = ''f'', rec_tenant = ''t'', rec_status = ''active'', created_at = 1,
       updated_at = 1, deleted_at = None, art_storage_key = ''k'', art_checksum = ''c'', art_size = 3,
       art_mime = ''apk''\<rparr>],
     files := [\<lparr>rec_id = ''n'', rec_tenant = ''t'', rec_status = ''active'', created_at = 1,
       updated_at = 1, deleted_at = None, file_name = ''agent'', file_artifact_id = ''f'',
       file_checksum = ''c'', file_mime = ''apk''\<rparr>]\<rparr>"

definition sample_asset :: "string \<Rightarrow> string \<Rightarrow> string \<Rightarrow> asset_upsert" where
  "sample_asset nm key chk = \<lparr>su_name = nm, su_storage_key = key, su_checksum = chk, su_size = 3, su_mime = ''apk''\<rparr>"

lemma asset_samples: "asset_schema asset_database" "asset_schema empty_database"
  by (simp_all add: asset_database_def empty_database_def asset_schema_def artifact_ok_def file_ok_def life_ok_def
      by_id_def)

lemma sample_uuids:
  "fresh rec_id (uuid_src sample_env n) (artifacts asset_database)"
  "fresh rec_id (uuid_src sample_env n) (files asset_database)"
  by (simp_all add: sample_env_def asset_database_def empty_database_def fresh_def)

theorem CreateFile_stores_witness:
  "(\<exists>v. fst (CreateFile ''t'' (sample_asset ''copy'' ''k'' ''c'') (world_of asset_database)) = Inr v) \<and>
   fst (CreateFile ''t'' (sample_asset ''copy'' ''k'' ''d'') (world_of asset_database)) = Inl ErrConflict"
proof -
  let ?w = "world_of asset_database"
  have t: "''t'' \<in> set (tenants (db ?w))" by (simp add: asset_database_def empty_database_def)
  note stores = CreateFile_stores [where w = ?w and tn = "''t''", OF _ _ _ t]
  have "key_conflict asset_database ''t'' (sample_asset ''copy'' ''k'' ''c'') = False"
    "name_taken asset_database ''t'' (sample_asset ''copy'' ''k'' ''c'') = False"
    "key_conflict asset_database ''t'' (sample_asset ''copy'' ''k'' ''d'') = True"
    "invalid_asset (sample_asset ''copy'' ''k'' ''c'') = False"
    "invalid_asset (sample_asset ''copy'' ''k'' ''d'') = False"
    by code_simp+
  with stores [of "sample_asset ''copy'' ''k'' ''c''"] stores [of "sample_asset ''copy'' ''k'' ''d''"]
  show ?thesis by (auto simp: asset_samples sample_uuids split: sum.splits)
qed

end
