(* ===== verification/ManagedFiles.thy ===== *)
theory ManagedFiles
  imports Files
begin

text \<open>
  Managed files: \<open>managedfiles/model.go\<close> and \<open>managedfiles/postgres/store.go\<close>. A managed file puts a
  stored file at a path of the device. A tenant has one managed file per path: creating it
  again redirects the path to another file and brings a retired one back.
\<close>

section \<open>Data\<close>

record managed_view =
  mv_row :: mfile_row
  mv_file :: "file_view option"

record managed_upsert =
  mu_file_id :: string
  mu_path :: string
  mu_replace :: bool

record managed_stats =
  ms_total :: int
  ms_active :: int

section \<open>The store\<close>

definition loadSourceFile :: "string \<Rightarrow> string \<Rightarrow> file_view action" where
  "loadSourceFile tn i =
     bindE (no_rows_as ErrNotFound (query_row (\<lambda>d. concat (map (file_join d) (filter (by_id tn i) (files d)))))) (\<lambda>f.
     if fb_status f \<noteq> ''active'' then throwE ErrNotFound else returnE f)"

text \<open>\<open>INSERT ... ON CONFLICT (tenant_id, path) DO UPDATE\<close>; both branches are bound by the foreign key.\<close>

definition upsert_managed :: "string \<Rightarrow> managed_upsert \<Rightarrow> string \<Rightarrow> int \<Rightarrow> mfile_row list stmt" where
  "upsert_managed tn req i t = (\<lambda>pg d.
     if list_ex (\<lambda>m. path_key m = (tn, TrimSpace (mu_path req))) (managed_files d)
     then update_rows managed_files managed_files_update
            (\<lambda>d. if has_key tenant_id (tn, mu_file_id req) (files d) then None else Some PgForeignKey)
            (\<lambda>m. path_key m = (tn, TrimSpace (mu_path req)))
            (\<lambda>m. m\<lparr>mf_file_id := mu_file_id req, mf_replace := mu_replace req, rec_status := ''active'',
                   deleted_at := None, updated_at := t\<rparr>) pg d
     else insert_row managed_files_update (\<lambda>d. fresh rec_id i (managed_files d))
            (\<lambda>d. tn \<in> set (tenants d) \<and> has_key tenant_id (tn, mu_file_id req) (files d))
            (\<lambda>pgnow. \<lparr>rec_id = i, rec_tenant = tn, rec_status = ''active'', created_at = pgnow,
               updated_at = t, deleted_at = None, mf_file_id = mu_file_id req,
               mf_path = TrimSpace (mu_path req), mf_replace = mu_replace req\<rparr>) pg d)"

definition CreateManagedFile :: "string \<Rightarrow> managed_upsert \<Rightarrow> managed_view action" where
  "CreateManagedFile tn req =
     (if mu_file_id req = [] \<or> TrimSpace (mu_path req) = [] then throwE ErrInvalidInput
      else with_tx (
        bindE (loadSourceFile tn (mu_file_id req)) (\<lambda>source.
        bindE NewString (\<lambda>i. bindE now (\<lambda>t.
        bindE (exec_row (upsert_managed tn req i t)) (\<lambda>m.
        bindE commit (\<lambda>_. returnE \<lparr>mv_row = m, mv_file = Some source\<rparr>)))))))"

definition managed_join :: "database \<Rightarrow> mfile_row \<Rightarrow> managed_view list" where
  "managed_join d m = map (\<lambda>f. \<lparr>mv_row = m, mv_file = Some f\<rparr>)
     (concat (map (file_join d) (filter (by_id (rec_tenant m) (mf_file_id m)) (files d))))"

definition ListManagedFiles :: "string \<Rightarrow> page_params \<Rightarrow> managed_view list action" where
  "ListManagedFiles tn page = query (\<lambda>d. paged page
     (concat (map (managed_join d) (newest_first (filter (in_tenant tn) (managed_files d))))))"

definition managedfiles_GetOverviewStats :: "string \<Rightarrow> managed_stats action" where
  "managedfiles_GetOverviewStats tn = query (\<lambda>d. let ms = filter (in_tenant tn) (managed_files d) in
     \<lparr>ms_total = int (length ms), ms_active = int (length (filter (\<lambda>m. rec_status m = ''active'') ms))\<rparr>)"

definition GetManagedFile :: "string \<Rightarrow> string \<Rightarrow> managed_view action" where
  "GetManagedFile tn i = no_rows_as ErrNotFound
     (query_row (\<lambda>d. concat (map (managed_join d) (filter (by_id tn i) (managed_files d)))))"

text \<open>The answer shows the source file only when it can be loaded and is active.\<close>

definition RetireManagedFile :: "string \<Rightarrow> string \<Rightarrow> managed_view action" where
  "RetireManagedFile tn i =
     bindE (retire_by_id managed_files managed_files_update tn i) (\<lambda>m.
     elseE (loadSourceFile tn (mf_file_id m))
       (\<lambda>_. returnE \<lparr>mv_row = m, mv_file = None\<rparr>)
       (\<lambda>f. returnE \<lparr>mv_row = m, mv_file = Some f\<rparr>))"

section \<open>What creating a managed file does\<close>

text \<open>The row at a path after the statement, and the table around it.\<close>

definition managed_at :: "string \<Rightarrow> managed_upsert \<Rightarrow> mfile_row \<Rightarrow> bool" where
  "managed_at tn req m \<longleftrightarrow> path_key m = (tn, TrimSpace (mu_path req)) \<and> mf_file_id m = mu_file_id req \<and>
     mf_replace m = mu_replace req \<and> rec_status m = ''active'' \<and> deleted_at m = None"

definition managed_after :: "string \<Rightarrow> managed_upsert \<Rightarrow> mfile_row \<Rightarrow> database \<Rightarrow> database \<Rightarrow> bool" where
  "managed_after tn req m d d' \<longleftrightarrow> managed_at tn req m \<and>
     ((\<exists>old. old \<in> set (managed_files d) \<and> path_key old = path_key m \<and> rec_id old = rec_id m \<and>
         created_at old = created_at m \<and>
         d' = managed_files_update (upd_where (\<lambda>r. rec_id r = rec_id m) (\<lambda>_. m)) d) \<or>
      fresh path_key (path_key m) (managed_files d) \<and> fresh rec_id (rec_id m) (managed_files d) \<and>
         d' = managed_files_update (\<lambda>ms. ms @ [m]) d)"

lemma filter_id_path:
  assumes "distinct (map rec_id rs)" "distinct (map path_key rs)" "filter (\<lambda>m. path_key m = k) rs = old # olds"
  shows "upd_where (\<lambda>m. path_key m = k) f rs = upd_where (\<lambda>m. rec_id m = rec_id old) (\<lambda>_. f old) rs"
proof -
  have old: "old \<in> set rs" "path_key old = k" using filter_single_mem [OF assms(3)] by auto
  have "(path_key m = k \<longleftrightarrow> rec_id m = rec_id old) \<and> (path_key m = k \<longrightarrow> f m = f old)" if "m \<in> set rs" for m
    using that old distinct_key_unique [OF assms(1) that old(1)] distinct_key_unique [OF assms(2) that old(1)] by auto
  then show ?thesis by (auto simp: upd_where_def)
qed

lemma upsert_managed_Inr:
  assumes "upsert_managed tn req i t pg d = Inr (rs, d')" "asset_schema d"
  shows "\<exists>m. rs = [m] \<and> managed_after tn req m d d' \<and> has_key tenant_id (tn, mu_file_id req) (files d)"
proof (cases "list_ex (\<lambda>m. path_key m = (tn, TrimSpace (mu_path req))) (managed_files d)")
  case True
  let ?p = "\<lambda>m. path_key m = (tn, TrimSpace (mu_path req))"
  let ?f = "\<lambda>m. m\<lparr>mf_file_id := mu_file_id req, mf_replace := mu_replace req, rec_status := ''active'',
                   deleted_at := None, updated_at := t\<rparr>"
  have ids: "distinct (map rec_id (managed_files d))" "distinct (map path_key (managed_files d))"
    using assms(2) by (simp_all add: asset_schema_def)
  have "filter ?p (managed_files d) \<noteq> []" using True by (auto simp: filter_empty_conv list_ex_iff)
  then obtain old olds where "filter ?p (managed_files d) = old # olds" by (cases "filter ?p (managed_files d)") auto
  with filter_key_singleton [OF ids(2) this] have old: "filter ?p (managed_files d) = [old]" by simp
  note at = filter_single_mem [OF old]
  from assms(1) True have "has_key tenant_id (tn, mu_file_id req) (files d) \<and>
      rs = returning ?p ?f (managed_files d) \<and> d' = managed_files_update (upd_where ?p ?f) d"
    by (auto simp: upsert_managed_def update_rows_def split: if_splits)
  moreover have "managed_files_update (upd_where ?p ?f) d
      = managed_files_update (upd_where (\<lambda>m. rec_id m = rec_id old) (\<lambda>_. ?f old)) d"
    by (rule managed_files_t.put_cong) (rule filter_id_path [OF ids old])
  ultimately show ?thesis
    using at old
    by (auto simp: returning_def managed_after_def managed_at_def path_key_def intro!: exI [of _ old])
next
  case False
  then have "fresh path_key (tn, TrimSpace (mu_path req)) (managed_files d)"
    by (force simp: fresh_def list_ex_iff)
  moreover from assms(1) False have "\<exists>m. rs = [m] \<and> managed_at tn req m \<and> fresh rec_id (rec_id m) (managed_files d) \<and>
      d' = managed_files_update (\<lambda>ms. ms @ [m]) d \<and> has_key tenant_id (tn, mu_file_id req) (files d)"
    by (auto simp: upsert_managed_def insert_row_def insert_into_def managed_at_def path_key_def split: if_splits)
  ultimately show ?thesis by (auto simp: managed_after_def managed_at_def)
qed

lemma post_loadSourceFile:
  "post (loadSourceFile tn i) w
     (\<lambda>f w'. txn w' = txn w \<and> db w' = db w \<and> fb_status f = ''active'' \<and>
        (\<exists>r a. r \<in> set (files (db w)) \<and> by_id tn i r \<and> a \<in> set (artifacts (db w)) \<and>
           by_id tn (file_artifact_id r) a \<and> f = scanFileWithArtifact r a))
     (\<lambda>_ w'. txn w' = txn w \<and> db w' = db w)"
proof -
  have src: "\<exists>r a. r \<in> set (files d) \<and> by_id tn i r \<and> a \<in> set (artifacts d) \<and>
      by_id tn (file_artifact_id r) a \<and> f = scanFileWithArtifact r a"
    if "concat (map (file_join d) (filter (by_id tn i) (files d))) = f # fs" for d f fs
  proof -
    have "f \<in> set (concat (map (file_join d) (filter (by_id tn i) (files d))))" using that by simp
    then show ?thesis by (auto simp: file_join_def artifacts_of_def by_id_def)
  qed
  show ?thesis by (auto simp: loadSourceFile_def wp split: list.splits dest!: src)
qed

lemma post_CreateManagedFile:
  assumes "txn w = None" "asset_schema (db w)"
  shows "post (CreateManagedFile tn req) w
     (\<lambda>v w'. txn w' = None \<and> managed_after tn req (mv_row v) (db w) (db w') \<and>
        TrimSpace (mu_path req) \<noteq> [] \<and>
        (\<exists>f a. f \<in> set (files (db w)) \<and> by_id tn (mu_file_id req) f \<and> rec_status f = ''active'' \<and>
           a \<in> set (artifacts (db w)) \<and> by_id tn (file_artifact_id f) a \<and>
           mv_file v = Some (scanFileWithArtifact f a)))
     (\<lambda>_ w'. txn w' = None \<and> db w' = db w)"
proof (cases "mu_file_id req = [] \<or> TrimSpace (mu_path req) = []")
  case False
  let ?w = "tick_stmt w\<lparr>txn := Some (db w, pg_clock (env w) (stmts w))\<rparr>"
  have status: "fb_status (scanFileWithArtifact f a) = rec_status f" for f a
    by (simp add: scanFileWithArtifact_def scanFile_def)
  show ?thesis
    unfolding CreateManagedFile_def if_not_P [OF False] post_with_tx post_bindE
  proof (simp add: assms, intro impI, rule post_mono [OF post_loadSourceFile], goal_cases)
    case (1 f w')
    then have t: "txn w' = Some (db w, pg_clock (env w) (stmts w))" "db w' = db w" by auto
    have up: "managed_after tn req m (db w) d'"
      if "upsert_managed tn req i u pg (db w) = Inr (m # ms, d')" for i u pg m ms d'
      using upsert_managed_Inr [OF that assms(2)] by auto
    show ?case
      using 1 t False by (auto simp: wp db_rollback up status split: sum.splits list.splits)
  next
    case (2 e w')
    then show ?case by (simp add: db_rollback)
  qed
qed (simp add: CreateManagedFile_def wp assms)

lemma schema_managed_after:
  assumes "asset_schema d" "managed_after tn req m d d'" "TrimSpace (mu_path req) \<noteq> []"
    and "f \<in> set (files d)" "by_id tn (mu_file_id req) f"
  shows "asset_schema d'"
proof -
  have m: "managed_at tn req m" using assms(2) by (simp add: managed_after_def)
  have "managed_ok (files d) m"
    using m assms(3-5) by (auto simp: managed_ok_def managed_at_def life_ok_def path_key_def tenant_id_def by_id_def
        intro: has_key_mem)
  note ok = this
  from assms(2) consider
      (old) old where "old \<in> set (managed_files d)" "path_key old = path_key m" "rec_id old = rec_id m"
        "d' = managed_files_update (upd_where (\<lambda>r. rec_id r = rec_id m) (\<lambda>_. m)) d"
    | (new) "fresh path_key (path_key m) (managed_files d)" "fresh rec_id (rec_id m) (managed_files d)"
        "d' = managed_files_update (\<lambda>ms. ms @ [m]) d"
    by (auto simp: managed_after_def)
  then show ?thesis
  proof cases
    case old
    have ids: "distinct (map rec_id (managed_files d))" using assms(1) by (simp add: asset_schema_def)
    have "path_key r = path_key m" if "r \<in> set (managed_files d)" "rec_id r = rec_id m" for r
      using distinct_key_unique [OF ids that(1) old(1)] that(2) old(2,3) by simp
    then have "map path_key (upd_where (\<lambda>r. rec_id r = rec_id m) (\<lambda>_. m) (managed_files d)) = map path_key (managed_files d)"
      by (simp add: upd_where_def)
    moreover have "map rec_id (upd_where (\<lambda>r. rec_id r = rec_id m) (\<lambda>_. m) (managed_files d)) = map rec_id (managed_files d)"
      by (simp add: upd_where_def)
    ultimately show ?thesis
      using assms(1) ok unfolding asset_schema_def old(4) list_all_iff by (auto simp: set_upd_where)
  next
    case new
    with assms(1) ok show ?thesis by (simp add: asset_schema_def fresh_def)
  qed
qed

section \<open>Properties\<close>

text \<open>
  Creating a managed file. Success means that the source file is stored and active and that
  afterwards exactly one row of the tenant has the trimmed path: the returned one, active, not
  deleted, with the requested file and flag, and with the identifier and creation time of the
  row that was at the path before, if there was one (retired or not). Every row at another path and every other table is
  as it was. A failure changes nothing.
\<close>

theorem CreateManagedFile_places:
  assumes "txn w = None" "asset_schema (db w)"
  shows "case fst (CreateManagedFile tn req w) of
      Inr v \<Rightarrow>
        mf_path (mv_row v) = TrimSpace (mu_path req) \<and> mf_file_id (mv_row v) = mu_file_id req \<and>
        mf_replace (mv_row v) = mu_replace req \<and> rec_tenant (mv_row v) = tn \<and>
        rec_status (mv_row v) = ''active'' \<and> deleted_at (mv_row v) = None \<and>
        (\<forall>m. m \<in> set (managed_files (db (snd (CreateManagedFile tn req w)))) \<longleftrightarrow>
           m = mv_row v \<or> m \<in> set (managed_files (db w)) \<and> path_key m \<noteq> path_key (mv_row v)) \<and>
        (\<forall>old. old \<in> set (managed_files (db w)) \<and> path_key old = path_key (mv_row v) \<longrightarrow>
           rec_id old = rec_id (mv_row v) \<and> created_at old = created_at (mv_row v)) \<and>
        db (snd (CreateManagedFile tn req w)) =
          managed_files_update (\<lambda>_. managed_files (db (snd (CreateManagedFile tn req w)))) (db w) \<and>
        asset_schema (db (snd (CreateManagedFile tn req w))) \<and>
        (\<exists>f. f \<in> set (files (db w)) \<and> by_id tn (mu_file_id req) f \<and> rec_status f = ''active'')
    | Inl e \<Rightarrow> db (snd (CreateManagedFile tn req w)) = db w"
proof (cases "fst (CreateManagedFile tn req w)")
  case (Inl e)
  from post_fst_Inl [OF post_CreateManagedFile [OF assms] this] Inl show ?thesis by simp
next
  case (Inr v)
  let ?d = "db (snd (CreateManagedFile tn req w))" and ?m = "mv_row v"
  from post_fst_Inr [OF post_CreateManagedFile [OF assms] Inr] obtain f
    where after: "managed_after tn req ?m (db w) ?d" and trim: "TrimSpace (mu_path req) \<noteq> []"
      and f: "f \<in> set (files (db w))" "by_id tn (mu_file_id req) f" "rec_status f = ''active''" by auto
  have ids: "distinct (map rec_id (managed_files (db w)))" and paths: "distinct (map path_key (managed_files (db w)))"
    using assms(2) by (simp_all add: asset_schema_def)
  have at: "managed_at tn req ?m" using after by (simp add: managed_after_def)
  from after have "(\<forall>m. m \<in> set (managed_files ?d) \<longleftrightarrow>
        m = ?m \<or> m \<in> set (managed_files (db w)) \<and> path_key m \<noteq> path_key ?m) \<and>
      (\<forall>old. old \<in> set (managed_files (db w)) \<and> path_key old = path_key ?m \<longrightarrow>
        rec_id old = rec_id ?m \<and> created_at old = created_at ?m) \<and>
      ?d = managed_files_update (\<lambda>_. managed_files ?d) (db w)"
    unfolding managed_after_def
  proof (elim conjE disjE exE, goal_cases)
    case (1 old)
    have other: "path_key r = path_key ?m \<longleftrightarrow> rec_id r = rec_id ?m" if "r \<in> set (managed_files (db w))" for r
      using distinct_key_unique [OF ids that 1(2)] distinct_key_unique [OF paths that 1(2)] 1(3,4) by auto
    have "r = old" if "r \<in> set (managed_files (db w))" "path_key r = path_key ?m" for r
      using distinct_key_unique [OF paths that(1) 1(2)] that(2) 1(3) by simp
    have rows: "managed_files ?d = upd_where (\<lambda>r. rec_id r = rec_id ?m) (\<lambda>_. ?m) (managed_files (db w))"
      using 1(6) by simp
    have set: "m \<in> set (managed_files ?d) \<longleftrightarrow>
        m = ?m \<or> m \<in> set (managed_files (db w)) \<and> path_key m \<noteq> path_key ?m" for m
      unfolding rows using 1(2,4) other by (auto simp: set_upd_where)
    have same: "rec_id r = rec_id ?m \<and> created_at r = created_at ?m"
      if "r \<in> set (managed_files (db w))" "path_key r = path_key ?m" for r
      using \<open>\<And>r. r \<in> set (managed_files (db w)) \<Longrightarrow> path_key r = path_key ?m \<Longrightarrow> r = old\<close> [OF that] 1(4,5) by simp
    show ?case
      by (intro conjI allI impI managed_files_t.put_get [OF 1(6)]) (auto simp: set same)
  next
    case 2
    have rows: "managed_files ?d = managed_files (db w) @ [?m]" using 2(4) by simp
    have new: "path_key r \<noteq> path_key ?m" if "r \<in> set (managed_files (db w))" for r
      using 2(2) that by (auto simp: fresh_def image_iff)
    show ?case
      by (intro conjI allI impI managed_files_t.put_get [OF 2(4)]) (auto simp: rows dest: new)
  qed
  moreover have "asset_schema ?d" by (rule schema_managed_after [OF assms(2) after trim f(1,2)])
  ultimately show ?thesis using Inr at f by (auto simp: managed_at_def path_key_def)
qed

definition managed_database :: database where
  "managed_database = asset_database\<lparr>managed_files :=
     [\<lparr>rec_id = ''m'', rec_tenant = ''t'', rec_status = ''retired'', created_at = 1, updated_at = 2,
       deleted_at = Some 2, mf_file_id = ''n'', mf_path = ''/sdcard/a'', mf_replace = False\<rparr>]\<rparr>"

definition sample_managed :: "string \<Rightarrow> managed_upsert" where
  "sample_managed p = \<lparr>mu_file_id = ''n'', mu_path = p, mu_replace = True\<rparr>"

lemma managed_sample: "asset_schema managed_database"
  by code_simp

theorem CreateManagedFile_places_witness:
  "\<exists>v. fst (CreateManagedFile ''t'' (sample_managed '' /sdcard/a'') (world_of managed_database)) = Inr v \<and>
     mf_path (mv_row v) = ''/sdcard/a'' \<and> rec_id (mv_row v) = ''m'' \<and> rec_status (mv_row v) = ''active''"
proof -
  let ?req = "sample_managed '' /sdcard/a''"
  have "case fst (CreateManagedFile ''t'' ?req (world_of managed_database)) of Inr v \<Rightarrow> rec_id (mv_row v) = ''m'' | Inl e \<Rightarrow> False"
    by code_simp
  then obtain v where v: "fst (CreateManagedFile ''t'' ?req (world_of managed_database)) = Inr v" "rec_id (mv_row v) = ''m''"
    by (auto split: sum.splits)
  have "TrimSpace (mu_path ?req) = ''/sdcard/a''" by code_simp
  with v CreateManagedFile_places [of "world_of managed_database" "''t''" ?req] show ?thesis
    by (auto simp: managed_sample)
qed

end
