(* ===== verification/Json.thy ===== *)
theory Json
  imports Database
begin

text \<open>
  \<open>json.Marshal\<close> of the values \<open>encoding/json\<close> decodes into \<open>any\<close>: strings with the escapes of the
  default encoder (HTML characters included), object keys in byte order, no white space. A
  number is already the text it is rendered as. Two parts of the program depend on the exact
  bytes: the signature over a configuration and the template values of managed files.
\<close>

section \<open>UTF-8\<close>

definition byte :: "char \<Rightarrow> nat" where
  "byte c = of_char c"

definition between :: "nat \<Rightarrow> nat \<Rightarrow> char \<Rightarrow> bool" where
  "between lo hi c \<longleftrightarrow> lo \<le> byte c \<and> byte c \<le> hi"

text \<open>The length of the UTF-8 encoding a string starts with, 0 if it starts with none.\<close>

fun rune_size :: "string \<Rightarrow> nat" where
  "rune_size [] = 0"
| "rune_size (a # rest) =
     (if byte a < 128 then 1
      else if between 194 223 a then
        (case rest of b # _ \<Rightarrow> if between 128 191 b then 2 else 0 | [] \<Rightarrow> 0)
      else if between 224 239 a then
        (case rest of b # c # _ \<Rightarrow>
            if between (if byte a = 224 then 160 else 128) (if byte a = 237 then 159 else 191) b \<and>
               between 128 191 c then 3 else 0
         | _ \<Rightarrow> 0)
      else if between 240 244 a then
        (case rest of b # c # d # _ \<Rightarrow>
            if between (if byte a = 240 then 144 else 128) (if byte a = 244 then 143 else 191) b \<and>
               between 128 191 c \<and> between 128 191 d then 4 else 0
         | _ \<Rightarrow> 0)
      else 0)"

section \<open>Strings\<close>

definition hex_digit :: "nat \<Rightarrow> char" where
  "hex_digit n = ''0123456789abcdef'' ! n"

text \<open>A byte below 128: quotes, backslashes, control characters and \<open><\<close>, \<open>>\<close>, \<open>&\<close> are escaped.\<close>

definition escape_byte :: "char \<Rightarrow> string" where
  "escape_byte c =
     (if c = CHR 0x5C \<or> c = CHR 0x22 then [CHR 0x5C, c]
      else if c = CHR 0x08 then [CHR 0x5C, CHR ''b'']
      else if c = CHR 0x0C then [CHR 0x5C, CHR ''f'']
      else if c = CHR 0x0A then [CHR 0x5C, CHR ''n'']
      else if c = CHR 0x0D then [CHR 0x5C, CHR ''r'']
      else if c = CHR 0x09 then [CHR 0x5C, CHR ''t'']
      else if byte c < 32 \<or> c = CHR ''<'' \<or> c = CHR ''>'' \<or> c = CHR ''&''
      then [CHR 0x5C, CHR ''u'', CHR ''0'', CHR ''0'', hex_digit (byte c div 16), hex_digit (byte c mod 16)]
      else [c])"

text \<open>An encoded rune: U+2028 and U+2029 are escaped, an invalid byte becomes U+FFFD.\<close>

definition escape_rune :: "string \<Rightarrow> string" where
  "escape_rune r =
     (if r = [CHR 0xE2, CHR 0x80, CHR 0xA8] then CHR 0x5C # ''u2028''
      else if r = [CHR 0xE2, CHR 0x80, CHR 0xA9] then CHR 0x5C # ''u2029''
      else r)"

function quote_body :: "string \<Rightarrow> string" where
  "quote_body [] = []"
| "quote_body (c # s) =
     (if byte c < 128 then escape_byte c @ quote_body s
      else if rune_size (c # s) = 0 then CHR 0x5C # ''ufffd'' @ quote_body s
      else escape_rune (take (rune_size (c # s)) (c # s)) @ quote_body (drop (rune_size (c # s)) (c # s)))"
  by pat_completeness auto
termination by (relation "measure length") auto

definition quote :: "string \<Rightarrow> string" where
  "quote s = CHR 0x22 # quote_body s @ [CHR 0x22]"

section \<open>Values\<close>

fun joined :: "string \<Rightarrow> string list \<Rightarrow> string" where
  "joined sep [] = []"
| "joined sep [x] = x"
| "joined sep (x # y # xs) = x @ sep @ joined sep (y # xs)"

fun marshal :: "json \<Rightarrow> string" where
  "marshal JNull = ''null''"
| "marshal (JBool b) = (if b then ''true'' else ''false'')"
| "marshal (JNum n) = n"
| "marshal (JStr s) = quote s"
| "marshal (JArr xs) = CHR ''['' # joined '','' (map marshal xs) @ '']''"
| "marshal (JObj kvs) = CHR ''{'' #
     joined '','' (map (\<lambda>(k, t). quote k @ CHR '':'' # t)
       (sort_key fst (map (\<lambda>kv. (fst kv, marshal (snd kv))) kvs))) @ ''}''"

end
