(* ===== verification/Render.thy ===== *)
theory Render
  imports Json "HOL-Library.AList" "HOL-Library.Multiset"
begin

text \<open>
  Template rendering of managed files, \<open>managedfiles/render.go\<close>: the variables of a device are its
  identifier and the entries of its bootstrap extras under several spellings, and the content is
  rewritten by a \<open>strings.Replacer\<close>. Go iterates over maps in an arbitrary order, so the order of
  the extras is the order of the list given, and the order of the variables is a parameter.
\<close>

section \<open>Variables\<close>

fun templateValue :: "json \<Rightarrow> string" where
  "templateValue JNull = []"
| "templateValue (JStr s) = TrimSpace s"
| "templateValue (JArr xs) = joined '','' (filter (\<lambda>s. s \<noteq> []) (map templateValue xs))"
| "templateValue (JNum n) = TrimSpace n"
| "templateValue (JBool b) = (if b then ''true'' else ''false'')"
| "templateValue (JObj kvs) = TrimSpace (marshal (JObj kvs))"

definition add_key :: "string \<Rightarrow> string list \<Rightarrow> string list" where
  "add_key v ks = (if v = [] \<or> v \<in> set ks then ks else ks @ [v])"

definition normalizedTemplateKeys :: "string \<Rightarrow> string list" where
  "normalizedTemplateKeys key =
     (let trimmed = TrimSpace key
      in if trimmed = [] then []
         else
           let ks = add_key (ToUpper trimmed) (add_key trimmed []);
               lower = ToLower trimmed;
               (ks, lower) =
                 (if prefix ''com.xmdm.'' lower then
                    let stripped = TrimSpace (drop 9 trimmed)
                    in (add_key (ToUpper stripped) (add_key stripped ks), ToLower stripped)
                  else (ks, lower))
           in if lower = ''secondarybaseurl'' \<or> lower = ''secondary_base_url''
              then add_key ''SECONDARY_BASE_URL'' ks else ks)"

text \<open>The assignments one entry of the extras makes.\<close>

definition entry_values :: "string \<times> json \<Rightarrow> (string \<times> string) list" where
  "entry_values kv =
     (let rendered = templateValue (snd kv)
      in if rendered = [] then []
         else map (\<lambda>c. (c, rendered)) (normalizedTemplateKeys (fst kv)))"

definition TemplateValues :: "string \<Rightarrow> obj \<Rightarrow> (string \<times> string) list" where
  "TemplateValues deviceID extras =
     fold (\<lambda>kv values. fold (\<lambda>(c, v) values. AList.update c v values) (entry_values kv) values) extras
       [(''DEVICE_NUMBER'', deviceID), (''DEVICE_ID'', deviceID), (''IMEI'', [])]"

section \<open>Replacing\<close>

text \<open>
  \<open>strings.NewReplacer(pairs...).Replace\<close>: from left to right, without overlaps, at each place the
  first pair in argument order whose key matches. The keys are not empty.
\<close>

definition matching :: "(string \<times> string) list \<Rightarrow> string \<Rightarrow> (string \<times> string) option" where
  "matching pairs s = List.find (\<lambda>kv. fst kv \<noteq> [] \<and> prefix (fst kv) s) pairs"

function Replace :: "(string \<times> string) list \<Rightarrow> string \<Rightarrow> string" where
  "Replace pairs [] = []"
| "Replace pairs (c # s) =
     (case matching pairs (c # s) of
        None \<Rightarrow> c # Replace pairs s
      | Some (k, v) \<Rightarrow> v @ Replace pairs (drop (length k) (c # s)))"
  by pat_completeness auto
termination
proof (relation "measure (\<lambda>(ps, s). length s)", goal_cases)
  case (3 pairs c s kv k v)
  then have "k \<noteq> []" by (auto simp: matching_def find_Some_iff) (metis fst_conv)
  then show ?case by (cases k) auto
qed auto

definition RenderTemplate ::
  "((string \<times> string) list \<Rightarrow> (string \<times> string) list) \<Rightarrow> string \<Rightarrow> string \<Rightarrow> obj \<Rightarrow> string" where
  "RenderTemplate iterate content deviceID extras = Replace (iterate (TemplateValues deviceID extras)) content"

section \<open>When the order does not matter\<close>

text \<open>
  No variable is a prefix of another, and no two assignments of the extras give one variable
  different values.
\<close>

definition prefix_free :: "(string \<times> string) list \<Rightarrow> bool" where
  "prefix_free pairs \<longleftrightarrow>
     list_all (\<lambda>p. list_all (\<lambda>q. prefix (fst p) (fst q) \<longrightarrow> fst p = fst q) pairs) pairs"

definition assignments :: "obj \<Rightarrow> (string \<times> string) list" where
  "assignments extras = concat (map entry_values extras)"

definition unambiguous :: "obj \<Rightarrow> bool" where
  "unambiguous extras \<longleftrightarrow>
     list_all (\<lambda>p. list_all (\<lambda>q. fst p = fst q \<longrightarrow> snd p = snd q) (assignments extras)) (assignments extras)"

lemma TemplateValues_assignments:
  "TemplateValues deviceID extras = fold (\<lambda>(c, v) values. AList.update c v values) (assignments extras)
     [(''DEVICE_NUMBER'', deviceID), (''DEVICE_ID'', deviceID), (''IMEI'', [])]"
proof -
  have "fold (\<lambda>kv values. fold (\<lambda>(c, v) values. AList.update c v values) (entry_values kv) values) extras vs
      = fold (\<lambda>(c, v) values. AList.update c v values) (assignments extras) vs" for vs
    by (induction extras arbitrary: vs) (simp_all add: assignments_def)
  then show ?thesis by (simp add: TemplateValues_def)
qed

lemma map_of_fold_update:
  "map_of (fold (\<lambda>(c, v) values. AList.update c v values) ps vs) = map_of vs ++ map_of (rev ps)"
proof (induction ps arbitrary: vs)
  case (Cons p ps)
  then show ?case by (cases p) (simp add: update_conv' map_add_def fun_eq_iff split: option.splits)
qed simp

lemma distinct_fold_update:
  "distinct (map fst vs) \<Longrightarrow> distinct (map fst (fold (\<lambda>(c, v) values. AList.update c v values) ps vs))"
  by (induction ps arbitrary: vs) (auto simp: distinct_update)

lemma distinct_TemplateValues: "distinct (map fst (TemplateValues deviceID extras))"
  unfolding TemplateValues_assignments by (rule distinct_fold_update) simp

text \<open>A list of assignments without contradiction is the same map in every order.\<close>

lemma map_of_consistent:
  assumes "\<And>p q. p \<in> set ps \<Longrightarrow> q \<in> set ps \<Longrightarrow> fst p = fst q \<Longrightarrow> snd p = snd q"
  shows "map_of ps k = Some v \<longleftrightarrow> (k, v) \<in> set ps"
proof
  show "map_of ps k = Some v \<Longrightarrow> (k, v) \<in> set ps" by (rule map_of_SomeD)
next
  assume kv: "(k, v) \<in> set ps"
  then obtain u where "map_of ps k = Some u" by (meson weak_map_of_SomeI)
  moreover from this have "(k, u) \<in> set ps" by (rule map_of_SomeD)
  ultimately show "map_of ps k = Some v" using assms [OF kv, of "(k, u)"] by simp
qed

lemma set_TemplateValues_order:
  assumes "mset extras' = mset extras" "unambiguous extras"
  shows "set (TemplateValues deviceID extras') = set (TemplateValues deviceID extras)"
proof -
  have sets: "set (assignments extras') = set (assignments extras)"
    using mset_eq_setD [OF assms(1)] by (simp add: assignments_def)
  have con: "snd p = snd q" if "p \<in> set (assignments extras)" "q \<in> set (assignments extras)" "fst p = fst q" for p q
    using assms(2) that unfolding unambiguous_def list_all_iff by blast
  have "map_of (rev (assignments extras')) k = map_of (rev (assignments extras)) k" for k
  proof -
    have read: "map_of (rev ps) k = Some v \<longleftrightarrow> (k, v) \<in> set (assignments extras)"
      if "set ps = set (assignments extras)" for ps v
    proof -
      have "map_of (rev ps) k = Some v \<longleftrightarrow> (k, v) \<in> set (rev ps)"
        by (rule map_of_consistent) (metis con that set_rev)
      then show ?thesis using that by simp
    qed
    have "map_of (rev (assignments extras')) k = Some v \<longleftrightarrow> map_of (rev (assignments extras)) k = Some v" for v
      unfolding read [OF sets] read [OF refl] by (rule refl)
    then show ?thesis by (metis option.exhaust)
  qed
  then have "map_of (TemplateValues deviceID extras') = map_of (TemplateValues deviceID extras)"
    by (simp add: TemplateValues_assignments map_of_fold_update fun_eq_iff map_add_def)
  then show ?thesis unfolding set_map_of_compr [OF distinct_TemplateValues] by simp
qed

lemma matching_order:
  assumes "set ps' = set ps" "distinct (map fst ps)" "prefix_free ps"
  shows "matching ps' s = matching ps s"
proof (cases "matching ps s")
  case None
  then have "matching ps' s = None" using assms(1) by (auto simp: matching_def find_None_iff)
  with None show ?thesis by simp
next
  case (Some p)
  then have p: "p \<in> set ps" "fst p \<noteq> []" "prefix (fst p) s" by (auto simp: matching_def find_Some_iff)
  have only: "q = p" if "q \<in> set ps" "prefix (fst q) s" for q
  proof -
    have "prefix (fst q) (fst p) \<or> prefix (fst p) (fst q)" using that(2) p(3) by (rule prefix_same_cases)
    then have "fst q = fst p" using assms(3) p(1) that(1) unfolding prefix_free_def list_all_iff by metis
    with assms(2) that(1) p(1) show ?thesis by (auto dest: distinct_key_unique)
  qed
  have "matching ps' s \<noteq> None" unfolding matching_def find_None_iff using p assms(1) by blast
  then obtain q where q: "matching ps' s = Some q" by blast
  then have "q \<in> set ps" "prefix (fst q) s" using assms(1) by (auto simp: matching_def find_Some_iff)
  with only q Some show ?thesis by simp
qed

lemma Replace_order:
  assumes "set ps' = set ps" "distinct (map fst ps)" "prefix_free ps"
  shows "Replace ps' s = Replace ps s"
proof -
  have "pairs = ps \<Longrightarrow> Replace ps' s = Replace pairs s" for pairs
    by (induction pairs s rule: Replace.induct) (auto simp: matching_order [OF assms] split: option.splits)
  then show ?thesis by simp
qed

text \<open>
  \<open>steady\<close>: the extras do not give one variable two values and no variable is a prefix of another.
  Then the rendered text is the same in every order of iteration.
\<close>

definition steady :: "string \<Rightarrow> obj \<Rightarrow> bool" where
  "steady deviceID extras \<longleftrightarrow> unambiguous extras \<and> prefix_free (TemplateValues deviceID extras)"

lemma RenderTemplate_steady:
  assumes "mset extras' = mset extras" "steady deviceID extras"
    and "\<forall>vs. mset (iterate vs) = mset vs" "\<forall>vs. mset (iterate' vs) = mset vs"
  shows "RenderTemplate iterate' content deviceID extras' = RenderTemplate iterate content deviceID extras"
proof -
  let ?vs = "TemplateValues deviceID extras"
  have free: "prefix_free ?vs" and un: "unambiguous extras" using assms(2) by (simp_all add: steady_def)
  have "set (iterate' (TemplateValues deviceID extras')) = set ?vs"
    using mset_eq_setD [OF assms(4) [rule_format]] set_TemplateValues_order [OF assms(1) un] by simp
  moreover have "set (iterate ?vs) = set ?vs" by (rule mset_eq_setD) (simp add: assms(3))
  ultimately show ?thesis
    unfolding RenderTemplate_def using Replace_order [OF _ distinct_TemplateValues free] by metis
qed

section \<open>Properties\<close>

text \<open>
  The rendered content of a managed file does not depend on the order in which Go iterates
  over the extras and over the variables, provided that the extras do not give one variable two
  values and that no variable is a prefix of another one.
\<close>

theorem RenderTemplate_order:
  assumes "mset extras' = mset extras" "unambiguous extras" "prefix_free (TemplateValues deviceID extras)"
    and "\<forall>vs. mset (iterate vs) = mset vs" "\<forall>vs. mset (iterate' vs) = mset vs"
  shows "RenderTemplate iterate' content deviceID extras' = RenderTemplate iterate content deviceID extras"
  using assms by (intro RenderTemplate_steady) (simp_all add: steady_def)

definition sample_extras :: obj where
  "sample_extras = [(''com.xmdm.site'', JStr '' Berlin ''), (''apps'', JArr [JStr ''a'', JStr [], JStr ''b''])]"

theorem RenderTemplate_order_witness:
  "RenderTemplate rev ''id DEVICE_ID in SITE: APPS'' ''d-1'' (rev sample_extras) = ''id d-1 in Berlin: a,b''"
proof -
  have "RenderTemplate rev ''id DEVICE_ID in SITE: APPS'' ''d-1'' (rev sample_extras)
      = RenderTemplate id ''id DEVICE_ID in SITE: APPS'' ''d-1'' sample_extras"
  proof (rule RenderTemplate_order)
    show "unambiguous sample_extras" "prefix_free (TemplateValues ''d-1'' sample_extras)" by code_simp+
  qed simp_all
  also have "\<dots> = ''id d-1 in Berlin: a,b''" by code_simp
  finally show ?thesis .
qed

text \<open>
  Without that proviso the content depends on the iteration order: with an extra \<open>DEVICE\<close>, which is a
  prefix of the built-in variable \<open>DEVICE_ID\<close>, two orders render the same template differently, so the
  checksum announced in a configuration need not be that of the content downloaded later.
\<close>

theorem RenderTemplate_ambiguous:
  "\<exists>iterate. (\<forall>vs. mset (iterate vs) = mset vs) \<and>
     RenderTemplate iterate ''DEVICE_ID'' ''d-1'' [(''DEVICE'', JStr ''x'')] \<noteq>
     RenderTemplate id ''DEVICE_ID'' ''d-1'' [(''DEVICE'', JStr ''x'')]"
proof (intro exI [of _ rev] conjI)
  show "RenderTemplate rev ''DEVICE_ID'' ''d-1'' [(''DEVICE'', JStr ''x'')] \<noteq>
     RenderTemplate id ''DEVICE_ID'' ''d-1'' [(''DEVICE'', JStr ''x'')]" by code_simp
qed simp

end
