(* ===== verification/Objects.thy ===== *)
theory Objects
  imports Database
begin

text \<open>
  \<open>Put\<close>, \<open>Get\<close> and \<open>Delete\<close> of \<open>artifacts/s3/store.go\<close>: a key holds at most one object. \<open>Put\<close> replaces
  what the key held, deleting a key without an object succeeds, getting one is an error, and a
  refused call changes nothing. The answer of \<open>Get\<close> is read to its end.
\<close>

definition object_call :: "((string \<times> string) list \<Rightarrow> (string \<times> string) list) \<Rightarrow> unit action" where
  "object_call f = (\<lambda>w.
     if object_ok (env w) (object_no w) then (Inr (), w\<lparr>objects := f (objects w), object_no := Suc (object_no w)\<rparr>)
     else (Inl (ErrText ''object store''), w\<lparr>object_no := Suc (object_no w)\<rparr>))"

definition object_Delete :: "string \<Rightarrow> unit action" where
  "object_Delete key =
     (if key = [] then throwE (ErrText ''missing artifact key'') else object_call (filter (\<lambda>x. fst x \<noteq> key)))"

definition object_Put :: "string \<Rightarrow> string \<Rightarrow> unit action" where
  "object_Put key content =
     (if key = [] then throwE (ErrText ''missing artifact key or body'')
      else object_call (\<lambda>os. (key, content) # filter (\<lambda>x. fst x \<noteq> key) os))"

definition object_Get :: "string \<Rightarrow> string action" where
  "object_Get key =
     (if key = [] then throwE (ErrText ''missing artifact key'')
      else bindE (object_call (\<lambda>os. os)) (\<lambda>_. (\<lambda>w.
        case map_of (objects w) key of
          None \<Rightarrow> (Inl (ErrText ''object store''), w)
        | Some content \<Rightarrow> (Inr content, w))))"

definition object_keys :: "world \<Rightarrow> string set" where
  "object_keys w = fst ` set (objects w)"

lemma object_keys_tick [simp]: "object_keys (tick_stmt w) = object_keys w"
  by (simp add: object_keys_def)

lemma object_keys_same: "objects w' = objects w \<Longrightarrow> object_keys w' = object_keys w"
  by (simp add: object_keys_def)

lemma post_object_call [wp]:
  "post (object_call f) w Q E =
     (if object_ok (env w) (object_no w) then Q () (w\<lparr>objects := f (objects w), object_no := Suc (object_no w)\<rparr>)
      else E (ErrText ''object store'') (w\<lparr>object_no := Suc (object_no w)\<rparr>))"
  by (simp add: object_call_def post_def)

lemma holds_objects [simp]:
  "holds P (w\<lparr>objects := x\<rparr>) = holds P w"
  "holds P (w\<lparr>object_no := n\<rparr>) = holds P w"
  by (simp_all add: holds_def)

lemma keeps_object_call [keeps_intros]: "keeps P (object_call f)"
  by (simp add: keeps_def wp)

lemma idles_object_call [keeps_intros]: "idles (object_call f)"
  by (simp add: idles_def wp)

end
