(* ===== verification/Cleanup.thy ===== *)
theory Cleanup
  imports Files Objects
begin

text \<open>
  The cleanup pass of \<open>artifactcleanup/cleanup.go\<close>: artifacts that no file, certificate or app
  version refers to are retired, their objects removed from the object store and their rows
  deleted. The pass is a sequence of separate statements and object-store calls, each of which
  may fail; it then returns what it has done so far together with the error.
\<close>

section \<open>The pass\<close>

record cleanup_result =
  Candidates :: "artifact list"
  Retired :: "artifact list"
  Deleted :: "artifact list"

definition no_result :: cleanup_result where
  "no_result = \<lparr>Candidates = [], Retired = [], Deleted = []\<rparr>"

text \<open>One artifact: the result so far is returned with the error when a call fails.\<close>

definition retire_candidate :: "string \<Rightarrow> cleanup_result \<Rightarrow> artifact \<Rightarrow> (artifact \<times> cleanup_result) action" where
  "retire_candidate tn res a =
     (if fb_status a = ''active''
      then bindE (RetireArtifact tn (fb_id a)) (\<lambda>r. returnE (r, res\<lparr>Retired := Retired res @ [r]\<rparr>))
      else returnE (a, res))"

fun cleanup_loop :: "string \<Rightarrow> cleanup_result \<Rightarrow> artifact list \<Rightarrow> (cleanup_result \<times> goerr option) action" where
  "cleanup_loop tn res [] = returnE (res, None)"
| "cleanup_loop tn res (a # as) =
     elseE (retire_candidate tn res a) (\<lambda>e. returnE (res, Some e)) (\<lambda>(current, res).
     elseE (object_Delete (a_storage_key current)) (\<lambda>e. returnE (res, Some e)) (\<lambda>_.
     elseE (DeleteArtifact tn (fb_id current)) (\<lambda>e. returnE (res, Some e)) (\<lambda>_.
     cleanup_loop tn (res\<lparr>Deleted := Deleted res @ [current]\<rparr>) as)))"

definition Run :: "string \<Rightarrow> bool \<Rightarrow> (cleanup_result \<times> goerr option) action" where
  "Run tn apply_changes =
     (if tn = [] then returnE (no_result, Some (ErrText ''missing tenant id''))
      else elseE (ListOrphanArtifacts tn) (\<lambda>e. returnE (no_result, Some e)) (\<lambda>cs.
        let res = no_result\<lparr>Candidates := cs\<rparr>
        in if \<not> apply_changes then returnE (res, None) else cleanup_loop tn res cs))"

section \<open>Only orphans are touched\<close>

text \<open>Everything but the artifacts.\<close>

definition but_artifacts :: "database \<Rightarrow> database" where
  "but_artifacts d = artifacts_update (\<lambda>_. []) d"

lemma but_artifacts_update [simp]: "but_artifacts (artifacts_update f d) = but_artifacts d"
  by (simp add: but_artifacts_def)

lemma but_artifacts_fields:
  assumes "but_artifacts d = but_artifacts d'"
  shows "files d = files d' \<and> certificates d = certificates d' \<and> app_versions d = app_versions d'"
  using arg_cong [OF assms, of files] arg_cong [OF assms, of certificates] arg_cong [OF assms, of app_versions]
  by (simp add: but_artifacts_def)

lemma orphan_cong: "but_artifacts d = but_artifacts d' \<Longrightarrow> orphan tn d a = orphan tn d' a"
  by (drule but_artifacts_fields) (simp add: orphan_def referenced_def)

text \<open>
  Throughout a pass that started from the tables \<open>d0\<close> and the objects \<open>os0\<close>, only rows and objects of
  artifacts that were orphans at the start have changed.
\<close>

definition untouched :: "string \<Rightarrow> database \<Rightarrow> (string \<times> string) list \<Rightarrow> world \<Rightarrow> bool" where
  "untouched tn d0 os0 w \<longleftrightarrow> txn w = None \<and> but_artifacts (db w) = but_artifacts d0 \<and>
     (\<forall>a. a \<in> set (artifacts d0) \<and> \<not> orphan tn d0 a \<longrightarrow> a \<in> set (artifacts (db w))) \<and>
     (\<forall>a \<in> set (artifacts (db w)). \<exists>b \<in> set (artifacts d0). rec_id b = rec_id a \<and> art_storage_key b = art_storage_key a) \<and>
     (\<forall>x. x \<in> set os0 \<and> \<not> list_ex (\<lambda>a. orphan tn d0 a \<and> art_storage_key a = fst x) (artifacts d0) \<longrightarrow> x \<in> set (objects w))"

text \<open>A candidate of the pass: an orphan, by its identifier and storage key.\<close>

definition candidate :: "string \<Rightarrow> database \<Rightarrow> artifact \<Rightarrow> bool" where
  "candidate tn d0 c \<longleftrightarrow>
     (\<exists>a. a \<in> set (artifacts d0) \<and> orphan tn d0 a \<and> rec_id a = fb_id c \<and> art_storage_key a = a_storage_key c)"

lemma only_orphan:
  assumes "distinct (map rec_id (artifacts d0))" "candidate tn d0 c" "a \<in> set (artifacts d0)" "rec_id a = fb_id c"
  shows "orphan tn d0 a"
proof -
  from assms(2) obtain b where "b \<in> set (artifacts d0)" "orphan tn d0 b" "rec_id b = fb_id c"
    by (auto simp: candidate_def)
  moreover from this assms have "b = a" by (auto dest: distinct_key_unique)
  ultimately show ?thesis by simp
qed

lemma post_retire_candidate:
  assumes "untouched tn d0 os0 w" "distinct (map rec_id (artifacts d0))" "candidate tn d0 c"
  shows "post (retire_candidate tn res c) w
     (\<lambda>(current, res') w'. untouched tn d0 os0 w' \<and> candidate tn d0 current) (\<lambda>_ w'. untouched tn d0 os0 w')"
proof -
  have upd: "untouched tn d0 os0 (w1\<lparr>db := artifacts_update (upd_where (by_id tn (fb_id c)) (retire_row t)) (db w)\<rparr>)"
    if "txn w1 = txn w" "objects w1 = objects w" for t w1
  proof -
    have "a \<in> set (upd_where (by_id tn (fb_id c)) (retire_row t) (artifacts (db w)))"
      if "a \<in> set (artifacts d0)" "\<not> orphan tn d0 a" for a
    proof -
      have "\<not> by_id tn (fb_id c) a" using only_orphan [OF assms(2,3) that(1)] that(2) by (auto simp: by_id_def)
      with that assms(1) show ?thesis by (auto simp: set_upd_where untouched_def)
    qed
    moreover have "\<exists>b \<in> set (artifacts d0). rec_id b = rec_id a \<and> art_storage_key b = art_storage_key a"
      if "a \<in> set (upd_where (by_id tn (fb_id c)) (retire_row t) (artifacts (db w)))" for a
      using that assms(1) by (auto simp: set_upd_where untouched_def)
    ultimately show ?thesis using that assms(1) by (simp add: untouched_def)
  qed
  have same: "art_storage_key a = a_storage_key c" if "a \<in> set (artifacts (db w))" "by_id tn (fb_id c) a" for a
    using that assms by (auto simp: untouched_def candidate_def by_id_def) (metis distinct_key_unique)
  have cur: "candidate tn d0 (scanArtifact (retire_row t a))"
    if "a \<in> set (artifacts (db w))" "by_id tn (fb_id c) a" for t a
    using assms(3) same that by (auto simp: candidate_def by_id_def)
  have tick: "untouched tn d0 os0 (tick_stmt (w\<lparr>ticks := n\<rparr>))" for n
    using assms(1) by (simp add: untouched_def)
  show ?thesis
    using assms(1,3) upd cur tick
    by (auto simp: retire_candidate_def RetireArtifact_def wp returning_def split: list.splits
        dest!: map_eq_Cons_D filter_single_mem)
qed

lemma post_object_Delete:
  assumes "untouched tn d0 os0 w" "candidate tn d0 c"
  shows "post (object_Delete (a_storage_key c)) w (\<lambda>_. untouched tn d0 os0) (\<lambda>_. untouched tn d0 os0)"
  using assms by (auto simp: object_Delete_def wp untouched_def candidate_def list_ex_iff)

lemma post_DeleteArtifact:
  assumes "untouched tn d0 os0 w" "distinct (map rec_id (artifacts d0))" "candidate tn d0 c"
  shows "post (DeleteArtifact tn (fb_id c)) w (\<lambda>_. untouched tn d0 os0) (\<lambda>_. untouched tn d0 os0)"
proof -
  have "a \<in> set (filter (\<lambda>a. \<not> by_id tn (fb_id c) a) (artifacts (db w)))"
    if "a \<in> set (artifacts d0)" "\<not> orphan tn d0 a" for a
    using only_orphan [OF assms(2,3) that(1)] that assms(1) by (auto simp: by_id_def untouched_def)
  with assms(1) show ?thesis
    by (auto simp: DeleteArtifact_def delete_artifact_def delete_rows_def wp untouched_def)
qed

lemma cleanup_loop_spares:
  assumes "untouched tn d0 os0 w" "distinct (map rec_id (artifacts d0))" "list_all (candidate tn d0) cs"
  shows "post (cleanup_loop tn res cs) w (\<lambda>_. untouched tn d0 os0) (\<lambda>_. untouched tn d0 os0)"
  using assms(1,3)
proof (induction cs arbitrary: res w)
  case Nil
  then show ?case by (simp add: wp)
next
  case (Cons c cs)
  then have c: "candidate tn d0 c" and cs: "list_all (candidate tn d0) cs" by simp_all
  note retire = post_retire_candidate [OF Cons.prems(1) assms(2) c]
  show ?case
    unfolding cleanup_loop.simps post_elseE post_returnE
  proof (rule post_mono [OF retire], goal_cases)
    case (1 x w1)
    obtain cur res1 where x: "x = (cur, res1)" by (cases x)
    from 1 have w1: "untouched tn d0 os0 w1" and cur: "candidate tn d0 cur" by (simp_all add: x)
    show ?case
      unfolding x prod.case post_elseE post_returnE
      by (rule post_mono [OF post_object_Delete [OF w1 cur]])
        (auto intro: post_mono [OF post_DeleteArtifact [OF _ assms(2) cur]] Cons.IH [OF _ cs])
  qed simp
qed

lemma untouched_start:
  assumes "txn w = None"
  shows "untouched tn (db w) (objects w) w"
  using assms by (auto simp: untouched_def)

lemma orphans_candidates:
  "list_all (candidate tn d) (map scanArtifact (sort_key created_at (filter (orphan tn d) (artifacts d))))"
  by (auto simp: list_all_iff candidate_def)

lemma post_Run:
  assumes "txn w = None" "distinct (map rec_id (artifacts (db w)))"
  shows "post (Run tn b) w (\<lambda>_. untouched tn (db w) (objects w)) (\<lambda>_. untouched tn (db w) (objects w))"
proof -
  let ?U = "untouched tn (db w) (objects w)"
  have start: "?U (tick_stmt w)" "?U w" using assms(1) by (auto simp: untouched_def)
  note loop = cleanup_loop_spares [OF start(1) assms(2) orphans_candidates]
  show ?thesis
    using start loop by (cases "tn = []") (simp_all add: Run_def ListOrphanArtifacts_def wp Let_def)
qed

section \<open>A pass in which nothing fails\<close>

text \<open>
  With every statement and every call of the object store succeeding, the loop gets through its
  list: each candidate is deleted, row and object.
\<close>

definition all_succeed :: "world \<Rightarrow> bool" where
  "all_succeed w \<longleftrightarrow> no_faults w \<and> (\<forall>n. object_ok (env w) n)"

lemma retire_single:
  assumes "distinct (map rec_id rs)" "a \<in> set rs" "by_id tn i a"
  shows "returning (by_id tn i) f rs = [f a]"
  using filter_key_single [OF assms(1,2), of "by_id tn i"] assms(3) by (simp add: returning_def by_id_def)

lemma filter_upd_where_by_id:
  "(\<And>r. by_id tn i (f r) = by_id tn i r) \<Longrightarrow>
   filter (\<lambda>a. \<not> by_id tn i a) (upd_where (by_id tn i) f rs) = filter (\<lambda>a. \<not> by_id tn i a) rs"
  by (induction rs) (simp_all add: upd_where_def)

lemma retire_candidate_succeeds:
  assumes "all_succeed w" "txn w = None" "distinct (map rec_id (artifacts (db w)))"
    and a: "a \<in> set (artifacts (db w))" "rec_tenant a = tn"
  shows "post (retire_candidate tn res (scanArtifact a)) w
     (\<lambda>(c, res') w'. fb_id c = rec_id a \<and> a_storage_key c = art_storage_key a \<and>
        Deleted res' = Deleted res \<and> Candidates res' = Candidates res \<and>
        txn w' = None \<and> env w' = env w \<and> objects w' = objects w \<and>
        (\<exists>f. (\<forall>r. tenant_id (f r) = tenant_id r) \<and>
          db w' = artifacts_update (upd_where (by_id tn (rec_id a)) f) (db w)))
     (\<lambda>_ _. False)"
proof -
  have one: "returning (by_id tn (rec_id a)) f (artifacts (db w)) = [f a]" for f
    by (rule retire_single [OF assms(3) a(1)]) (simp add: by_id_def a(2))
  have "upd_where (by_id tn (rec_id a)) (\<lambda>r. r) rs = rs" for rs :: "artifact_row list"
    by (simp add: upd_where_def)
  then have "\<exists>f. (\<forall>r :: artifact_row. tenant_id (f r) = tenant_id r) \<and>
      db w = artifacts_update (upd_where (by_id tn (rec_id a)) f) (db w)"
    by (intro exI [of _ "\<lambda>r. r"]) (simp add: artifacts_t.put_same)
  then show ?thesis
    using assms(1,2)
    by (auto simp: retire_candidate_def RetireArtifact_def wp one all_succeed_def tenant_id_def
        intro!: exI [of _ "retire_row _"])
qed

lemma object_Delete_succeeds:
  assumes "all_succeed w" "k \<noteq> []"
  shows "post (object_Delete k) w
     (\<lambda>_ w'. txn w' = txn w \<and> env w' = env w \<and> db w' = db w \<and> object_keys w' = object_keys w - {k})
     (\<lambda>_ _. False)"
  using assms by (auto simp: object_Delete_def wp all_succeed_def object_keys_def)

lemma DeleteArtifact_succeeds:
  assumes "all_succeed w" "\<forall>a \<in> set (artifacts (db w)). by_id tn i a \<longrightarrow> \<not> referenced (db w) a"
  shows "post (DeleteArtifact tn i) w
     (\<lambda>_ w'. txn w' = txn w \<and> env w' = env w \<and> objects w' = objects w \<and>
        db w' = artifacts_update (filter (\<lambda>a. \<not> by_id tn i a)) (db w))
     (\<lambda>_ _. False)"
  using assms by (auto simp: DeleteArtifact_def delete_artifact_def delete_rows_def wp all_succeed_def list_ex_iff)

definition removed :: "string \<Rightarrow> artifact_row list \<Rightarrow> artifact_row \<Rightarrow> bool" where
  "removed tn as a \<longleftrightarrow> (\<exists>b \<in> set as. by_id tn (rec_id b) a)"

lemma cleanup_loop_completes:
  assumes "all_succeed w" "txn w = None" "distinct (map rec_id (artifacts (db w)))" "distinct (map rec_id as)"
    and "\<forall>a \<in> set as. a \<in> set (artifacts (db w)) \<and> orphan tn (db w) a \<and> art_storage_key a \<noteq> []"
  shows "post (cleanup_loop tn res (map scanArtifact as)) w
     (\<lambda>(res', e) w'. e = None \<and> map fb_id (Deleted res') = map fb_id (Deleted res) @ map rec_id as \<and>
        Candidates res' = Candidates res \<and> txn w' = None \<and> env w' = env w \<and>
        db w' = artifacts_update (filter (\<lambda>a. \<not> removed tn as a)) (db w) \<and>
        object_keys w' = object_keys w - art_storage_key ` set as)
     (\<lambda>_ _. False)"
  using assms
proof (induction as arbitrary: res w)
  case Nil
  then show ?case by (simp add: wp removed_def artifacts_t.put_same)
next
  case (Cons a as)
  note w = Cons.prems(1-3)
  have a: "a \<in> set (artifacts (db w))" "rec_tenant a = tn" "orphan tn (db w) a" "art_storage_key a \<noteq> []"
    using Cons.prems(5) by (auto simp: orphan_def)
  have env: "all_succeed w'" if "env w' = env w" for w' using w(1) that by (simp add: all_succeed_def no_faults_def)
  show ?case
    unfolding list.map cleanup_loop.simps post_elseE post_returnE
  proof (rule post_mono [OF retire_candidate_succeeds [OF w a(1,2)]], goal_cases)
    case (1 x w1)
    obtain c res1 where x: "x = (c, res1)" by (cases x)
    from 1 obtain f where c: "fb_id c = rec_id a" "a_storage_key c = art_storage_key a"
      and res1: "Deleted res1 = Deleted res" "Candidates res1 = Candidates res"
      and w1: "txn w1 = None" "env w1 = env w" "objects w1 = objects w"
      and f: "\<forall>r. tenant_id (f r) = tenant_id r"
      and d1: "db w1 = artifacts_update (upd_where (by_id tn (rec_id a)) f) (db w)"
      by (auto simp: x)
    show ?case
      unfolding x prod.case post_elseE post_returnE c
    proof (rule post_mono [OF object_Delete_succeeds [OF env [OF w1(2)] a(4)]], goal_cases)
      case (1 u w2)
      then have w2: "txn w2 = None" "env w2 = env w" "db w2 = db w1"
        "object_keys w2 = object_keys w - {art_storage_key a}"
        using w1 object_keys_same [OF w1(3)] by simp_all
      have free: "\<forall>b \<in> set (artifacts (db w2)). by_id tn (rec_id a) b \<longrightarrow> \<not> referenced (db w2) b"
      proof (intro ballI impI)
        fix b assume "b \<in> set (artifacts (db w2))" and b: "by_id tn (rec_id a) b"
        have "referenced (db w2) b = referenced (db w) a"
          using b a(2) by (simp add: referenced_def w2(3) d1 by_id_def)
        with a(3) show "\<not> referenced (db w2) b" by (simp add: orphan_def)
      qed
      have d3: "artifacts_update (filter (\<lambda>b. \<not> by_id tn (rec_id a) b)) (db w2)
          = artifacts_update (filter (\<lambda>b. \<not> by_id tn (rec_id a) b)) (db w)"
      proof -
        have "filter (\<lambda>b. \<not> by_id tn (rec_id a) b) (upd_where (by_id tn (rec_id a)) f (artifacts (db w)))
            = filter (\<lambda>b. \<not> by_id tn (rec_id a) b) (artifacts (db w))"
          by (rule filter_upd_where_by_id) (use f in \<open>simp add: by_id_tenant_id\<close>)
        then show ?thesis
          unfolding w2(3) d1 by (simp add: comp_def)
      qed
      show ?case
        unfolding post_elseE post_returnE c
      proof (rule post_mono [OF DeleteArtifact_succeeds [OF env [OF w2(2)] free]], goal_cases)
        case (1 v w3)
        then have w3: "txn w3 = None" "env w3 = env w" "object_keys w3 = object_keys w - {art_storage_key a}"
          and d: "db w3 = artifacts_update (filter (\<lambda>b. \<not> by_id tn (rec_id a) b)) (db w)"
          using w2 d3 object_keys_same [of w3 w2] by simp_all
        have rest: "\<forall>b \<in> set as. b \<in> set (artifacts (db w3)) \<and> orphan tn (db w3) b \<and> art_storage_key b \<noteq> []"
        proof
          fix b assume b: "b \<in> set as"
          then have "rec_id b \<noteq> rec_id a" using Cons.prems(4) by (auto simp: image_iff)
          moreover have "orphan tn (db w3) b = orphan tn (db w) b" by (rule orphan_cong) (simp add: d)
          moreover have "b \<in> set (artifacts (db w)) \<and> orphan tn (db w) b \<and> art_storage_key b \<noteq> []"
            using b Cons.prems(5) by simp
          ultimately show "b \<in> set (artifacts (db w3)) \<and> orphan tn (db w3) b \<and> art_storage_key b \<noteq> []"
            by (simp add: d by_id_def)
        qed
        have "filter (\<lambda>b. \<not> removed tn as b \<and> \<not> by_id tn (rec_id a) b) rs
            = filter (\<lambda>b. \<not> removed tn (a # as) b) rs" for rs
          by (rule filter_cong) (auto simp: removed_def)
        then have gone: "artifacts_update (filter (\<lambda>b. \<not> removed tn as b)) (db w3)
            = artifacts_update (filter (\<lambda>b. \<not> removed tn (a # as) b)) (db w)"
          unfolding d by (simp add: comp_def conj_commute)
        have ids: "distinct (map rec_id (artifacts (db w3)))" "distinct (map rec_id as)"
          using w(3) Cons.prems(4) by (simp_all add: d distinct_map_filter)
        show ?case
          by (rule post_mono [OF Cons.IH [OF env [OF w3(2)] w3(1) ids rest]])
            (auto simp: gone res1 c w3)
      qed simp
    qed simp
  qed simp
qed

section \<open>Properties\<close>

text \<open>
  C39: The pass spares what is in use, whatever statement or object-store call fails in it: it
  changes no table but the artifacts, the rows stay well-formed, every artifact that a file, a
  certificate or an app version refers to keeps its row unchanged and its object, and without
  \<open>apply\<close> nothing changes at all.
\<close>

theorem Run_spares_used:
  assumes "txn w = None" "asset_schema (db w)"
  shows "but_artifacts (db (snd (Run tn b w))) = but_artifacts (db w) \<and>
     (\<forall>a. a \<in> set (artifacts (db w)) \<and> \<not> orphan tn (db w) a \<longrightarrow>
        a \<in> set (artifacts (db (snd (Run tn b w)))) \<and>
        (\<forall>content. rec_tenant a = tn \<and> (art_storage_key a, content) \<in> set (objects w) \<longrightarrow>
           (art_storage_key a, content) \<in> set (objects (snd (Run tn b w))))) \<and>
     (\<not> b \<longrightarrow> db (snd (Run tn b w)) = db w \<and> objects (snd (Run tn b w)) = objects w)"
proof -
  let ?w = "snd (Run tn b w)"
  have ids: "distinct (map rec_id (artifacts (db w)))" and keys: "distinct (map storage_key (artifacts (db w)))"
    using assms(2) by (simp_all add: asset_schema_def)
  have u: "untouched tn (db w) (objects w) ?w"
    using post_Run [OF assms(1) ids, of tn b] by (simp add: post_snd)
  have used: "\<not> list_ex (\<lambda>b. orphan tn (db w) b \<and> art_storage_key b = art_storage_key a) (artifacts (db w))"
    if a: "a \<in> set (artifacts (db w))" "\<not> orphan tn (db w) a" "rec_tenant a = tn" for a
  proof
    assume "list_ex (\<lambda>b. orphan tn (db w) b \<and> art_storage_key b = art_storage_key a) (artifacts (db w))"
    then obtain c where "c \<in> set (artifacts (db w))" "orphan tn (db w) c" "storage_key c = storage_key a"
      using a(3) by (auto simp: list_ex_iff storage_key_def orphan_def)
    with distinct_key_unique [OF keys this(1) a(1) this(3)] a(2) show False by simp
  qed
  have "db ?w = db w \<and> objects ?w = objects w" if "\<not> b"
  proof -
    have "post (Run tn b) w (\<lambda>_ w'. db w' = db w \<and> objects w' = objects w) (\<lambda>_ w'. db w' = db w \<and> objects w' = objects w)"
      using that by (simp add: Run_def ListOrphanArtifacts_def wp Let_def)
    then show ?thesis by (simp add: post_snd)
  qed
  with u used show ?thesis by (auto simp: untouched_def)
qed

text \<open>An artifact in use and two nothing refers to, one of them already retired.\<close>

definition cleanup_database :: database where
  "cleanup_database = asset_database\<lparr>artifacts := artifacts asset_database @
     [\<lparr>rec_id = ''o'', rec_tenant = ''t'', rec_status = ''active'', created_at = 3, updated_at = 3,
       deleted_at = None, art_storage_key = ''old'', art_checksum = ''x'', art_size = 1, art_mime = ''apk''\<rparr>,
      \<lparr>rec_id = ''p'', rec_tenant = ''t'', rec_status = ''retired'', created_at = 2, updated_at = 2,
       deleted_at = Some 2, art_storage_key = ''gone'', art_checksum = ''y'', art_size = 1, art_mime = ''apk''\<rparr>]\<rparr>"

definition cleanup_world :: world where
  "cleanup_world = (world_of cleanup_database)\<lparr>objects := [(''k'', ''data''), (''old'', ''data'')]\<rparr>"

lemma cleanup_sample:
  "asset_schema (db cleanup_world)" "txn cleanup_world = None" "all_succeed cleanup_world"
  "filter (orphan ''t'' (db cleanup_world)) (artifacts (db cleanup_world)) = tl (artifacts cleanup_database)"
  by (simp_all add: cleanup_world_def cleanup_database_def asset_database_def empty_database_def asset_schema_def
      artifact_ok_def file_ok_def life_ok_def by_id_def all_succeed_def sample_env_def world_of_def no_faults_def
      orphan_def referenced_def storage_key_def)

theorem Run_spares_used_witness:
  "\<exists>a. a \<in> set (artifacts (db (snd (Run ''t'' True cleanup_world)))) \<and> art_storage_key a = ''k'' \<and>
     (''k'', ''data'') \<in> set (objects (snd (Run ''t'' True cleanup_world)))"
proof -
  let ?a = "hd (artifacts cleanup_database)"
  have a: "?a \<in> set (artifacts (db cleanup_world)) \<and> \<not> orphan ''t'' (db cleanup_world) ?a"
    "rec_tenant ?a = ''t'' \<and> art_storage_key ?a = ''k'' \<and> (art_storage_key ?a, ''data'') \<in> set (objects cleanup_world)"
    by (simp_all add: cleanup_world_def cleanup_database_def asset_database_def empty_database_def orphan_def
        referenced_def)
  with Run_spares_used [OF cleanup_sample(2,1), of "''t''" True] show ?thesis by metis
qed

text \<open>
  C40: When every statement and every object-store call succeeds, the pass ends without an error and
  has deleted exactly the orphans: each candidate is reported deleted, the remaining rows are
  those that were in use, no orphan's object is left, and another pass finds no candidate.
\<close>

theorem Run_completes:
  assumes "all_succeed w" "txn w = None" "asset_schema (db w)" "tn \<noteq> []"
  shows "\<exists>res. fst (Run tn True w) = Inr (res, None) \<and>
     map fb_id (Deleted res) = map fb_id (Candidates res) \<and>
     set (map fb_id (Candidates res)) = rec_id ` {a. a \<in> set (artifacts (db w)) \<and> orphan tn (db w) a} \<and>
     db (snd (Run tn True w)) = artifacts_update (filter (\<lambda>a. \<not> orphan tn (db w) a)) (db w) \<and>
     (\<forall>a. a \<in> set (artifacts (db w)) \<and> orphan tn (db w) a \<longrightarrow>
        art_storage_key a \<notin> object_keys (snd (Run tn True w))) \<and>
     fst (ListOrphanArtifacts tn (snd (Run tn True w))) = Inr []"
proof -
  let ?as = "sort_key created_at (filter (orphan tn (db w)) (artifacts (db w)))"
  let ?w = "snd (Run tn True w)"
  let ?d = "artifacts_update (filter (\<lambda>a. \<not> orphan tn (db w) a)) (db w)"
  have ids: "distinct (map rec_id (artifacts (db w)))"
    and keyed: "\<forall>a \<in> set (artifacts (db w)). art_storage_key a \<noteq> []"
    using assms(3) by (auto simp: asset_schema_def list_all_iff artifact_ok_def)
  have nf: "no_faults (tick_stmt w)" using assms(1) by (simp add: all_succeed_def no_faults_def)
  have inj: "inj_on rec_id (set (artifacts (db w)))" "distinct (artifacts (db w))" using ids by (simp_all add: distinct_map)
  then have "distinct (map rec_id ?as)" by (auto simp: distinct_map intro: inj_on_subset)
  moreover have "removed tn ?as a \<longleftrightarrow> orphan tn (db w) a" if "a \<in> set (artifacts (db w))" for a
    using that inj_onD [OF inj(1)] by (auto simp: removed_def by_id_def orphan_def)
  then have left: "artifacts_update (filter (\<lambda>a. \<not> removed tn ?as a)) (db w) = ?d"
    by (intro artifacts_t.put_cong filter_cong) simp_all
  ultimately have "post (Run tn True) w (\<lambda>(res, e) w'. e = None \<and> map fb_id (Deleted res) = map rec_id ?as \<and>
      Candidates res = map scanArtifact ?as \<and> env w' = env w \<and> db w' = ?d \<and>
      object_keys w' = object_keys w - art_storage_key ` set ?as) (\<lambda>_ _. False)"
    (is "post _ _ ?Q _")
    using assms(1,2,4) ids keyed nf
    by (auto simp: Run_def ListOrphanArtifacts_def wp Let_def all_succeed_def no_result_def left
        intro!: post_mono [OF cleanup_loop_completes])
  then obtain res where run: "fst (Run tn True w) = Inr (res, None)" "?Q (res, None) ?w"
    by (cases "Run tn True w") (auto simp: post_def split: sum.splits)
  have "\<not> faulty ?w" using run(2) assms(1) by (simp add: faulty_def all_succeed_def no_faults_def)
  moreover have "filter (orphan tn ?d) (artifacts ?d) = []"
  proof -
    have "orphan tn ?d a = orphan tn (db w) a" for a by (rule orphan_cong) simp
    then show ?thesis by (simp add: filter_empty_conv)
  qed
  ultimately have "fst (ListOrphanArtifacts tn ?w) = Inr []"
    using run(2) by (simp add: ListOrphanArtifacts_def query_def)
  with run show ?thesis by (intro exI [of _ res]) (auto simp: comp_def)
qed

theorem Run_completes_witness:
  "\<exists>res. fst (Run ''t'' True cleanup_world) = Inr (res, None) \<and> set (map fb_id (Candidates res)) = {''o'', ''p''} \<and>
     fst (ListOrphanArtifacts ''t'' (snd (Run ''t'' True cleanup_world))) = Inr []"
proof -
  have "{a. a \<in> set (artifacts (db cleanup_world)) \<and> orphan ''t'' (db cleanup_world) a} = set (tl (artifacts cleanup_database))"
    using arg_cong [OF cleanup_sample(4), of set] by auto
  moreover have "rec_id ` set (tl (artifacts cleanup_database)) = {''o'', ''p''}"
    by (auto simp: cleanup_database_def asset_database_def)
  ultimately show ?thesis using Run_completes [OF cleanup_sample(3,2,1), of "''t''"] by auto
qed

end
