(* ===== verification/Snapshot.thy ===== *)
theory Snapshot
  imports Json Tokens Policies
begin

unbundle bit_operations_syntax

text \<open>
  The configuration snapshot of a device and its signature: the structs of
  \<open>enrollment/model.go\<close> and \<open>enrollment/file_snapshot.go\<close> with their JSON encoding, and
  \<open>enrollment/snapshot.go\<close>. A snapshot is signed with HMAC-SHA256 over a canonical JSON text in which
  object keys have a fixed order; the key is the device's secret.
\<close>

section \<open>Data\<close>

record runtime_snapshot =
  rt_mqtt_address :: string
  rt_poll_interval :: int
  rt_sync_interval :: int

record policy_restrictions =
  pr_allow :: "string list"
  pr_block :: "string list"
  pr_suspend :: "string list"
  pr_keep_screen_on :: bool
  pr_stay_awake :: bool
  pr_unlock_on_boot :: bool
  pr_passcode_hash :: string

record policy_snapshot =
  sp_name :: string
  sp_version :: int
  sp_kiosk_mode :: bool
  sp_kiosk_app :: string
  sp_restrictions :: policy_restrictions

record app_snapshot =
  sa_app_id :: string
  sa_package :: string
  sa_name :: string
  sa_version_id :: string
  sa_version_name :: string
  sa_version_code :: int
  sa_artifact_id :: string
  sa_checksum :: string
  sa_path :: string

record managed_file_snapshot =
  sf_file_id :: string
  sf_name :: string
  sf_path :: string
  sf_download :: string
  sf_checksum :: string
  sf_mime :: string
  sf_description :: string
  sf_remove :: bool
  sf_replace :: bool

record certificate_snapshot =
  sc_id :: string
  sc_name :: string
  sc_artifact_id :: string
  sc_checksum :: string
  sc_path :: string

record config_snapshot =
  cfg_version :: string
  cfg_runtime :: runtime_snapshot
  cfg_device :: string
  cfg_policy :: policy_snapshot
  cfg_apps :: "app_snapshot list"
  cfg_files :: "managed_file_snapshot list"
  cfg_certificates :: "certificate_snapshot list"
  cfg_signature :: string

section \<open>JSON encoding\<close>

text \<open>\<open>strconv.FormatInt(n, 10)\<close>.\<close>

fun format_nat :: "nat \<Rightarrow> string" where
  "format_nat n = (if n < 10 then [hex_digit n] else format_nat (n div 10) @ [hex_digit (n mod 10)])"

declare format_nat.simps [simp del]

definition FormatInt :: "int \<Rightarrow> string" where
  "FormatInt n = (if n < 0 then CHR ''-'' # format_nat (nat (- n)) else format_nat (nat n))"

definition int_entry :: "string \<Rightarrow> int \<Rightarrow> obj" where
  "int_entry k n = (if n = 0 then [] else [(k, JNum (FormatInt n))])"

definition runtime_json :: "runtime_snapshot \<Rightarrow> json" where
  "runtime_json r = JObj (string_entry ''mqttAddress'' (rt_mqtt_address r) @
     int_entry ''commandPollIntervalMs'' (rt_poll_interval r) @
     int_entry ''configSyncIntervalMs'' (rt_sync_interval r))"

definition restrictions_json :: "policy_restrictions \<Rightarrow> json" where
  "restrictions_json r = JObj (strings_entry ''allowPackages'' (pr_allow r) @
     strings_entry ''blockPackages'' (pr_block r) @ strings_entry ''suspendPackages'' (pr_suspend r) @
     bool_entry ''kioskKeepScreenOn'' (pr_keep_screen_on r) @
     bool_entry ''kioskStayAwakeWhilePluggedIn'' (pr_stay_awake r) @
     bool_entry ''kioskUnlockOnBoot'' (pr_unlock_on_boot r) @
     string_entry ''kioskExitPasscodeHash'' (pr_passcode_hash r))"

definition policy_json :: "policy_snapshot \<Rightarrow> json" where
  "policy_json p = JObj (string_entry ''name'' (sp_name p) @ int_entry ''version'' (sp_version p) @
     [(''kioskMode'', JBool (sp_kiosk_mode p))] @ string_entry ''kioskAppPackage'' (sp_kiosk_app p) @
     [(''restrictions'', restrictions_json (sp_restrictions p))])"

definition app_json :: "app_snapshot \<Rightarrow> json" where
  "app_json a = JObj ([(''appId'', JStr (sa_app_id a)), (''packageName'', JStr (sa_package a))] @
     string_entry ''name'' (sa_name a) @
     [(''versionId'', JStr (sa_version_id a)), (''versionName'', JStr (sa_version_name a)),
      (''versionCode'', JNum (FormatInt (sa_version_code a))), (''artifactId'', JStr (sa_artifact_id a)),
      (''checksum'', JStr (sa_checksum a)), (''downloadPath'', JStr (sa_path a))])"

definition managed_file_json :: "managed_file_snapshot \<Rightarrow> json" where
  "managed_file_json f = JObj ([(''fileId'', JStr (sf_file_id f)), (''name'', JStr (sf_name f)),
      (''path'', JStr (sf_path f)), (''downloadPath'', JStr (sf_download f)),
      (''checksum'', JStr (sf_checksum f)), (''mimeType'', JStr (sf_mime f))] @
     string_entry ''description'' (sf_description f) @ bool_entry ''remove'' (sf_remove f) @
     bool_entry ''replaceVariables'' (sf_replace f))"

definition certificate_json :: "certificate_snapshot \<Rightarrow> json" where
  "certificate_json c = JObj [(''id'', JStr (sc_id c)), (''name'', JStr (sc_name c)),
     (''artifactId'', JStr (sc_artifact_id c)), (''checksum'', JStr (sc_checksum c)),
     (''downloadPath'', JStr (sc_path c))]"

definition config_json :: "config_snapshot \<Rightarrow> json" where
  "config_json c = JObj [(''version'', JStr (cfg_version c)), (''runtime'', runtime_json (cfg_runtime c)),
     (''device'', JObj [(''deviceId'', JStr (cfg_device c))]), (''policy'', policy_json (cfg_policy c)),
     (''apps'', JArr (map app_json (cfg_apps c))), (''files'', JArr (map managed_file_json (cfg_files c))),
     (''certificates'', JArr (map certificate_json (cfg_certificates c))),
     (''signature'', JStr (cfg_signature c))]"

section \<open>Canonical JSON\<close>

definition snapshotFieldOrder :: "string list" where
  "snapshotFieldOrder = [''version'', ''runtime'', ''device'', ''policy'', ''apps'', ''files'',
     ''certificates'', ''signature'']"

definition canonicalObjectKeys :: "string list \<Rightarrow> string list" where
  "canonicalObjectKeys keys =
     (let ordered = filter (\<lambda>k. k \<in> set keys) snapshotFieldOrder
      in if ordered \<noteq> [] \<and> length ordered = length keys then ordered else sort keys)"

fun canonicalJSON :: "json \<Rightarrow> string" where
  "canonicalJSON JNull = ''null''"
| "canonicalJSON (JBool b) = (if b then ''true'' else ''false'')"
| "canonicalJSON (JStr s) = quote s"
| "canonicalJSON (JNum n) = n"
| "canonicalJSON (JArr xs) = CHR ''['' # joined '','' (map canonicalJSON xs) @ '']''"
| "canonicalJSON (JObj kvs) =
     (let texts = map (\<lambda>kv. (fst kv, canonicalJSON (snd kv))) kvs
      in CHR ''{'' # joined '','' (map (\<lambda>k. quote k @ CHR '':'' # the (map_of texts k))
           (canonicalObjectKeys (map fst kvs))) @ ''}'')"

text \<open>
  \<open>json.Marshal\<close> followed by \<open>json.Unmarshal\<close> into \<open>any\<close>: numbers pass through \<open>float64\<close>, bytes that are
  not UTF-8 become U+FFFD.
\<close>

function to_valid :: "string \<Rightarrow> string" where
  "to_valid [] = []"
| "to_valid (c # s) =
     (let n = rune_size (c # s)
      in if n = 0 then [CHR 0xEF, CHR 0xBF, CHR 0xBD] @ to_valid s
         else take n (c # s) @ to_valid (drop n (c # s)))"
  by pat_completeness auto
termination by (relation "measure length") auto

fun normalized :: "(string \<Rightarrow> string) \<Rightarrow> json \<Rightarrow> json" where
  "normalized ft JNull = JNull"
| "normalized ft (JBool b) = JBool b"
| "normalized ft (JNum n) = JNum (ft n)"
| "normalized ft (JStr s) = JStr (to_valid s)"
| "normalized ft (JArr xs) = JArr (map (normalized ft) xs)"
| "normalized ft (JObj kvs) = JObj (map (\<lambda>kv. (to_valid (fst kv), normalized ft (snd kv))) kvs)"

section \<open>HMAC-SHA256\<close>

definition pad_key :: "(string \<Rightarrow> string) \<Rightarrow> string \<Rightarrow> nat \<Rightarrow> string" where
  "pad_key sha key b =
     (let k = (if length key > 64 then sha key else key);
          k = k @ replicate (64 - length k) (CHR 0x00)
      in map (\<lambda>c. char_of (byte c XOR b)) k)"

definition hmac_sha256 :: "(string \<Rightarrow> string) \<Rightarrow> string \<Rightarrow> string \<Rightarrow> string" where
  "hmac_sha256 sha key msg = sha (pad_key sha key 92 @ sha (pad_key sha key 54 @ msg))"

section \<open>Version and signature\<close>

text \<open>
  The SHA-256 function and the number texts are arguments; encoding these structs cannot fail, so
  the error branches of the encoder are not taken.
\<close>

definition expectedConfigSignature ::
  "(string \<Rightarrow> string) \<Rightarrow> (string \<Rightarrow> string) \<Rightarrow> config_snapshot \<Rightarrow> string \<Rightarrow> string" where
  "expectedConfigSignature sha ft c secret =
     hmac_sha256 sha secret (canonicalJSON (normalized ft (config_json (c\<lparr>cfg_signature := []\<rparr>))))"

definition snapshotRevision :: "(string \<Rightarrow> string) \<Rightarrow> (string \<Rightarrow> string) \<Rightarrow> config_snapshot \<Rightarrow> string" where
  "snapshotRevision sha ft c =
     (let c = c\<lparr>cfg_version := [], cfg_signature := [], cfg_device := []\<rparr>;
          sum = sha (canonicalJSON (normalized ft (config_json c)));
          revision = fold (\<lambda>b n. n * 256 + int (byte b)) (take 8 sum) 0
      in FormatInt (wrap64 revision))"

definition NewBootstrapConfigSnapshot ::
  "(string \<Rightarrow> string) \<Rightarrow> (string \<Rightarrow> string) \<Rightarrow> string \<Rightarrow> runtime_snapshot \<Rightarrow> policy_snapshot \<Rightarrow>
   app_snapshot list \<Rightarrow> managed_file_snapshot list \<Rightarrow> certificate_snapshot list \<Rightarrow> config_snapshot" where
  "NewBootstrapConfigSnapshot sha ft deviceID runtime policy as fs cs =
     (let c = \<lparr>cfg_version = [], cfg_runtime = runtime, cfg_device = deviceID, cfg_policy = policy,
          cfg_apps = as, cfg_files = fs, cfg_certificates = cs, cfg_signature = []\<rparr>
      in c\<lparr>cfg_version := snapshotRevision sha ft c\<rparr>)"

definition SignConfigSnapshot ::
  "(string \<Rightarrow> string) \<Rightarrow> (string \<Rightarrow> string) \<Rightarrow> config_snapshot \<Rightarrow> string \<Rightarrow> goerr + config_snapshot" where
  "SignConfigSnapshot sha ft c secret =
     (if secret = [] then Inl (ErrText ''invalid config snapshot secret'')
      else Inr (c\<lparr>cfg_signature := EncodeToString (expectedConfigSignature sha ft c secret)\<rparr>))"

definition VerifyConfigSnapshot ::
  "(string \<Rightarrow> string) \<Rightarrow> (string \<Rightarrow> string) \<Rightarrow> config_snapshot \<Rightarrow> string \<Rightarrow> goerr option" where
  "VerifyConfigSnapshot sha ft c secret =
     (if secret = [] then Some (ErrText ''invalid config snapshot secret'')
      else if cfg_signature c = [] then Some (ErrText ''missing config snapshot signature'')
      else case DecodeString (cfg_signature c) of
          None \<Rightarrow> Some (ErrText ''invalid config snapshot signature'')
        | Some actual \<Rightarrow>
            if expectedConfigSignature sha ft c secret \<noteq> actual
            then Some (ErrText ''invalid config snapshot signature'') else None)"

section \<open>Signatures\<close>

lemma expectedConfigSignature_unsigned [simp]:
  "expectedConfigSignature sha ft (c\<lparr>cfg_signature := s\<rparr>) secret = expectedConfigSignature sha ft c secret"
  by (simp add: expectedConfigSignature_def)

text \<open>
  What verification accepts: the signature is any unpadded base64 text that decodes to the MAC of
  the snapshot without its signature.
\<close>

lemma VerifyConfigSnapshot_iff:
  "VerifyConfigSnapshot sha ft c secret = None \<longleftrightarrow>
     secret \<noteq> [] \<and> cfg_signature c \<noteq> [] \<and>
     DecodeString (cfg_signature c) = Some (expectedConfigSignature sha ft c secret)"
  by (auto simp: VerifyConfigSnapshot_def split: option.splits)

lemma SignConfigSnapshot_iff:
  "SignConfigSnapshot sha ft c secret = Inr c' \<longleftrightarrow>
     secret \<noteq> [] \<and> c' = c\<lparr>cfg_signature := EncodeToString (expectedConfigSignature sha ft c secret)\<rparr>"
  by (auto simp: SignConfigSnapshot_def)

lemma sha_expectedConfigSignature:
  "(\<And>m. sha m \<noteq> []) \<Longrightarrow> expectedConfigSignature sha ft c secret \<noteq> []"
  by (simp add: expectedConfigSignature_def hmac_sha256_def)

text \<open>
  What the server signs, the device accepts: for a non-empty secret signing succeeds, changes
  nothing but the signature, and the result verifies with that secret; another snapshot under the
  same signature verifies exactly if it has the same MAC.
\<close>

theorem SignConfigSnapshot_verifies:
  assumes sha: "\<And>m. sha m \<noteq> []" and secret: "secret \<noteq> []"
  shows "\<exists>c'. SignConfigSnapshot sha ft c secret = Inr c' \<and>
           c' = c\<lparr>cfg_signature := cfg_signature c'\<rparr> \<and>
           VerifyConfigSnapshot sha ft c' secret = None \<and>
           (\<forall>d. cfg_signature d = cfg_signature c' \<longrightarrow>
              (VerifyConfigSnapshot sha ft d secret = None \<longleftrightarrow>
               expectedConfigSignature sha ft d secret = expectedConfigSignature sha ft c secret))"
  using secret sha_expectedConfigSignature [OF sha]
  by (auto simp: SignConfigSnapshot_def VerifyConfigSnapshot_iff EncodeToString_empty)

theorem SignConfigSnapshot_verifies_witness:
  "\<exists>c'. SignConfigSnapshot (\<lambda>m. ''digest of '' @ m) (\<lambda>n. n)
      (NewBootstrapConfigSnapshot (\<lambda>m. ''digest of '' @ m) (\<lambda>n. n) ''device-1''
         \<lparr>rt_mqtt_address = ''tcp://broker:1883'', rt_poll_interval = 60000, rt_sync_interval = 900000\<rparr>
         \<lparr>sp_name = ''Kiosk'', sp_version = 3, sp_kiosk_mode = True, sp_kiosk_app = ''com.example.app'',
          sp_restrictions = \<lparr>pr_allow = [], pr_block = [''com.android.chrome''], pr_suspend = [],
             pr_keep_screen_on = True, pr_stay_awake = False, pr_unlock_on_boot = False,
             pr_passcode_hash = []\<rparr>\<rparr> [] [] []) ''secret'' = Inr c' \<and>
     VerifyConfigSnapshot (\<lambda>m. ''digest of '' @ m) (\<lambda>n. n) c' ''secret'' = None"
proof -
  have d: "\<And>m. (@) ''digest of '' m \<noteq> []" and s: "''secret'' \<noteq> []" by simp_all
  show ?thesis using SignConfigSnapshot_verifies [where sha = "(@) ''digest of ''", OF d s] by blast
qed

text \<open>
  The version names the content, not the device it was built for, and the version is what a device
  compares to decide whether to apply a configuration.
\<close>

lemma snapshotRevision_device [simp]:
  "snapshotRevision sha ft (c\<lparr>cfg_device := d\<rparr>) = snapshotRevision sha ft c"
  "snapshotRevision sha ft (c\<lparr>cfg_signature := s\<rparr>) = snapshotRevision sha ft c"
  "snapshotRevision sha ft (c\<lparr>cfg_version := v\<rparr>) = snapshotRevision sha ft c"
  by (simp_all add: snapshotRevision_def)

lemma NewBootstrapConfigSnapshot_version:
  "cfg_version (NewBootstrapConfigSnapshot sha ft d rt p as fs cs) =
   cfg_version (NewBootstrapConfigSnapshot sha ft d' rt p as fs cs)"
  by (simp add: NewBootstrapConfigSnapshot_def snapshotRevision_def)

end
