(* ===== verification/Http.thy ===== *)
theory Http
  imports Devices
begin

text \<open>
  What the HTTP handlers share (\<open>httpx/http.go\<close> and the \<open>routes.go\<close> of every package): a request, an
  answer, the session of an administrator and the secret of a device. A handler is a function of
  the world; a request body arrives as what \<open>json.Decoder\<close> makes of it, an error or the decoded
  struct, and an answer carries the value that is encoded. Log lines are left out. The stores are
  configured, so the branches for a missing store are not taken.
\<close>

section \<open>Requests and answers\<close>

text \<open>
  \<open>req_path\<close> and \<open>req_query\<close> are \<open>r.PathValue\<close> and \<open>r.URL.Query().Get\<close> (empty when absent), \<open>req_secret\<close>
  the header \<open>X-XMDM-Device-Secret\<close>, \<open>req_cookie\<close> the cookie \<open>xmdm_session\<close>.
\<close>

record request =
  req_method :: string
  req_cookie :: "string option"
  req_secret :: string
  req_path :: "string \<Rightarrow> string"
  req_query :: "string \<Rightarrow> string"

datatype 'a reply = Reply 'a | HttpError nat string | Status nat

fun status :: "'a reply \<Rightarrow> nat" where
  "status (Reply x) = 200"
| "status (HttpError n msg) = n"
| "status (Status n) = n"

type_synonym 'a handler = "world \<Rightarrow> 'a reply \<times> world"

definition invalid_input :: "'a reply" where "invalid_input = HttpError 400 ''invalid input''"
definition invalid_json :: "'a reply" where "invalid_json = HttpError 400 ''invalid json''"
definition unauthorized :: "'a reply" where "unauthorized = HttpError 401 ''unauthorized''"
definition forbidden :: "'a reply" where "forbidden = HttpError 403 ''forbidden''"
definition http_not_found :: "'a reply" where "http_not_found = HttpError 404 ''404 page not found''"
definition not_found :: "'a reply" where "not_found = HttpError 404 ''not found''"
definition conflict :: "'a reply" where "conflict = HttpError 409 ''conflict''"
definition internal_error :: "'a reply" where "internal_error = HttpError 500 ''internal error''"
definition method_not_allowed :: "'a reply" where "method_not_allowed = Status 405"

lemmas reply_defs = invalid_input_def invalid_json_def unauthorized_def forbidden_def http_not_found_def
  not_found_def conflict_def internal_error_def method_not_allowed_def

section \<open>Handlers\<close>

definition answer :: "'a reply \<Rightarrow> 'a handler" where
  "answer r = (\<lambda>w. (r, w))"

text \<open>
  \<open>try_else m h f\<close>: the result of the call \<open>m\<close> is handed to \<open>f\<close>, its error to \<open>h\<close>; \<open>call m er f\<close> answers
  an error with the reply \<open>er\<close> gives it.
\<close>

definition try_else :: "'b action \<Rightarrow> (goerr \<Rightarrow> 'a handler) \<Rightarrow> ('b \<Rightarrow> 'a handler) \<Rightarrow> 'a handler" where
  "try_else m h f = (\<lambda>w. case m w of (Inl e, w') \<Rightarrow> h e w' | (Inr x, w') \<Rightarrow> f x w')"

definition call :: "'b action \<Rightarrow> (goerr \<Rightarrow> 'a reply) \<Rightarrow> ('b \<Rightarrow> 'a handler) \<Rightarrow> 'a handler" where
  "call m er f = try_else m (\<lambda>e. answer (er e)) f"

text \<open>\<open>sessionFromRequest\<close>: the clock is read only for a session that exists.\<close>

definition sessionFromRequest :: "request \<Rightarrow> world \<Rightarrow> session option \<times> world" where
  "sessionFromRequest r = (\<lambda>w. case req_cookie r of
      None \<Rightarrow> (None, w)
    | Some sid \<Rightarrow>
        (case auth_Authenticate sid (clock_src (env w) (ticks w)) (auth w) of
           (ses, svc) \<Rightarrow> (ses, w\<lparr>auth := svc,
              ticks := (if svc_sessions (auth w) sid = None then ticks w else Suc (ticks w))\<rparr>)))"

definition with_session :: "request \<Rightarrow> (session \<Rightarrow> 'a handler) \<Rightarrow> 'a handler" where
  "with_session r f = (\<lambda>w. case sessionFromRequest r w of
      (None, w') \<Rightarrow> (unauthorized, w') | (Some ses, w') \<Rightarrow> f ses w')"

definition permitted :: "session \<Rightarrow> permission \<Rightarrow> 'a handler \<Rightarrow> 'a handler" where
  "permitted ses perm h = (if HasPermission (ses_permissions ses) perm then h else answer forbidden)"

text \<open>
  The devices' endpoints: the identifiers and the secret are trimmed and must not be empty, and
  the device must authenticate.
\<close>

definition device_error :: "goerr \<Rightarrow> 'a reply" where
  "device_error e = (case e of ErrInvalidInput \<Rightarrow> invalid_input | ErrNotFound \<Rightarrow> unauthorized | _ \<Rightarrow> internal_error)"

definition with_device ::
  "string \<Rightarrow> string list \<Rightarrow> request \<Rightarrow> (string \<Rightarrow> device \<Rightarrow> 'a handler) \<Rightarrow> 'a handler" where
  "with_device tn others r f =
     (let deviceID = TrimSpace (req_path r ''deviceId''); secret = TrimSpace (req_secret r)
      in if deviceID = [] \<or> list_ex (\<lambda>p. TrimSpace (req_path r p) = []) others \<or> secret = []
         then answer invalid_input
         else call (Authenticate tn deviceID secret) device_error (f secret))"

text \<open>\<open>writeRequestError\<close>.\<close>

definition writeRequestError :: "goerr \<Rightarrow> 'a reply" where
  "writeRequestError e = (if e = ErrInvalidInput then invalid_input else invalid_json)"

definition page_of :: "request \<Rightarrow> page_params" where
  "page_of r = RequestPaginationParams (req_query r ''page'') (req_query r ''limit'') 100"

section \<open>Reasoning about handlers\<close>

definition answers :: "'a handler \<Rightarrow> world \<Rightarrow> ('a reply \<Rightarrow> world \<Rightarrow> bool) \<Rightarrow> bool" where
  "answers h w Q \<longleftrightarrow> (case h w of (r, w') \<Rightarrow> Q r w')"

named_theorems hp \<open>equations for what a handler answers\<close>

lemma answers_answer [hp]: "answers (answer r) w Q = Q r w"
  by (simp add: answers_def answer_def)

lemma answers_try_else [hp]:
  "answers (try_else m h f) w Q = post m w (\<lambda>x w'. answers (f x) w' Q) (\<lambda>e w'. answers (h e) w' Q)"
  by (auto simp: answers_def try_else_def post_def split: prod.splits sum.splits)

lemma answers_call [hp]:
  "answers (call m er f) w Q = post m w (\<lambda>x w'. answers (f x) w' Q) (\<lambda>e w'. Q (er e) w')"
  by (simp add: call_def hp)

lemma answers_if [hp]: "answers (if b then h else k) w Q = (if b then answers h w Q else answers k w Q)"
  by simp

lemma answers_permitted [hp]:
  "answers (permitted ses perm h) w Q =
     (if perm \<in> set (ses_permissions ses) then answers h w Q else Q forbidden w)"
  by (simp add: permitted_def HasPermission_iff hp)

lemma answers_with_session [hp]:
  "answers (with_session r f) w Q = (case sessionFromRequest r w of
     (None, w') \<Rightarrow> Q unauthorized w' | (Some ses, w') \<Rightarrow> answers (f ses) w' Q)"
  by (auto simp: answers_def with_session_def split: prod.splits option.splits)

lemma answers_mono: "answers h w Q \<Longrightarrow> (\<And>r w'. Q r w' \<Longrightarrow> Q' r w') \<Longrightarrow> answers h w Q'"
  by (auto simp: answers_def)

lemma answers_eq: "answers h w (\<lambda>r _. r = x) \<longleftrightarrow> fst (h w) = x"
  by (auto simp: answers_def split: prod.splits)

lemma answersD: "answers h w Q \<Longrightarrow> Q (fst (h w)) (snd (h w))"
  by (simp add: answers_def split_beta)

text \<open>Looking up a session changes the service's map and the clock, nothing else.\<close>

lemma sessionFromRequest_world [simp]:
  "db (snd (sessionFromRequest r w)) = db w" "env (snd (sessionFromRequest r w)) = env w"
  "txn (snd (sessionFromRequest r w)) = txn w" "stmts (snd (sessionFromRequest r w)) = stmts w"
  "objects (snd (sessionFromRequest r w)) = objects w" "object_no (snd (sessionFromRequest r w)) = object_no w"
  "outbox (snd (sessionFromRequest r w)) = outbox w" "prov_log (snd (sessionFromRequest r w)) = prov_log w"
  by (auto simp: sessionFromRequest_def split: prod.splits option.splits)

definition current_session :: "request \<Rightarrow> world \<Rightarrow> session option" where
  "current_session r w = fst (sessionFromRequest r w)"

section \<open>Guarded endpoints\<close>

text \<open>The part of the world an endpoint is meant to protect: the tables, the objects, the messages.\<close>

definition same_state :: "world \<Rightarrow> world \<Rightarrow> bool" where
  "same_state w w' \<longleftrightarrow> db w' = db w \<and> objects w' = objects w \<and> outbox w' = outbox w \<and> prov_log w' = prov_log w"

lemma same_state_refl [simp]: "same_state w w"
  by (simp add: same_state_def)

lemma same_state_tick [simp]: "same_state w (tick_stmt w') = same_state w w'"
  by (simp add: same_state_def)

lemma same_state_session: "same_state w (snd (sessionFromRequest r w))"
  by (simp add: same_state_def)

text \<open>
  \<open>guarded need h\<close>: unless the request carries a live session with the permission \<open>need\<close> asks for its
  method, the endpoint refuses it and changes nothing.
\<close>

definition allowed :: "(string \<Rightarrow> permission option) \<Rightarrow> request \<Rightarrow> world \<Rightarrow> bool" where
  "allowed need r w \<longleftrightarrow> (case (need (req_method r), current_session r w) of
     (Some perm, Some ses) \<Rightarrow> perm \<in> set (ses_permissions ses) | _ \<Rightarrow> False)"

definition refused :: "'a reply \<Rightarrow> bool" where
  "refused r \<longleftrightarrow> status r \<in> {401, 403, 404, 405}"

definition guarded :: "(string \<Rightarrow> permission option) \<Rightarrow> (request \<Rightarrow> 'a handler) \<Rightarrow> bool" where
  "guarded need h \<longleftrightarrow> (\<forall>r w. \<not> allowed need r w \<longrightarrow>
     answers (h r) w (\<lambda>ans w'. refused ans \<and> same_state w w'))"

text \<open>\<open>device_guarded h\<close>: the same for a request that does not authenticate as a device.\<close>

definition authentic_request :: "string \<Rightarrow> request \<Rightarrow> world \<Rightarrow> bool" where
  "authentic_request tn r w \<longleftrightarrow>
     (\<exists>dv. fst (Authenticate tn (TrimSpace (req_path r ''deviceId'')) (TrimSpace (req_secret r)) w) = Inr dv)"

definition device_guarded :: "string \<Rightarrow> (request \<Rightarrow> 'a handler) \<Rightarrow> bool" where
  "device_guarded tn h \<longleftrightarrow> (\<forall>r w. \<not> authentic_request tn r w \<longrightarrow>
     answers (h r) w (\<lambda>ans w'. status ans \<noteq> 200 \<and> same_state w w'))"

text \<open>Authenticating a device reads one row.\<close>

lemma post_Authenticate_state:
  "post (Authenticate tn i s) w (\<lambda>_ w'. w' = tick_stmt w) (\<lambda>_ w'. w' = w \<or> w' = tick_stmt w)"
  by (simp add: Authenticate_def scanAuthenticatedDevice_def wp split: list.splits)

lemma answers_with_device:
  assumes "\<And>dv. fst (Authenticate tn (TrimSpace (req_path r ''deviceId'')) (TrimSpace (req_secret r)) w) = Inr dv \<Longrightarrow>
      answers (f (TrimSpace (req_secret r)) dv) (tick_stmt w) Q"
    and "\<And>e w'. w' = w \<or> w' = tick_stmt w \<Longrightarrow> e \<in> {invalid_input, unauthorized, internal_error} \<Longrightarrow> Q e w'"
  shows "answers (with_device tn others r f) w Q"
proof -
  let ?m = "Authenticate tn (TrimSpace (req_path r ''deviceId'')) (TrimSpace (req_secret r))"
  have "post ?m w (\<lambda>dv w'. w' = tick_stmt w \<and> fst (?m w) = Inr dv) (\<lambda>_ w'. w' = w \<or> w' = tick_stmt w)"
    using post_Authenticate_state [of tn "TrimSpace (req_path r ''deviceId'')" "TrimSpace (req_secret r)" w]
    by (auto simp: post_def split: prod.splits sum.splits)
  then have "post ?m w (\<lambda>x w'. answers (f (TrimSpace (req_secret r)) x) w' Q) (\<lambda>e w'. Q (device_error e) w')"
    by (rule post_mono) (use assms in \<open>auto simp: device_error_def split: goerr.splits\<close>)
  then show ?thesis using assms(2) by (simp add: with_device_def Let_def hp)
qed

lemma device_guardedI: "(\<And>r. h r = with_device tn others r (f r)) \<Longrightarrow> device_guarded tn h"
  unfolding device_guarded_def
proof (intro allI impI)
  fix r w assume h: "\<And>r. h r = with_device tn others r (f r)" and out: "\<not> authentic_request tn r w"
  show "answers (h r) w (\<lambda>ans w'. status ans \<noteq> 200 \<and> same_state w w')"
    unfolding h by (rule answers_with_device) (use out in \<open>auto simp: authentic_request_def reply_defs\<close>)
qed

section \<open>The shapes of the administration endpoints\<close>

text \<open>
  A collection is listed with \<open>GET\<close> and added to with \<open>POST\<close>, an item is removed with \<open>DELETE\<close>, and
  some endpoints take one method only. \<open>found\<close> is whether the path names its resource.
\<close>

definition admin_resource ::
  "bool \<Rightarrow> request \<Rightarrow> (session \<Rightarrow> 'a handler) \<Rightarrow> (session \<Rightarrow> 'a handler) \<Rightarrow> 'a handler" where
  "admin_resource found r rows create = with_session r (\<lambda>ses.
     if \<not> found then answer http_not_found
     else if req_method r = ''GET'' then permitted ses PermissionAdminRead (rows ses)
     else if req_method r = ''POST'' then permitted ses PermissionAdminWrite (create ses)
     else answer method_not_allowed)"

definition admin_item :: "request \<Rightarrow> (session \<Rightarrow> string \<Rightarrow> 'a handler) \<Rightarrow> 'a handler" where
  "admin_item r remove = with_session r (\<lambda>ses.
     if req_path r ''id'' = [] then answer http_not_found
     else if req_method r = ''DELETE'' then permitted ses PermissionAdminWrite (remove ses (req_path r ''id''))
     else answer method_not_allowed)"

definition admin_method :: "string \<Rightarrow> permission \<Rightarrow> request \<Rightarrow> (session \<Rightarrow> 'a handler) \<Rightarrow> 'a handler" where
  "admin_method m perm r f =
     (if req_method r \<noteq> m then answer method_not_allowed
      else with_session r (\<lambda>ses. permitted ses perm (f ses)))"

definition resource_need :: "string \<Rightarrow> permission option" where
  "resource_need m = (if m = ''GET'' then Some PermissionAdminRead
     else if m = ''POST'' then Some PermissionAdminWrite else None)"

definition method_need :: "string \<Rightarrow> permission \<Rightarrow> string \<Rightarrow> permission option" where
  "method_need m perm = (\<lambda>x. if x = m then Some perm else None)"

lemma guarded_resource:
  "(\<And>r. h r = admin_resource (found r) r (rows r) (create r)) \<Longrightarrow> guarded resource_need h"
  by (auto simp: guarded_def admin_resource_def hp allowed_def resource_need_def refused_def reply_defs current_session_def
      split: prod.splits option.splits)
    (metis fst_conv snd_conv same_state_session)+

lemma guarded_item:
  "(\<And>r. h r = admin_item r (remove r)) \<Longrightarrow> guarded (method_need ''DELETE'' PermissionAdminWrite) h"
  by (auto simp: guarded_def admin_item_def hp allowed_def method_need_def refused_def reply_defs current_session_def
      split: prod.splits option.splits)
    (metis fst_conv snd_conv same_state_session)+

lemma guarded_method:
  "(\<And>r. h r = admin_method m perm r (f r)) \<Longrightarrow> guarded (method_need m perm) h"
  by (auto simp: guarded_def admin_method_def hp allowed_def method_need_def refused_def reply_defs current_session_def
      split: prod.splits option.splits)
    (metis fst_conv snd_conv same_state_session)+

end
