(* ===== verification/Config.thy ===== *)
theory Config
  imports Snapshot Render ManagedFiles Objects Http
begin

text \<open>
  How a device's configuration is put together: \<open>BuildConfigSnapshot\<close> and the configuration endpoint
  of \<open>enrollment/http/routes.go\<close>. The active bindings of the device's policy are followed to the
  apps, managed files and certificates, what has gone or is not active is left out, the result is
  signed with the device's secret.
\<close>

section \<open>The parts of a configuration\<close>

text \<open>\<open>policyID == nil || strings.TrimSpace(*policyID) == ""\<close>.\<close>

definition given_policy :: "string option \<Rightarrow> string option" where
  "given_policy p = (case p of None \<Rightarrow> None | Some i \<Rightarrow> if TrimSpace i = [] then None else Some (TrimSpace i))"

text \<open>
  A loop over bindings that collects what it finds: an error other than \<open>ErrNotFound\<close> ends the loop,
  \<open>ErrNotFound\<close> continues with the next binding.
\<close>

definition collect :: "('a \<Rightarrow> 'b option action) \<Rightarrow> 'a list \<Rightarrow> 'b list action" where
  "collect f xs = bindE (mapE f xs) (\<lambda>ys. returnE (List.map_filter (\<lambda>y. y) ys))"

definition or_continue :: "'a action \<Rightarrow> ('a \<Rightarrow> 'b option action) \<Rightarrow> 'b option action" where
  "or_continue m f = elseE m (\<lambda>e. if e = ErrNotFound then returnE None else throwE e) f"

definition app_path :: "string \<Rightarrow> string \<Rightarrow> string \<Rightarrow> string" where
  "app_path deviceID app version =
     ''/api/v1/devices/'' @ deviceID @ ''/apps/'' @ app @ ''/versions/'' @ version @ ''/artifact''"

definition app_snapshot_of :: "string \<Rightarrow> app_row \<Rightarrow> version_row \<Rightarrow> app_snapshot option" where
  "app_snapshot_of deviceID a v =
     (case ver_artifact v of
        None \<Rightarrow> None
      | Some artifact \<Rightarrow> Some \<lparr>sa_app_id = rec_id a, sa_package = app_package a, sa_name = app_name a,
          sa_version_id = ver_id v, sa_version_name = ver_name v, sa_version_code = ver_code v,
          sa_artifact_id = artifact, sa_checksum = ver_checksum v,
          sa_path = app_path deviceID (rec_id a) (ver_id v)\<rparr>)"

definition listPublishedPolicyApps :: "string \<Rightarrow> string \<Rightarrow> string option \<Rightarrow> app_snapshot list action" where
  "listPublishedPolicyApps deviceID tn policyID =
     (case given_policy policyID of
        None \<Rightarrow> returnE []
      | Some pid \<Rightarrow> bindE (ListActivePolicyApps tn pid) (collect (\<lambda>b.
          or_continue (GetApp tn (bind_item b)) (\<lambda>a.
          if rec_status a \<noteq> ''active'' then returnE None
          else or_continue (GetLatestPublishedVersion tn (rec_id a)) (\<lambda>v.
          returnE (app_snapshot_of deviceID a v))))))"

definition managedFileDownloadPath :: "string \<Rightarrow> string \<Rightarrow> string" where
  "managedFileDownloadPath deviceID managedFileID =
     ''/api/v1/devices/'' @ deviceID @ ''/managed-files/'' @ managedFileID @ ''/artifact''"

text \<open>\<open>managedfiles.RenderTemplate\<close>, called with whatever order the maps are iterated in.\<close>

definition render :: "string \<Rightarrow> string \<Rightarrow> obj \<Rightarrow> string action" where
  "render content deviceID extras = (\<lambda>w.
     (Inr (RenderTemplate (map_order (env w) (map_no w)) content deviceID (obj_order (env w) (map_no w) extras)),
      w\<lparr>map_no := Suc (map_no w)\<rparr>))"

definition extras_of :: "obj option \<Rightarrow> obj" where
  "extras_of e = (case e of None \<Rightarrow> [] | Some kvs \<Rightarrow> kvs)"

definition renderedManagedFileContent :: "string \<Rightarrow> string \<Rightarrow> obj option \<Rightarrow> string action" where
  "renderedManagedFileContent storageKey deviceID bootstrapExtras =
     bindE (object_Get storageKey) (\<lambda>content. render content deviceID (extras_of bootstrapExtras))"

definition managed_file_snapshot_of ::
  "(string \<Rightarrow> string) \<Rightarrow> string \<Rightarrow> mfile_row \<Rightarrow> file_view \<Rightarrow> string option \<Rightarrow> managed_file_snapshot" where
  "managed_file_snapshot_of sha deviceID m f rendered =
     \<lparr>sf_file_id = rec_id m, sf_name = (if fv_name f = [] then rec_id m else fv_name f), sf_path = mf_path m,
      sf_download = managedFileDownloadPath deviceID (rec_id m),
      sf_checksum = (case rendered of None \<Rightarrow> fv_checksum f | Some content \<Rightarrow> SHA256Base64URL sha content),
      sf_mime = fv_mime f, sf_description = [], sf_remove = False, sf_replace = mf_replace m\<rparr>"

definition listPolicyManagedFiles ::
  "string \<Rightarrow> string \<Rightarrow> string option \<Rightarrow> obj option \<Rightarrow> managed_file_snapshot list action" where
  "listPolicyManagedFiles deviceID tn policyID bootstrapExtras =
     (case given_policy policyID of
        None \<Rightarrow> returnE []
      | Some pid \<Rightarrow> bindE (ListActivePolicyManagedFiles tn pid) (collect (\<lambda>b.
          or_continue (GetManagedFile tn (bind_item b)) (\<lambda>v.
          if rec_status (mv_row v) \<noteq> ''active'' then returnE None
          else case mv_file v of
              None \<Rightarrow> returnE None
            | Some f \<Rightarrow>
                (case fv_artifact f of
                   None \<Rightarrow> returnE None
                 | Some a \<Rightarrow> bindE (asks sha256) (\<lambda>sha.
                     if mf_replace (mv_row v)
                     then bindE (renderedManagedFileContent (a_storage_key a) deviceID bootstrapExtras) (\<lambda>content.
                          returnE (Some (managed_file_snapshot_of sha deviceID (mv_row v) f (Some content))))
                     else returnE (Some (managed_file_snapshot_of sha deviceID (mv_row v) f None))))))))"

definition certificateDownloadPath :: "string \<Rightarrow> string \<Rightarrow> string" where
  "certificateDownloadPath deviceID certificateID =
     ''/api/v1/devices/'' @ deviceID @ ''/certificates/'' @ certificateID @ ''/artifact''"

definition certificate_snapshot_of :: "string \<Rightarrow> cert_row \<Rightarrow> certificate_snapshot" where
  "certificate_snapshot_of deviceID c = \<lparr>sc_id = rec_id c, sc_name = cert_name c,
     sc_artifact_id = cert_artifact_id c, sc_checksum = cert_checksum c,
     sc_path = certificateDownloadPath deviceID (rec_id c)\<rparr>"

definition listPolicyCertificates :: "string \<Rightarrow> string \<Rightarrow> string option \<Rightarrow> certificate_snapshot list action" where
  "listPolicyCertificates tn deviceID policyID =
     (case given_policy policyID of
        None \<Rightarrow> returnE []
      | Some pid \<Rightarrow> bindE (ListActivePolicyCertificates tn pid) (collect (\<lambda>b.
          or_continue (GetCertificate tn (bind_item b)) (\<lambda>v.
          if rec_status (cv_row v) \<noteq> ''active'' then returnE None
          else returnE (Some (certificate_snapshot_of deviceID (cv_row v)))))))"

section \<open>The policy\<close>

text \<open>A stored passcode hash wins over a passcode, which is hashed; both are trimmed.\<close>

definition policySnapshotRestrictions :: "(string \<Rightarrow> string) \<Rightarrow> json \<Rightarrow> goerr + policy_restrictions" where
  "policySnapshotRestrictions sha raw =
     (let (p, ok) = (if raw = JNull then (no_restrictions, True) else decode_restrictions raw)
      in if \<not> ok then Inl (ErrText ''json'')
         else Inr \<lparr>pr_allow = rp_allow p, pr_block = rp_block p, pr_suspend = rp_suspend p,
           pr_keep_screen_on = rp_keep_screen_on p, pr_stay_awake = rp_stay_awake p,
           pr_unlock_on_boot = rp_unlock_on_boot p,
           pr_passcode_hash =
             (if TrimSpace (rp_passcode_hash p) \<noteq> [] then TrimSpace (rp_passcode_hash p)
              else if TrimSpace (rp_passcode p) \<noteq> [] then HashToken sha (TrimSpace (rp_passcode p))
              else [])\<rparr>)"

definition policy_snapshot_of :: "policy_row \<Rightarrow> policy_restrictions \<Rightarrow> policy_snapshot" where
  "policy_snapshot_of p r = \<lparr>sp_name = pol_name p, sp_version = pol_version p,
     sp_kiosk_mode = pol_kiosk_mode p, sp_kiosk_app = pol_kiosk_app p, sp_restrictions = r\<rparr>"

definition devicePolicySnapshot :: "string \<Rightarrow> string option \<Rightarrow> policy_snapshot action" where
  "devicePolicySnapshot tn policyID =
     (case given_policy policyID of
        None \<Rightarrow> throwE ErrNotFound
      | Some pid \<Rightarrow> bindE (GetPolicy tn pid) (\<lambda>p. bindE (asks sha256) (\<lambda>sha.
          case policySnapshotRestrictions sha (pol_restrictions p) of
            Inl e \<Rightarrow> throwE e
          | Inr r \<Rightarrow> returnE (policy_snapshot_of p r))))"

section \<open>The configuration\<close>

definition BuildConfigSnapshot ::
  "string \<Rightarrow> string \<Rightarrow> string option \<Rightarrow> obj option \<Rightarrow> runtime_snapshot \<Rightarrow> config_snapshot action" where
  "BuildConfigSnapshot tn deviceID policyID bootstrapExtras runtime =
     bindE (listPublishedPolicyApps deviceID tn policyID) (\<lambda>as.
     bindE (listPolicyManagedFiles deviceID tn policyID bootstrapExtras) (\<lambda>fs.
     bindE (listPolicyCertificates tn deviceID policyID) (\<lambda>cs.
     bindE (devicePolicySnapshot tn policyID) (\<lambda>p.
     bindE (asks sha256) (\<lambda>sha. bindE (asks float_text) (\<lambda>ft.
     returnE (NewBootstrapConfigSnapshot sha ft deviceID runtime p as fs cs)))))))"

definition buildSignedConfigSnapshot ::
  "string \<Rightarrow> string \<Rightarrow> string option \<Rightarrow> obj option \<Rightarrow> runtime_snapshot \<Rightarrow> string \<Rightarrow> config_snapshot action" where
  "buildSignedConfigSnapshot tn deviceID policyID bootstrapExtras runtime secret =
     bindE (BuildConfigSnapshot tn deviceID policyID bootstrapExtras runtime) (\<lambda>c.
     bindE (asks sha256) (\<lambda>sha. bindE (asks float_text) (\<lambda>ft.
     case SignConfigSnapshot sha ft c secret of Inl e \<Rightarrow> throwE e | Inr c' \<Rightarrow> returnE c')))"

text \<open>\<open>GET /devices/{deviceId}/config\<close>; a device without an identifier is named.\<close>

definition config_identity :: "device \<Rightarrow> string" where
  "config_identity dv = (if TrimSpace (rec_id dv) = [] then dv_name dv else TrimSpace (rec_id dv))"

definition config_error :: "goerr \<Rightarrow> 'a reply" where
  "config_error e = (if e = ErrNotFound then not_found else internal_error)"

definition get_config :: "string \<Rightarrow> runtime_snapshot \<Rightarrow> request \<Rightarrow> config_snapshot handler" where
  "get_config tn runtime r =
     (if req_method r \<noteq> ''GET'' then answer method_not_allowed
      else with_device tn [] r (\<lambda>secret dv.
        call (buildSignedConfigSnapshot tn (config_identity dv) (dv_policy_id dv) (dv_extras dv) runtime secret)
          config_error (\<lambda>c. answer (Reply c))))"

section \<open>What a configuration contains\<close>

text \<open>A step that only reads: tables, objects and environment stay.\<close>

definition undisturbed :: "world \<Rightarrow> world \<Rightarrow> bool" where
  "undisturbed w w' \<longleftrightarrow> db w' = db w \<and> env w' = env w \<and> objects w' = objects w"

lemma undisturbed_refl [simp]: "undisturbed w w"
  by (simp add: undisturbed_def)

lemma undisturbed_simps [simp]:
  "undisturbed w (tick_stmt w') = undisturbed w w'"
  "undisturbed w (w'\<lparr>object_no := n\<rparr>) = undisturbed w w'"
  "undisturbed w (w'\<lparr>map_no := n\<rparr>) = undisturbed w w'"
  by (simp_all add: undisturbed_def)

lemma undisturbed_faulty [simp]: "undisturbed w w' \<Longrightarrow> no_faults w \<Longrightarrow> \<not> faulty w'"
  by (simp add: undisturbed_def)

lemma undisturbed_faults: "undisturbed w w' \<Longrightarrow> no_faults w' = no_faults w"
  by (simp add: undisturbed_def no_faults_def)

lemma post_collect:
  assumes "\<And>x w'. x \<in> set xs \<Longrightarrow> I w' \<Longrightarrow> post (f x) w' (\<lambda>y w''. y = g x \<and> I w'') (\<lambda>_ _. False)" and "I w"
  shows "post (collect f xs) w (\<lambda>ys w'. ys = List.map_filter g xs \<and> I w') (\<lambda>_ _. False)"
proof -
  have "post (mapE f xs) w (\<lambda>ys w'. ys = map g xs \<and> I w') (\<lambda>_ _. False)"
    using assms
  proof (induction xs arbitrary: w)
    case (Cons x xs)
    have step: "post (f x) w (\<lambda>y w''. y = g x \<and> I w'') (\<lambda>_ _. False)" using Cons.prems by simp
    have rest: "post (mapE f xs) w' (\<lambda>ys w'. ys = map g xs \<and> I w') (\<lambda>_ _. False)" if "I w'" for w'
      using Cons.prems(1) that by (intro Cons.IH) auto
    have more: "post (mapE f xs) w' (\<lambda>ys w''. y # ys = map g (x # xs) \<and> I w'') (\<lambda>_ _. False)"
      if "y = g x \<and> I w'" for y w'
      by (rule post_mono [OF rest]) (use that in auto)
    show ?case
      unfolding mapE.simps post_bindE post_returnE by (rule post_mono [OF step]) (erule more, assumption)
  qed (simp add: wp)
  moreover have "List.map_filter (\<lambda>y. y) (map g xs) = List.map_filter g xs"
    by (simp add: map_filter_def filter_map comp_def)
  ultimately show ?thesis
    unfolding collect_def post_bindE post_returnE by (auto elim: post_mono)
qed

text \<open>The item of a binding, as a function of the tables and the objects.\<close>

definition first_row :: "'r list \<Rightarrow> 'r option" where
  "first_row rs = (case rs of [] \<Rightarrow> None | r # _ \<Rightarrow> Some r)"

definition bound_app :: "database \<Rightarrow> string \<Rightarrow> string \<Rightarrow> binding_row \<Rightarrow> app_snapshot option" where
  "bound_app d tn deviceID b =
     (case first_row (filter (by_id tn (bind_item b)) (apps d)) of
        None \<Rightarrow> None
      | Some a \<Rightarrow> if rec_status a \<noteq> ''active'' then None
          else case first_row (rev (sort_key publication
                 (filter (\<lambda>v. of_app tn (rec_id a) v \<and> ver_status v = ''published'') (app_versions d)))) of
              None \<Rightarrow> None
            | Some v \<Rightarrow> app_snapshot_of deviceID a v)"

definition final_content :: "(string \<times> string) list \<Rightarrow> string \<Rightarrow> obj option \<Rightarrow> mfile_row \<Rightarrow> artifact \<Rightarrow> string option" where
  "final_content os deviceID extras m a =
     (case map_of os (a_storage_key a) of
        None \<Rightarrow> None
      | Some content \<Rightarrow> Some (if mf_replace m then RenderTemplate (\<lambda>vs. vs) content deviceID (extras_of extras)
                        else content))"

definition bound_file ::
  "world \<Rightarrow> string \<Rightarrow> string \<Rightarrow> obj option \<Rightarrow> binding_row \<Rightarrow> managed_file_snapshot option" where
  "bound_file w tn deviceID extras b =
     (case first_row (concat (map (managed_join (db w)) (filter (by_id tn (bind_item b)) (managed_files (db w))))) of
        None \<Rightarrow> None
      | Some v \<Rightarrow> if rec_status (mv_row v) \<noteq> ''active'' then None
          else case mv_file v of
              None \<Rightarrow> None
            | Some f \<Rightarrow> (case fv_artifact f of
                 None \<Rightarrow> None
               | Some a \<Rightarrow> Some (managed_file_snapshot_of (sha256 (env w)) deviceID (mv_row v) f
                   (if mf_replace (mv_row v) then final_content (objects w) deviceID extras (mv_row v) a else None))))"

definition bound_certificate :: "database \<Rightarrow> string \<Rightarrow> string \<Rightarrow> binding_row \<Rightarrow> certificate_snapshot option" where
  "bound_certificate d tn deviceID b =
     (case first_row (concat (map (cert_join d) (filter (by_id tn (bind_item b)) (certificates d)))) of
        None \<Rightarrow> None
      | Some v \<Rightarrow> if rec_status (cv_row v) \<noteq> ''active'' then None
          else Some (certificate_snapshot_of deviceID (cv_row v)))"

definition active_bindings :: "binding_row list \<Rightarrow> string \<Rightarrow> string \<Rightarrow> binding_row list" where
  "active_bindings bs tn pid = oldest_first (filter (\<lambda>b. bound_to tn pid b \<and> rec_status b = ''active'') bs)"

text \<open>The object store answers, and iterating over a map visits each entry once.\<close>

definition calm :: "world \<Rightarrow> bool" where
  "calm w \<longleftrightarrow> no_faults w \<and> (\<forall>n. object_ok (env w) n) \<and>
     (\<forall>n vs. mset (map_order (env w) n vs) = mset vs) \<and> (\<forall>n kvs. mset (obj_order (env w) n kvs) = mset kvs)"

lemma calm_no_faults [simp]: "calm w \<Longrightarrow> no_faults w"
  by (simp add: calm_def)

lemma calm_not_faulty [simp]: "calm w \<Longrightarrow> \<not> faulty w"
  using not_faulty [of w w] by (simp add: calm_def)

lemma calm_undisturbed: "undisturbed w w' \<Longrightarrow> calm w' = calm w"
  by (simp add: calm_def undisturbed_def no_faults_def)

text \<open>Every template a policy binds can be read.\<close>

definition template_ready :: "world \<Rightarrow> managed_view \<Rightarrow> bool" where
  "template_ready w v \<longleftrightarrow> (case mv_file v of None \<Rightarrow> True
     | Some f \<Rightarrow> (case fv_artifact f of None \<Rightarrow> True
        | Some a \<Rightarrow> mf_replace (mv_row v) \<longrightarrow> a_storage_key a \<noteq> [] \<and> map_of (objects w) (a_storage_key a) \<noteq> None))"

definition templates_ready :: "world \<Rightarrow> bool" where
  "templates_ready w \<longleftrightarrow> list_all (template_ready w) (concat (map (managed_join (db w)) (managed_files (db w))))"

lemma post_render:
  assumes "calm w" "steady deviceID extras"
  shows "post (render content deviceID extras) w
      (\<lambda>x w'. x = RenderTemplate (\<lambda>vs. vs) content deviceID extras \<and> undisturbed w w') E"
proof -
  have "RenderTemplate (map_order (env w) (map_no w)) content deviceID (obj_order (env w) (map_no w) extras)
      = RenderTemplate (\<lambda>vs. vs) content deviceID extras"
    using assms by (intro RenderTemplate_steady) (auto simp: calm_def)
  then show ?thesis by (simp add: render_def post_def)
qed

lemma post_object_Get:
  assumes "calm w" "key \<noteq> []" "map_of (objects w) key = Some content"
  shows "post (object_Get key) w (\<lambda>x w'. x = content \<and> undisturbed w w') E"
  using assms by (simp add: object_Get_def wp calm_def) (simp add: post_def undisturbed_def)

lemma post_or_continue_row:
  assumes "\<not> faulty w"
  shows "post (or_continue (no_rows_as ErrNotFound (query_row g)) f) w Q E =
     (case first_row (g (db w)) of None \<Rightarrow> Q None (tick_stmt w) | Some r \<Rightarrow> post (f r) (tick_stmt w) Q E)"
  using assms by (simp add: or_continue_def first_row_def wp split: list.splits)

lemma first_row_take [simp]: "first_row (take 1 rs) = first_row rs" "first_row (take (Suc 0) rs) = first_row rs"
  by (cases rs; simp add: first_row_def)+

lemma post_listPublishedPolicyApps:
  assumes "calm w" "given_policy p = Some pid"
  shows "post (listPublishedPolicyApps deviceID tn p) w
      (\<lambda>x w'. x = List.map_filter (bound_app (db w) tn deviceID) (active_bindings (policy_apps (db w)) tn pid) \<and>
         undisturbed w w') (\<lambda>_ _. False)"
proof -
  let ?f = "\<lambda>b. or_continue (GetApp tn (bind_item b)) (\<lambda>a.
          if rec_status a \<noteq> ''active'' then returnE None
          else or_continue (GetLatestPublishedVersion tn (rec_id a)) (\<lambda>v.
          returnE (app_snapshot_of deviceID a v)))"
  have "post (?f b) w' (\<lambda>y w''. y = bound_app (db w) tn deviceID b \<and> undisturbed w w'') (\<lambda>_ _. False)"
    if w': "undisturbed w w'" for b w'
  proof -
    have "\<not> faulty w'" "\<not> faulty (tick_stmt w')" "db w' = db w"
      using w' assms(1) by (simp_all add: undisturbed_def)
    then show ?thesis
      using w' unfolding GetApp_def get_by_id_def GetLatestPublishedVersion_def
      by (auto simp: post_or_continue_row bound_app_def wp split: option.splits)
  qed
  then have all: "post (collect ?f bs) w'
      (\<lambda>x w'. x = List.map_filter (bound_app (db w) tn deviceID) bs \<and> undisturbed w w') (\<lambda>_ _. False)"
    if "undisturbed w w'" for bs w' using that by (rule post_collect)
  show ?thesis
    unfolding listPublishedPolicyApps_def assms(2) option.case ListActivePolicyApps_def list_active_bindings_def
      post_bindE post_query
    using assms(1) all [of "tick_stmt w"] by (simp add: active_bindings_def)
qed

lemma post_listPolicyCertificates:
  assumes "calm w" "given_policy p = Some pid"
  shows "post (listPolicyCertificates tn deviceID p) w
      (\<lambda>x w'. x = List.map_filter (bound_certificate (db w) tn deviceID)
                (active_bindings (policy_certificates (db w)) tn pid) \<and>
         undisturbed w w') (\<lambda>_ _. False)"
proof -
  let ?f = "\<lambda>b. or_continue (GetCertificate tn (bind_item b)) (\<lambda>v.
          if rec_status (cv_row v) \<noteq> ''active'' then returnE None
          else returnE (Some (certificate_snapshot_of deviceID (cv_row v))))"
  have "post (?f b) w' (\<lambda>y w''. y = bound_certificate (db w) tn deviceID b \<and> undisturbed w w'') (\<lambda>_ _. False)"
    if w': "undisturbed w w'" for b w'
  proof -
    have "\<not> faulty w'" "db w' = db w" using w' assms(1) by (simp_all add: undisturbed_def)
    then show ?thesis
      using w' unfolding GetCertificate_def
      by (auto simp: post_or_continue_row bound_certificate_def wp split: option.splits)
  qed
  then have all: "post (collect ?f bs) w'
      (\<lambda>x w'. x = List.map_filter (bound_certificate (db w) tn deviceID) bs \<and> undisturbed w w') (\<lambda>_ _. False)"
    if "undisturbed w w'" for bs w' using that by (rule post_collect)
  show ?thesis
    unfolding listPolicyCertificates_def assms(2) option.case ListActivePolicyCertificates_def list_active_bindings_def
      post_bindE post_query
    using assms(1) all [of "tick_stmt w"] by (simp add: active_bindings_def)
qed

text \<open>A managed file found under its identifier is one of the joined rows, so its template is ready.\<close>

lemma template_ready_first:
  assumes "templates_ready w"
    and "first_row (concat (map (managed_join (db w)) (filter p (managed_files (db w))))) = Some v"
  shows "template_ready w v"
proof -
  have "v \<in> set (concat (map (managed_join (db w)) (filter p (managed_files (db w)))))"
    using assms(2) by (cases "concat (map (managed_join (db w)) (filter p (managed_files (db w))))")
      (simp_all only: first_row_def list.case option.inject option.distinct list.set_intros)
  then show ?thesis using assms(1) by (auto simp: templates_ready_def list_all_iff)
qed

lemma post_renderedManagedFileContent:
  assumes "calm w" "steady deviceID (extras_of extras)" "undisturbed w w'"
    and "a_storage_key a \<noteq> []" "map_of (objects w) (a_storage_key a) \<noteq> None" "mf_replace m"
  shows "post (renderedManagedFileContent (a_storage_key a) deviceID extras) w'
      (\<lambda>x w''. final_content (objects w) deviceID extras m a = Some x \<and> undisturbed w w'') (\<lambda>_ _. False)"
proof -
  obtain content where c: "map_of (objects w) (a_storage_key a) = Some content" using assms(5) by blast
  have w': "calm w'" "objects w' = objects w"
    using assms(1) calm_undisturbed [OF assms(3)] assms(3) by (simp_all add: undisturbed_def)
  have get: "post (object_Get (a_storage_key a)) w' (\<lambda>x w''. x = content \<and> undisturbed w' w'') (\<lambda>_ _. False)"
    using w' c assms(4) by (intro post_object_Get) auto
  have "post (render content deviceID (extras_of extras)) w''
      (\<lambda>x w''. final_content (objects w) deviceID extras m a = Some x \<and> undisturbed w w'') (\<lambda>_ _. False)"
    if "undisturbed w' w''" for w''
  proof -
    have "calm w''" "undisturbed w w''"
      using w'(1) calm_undisturbed [OF that] that assms(3) by (simp_all add: undisturbed_def)
    from post_render [OF this(1) assms(2)] show ?thesis
      by (rule post_mono) (use \<open>undisturbed w w''\<close> c assms(6) in \<open>auto simp: final_content_def undisturbed_def\<close>)
  qed
  with get show ?thesis
    unfolding renderedManagedFileContent_def post_bindE by (auto intro: post_mono)
qed

lemma post_listPolicyManagedFiles:
  assumes "calm w" "given_policy p = Some pid" "templates_ready w" "steady deviceID (extras_of extras)"
  shows "post (listPolicyManagedFiles deviceID tn p extras) w
      (\<lambda>x w'. x = List.map_filter (bound_file w tn deviceID extras)
                (active_bindings (policy_managed_files (db w)) tn pid) \<and>
         undisturbed w w') (\<lambda>_ _. False)"
proof -
  let ?f = "\<lambda>b. or_continue (GetManagedFile tn (bind_item b)) (\<lambda>v.
          if rec_status (mv_row v) \<noteq> ''active'' then returnE None
          else case mv_file v of
              None \<Rightarrow> returnE None
            | Some f \<Rightarrow>
                (case fv_artifact f of
                   None \<Rightarrow> returnE None
                 | Some a \<Rightarrow> bindE (asks sha256) (\<lambda>sha.
                     if mf_replace (mv_row v)
                     then bindE (renderedManagedFileContent (a_storage_key a) deviceID extras) (\<lambda>content.
                          returnE (Some (managed_file_snapshot_of sha deviceID (mv_row v) f (Some content))))
                     else returnE (Some (managed_file_snapshot_of sha deviceID (mv_row v) f None)))))"
  have "post (?f b) w' (\<lambda>y w''. y = bound_file w tn deviceID extras b \<and> undisturbed w w'') (\<lambda>_ _. False)"
    if w': "undisturbed w w'" for b w'
  proof (cases "first_row (concat (map (managed_join (db w)) (filter (by_id tn (bind_item b)) (managed_files (db w)))))")
    case None
    have "\<not> faulty w'" "db w' = db w" using w' assms(1) by (simp_all add: undisturbed_def)
    then show ?thesis
      using w' None unfolding GetManagedFile_def by (simp add: post_or_continue_row bound_file_def)
  next
    case (Some v)
    have v: "template_ready w v" by (rule template_ready_first [OF assms(3) Some])
    have w'': "undisturbed w (tick_stmt w')" "\<not> faulty w'" "db w' = db w" "sha256 (env w') = sha256 (env w)"
      using w' assms(1) by (simp_all add: undisturbed_def)
    have rend: "post (renderedManagedFileContent (a_storage_key a) deviceID extras) (tick_stmt w')
        (\<lambda>x w''. final_content (objects w) deviceID extras (mv_row v) a = Some x \<and> undisturbed w w'') (\<lambda>_ _. False)"
      if "mv_file v = Some f" "fv_artifact f = Some a" "mf_replace (mv_row v)" for f a
      using v that by (intro post_renderedManagedFileContent [OF assms(1,4) w''(1)]) (auto simp: template_ready_def)
    show ?thesis
      unfolding GetManagedFile_def post_or_continue_row [OF w''(2)] w''(3) Some option.case
      using w'' Some by (auto simp: bound_file_def wp split: option.splits elim!: post_mono [OF rend])
  qed
  then have all: "post (collect ?f bs) w'
      (\<lambda>x w'. x = List.map_filter (bound_file w tn deviceID extras) bs \<and> undisturbed w w') (\<lambda>_ _. False)"
    if "undisturbed w w'" for bs w' using that by (rule post_collect)
  show ?thesis
    unfolding listPolicyManagedFiles_def assms(2) option.case ListActivePolicyManagedFiles_def list_active_bindings_def
      post_bindE post_query
    using assms(1) all [of "tick_stmt w"] by (simp add: active_bindings_def)
qed

definition policy_found :: "world \<Rightarrow> string \<Rightarrow> string \<Rightarrow> policy_snapshot \<Rightarrow> bool" where
  "policy_found w tn pid ps \<longleftrightarrow> (\<exists>p r. first_row (filter (by_id tn pid) (policies (db w))) = Some p \<and>
     policySnapshotRestrictions (sha256 (env w)) (pol_restrictions p) = Inr r \<and> ps = policy_snapshot_of p r)"

lemma given_policy_nonempty: "given_policy p = Some pid \<Longrightarrow> pid \<noteq> []"
  by (auto simp: given_policy_def split: option.splits if_splits)

lemma post_devicePolicySnapshot:
  assumes "calm w" "tn \<noteq> []" "given_policy p = Some pid" "policy_found w tn pid ps" "undisturbed w w'"
  shows "post (devicePolicySnapshot tn p) w' (\<lambda>x w''. x = ps \<and> undisturbed w w'') (\<lambda>_ _. False)"
proof -
  have "\<not> faulty w'" "db w' = db w" "sha256 (env w') = sha256 (env w)"
    using assms(1,5) by (simp_all add: undisturbed_def)
  then show ?thesis
    using assms given_policy_nonempty [OF assms(3)] unfolding devicePolicySnapshot_def GetPolicy_def get_by_id_def policy_found_def
    by (auto simp: wp first_row_def split: list.splits)
qed

text \<open>The configuration, written down from the tables and the objects.\<close>

definition expected_config :: "world \<Rightarrow> string \<Rightarrow> string \<Rightarrow> string \<Rightarrow> obj option \<Rightarrow> runtime_snapshot \<Rightarrow> policy_snapshot \<Rightarrow> config_snapshot" where
  "expected_config w tn deviceID pid extras runtime ps =
     NewBootstrapConfigSnapshot (sha256 (env w)) (float_text (env w)) deviceID runtime ps
       (List.map_filter (bound_app (db w) tn deviceID) (active_bindings (policy_apps (db w)) tn pid))
       (List.map_filter (bound_file w tn deviceID extras) (active_bindings (policy_managed_files (db w)) tn pid))
       (List.map_filter (bound_certificate (db w) tn deviceID) (active_bindings (policy_certificates (db w)) tn pid))"

lemma undisturbed_db: "undisturbed w w' \<Longrightarrow> db w' = db w \<and> env w' = env w \<and> objects w' = objects w"
  by (simp add: undisturbed_def)

lemma undisturbed_trans: "undisturbed w w' \<Longrightarrow> undisturbed w' w'' \<Longrightarrow> undisturbed w w''"
  by (simp add: undisturbed_def)

lemma post_BuildConfigSnapshot:
  assumes calm: "calm w" and tn: "tn \<noteq> []" and pid: "given_policy p = Some pid" and ready: "templates_ready w"
    and steady: "steady deviceID (extras_of extras)" and ps: "policy_found w tn pid ps"
    and u: "undisturbed w w0"
  shows "post (BuildConfigSnapshot tn deviceID p extras runtime) w0
      (\<lambda>c w'. c = expected_config w tn deviceID pid extras runtime ps \<and> undisturbed w w') (\<lambda>_ _. False)"
proof -
  have same: "calm w'" "templates_ready w'" "db w' = db w" "bound_file w' = bound_file w" if "undisturbed w w'" for w'
  proof -
    have eqs: "db w' = db w" "env w' = env w" "objects w' = objects w" using undisturbed_db [OF that] by simp_all
    show "calm w'" "db w' = db w" using calm calm_undisturbed [OF that] eqs(1) by simp_all
    show "templates_ready w'" using ready unfolding templates_ready_def template_ready_def [abs_def] eqs .
    show "bound_file w' = bound_file w" by (intro ext) (simp only: bound_file_def eqs cong: option.case_cong)
  qed
  let ?as = "List.map_filter (bound_app (db w) tn deviceID) (active_bindings (policy_apps (db w)) tn pid)"
  let ?fs = "List.map_filter (bound_file w tn deviceID extras) (active_bindings (policy_managed_files (db w)) tn pid)"
  let ?cs = "List.map_filter (bound_certificate (db w) tn deviceID) (active_bindings (policy_certificates (db w)) tn pid)"
  have as: "post (listPublishedPolicyApps deviceID tn p) w' (\<lambda>x v'. x = ?as \<and> undisturbed w v') (\<lambda>_ _. False)"
    if "undisturbed w w'" for w'
    by (rule post_mono [OF post_listPublishedPolicyApps [OF same(1) [OF that] pid]])
      (use undisturbed_trans [OF that] same [OF that] in auto)
  have fs: "post (listPolicyManagedFiles deviceID tn p extras) w' (\<lambda>x v'. x = ?fs \<and> undisturbed w v') (\<lambda>_ _. False)"
    if "undisturbed w w'" for w'
    by (rule post_mono [OF post_listPolicyManagedFiles [OF same(1) [OF that] pid same(2) [OF that] steady]])
      (use undisturbed_trans [OF that] same [OF that] in auto)
  have cs: "post (listPolicyCertificates tn deviceID p) w' (\<lambda>x v'. x = ?cs \<and> undisturbed w v') (\<lambda>_ _. False)"
    if "undisturbed w w'" for w'
    by (rule post_mono [OF post_listPolicyCertificates [OF same(1) [OF that] pid]])
      (use undisturbed_trans [OF that] same [OF that] in auto)
  note pol = post_devicePolicySnapshot [OF calm tn pid ps]
  note steps = as fs cs pol
  show ?thesis
    unfolding BuildConfigSnapshot_def post_bindE post_asks post_returnE
    apply (rule post_mono [OF as [OF u]], erule conjE)
     apply (rule post_mono [OF fs], assumption, erule conjE)
      apply (rule post_mono [OF cs], assumption, erule conjE)
       apply (rule post_mono [OF pol], assumption)
    by (simp_all add: expected_config_def undisturbed_def)
qed

section \<open>The configuration endpoint\<close>

lemma expected_config_simps [simp]:
  "cfg_device (expected_config w tn deviceID pid extras runtime ps) = deviceID"
  "cfg_policy (expected_config w tn deviceID pid extras runtime ps) = ps"
  "cfg_runtime (expected_config w tn deviceID pid extras runtime ps) = runtime"
  by (simp_all add: expected_config_def NewBootstrapConfigSnapshot_def)

lemma expected_config_lists:
  "cfg_apps (expected_config w tn deviceID pid extras runtime ps) =
     List.map_filter (bound_app (db w) tn deviceID) (active_bindings (policy_apps (db w)) tn pid)"
  "cfg_files (expected_config w tn deviceID pid extras runtime ps) =
     List.map_filter (bound_file w tn deviceID extras) (active_bindings (policy_managed_files (db w)) tn pid)"
  "cfg_certificates (expected_config w tn deviceID pid extras runtime ps) =
     List.map_filter (bound_certificate (db w) tn deviceID) (active_bindings (policy_certificates (db w)) tn pid)"
  by (simp_all add: expected_config_def NewBootstrapConfigSnapshot_def)

lemma answers_device:
  assumes "fst (Authenticate tn (TrimSpace (req_path r ''deviceId'')) (TrimSpace (req_secret r)) w) = Inr dv"
    and "list_all (\<lambda>p. TrimSpace (req_path r p) \<noteq> []) others"
    and "answers (f (TrimSpace (req_secret r)) dv) (tick_stmt w) Q"
  shows "answers (with_device tn others r f) w Q"
proof -
  let ?m = "Authenticate tn (TrimSpace (req_path r ''deviceId'')) (TrimSpace (req_secret r))"
  have "TrimSpace (req_path r ''deviceId'') \<noteq> []" "TrimSpace (req_secret r) \<noteq> []"
    using assms(1) by (auto simp: Authenticate_def throwE_def split: if_splits)
  moreover have "?m w = (Inr dv, tick_stmt w)"
    using assms(1) post_Authenticate_state [of tn "TrimSpace (req_path r ''deviceId'')" "TrimSpace (req_secret r)" w]
    by (cases "?m w") (simp add: post_def)
  then have "post ?m w (\<lambda>x w'. answers (f (TrimSpace (req_secret r)) x) w' Q) (\<lambda>e w'. Q (device_error e) w')"
    using assms(3) by (simp add: post_def)
  ultimately show ?thesis
    using assms(2) by (auto simp: with_device_def Let_def hp list_ex_iff list_all_iff)
qed

lemma Authenticate_tenant: "fst (Authenticate tn i s w) = Inr dv \<Longrightarrow> tn \<noteq> []"
  by (auto simp: Authenticate_def throwE_def)

definition signed :: "env \<Rightarrow> string \<Rightarrow> config_snapshot \<Rightarrow> config_snapshot" where
  "signed e secret c = c\<lparr>cfg_signature := EncodeToString (expectedConfigSignature (sha256 e) (float_text e) c secret)\<rparr>"

lemma signed_verifies:
  assumes "secret \<noteq> []" "\<And>m. sha256 e m \<noteq> []"
  shows "VerifyConfigSnapshot (sha256 e) (float_text e) (signed e secret c) secret = None"
  using assms sha_expectedConfigSignature [of "sha256 e"]
  by (simp add: VerifyConfigSnapshot_iff signed_def EncodeToString_empty)

text \<open>What the endpoint is asked for, and by whom.\<close>

definition config_request :: "string \<Rightarrow> request \<Rightarrow> world \<Rightarrow> device \<Rightarrow> bool" where
  "config_request tn r w dv \<longleftrightarrow> req_method r = ''GET'' \<and>
     fst (Authenticate tn (TrimSpace (req_path r ''deviceId'')) (TrimSpace (req_secret r)) w) = Inr dv"

lemma get_config_answers:
  assumes calm: "calm w" and req: "config_request tn r w dv"
    and pid: "given_policy (dv_policy_id dv) = Some pid" and ps: "policy_found w tn pid ps"
    and ready: "templates_ready w" and steady: "steady (config_identity dv) (extras_of (dv_extras dv))"
  shows "answers (get_config tn runtime r) w (\<lambda>ans w'. undisturbed w w' \<and>
      ans = Reply (signed (env w) (TrimSpace (req_secret r))
        (expected_config w tn (config_identity dv) pid (dv_extras dv) runtime ps)))"
    (is "answers _ _ ?Q")
proof -
  let ?secret = "TrimSpace (req_secret r)"
  let ?c = "expected_config w tn (config_identity dv) pid (dv_extras dv) runtime ps"
  have get: "req_method r = ''GET''" using req by (simp add: config_request_def)
  have tn: "tn \<noteq> []" using req Authenticate_tenant unfolding config_request_def by blast
  have secret: "?secret \<noteq> []" using req by (auto simp: config_request_def Authenticate_def throwE_def)
  have build: "post (BuildConfigSnapshot tn (config_identity dv) (dv_policy_id dv) (dv_extras dv) runtime) (tick_stmt w)
      (\<lambda>c w'. c = ?c \<and> undisturbed w w') (\<lambda>_ _. False)"
    by (rule post_BuildConfigSnapshot [OF calm tn pid ready steady ps]) simp
  have sign: "post (case SignConfigSnapshot (sha256 (env w')) (float_text (env w')) c ?secret of
        Inl e \<Rightarrow> throwE e | Inr c' \<Rightarrow> returnE c') w'
      (\<lambda>c w'. ?Q (Reply c) w') (\<lambda>_ _. False)" if "c = ?c \<and> undisturbed w w'" for c w'
    using that secret undisturbed_db [of w w'] by (simp add: SignConfigSnapshot_def signed_def wp)
  have "post (buildSignedConfigSnapshot tn (config_identity dv) (dv_policy_id dv) (dv_extras dv) runtime ?secret)
      (tick_stmt w) (\<lambda>c w'. ?Q (Reply c) w') (\<lambda>_ _. False)"
    unfolding buildSignedConfigSnapshot_def post_bindE post_asks
    by (rule post_mono [OF build]) (erule sign, simp)
  then have "answers (call (buildSignedConfigSnapshot tn (config_identity dv) (dv_policy_id dv) (dv_extras dv) runtime ?secret)
          config_error (\<lambda>c. answer (Reply c))) (tick_stmt w) ?Q"
    unfolding hp by (rule post_mono) simp_all
  then have "answers (with_device tn [] r (\<lambda>secret dv.
        call (buildSignedConfigSnapshot tn (config_identity dv) (dv_policy_id dv) (dv_extras dv) runtime secret)
          config_error (\<lambda>c. answer (Reply c)))) w ?Q"
    using req by (intro answers_device) (simp_all add: config_request_def)
  then show ?thesis using get by (simp add: get_config_def)
qed

section \<open>Properties\<close>


text \<open>When an app is listed, and with which version.\<close>

definition latest_published :: "database \<Rightarrow> string \<Rightarrow> string \<Rightarrow> version_row \<Rightarrow> bool" where
  "latest_published d tn a v \<longleftrightarrow> v \<in> set (app_versions d) \<and> of_app tn a v \<and> ver_status v = ''published'' \<and>
     (\<forall>u. u \<in> set (app_versions d) \<and> of_app tn a u \<and> ver_status u = ''published'' \<longrightarrow> publication u \<le> publication v)"

lemma first_row_rev: "first_row (rev s) = Some v \<longleftrightarrow> s \<noteq> [] \<and> last s = v"
  by (cases s rule: rev_cases) (auto simp: first_row_def)

lemma last_sort_key: "u \<in> set vs \<Longrightarrow> f u \<le> f (last (sort_key f vs))" for f :: "'a \<Rightarrow> 'k::linorder"
proof -
  assume u: "u \<in> set vs"
  have "sorted (map f s) \<Longrightarrow> u \<in> set s \<Longrightarrow> f u \<le> f (last s)" for s
    by (cases s rule: rev_cases) (auto simp: sorted_append)
  from this [of "sort_key f vs"] u show ?thesis by simp
qed

lemma last_sort_key_iff:
  fixes f :: "'a \<Rightarrow> 'k::linorder"
  assumes "inj_on f (set vs)"
  shows "first_row (rev (sort_key f vs)) = Some v \<longleftrightarrow> v \<in> set vs \<and> (\<forall>u \<in> set vs. f u \<le> f v)"
proof -
  have some: "sort_key f vs \<noteq> [] \<longleftrightarrow> vs \<noteq> []"
    unfolding length_greater_0_conv [symmetric] by simp
  have mem: "last (sort_key f vs) \<in> set vs" if "vs \<noteq> []"
    using last_in_set [of "sort_key f vs"] that unfolding some set_sort by blast
  show ?thesis
  proof
    assume "first_row (rev (sort_key f vs)) = Some v"
    then have "vs \<noteq> [] \<and> last (sort_key f vs) = v" unfolding first_row_rev some .
    then have v: "vs \<noteq> []" "v = last (sort_key f vs)" by blast+
    show "v \<in> set vs \<and> (\<forall>u \<in> set vs. f u \<le> f v)"
      unfolding v(2) using mem [OF v(1)] last_sort_key [of _ vs f] by blast
  next
    assume v: "v \<in> set vs \<and> (\<forall>u \<in> set vs. f u \<le> f v)"
    then have ne: "vs \<noteq> []" by auto
    have "f (last (sort_key f vs)) \<le> f v" "f v \<le> f (last (sort_key f vs))"
      using v mem [OF ne] last_sort_key [of v vs f] by blast+
    then have "f (last (sort_key f vs)) = f v" by (rule order_antisym)
    then have "last (sort_key f vs) = v" using assms mem [OF ne] v unfolding inj_on_def by blast
    with ne show "first_row (rev (sort_key f vs)) = Some v" unfolding first_row_rev some by blast
  qed
qed

lemma first_row_latest_iff:
  assumes "distinct (map ver_id (app_versions d))"
  shows "first_row (rev (sort_key publication
      (filter (\<lambda>v. of_app tn a v \<and> ver_status v = ''published'') (app_versions d)))) = Some v \<longleftrightarrow>
   latest_published d tn a v"
proof -
  have "inj_on publication (set (filter q (app_versions d)))" for q
  proof (rule inj_onI)
    fix u v assume "u \<in> set (filter q (app_versions d))" "v \<in> set (filter q (app_versions d))" "publication u = publication v"
    then have "u \<in> set (app_versions d)" "v \<in> set (app_versions d)" "ver_id u = ver_id v" by (auto simp: publication_def)
    with assms show "u = v" by (rule distinct_key_unique)
  qed
  from last_sort_key_iff [OF this] show ?thesis
    by (simp only: latest_published_def set_filter mem_Collect_eq) blast
qed

lemma first_row_by_id:
  assumes "distinct (map rec_id rs)"
  shows "first_row (filter (by_id tn i) rs) = Some a \<longleftrightarrow> a \<in> set rs \<and> by_id tn i a"
proof
  assume "first_row (filter (by_id tn i) rs) = Some a"
  then obtain as where "filter (by_id tn i) rs = a # as" by (auto simp: first_row_def split: list.splits)
  then show "a \<in> set rs \<and> by_id tn i a" by (rule filter_single_mem)
next
  assume a: "a \<in> set rs \<and> by_id tn i a"
  then have "filter (by_id tn i) rs = [a]"
    using assms by (intro filter_key_single [where k = rec_id]) (auto simp: by_id_def)
  then show "first_row (filter (by_id tn i) rs) = Some a" by (simp add: first_row_def)
qed

lemma bound_app_iff:
  assumes "distinct (map rec_id (apps d))" "distinct (map ver_id (app_versions d))"
  shows "bound_app d tn deviceID b = Some s \<longleftrightarrow>
     (\<exists>a v. a \<in> set (apps d) \<and> by_id tn (bind_item b) a \<and> rec_status a = ''active'' \<and>
        latest_published d tn (rec_id a) v \<and> app_snapshot_of deviceID a v = Some s)"
proof -
  let ?a = "\<lambda>a. first_row (filter (by_id tn (bind_item b)) (apps d)) = Some a"
  have "bound_app d tn deviceID b = Some s \<longleftrightarrow> (\<exists>a v. ?a a \<and> rec_status a = ''active'' \<and>
      latest_published d tn (rec_id a) v \<and> app_snapshot_of deviceID a v = Some s)"
    unfolding bound_app_def first_row_latest_iff [OF assms(2), symmetric] by (auto split: option.splits)
  then show ?thesis unfolding first_row_by_id [OF assms(1)] by blast
qed

text \<open>
  The apps of a configuration are exactly those an active binding of the policy leads to that are
  active themselves and have a published version with an artifact; the version listed is the one
  published last.
\<close>

theorem listPublishedPolicyApps_exact:
  assumes "calm w" "given_policy p = Some pid"
    and ids: "distinct (map rec_id (apps (db w)))" "distinct (map ver_id (app_versions (db w)))"
  shows "\<exists>xs. fst (listPublishedPolicyApps deviceID tn p w) = Inr xs \<and>
     (\<forall>s. s \<in> set xs \<longleftrightarrow> (\<exists>b a v. b \<in> set (policy_apps (db w)) \<and> bound_to tn pid b \<and> rec_status b = ''active'' \<and>
        a \<in> set (apps (db w)) \<and> by_id tn (bind_item b) a \<and> rec_status a = ''active'' \<and>
        latest_published (db w) tn (rec_id a) v \<and> app_snapshot_of deviceID a v = Some s))"
proof -
  let ?xs = "List.map_filter (bound_app (db w) tn deviceID) (active_bindings (policy_apps (db w)) tn pid)"
  have "fst (listPublishedPolicyApps deviceID tn p w) = Inr ?xs"
    by (rule fst_eq_post, rule post_mono [OF post_listPublishedPolicyApps [OF assms(1,2)]]) simp_all
  moreover have "s \<in> set ?xs \<longleftrightarrow> (\<exists>b. b \<in> set (policy_apps (db w)) \<and> bound_to tn pid b \<and>
      rec_status b = ''active'' \<and> bound_app (db w) tn deviceID b = Some s)" for s
    by (auto simp: map_filter_def active_bindings_def image_iff)
  ultimately show ?thesis unfolding bound_app_iff [OF ids] by blast
qed

section \<open>A sample configuration\<close>

text \<open>A device whose policy binds an app, a template and a certificate; the template and the app share an artifact.\<close>

definition sample_binding :: "string \<Rightarrow> binding_row" where
  "sample_binding item = \<lparr>rec_id = ''b'', rec_tenant = ''t'', rec_status = ''active'', created_at = 1,
     updated_at = 1, deleted_at = None, bind_policy = ''p'', bind_item = item\<rparr>"

definition sample_sum :: string where
  "sample_sum = SHA256Base64URL (sha256 sample_env) ''hi SITE''"

definition config_database :: database where
  "config_database = empty_database\<lparr>
     policies := [sample_policy ''p'' kiosk_restrictions],
     devices := [(sample_device ''d'' ''active'' (sample_hash ''s''))\<lparr>dev_policy_id := Some ''p'',
       dev_extras := Some [(''site'', JStr ''Berlin'')]\<rparr>],
     apps := [sample_app ''a'' False],
     app_versions := [\<lparr>ver_id = ''v'', ver_tenant = ''t'', ver_app = ''a'', ver_status = ''published'',
       ver_name = ''1.0'', ver_code = 1, ver_artifact = Some ''x'', ver_checksum = sample_sum,
       ver_published = Some 5, ver_created = 1\<rparr>],
     artifacts := [\<lparr>rec_id = ''x'', rec_tenant = ''t'', rec_status = ''active'', created_at = 1,
       updated_at = 1, deleted_at = None, art_storage_key = ''k'', art_checksum = sample_sum, art_size = 7,
       art_mime = ''text/plain''\<rparr>],
     files := [\<lparr>rec_id = ''n'', rec_tenant = ''t'', rec_status = ''active'', created_at = 1,
       updated_at = 1, deleted_at = None, file_name = ''motd'', file_artifact_id = ''x'',
       file_checksum = sample_sum, file_mime = ''text/plain''\<rparr>],
     managed_files := [\<lparr>rec_id = ''m'', rec_tenant = ''t'', rec_status = ''active'', created_at = 1, updated_at = 1,
       deleted_at = None, mf_file_id = ''n'', mf_path = ''/sdcard/motd'', mf_replace = True\<rparr>],
     certificates := [\<lparr>rec_id = ''c'', rec_tenant = ''t'', rec_status = ''active'', created_at = 1, updated_at = 1,
       deleted_at = None, cert_name = ''ca'', cert_artifact_id = ''x'', cert_checksum = sample_sum\<rparr>],
     policy_apps := [sample_binding ''a''], policy_managed_files := [sample_binding ''m''],
     policy_certificates := [sample_binding ''c'']\<rparr>"

definition config_world :: world where
  "config_world = (world_of config_database)\<lparr>objects := [(''k'', ''hi SITE'')]\<rparr>"

definition sample_request :: request where
  "sample_request = \<lparr>req_method = ''GET'', req_cookie = None, req_secret = '' s'',
     req_path = \<lambda>p. if p = ''deviceId'' then ''d'' else [], req_query = \<lambda>_. []\<rparr>"

definition sample_runtime :: runtime_snapshot where
  "sample_runtime = \<lparr>rt_mqtt_address = ''tcp://broker:1883'', rt_poll_interval = 60000, rt_sync_interval = 900000\<rparr>"

lemma config_world_simps [simp]:
  "db config_world = config_database" "env config_world = sample_env"
  by (simp_all add: config_world_def)

lemma calm_config_world: "calm config_world"
  by (simp add: calm_def no_faults_def) (simp add: sample_env_def)

lemma config_sample:
  "\<exists>dv. config_request ''t'' sample_request config_world dv \<and> config_identity dv = ''d'' \<and>
     given_policy (dv_policy_id dv) = Some ''p'' \<and> steady ''d'' (extras_of (dv_extras dv)) \<and>
     dv_extras dv = Some [(''site'', JStr ''Berlin'')]"
proof -
  have "case fst (Authenticate ''t'' (TrimSpace (req_path sample_request ''deviceId''))
      (TrimSpace (req_secret sample_request)) config_world) of
      Inr dv \<Rightarrow> config_identity dv = ''d'' \<and> given_policy (dv_policy_id dv) = Some ''p'' \<and>
        steady ''d'' (extras_of (dv_extras dv)) \<and> dv_extras dv = Some [(''site'', JStr ''Berlin'')]
    | Inl e \<Rightarrow> False" by code_simp
  then show ?thesis by (auto simp: config_request_def sample_request_def split: sum.splits)
qed

lemma policy_found_sample: "\<exists>ps. policy_found config_world ''t'' ''p'' ps"
proof -
  have "case first_row (filter (by_id ''t'' ''p'') (policies (db config_world))) of
      Some p \<Rightarrow> (case policySnapshotRestrictions (sha256 (env config_world)) (pol_restrictions p) of Inr r \<Rightarrow> True | Inl e \<Rightarrow> False)
    | None \<Rightarrow> False" by code_simp
  then show ?thesis unfolding policy_found_def by (auto split: option.splits sum.splits)
qed

lemma sample_sha: "sha256 sample_env m \<noteq> []"
  by (simp add: sample_env_def)


theorem listPublishedPolicyApps_exact_witness:
  "\<exists>xs s. fst (listPublishedPolicyApps ''d'' ''t'' (Some '' p '') config_world) = Inr xs \<and> s \<in> set xs \<and>
     sa_version_id s = ''v''"
proof -
  have pid: "given_policy (Some '' p '') = Some ''p''" by code_simp
  have ids: "distinct (map rec_id (apps (db config_world)))" "distinct (map ver_id (app_versions (db config_world)))"
    by (simp_all add: config_database_def)
  let ?b = "sample_binding ''a''" and ?a = "sample_app ''a'' False" and ?v = "hd (app_versions config_database)"
  have b: "?b \<in> set (policy_apps config_database)" "bound_to ''t'' ''p'' ?b" "rec_status ?b = ''active''"
    "by_id ''t'' (bind_item ?b) ?a" "?a \<in> set (apps config_database)" "rec_status ?a = ''active''"
    by (simp_all add: config_database_def sample_binding_def bound_to_def by_id_def sample_app_def)
  have v: "latest_published config_database ''t'' (rec_id ?a) ?v"
    by (simp add: latest_published_def config_database_def of_app_def sample_app_def)
  obtain s where s: "app_snapshot_of ''d'' ?a ?v = Some s" "sa_version_id s = ''v''"
    by (simp add: app_snapshot_of_def config_database_def)
  from listPublishedPolicyApps_exact [OF calm_config_world pid ids, of "''d''" "''t''"] b v s
  show ?thesis unfolding config_world_simps by blast
qed

end
