(* ===== verification/Downloads.thy ===== *)
theory Downloads
  imports Config
begin

text \<open>
  The endpoints from which artifacts are downloaded: managed files
  (\<open>managedfiles/http/routes.go\<close>), certificates (\<open>certificates/http/routes.go\<close>), app versions and the
  agent itself (\<open>apps/http/routes.go\<close>).
\<close>

section \<open>Answers\<close>

text \<open>
  The headers \<open>Content-Type\<close>, \<open>Content-Length\<close> (and \<open>X-XMDM-Artifact-Size\<close>, which is the same),
  \<open>X-XMDM-Artifact-Checksum\<close>, the file name of \<open>Content-Disposition\<close>, and the content.
\<close>

record download =
  dl_mime :: string
  dl_size :: string
  dl_checksum :: string
  dl_filename :: string
  dl_content :: string

text \<open>Managed files and certificates are measured when they are sent.\<close>

definition measured :: "(string \<Rightarrow> string) \<Rightarrow> string \<Rightarrow> string \<Rightarrow> string \<Rightarrow> download" where
  "measured sha mime name content = \<lparr>dl_mime = mime, dl_size = FormatInt (int (length content)),
     dl_checksum = SHA256Base64URL sha content, dl_filename = name, dl_content = content\<rparr>"

text \<open>Apps are sent with the size and the checksum of their record.\<close>

definition recorded :: "artifact_row \<Rightarrow> string \<Rightarrow> string \<Rightarrow> download" where
  "recorded a name content = \<lparr>dl_mime = art_mime a, dl_size = FormatInt (art_size a),
     dl_checksum = art_checksum a, dl_filename = name, dl_content = content\<rparr>"

definition load_error :: "goerr \<Rightarrow> 'a reply" where
  "load_error e = (if e = ErrNotFound then http_not_found else internal_error)"

fun first_nonempty :: "string list \<Rightarrow> string" where
  "first_nonempty [] = []"
| "first_nonempty (s # ss) = (if s = [] then first_nonempty ss else s)"

section \<open>Managed files and certificates\<close>

definition managed_content :: "request \<Rightarrow> device \<Rightarrow> managed_view \<Rightarrow> artifact \<Rightarrow> string action" where
  "managed_content r dv v a =
     bindE (object_Get (a_storage_key a)) (\<lambda>content.
     if mf_replace (mv_row v) then render content (TrimSpace (req_path r ''deviceId'')) (extras_of (dv_extras dv))
     else returnE content)"

definition get_managed_file_artifact :: "string \<Rightarrow> request \<Rightarrow> download handler" where
  "get_managed_file_artifact tn r =
     (if req_method r \<noteq> ''GET'' then answer method_not_allowed
      else with_device tn [''managedFileId''] r (\<lambda>secret dv.
        call (GetManagedFile tn (TrimSpace (req_path r ''managedFileId''))) load_error (\<lambda>v.
        if rec_status (mv_row v) \<noteq> ''active'' then answer http_not_found
        else case mv_file v of
            None \<Rightarrow> answer http_not_found
          | Some f \<Rightarrow>
              (case fv_artifact f of
                 None \<Rightarrow> answer http_not_found
               | Some a \<Rightarrow> call (managed_content r dv v a) (\<lambda>_. internal_error) (\<lambda>content.
                   call (asks sha256) (\<lambda>_. internal_error) (\<lambda>sha.
                   answer (Reply (measured sha (a_mime a)
                     (first_nonempty [mf_path (mv_row v), fv_name f, rec_id (mv_row v)]) content))))))))"

definition get_certificate_artifact :: "string \<Rightarrow> request \<Rightarrow> download handler" where
  "get_certificate_artifact tn r =
     (if req_method r \<noteq> ''GET'' then answer method_not_allowed
      else with_device tn [''certificateId''] r (\<lambda>secret dv.
        call (GetCertificate tn (TrimSpace (req_path r ''certificateId''))) load_error (\<lambda>v.
        if rec_status (cv_row v) \<noteq> ''active'' then answer http_not_found
        else case cv_artifact v of
            None \<Rightarrow> answer http_not_found
          | Some a \<Rightarrow> call (object_Get (a_storage_key a)) (\<lambda>_. internal_error) (\<lambda>content.
              call (asks sha256) (\<lambda>_. internal_error) (\<lambda>sha.
              answer (Reply (measured sha (a_mime a)
                (first_nonempty [cert_name (cv_row v), rec_id (cv_row v)]) content)))))))"

section \<open>Apps\<close>

definition send_version :: "(version_row \<Rightarrow> string) \<Rightarrow> version_view \<Rightarrow> download handler" where
  "send_version name v =
     (let ver = vv_version v
      in if ver_status ver \<noteq> ''published'' \<or> ver_artifact ver = None then answer http_not_found
         else case vv_artifact v of
            None \<Rightarrow> answer http_not_found
          | Some a \<Rightarrow> call (object_Get (art_storage_key a)) (\<lambda>_. internal_error) (\<lambda>content.
              answer (Reply (recorded a (name ver) content))))"

definition get_app_artifact :: "string \<Rightarrow> request \<Rightarrow> download handler" where
  "get_app_artifact tn r =
     (if req_method r \<noteq> ''GET'' then answer method_not_allowed
      else with_device tn [''appId'', ''versionId''] r (\<lambda>secret dv.
        let app = TrimSpace (req_path r ''appId'')
        in call (GetVersion tn app (TrimSpace (req_path r ''versionId''))) load_error
             (send_version (\<lambda>v. app @ ''-'' @ ver_name v @ ''.apk''))))"

text \<open>The agent is the app with a fixed package name; it is downloaded before a device is enrolled.\<close>

definition SeedAgentAppPackage :: string where
  "SeedAgentAppPackage = ''com.xmdm.launcher''"

definition latestPublishedAgentAppVersion :: "string \<Rightarrow> (app_row \<times> version_row) action" where
  "latestPublishedAgentAppVersion tn =
     bindE (GetAppByPackageName tn SeedAgentAppPackage) (\<lambda>a.
     if rec_status a \<noteq> ''active'' then throwE ErrNotFound
     else bindE (GetLatestPublishedVersion tn (rec_id a)) (\<lambda>v.
     if ver_artifact v = None \<or> TrimSpace (ver_checksum v) = [] then throwE ErrNotFound
     else returnE (a, v)))"

definition agent_filename :: "app_row \<Rightarrow> version_row \<Rightarrow> string" where
  "agent_filename a v =
     first_nonempty [TrimSpace (app_package a), TrimSpace (app_name a), rec_id a] @
     (if ver_name v = [] then [] else CHR ''-'' # ver_name v) @ ''.apk''"

definition get_agent_apk :: "string \<Rightarrow> request \<Rightarrow> download handler" where
  "get_agent_apk tn r =
     (if req_method r \<noteq> ''GET'' then answer method_not_allowed
      else call (latestPublishedAgentAppVersion tn) load_error (\<lambda>(a, v).
        call (GetVersion tn (rec_id a) (ver_id v)) load_error (send_version (agent_filename a))))"

section \<open>A download is what the configuration announced\<close>

text \<open>Every artifact has its object in the store, and the object has the artifact's checksum.\<close>

definition objects_match :: "world \<Rightarrow> bool" where
  "objects_match w \<longleftrightarrow> list_all (\<lambda>a. case map_of (objects w) (art_storage_key a) of
      None \<Rightarrow> False
    | Some content \<Rightarrow> SHA256Base64URL (sha256 (env w)) content = art_checksum a) (artifacts (db w))"

lemma objects_matchE:
  assumes "objects_match w" "a \<in> set (artifacts (db w))"
  obtains content where "map_of (objects w) (art_storage_key a) = Some content"
    "SHA256Base64URL (sha256 (env w)) content = art_checksum a"
  using assms by (auto simp: objects_match_def list_all_iff split: option.splits dest!: bspec)

lemma managed_joinE:
  assumes "v \<in> set (managed_join d m)"
  obtains f a where "f \<in> set (files d)" "a \<in> set (artifacts d)" "by_id (rec_tenant f) (file_artifact_id f) a"
    "mv_row v = m" "mv_file v = Some (scanFileWithArtifact f a)"
  using assms by (auto simp: managed_join_def file_join_def artifacts_of_def)

lemma cert_joinE:
  assumes "v \<in> set (cert_join d c)"
  obtains a where "a \<in> set (artifacts d)" "by_id (rec_tenant c) (cert_artifact_id c) a"
    "cv_row v = c" "cv_artifact v = Some (scanArtifact a)"
  using assms by (auto simp: cert_join_def artifacts_of_def scanCertificateWithArtifact_def)

text \<open>The schema ties the checksum of a file or certificate to that of its artifact.\<close>

lemma artifact_agrees:
  assumes "asset_schema d" "a \<in> set (artifacts d)"
  shows "f \<in> set (files d) \<Longrightarrow> by_id (rec_tenant f) (file_artifact_id f) a \<Longrightarrow> art_checksum a = file_checksum f"
    and "c \<in> set (certificates d) \<Longrightarrow> by_id (rec_tenant c) (cert_artifact_id c) a \<Longrightarrow> art_checksum a = cert_checksum c"
    and "art_storage_key a \<noteq> []"
proof -
  have ids: "distinct (map rec_id (artifacts d))" using assms(1) by (simp add: asset_schema_def)
  have only: "x = a" if "x \<in> set (artifacts d)" "by_id t i x" "by_id t i a" for x t i
    using distinct_key_unique [OF ids that(1) assms(2)] that(2,3) by (simp add: by_id_def)
  show "art_checksum a = file_checksum f" if "f \<in> set (files d)" "by_id (rec_tenant f) (file_artifact_id f) a"
    using that assms(1) only by (auto simp: asset_schema_def list_all_iff file_ok_def list_ex_iff dest!: bspec)
  show "art_checksum a = cert_checksum c" if "c \<in> set (certificates d)" "by_id (rec_tenant c) (cert_artifact_id c) a"
    using that assms(1) only by (auto simp: asset_schema_def list_all_iff cert_ok_def list_ex_iff dest!: bspec)
  show "art_storage_key a \<noteq> []" using assms by (auto simp: asset_schema_def list_all_iff artifact_ok_def)
qed

lemma objects_match_ready:
  assumes "objects_match w" "asset_schema (db w)"
  shows "templates_ready w"
proof -
  have "template_ready w v" if "v \<in> set (managed_join (db w) m)" for v m
    using that
  proof (rule managed_joinE)
    fix f a assume a: "a \<in> set (artifacts (db w))" and v: "mv_file v = Some (scanFileWithArtifact f a)"
    obtain content where "map_of (objects w) (art_storage_key a) = Some content"
      using objects_matchE [OF assms(1) a] by blast
    then show "template_ready w v"
      using v artifact_agrees(3) [OF assms(2) a]
      by (simp add: template_ready_def scanFileWithArtifact_def scanArtifact_def)
  qed
  then show ?thesis by (auto simp: templates_ready_def list_all_iff)
qed

lemma first_row_mem: "first_row rs = Some r \<Longrightarrow> r \<in> set rs"
  by (cases rs) (simp_all add: first_row_def)

text \<open>The managed file behind an entry of a configuration.\<close>

lemma bound_fileE:
  assumes "bound_file w tn deviceID extras b = Some s" "asset_schema (db w)" "objects_match w"
  obtains m f a content v where "m \<in> set (managed_files (db w))" "rec_id m = sf_file_id s" "mv_row v = m"
    "first_row (concat (map (managed_join (db w)) (filter (by_id tn (rec_id m)) (managed_files (db w))))) = Some v"
    "rec_status m = ''active''" "mv_file v = Some f" "fv_artifact f = Some a" "a_storage_key a \<noteq> []"
    "map_of (objects w) (a_storage_key a) = Some content"
    "sf_checksum s = SHA256Base64URL (sha256 (env w))
       (if mf_replace m then RenderTemplate (\<lambda>vs. vs) content deviceID (extras_of extras) else content)"
proof -
  let ?vs = "\<lambda>i. concat (map (managed_join (db w)) (filter (by_id tn i) (managed_files (db w))))"
  from assms(1) obtain v where v: "first_row (?vs (bind_item b)) = Some v" and act: "rec_status (mv_row v) = ''active''"
    unfolding bound_file_def by (auto split: option.splits if_splits)
  from first_row_mem [OF v] obtain m where m: "m \<in> set (managed_files (db w))" "by_id tn (bind_item b) m"
      and vm: "v \<in> set (managed_join (db w) m)" by auto
  from vm obtain f a where fa: "f \<in> set (files (db w))" "a \<in> set (artifacts (db w))"
      "by_id (rec_tenant f) (file_artifact_id f) a" "mv_row v = m" "mv_file v = Some (scanFileWithArtifact f a)"
    by (rule managed_joinE)
  note sum = artifact_agrees [OF assms(2) fa(2)]
  obtain content where c: "map_of (objects w) (art_storage_key a) = Some content"
      "SHA256Base64URL (sha256 (env w)) content = art_checksum a"
    by (rule objects_matchE [OF assms(3) fa(2)])
  have s: "s = managed_file_snapshot_of (sha256 (env w)) deviceID m (scanFileWithArtifact f a)
      (if mf_replace m then final_content (objects w) deviceID extras m (scanArtifact a) else None)"
    using assms(1) v act fa(5) unfolding bound_file_def fa(4) [symmetric]
    by (simp add: scanFileWithArtifact_def split: if_splits)
  show ?thesis
  proof (rule that [where m = m and f = "scanFileWithArtifact f a" and a = "scanArtifact a" and v = v and content = content])
    show "rec_id m = sf_file_id s" by (simp add: s managed_file_snapshot_of_def)
    have "rec_id m = bind_item b" using m(2) by (simp add: by_id_def)
    then show "first_row (?vs (rec_id m)) = Some v" using v by simp
    show "sf_checksum s = SHA256Base64URL (sha256 (env w))
       (if mf_replace m then RenderTemplate (\<lambda>vs. vs) content deviceID (extras_of extras) else content)"
      using c sum(1) [OF fa(1,3)]
      by (simp add: s managed_file_snapshot_of_def final_content_def scanArtifact_def scanFileWithArtifact_def scanFile_def)
  qed (use m fa act c sum(3) in \<open>simp_all add: scanFileWithArtifact_def scanArtifact_def\<close>)
qed

lemma bound_certificateE:
  assumes "bound_certificate (db w) tn deviceID b = Some s" "asset_schema (db w)" "objects_match w"
  obtains v a content where "cv_artifact v = Some a" "a_storage_key a \<noteq> []" "rec_status (cv_row v) = ''active''"
    "first_row (concat (map (cert_join (db w)) (filter (by_id tn (sc_id s)) (certificates (db w))))) = Some v"
    "map_of (objects w) (a_storage_key a) = Some content"
    "sc_checksum s = SHA256Base64URL (sha256 (env w)) content"
proof -
  let ?vs = "\<lambda>i. concat (map (cert_join (db w)) (filter (by_id tn i) (certificates (db w))))"
  from assms(1) obtain v where v: "first_row (?vs (bind_item b)) = Some v" and act: "rec_status (cv_row v) = ''active''"
      and s: "s = certificate_snapshot_of deviceID (cv_row v)"
    unfolding bound_certificate_def by (auto split: option.splits if_splits)
  from first_row_mem [OF v] obtain c where c: "c \<in> set (certificates (db w))" "by_id tn (bind_item b) c"
      and vc: "v \<in> set (cert_join (db w) c)" by auto
  from vc obtain a where a: "a \<in> set (artifacts (db w))" "by_id (rec_tenant c) (cert_artifact_id c) a"
      "cv_row v = c" "cv_artifact v = Some (scanArtifact a)" by (rule cert_joinE)
  note sum = artifact_agrees [OF assms(2) a(1)]
  obtain content where ob: "map_of (objects w) (art_storage_key a) = Some content"
      "SHA256Base64URL (sha256 (env w)) content = art_checksum a"
    by (rule objects_matchE [OF assms(3) a(1)])
  have "sc_id s = bind_item b" using c(2) a(3) by (simp add: s certificate_snapshot_of_def by_id_def)
  then show ?thesis
    using v act a ob sum(2) [OF c(1) a(2)] sum(3)
    by (intro that [of v "scanArtifact a" content]) (simp_all add: s certificate_snapshot_of_def scanArtifact_def)
qed

text \<open>The request for a path of the configuration: the same device and secret, one more path value.\<close>

definition follow :: "request \<Rightarrow> string \<Rightarrow> string \<Rightarrow> request" where
  "follow r name i = r\<lparr>req_path := (req_path r)(name := i)\<rparr>"

lemma Authenticate_again:
  assumes "fst (Authenticate tn i s w) = Inr dv" "no_faults w" "undisturbed w w'"
  shows "fst (Authenticate tn i s w') = Inr dv"
proof -
  have nf: "no_faults w'" and eqs: "db w' = db w" "sha256 (env w') = sha256 (env w)"
    using assms(2,3) undisturbed_faults [OF assms(3)] by (simp_all add: undisturbed_def)
  show ?thesis
    using assms(1) unfolding fst_Authenticate [OF assms(2)] fst_Authenticate [OF nf] eqs .
qed

lemma post_read:
  assumes "calm w" "undisturbed w w'" "first_row (g (db w)) = Some v" "\<And>w''. undisturbed w w'' \<Longrightarrow> Q v w''"
  shows "post (no_rows_as ErrNotFound (query_row g)) w' Q E"
proof -
  have "\<not> faulty w'" "db w' = db w" using assms(1,2) by (simp_all add: undisturbed_def)
  with assms(2-4) show ?thesis by (simp add: wp first_row_def split: list.splits)
qed

definition sent_content :: "string \<Rightarrow> obj \<Rightarrow> mfile_row \<Rightarrow> string \<Rightarrow> string" where
  "sent_content deviceID extras m content =
     (if mf_replace m then RenderTemplate (\<lambda>vs. vs) content deviceID extras else content)"

lemma post_managed_content:
  assumes calm: "calm w" and w': "undisturbed w w'"
    and a: "a_storage_key a \<noteq> []" "map_of (objects w) (a_storage_key a) = Some content"
    and steady: "steady (TrimSpace (req_path r ''deviceId'')) (extras_of (dv_extras dv))"
  shows "post (managed_content r dv v a) w' (\<lambda>x w''.
      x = sent_content (TrimSpace (req_path r ''deviceId'')) (extras_of (dv_extras dv)) (mv_row v) content \<and>
      undisturbed w w'') (\<lambda>_ _. False)"
proof -
  let ?dev = "TrimSpace (req_path r ''deviceId'')"
  have c: "calm w'" and ob: "objects w' = objects w"
    using w' calm calm_undisturbed [OF w'] by (simp_all add: undisturbed_def)
  have get: "post (object_Get (a_storage_key a)) w' (\<lambda>x v'. x = content \<and> undisturbed w' v') (\<lambda>_ _. False)"
    using c ob a by (intro post_object_Get) simp_all
  have ren: "post (render content ?dev (extras_of (dv_extras dv))) v'
      (\<lambda>x v''. x = RenderTemplate (\<lambda>vs. vs) content ?dev (extras_of (dv_extras dv)) \<and> undisturbed w v'') (\<lambda>_ _. False)"
    if "undisturbed w' v'" for v'
    using undisturbed_trans [OF undisturbed_trans [OF w' that]] calm_undisturbed [OF that] c
    by (intro post_mono [OF post_render [OF _ steady]]) auto
  show ?thesis
    unfolding managed_content_def post_bindE
    by (rule post_mono [OF get]) (use ren undisturbed_trans [OF w'] in \<open>auto simp: wp sent_content_def\<close>)
qed

lemma follow_simps [simp]:
  "req_method (follow r name i) = req_method r" "req_secret (follow r name i) = req_secret r"
  "req_path (follow r name i) p = (if p = name then i else req_path r p)"
  by (simp_all add: follow_def)

lemma managed_download:
  assumes calm: "calm w" and u: "undisturbed w w'" and req: "config_request tn r w dv"
    and i: "TrimSpace i = i" "i \<noteq> []"
    and v: "first_row (concat (map (managed_join (db w)) (filter (by_id tn i) (managed_files (db w))))) = Some v"
      "rec_status (mv_row v) = ''active''" "mv_file v = Some f" "fv_artifact f = Some a" "a_storage_key a \<noteq> []"
      "map_of (objects w) (a_storage_key a) = Some content"
    and steady: "steady (TrimSpace (req_path r ''deviceId'')) (extras_of (dv_extras dv))"
  shows "\<exists>dl. fst (get_managed_file_artifact tn (follow r ''managedFileId'' i) w') = Reply dl \<and>
     dl_content dl = sent_content (TrimSpace (req_path r ''deviceId'')) (extras_of (dv_extras dv)) (mv_row v) content \<and>
     dl_checksum dl = SHA256Base64URL (sha256 (env w)) (dl_content dl)"
proof -
  let ?r = "follow r ''managedFileId'' i"
  let ?Q = "\<lambda>ans w'. \<exists>dl. ans = Reply dl \<and>
     dl_content dl = sent_content (TrimSpace (req_path r ''deviceId'')) (extras_of (dv_extras dv)) (mv_row v) content \<and>
     dl_checksum dl = SHA256Base64URL (sha256 (env w)) (dl_content dl)"
  have get: "req_method r = ''GET''" and auth: "fst (Authenticate tn (TrimSpace (req_path ?r ''deviceId''))
      (TrimSpace (req_secret ?r)) w') = Inr dv"
    using req Authenticate_again [OF _ calm_no_faults [OF calm] u] by (simp_all add: config_request_def)
  have content: "post (managed_content ?r dv v a) w'' (\<lambda>x w''.
      x = sent_content (TrimSpace (req_path r ''deviceId'')) (extras_of (dv_extras dv)) (mv_row v) content \<and>
      undisturbed w w'') (\<lambda>_ _. False)" if "undisturbed w w''" for w''
    using post_managed_content [OF calm that v(5,6), of ?r dv v] steady by simp
  let ?send = "\<lambda>v. if rec_status (mv_row v) \<noteq> ''active'' then answer http_not_found
        else case mv_file v of
            None \<Rightarrow> answer http_not_found
          | Some f \<Rightarrow>
              (case fv_artifact f of
                 None \<Rightarrow> answer http_not_found
               | Some a \<Rightarrow> call (managed_content ?r dv v a) (\<lambda>_. internal_error) (\<lambda>content.
                   call (asks sha256) (\<lambda>_. internal_error) (\<lambda>sha.
                   answer (Reply (measured sha (a_mime a)
                     (first_nonempty [mf_path (mv_row v), fv_name f, rec_id (mv_row v)]) content)))))"
  have "answers (?send v) w'' ?Q" if "undisturbed w w''" for w''
    unfolding v(3,4) option.case using content [OF that]
    by (auto simp: v(2) hp wp measured_def undisturbed_def elim!: post_mono)
  then have "answers (call (GetManagedFile tn i) load_error ?send) (tick_stmt w') ?Q"
    unfolding answers_call GetManagedFile_def
    by (intro post_read [where w = w and v = v, OF calm]) (use u v(1) in simp_all)
  then have "answers (get_managed_file_artifact tn ?r) w' ?Q"
    unfolding get_managed_file_artifact_def get simp_thms if_False follow_simps if_True i(1)
    by (intro answers_device) (use auth i in simp_all)
  from answersD [OF this] show ?thesis .
qed

lemma certificate_download:
  assumes calm: "calm w" and u: "undisturbed w w'" and req: "config_request tn r w dv"
    and i: "TrimSpace i = i" "i \<noteq> []"
    and v: "first_row (concat (map (cert_join (db w)) (filter (by_id tn i) (certificates (db w))))) = Some v"
      "rec_status (cv_row v) = ''active''" "cv_artifact v = Some a" "a_storage_key a \<noteq> []"
      "map_of (objects w) (a_storage_key a) = Some content"
  shows "\<exists>dl. fst (get_certificate_artifact tn (follow r ''certificateId'' i) w') = Reply dl \<and>
     dl_content dl = content \<and> dl_checksum dl = SHA256Base64URL (sha256 (env w)) content"
proof -
  let ?r = "follow r ''certificateId'' i"
  let ?Q = "\<lambda>ans w'. \<exists>dl. ans = Reply dl \<and> dl_content dl = content \<and>
     dl_checksum dl = SHA256Base64URL (sha256 (env w)) content"
  have get: "req_method r = ''GET''" and auth: "fst (Authenticate tn (TrimSpace (req_path ?r ''deviceId''))
      (TrimSpace (req_secret ?r)) w') = Inr dv"
    using req Authenticate_again [OF _ calm_no_faults [OF calm] u] by (simp_all add: config_request_def)
  let ?send = "\<lambda>v. if rec_status (cv_row v) \<noteq> ''active'' then answer http_not_found
        else case cv_artifact v of
            None \<Rightarrow> answer http_not_found
          | Some a \<Rightarrow> call (object_Get (a_storage_key a)) (\<lambda>_. internal_error) (\<lambda>content.
              call (asks sha256) (\<lambda>_. internal_error) (\<lambda>sha.
              answer (Reply (measured sha (a_mime a)
                (first_nonempty [cert_name (cv_row v), rec_id (cv_row v)]) content))))"
  have "answers (?send v) w'' ?Q" if w'': "undisturbed w w''" for w''
  proof -
    have c: "calm w''" and ob: "objects w'' = objects w"
      using w'' calm calm_undisturbed [OF w''] by (simp_all add: undisturbed_def)
    have "post (object_Get (a_storage_key a)) w'' (\<lambda>x v'. x = content \<and> undisturbed w'' v') (\<lambda>_ _. False)"
      using c ob v(4,5) by (intro post_object_Get) simp_all
    then show ?thesis
      unfolding v(3) option.case using w''
      by (auto simp: v(2) hp wp measured_def undisturbed_def elim!: post_mono)
  qed
  then have "answers (call (GetCertificate tn i) load_error ?send) (tick_stmt w') ?Q"
    unfolding answers_call GetCertificate_def
    by (intro post_read [where w = w and v = v, OF calm]) (use u v(1) in simp_all)
  then have "answers (get_certificate_artifact tn ?r) w' ?Q"
    unfolding get_certificate_artifact_def get simp_thms if_False follow_simps if_True i(1)
    by (intro answers_device) (use auth i in simp_all)
  from answersD [OF this] show ?thesis .
qed

lemma config_identity_path:
  assumes "config_request tn r w dv" "no_faults w"
  shows "config_identity dv = TrimSpace (req_path r ''deviceId'')"
proof -
  let ?dev = "TrimSpace (req_path r ''deviceId'')"
  have auth: "fst (Authenticate tn ?dev (TrimSpace (req_secret r)) w) = Inr dv"
    using assms(1) by (simp add: config_request_def)
  then have "?dev \<noteq> []" by (auto simp: Authenticate_def throwE_def split: if_splits)
  moreover have "rec_id dv = ?dev"
    using auth unfolding fst_Authenticate [OF assms(2)]
    by (auto simp: by_id_def device_view_def scanDevice_def filter_eq_Cons_iff split: if_splits list.splits)
  ultimately show ?thesis by (simp add: config_identity_def)
qed



end
