(* ===== verification/Accounts.thy ===== *)
theory Accounts
  imports Tables Tokens Pagination Samples
begin

text \<open>
  Administrators: \<open>roles/postgres/store.go\<close>, \<open>users/postgres/store.go\<close>, \<open>users/password.go\<close> and the
  audit log of \<open>audit/postgres/store.go\<close>. A user has a role, and may log in while both are active and
  the password fits the stored hash. A missing list of permissions is not told apart from an empty one.
\<close>

section \<open>Data\<close>

record role_upsert =
  ru_name :: string
  ru_permissions :: "string list"

record user_upsert =
  uu_email :: string
  uu_password_hash :: string
  uu_role_id :: string

text \<open>\<open>User\<close>, which does not show the password hash.\<close>

record user = record_base +
  us_email :: string
  us_role_id :: string

definition scanUser :: "user_row \<Rightarrow> user" where
  "scanUser u = \<lparr>rec_id = rec_id u, rec_tenant = rec_tenant u, rec_status = rec_status u,
     created_at = created_at u, updated_at = updated_at u, deleted_at = deleted_at u,
     us_email = user_email u, us_role_id = user_role_id u\<rparr>"

section \<open>Roles\<close>

definition role_key :: "role_row \<Rightarrow> string \<times> string" where
  "role_key r = (rec_tenant r, role_name r)"

definition insert_role :: "string \<Rightarrow> role_upsert \<Rightarrow> string \<Rightarrow> int \<Rightarrow> role_row list stmt" where
  "insert_role tn req i t = insert_row roles_update
     (\<lambda>d. fresh rec_id i (roles d) \<and> fresh role_key (tn, ru_name req) (roles d))
     (\<lambda>d. tn \<in> set (tenants d))
     (\<lambda>pgnow. \<lparr>rec_id = i, rec_tenant = tn, rec_status = ''active'', created_at = pgnow, updated_at = t,
        deleted_at = None, role_name = ru_name req, role_permissions = ru_permissions req\<rparr>)"

definition CreateRole :: "string \<Rightarrow> role_upsert \<Rightarrow> role_row action" where
  "CreateRole tn req =
     (if ru_name req = [] then throwE ErrInvalidInput
      else bindE NewString (\<lambda>i. bindE now (\<lambda>t. exec_row (insert_role tn req i t))))"

definition ListRoles :: "string \<Rightarrow> page_params \<Rightarrow> role_row list action" where
  "ListRoles tn page = query (\<lambda>d. paged page (newest_first (filter (in_tenant tn) (roles d))))"

definition ListActiveRoles :: "string \<Rightarrow> role_row list action" where
  "ListActiveRoles tn = query (\<lambda>d. newest_first (filter (\<lambda>r. in_tenant tn r \<and> rec_status r = ''active'') (roles d)))"

definition GetRole :: "string \<Rightarrow> string \<Rightarrow> role_row action" where
  "GetRole tn i = get_by_id roles tn i"

definition update_role :: "string \<Rightarrow> string \<Rightarrow> role_upsert \<Rightarrow> int \<Rightarrow> role_row list stmt" where
  "update_role tn i req t = update_rows roles roles_update
     (\<lambda>d. if list_ex (\<lambda>r. role_key r = (tn, ru_name req) \<and> rec_id r \<noteq> i) (roles d) then Some PgUnique else None)
     (\<lambda>r. by_id tn i r \<and> rec_status r = ''active'')
     (\<lambda>r. r\<lparr>role_name := ru_name req, role_permissions := ru_permissions req, updated_at := t\<rparr>)"

definition UpdateRole :: "string \<Rightarrow> string \<Rightarrow> role_upsert \<Rightarrow> role_row action" where
  "UpdateRole tn i req =
     (if ru_name req = [] then throwE ErrInvalidInput
      else bindE now (\<lambda>t. no_rows_as ErrNotFound (exec_row (update_role tn i req t))))"

definition RetireRole :: "string \<Rightarrow> string \<Rightarrow> role_row action" where
  "RetireRole tn i = retire_by_id roles roles_update tn i"

section \<open>Passwords\<close>

text \<open>bcrypt hashes start with \<open>$2\<close>; any other stored hash is that of \<open>HashToken\<close>.\<close>

definition VerifyPassword :: "env \<Rightarrow> string \<Rightarrow> string \<Rightarrow> bool" where
  "VerifyPassword e hash password =
     (if hash = [] \<or> password = [] then False
      else if prefix ''$2'' hash then bcrypt_match e hash password
      else hash = HashToken (sha256 e) password)"

definition HashPassword :: "string \<Rightarrow> string action" where
  "HashPassword password =
     (if password = [] then returnE []
      else (\<lambda>w. (case bcrypt_gen (env w) (rand_no w) password of None \<Rightarrow> Inl (ErrText ''bcrypt'') | Some h \<Rightarrow> Inr h,
                 w\<lparr>rand_no := Suc (rand_no w)\<rparr>)))"

section \<open>Users\<close>

definition email_key :: "user_row \<Rightarrow> string \<times> string" where
  "email_key u = (rec_tenant u, user_email u)"

definition insert_user :: "string \<Rightarrow> user_upsert \<Rightarrow> string \<Rightarrow> int \<Rightarrow> user_row list stmt" where
  "insert_user tn req i t = insert_row users_update
     (\<lambda>d. fresh rec_id i (users d) \<and> fresh email_key (tn, uu_email req) (users d))
     (\<lambda>d. tn \<in> set (tenants d) \<and> has_key tenant_id (tn, uu_role_id req) (roles d))
     (\<lambda>pgnow. \<lparr>rec_id = i, rec_tenant = tn, rec_status = ''active'', created_at = pgnow, updated_at = t,
        deleted_at = None, user_email = uu_email req, user_password_hash = uu_password_hash req,
        user_role_id = uu_role_id req\<rparr>)"

definition CreateUser :: "string \<Rightarrow> user_upsert \<Rightarrow> user action" where
  "CreateUser tn req =
     (if uu_email req = [] \<or> uu_password_hash req = [] \<or> uu_role_id req = [] then throwE ErrInvalidInput
      else bindE now (\<lambda>t. bindE NewString (\<lambda>i. bindE (exec_row (insert_user tn req i t)) (\<lambda>u. returnE (scanUser u)))))"

definition ListUsers :: "string \<Rightarrow> page_params \<Rightarrow> user list action" where
  "ListUsers tn page = query (\<lambda>d. map scanUser (paged page (newest_first (filter (in_tenant tn) (users d)))))"

definition ListActiveUsers :: "string \<Rightarrow> user list action" where
  "ListActiveUsers tn = query (\<lambda>d. map scanUser
     (newest_first (filter (\<lambda>u. in_tenant tn u \<and> rec_status u = ''active'') (users d))))"

definition GetUser :: "string \<Rightarrow> string \<Rightarrow> user action" where
  "GetUser tn i = bindE (get_by_id users tn i) (\<lambda>u. returnE (scanUser u))"

text \<open>\<open>COALESCE(NULLIF($4, ''), password_hash)\<close>: an empty hash keeps the password.\<close>

definition update_user :: "string \<Rightarrow> string \<Rightarrow> user_upsert \<Rightarrow> int \<Rightarrow> user_row list stmt" where
  "update_user tn i req t = update_rows users users_update
     (\<lambda>d. if list_ex (\<lambda>u. email_key u = (tn, uu_email req) \<and> rec_id u \<noteq> i) (users d) then Some PgUnique
          else if \<not> has_key tenant_id (tn, uu_role_id req) (roles d) then Some PgForeignKey else None)
     (\<lambda>u. by_id tn i u \<and> rec_status u = ''active'')
     (\<lambda>u. u\<lparr>user_email := uu_email req,
        user_password_hash := (if uu_password_hash req = [] then user_password_hash u else uu_password_hash req),
        user_role_id := uu_role_id req, updated_at := t\<rparr>)"

definition UpdateUser :: "string \<Rightarrow> string \<Rightarrow> user_upsert \<Rightarrow> user action" where
  "UpdateUser tn i req =
     (if uu_email req = [] \<or> uu_role_id req = [] then throwE ErrInvalidInput
      else bindE now (\<lambda>t. bindE (no_rows_as ErrNotFound (exec_row (update_user tn i req t))) (\<lambda>u.
        returnE (scanUser u))))"

definition RetireUser :: "string \<Rightarrow> string \<Rightarrow> user action" where
  "RetireUser tn i = bindE (retire_by_id users users_update tn i) (\<lambda>u. returnE (scanUser u))"

text \<open>The rows of \<open>users u JOIN roles r ON r.tenant_id = u.tenant_id AND r.id = u.role_id\<close>.\<close>

definition user_join :: "database \<Rightarrow> user_row \<Rightarrow> (user_row \<times> role_row) list" where
  "user_join d u = map (\<lambda>r. (u, r)) (filter (by_id (rec_tenant u) (user_role_id u)) (roles d))"

definition AuthenticateUser :: "string \<Rightarrow> string \<Rightarrow> string \<Rightarrow> (user \<times> role_row) action" where
  "AuthenticateUser tn email password =
     (if tn = [] \<or> email = [] \<or> password = [] then throwE ErrInvalidCredentials
      else bindE (no_rows_as ErrInvalidCredentials (query_row (\<lambda>d.
             concat (map (user_join d) (filter (\<lambda>u. email_key u = (tn, email)) (users d)))))) (\<lambda>(u, r).
        bindE (asks (\<lambda>e. VerifyPassword e (user_password_hash u) password)) (\<lambda>fits.
        if \<not> fits then throwE ErrInvalidCredentials
        else if rec_status u \<noteq> ''active'' \<or> rec_status r \<noteq> ''active'' then throwE ErrInvalidCredentials
        else returnE (scanUser u, r))))"

section \<open>The audit log\<close>

definition Record :: "string \<Rightarrow> string \<Rightarrow> string \<Rightarrow> string \<Rightarrow> string \<Rightarrow> obj \<Rightarrow> audit_row action" where
  "Record tn actor act resource i details =
     bindE now (\<lambda>t. bindE NewString (\<lambda>e.
     bindE (exec (insert_row audit_events_update (\<lambda>d. fresh evt_id e (audit_events d)) (\<lambda>d. tn \<in> set (tenants d))
        (\<lambda>_. \<lparr>evt_id = e, evt_tenant = tn, evt_actor = actor, evt_action = act, evt_resource_type = resource,
             evt_resource_id = i, evt_details = details, evt_created = t\<rparr>))) (\<lambda>_.
     returnE \<lparr>evt_id = [], evt_tenant = tn, evt_actor = actor, evt_action = act, evt_resource_type = resource,
             evt_resource_id = i, evt_details = details, evt_created = t\<rparr>)))"

definition newest_events :: "audit_row list \<Rightarrow> audit_row list" where
  "newest_events es = rev (sort_key (\<lambda>e. (evt_created e, evt_id e)) es)"

definition audit_List :: "string \<Rightarrow> page_params \<Rightarrow> audit_row list action" where
  "audit_List tn page = query (\<lambda>d. paged page (newest_events (filter (\<lambda>e. evt_tenant e = tn) (audit_events d))))"

definition ListNewest :: "string \<Rightarrow> audit_row list action" where
  "ListNewest tn = query (\<lambda>d. newest_events (filter (\<lambda>e. evt_tenant e = tn) (audit_events d)))"

definition CountSince :: "string \<Rightarrow> int \<Rightarrow> int action" where
  "CountSince tn since = query (\<lambda>d.
     int (length (filter (\<lambda>e. evt_tenant e = tn \<and> since \<le> evt_created e) (audit_events d))))"

interpretation audit_t: table audit_events audit_events_update evt_id
  by unfold_locales (simp_all cong: database.fold_congs)

section \<open>Well-formed accounts\<close>

text \<open>Unique identifiers, names and addresses, a life cycle, and a role for every user.\<close>

definition role_ok :: "role_row \<Rightarrow> bool" where
  "role_ok r \<longleftrightarrow> life_ok r \<and> role_name r \<noteq> []"

definition user_ok :: "role_row list \<Rightarrow> user_row \<Rightarrow> bool" where
  "user_ok rs u \<longleftrightarrow> life_ok u \<and> user_email u \<noteq> [] \<and> user_password_hash u \<noteq> [] \<and>
     has_key tenant_id (rec_tenant u, user_role_id u) rs"

definition account_schema :: "database \<Rightarrow> bool" where
  "account_schema d \<longleftrightarrow>
     distinct (map rec_id (roles d)) \<and> distinct (map role_key (roles d)) \<and>
     distinct (map rec_id (users d)) \<and> distinct (map email_key (users d)) \<and>
     list_all role_ok (roles d) \<and> list_all (user_ok (roles d)) (users d)"

lemma account_schema_tables: "roles d' = roles d \<Longrightarrow> users d' = users d \<Longrightarrow> account_schema d' = account_schema d"
  by (simp add: account_schema_def)

lemma user_ok_roles: "map tenant_id rs' = map tenant_id rs \<Longrightarrow> user_ok rs' u = user_ok rs u"
  by (simp add: user_ok_def has_key_def)

lemma account_schema_roles:
  assumes "account_schema d" "map tenant_id (f (roles d)) = map tenant_id (roles d)"
    and "distinct (map rec_id (f (roles d)))" "distinct (map role_key (f (roles d)))" "list_all role_ok (f (roles d))"
  shows "account_schema (roles_update f d)"
  using assms user_ok_roles [OF assms(2)] by (simp add: account_schema_def list_all_iff)

lemma schema_insert_role: "ru_name req \<noteq> [] \<Longrightarrow> stmt_keeps account_schema (insert_role tn req i t)"
  unfolding stmt_keeps_def insert_role_def
proof (intro allI impI)
  fix pg d x d' assume nm: "ru_name req \<noteq> []" and d: "account_schema d"
    and ins: "insert_row roles_update (\<lambda>d. fresh rec_id i (roles d) \<and> fresh role_key (tn, ru_name req) (roles d))
     (\<lambda>d. tn \<in> set (tenants d))
     (\<lambda>pgnow. \<lparr>rec_id = i, rec_tenant = tn, rec_status = ''active'', created_at = pgnow, updated_at = t,
        deleted_at = None, role_name = ru_name req, role_permissions = ru_permissions req\<rparr>) pg d = Inr (x, d')"
  from roles_t.insert_Inr [OF ins] d nm show "account_schema d'"
    by (auto simp: account_schema_def fresh_def role_key_def role_ok_def life_ok_def list_all_iff user_ok_def
        has_key_def)
qed

lemma schema_update_role: "ru_name req \<noteq> [] \<Longrightarrow> stmt_keeps account_schema (update_role tn i req t)"
  unfolding stmt_keeps_def
proof (intro allI impI)
  let ?p = "\<lambda>r. by_id tn i r \<and> rec_status r = ''active''"
  let ?f = "\<lambda>r. r\<lparr>role_name := ru_name req, role_permissions := ru_permissions req, updated_at := t\<rparr>"
  fix pg d x d' assume nm: "ru_name req \<noteq> []" and d: "account_schema d" and u: "update_role tn i req t pg d = Inr (x, d')"
  from u have d': "d' = roles_update (upd_where ?p ?f) d"
    and free: "list_ex ?p (roles d) \<Longrightarrow> \<not> list_ex (\<lambda>r. rec_tenant r = tn \<and> role_name r = ru_name req \<and> rec_id r \<noteq> i) (roles d)"
    by (auto simp: update_role_def update_rows_def role_key_def split: if_splits)
  have "distinct (map role_key (upd_where ?p ?f (roles d)))"
  proof (cases "list_ex ?p (roles d)")
    case True
    show ?thesis
      unfolding role_key_def using d free [OF True]
      by (intro distinct_rename) (auto simp: account_schema_def role_key_def [abs_def])
  next
    case False
    then show ?thesis using d by (simp add: upd_where_none list_ex_iff account_schema_def)
  qed
  moreover have "list_all role_ok (upd_where ?p ?f (roles d))"
    using d nm by (auto simp: account_schema_def list_all_iff set_upd_where role_ok_def life_ok_def)
  ultimately show "account_schema d'"
    unfolding d' using d
    by (intro account_schema_roles) (simp_all add: map_upd_where tenant_id_def account_schema_def)
qed

lemma schema_retire_role: "stmt_keeps account_schema (update_rows roles roles_update no_check (by_id tn i) (retire_row t))"
  unfolding stmt_keeps_def
proof (intro allI impI)
  fix pg d x d' assume d: "account_schema d"
    and u: "update_rows roles roles_update no_check (by_id tn i) (retire_row t) pg d = Inr (x, d')"
  have "account_schema (roles_update (upd_where (by_id tn i) (retire_row t)) d)"
    using d by (intro account_schema_roles)
      (auto simp: map_upd_where tenant_id_def account_schema_def role_key_def retire_row_def list_all_iff
        set_upd_where role_ok_def life_ok_def)
  with u show "account_schema d'" by simp
qed

lemma schema_insert_user:
  "uu_email req \<noteq> [] \<Longrightarrow> uu_password_hash req \<noteq> [] \<Longrightarrow> stmt_keeps account_schema (insert_user tn req i t)"
  unfolding stmt_keeps_def insert_user_def
  by (auto dest!: users_t.insert_Inr simp: account_schema_def fresh_def email_key_def user_ok_def life_ok_def)

lemma schema_update_user: "uu_email req \<noteq> [] \<Longrightarrow> stmt_keeps account_schema (update_user tn i req t)"
  unfolding stmt_keeps_def
proof (intro allI impI)
  let ?p = "\<lambda>u. by_id tn i u \<and> rec_status u = ''active''"
  let ?f = "\<lambda>u. u\<lparr>user_email := uu_email req,
        user_password_hash := (if uu_password_hash req = [] then user_password_hash u else uu_password_hash req),
        user_role_id := uu_role_id req, updated_at := t\<rparr>"
  fix pg d x d' assume em: "uu_email req \<noteq> []" and d: "account_schema d" and u: "update_user tn i req t pg d = Inr (x, d')"
  from u have d': "d' = users_update (upd_where ?p ?f) d"
    and free: "list_ex ?p (users d) \<Longrightarrow>
        \<not> list_ex (\<lambda>u. rec_tenant u = tn \<and> user_email u = uu_email req \<and> rec_id u \<noteq> i) (users d) \<and>
        has_key tenant_id (tn, uu_role_id req) (roles d)"
    by (auto simp: update_user_def update_rows_def email_key_def split: if_splits)
  have "distinct (map email_key (upd_where ?p ?f (users d))) \<and> list_all (user_ok (roles d)) (upd_where ?p ?f (users d))"
  proof (cases "list_ex ?p (users d)")
    case True
    have "distinct (map email_key (upd_where ?p ?f (users d)))"
      unfolding email_key_def using d free [OF True]
      by (intro distinct_rename) (auto simp: account_schema_def email_key_def [abs_def])
    moreover have "list_all (user_ok (roles d)) (upd_where ?p ?f (users d))"
      using d em free [OF True]
      by (auto simp: account_schema_def list_all_iff set_upd_where user_ok_def life_ok_def by_id_def
          split: if_splits)
    ultimately show ?thesis ..
  next
    case False
    then show ?thesis using d by (simp add: upd_where_none list_ex_iff account_schema_def)
  qed
  with d show "account_schema d'" by (simp add: d' account_schema_def map_upd_where)
qed

lemma schema_retire_user: "stmt_keeps account_schema (update_rows users users_update no_check (by_id tn i) (retire_row t))"
  by (auto simp: stmt_keeps_def account_schema_def map_upd_where email_key_def retire_row_def list_all_iff
      set_upd_where user_ok_def life_ok_def)

lemma schema_insert_event: "stmt_keeps account_schema (insert_row audit_events_update uniq refs mk)"
  by (auto simp: stmt_keeps_def account_schema_def insert_row_def insert_into_def split: if_splits)

lemmas account_ops = CreateRole_def UpdateRole_def RetireRole_def CreateUser_def UpdateUser_def RetireUser_def
  retire_by_id_def Record_def AuthenticateUser_def

lemma keeps_HashPassword [keeps_intros]: "keeps P (HashPassword pw)"
  unfolding HashPassword_def
  by (intro keeps_if keeps_returnE) (auto simp: keeps_def post_def holds_def split: option.splits)

lemma schema_account_ops:
  "keeps account_schema (CreateRole tn rreq)" "keeps account_schema (UpdateRole tn i rreq)"
  "keeps account_schema (RetireRole tn i)" "keeps account_schema (CreateUser tn ureq)"
  "keeps account_schema (UpdateUser tn i ureq)" "keeps account_schema (RetireUser tn i)"
  "keeps account_schema (Record tn actor act resource i details)"
  unfolding account_ops
  by (intro keeps_intros schema_insert_role schema_update_role schema_retire_role schema_insert_user
      schema_update_user schema_insert_event schema_retire_user; simp)+

section \<open>Retired accounts\<close>

text \<open>A retired user or role stays as it is; everything else an update may change.\<close>

definition role_step :: "role_row \<Rightarrow> role_row \<Rightarrow> bool" where
  "role_step r r' \<longleftrightarrow> rec_tenant r' = rec_tenant r \<and> created_at r' = created_at r \<and>
     (rec_status r = ''retired'' \<longrightarrow> rec_status r' = ''retired'' \<and> role_name r' = role_name r \<and>
        role_permissions r' = role_permissions r)"

definition user_step :: "user_row \<Rightarrow> user_row \<Rightarrow> bool" where
  "user_step u u' \<longleftrightarrow> rec_tenant u' = rec_tenant u \<and> created_at u' = created_at u \<and>
     (rec_status u = ''retired'' \<longrightarrow> rec_status u' = ''retired'' \<and> email_key u' = email_key u)"

interpretation roles_e: evolving roles roles_update rec_id role_step
  by unfold_locales (auto simp: role_step_def)

interpretation users_e: evolving users users_update rec_id user_step
  by unfold_locales (auto simp: user_step_def)

lemma stmt_roles_elsewhere:
  "stmt_keeps (\<lambda>d. rows_evolve rec_id role_step (roles (d0 :: database)) (roles d)) (insert_row audit_events_update uniq refs mk)"
  "stmt_keeps (\<lambda>d. rows_evolve rec_id role_step (roles (d0 :: database)) (roles d)) (insert_user tn req i t)"
  "stmt_keeps (\<lambda>d. rows_evolve rec_id role_step (roles (d0 :: database)) (roles d)) (update_user tn i req t)"
  "stmt_keeps (\<lambda>d. rows_evolve rec_id role_step (roles (d0 :: database)) (roles d)) (update_rows users users_update chk p f)"
  by (intro roles_e.stmt_elsewhere; auto simp: insert_row_def insert_into_def insert_user_def update_user_def
      update_rows_def split: if_splits option.splits)+

lemma stmt_users_elsewhere:
  "stmt_keeps (\<lambda>d. rows_evolve rec_id user_step (users (d0 :: database)) (users d)) (insert_row audit_events_update uniq refs mk)"
  "stmt_keeps (\<lambda>d. rows_evolve rec_id user_step (users (d0 :: database)) (users d)) (insert_role tn rreq i t)"
  "stmt_keeps (\<lambda>d. rows_evolve rec_id user_step (users (d0 :: database)) (users d)) (update_role tn i rreq t)"
  "stmt_keeps (\<lambda>d. rows_evolve rec_id user_step (users (d0 :: database)) (users d)) (update_rows roles roles_update rchk rp rf)"
  by (intro users_e.stmt_elsewhere; auto simp: insert_row_def insert_into_def insert_role_def update_role_def
      update_rows_def split: if_splits option.splits)+

lemma stmt_roles_evolve:
  "stmt_keeps (\<lambda>d. rows_evolve rec_id role_step (roles (d0 :: database)) (roles d)) (insert_role tn req i t)"
  "stmt_keeps (\<lambda>d. rows_evolve rec_id role_step (roles (d0 :: database)) (roles d)) (update_role tn i req t)"
  "stmt_keeps (\<lambda>d. rows_evolve rec_id role_step (roles (d0 :: database)) (roles d))
     (update_rows roles roles_update no_check (by_id tn i) (retire_row t))"
  unfolding insert_role_def update_role_def
  by (intro roles_e.insert_evolves roles_e.update_evolves; simp add: role_step_def retire_row_def)+

lemma stmt_users_evolve:
  "stmt_keeps (\<lambda>d. rows_evolve rec_id user_step (users (d0 :: database)) (users d)) (insert_user tn req i t)"
  "stmt_keeps (\<lambda>d. rows_evolve rec_id user_step (users (d0 :: database)) (users d)) (update_user tn i req t)"
  "stmt_keeps (\<lambda>d. rows_evolve rec_id user_step (users (d0 :: database)) (users d))
     (update_rows users users_update no_check (by_id tn i) (retire_row t))"
  unfolding insert_user_def update_user_def
  by (intro users_e.insert_evolves users_e.update_evolves; simp add: user_step_def retire_row_def email_key_def)+

lemmas account_evolve = stmt_roles_elsewhere stmt_users_elsewhere stmt_roles_evolve stmt_users_evolve

lemma account_ops_evolve_roles:
  "evolves roles rec_id role_step (CreateRole tn rreq)" "evolves roles rec_id role_step (UpdateRole tn i rreq)"
  "evolves roles rec_id role_step (RetireRole tn i)" "evolves roles rec_id role_step (CreateUser tn ureq)"
  "evolves roles rec_id role_step (UpdateUser tn i ureq)" "evolves roles rec_id role_step (RetireUser tn i)"
  "evolves roles rec_id role_step (Record tn actor act resource i details)"
  unfolding account_ops by (intro roles_e.evolvesI keeps_intros account_evolve)+

lemma account_ops_evolve_users:
  "evolves users rec_id user_step (CreateRole tn rreq)" "evolves users rec_id user_step (UpdateRole tn i rreq)"
  "evolves users rec_id user_step (RetireRole tn i)" "evolves users rec_id user_step (CreateUser tn ureq)"
  "evolves users rec_id user_step (UpdateUser tn i ureq)" "evolves users rec_id user_step (RetireUser tn i)"
  "evolves users rec_id user_step (Record tn actor act resource i details)"
  unfolding account_ops by (intro users_e.evolvesI keeps_intros account_evolve)+

section \<open>Logging in\<close>

text \<open>Who may log in with an address and a password.\<close>

definition may_log_in :: "env \<Rightarrow> database \<Rightarrow> string \<Rightarrow> string \<Rightarrow> string \<Rightarrow> user_row \<Rightarrow> role_row \<Rightarrow> bool" where
  "may_log_in e d tn email password u r \<longleftrightarrow>
     u \<in> set (users d) \<and> email_key u = (tn, email) \<and> rec_status u = ''active'' \<and>
     VerifyPassword e (user_password_hash u) password \<and>
     r \<in> set (roles d) \<and> by_id tn (user_role_id u) r \<and> rec_status r = ''active''"

lemma post_AuthenticateUser:
  assumes "no_faults w" "account_schema (db w)" "tn \<noteq> []" "email \<noteq> []" "password \<noteq> []"
  shows "post (AuthenticateUser tn email password) w
     (\<lambda>x w'. \<exists>u r. may_log_in (env w) (db w) tn email password u r \<and> x = (scanUser u, r) \<and> w' = tick_stmt w)
     (\<lambda>e w'. e = ErrInvalidCredentials \<and> \<not> (\<exists>u r. may_log_in (env w) (db w) tn email password u r) \<and> w' = tick_stmt w)"
proof -
  let ?d = "db w"
  have ids: "distinct (map email_key (users ?d))" "distinct (map rec_id (roles ?d))"
    using assms(2) by (simp_all add: account_schema_def)
  show ?thesis
  proof (cases "\<exists>u. u \<in> set (users ?d) \<and> email_key u = (tn, email)")
    case False
    then have "filter (\<lambda>u. email_key u = (tn, email)) (users ?d) = []" by (auto simp: filter_empty_conv)
    with assms(1,3-5) False show ?thesis by (auto simp: AuthenticateUser_def wp may_log_in_def)
  next
    case True
    then obtain u where u: "u \<in> set (users ?d)" "email_key u = (tn, email)" by blast
    have only: "v = u" if "v \<in> set (users ?d)" "email_key v = (tn, email)" for v
      using distinct_key_unique [OF ids(1) that(1) u(1)] that(2) u(2) by simp
    have us: "filter (\<lambda>u. email_key u = (tn, email)) (users ?d) = [u]"
      using u by (intro filter_key_single [OF ids(1)]) simp_all
    have tn: "rec_tenant u = tn" using u(2) by (simp add: email_key_def)
    have "user_ok (roles ?d) u" using assms(2) u(1) by (simp add: account_schema_def list_all_iff)
    then obtain r where r: "r \<in> set (roles ?d)" "by_id tn (user_role_id u) r"
      using tn by (auto simp: user_ok_def has_key_def by_id_def tenant_id_def)
    have rs: "filter (by_id tn (user_role_id u)) (roles ?d) = [r]"
      using r ids(2) by (intro roles_t.by_id_single)
    have role: "s = r" if "s \<in> set (roles ?d)" "by_id tn (user_role_id u) s" for s
      using distinct_key_unique [OF ids(2) that(1) r(1)] that(2) r(2) by (simp add: by_id_def)
    have "may_log_in (env w) ?d tn email password v s \<longleftrightarrow> v = u \<and> s = r \<and> rec_status u = ''active'' \<and>
        rec_status r = ''active'' \<and> VerifyPassword (env w) (user_password_hash u) password" for v s
      unfolding may_log_in_def using only role u r by blast
    then show ?thesis using assms(1,3-5) by (auto simp: AuthenticateUser_def wp us user_join_def tn rs)
  qed
qed

text \<open>
  A log-in succeeds exactly for an active user of the tenant with that address, whose stored hash
  fits the password and whose role is active; it returns that user and role. Every refusal is the same
  error, whichever of these fails, and looking up a user changes no table.
\<close>

theorem AuthenticateUser_decides:
  assumes "no_faults w" "account_schema (db w)" "tn \<noteq> []"
  shows "(fst (AuthenticateUser tn email password w) = Inr (us, r) \<longleftrightarrow>
       email \<noteq> [] \<and> password \<noteq> [] \<and>
       (\<exists>u. may_log_in (env w) (db w) tn email password u r \<and> us = scanUser u)) \<and>
     (fst (AuthenticateUser tn email password w) = Inl e \<longrightarrow> e = ErrInvalidCredentials) \<and>
     db (snd (AuthenticateUser tn email password w)) = db w"
proof (cases "email = [] \<or> password = []")
  case True
  then show ?thesis by (auto simp: AuthenticateUser_def throwE_def)
next
  case False
  let ?m = "AuthenticateUser tn email password"
  have p: "post ?m w
     (\<lambda>x w'. \<exists>u r. may_log_in (env w) (db w) tn email password u r \<and> x = (scanUser u, r) \<and> w' = tick_stmt w)
     (\<lambda>e w'. e = ErrInvalidCredentials \<and> \<not> (\<exists>u r. may_log_in (env w) (db w) tn email password u r) \<and> w' = tick_stmt w)"
    using assms False by (intro post_AuthenticateUser) simp_all
  have one: "v = u \<and> s = r"
    if "may_log_in (env w) (db w) tn email password u r" "may_log_in (env w) (db w) tn email password v s" for u r v s
  proof -
    have ids: "distinct (map email_key (users (db w)))" "distinct (map rec_id (roles (db w)))"
      using assms(2) by (simp_all add: account_schema_def)
    have "v = u" using distinct_key_unique [OF ids(1), of v u] that by (simp add: may_log_in_def)
    then show ?thesis using distinct_key_unique [OF ids(2), of s r] that by (simp add: may_log_in_def by_id_def)
  qed
  show ?thesis
  proof (cases "fst (?m w)")
    case (Inl e')
    from post_fst_Inl [OF p Inl] Inl False show ?thesis by auto
  next
    case (Inr x)
    from post_fst_Inr [OF p Inr] obtain u s where x: "may_log_in (env w) (db w) tn email password u s"
      "x = (scanUser u, s)" "snd (?m w) = tick_stmt w" by blast
    with Inr False show ?thesis by (auto dest: one)
  qed
qed

definition account_database :: database where
  "account_database = empty_database\<lparr>
     roles := [\<lparr>rec_id = ''ro'', rec_tenant = ''t'', rec_status = ''active'', created_at = 1, updated_at = 1,
       deleted_at = None, role_name = ''operator'', role_permissions = [''admin.read'', ''devices.read'']\<rparr>],
     users := [\<lparr>rec_id = ''us'', rec_tenant = ''t'', rec_status = ''active'', created_at = 1, updated_at = 1,
       deleted_at = None, user_email = ''op@x.org'', user_password_hash = ''$2secret'', user_role_id = ''ro''\<rparr>]\<rparr>"

theorem AuthenticateUser_decides_witness:
  "\<exists>us r. fst (AuthenticateUser ''t'' ''op@x.org'' ''secret'' (world_of account_database)) = Inr (us, r) \<and>
     role_permissions r = [''admin.read'', ''devices.read''] \<and>
     fst (AuthenticateUser ''t'' ''op@x.org'' ''other'' (world_of account_database)) = Inl ErrInvalidCredentials"
proof -
  let ?w = "world_of account_database" and ?u = "hd (users account_database)" and ?r = "hd (roles account_database)"
  have schema: "account_schema (db ?w)" by code_simp
  have may: "may_log_in (env ?w) (db ?w) ''t'' ''op@x.org'' ''secret'' ?u ?r"
    by (simp add: may_log_in_def account_database_def email_key_def by_id_def VerifyPassword_def sample_env_def)
  have wrong: "\<not> may_log_in (env ?w) (db ?w) ''t'' ''op@x.org'' ''other'' u r" for u r
    by (auto simp: may_log_in_def account_database_def email_key_def by_id_def VerifyPassword_def sample_env_def)
  note decides = AuthenticateUser_decides [OF _ schema, of "''t''" "''op@x.org''"]
  have "fst (AuthenticateUser ''t'' ''op@x.org'' ''secret'' ?w) = Inr (scanUser ?u, ?r)"
    using decides [of "''secret''" "scanUser ?u" ?r] may by auto
  moreover have "fst (AuthenticateUser ''t'' ''op@x.org'' ''other'' ?w) = Inl ErrInvalidCredentials"
    using decides [of "''other''"] wrong by (cases "fst (AuthenticateUser ''t'' ''op@x.org'' ''other'' ?w)") auto
  ultimately show ?thesis by (simp add: account_database_def)
qed

text \<open>Creating a user adds one row, with the values of the request.\<close>

lemma post_CreateUser:
  assumes "txn w = None"
  shows "post (CreateUser tn req) w
     (\<lambda>us w'. \<exists>u. us = scanUser u \<and> rec_tenant u = tn \<and> rec_status u = ''active'' \<and> user_email u = uu_email req \<and>
        user_password_hash u = uu_password_hash req \<and> user_role_id u = uu_role_id req \<and>
        db w' = users_update (\<lambda>rs. rs @ [u]) (db w) \<and> env w' = env w)
     (\<lambda>_ w'. db w' = db w)"
  by (auto simp: CreateUser_def insert_user_def insert_row_def insert_into_def wp)

lemma HashPassword_Inr:
  assumes "HashPassword pw w = (Inr h, w1)" "pw \<noteq> []"
  shows "bcrypt_gen (env w) (rand_no w) pw = Some h \<and> db w1 = db w \<and> env w1 = env w \<and> txn w1 = txn w"
  using assms by (auto simp: HashPassword_def split: option.splits)

text \<open>
  A user created with the hash of a password can log in with that password and gets the role that
  was given, provided bcrypt accepts a password for the hash it generated from it.
\<close>

theorem created_user_logs_in:
  assumes w: "no_faults w" "account_schema (db w)" "txn w = None" and tn: "tn \<noteq> []"
    and bcrypt: "\<forall>n h. bcrypt_gen (env w) n pw = Some h \<longrightarrow> prefix ''$2'' h \<and> bcrypt_match (env w) h pw"
    and pw: "pw \<noteq> []" "HashPassword pw w = (Inr h, w1)"
    and user: "CreateUser tn \<lparr>uu_email = email, uu_password_hash = h, uu_role_id = role\<rparr> w1 = (Inr us, w2)"
    and r: "r \<in> set (roles (db w))" "by_id tn role r" "rec_status r = ''active''"
  shows "fst (AuthenticateUser tn email pw w2) = Inr (us, r)"
proof -
  let ?req = "\<lparr>uu_email = email, uu_password_hash = h, uu_role_id = role\<rparr>"
  have h: "prefix ''$2'' h" "bcrypt_match (env w) h pw" and w1: "db w1 = db w" "env w1 = env w" "txn w1 = None"
    using HashPassword_Inr [OF pw(2,1)] bcrypt w(3) by auto
  obtain u where u: "us = scanUser u" "rec_tenant u = tn" "rec_status u = ''active''" "user_email u = email"
      "user_password_hash u = h" "user_role_id u = role" "db w2 = users_update (\<lambda>rs. rs @ [u]) (db w)" "env w2 = env w"
    using post_Inr [OF post_CreateUser [OF w1(3)] user] w1 by auto
  have "holds account_schema (snd (CreateUser tn ?req w1))"
    by (rule keepsD [OF schema_account_ops(4)]) (simp add: holds_def w1 w(2))
  then have schema: "account_schema (db w2)" by (simp add: user holds_def)
  have nf: "no_faults w2" using w(1) u(8) by (simp add: no_faults_def)
  have email: "email \<noteq> []" using user by (auto simp: CreateUser_def throwE_def)
  have may: "may_log_in (env w2) (db w2) tn email pw u r"
    using u h r pw(1) by (auto simp: may_log_in_def email_key_def VerifyPassword_def)
  from post_AuthenticateUser [OF nf schema tn email pw(1)] show ?thesis
  proof (rule fst_eq_post [OF post_mono])
    fix x w' assume "\<exists>v s. may_log_in (env w2) (db w2) tn email pw v s \<and> x = (scanUser v, s) \<and> w' = tick_stmt w2"
    then obtain v s where vs: "may_log_in (env w2) (db w2) tn email pw v s" "x = (scanUser v, s)" by blast
    have ids: "distinct (map email_key (users (db w2)))" "distinct (map rec_id (roles (db w2)))"
      using schema by (simp_all add: account_schema_def)
    have "v = u" using distinct_key_unique [OF ids(1), of v u] vs(1) may by (simp add: may_log_in_def)
    moreover have "s = r" using distinct_key_unique [OF ids(2), of s r] vs(1) may \<open>v = u\<close>
      by (simp add: may_log_in_def by_id_def)
    ultimately show "Inr (us, r) = Inr x" using vs(2) u(1) by simp
  qed (use may in blast)
qed

theorem created_user_logs_in_witness:
  "\<exists>us w2 r. CreateUser ''t'' \<lparr>uu_email = ''new@x.org'', uu_password_hash = ''$2pw'', uu_role_id = ''ro''\<rparr>
       (snd (HashPassword ''pw'' (world_of account_database))) = (Inr us, w2) \<and>
     fst (AuthenticateUser ''t'' ''new@x.org'' ''pw'' w2) = Inr (us, r)"
proof -
  let ?w = "world_of account_database" and ?r = "hd (roles account_database)"
  let ?w1 = "snd (HashPassword ''pw'' ?w)"
  let ?m = "CreateUser ''t'' \<lparr>uu_email = ''new@x.org'', uu_password_hash = ''$2pw'', uu_role_id = ''ro''\<rparr> ?w1"
  have hash: "HashPassword ''pw'' ?w = (Inr ''$2pw'', ?w1)" by (simp add: HashPassword_def sample_env_def)
  have "case fst ?m of Inr x \<Rightarrow> True | Inl e \<Rightarrow> False" by code_simp
  then obtain us where us: "?m = (Inr us, snd ?m)" by (cases ?m) (auto split: sum.splits)
  have schema: "account_schema (db ?w)" by code_simp
  have bcrypt: "\<forall>n h. bcrypt_gen (env ?w) n ''pw'' = Some h \<longrightarrow> prefix ''$2'' h \<and> bcrypt_match (env ?w) h ''pw''"
    by (simp add: sample_env_def)
  have r: "?r \<in> set (roles (db ?w))" "by_id ''t'' ''ro'' ?r" "rec_status ?r = ''active''"
    by (simp_all add: account_database_def by_id_def)
  from created_user_logs_in [OF _ schema _ _ bcrypt _ hash us r] us show ?thesis by auto
qed

end
