(* ===== verification/Frames.thy ===== *)
theory Frames
  imports Objects
begin

text \<open>
  What a store operation cannot touch. The tables, the transaction and the counters of the
  environment are all a statement works on; any other part of the world, the objects, the sessions
  and the environment itself, is the same before and after.
\<close>

named_theorems frames_intros \<open>introduction rules for parts of the world an action leaves alone\<close>

definition frames :: "(world \<Rightarrow> 'x) \<Rightarrow> 'a action \<Rightarrow> bool" where
  "frames g m \<longleftrightarrow> (\<forall>w. g (snd (m w)) = g w)"

lemma framesD: "frames g m \<Longrightarrow> g (snd (m w)) = g w"
  by (simp add: frames_def)

lemma frames_post: "frames g m \<Longrightarrow> post m w (\<lambda>_ w'. g w' = g w) (\<lambda>_ w'. g w' = g w)"
  by (simp add: frames_def post_snd)

lemma post_frame:
  "frames g m \<Longrightarrow> post m w Q E \<Longrightarrow> post m w (\<lambda>x w'. Q x w' \<and> g w' = g w) (\<lambda>e w'. E e w' \<and> g w' = g w)"
  by (rule post_conj [OF _ frames_post])

lemma frames_returnE [frames_intros]: "frames g (returnE x)"
  by (simp add: frames_def returnE_def)

lemma frames_throwE [frames_intros]: "frames g (throwE e)"
  by (simp add: frames_def throwE_def)

lemma frames_bindE [frames_intros]: "frames g m \<Longrightarrow> (\<And>x. frames g (f x)) \<Longrightarrow> frames g (bindE m f)"
  by (auto simp: frames_def bindE_def split: prod.splits sum.splits) (metis snd_conv)+

lemma frames_handleE [frames_intros]: "frames g m \<Longrightarrow> (\<And>e. frames g (h e)) \<Longrightarrow> frames g (handleE m h)"
  by (auto simp: frames_def handleE_def split: prod.splits sum.splits) (metis snd_conv)+

lemma frames_elseE [frames_intros]:
  "frames g m \<Longrightarrow> (\<And>e. frames g (h e)) \<Longrightarrow> (\<And>x. frames g (f x)) \<Longrightarrow> frames g (elseE m h f)"
  by (auto simp: frames_def elseE_def split: prod.splits sum.splits) (metis snd_conv)+

lemma frames_no_rows_as [frames_intros]: "frames g m \<Longrightarrow> frames g (no_rows_as e m)"
  unfolding no_rows_as_def by (intro frames_intros)

lemma frames_if [frames_intros]: "frames g m \<Longrightarrow> frames g n \<Longrightarrow> frames g (if b then m else n)"
  by simp

lemma frames_mapE [frames_intros]: "(\<And>x. frames g (f x)) \<Longrightarrow> frames g (mapE f xs)"
  by (induction xs) (simp_all add: frames_intros)

lemma frames_asks [frames_intros]: "frames g (asks f)"
  by (simp add: frames_def asks_def)

lemma frames_case_option [frames_intros]:
  "(y = None \<Longrightarrow> frames g m) \<Longrightarrow> (\<And>x. y = Some x \<Longrightarrow> frames g (f x)) \<Longrightarrow>
    frames g (case y of None \<Rightarrow> m | Some x \<Rightarrow> f x)"
  by (simp split: option.splits)

lemma frames_case_list [frames_intros]:
  "frames g m \<Longrightarrow> (\<And>x xs. frames g (f x xs)) \<Longrightarrow> frames g (case y of [] \<Rightarrow> m | x # xs \<Rightarrow> f x xs)"
  by (simp split: list.splits)

lemma frames_case_prod [frames_intros]:
  "(\<And>a b. frames g (f a b)) \<Longrightarrow> frames g (case p of (a, b) \<Rightarrow> f a b)"
  by (simp split: prod.splits)

lemma frames_case_sum [frames_intros]:
  "(\<And>a. frames g (f a)) \<Longrightarrow> (\<And>b. frames g (h b)) \<Longrightarrow> frames g (case s of Inl a \<Rightarrow> f a | Inr b \<Rightarrow> h b)"
  by (simp split: sum.splits)

text \<open>A part of the world that no statement touches.\<close>

locale frame =
  fixes g :: "world \<Rightarrow> 'x"
  assumes g_db: "g (w\<lparr>db := d\<rparr>) = g w" and g_txn: "g (w\<lparr>txn := x\<rparr>) = g w"
    and g_ticks: "g (w\<lparr>ticks := n\<rparr>) = g w" and g_uuid: "g (w\<lparr>uuid_no := n\<rparr>) = g w"
    and g_stmts: "g (w\<lparr>stmts := n\<rparr>) = g w"
begin

lemma g_tick: "g (tick_stmt w) = g w"
  by (simp add: tick_stmt_def g_stmts)

lemma g_rollback: "g (rollback w) = g w"
proof (cases "txn w")
  case (Some x)
  then have "rollback w = w\<lparr>txn := None\<rparr>\<lparr>db := fst x\<rparr>" by (cases x) (simp add: rollback_def)
  then show ?thesis by (simp only: g_db g_txn)
qed (simp add: rollback_def)

lemma frames_now [frames_intros]: "frames g now"
  by (simp add: frames_def now_def g_ticks)

lemma frames_NewString [frames_intros]: "frames g NewString"
  by (simp add: frames_def NewString_def g_uuid)

lemma frames_query [frames_intros]: "frames g (query f)"
  by (simp add: frames_def query_def g_tick)

lemma frames_scan_first [frames_intros]: "frames g (scan_first rs)"
  by (simp add: scan_first_def frames_intros split: list.splits)

lemma frames_query_row [frames_intros]: "frames g (query_row f)"
  unfolding query_row_def by (intro frames_intros)

lemma frames_exec [frames_intros]: "frames g (exec s)"
  by (auto simp: frames_def exec_def g_tick g_db split: sum.splits)

lemma frames_exec_row [frames_intros]: "frames g (exec_row s)"
  unfolding exec_row_def by (intro frames_intros)

lemma frames_commit [frames_intros]: "frames g commit"
  by (simp add: frames_def commit_def g_tick g_txn)

lemma frames_with_tx [frames_intros]: "frames g m \<Longrightarrow> frames g (with_tx m)"
  by (auto simp: frames_def with_tx_def g_tick g_rollback g_txn split: prod.splits) (metis snd_conv g_tick g_txn)

end

interpretation objects_f: frame objects by unfold_locales simp_all
interpretation object_no_f: frame object_no by unfold_locales simp_all
interpretation auth_f: frame auth by unfold_locales simp_all
interpretation env_f: frame env by unfold_locales simp_all

end
