(* ===== verification/AssetRoutes.thy ===== *)
theory AssetRoutes
  imports Downloads Accounts Frames
begin

text \<open>
  The endpoints through which artifacts enter the system: \<open>files/http/routes.go\<close>,
  \<open>certificates/http/routes.go\<close>, the administration endpoints of \<open>managedfiles/http/routes.go\<close> and
  the versions of \<open>apps/http/routes.go\<close>. An upload is checked against its checksum, put into the
  object store, recorded in the tables and noted in the audit log.
\<close>

section \<open>Requests\<close>

text \<open>
  The body of an upload: JSON, or a form with its values (\<open>FormValue\<close>, empty when absent) and the file,
  which may be missing (\<open>None\<close>) or unreadable. An error of the decoder carries its text.
\<close>

datatype asset_body =
    JsonBody "string + asset_upsert"
  | BadForm string
  | Form "string \<Rightarrow> string" "(string + string) option"

definition decodeFileRequest :: "asset_body \<Rightarrow> goerr + (asset_upsert \<times> string)" where
  "decodeFileRequest body =
     (case body of
        BadForm msg \<Rightarrow> Inl (ErrText msg)
      | Form field upload \<Rightarrow>
          (case Atoi (field ''sizeBytes'') of
             None \<Rightarrow> Inl ErrInvalidInput
           | Some n \<Rightarrow>
               let payload = \<lparr>su_name = field ''name'', su_storage_key = field ''storageKey'',
                     su_checksum = field ''checksum'', su_size = n, su_mime = field ''mimeType''\<rparr>
               in case upload of
                    None \<Rightarrow> Inl ErrInvalidInput
                  | Some (Inl msg) \<Rightarrow> Inl (ErrText msg)
                  | Some (Inr content) \<Rightarrow>
                      if invalid_asset payload then Inl ErrInvalidInput
                      else if su_size payload \<noteq> int (length content) then Inl ErrInvalidInput
                      else Inr (payload, content))
      | JsonBody (Inl msg) \<Rightarrow> Inl (ErrText msg)
      | JsonBody (Inr payload) \<Rightarrow> if invalid_asset payload then Inl ErrInvalidInput else Inr (payload, []))"

text \<open>The certificates' copy of it.\<close>

definition decodeCertificateRequest :: "asset_body \<Rightarrow> goerr + (asset_upsert \<times> string)" where
  "decodeCertificateRequest body = decodeFileRequest body"

definition decodeManagedFileRequest :: "string + managed_upsert \<Rightarrow> goerr + managed_upsert" where
  "decodeManagedFileRequest body =
     (case body of
        Inl msg \<Rightarrow> Inl (ErrText msg)
      | Inr payload \<Rightarrow> if mu_file_id payload = [] \<or> TrimSpace (mu_path payload) = [] then Inl ErrInvalidInput
          else Inr payload)"

definition decodeVersionRequest :: "string + version_upsert \<Rightarrow> goerr + version_upsert" where
  "decodeVersionRequest body =
     (case body of
        Inl msg \<Rightarrow> Inl (ErrText msg)
      | Inr payload \<Rightarrow> if vu_name payload = [] \<or> vu_code payload \<le> 0 \<or> vu_checksum payload = []
          then Inl ErrInvalidInput else Inr payload)"

text \<open>What an endpoint answers: a list of records or one of them.\<close>

datatype 'v listed = Items "'v list" | Item 'v

section \<open>Steps the endpoints share\<close>

definition audited :: "string \<Rightarrow> session \<Rightarrow> string \<Rightarrow> string \<Rightarrow> string \<Rightarrow> obj \<Rightarrow> 'a reply \<Rightarrow> 'a handler" where
  "audited tn ses act resource i details r =
     call (Record tn (ses_username ses) act resource i details) (\<lambda>_. internal_error) (\<lambda>_. answer r)"

definition put_error :: "goerr \<Rightarrow> 'a reply" where
  "put_error e = (if e = ErrInvalidInput then invalid_input else internal_error)"

definition create_error :: "goerr \<Rightarrow> 'a reply" where
  "create_error e = (case e of ErrInvalidInput \<Rightarrow> invalid_input | ErrConflict \<Rightarrow> conflict | _ \<Rightarrow> internal_error)"

definition place_error :: "goerr \<Rightarrow> 'a reply" where
  "place_error e = (case e of ErrInvalidInput \<Rightarrow> invalid_input | ErrNotFound \<Rightarrow> http_not_found
     | ErrConflict \<Rightarrow> conflict | _ \<Rightarrow> internal_error)"

definition list_reply :: "'v list action \<Rightarrow> (goerr \<Rightarrow> 'v listed reply) \<Rightarrow> 'v listed handler" where
  "list_reply m er = call m er (\<lambda>xs. answer (Reply (Items xs)))"

text \<open>Without content nothing is put or deleted; the error of the deletion is ignored.\<close>

definition store_content :: "string \<Rightarrow> string \<Rightarrow> unit action" where
  "store_content key content = (if content = [] then returnE () else object_Put key content)"

definition drop_content :: "string \<Rightarrow> string \<Rightarrow> unit action" where
  "drop_content key content =
     (if content = [] then returnE () else handleE (object_Delete key) (\<lambda>_. returnE ()))"

text \<open>
  The \<open>POST\<close> of files and of certificates: the same steps around another creation. \<open>identity v\<close> is the
  record's identifier and \<open>details v\<close> what the audit log keeps of it.
\<close>

definition post_asset ::
  "string \<Rightarrow> string \<Rightarrow> (asset_upsert \<Rightarrow> 'v action) \<Rightarrow> ('v \<Rightarrow> string) \<Rightarrow> ('v \<Rightarrow> obj) \<Rightarrow>
     goerr + (asset_upsert \<times> string) \<Rightarrow> session \<Rightarrow> 'v listed handler" where
  "post_asset tn resource create identity details decoded ses =
     (case decoded of
        Inl e \<Rightarrow> answer (writeRequestError e)
      | Inr (payload, content) \<Rightarrow> call (asks sha256) (\<lambda>_. internal_error) (\<lambda>sha.
          if content \<noteq> [] \<and> SHA256Base64URL sha content \<noteq> su_checksum payload then answer invalid_input
          else call (store_content (su_storage_key payload) content) put_error (\<lambda>_.
          try_else (create payload)
            (\<lambda>e. call (drop_content (su_storage_key payload) content) create_error (\<lambda>_. answer (create_error e)))
            (\<lambda>v. audited tn ses ''create'' resource (identity v) (details v) (Reply (Item v))))))"

section \<open>Files\<close>

definition file_details :: "file_view \<Rightarrow> obj" where
  "file_details v = [(''name'', JStr (fv_name v)), (''checksum'', JStr (fv_checksum v)),
     (''mimeType'', JStr (fv_mime v)), (''artifactId'', JStr (fv_artifact_id v))] @
     (case fv_artifact v of None \<Rightarrow> []
      | Some a \<Rightarrow> [(''storageKey'', JStr (a_storage_key a)), (''sizeBytes'', JNum (FormatInt (a_size a)))])"

definition retired_file_details :: "file_view \<Rightarrow> obj" where
  "retired_file_details v = [(''name'', JStr (fv_name v)), (''status'', JStr (fb_status v)),
     (''checksum'', JStr (fv_checksum v))] @
     (case fv_artifact v of None \<Rightarrow> [] | Some a \<Rightarrow> [(''artifactId'', JStr (fb_id a))])"

definition files_endpoint :: "string \<Rightarrow> asset_body \<Rightarrow> request \<Rightarrow> file_view listed handler" where
  "files_endpoint tn body r = admin_resource True r
     (\<lambda>ses. list_reply (ListFiles tn (page_of r)) (\<lambda>_. internal_error))
     (post_asset tn ''files'' (CreateFile tn) fb_id file_details (decodeFileRequest body))"

definition file_endpoint :: "string \<Rightarrow> request \<Rightarrow> file_view handler" where
  "file_endpoint tn r = admin_item r (\<lambda>ses i.
     call (RetireFile tn i) load_error (\<lambda>v.
     audited tn ses ''retire'' ''files'' (fb_id v) (retired_file_details v) (Reply v)))"

section \<open>Certificates\<close>

definition certificate_details :: "certificate_view \<Rightarrow> obj" where
  "certificate_details v = [(''name'', JStr (cert_name (cv_row v))), (''checksum'', JStr (cert_checksum (cv_row v))),
     (''artifactId'', JStr (cert_artifact_id (cv_row v)))] @
     (case cv_artifact v of None \<Rightarrow> []
      | Some a \<Rightarrow> [(''storageKey'', JStr (a_storage_key a)), (''sizeBytes'', JNum (FormatInt (a_size a))),
          (''mimeType'', JStr (a_mime a))])"

definition retired_certificate_details :: "certificate_view \<Rightarrow> obj" where
  "retired_certificate_details v = [(''name'', JStr (cert_name (cv_row v))),
     (''status'', JStr (rec_status (cv_row v))), (''checksum'', JStr (cert_checksum (cv_row v)))] @
     (case cv_artifact v of None \<Rightarrow> [] | Some a \<Rightarrow> [(''artifactId'', JStr (fb_id a))])"

definition certificates_endpoint :: "string \<Rightarrow> asset_body \<Rightarrow> request \<Rightarrow> certificate_view listed handler" where
  "certificates_endpoint tn body r = admin_resource True r
     (\<lambda>ses. list_reply (ListCertificates tn (page_of r)) (\<lambda>_. internal_error))
     (post_asset tn ''certificates'' (CreateCertificate tn) (\<lambda>v. rec_id (cv_row v)) certificate_details
        (decodeCertificateRequest body))"

definition certificate_endpoint :: "string \<Rightarrow> request \<Rightarrow> certificate_view handler" where
  "certificate_endpoint tn r = admin_item r (\<lambda>ses i.
     call (RetireCertificate tn i) load_error (\<lambda>v.
     audited tn ses ''retire'' ''certificates'' (rec_id (cv_row v)) (retired_certificate_details v) (Reply v)))"

section \<open>Managed files and app versions\<close>

definition managed_files_endpoint ::
  "string \<Rightarrow> string + managed_upsert \<Rightarrow> request \<Rightarrow> managed_view listed handler" where
  "managed_files_endpoint tn body r = admin_resource True r
     (\<lambda>ses. list_reply (ListManagedFiles tn (page_of r)) (\<lambda>_. internal_error))
     (\<lambda>ses. case decodeManagedFileRequest body of
        Inl e \<Rightarrow> answer (writeRequestError e)
      | Inr payload \<Rightarrow> call (CreateManagedFile tn payload) place_error (\<lambda>v. answer (Reply (Item v))))"

definition managed_file_endpoint :: "string \<Rightarrow> request \<Rightarrow> managed_view handler" where
  "managed_file_endpoint tn r = admin_item r (\<lambda>ses i.
     call (RetireManagedFile tn i) load_error (\<lambda>v. answer (Reply v)))"

definition version_details :: "version_row \<Rightarrow> obj" where
  "version_details v = [(''versionName'', JStr (ver_name v)), (''versionCode'', JNum (FormatInt (ver_code v))),
     (''status'', JStr (ver_status v))] @
     (case ver_artifact v of None \<Rightarrow> [] | Some a \<Rightarrow> [(''artifactId'', JStr a)])"

definition versions_endpoint :: "string \<Rightarrow> string + version_upsert \<Rightarrow> request \<Rightarrow> version_row listed handler" where
  "versions_endpoint tn body r = admin_resource (req_path r ''id'' \<noteq> []) r
     (\<lambda>ses. list_reply (ListVersions tn (req_path r ''id'') (page_of r)) load_error)
     (\<lambda>ses. case decodeVersionRequest body of
        Inl e \<Rightarrow> answer (writeRequestError e)
      | Inr payload \<Rightarrow> call (CreateVersion tn (req_path r ''id'') payload) place_error (\<lambda>v.
          audited tn ses ''create'' ''app_versions'' (ver_id v) (version_details v) (Reply (Item v))))"

text \<open>The endpoints are guarded: see \<open>admin_resource\<close> and \<open>admin_item\<close>.\<close>

lemma asset_routes_guarded:
  "guarded resource_need (files_endpoint tn body)" "guarded resource_need (certificates_endpoint tn body)"
  "guarded resource_need (managed_files_endpoint tn mbody)" "guarded resource_need (versions_endpoint tn vbody)"
  "guarded (method_need ''DELETE'' PermissionAdminWrite) (file_endpoint tn)"
  "guarded (method_need ''DELETE'' PermissionAdminWrite) (certificate_endpoint tn)"
  "guarded (method_need ''DELETE'' PermissionAdminWrite) (managed_file_endpoint tn)"
  by (rule guarded_resource guarded_item, rule files_endpoint_def certificates_endpoint_def managed_files_endpoint_def
      versions_endpoint_def file_endpoint_def certificate_endpoint_def managed_file_endpoint_def)+

section \<open>What an upload does\<close>

lemma frames_conflict_of_unique [frames_intros]: "frames g m \<Longrightarrow> frames g (conflict_of_unique m)"
  unfolding conflict_of_unique_def by (intro frames_intros)

lemma frames_creations:
  "frames objects (CreateFile tn req)" "frames env (CreateFile tn req)" "frames object_no (CreateFile tn req)"
  "frames objects (CreateCertificate tn req)" "frames env (CreateCertificate tn req)"
  "frames object_no (CreateCertificate tn req)"
  "frames objects (Record tn actor act resource i details)" "frames env (Record tn actor act resource i details)"
  unfolding CreateFile_def CreateCertificate_def certificates_ensureArtifact_def ensureArtifact_def Record_def
  by (intro frames_intros)+

text \<open>The audit log grows by one entry, or the call fails and changes nothing.\<close>

definition noted :: "string \<Rightarrow> string \<Rightarrow> string \<Rightarrow> string \<Rightarrow> string \<Rightarrow> obj \<Rightarrow> audit_row \<Rightarrow> bool" where
  "noted tn actor act resource i details e \<longleftrightarrow> evt_tenant e = tn \<and> evt_actor e = actor \<and> evt_action e = act \<and>
     evt_resource_type e = resource \<and> evt_resource_id e = i \<and> evt_details e = details"

lemma post_Record:
  "post (Record tn actor act resource i details) w
     (\<lambda>_ w'. (\<exists>e. noted tn actor act resource i details e \<and> db w' = audit_events_update (\<lambda>es. es @ [e]) (db w)) \<and>
        objects w' = objects w \<and> env w' = env w)
     (\<lambda>_ w'. db w' = db w \<and> objects w' = objects w \<and> env w' = env w)"
proof -
  let ?e = "\<lparr>evt_id = uuid_src (env w) (uuid_no w), evt_tenant = tn, evt_actor = actor, evt_action = act,
    evt_resource_type = resource, evt_resource_id = i, evt_details = details,
    evt_created = clock_src (env w) (ticks w)\<rparr>"
  have "noted tn actor act resource i details ?e" by (simp add: noted_def)
  then show ?thesis by (auto simp: Record_def insert_row_def insert_into_def wp intro!: exI [of _ ?e])
qed

lemma post_store_content:
  "post (store_content key content) w
     (\<lambda>_ w'. db w' = db w \<and> txn w' = txn w \<and> env w' = env w \<and>
        objects w' = (if content = [] then objects w else (key, content) # filter (\<lambda>x. fst x \<noteq> key) (objects w)))
     (\<lambda>e w'. e \<noteq> ErrInvalidInput \<and> db w' = db w \<and> txn w' = txn w \<and> env w' = env w \<and> objects w' = objects w)"
  by (simp add: store_content_def object_Put_def wp)

text \<open>An upload that is answered with a record went through all its steps.\<close>

definition uploaded ::
  "string \<Rightarrow> string \<Rightarrow> session \<Rightarrow> asset_upsert \<Rightarrow> string \<Rightarrow> string \<Rightarrow> obj \<Rightarrow> database \<Rightarrow> world \<Rightarrow> world \<Rightarrow> bool" where
  "uploaded tn resource ses payload content i details d w w' \<longleftrightarrow>
     (\<exists>e. noted tn (ses_username ses) ''create'' resource i details e \<and>
        db w' = audit_events_update (\<lambda>es. es @ [e]) d) \<and>
     env w' = env w \<and>
     (content \<noteq> [] \<longrightarrow> SHA256Base64URL (sha256 (env w)) content = su_checksum payload) \<and>
     objects w' = (if content = [] then objects w
       else (su_storage_key payload, content) # filter (\<lambda>x. fst x \<noteq> su_storage_key payload) (objects w))"

lemma answers_post_asset:
  assumes "txn w = None"
    and create: "\<And>payload w. txn w = None \<Longrightarrow>
      post (create payload) w (\<lambda>v w'. Q payload v (db w) (db w')) (\<lambda>_ _. True)"
    and frames: "\<And>payload. frames objects (create payload)" "\<And>payload. frames env (create payload)"
  shows "answers (post_asset tn resource create identity details dec ses) w (\<lambda>ans w'. \<forall>v. ans = Reply (Item v) \<longrightarrow>
      (\<exists>payload content d. dec = Inr (payload, content) \<and> Q payload v (db w) d \<and>
        uploaded tn resource ses payload content (identity v) (details v) d w w'))"
proof (cases dec)
  case (Inl e)
  then show ?thesis by (simp add: post_asset_def hp writeRequestError_def reply_defs)
next
  case (Inr pc)
  obtain payload content where pc: "pc = (payload, content)" by (cases pc)
  let ?key = "su_storage_key payload"
  have made: "post (create payload) w1
      (\<lambda>v w2. Q payload v (db w1) (db w2) \<and> objects w2 = objects w1 \<and> env w2 = env w1) (\<lambda>_ _. True)"
    if "txn w1 = None" for w1
    using post_frame [OF frames(2) post_frame [OF frames(1) create [OF that]]] by (rule post_mono) auto
  show ?thesis
    unfolding post_asset_def Inr pc sum.case prod.case audited_def hp wp
  proof (split if_split, intro conjI impI, goal_cases)
    case 1
    then show ?case by (simp add: reply_defs)
  next
    case 2
    then have fits: "content \<noteq> [] \<longrightarrow> SHA256Base64URL (sha256 (env w)) content = su_checksum payload" by blast
    show ?case
    proof (rule post_mono [OF post_store_content], goal_cases)
      case (1 u w1)
      then have "txn w1 = None" using assms(1) by simp
      then show ?case
      proof (rule post_mono [OF made], goal_cases)
        case (1 v w2)
        show ?case
          by (rule post_mono [OF post_Record])
            (use 1 fits \<open>db w1 = db w \<and> _\<close> in \<open>auto simp: uploaded_def reply_defs\<close>)
      next
        case (2 e w2)
        then show ?case
          by (auto simp: create_error_def reply_defs drop_content_def object_Delete_def wp split: goerr.splits)
      qed
    next
      case (2 e w1)
      then show ?case by (simp add: put_error_def reply_defs)
    qed
  qed
qed

text \<open>A request that gets through: the handler runs in the world the session lookup leaves.\<close>

lemma post_allowed:
  assumes "allowed resource_need r w" "req_method r = ''POST''"
  obtains ses where "current_session r w = Some ses" "PermissionAdminWrite \<in> set (ses_permissions ses)"
    "\<And>rows create. admin_resource True r rows create w = create ses (snd (sessionFromRequest r w))"
proof (cases "sessionFromRequest r w")
  case (Pair x w0)
  then show ?thesis
    using assms that
    by (cases x)
      (auto simp: allowed_def resource_need_def current_session_def admin_resource_def with_session_def permitted_def
        HasPermission_iff)
qed

lemma post_accepted:
  assumes "fst (admin_resource True r rows create w) = Reply (Item v)"
    and rows: "\<And>ses w. fst (rows ses w) \<noteq> Reply (Item v)"
  obtains ses where "current_session r w = Some ses" "PermissionAdminWrite \<in> set (ses_permissions ses)"
    "admin_resource True r rows create w = create ses (snd (sessionFromRequest r w))"
proof (cases "sessionFromRequest r w")
  case (Pair x w0)
  then show ?thesis
    using assms that
    by (cases x)
      (auto simp: admin_resource_def with_session_def permitted_def HasPermission_iff answer_def reply_defs
        current_session_def split: if_splits)
qed

lemma list_reply_Items: "fst (list_reply m er w) = Reply (Item v) \<Longrightarrow> (\<And>e. er e \<noteq> Reply (Item v)) \<Longrightarrow> False"
  by (auto simp: list_reply_def call_def try_else_def answer_def split: prod.splits sum.splits)

section \<open>Properties\<close>

lemma map_of_drop: "map_of (filter (\<lambda>x. fst x \<noteq> key) os) k = (if k = key then None else map_of os k)"
  by (induction os) auto

lemma map_of_put:
  "map_of ((key, content) # filter (\<lambda>x. fst x \<noteq> key) os) k = (if k = key then Some content else map_of os k)"
  by (simp add: map_of_drop)

text \<open>
  The object behind every artifact is still the one it was uploaded with after an accepted upload
  with content.
\<close>

lemma uploaded_objects_match:
  assumes "uploaded tn resource ses payload content i details d w w'" "content \<noteq> []"
    and "stored_artifact tn payload a (db w) d1" "artifacts d = artifacts d1" "objects_match w" "distinct (map storage_key (artifacts (db w)))"
    and "\<forall>x \<in> set (artifacts (db w)). rec_tenant x = tn"
  shows "objects_match w'"
proof -
  have arts: "artifacts (db w') = artifacts d1" and sha: "sha256 (env w') = sha256 (env w)"
    and fits: "SHA256Base64URL (sha256 (env w)) content = su_checksum payload"
    and objs: "map_of (objects w') k = (if k = su_storage_key payload then Some content else map_of (objects w) k)" for k
    using assms(1,2,4) by (auto simp: uploaded_def map_of_drop)
  have old: "case map_of (objects w') (art_storage_key x) of None \<Rightarrow> False
      | Some c \<Rightarrow> SHA256Base64URL (sha256 (env w)) c = art_checksum x" if x: "x \<in> set (artifacts (db w))" for x
  proof (cases "art_storage_key x = su_storage_key payload")
    case True
    then have same: "storage_key x = storage_key a"
      using assms(3,7) x by (auto simp: stored_artifact_def agrees_def storage_key_def)
    then have "x = a"
      using assms(3,6) x by (auto simp: stored_artifact_def fresh_def image_iff dest: distinct_key_unique)
    then show ?thesis using assms(3) True fits by (simp add: objs stored_artifact_def agrees_def)
  next
    case False
    then show ?thesis using assms(5) x by (simp add: objs objects_match_def list_all_iff)
  qed
  have new: "art_storage_key a = su_storage_key payload" "art_checksum a = su_checksum payload"
    using assms(3) by (auto simp: stored_artifact_def agrees_def storage_key_def)
  have "case map_of (objects w') (art_storage_key a) of None \<Rightarrow> False
      | Some c \<Rightarrow> SHA256Base64URL (sha256 (env w)) c = art_checksum a"
    using new fits by (simp add: objs)
  moreover have "x \<in> set (artifacts (db w)) \<or> x = a" if "x \<in> set (artifacts (db w'))" for x
    using that assms(3) by (auto simp: arts stored_artifact_def)
  ultimately show ?thesis
    unfolding objects_match_def list_all_iff sha using old by blast
qed

lemma answers_files_post:
  assumes "txn w = None"
  shows "answers (post_asset tn ''files'' (CreateFile tn) fb_id file_details dec ses) w (\<lambda>ans w'. \<forall>v. ans = Reply (Item v) \<longrightarrow>
      (\<exists>payload content f a d. dec = Inr (payload, content) \<and> v = scanFileWithArtifact f a \<and>
        file_assets.created tn payload f a (db w) d \<and>
        uploaded tn ''files'' ses payload content (rec_id f) (file_details v) d w w'))"
proof -
  have "post (CreateFile tn payload) w1
      (\<lambda>v w'. \<exists>f a. v = scanFileWithArtifact f a \<and> file_assets.created tn payload f a (db w1) (db w')) (\<lambda>_ _. True)"
    if "txn w1 = None" for payload w1
    by (rule post_mono [OF post_CreateFile [OF that]]) auto
  note made = answers_post_asset [OF assms this frames_creations(1,2),
    where resource = "''files''" and identity = fb_id and details = file_details and dec = dec and ses = ses]
  have "fb_id (scanFileWithArtifact f a) = rec_id f" for f a by (simp add: scanFileWithArtifact_def scanFile_def)
  note fb = this
  show ?thesis
  proof (rule answers_mono [OF made], assumption, intro allI impI, goal_cases)
    case (1 ans w' v)
    then obtain payload content d f a where made: "dec = Inr (payload, content)" "v = scanFileWithArtifact f a"
        "file_assets.created tn payload f a (db w) d"
        "uploaded tn ''files'' ses payload content (fb_id v) (file_details v) d w w'" by blast
    then have "uploaded tn ''files'' ses payload content (rec_id f) (file_details v) d w w'" by (simp add: fb)
    with made(1-3) show ?case by blast
  qed
qed


text \<open>
  An upload that is refused destroys what it collides with: when its storage key belongs to an artifact
  that is already stored and the file cannot be created, because its name is taken or because it differs
  from the stored artifact, the answer is a conflict and the tables are unchanged, but the object of that
  artifact has been overwritten and deleted, so the artifact can no longer be downloaded.
\<close>

theorem refused_upload_destroys:
  assumes "txn w = None" "no_faults w" "asset_schema (db w)" "tn \<in> set (tenants (db w))"
    and "\<forall>n. fresh rec_id (uuid_src (env w) n) (artifacts (db w)) \<and> fresh rec_id (uuid_src (env w) n) (files (db w))"
    and "\<forall>n. object_ok (env w) n"
    and "allowed resource_need r w" "req_method r = ''POST''"
    and "decodeFileRequest body = Inr (payload, content)" "content \<noteq> []"
    and "SHA256Base64URL (sha256 (env w)) content = su_checksum payload"
    and "a \<in> set (artifacts (db w))" "art_storage_key a = su_storage_key payload"
    and "key_conflict (db w) tn payload \<or> name_taken (db w) tn payload" "\<not> invalid_asset payload"
  shows "fst (files_endpoint tn body r w) = conflict \<and> db (snd (files_endpoint tn body r w)) = db w \<and>
     map_of (objects (snd (files_endpoint tn body r w))) (art_storage_key a) = None"
proof -
  let ?key = "su_storage_key payload"
  have key: "?key \<noteq> []" using assms(3,12,13) by (auto simp: asset_schema_def list_all_iff artifact_ok_def)
  obtain ses where run: "files_endpoint tn body r w =
      post_asset tn ''files'' (CreateFile tn) fb_id file_details (decodeFileRequest body) ses (snd (sessionFromRequest r w))"
    using post_allowed [OF assms(7,8)] unfolding files_endpoint_def by metis
  have refused: "post (CreateFile tn payload) w1 (\<lambda>_ _. False)
      (\<lambda>e w2. e = ErrConflict \<and> db w2 = db w \<and> objects w2 = objects w1 \<and> env w2 = env w \<and> object_no w2 = object_no w1)"
    if w1: "txn w1 = None" "db w1 = db w" "env w1 = env w" for w1
  proof -
    have "no_faults w1" using assms(2) w1(3) by (simp add: no_faults_def)
    then have branches: "post (CreateFile tn payload) w1
       (\<lambda>_ _. \<not> invalid_asset payload \<and> \<not> key_conflict (db w) tn payload \<and> \<not> name_taken (db w) tn payload)
       (\<lambda>e _. if invalid_asset payload then e = ErrInvalidInput
              else e = ErrConflict \<and> (key_conflict (db w) tn payload \<or> name_taken (db w) tn payload))"
      using CreateFile_branches [of w1 tn payload] assms(3-5) unfolding w1 by blast
    have "post (CreateFile tn payload) w1 (\<lambda>_ _. False) (\<lambda>e w2. e = ErrConflict \<and> db w2 = db w)"
      by (rule post_mono [OF post_conj [OF branches post_CreateFile [OF w1(1)]]]) (use assms(14,15) w1(2) in auto)
    from post_frame [OF frames_creations(3) post_frame [OF frames_creations(2) post_frame [OF frames_creations(1) this]]]
    show ?thesis by (rule post_mono) (auto simp: w1)
  qed
  have "answers (post_asset tn ''files'' (CreateFile tn) fb_id file_details (Inr (payload, content)) ses) w0
      (\<lambda>ans w'. ans = conflict \<and> db w' = db w \<and> map_of (objects w') ?key = None)"
    if w0: "txn w0 = None" "db w0 = db w" "env w0 = env w" for w0
    unfolding post_asset_def sum.case prod.case hp wp
  proof (split if_split, rule conjI, goal_cases)
    case 1
    show ?case using assms(11) w0 by simp
  next
    case 2
    let ?put = "\<lambda>w'. db w' = db w \<and> txn w' = None \<and> env w' = env w"
    have put: "post (store_content ?key content) w0 (\<lambda>_. ?put) (\<lambda>_ _. False)"
      using assms(6,10) w0 by (simp add: store_content_def object_Put_def key wp)
    have drop: "post (drop_content ?key content) w2 (\<lambda>_ w'. db w' = db w \<and> map_of (objects w') ?key = None) (\<lambda>_ _. False)"
      if "db w2 = db w" "env w2 = env w" for w2
      using that assms(6,10) by (simp add: drop_content_def object_Delete_def key wp map_of_drop)
    show ?case
    proof (rule impI, rule post_mono [OF put], goal_cases)
      case (1 u w1)
      then show ?case
        by (intro post_mono [OF refused]) (auto simp: create_error_def assms(10) intro!: post_mono [OF drop])
    qed simp
  qed
  from answersD [OF this [of "snd (sessionFromRequest r w)"]] show ?thesis
    using assms(1) by (simp add: run assms(9,13))
qed

text \<open>An administrator who is logged in, and an upload of three bytes.\<close>

definition operator_world :: "database \<Rightarrow> (string \<times> string) list \<Rightarrow> world" where
  "operator_world d os = (world_of d)\<lparr>objects := os,
     auth := snd (IssueSession ''admin'' AllPermissions ''sid'' 0 (NewService ''admin'' ''pw'' 3600000000))\<rparr>"

definition operator_request :: "string \<Rightarrow> request" where
  "operator_request m = \<lparr>req_method = m, req_cookie = Some ''sid'', req_secret = [],
     req_path = \<lambda>_. [], req_query = \<lambda>_. []\<rparr>"

definition sample_form :: "string \<Rightarrow> asset_body" where
  "sample_form nm = Form (\<lambda>f. if f = ''name'' then nm else if f = ''storageKey'' then ''k''
     else if f = ''checksum'' then SHA256Base64URL (sha256 sample_env) ''abc''
     else if f = ''mimeType'' then ''apk'' else if f = ''sizeBytes'' then ''3'' else [])
     (Some (Inr ''abc''))"

lemma operator_world_simps [simp]:
  "txn (operator_world d os) = None" "db (operator_world d os) = d" "env (operator_world d os) = sample_env"
  "no_faults (operator_world d os)"
  by (simp_all add: operator_world_def no_faults_def) (simp add: sample_env_def)


theorem refused_upload_destroys_witness:
  "fst (files_endpoint ''t'' (sample_form ''agent'') (operator_request ''POST'')
      (operator_world asset_database [(''k'', ''the agent'')])) = conflict \<and>
   map_of (objects (snd (files_endpoint ''t'' (sample_form ''agent'') (operator_request ''POST'')
      (operator_world asset_database [(''k'', ''the agent'')])))) ''k'' = None"
proof -
  let ?r = "operator_request ''POST''" and ?w = "operator_world asset_database [(''k'', ''the agent'')]"
  let ?b = "sample_form ''agent''" and ?a = "hd (artifacts asset_database)"
  define payload where "payload = \<lparr>su_name = ''agent'', su_storage_key = ''k'',
         su_checksum = SHA256Base64URL (sha256 sample_env) ''abc'', su_size = 3, su_mime = ''apk''\<rparr>"
  define content :: string where "content = ''abc''"
  have "decodeFileRequest ?b = Inr (\<lparr>su_name = ''agent'', su_storage_key = ''k'',
         su_checksum = SHA256Base64URL (sha256 sample_env) ''abc'', su_size = 3, su_mime = ''apk''\<rparr>, ''abc'')"
    by code_simp
  then have dec: "decodeFileRequest ?b = Inr (payload, content)" "payload = \<lparr>su_name = ''agent'', su_storage_key = ''k'',
         su_checksum = SHA256Base64URL (sha256 sample_env) ''abc'', su_size = 3, su_mime = ''apk''\<rparr>" "content = ''abc''"
    by (simp_all only: payload_def content_def)
  have a: "?a \<in> set (artifacts (db ?w))" "art_storage_key ?a = ''k''"
    by (simp_all add: asset_database_def)
  have taken: "name_taken (db ?w) ''t'' payload" "\<not> invalid_asset payload"
    unfolding dec(2) by code_simp+
  have tn: "''t'' \<in> set (tenants (db ?w))" by (simp add: asset_database_def empty_database_def)
  have may: "allowed resource_need ?r ?w" by code_simp
  have "\<forall>n. fresh rec_id (uuid_src (env ?w) n) (artifacts (db ?w)) \<and> fresh rec_id (uuid_src (env ?w) n) (files (db ?w))"
    by (simp add: sample_uuids)
  moreover have "\<forall>n. object_ok (env ?w) n" by simp (simp add: sample_env_def)
  ultimately show ?thesis
    using refused_upload_destroys [OF _ _ _ tn _ _ may _ dec(1), of ?a] a taken
    by (simp add: asset_samples dec(2,3)) (simp add: operator_request_def)
qed

end
