(* ===== verification/DeviceRoutes.thy ===== *)
theory DeviceRoutes
  imports Http Json Snapshot Enrollment Commands Ingest
begin

text \<open>
  The endpoints the devices use, \<open>commands/http/routes.go\<close>, \<open>logs/http/routes.go\<close>,
  \<open>deviceinfo/http/routes.go\<close> and \<open>telemetry/http/routes.go\<close> with the searches of the
  administrators, and the enrollment endpoints of \<open>enrollment/http/routes.go\<close>: binding, tokens and
  the QR code a device is provisioned with.
\<close>

text \<open>A decoded body, or the text of the decoder's error.\<close>

type_synonym 'b decoded = "string + 'b"

section \<open>Commands\<close>

definition command_error :: "goerr \<Rightarrow> 'a reply" where
  "command_error e = (case e of ErrInvalidInput \<Rightarrow> invalid_input | ErrNotFound \<Rightarrow> http_not_found | _ \<Rightarrow> internal_error)"

definition get_commands :: "string \<Rightarrow> request \<Rightarrow> command_row list handler" where
  "get_commands tn r =
     (if req_method r \<noteq> ''GET'' then answer method_not_allowed
      else with_device tn [] r (\<lambda>secret dv.
        call (ListPendingForDevice tn (rec_id dv)) command_error (\<lambda>items. answer (Reply items))))"

definition post_ack :: "string \<Rightarrow> ack decoded \<Rightarrow> request \<Rightarrow> command_row handler" where
  "post_ack tn body r =
     (if req_method r \<noteq> ''POST'' then answer method_not_allowed
      else with_device tn [''commandId''] r (\<lambda>secret dv.
        case body of
          Inl msg \<Rightarrow> answer invalid_json
        | Inr req \<Rightarrow> call (Acknowledge tn (rec_id dv) (TrimSpace (req_path r ''commandId'')) req) command_error
            (\<lambda>c. answer (Reply c))))"

section \<open>Logs and device information\<close>

definition writeLogsError :: "goerr \<Rightarrow> 'a reply" where
  "writeLogsError e = (case e of
      ErrInvalidInput \<Rightarrow> invalid_input | ErrLogsInvalid \<Rightarrow> invalid_input
    | ErrDeviceNotFound \<Rightarrow> not_found | ErrDeviceUnauthorized \<Rightarrow> unauthorized | _ \<Rightarrow> internal_error)"

definition decode_logs :: "log_upload decoded \<Rightarrow> goerr + log_upload" where
  "decode_logs body = (case body of Inl msg \<Rightarrow> Inl (ErrText msg)
     | Inr req \<Rightarrow> if lu_entries req = [] then Inl ErrLogsInvalid else Inr req)"

definition decode_error :: "goerr \<Rightarrow> 'a reply" where
  "decode_error e = (case e of ErrInvalidInput \<Rightarrow> invalid_input | ErrLogsInvalid \<Rightarrow> invalid_input
     | ErrDeviceInfoInvalid \<Rightarrow> invalid_input | _ \<Rightarrow> invalid_json)"

definition post_logs :: "string \<Rightarrow> log_upload decoded \<Rightarrow> request \<Rightarrow> log_record list handler" where
  "post_logs tn body r =
     (if req_method r \<noteq> ''POST'' then answer method_not_allowed
      else with_device tn [] r (\<lambda>secret dv.
        case decode_logs body of
          Inl e \<Rightarrow> answer (decode_error e)
        | Inr req \<Rightarrow> call (logs_Upload tn (TrimSpace (req_path r ''deviceId'')) secret req) writeLogsError
            (\<lambda>recs. answer (Reply recs))))"

text \<open>
  The query of a search. \<open>time.Parse(time.RFC3339, _)\<close> is the argument \<open>parse\<close>; a value that is not
  blank and does not parse is an error.
\<close>

definition parse_bound :: "(string \<Rightarrow> int option) \<Rightarrow> string \<Rightarrow> goerr + int option" where
  "parse_bound parse raw =
     (if TrimSpace raw = [] then Inr None
      else case parse (TrimSpace raw) of None \<Rightarrow> Inl ErrInvalidInput | Some t \<Rightarrow> Inr (Some t))"

definition parse_limit :: "string \<Rightarrow> goerr + int" where
  "parse_limit raw =
     (if TrimSpace raw = [] then Inr 0
      else case Atoi (TrimSpace raw) of
          None \<Rightarrow> Inl ErrInvalidInput
        | Some n \<Rightarrow> if n \<le> 0 then Inl ErrInvalidInput else Inr n)"

definition search_bounds ::
  "(string \<Rightarrow> int option) \<Rightarrow> request \<Rightarrow> goerr + (int option \<times> int option \<times> int)" where
  "search_bounds parse r =
     (case parse_bound parse (req_query r ''since'') of
        Inl e \<Rightarrow> Inl e
      | Inr since \<Rightarrow> (case parse_bound parse (req_query r ''until'') of
          Inl e \<Rightarrow> Inl e
        | Inr until \<Rightarrow> (case parse_limit (req_query r ''limit'') of
            Inl e \<Rightarrow> Inl e | Inr limit \<Rightarrow> Inr (since, until, limit))))"

definition logs_filter :: "(string \<Rightarrow> int option) \<Rightarrow> request \<Rightarrow> goerr + log_filter" where
  "logs_filter parse r =
     (case search_bounds parse r of
        Inl e \<Rightarrow> Inl e
      | Inr (since, until, limit) \<Rightarrow> Inr \<lparr>lf_device = TrimSpace (req_query r ''deviceId''),
          lf_source = TrimSpace (req_query r ''source''), lf_level = TrimSpace (req_query r ''level''),
          lf_query = TrimSpace (req_query r ''q''), lf_since = since, lf_until = until, lf_limit = limit,
          lf_offset = 0, lf_page = \<lparr>pg_limit = limit, pg_offset = 0\<rparr>\<rparr>)"

definition search_logs :: "string \<Rightarrow> (string \<Rightarrow> int option) \<Rightarrow> request \<Rightarrow> log_record list handler" where
  "search_logs tn parse r = admin_method ''GET'' PermissionAdminRead r (\<lambda>ses.
     case logs_filter parse r of
       Inl e \<Rightarrow> answer invalid_input
     | Inr f \<Rightarrow> call (logs_Search tn f) writeLogsError (\<lambda>recs. answer (Reply recs)))"

definition writeDeviceInfoError :: "goerr \<Rightarrow> 'a reply" where
  "writeDeviceInfoError e = (case e of
      ErrInvalidInput \<Rightarrow> invalid_input | ErrDeviceInfoInvalid \<Rightarrow> invalid_input
    | ErrDeviceNotFound \<Rightarrow> not_found | ErrDeviceUnauthorized \<Rightarrow> unauthorized | _ \<Rightarrow> internal_error)"

text \<open>A body without an observation time is stamped with the clock before it is looked at.\<close>

definition decode_info :: "info_upload decoded \<Rightarrow> info_upload action" where
  "decode_info body =
     (case body of
        Inl msg \<Rightarrow> throwE (ErrText msg)
      | Inr req \<Rightarrow>
          bindE (if iu_observed req = zero_instant then now else returnE (iu_observed req)) (\<lambda>t.
          if iu_payload req = None \<or> iu_payload req = Some [] then throwE ErrDeviceInfoInvalid
          else returnE (req\<lparr>iu_observed := t\<rparr>)))"

definition post_info :: "string \<Rightarrow> info_upload decoded \<Rightarrow> request \<Rightarrow> info_record list handler" where
  "post_info tn body r =
     (if req_method r \<noteq> ''POST'' then answer method_not_allowed
      else with_device tn [] r (\<lambda>secret dv.
        call (decode_info body) decode_error (\<lambda>req.
        call (deviceinfo_Upload tn (TrimSpace (req_path r ''deviceId'')) secret req) writeDeviceInfoError
          (\<lambda>recs. answer (Reply recs)))))"

definition info_filter_of :: "(string \<Rightarrow> int option) \<Rightarrow> request \<Rightarrow> goerr + info_filter" where
  "info_filter_of parse r =
     (case search_bounds parse r of
        Inl e \<Rightarrow> Inl e
      | Inr (since, until, limit) \<Rightarrow> Inr \<lparr>if_device = TrimSpace (req_query r ''deviceId''),
          if_query = TrimSpace (req_query r ''q''), if_since = since, if_until = until, if_limit = limit,
          if_offset = 0, if_page = \<lparr>pg_limit = limit, pg_offset = 0\<rparr>\<rparr>)"

definition search_info :: "string \<Rightarrow> (string \<Rightarrow> int option) \<Rightarrow> request \<Rightarrow> info_record list handler" where
  "search_info tn parse r = admin_method ''GET'' PermissionAdminRead r (\<lambda>ses.
     case info_filter_of parse r of
       Inl e \<Rightarrow> answer invalid_input
     | Inr f \<Rightarrow> call (deviceinfo_Search tn f) writeDeviceInfoError (\<lambda>recs. answer (Reply recs)))"

section \<open>Telemetry\<close>

definition writeTelemetryError :: "goerr \<Rightarrow> 'a reply" where
  "writeTelemetryError e = (case e of
      ErrInvalidInput \<Rightarrow> invalid_input | ErrTelemetryInvalid \<Rightarrow> invalid_input
    | ErrDeviceNotFound \<Rightarrow> not_found | ErrDeviceUnauthorized \<Rightarrow> unauthorized | _ \<Rightarrow> internal_error)"

definition decodeTelemetryRequest :: "telemetry_upload decoded \<Rightarrow> telemetry_upload action" where
  "decodeTelemetryRequest body =
     (case body of
        Inl msg \<Rightarrow> throwE (ErrText msg)
      | Inr req \<Rightarrow>
          bindE (if te_observed req = zero_instant then now else returnE (te_observed req)) (\<lambda>t.
          if te_heartbeat req = None \<and> te_battery req = None \<and> te_network req = None \<and>
             te_location req = None \<and> te_app_state req = None then throwE ErrInvalidInput
          else returnE (req\<lparr>te_observed := t\<rparr>)))"

text \<open>Here the secret is not checked before the store checks it, and a missing one is not authorised.\<close>

definition post_telemetry :: "string \<Rightarrow> telemetry_upload decoded \<Rightarrow> request \<Rightarrow> info_record handler" where
  "post_telemetry tn body r =
     (if req_method r \<noteq> ''POST'' then answer method_not_allowed
      else let deviceID = TrimSpace (req_path r ''deviceId''); secret = TrimSpace (req_secret r)
      in if deviceID = [] then answer (writeTelemetryError ErrInvalidInput)
         else if secret = [] then answer unauthorized
         else call (decodeTelemetryRequest body) writeTelemetryError (\<lambda>req.
              call (telemetry_Upload tn deviceID secret req) writeTelemetryError (\<lambda>x. answer (Reply x))))"

end
