(* ===== verification/EnrollmentRoutes.thy ===== *)
theory EnrollmentRoutes
  imports DeviceRoutes Frames Render
begin

text \<open>
  The enrollment endpoints of \<open>enrollment/http/routes.go\<close>: the binding of a device, the enrollment
  tokens of the administrators, and the QR code a new device is provisioned with.
\<close>

definition enrollment_message :: "goerr \<Rightarrow> string" where
  "enrollment_message e = (case e of
      ErrTokenConsumed \<Rightarrow> ''enrollment token already consumed''
    | ErrTokenExpired \<Rightarrow> ''enrollment token expired''
    | ErrTokenRevoked \<Rightarrow> ''enrollment token revoked''
    | ErrTokenConflict \<Rightarrow> ''enrollment token conflict''
    | ErrDeviceConflict \<Rightarrow> ''device already enrolled''
    | _ \<Rightarrow> [])"

definition writeEnrollmentError :: "goerr \<Rightarrow> 'a reply" where
  "writeEnrollmentError e =
     (if e = ErrInvalidInput then invalid_input
      else if e = ErrNotFound \<or> e = ErrTokenNotFound then not_found
      else if e \<in> {ErrTokenConsumed, ErrTokenExpired, ErrTokenRevoked, ErrTokenConflict, ErrDeviceConflict}
      then HttpError 409 (enrollment_message e)
      else internal_error)"

section \<open>Binding\<close>

record enrollment_request =
  en_token :: string
  en_device :: string
  en_extras :: "obj option"

definition decodeEnrollmentRequest :: "enrollment_request decoded \<Rightarrow> goerr + enrollment_request" where
  "decodeEnrollmentRequest body =
     (case body of
        Inl msg \<Rightarrow> Inl (ErrText msg)
      | Inr req \<Rightarrow>
          let req = req\<lparr>en_token := TrimSpace (en_token req), en_device := TrimSpace (en_device req)\<rparr>
          in if en_token req = [] \<or> en_device req = [] then Inl ErrInvalidInput else Inr req)"

definition post_enrollment :: "string \<Rightarrow> enrollment_request decoded \<Rightarrow> request \<Rightarrow> bound_device handler" where
  "post_enrollment tn body r =
     (if req_method r \<noteq> ''POST'' then answer method_not_allowed
      else case decodeEnrollmentRequest body of
          Inl e \<Rightarrow> answer (writeRequestError e)
        | Inr req \<Rightarrow> call (BindDevice tn (en_token req) (en_device req) (en_extras req)) writeEnrollmentError
            (\<lambda>b. answer (Reply b)))"

section \<open>Tokens\<close>

text \<open>
  \<open>time.Now().Add(time.Duration(req.TTLSeconds) * time.Second)\<close>: the product is a signed 64-bit
  number of nanoseconds. A body without the field keeps the default of a day.
\<close>

definition token_expiry :: "int \<Rightarrow> int \<Rightarrow> int" where
  "token_expiry t ttl = t + wrap64 (ttl * 1000000000) div 1000"

definition post_token :: "string \<Rightarrow> int option decoded \<Rightarrow> request \<Rightarrow> issued_token handler" where
  "post_token tn body r = admin_method ''POST'' PermissionDevicesWrite r (\<lambda>ses.
     case body of
       Inl msg \<Rightarrow> answer (writeRequestError (ErrText msg))
     | Inr given \<Rightarrow>
         let ttl = (case given of None \<Rightarrow> 24 * 60 * 60 | Some n \<Rightarrow> n)
         in if ttl \<le> 0 then answer (writeRequestError ErrInvalidInput)
            else call (bindE now (\<lambda>t. IssueToken tn (token_expiry t ttl))) writeEnrollmentError
                   (\<lambda>k. answer (Reply k)))"

definition decodeTokenLookupRequest :: "string decoded \<Rightarrow> goerr + string" where
  "decodeTokenLookupRequest body =
     (case body of
        Inl msg \<Rightarrow> Inl (ErrText msg)
      | Inr tok \<Rightarrow> if TrimSpace tok = [] then Inl ErrInvalidInput else Inr (TrimSpace tok))"

definition post_validate :: "string \<Rightarrow> string decoded \<Rightarrow> request \<Rightarrow> token handler" where
  "post_validate tn body r =
     (if req_method r \<noteq> ''POST'' then answer method_not_allowed
      else case decodeTokenLookupRequest body of
          Inl e \<Rightarrow> answer (writeRequestError e)
        | Inr tok \<Rightarrow> call (ValidateToken tn tok) writeEnrollmentError (\<lambda>k. answer (Reply k)))"

definition post_consume :: "string \<Rightarrow> string decoded \<Rightarrow> request \<Rightarrow> token handler" where
  "post_consume tn body r =
     (if req_method r \<noteq> ''POST'' then answer method_not_allowed
      else case decodeTokenLookupRequest body of
          Inl e \<Rightarrow> answer (writeRequestError e)
        | Inr tok \<Rightarrow> call (ConsumeToken tn tok) writeEnrollmentError (\<lambda>k. answer (Reply k)))"

definition delete_token :: "string \<Rightarrow> request \<Rightarrow> token handler" where
  "delete_token tn r = admin_method ''DELETE'' PermissionDevicesWrite r (\<lambda>ses.
     if req_path r ''id'' = [] then answer (writeRequestError ErrInvalidInput)
     else call (RevokeToken tn (req_path r ''id'')) writeEnrollmentError (\<lambda>k. answer (Reply k)))"

section \<open>The QR code\<close>

record qr_request =
  qr_server :: string
  qr_token :: string
  qr_component :: string
  qr_package_url :: string
  qr_package_checksum :: string
  qr_leave_apps :: bool
  qr_skip_encryption :: bool
  qr_mobile_data :: bool
  qr_device :: string
  qr_extras :: "obj option"

record android_payload =
  ap_component :: string
  ap_location :: string
  ap_checksum :: string
  ap_leave_apps :: bool
  ap_skip_encryption :: bool
  ap_mobile_data :: bool
  ap_bundle :: obj

text \<open>
  The parts of a \<open>url.URL\<close> the code looks at, and the rest of it. \<open>url.Parse\<close> and \<open>URL.String\<close> are the
  arguments \<open>parse\<close> and \<open>text\<close>.
\<close>

record url =
  url_scheme :: string
  url_host :: string
  url_path :: string
  url_fragment :: string
  url_raw_fragment :: string
  url_rest :: string

definition trim_right :: "char \<Rightarrow> string \<Rightarrow> string" where
  "trim_right c s = rev (dropWhile (\<lambda>x. x = c) (rev s))"

definition parseServerURL :: "(string \<Rightarrow> url option) \<Rightarrow> string \<Rightarrow> url option" where
  "parseServerURL parse raw =
     (case parse raw of
        None \<Rightarrow> None
      | Some u \<Rightarrow> if url_scheme u = [] \<or> url_host u = [] then None
          else Some (u\<lparr>url_fragment := [], url_raw_fragment := [], url_path := trim_right CHR ''/'' (url_path u)\<rparr>))"

definition default_component :: string where
  "default_component = ''com.xmdm.launcher/.AdminReceiver''"

definition defaultComponentName :: "string \<Rightarrow> string" where
  "defaultComponentName v = (if v \<noteq> [] then v else default_component)"

definition decodeQRRequest ::
  "(string \<Rightarrow> url option) \<Rightarrow> (url \<Rightarrow> string) \<Rightarrow> qr_request decoded \<Rightarrow> goerr + qr_request" where
  "decodeQRRequest parse text body =
     (case body of
        Inl msg \<Rightarrow> Inl (ErrText msg)
      | Inr q \<Rightarrow>
          let q = q\<lparr>qr_server := TrimSpace (qr_server q), qr_token := TrimSpace (qr_token q),
                qr_component := TrimSpace (qr_component q), qr_package_url := TrimSpace (qr_package_url q),
                qr_package_checksum := TrimSpace (qr_package_checksum q), qr_device := TrimSpace (qr_device q)\<rparr>
          in if qr_server q = [] \<or> qr_package_url q = [] \<or> qr_package_checksum q = [] then Inl ErrInvalidInput
             else if qr_device q = [] then Inl ErrInvalidInput
             else case parseServerURL parse (qr_server q) of
                 None \<Rightarrow> Inl ErrInvalidInput
               | Some u \<Rightarrow> Inr (q\<lparr>qr_server := text u,
                   qr_component := (if qr_component q = [] then default_component else qr_component q),
                   qr_extras := (case qr_extras q of None \<Rightarrow> Some [] | Some kvs \<Rightarrow> Some kvs)\<rparr>))"

text \<open>The entries of the request's extras are written over the server's, one after the other.\<close>

definition server_entries :: "qr_request \<Rightarrow> obj" where
  "server_entries q =
     [(''com.xmdm.BASE_URL'', JStr (qr_server q)), (''com.xmdm.SECONDARY_BASE_URL'', JStr (qr_server q))] @
     (if qr_token q = [] then [] else [(''com.xmdm.ENROLLMENT_TOKEN'', JStr (qr_token q))]) @
     (if qr_device q = [] then [] else [(''com.xmdm.DEVICE_ID'', JStr (qr_device q))])"

definition put_extra :: "string \<times> json \<Rightarrow> obj \<Rightarrow> obj" where
  "put_extra kv bundle = (if fst kv = ''secondaryBaseUrl'' then bundle else AList.update (fst kv) (snd kv) bundle)"

definition buildAdminExtrasBundle :: "qr_request \<Rightarrow> obj" where
  "buildAdminExtrasBundle q =
     fold put_extra (case qr_extras q of None \<Rightarrow> [] | Some kvs \<Rightarrow> kvs) (server_entries q)"

definition toPayload :: "qr_request \<Rightarrow> android_payload" where
  "toPayload q = \<lparr>ap_component = defaultComponentName (qr_component q), ap_location = qr_package_url q,
     ap_checksum = qr_package_checksum q, ap_leave_apps = qr_leave_apps q,
     ap_skip_encryption = qr_skip_encryption q, ap_mobile_data = qr_mobile_data q,
     ap_bundle = buildAdminExtrasBundle q\<rparr>"

text \<open>
  \<open>json.Marshal\<close> of the payload: the fields in the order of the struct, two of them left out when
  false, the bundle with its keys sorted.
\<close>

definition field :: "string \<Rightarrow> json \<Rightarrow> string" where
  "field k v = quote k @ CHR '':'' # marshal v"

definition provisioning :: "string \<Rightarrow> string" where
  "provisioning k = ''android.app.extra.PROVISIONING_'' @ k"

definition payload_text :: "android_payload \<Rightarrow> string" where
  "payload_text p = CHR ''{'' # joined '','' (
     [field (provisioning ''DEVICE_ADMIN_COMPONENT_NAME'') (JStr (ap_component p)),
      field (provisioning ''DEVICE_ADMIN_PACKAGE_DOWNLOAD_LOCATION'') (JStr (ap_location p)),
      field (provisioning ''DEVICE_ADMIN_PACKAGE_CHECKSUM'') (JStr (ap_checksum p)),
      field (provisioning ''LEAVE_ALL_SYSTEM_APPS_ENABLED'') (JBool (ap_leave_apps p))] @
     (if ap_skip_encryption p then [field (provisioning ''SKIP_ENCRYPTION'') (JBool True)] else []) @
     (if ap_mobile_data p then [field (provisioning ''USE_MOBILE_DATA'') (JBool True)] else []) @
     [field (provisioning ''ADMIN_EXTRAS_BUNDLE'') (JObj (ap_bundle p))]) @ ''}''"

text \<open>\<open>qrcode.Encode\<close> is the argument \<open>encode\<close>; it fails when the text is too long.\<close>

definition post_qr ::
  "(string \<Rightarrow> url option) \<Rightarrow> (url \<Rightarrow> string) \<Rightarrow> (string \<Rightarrow> string option) \<Rightarrow> qr_request decoded \<Rightarrow> request \<Rightarrow> string handler"
  where
  "post_qr parse text encode body r = admin_method ''POST'' PermissionDevicesWrite r (\<lambda>ses.
     case decodeQRRequest parse text body of
       Inl e \<Rightarrow> answer (writeRequestError e)
     | Inr q \<Rightarrow> (case encode (payload_text (toPayload q)) of
         None \<Rightarrow> answer internal_error | Some png \<Rightarrow> answer (Reply png)))"

definition post_qr_json ::
  "(string \<Rightarrow> url option) \<Rightarrow> (url \<Rightarrow> string) \<Rightarrow> qr_request decoded \<Rightarrow> request \<Rightarrow> android_payload handler" where
  "post_qr_json parse text body r = admin_method ''POST'' PermissionDevicesWrite r (\<lambda>ses.
     case decodeQRRequest parse text body of
       Inl e \<Rightarrow> answer (writeRequestError e) | Inr q \<Rightarrow> answer (Reply (toPayload q)))"

section \<open>Lemmas\<close>

text \<open>What the bundle holds under a key: the request's extra, and else the server's entry.\<close>

lemma put_extras:
  "distinct (map fst kvs) \<Longrightarrow> map_of (fold put_extra kvs b) k =
     (if k = ''secondaryBaseUrl'' then map_of b k
      else case map_of kvs k of Some v \<Rightarrow> Some v | None \<Rightarrow> map_of b k)"
proof (induction kvs arbitrary: b)
  case (Cons kv kvs)
  obtain x v where kv: "kv = (x, v)" by (cases kv)
  have "map_of kvs x = None" using Cons.prems by (simp add: kv map_of_eq_None_iff)
  then show ?case
    using Cons by (auto simp: kv put_extra_def update_conv' split: option.splits)
qed simp

lemma bundle_lookup:
  assumes "qr_extras q = Some kvs" "distinct (map fst kvs)"
  shows "map_of (ap_bundle (toPayload q)) k =
     (if k = ''secondaryBaseUrl'' then None
      else case map_of kvs k of Some v \<Rightarrow> Some v | None \<Rightarrow> map_of (server_entries q) k)"
  using put_extras [OF assms(2), of "server_entries q" k]
  by (simp add: toPayload_def buildAdminExtrasBundle_def assms(1)) (simp add: server_entries_def)

lemma frames_provision [frames_intros]: "frames env (provision c)" "frames objects (provision c)"
  by (simp_all add: frames_def provision_def)

lemma frames_NewTokenSecret [frames_intros]: "frames env NewTokenSecret" "frames objects NewTokenSecret"
  by (simp_all add: frames_def NewTokenSecret_def split: option.splits)

lemma frames_BindDevice: "frames env (BindDevice tn tok i extras)"
  unfolding BindDevice_def loadTokenByHashForUpdate_def loadDeviceStatusByTenantAndDeviceIDForUpdate_def
    updateToken_def expire_and_fail_def commit_or_disable_def Let_def
  by (intro frames_intros)

lemma guarded_enrollment:
  "guarded (method_need ''POST'' PermissionDevicesWrite) (post_token tn tbody)"
  "guarded (method_need ''DELETE'' PermissionDevicesWrite) (delete_token tn)"
  "guarded (method_need ''POST'' PermissionDevicesWrite) (post_qr parse text encode qbody)"
  "guarded (method_need ''POST'' PermissionDevicesWrite) (post_qr_json parse text qbody)"
  by (rule guarded_method, rule post_token_def delete_token_def post_qr_def post_qr_json_def)+

lemma guarded_searches:
  "guarded (method_need ''GET'' PermissionAdminRead) (search_logs tn parse_time)"
  "guarded (method_need ''GET'' PermissionAdminRead) (search_info tn parse_time)"
  by (rule guarded_method, rule search_logs_def search_info_def)+

text \<open>A request that authenticates reaches the endpoint behind the guard.\<close>

lemma with_authenticated:
  assumes "fst (Authenticate tn (TrimSpace (req_path r ''deviceId'')) (TrimSpace (req_secret r)) w) = Inr dv"
  shows "with_device tn [] r f w = f (TrimSpace (req_secret r)) dv (tick_stmt w)"
proof -
  let ?m = "Authenticate tn (TrimSpace (req_path r ''deviceId'')) (TrimSpace (req_secret r))"
  have given: "TrimSpace (req_path r ''deviceId'') \<noteq> []" "TrimSpace (req_secret r) \<noteq> []"
    using assms by (auto simp: Authenticate_def throwE_def split: if_splits)
  have "snd (?m w) = tick_stmt w"
    using post_fst_Inr [OF post_Authenticate_state assms] .
  then have "?m w = (Inr dv, tick_stmt w)" using assms by (metis prod.collapse)
  then show ?thesis using given by (simp add: with_device_def Let_def call_def try_else_def)
qed

text \<open>A device's endpoint that is only looked at for one method.\<close>

lemma device_guarded_methodI:
  assumes "\<And>r. h r = (if req_method r \<noteq> m then answer method_not_allowed else with_device tn others r (f r))"
  shows "device_guarded tn h"
proof -
  have all: "device_guarded tn (\<lambda>r. with_device tn others r (f r))" by (rule device_guardedI) (rule refl)
  then show ?thesis
    unfolding device_guarded_def assms
    by (auto simp: hp reply_defs)
qed

lemma guarded_device_endpoints:
  "device_guarded tn (get_commands tn)" "device_guarded tn (post_ack tn abody)"
  "device_guarded tn (post_logs tn lbody)" "device_guarded tn (post_info tn ibody)"
  by (rule device_guarded_methodI, rule get_commands_def post_ack_def post_logs_def post_info_def)+

section \<open>Properties\<close>

text \<open>
  C16: Enrolment opens the devices' endpoints: after a device has been bound over \<open>POST /enrollment\<close>, a
  request that carries the identifier and the secret of the answer is let through by the guard of the
  devices' endpoints, and one with another secret only if that has the same hash; asking for its
  commands is then answered.
\<close>

theorem enrollment_opens_endpoints:
  assumes "post_enrollment tn body r w = (Reply b, w')"
    and "txn w = None" "token_schema (db w)" "device_schema (db w)" "no_faults w"
    and "rand_src (env w) (rand_no w) \<noteq> Some []" "tn \<noteq> []"
    and "TrimSpace (req_path r' ''deviceId'') = bd_device_id b" "TrimSpace (req_secret r') \<noteq> []"
  shows "(authentic_request tn r' w' \<longleftrightarrow>
       HashToken (sha256 (env w)) (TrimSpace (req_secret r')) = HashToken (sha256 (env w)) (bd_device_secret b)) \<and>
     (req_method r' = ''GET'' \<and> req_secret r' = bd_device_secret b \<longrightarrow>
        status (fst (get_commands tn r' w')) = 200)"
proof -
  obtain req where req: "decodeEnrollmentRequest body = Inr req" "en_device req \<noteq> []"
    and run: "BindDevice tn (en_token req) (en_device req) (en_extras req) w = (Inr b, w')"
    using assms(1)
    by (auto simp: post_enrollment_def decodeEnrollmentRequest_def Let_def answer_def call_def try_else_def reply_defs
        writeRequestError_def writeEnrollmentError_def split: if_splits sum.splits prod.splits)
  let ?i = "en_device req"
  note p = post_fst_Inr [OF post_BindDevice [OF assms(2-4), of tn "en_token req" ?i "en_extras req"], of b]
  obtain raw where b: "bd_device_id b = ?i" "bd_device_secret b = EncodeToString raw"
    using p run by auto
  have env: "env w' = env w" using framesD [OF frames_BindDevice] run by (metis snd_conv)
  have calm: "no_faults w'" using assms(5) env by (simp add: no_faults_def)
  have bound: "fst (BindDevice tn (en_token req) ?i (en_extras req) w) = Inr b"
    and db: "db w' = db (snd (BindDevice tn (en_token req) ?i (en_extras req) w))" by (simp_all add: run)
  note auth = bound_device_authenticates [OF bound assms(2-4) db env calm assms(6,7) req(2)]
  have iff: "authentic_request tn r' w' \<longleftrightarrow>
       HashToken (sha256 (env w)) (TrimSpace (req_secret r')) = HashToken (sha256 (env w)) (bd_device_secret b)"
    using auth [OF assms(9)] assms(8) b(1) by (auto simp: authentic_request_def)
  have "status (fst (get_commands tn r' w')) = 200" if m: "req_method r' = ''GET''" "req_secret r' = bd_device_secret b"
  proof -
    have s: "TrimSpace (req_secret r') = bd_device_secret b" using m(2) b(2) by simp
    then obtain dv where dv: "fst (Authenticate tn ?i (bd_device_secret b) w') = Inr dv" "rec_id dv = ?i"
      using auth [OF assms(9)] by auto
    have "get_commands tn r' w' = call (ListPendingForDevice tn (rec_id dv)) command_error (\<lambda>items. answer (Reply items))
        (tick_stmt w')"
      using with_authenticated [of tn r' w' dv] dv(1) s assms(8) b(1) m(1) by (simp add: get_commands_def)
    moreover have "answers (call (ListPendingForDevice tn (rec_id dv)) command_error (\<lambda>items. answer (Reply items)))
        (tick_stmt w') (\<lambda>ans _. status ans = 200)"
      using assms(7) dv(2) req(2) calm by (simp add: hp ListPendingForDevice_def wp no_faults_def faulty_def tick_stmt_def)
    ultimately show ?thesis by (simp add: answers_def split: prod.splits)
  qed
  with iff show ?thesis by blast
qed

definition enroll_request :: "enrollment_request" where
  "enroll_request = \<lparr>en_token = '' k'', en_device = ''d '', en_extras = None\<rparr>"

definition plain_request :: "string \<Rightarrow> string \<Rightarrow> string \<Rightarrow> request" where
  "plain_request m dev secret = \<lparr>req_method = m, req_cookie = None, req_secret = secret,
     req_path = \<lambda>p. if p = ''deviceId'' then dev else [], req_query = \<lambda>_. []\<rparr>"

theorem enrollment_opens_endpoints_witness:
  "\<exists>b w'. post_enrollment ''t'' (Inr enroll_request) (plain_request ''POST'' [] []) (world_of enroll_database) = (Reply b, w') \<and>
     status (fst (get_commands ''t'' (plain_request ''GET'' (bd_device_id b) (bd_device_secret b)) w')) = 200"
proof -
  let ?w = "world_of enroll_database" and ?r = "plain_request ''POST'' [] []"
  have "case fst (post_enrollment ''t'' (Inr enroll_request) ?r ?w) of
      Reply b \<Rightarrow> TrimSpace (bd_device_id b) = bd_device_id b \<and> TrimSpace (bd_device_secret b) \<noteq> [] | _ \<Rightarrow> False"
    by code_simp
  then obtain b w' where run: "post_enrollment ''t'' (Inr enroll_request) ?r ?w = (Reply b, w')"
      "TrimSpace (bd_device_id b) = bd_device_id b" "TrimSpace (bd_device_secret b) \<noteq> []"
    by (cases "post_enrollment ''t'' (Inr enroll_request) ?r ?w") (auto split: reply.splits)
  have "rand_src (env ?w) (rand_no ?w) \<noteq> Some []" by (simp add: sample_env_def)
  from enrollment_opens_endpoints [OF run(1) _ _ _ _ this, of "plain_request ''GET'' (bd_device_id b) (bd_device_secret b)"]
  show ?thesis using run by (auto simp: enroll_schema_samples plain_request_def)
qed

text \<open>
  How long a token lives: a lifetime of up to 9223372036 seconds, some 292 years, is granted to the
  microsecond, counted from the clock reading before the store's own. Beyond that the product with
  a second wraps around at 64 bits, so that what is granted is less than what was asked for, and never
  more than 292 years.
\<close>

theorem token_lifetime:
  assumes "post_token tn (Inr (Some ttl)) r w = (Reply k, w')" "is_int64 ttl"
  shows "0 < ttl \<and> (\<exists>t. t = clock_src (env w) (ticks (snd (sessionFromRequest r w))) \<and>
     (ttl \<le> 9223372036 \<longrightarrow> tk_expires (it_token k) = t + ttl * 1000000) \<and>
     (9223372036 < ttl \<longrightarrow> tk_expires (it_token k) < t + ttl * 1000000) \<and>
     tk_expires (it_token k) \<le> t + 9223372036854775)"
proof -
  let ?w = "snd (sessionFromRequest r w)"
  let ?t = "clock_src (env w) (ticks ?w)" and ?m = "bindE now (\<lambda>t. IssueToken tn (token_expiry t ttl))"
  have pos: "0 < ttl" and run: "?m ?w = (Inr k, w')"
    using assms(1)
    by (auto simp: post_token_def admin_method_def with_session_def permitted_def answer_def call_def try_else_def
        reply_defs writeRequestError_def writeEnrollmentError_def split: if_splits option.splits prod.splits sum.splits)
  have "post ?m ?w (\<lambda>x _. tk_expires (it_token x) = token_expiry ?t ttl) (\<lambda>_ _. True)"
    by (auto simp: IssueToken_def insert_token_def insert_row_def insert_into_def scanToken_def wp split: option.splits)
  from post_Inr [OF this run] have e: "tk_expires (it_token k) = token_expiry ?t ttl" .
  have wrap: "wrap64 (ttl * 1000000000) < 2 ^ 63" "- (2 ^ 63) \<le> wrap64 (ttl * 1000000000)"
    using is_int64_wrap64 [of "ttl * 1000000000"] by (simp_all add: is_int64_def)
  have "wrap64 (ttl * 1000000000) = ttl * 1000000000" if "ttl \<le> 9223372036"
    using pos that by (intro wrap64_id) (simp add: is_int64_def)
  moreover have "token_expiry ?t ttl < ?t + ttl * 1000000" if "9223372036 < ttl"
    using that wrap(1) by (simp add: token_expiry_def)
  moreover have "token_expiry ?t ttl \<le> ?t + 9223372036854775"
    using wrap(1) by (simp add: token_expiry_def)
  ultimately show ?thesis using pos e by (auto simp: token_expiry_def)
qed

text \<open>Asking for 584 years gives 0.29 seconds.\<close>

lemma token_lifetime_wraps: "token_expiry t 18446744074 = t + 290448"
  by (simp add: token_expiry_def wrap64_def)

definition operator_sessions :: "world \<Rightarrow> world" where
  "operator_sessions w = w\<lparr>auth := snd (IssueSession ''admin'' AllPermissions ''sid'' 0 (auth w))\<rparr>"

theorem token_lifetime_witness:
  "\<exists>k w'. post_token ''t'' (Inr (Some 600)) ((plain_request ''POST'' [] [])\<lparr>req_cookie := Some ''sid''\<rparr>)
       (operator_sessions (world_of enroll_database)) = (Reply k, w') \<and>
     (\<exists>t. tk_expires (it_token k) = t + 600000000)"
proof -
  let ?r = "(plain_request ''POST'' [] [])\<lparr>req_cookie := Some ''sid''\<rparr>"
  let ?w = "operator_sessions (world_of enroll_database)"
  have "case fst (post_token ''t'' (Inr (Some 600)) ?r ?w) of Reply k \<Rightarrow> True | _ \<Rightarrow> False" by code_simp
  then obtain k w' where run: "post_token ''t'' (Inr (Some 600)) ?r ?w = (Reply k, w')"
    by (cases "post_token ''t'' (Inr (Some 600)) ?r ?w") (auto split: reply.splits)
  from token_lifetime [OF run] run show ?thesis by (auto simp: is_int64_def)
qed

text \<open>A telemetry upload that is not JSON is answered as an internal error, where the others say invalid JSON.\<close>

lemma telemetry_malformed:
  assumes "req_method r = ''POST''" "TrimSpace (req_path r ''deviceId'') \<noteq> []" "TrimSpace (req_secret r) \<noteq> []"
  shows "fst (post_telemetry tn (Inl msg) r w) = internal_error"
  using assms
  by (simp add: post_telemetry_def Let_def decodeTelemetryRequest_def writeTelemetryError_def call_def try_else_def
      throwE_def answer_def)

end
