(* ===== verification/Web.thy ===== *)
theory Web
  imports Http Json Accounts Frames
begin

text \<open>
  What the pages of the administration dashboard share (\<open>admin/http/dashboard.go\<close> and
  \<open>dashboard_auth.go\<close>): a browser's request with its form and cookies, redirects with their messages,
  the token against cross-site requests, the guards of the pages and the audit log. The HTML of a page is
  left out; a page is what it is made of.
\<close>

section \<open>Requests and answers\<close>

text \<open>
  \<open>web_form\<close> is \<open>r.Form\<close>, \<open>web_form_error\<close> the error of \<open>ParseForm\<close> (or \<open>ParseMultipartForm\<close>),
  \<open>web_csrf\<close> the cookie \<open>xmdm_csrf\<close>, \<open>web_flash\<close> what the cookie \<open>xmdm_login_flash\<close> decodes to,
  \<open>web_upload\<close> the file of the form: its name and its content, or the error of reading it.
\<close>

record web_request =
  base :: request
  web_form :: "string \<Rightarrow> string list option"
  web_form_error :: "string option"
  web_header :: "string \<Rightarrow> string"
  web_csrf :: "string option"
  web_flash :: "(string \<times> string) option"
  web_upload :: "(string \<times> (string + string)) option"

abbreviation PathValue :: "web_request \<Rightarrow> string \<Rightarrow> string" where
  "PathValue r \<equiv> req_path (base r)"

abbreviation Query :: "web_request \<Rightarrow> string \<Rightarrow> string" where
  "Query r \<equiv> req_query (base r)"

definition FormValue :: "web_request \<Rightarrow> string \<Rightarrow> string" where
  "FormValue r k = (case web_form r k of Some (v # _) \<Rightarrow> v | _ \<Rightarrow> [])"

definition hasFormField :: "web_request \<Rightarrow> string \<Rightarrow> bool" where
  "hasFormField r k \<longleftrightarrow> web_form r k \<noteq> None"

definition formField :: "web_request \<Rightarrow> string \<Rightarrow> string" where
  "formField r k = TrimSpace (FormValue r k)"

text \<open>The \<open>Set-Cookie\<close> headers of an answer: the session with its expiry, or its removal, and so on.\<close>

datatype set_cookie = SessionCookie string int | DropSession | CSRFCookie string | FlashCookie string string | DropFlash

datatype view =
    Redirect "set_cookie list" string
  | LoginPage "set_cookie list" string string string string
  | HtmlPage "set_cookie list" string string bool string string string string
  | ErrorPage nat string string
  | Me "set_cookie list" string "permission list" string
  | NoContent "set_cookie list"
  | Download string string string

text \<open>
  The strings of \<open>LoginPage\<close> are the token, the path to go on to, the user name and the error; those of
  \<open>HtmlPage\<close> the title, the user, whether the user can write, the token, the message, the error and the text of a QR code; those
  of \<open>Download\<close> the type, the file name and the content.
\<close>

section \<open>Redirects\<close>

text \<open>\<open>path.Clean\<close> on a path that starts with a slash.\<close>

fun split_slash :: "string \<Rightarrow> string list" where
  "split_slash [] = [[]]"
| "split_slash (c # cs) =
     (if c = CHR ''/'' then [] # split_slash cs
      else case split_slash cs of [] \<Rightarrow> [[c]] | seg # segs \<Rightarrow> (c # seg) # segs)"

fun clean_segments :: "string list \<Rightarrow> string list \<Rightarrow> string list" where
  "clean_segments out [] = rev out"
| "clean_segments out (seg # segs) =
     (if seg = [] \<or> seg = ''.'' then clean_segments out segs
      else if seg = ''..'' then clean_segments (tl out) segs
      else clean_segments (seg # out) segs)"

definition Clean :: "string \<Rightarrow> string" where
  "Clean p = (case clean_segments [] (split_slash p) of [] \<Rightarrow> ''/''
     | segs \<Rightarrow> concat (map (\<lambda>seg. CHR ''/'' # seg) segs))"

text \<open>
  \<open>url.Parse\<close> on such a path fails for a control byte and for a bad percent escape in the path or the
  fragment.
\<close>

definition before :: "char \<Rightarrow> string \<Rightarrow> string" where
  "before c s = takeWhile (\<lambda>x. x \<noteq> c) s"

definition from_char :: "char \<Rightarrow> string \<Rightarrow> string" where
  "from_char c s = dropWhile (\<lambda>x. x \<noteq> c) s"

definition is_hex :: "char \<Rightarrow> bool" where
  "is_hex c \<longleftrightarrow> between 48 57 c \<or> between 65 70 c \<or> between 97 102 c"

fun percent_ok :: "string \<Rightarrow> bool" where
  "percent_ok [] = True"
| "percent_ok (c # s) =
     (if c = CHR ''%'' then (case s of a # b # t \<Rightarrow> is_hex a \<and> is_hex b \<and> percent_ok t | _ \<Rightarrow> False)
      else percent_ok s)"

definition url_parses :: "string \<Rightarrow> bool" where
  "url_parses s \<longleftrightarrow> (\<forall>c \<in> set s. 32 \<le> byte c \<and> byte c \<noteq> 127) \<and>
     percent_ok (before (CHR ''?'') (before (CHR ''#'') s)) \<and> percent_ok (from_char (CHR ''#'') s)"

text \<open>
  The location \<open>http.Redirect\<close> sends for a URL of this form: the path is cleaned, a slash at its end and
  the query are kept, and bytes outside ASCII are escaped.
\<close>

definition hexEscapeNonASCII :: "string \<Rightarrow> string" where
  "hexEscapeNonASCII s = concat (map (\<lambda>c. if byte c < 128 then [c]
     else [CHR ''%'', hex_digit (byte c div 16), hex_digit (byte c mod 16)]) s)"

definition location :: "string \<Rightarrow> string" where
  "location url = hexEscapeNonASCII
     (if \<not> url_parses url then url
      else let path = before (CHR ''?'') url; query = from_char (CHR ''?'') url; c = Clean path
           in (if suffix ''/'' path \<and> \<not> suffix ''/'' c then c @ ''/'' else c) @ query)"

definition redirect :: "set_cookie list \<Rightarrow> string \<Rightarrow> view handler" where
  "redirect cookies url = answer (Reply (Redirect cookies (location url)))"

text \<open>\<open>url.QueryEscape\<close>.\<close>

definition unreserved :: "char \<Rightarrow> bool" where
  "unreserved c \<longleftrightarrow> between 48 57 c \<or> between 65 90 c \<or> between 97 122 c \<or> c \<in> set ''-_.~''"

definition upper_hex :: "nat \<Rightarrow> char" where
  "upper_hex n = ''0123456789ABCDEF'' ! n"

definition QueryEscape :: "string \<Rightarrow> string" where
  "QueryEscape s = concat (map (\<lambda>c. if unreserved c then [c] else if c = CHR '' '' then ''+''
     else [CHR ''%'', upper_hex (byte c div 16), upper_hex (byte c mod 16)]) s)"

section \<open>Messages\<close>

fun firstNonEmpty :: "string list \<Rightarrow> string" where
  "firstNonEmpty [] = []"
| "firstNonEmpty (v # vs) = (if TrimSpace v \<noteq> [] then v else firstNonEmpty vs)"

definition safeErrorText :: "string \<Rightarrow> string" where
  "safeErrorText msg =
     (if msg \<in> {''invalid input'', ''invalid form'', ''invalid json'', ''not found'', ''conflict'',
        ''unauthorized'', ''forbidden''} then msg
      else if TrimSpace msg = [] then ''operation failed'' else msg)"

definition redirectOK :: "string \<Rightarrow> string \<Rightarrow> view handler" where
  "redirectOK path msg = redirect [] (path @ ''?ok='' @ QueryEscape msg)"

definition redirectError :: "string \<Rightarrow> string \<Rightarrow> view handler" where
  "redirectError path msg = redirect [] (path @ ''?error='' @ QueryEscape (safeErrorText msg))"

text \<open>
  \<open>err.Error()\<close>: the texts of the values of \<open>httpx/errors.go\<close> and of the packages; that of an error of the
  database driver is an argument.
\<close>

definition error_text :: "(goerr \<Rightarrow> string) \<Rightarrow> goerr \<Rightarrow> string" where
  "error_text driver e = (case e of
      ErrNotFound \<Rightarrow> ''not found''
    | ErrInvalidInput \<Rightarrow> ''invalid input''
    | ErrConflict \<Rightarrow> ''conflict''
    | ErrForbidden \<Rightarrow> ''forbidden''
    | ErrInvalidCredentials \<Rightarrow> ''invalid credentials''
    | ErrText msg \<Rightarrow> msg
    | _ \<Rightarrow> driver e)"

section \<open>The token against cross-site requests\<close>

definition hasCSRFCookie :: "web_request \<Rightarrow> bool" where
  "hasCSRFCookie r \<longleftrightarrow> (case web_csrf r of None \<Rightarrow> False | Some c \<Rightarrow> TrimSpace c \<noteq> [])"

definition csrf_presented :: "web_request \<Rightarrow> string" where
  "csrf_presented r =
     (let token = formField r ''csrfToken''
      in if token = [] then TrimSpace (web_header r ''X-XMDM-CSRF-Token'') else token)"

definition csrfTokenMatches :: "web_request \<Rightarrow> bool" where
  "csrfTokenMatches r = (case web_csrf r of
      None \<Rightarrow> False
    | Some c \<Rightarrow> if csrf_presented r = [] then False else c = csrf_presented r)"

text \<open>A token is issued to a browser that has none; without random bytes it gets none.\<close>

definition newCSRFCookieToken :: "string action" where
  "newCSRFCookieToken = NewTokenSecret"

definition issueCSRFCookie :: "web_request \<Rightarrow> (string \<Rightarrow> set_cookie list \<Rightarrow> view handler) \<Rightarrow> view handler" where
  "issueCSRFCookie r f =
     (case web_csrf r of
        Some c \<Rightarrow> if TrimSpace c \<noteq> [] then f c []
                 else try_else newCSRFCookieToken (\<lambda>_. f [] []) (\<lambda>tok. f tok [CSRFCookie tok])
      | None \<Rightarrow> try_else newCSRFCookieToken (\<lambda>_. f [] []) (\<lambda>tok. f tok [CSRFCookie tok]))"

section \<open>Pages and guards\<close>

definition canWrite :: "session \<Rightarrow> bool" where
  "canWrite ses = HasPermission (ses_permissions ses) PermissionAdminWrite"

definition render_callout ::
  "web_request \<Rightarrow> session \<Rightarrow> string \<Rightarrow> string \<Rightarrow> string \<Rightarrow> string \<Rightarrow> view handler" where
  "render_callout r ses title flash err callout = issueCSRFCookie r (\<lambda>token cookies.
     answer (Reply (HtmlPage cookies title (ses_username ses) (canWrite ses) token
       (firstNonEmpty [flash, Query r ''ok'']) (firstNonEmpty [err, Query r ''error'']) callout)))"

definition renderForSession :: "web_request \<Rightarrow> session \<Rightarrow> string \<Rightarrow> string \<Rightarrow> string \<Rightarrow> view handler" where
  "renderForSession r ses title flash err = render_callout r ses title flash err []"

definition renderPageError :: "web_request \<Rightarrow> session \<Rightarrow> string \<Rightarrow> string \<Rightarrow> view handler" where
  "renderPageError r ses title err = renderForSession r ses title [] (safeErrorText err)"

definition web_session :: "web_request \<Rightarrow> (session \<Rightarrow> view handler) \<Rightarrow> view handler" where
  "web_session r f = (\<lambda>w. case sessionFromRequest (base r) w of
      (None, w') \<Rightarrow> redirect [] ''/admin/login'' w' | (Some ses, w') \<Rightarrow> f ses w')"

definition requireRead :: "web_request \<Rightarrow> string \<Rightarrow> (session \<Rightarrow> view handler) \<Rightarrow> view handler" where
  "requireRead r title f = web_session r (\<lambda>ses.
     if \<not> HasPermission (ses_permissions ses) PermissionAdminRead
     then renderForSession r ses title [] ''forbidden'' else f ses)"

definition requirePostWrite :: "web_request \<Rightarrow> string \<Rightarrow> view handler \<Rightarrow> view handler" where
  "requirePostWrite r title h =
     (if req_method (base r) \<noteq> ''POST'' then answer method_not_allowed
      else web_session r (\<lambda>ses.
        if \<not> HasPermission (ses_permissions ses) PermissionAdminWrite
        then renderForSession r ses title [] ''forbidden''
        else if \<not> csrfTokenMatches r then renderForSession r ses title [] ''forbidden''
        else h))"

text \<open>The session is looked up again for the audit log; what goes wrong there is ignored.\<close>

definition recordAudit ::
  "string \<Rightarrow> web_request \<Rightarrow> string \<Rightarrow> string \<Rightarrow> string \<Rightarrow> obj \<Rightarrow> view handler \<Rightarrow> view handler" where
  "recordAudit tn r act resource i details h = (\<lambda>w. case sessionFromRequest (base r) w of
      (None, w') \<Rightarrow> h w'
    | (Some ses, w') \<Rightarrow> try_else (Record tn (ses_username ses) act resource i details) (\<lambda>_. h) (\<lambda>_. h) w')"

section \<open>Paging\<close>

definition queryLimitForKey :: "web_request \<Rightarrow> string \<Rightarrow> int \<Rightarrow> int" where
  "queryLimitForKey r key fallback =
     (let raw = TrimSpace (Query r key) in
      if raw = [] then fallback
      else case Atoi raw of None \<Rightarrow> fallback | Some n \<Rightarrow> if n \<le> 0 then fallback else n)"

definition queryPageForKey :: "web_request \<Rightarrow> string \<Rightarrow> int \<Rightarrow> int" where
  "queryPageForKey r key fallback =
     (let raw = TrimSpace (Query r key) in
      if raw = [] then fallback
      else case Atoi raw of None \<Rightarrow> fallback | Some n \<Rightarrow> if n \<le> 0 then fallback else n)"

definition paginationLimitCap :: "string \<Rightarrow> int" where
  "paginationLimitCap limitKey = (if limitKey = ''logsLimit'' \<or> limitKey = ''deviceInfoLimit'' then 500 else 100)"

definition listPaginationParamsForKeys :: "web_request \<Rightarrow> string \<Rightarrow> string \<Rightarrow> int \<Rightarrow> int \<times> page_params" where
  "listPaginationParamsForKeys r pageKey limitKey fallbackLimit =
     (let limit = queryLimitForKey r limitKey fallbackLimit;
          page = queryPageForKey r pageKey 1;
          limit = pg_limit (Normalize \<lparr>pg_limit = limit, pg_offset = 0\<rparr> fallbackLimit (paginationLimitCap limitKey))
      in (page, \<lparr>pg_limit = wrap64 (limit + 1), pg_offset = Offset page limit\<rparr>))"

definition listPaginationParams :: "web_request \<Rightarrow> int \<Rightarrow> int \<times> page_params" where
  "listPaginationParams r fallbackLimit = listPaginationParamsForKeys r ''page'' ''limit'' fallbackLimit"

definition paginateItems :: "'a list \<Rightarrow> int \<Rightarrow> 'a list \<times> bool" where
  "paginateItems items lim =
     (if lim \<le> 0 then (items, False)
      else let hasNext = int (length items) > lim
           in (if hasNext then take (nat lim) items else items, hasNext))"

section \<open>Reasoning about the dashboard\<close>

declare firstNonEmpty.simps [simp del]

text \<open>A redirect whose URL starts with a single slash stays with the host that sent it.\<close>

definition same_site :: "string \<Rightarrow> bool" where
  "same_site url \<longleftrightarrow> prefix ''/'' url \<and> \<not> prefix ''//'' url"

lemma split_slash_plain: "seg \<in> set (split_slash s) \<Longrightarrow> CHR ''/'' \<notin> set seg"
  by (induction s arbitrary: seg) (auto split: if_splits list.splits)

lemma clean_segments_plain:
  "seg \<in> set (clean_segments out segs) \<Longrightarrow> seg \<in> set out \<or> (seg \<in> set segs \<and> seg \<noteq> [])"
proof (induction out segs rule: clean_segments.induct)
  case (2 out s segs)
  have "set (tl out) \<subseteq> set out" by (cases out) auto
  with 2 show ?case by (auto split: if_splits)
qed simp

lemma Clean_cases:
  obtains "Clean p = ''/''" | a s where "Clean p = CHR ''/'' # a # s" "a \<noteq> CHR ''/''"
proof (cases "clean_segments [] (split_slash p)")
  case Nil
  with that show thesis by (simp add: Clean_def)
next
  case (Cons seg segs)
  then have "seg \<in> set (split_slash p) \<and> seg \<noteq> []" using clean_segments_plain [of seg "[]" "split_slash p"] by simp
  with split_slash_plain have "seg \<noteq> []" "CHR ''/'' \<notin> set seg" by auto
  then obtain a list where "seg = a # list" "a \<noteq> CHR ''/''" by (cases seg) auto
  with Cons that(2) [of a] show thesis by (simp add: Clean_def)
qed

lemma from_char_cases: "from_char c s = [] \<or> (\<exists>t. from_char c s = c # t)"
  by (induction s) (auto simp: from_char_def)

lemma same_site_escaped: "same_site s \<Longrightarrow> same_site (hexEscapeNonASCII s)"
proof -
  assume "same_site s"
  then obtain t where s: "s = CHR ''/'' # t" "\<not> prefix ''/'' t" by (cases s) (auto simp: same_site_def)
  show ?thesis by (cases t) (use s in \<open>auto simp: same_site_def hexEscapeNonASCII_def byte_def\<close>)
qed

lemma location_same_site:
  assumes "same_site url"
  shows "same_site (location url)"
proof (cases "url_parses url")
  case False
  with assms show ?thesis by (simp add: location_def same_site_escaped)
next
  case True
  let ?p = "before (CHR ''?'') url" and ?q = "from_char (CHR ''?'') url"
  have q: "\<not> prefix ''/'' ?q" using from_char_cases [of "CHR ''?''" url] by auto
  have root: "suffix ''/'' ''/''" by simp
  have "same_site ((if suffix ''/'' ?p \<and> \<not> suffix ''/'' (Clean ?p) then Clean ?p @ ''/'' else Clean ?p) @ ?q)"
    by (rule Clean_cases [of ?p]) (use q root in \<open>auto simp: same_site_def\<close>)
  with True show ?thesis by (simp add: location_def Let_def same_site_escaped)
qed

text \<open>A token is only accepted from a browser that holds the same, non-empty and trimmed, token.\<close>

lemma csrfTokenMatches_iff:
  "csrfTokenMatches r \<longleftrightarrow> (\<exists>c. web_csrf r = Some c \<and> c \<noteq> [] \<and> csrf_presented r = c)"
  by (auto simp: csrfTokenMatches_def split: option.splits)

lemma answers_redirect [hp]: "answers (redirect cookies url) w Q = Q (Reply (Redirect cookies (location url))) w"
  by (simp add: redirect_def hp)

text \<open>Issuing a token reads random bytes; a page changes nothing else.\<close>

definition same_but_random :: "world \<Rightarrow> world \<Rightarrow> bool" where
  "same_but_random w w' \<longleftrightarrow> w' = w\<lparr>rand_no := rand_no w'\<rparr>"

lemma same_but_random_state:
  assumes "same_but_random w w'"
  shows "same_state w w'" "auth w' = auth w" "env w' = env w"
proof -
  have "w' = w\<lparr>rand_no := rand_no w'\<rparr>" using assms by (simp add: same_but_random_def)
  then obtain n where "w' = w\<lparr>rand_no := n\<rparr>" by blast
  then show "same_state w w'" "auth w' = auth w" "env w' = env w" by (simp_all add: same_state_def)
qed

lemma answers_issueCSRFCookie:
  assumes "\<And>tok cookies w'. same_but_random w w' \<Longrightarrow> cookies = [] \<or> cookies = [CSRFCookie tok] \<Longrightarrow>
      answers (f tok cookies) w' Q"
  shows "answers (issueCSRFCookie r f) w Q"
proof -
  have "same_but_random w w" "same_but_random w (w\<lparr>rand_no := n\<rparr>)" for n by (simp_all add: same_but_random_def)
  with assms show ?thesis
    by (auto simp: issueCSRFCookie_def newCSRFCookieToken_def hp wp split: option.splits)
qed

lemma answers_render_callout:
  assumes "\<And>w' cookies tok. same_but_random w w' \<Longrightarrow>
      Q (Reply (HtmlPage cookies title (ses_username ses) (canWrite ses) tok
          (firstNonEmpty [flash, Query r ''ok'']) (firstNonEmpty [err, Query r ''error'']) callout)) w'"
  shows "answers (render_callout r ses title flash err callout) w Q"
  unfolding render_callout_def by (rule answers_issueCSRFCookie) (simp add: hp assms)

text \<open>
  \<open>may_write\<close>: a \<open>POST\<close> with a live session that can write and the matching token. A form handler is
  \<open>web_guarded\<close> when every other request is turned away and changes nothing.
\<close>

definition may_write :: "web_request \<Rightarrow> world \<Rightarrow> bool" where
  "may_write r w \<longleftrightarrow> req_method (base r) = ''POST'' \<and> csrfTokenMatches r \<and>
     (\<exists>ses. current_session (base r) w = Some ses \<and> PermissionAdminWrite \<in> set (ses_permissions ses))"

definition turned_away :: "view reply \<Rightarrow> bool" where
  "turned_away ans \<longleftrightarrow> ans = method_not_allowed \<or> ans = Reply (Redirect [] ''/admin/login'') \<or>
     (\<exists>cookies title user write tok flash callout.
       ans = Reply (HtmlPage cookies title user write tok flash ''forbidden'' callout))"

definition web_guarded :: "(web_request \<Rightarrow> view handler) \<Rightarrow> bool" where
  "web_guarded h \<longleftrightarrow> (\<forall>r w. \<not> may_write r w \<longrightarrow>
     answers (h r) w (\<lambda>ans w'. turned_away ans \<and> same_state w w'))"

lemma login_location [simp]: "location ''/admin/login'' = ''/admin/login''"
  by code_simp

lemma forbidden_shown [simp]: "firstNonEmpty (''forbidden'' # vs) = ''forbidden''"
proof -
  have "TrimSpace ''forbidden'' \<noteq> []" by code_simp
  then show ?thesis by (simp add: firstNonEmpty.simps)
qed

lemma answers_web_session [hp]:
  "answers (web_session r f) w Q = (case sessionFromRequest (base r) w of
     (None, w') \<Rightarrow> Q (Reply (Redirect [] ''/admin/login'')) w' | (Some ses, w') \<Rightarrow> answers (f ses) w' Q)"
  by (auto simp: web_session_def answers_def redirect_def answer_def split: prod.splits option.splits)

lemma same_state_trans: "same_state w w' \<Longrightarrow> same_state w' w'' \<Longrightarrow> same_state w w''"
  by (simp add: same_state_def)

lemma turned_away_intros [simp]:
  "turned_away method_not_allowed" "turned_away (Reply (Redirect [] ''/admin/login''))"
  "turned_away (Reply (HtmlPage cookies title user write tok flash ''forbidden'' callout))"
  by (auto simp: turned_away_def)

lemma forbidden_page:
  assumes "same_state w w0"
  shows "answers (renderForSession r ses title [] ''forbidden'') w0 (\<lambda>ans w'. turned_away ans \<and> same_state w w')"
  unfolding renderForSession_def by (rule answers_render_callout) (use assms same_but_random_state(1) same_state_trans in auto)

lemma web_guardedI:
  assumes "\<And>r. h r = requirePostWrite r (title r) (k r)"
  shows "web_guarded h"
  unfolding web_guarded_def
proof (intro allI impI)
  fix r w assume out: "\<not> may_write r w"
  obtain s w' where s: "sessionFromRequest (base r) w = (s, w')" by (cases "sessionFromRequest (base r) w")
  then have st: "same_state w w'" using same_state_session [of w "base r"] by simp
  have cur: "current_session (base r) w = s" by (simp add: current_session_def s)
  show "answers (h r) w (\<lambda>ans w'. turned_away ans \<and> same_state w w')"
    unfolding assms requirePostWrite_def
    using out s st cur
    by (auto simp: hp may_write_def HasPermission_iff forbidden_page split: option.splits)
qed

text \<open>A request that may write is handed on, with its session looked up.\<close>

lemma answers_requirePostWrite:
  assumes "may_write r w"
  shows "answers (requirePostWrite r title k) w Q = answers k (snd (sessionFromRequest (base r) w)) Q"
proof -
  obtain ses where ses: "current_session (base r) w = Some ses" "PermissionAdminWrite \<in> set (ses_permissions ses)"
    using assms by (auto simp: may_write_def)
  then have "sessionFromRequest (base r) w = (Some ses, snd (sessionFromRequest (base r) w))"
    by (metis current_session_def prod.collapse)
  with ses assms show ?thesis
    by (auto simp: requirePostWrite_def hp may_write_def HasPermission_iff split: prod.splits)
qed

text \<open>A message in the query of a redirect leaves the path as it is.\<close>

definition query_char :: "char \<Rightarrow> bool" where
  "query_char c \<longleftrightarrow> 32 \<le> byte c \<and> byte c < 127 \<and> c \<noteq> CHR ''#''"

lemma upper_hex_query: "n < 16 \<Longrightarrow> query_char (upper_hex n)"
proof -
  assume "n < 16"
  then have "upper_hex n \<in> set ''0123456789ABCDEF''" unfolding upper_hex_def by (intro nth_mem) simp
  moreover have "list_all query_char ''0123456789ABCDEF''" by code_simp
  ultimately show ?thesis by (simp only: list_all_iff)
qed

lemma unreserved_query: "unreserved c \<Longrightarrow> query_char c"
proof -
  assume u: "unreserved c"
  have "list_all query_char ''-_.~''" by code_simp
  moreover have "query_char c" if "between 48 57 c \<or> between 65 90 c \<or> between 97 122 c"
  proof -
    have "byte (CHR ''#'') = 35" by (simp add: byte_def)
    with that show ?thesis by (auto simp: query_char_def between_def)
  qed
  ultimately show ?thesis using u by (auto simp: unreserved_def list_all_iff)
qed

lemma QueryEscape_query: "\<forall>c \<in> set (QueryEscape s). query_char c"
proof (induction s)
  case (Cons x s)
  have "byte x div 16 < 16" "byte x mod 16 < 16"
    using nat_of_char_less_256 [of x] by (simp_all add: byte_def less_mult_imp_div_less)
  then have "query_char (upper_hex (byte x div 16))" "query_char (upper_hex (byte x mod 16))"
    by (simp_all only: upper_hex_query)
  moreover have "query_char (CHR ''+'')" "query_char (CHR ''%'')" by (simp_all add: query_char_def byte_def)
  ultimately have "\<forall>c \<in> set (if unreserved x then [x] else if x = CHR '' '' then ''+''
      else [CHR ''%'', upper_hex (byte x div 16), upper_hex (byte x mod 16)]). query_char c"
    by (simp add: unreserved_query)
  with Cons show ?case unfolding QueryEscape_def list.map concat.simps set_append by blast
qed (simp add: QueryEscape_def)

lemma keep_all:
  assumes "c \<notin> set p"
  shows "before c p = p" "from_char c p = []" "before c (p @ c # q) = p" "from_char c (p @ c # q) = c # q"
  using assms by (induction p) (auto simp: before_def from_char_def)

lemma hexEscape_ascii: "(\<forall>c \<in> set s. byte c < 128) \<Longrightarrow> hexEscapeNonASCII s = s"
  by (induction s) (simp_all add: hexEscapeNonASCII_def)

lemma hexEscape_append: "hexEscapeNonASCII (s @ t) = hexEscapeNonASCII s @ hexEscapeNonASCII t"
  by (simp add: hexEscapeNonASCII_def)

lemma location_query:
  assumes p: "url_parses p" "CHR ''?'' \<notin> set p" "CHR ''#'' \<notin> set p" and q: "\<forall>c \<in> set q. query_char c"
  shows "location (p @ CHR ''?'' # q) = location p @ CHR ''?'' # q"
proof -
  let ?u = "p @ CHR ''?'' # q"
  have h: "CHR ''#'' \<notin> set ?u" using p(3) q by (auto simp: query_char_def)
  note whole = keep_all(1,2) [OF h] keep_all(1,2) [OF p(3)] keep_all(1,2) [OF p(2)] and cut = keep_all(3,4) [OF p(2)]
  have plain: "32 \<le> byte c \<and> byte c \<noteq> 127 \<and> byte c < 128" if "query_char c" for c
    using that unfolding query_char_def by linarith
  then have "\<forall>c \<in> set q. 32 \<le> byte c \<and> byte c \<noteq> 127" using q by blast
  moreover have "byte (CHR ''?'') = 63" by (simp add: byte_def)
  ultimately have parses: "url_parses ?u"
    using p(1) unfolding url_parses_def whole cut by (simp add: ball_Un)
  have qs: "hexEscapeNonASCII (CHR ''?'' # q) = CHR ''?'' # q"
    by (rule hexEscape_ascii) (use q plain in \<open>simp add: byte_def\<close>)
  show ?thesis
    using p(1) parses qs
    by (simp add: location_def Let_def whole cut hexEscape_append del: append.simps)
qed

text \<open>The same for the pages that are only looked at.\<close>

definition may_read :: "web_request \<Rightarrow> world \<Rightarrow> bool" where
  "may_read r w \<longleftrightarrow> (\<exists>ses. current_session (base r) w = Some ses \<and> PermissionAdminRead \<in> set (ses_permissions ses))"

definition web_read_guarded :: "(web_request \<Rightarrow> view handler) \<Rightarrow> bool" where
  "web_read_guarded h \<longleftrightarrow> (\<forall>r w. \<not> may_read r w \<longrightarrow>
     answers (h r) w (\<lambda>ans w'. turned_away ans \<and> same_state w w'))"

lemma web_read_guardedI:
  assumes "\<And>r. h r = requireRead r (title r) (k r)"
  shows "web_read_guarded h"
  unfolding web_read_guarded_def
proof (intro allI impI)
  fix r w assume out: "\<not> may_read r w"
  obtain s w' where s: "sessionFromRequest (base r) w = (s, w')" by (cases "sessionFromRequest (base r) w")
  then have st: "same_state w w'" using same_state_session [of w "base r"] by simp
  have cur: "current_session (base r) w = s" by (simp add: current_session_def s)
  show "answers (h r) w (\<lambda>ans w'. turned_away ans \<and> same_state w w')"
    unfolding assms requireRead_def
    using out s st cur
    by (auto simp: hp may_read_def HasPermission_iff forbidden_page split: option.splits)
qed

end
