(* ===== verification/Login.thy ===== *)
theory Login
  imports Web
begin

text \<open>
  The browser's way in and out: \<open>login\<close>, \<open>me\<close> and \<open>logout\<close> of \<open>admin/http/dashboard_auth.go\<close>. A login is
  tried with the configured administrator first and then with the users of the tenant; it opens a session
  of the service in \<open>Sessions\<close>.
\<close>

section \<open>Where to go on\<close>

definition safeAdminRedirectPath :: "string \<Rightarrow> string" where
  "safeAdminRedirectPath raw =
     (let next = TrimSpace raw in
      if next = [] then []
      else if \<not> prefix ''/'' next \<or> prefix ''//'' next then []
      else if \<not> prefix ''/admin/'' next \<and> next \<noteq> ''/admin'' then []
      else next)"

definition loginRedirectURL :: "string \<Rightarrow> string" where
  "loginRedirectURL nextPath =
     (if nextPath = [] then ''/admin/login'' else ''/admin/login?next='' @ QueryEscape nextPath)"

section \<open>Sessions\<close>

text \<open>The service draws an identifier and then reads the clock.\<close>

definition open_session :: "(string \<Rightarrow> int \<Rightarrow> auth_service \<Rightarrow> (goerr + session) \<times> auth_service) \<Rightarrow> session action" where
  "open_session f = (\<lambda>w. case f (uuid_src (env w) (uuid_no w)) (clock_src (env w) (ticks w)) (auth w) of
      (Inl e, _) \<Rightarrow> (Inl e, w)
    | (Inr ses, svc) \<Rightarrow> (Inr ses, w\<lparr>auth := svc, uuid_no := Suc (uuid_no w), ticks := Suc (ticks w)\<rparr>))"

definition svc_Login :: "string \<Rightarrow> string \<Rightarrow> session action" where
  "svc_Login username password = open_session (Login username password)"

definition svc_IssueSession :: "string \<Rightarrow> permission list \<Rightarrow> session action" where
  "svc_IssueSession username perms =
     open_session (\<lambda>sid t s. case IssueSession username perms sid t s of (ses, s') \<Rightarrow> (Inr ses, s'))"

definition dashboardPermissions :: "string list \<Rightarrow> permission list" where
  "dashboardPermissions values = map (\<lambda>value. value) values"

section \<open>The handlers\<close>

definition session_cookie :: "session \<Rightarrow> set_cookie" where
  "session_cookie ses = SessionCookie (ses_id ses) (ses_expires ses)"

text \<open>The user name and message of the last attempt are shown once.\<close>

definition consumeLoginFlash :: "web_request \<Rightarrow> (string \<times> string) \<times> set_cookie list" where
  "consumeLoginFlash r = (case web_flash r of None \<Rightarrow> (([], []), []) | Some flash \<Rightarrow> (flash, [DropFlash]))"

definition login_form :: "web_request \<Rightarrow> string \<Rightarrow> view handler" where
  "login_form r nextPath = issueCSRFCookie r (\<lambda>token cookies.
     case consumeLoginFlash r of ((username, msg), cookies') \<Rightarrow>
       answer (Reply (LoginPage (cookies @ cookies') token nextPath username msg)))"

definition login_refused :: "string \<Rightarrow> string \<Rightarrow> string \<Rightarrow> view handler" where
  "login_refused nextPath username msg = redirect [FlashCookie username msg] (loginRedirectURL nextPath)"

definition post_login :: "string \<Rightarrow> web_request \<Rightarrow> string \<Rightarrow> view handler" where
  "post_login tn r nextPath =
     (if web_form_error r \<noteq> None then login_refused nextPath [] ''invalid form''
      else if hasCSRFCookie r \<and> \<not> csrfTokenMatches r then login_refused nextPath [] ''forbidden''
      else let username = formField r ''username''; password = FormValue r ''password'' in
        try_else (svc_Login username password)
          (\<lambda>e. if e \<noteq> ErrInvalidCredentials then login_refused nextPath username ''invalid credentials''
            else try_else (AuthenticateUser tn username password)
              (\<lambda>_. login_refused nextPath username ''invalid credentials'')
              (\<lambda>(user, role). let perms = dashboardPermissions (role_permissions role) in
                 if \<not> HasPermission perms PermissionAdminRead then login_refused nextPath username ''forbidden''
                 else try_else (svc_IssueSession (us_email user) perms)
                   (\<lambda>_. answer internal_error)
                   (\<lambda>ses. redirect [session_cookie ses] ''/admin'')))
          (\<lambda>ses. let next = safeAdminRedirectPath (FormValue r ''next'') in
             redirect [session_cookie ses] (if next \<noteq> [] then next else ''/admin'')))"

definition login :: "string \<Rightarrow> web_request \<Rightarrow> view handler" where
  "login tn r =
     (let nextPath = safeAdminRedirectPath (Query r ''next'') in
      if req_method (base r) = ''GET'' then login_form r nextPath
      else if req_method (base r) = ''POST'' then post_login tn r nextPath
      else answer method_not_allowed)"

definition me :: "web_request \<Rightarrow> view handler" where
  "me r = (\<lambda>w. case sessionFromRequest (base r) w of
      (None, w') \<Rightarrow> (Status 401, w')
    | (Some ses, w') \<Rightarrow> issueCSRFCookie r (\<lambda>token cookies.
        answer (Reply (Me cookies (ses_username ses) (ses_permissions ses) token))) w')"

text \<open>Signing out needs no session; only a browser with a token must show it.\<close>

definition Contains :: "string \<Rightarrow> string \<Rightarrow> bool" where
  "Contains s sub \<longleftrightarrow> list_ex (prefix sub) (suffixes s)"

definition wantsHTMLResponse :: "web_request \<Rightarrow> bool" where
  "wantsHTMLResponse r =
     (let accept = ToLower (web_header r ''Accept'') in
      if Contains accept ''text/html'' \<or> Contains accept ''application/xhtml+xml'' then True
      else if ToLower (web_header r ''Sec-Fetch-Mode'') = ''navigate'' then True
      else if ToLower (web_header r ''Sec-Fetch-Dest'') = ''document'' then True
      else Contains (ToLower (web_header r ''Referer'')) ''/admin'')"

definition logout :: "web_request \<Rightarrow> view handler" where
  "logout r =
     (if req_method (base r) \<noteq> ''POST'' then answer method_not_allowed
      else if hasCSRFCookie r \<and> \<not> csrfTokenMatches r then answer (Reply (ErrorPage 403 ''Logout'' ''forbidden''))
      else (\<lambda>w. (if wantsHTMLResponse r then redirect [DropSession] ''/admin/login''
                 else answer (Reply (NoContent [DropSession])))
             (case req_cookie (base r) of None \<Rightarrow> w | Some sid \<Rightarrow> w\<lparr>auth := Logout sid (auth w)\<rparr>)))"

section \<open>Who gets in\<close>

text \<open>
  The name and the permissions a login with a user name and a password is entitled to: the
  configured administrator's, or those of an active user whose active role may read.
\<close>

definition entitled :: "world \<Rightarrow> string \<Rightarrow> string \<Rightarrow> string \<Rightarrow> string \<Rightarrow> permission list \<Rightarrow> bool" where
  "entitled w tn username password name perms \<longleftrightarrow>
     (if username = svc_username (auth w) \<and> password = svc_password (auth w)
      then name = username \<and> perms = svc_permissions (auth w)
      else username \<noteq> [] \<and> password \<noteq> [] \<and>
        (\<exists>u role. may_log_in (env w) (db w) tn username password u role \<and> name = user_email u \<and>
           perms = role_permissions role \<and> PermissionAdminRead \<in> set perms))"

definition login_attempt :: "web_request \<Rightarrow> bool" where
  "login_attempt r \<longleftrightarrow> req_method (base r) = ''POST'' \<and> web_form_error r = None \<and>
     (hasCSRFCookie r \<longrightarrow> csrfTokenMatches r)"

fun cookies_of :: "view reply \<Rightarrow> set_cookie list" where
  "cookies_of (Reply (Redirect cs _)) = cs"
| "cookies_of (Reply (LoginPage cs _ _ _ _)) = cs"
| "cookies_of (Reply (HtmlPage cs _ _ _ _ _ _ _)) = cs"
| "cookies_of (Reply (Me cs _ _ _)) = cs"
| "cookies_of (Reply (NoContent cs)) = cs"
| "cookies_of _ = []"

definition session_granted :: "view reply \<Rightarrow> string option" where
  "session_granted ans = (case cookies_of ans of SessionCookie sid _ # _ \<Rightarrow> Some sid | _ \<Rightarrow> None)"

definition new_session :: "world \<Rightarrow> string \<Rightarrow> permission list \<Rightarrow> session" where
  "new_session w name perms = \<lparr>ses_id = uuid_src (env w) (uuid_no w), ses_username = name,
     ses_permissions = perms, ses_expires = clock_src (env w) (ticks w) + svc_ttl (auth w)\<rparr>"

definition with_new_session :: "world \<Rightarrow> session \<Rightarrow> world" where
  "with_new_session w ses = w\<lparr>auth := (auth w)\<lparr>svc_sessions := (svc_sessions (auth w))(ses_id ses \<mapsto> ses)\<rparr>,
     uuid_no := Suc (uuid_no w), ticks := Suc (ticks w)\<rparr>"

lemma post_svc_IssueSession [wp]:
  "post (svc_IssueSession name perms) w Q E =
     Q (new_session w name perms) (with_new_session w (new_session w name perms))"
  by (simp add: svc_IssueSession_def open_session_def post_def IssueSession_def Let_def new_session_def
      with_new_session_def)

lemma post_svc_Login [wp]:
  "post (svc_Login username password) w Q E =
     (if username = svc_username (auth w) \<and> password = svc_password (auth w)
      then Q (new_session w username (svc_permissions (auth w)))
             (with_new_session w (new_session w username (svc_permissions (auth w))))
      else E ErrInvalidCredentials w)"
  by (simp add: svc_Login_def open_session_def post_def Login_def IssueSession_def Let_def new_session_def
      with_new_session_def)

lemma dashboardPermissions_id [simp]: "dashboardPermissions perms = perms"
  by (simp add: dashboardPermissions_def)

text \<open>A session that was opened is what a request with its cookie finds, until it expires.\<close>

lemma current_new_session:
  assumes "svc_sessions (auth w) sid = Some ses" "req_cookie q = Some sid"
    "clock_src (env w) (ticks w) \<le> ses_expires ses"
  shows "current_session q w = Some ses"
  using assms by (simp add: current_session_def sessionFromRequest_def auth_Authenticate_def)

definition session_opened :: "world \<Rightarrow> string \<Rightarrow> permission list \<Rightarrow> view reply \<Rightarrow> world \<Rightarrow> bool" where
  "session_opened w name perms ans w' \<longleftrightarrow>
     session_granted ans = Some (ses_id (new_session w name perms)) \<and>
     svc_sessions (auth w') = (svc_sessions (auth w))(ses_id (new_session w name perms) \<mapsto> new_session w name perms) \<and>
     (\<forall>q. req_cookie q = session_granted ans \<longrightarrow>
        clock_src (env w') (ticks w') \<le> clock_src (env w) (ticks w) + svc_ttl (auth w) \<longrightarrow>
        current_session q w' = Some (new_session w name perms))"

lemma session_openedI:
  assumes "env w1 = env w" "auth w1 = auth w" "uuid_no w1 = uuid_no w" "ticks w1 = ticks w"
  shows "session_opened w name perms (Reply (Redirect [session_cookie (new_session w1 name perms)] url))
     (with_new_session w1 (new_session w1 name perms))"
proof -
  have eq: "new_session w1 name perms = new_session w name perms" using assms by (simp add: new_session_def)
  show ?thesis
    unfolding session_opened_def eq
    by (auto simp: session_granted_def session_cookie_def with_new_session_def assms new_session_def
        intro!: current_new_session)
qed

lemma tick_stmt_rest [simp]:
  "auth (tick_stmt w) = auth w" "uuid_no (tick_stmt w) = uuid_no w" "ticks (tick_stmt w) = ticks w"
  by (simp_all add: tick_stmt_def)

definition unopened :: "world \<Rightarrow> view reply \<Rightarrow> world \<Rightarrow> bool" where
  "unopened w ans w' \<longleftrightarrow> session_granted ans = None \<and> auth w' = auth w"

lemma answers_login_refused:
  "auth w' = auth w \<Longrightarrow> db w' = db w \<Longrightarrow>
   answers (login_refused nextPath username msg) w' (\<lambda>ans w'. db w' = db w \<and> unopened w ans w')"
  by (simp add: login_refused_def hp unopened_def session_granted_def)

lemma answers_user_login:
  assumes w: "no_faults w" "account_schema (db w)" "tn \<noteq> []"
  shows "answers (try_else (AuthenticateUser tn username password)
              (\<lambda>_. login_refused nextPath username ''invalid credentials'')
              (\<lambda>(user, role). let perms = dashboardPermissions (role_permissions role) in
                 if \<not> HasPermission perms PermissionAdminRead then login_refused nextPath username ''forbidden''
                 else try_else (svc_IssueSession (us_email user) perms)
                   (\<lambda>_. answer internal_error)
                   (\<lambda>ses. redirect [session_cookie ses] ''/admin''))) w
     (\<lambda>ans w'. db w' = db w \<and>
       (if username \<noteq> [] \<and> password \<noteq> [] \<and> (\<exists>u role. may_log_in (env w) (db w) tn username password u role \<and>
            PermissionAdminRead \<in> set (role_permissions role))
        then \<exists>u role. may_log_in (env w) (db w) tn username password u role \<and>
            PermissionAdminRead \<in> set (role_permissions role) \<and>
            session_opened w (user_email u) (role_permissions role) ans w'
        else unopened w ans w'))"
proof (cases "username = [] \<or> password = []")
  case True
  then show ?thesis
    by (auto simp: AuthenticateUser_def hp wp login_refused_def unopened_def session_granted_def)
next
  case False
  have one: "v = u \<and> s = r"
    if "may_log_in (env w) (db w) tn username password u r" "may_log_in (env w) (db w) tn username password v s" for u r v s
    using that w(2) distinct_key_unique [of email_key "users (db w)" v u] distinct_key_unique [of rec_id "roles (db w)" s r]
    by (auto simp: may_log_in_def account_schema_def by_id_def)
  have "post (AuthenticateUser tn username password) w
     (\<lambda>x w'. \<exists>u r. may_log_in (env w) (db w) tn username password u r \<and> x = (scanUser u, r) \<and> w' = tick_stmt w)
     (\<lambda>e w'. e = ErrInvalidCredentials \<and> \<not> (\<exists>u r. may_log_in (env w) (db w) tn username password u r) \<and> w' = tick_stmt w)"
    using w False by (intro post_AuthenticateUser) simp_all
  then show ?thesis
    unfolding answers_try_else
  proof (rule post_mono, goal_cases)
    case (1 x w')
    then obtain u r where x: "may_log_in (env w) (db w) tn username password u r" "x = (scanUser u, r)" "w' = tick_stmt w"
      by blast
    have opened: "session_opened w name perms (Reply (Redirect [session_cookie (new_session (tick_stmt w) name perms)] url))
        (with_new_session (tick_stmt w) (new_session (tick_stmt w) name perms))" for name perms url
      by (rule session_openedI) simp_all
    have dbs: "db (with_new_session (tick_stmt w) ses) = db w" for ses by (simp add: with_new_session_def)
    have iff: "may_log_in (env w) (db w) tn username password v s \<longleftrightarrow> v = u \<and> s = r" for v s
      using one x(1) by blast
    have us: "us_email (scanUser u) = user_email u" by (simp add: scanUser_def)
    show ?case
      using False
      by (simp add: x(2,3) hp wp HasPermission_iff login_refused_def unopened_def session_granted_def us opened dbs iff Let_def)
  next
    case (2 e w')
    then show ?case by (auto simp: login_refused_def hp unopened_def session_granted_def)
  qed
qed

lemma login_opens:
  assumes w: "no_faults w" "account_schema (db w)" "tn \<noteq> []"
  shows "answers (login tn r) w (\<lambda>ans w'. db w' = db w \<and>
     (if login_attempt r \<and> (\<exists>name perms. entitled w tn (formField r ''username'') (FormValue r ''password'') name perms)
      then \<exists>name perms. entitled w tn (formField r ''username'') (FormValue r ''password'') name perms \<and>
        session_opened w name perms ans w'
      else session_granted ans = None \<and> auth w' = auth w))"
proof -
  let ?name = "formField r ''username''" and ?pw = "FormValue r ''password''" and ?next = "safeAdminRedirectPath (Query r ''next'')"
  note refused = answers_login_refused [unfolded unopened_def]
  show ?thesis
  proof (cases "login_attempt r")
    case False
    have form: "answers (login_form r ?next) w (\<lambda>ans w'. db w' = db w \<and> session_granted ans = None \<and> auth w' = auth w)"
      unfolding login_form_def
    proof (rule answers_issueCSRFCookie)
      fix tok cookies w' assume rnd: "same_but_random w w'" "cookies = [] \<or> cookies = [CSRFCookie tok]"
      show "answers (case consumeLoginFlash r of ((username, msg), cookies') \<Rightarrow>
           answer (Reply (LoginPage (cookies @ cookies') tok ?next username msg))) w'
         (\<lambda>ans w'. db w' = db w \<and> session_granted ans = None \<and> auth w' = auth w)"
        using rnd same_but_random_state(1,2) [OF rnd(1)]
        by (auto simp: consumeLoginFlash_def hp session_granted_def same_state_def split: option.splits)
    qed
    show ?thesis
      using False form refused
      by (auto simp: login_def post_login_def login_attempt_def hp session_granted_def method_not_allowed_def Let_def)
  next
    case True
    then have post: "login tn r = post_login tn r ?next" by (simp add: login_def login_attempt_def Let_def)
    show ?thesis
    proof (cases "?name = svc_username (auth w) \<and> ?pw = svc_password (auth w)")
      case admin: True
      have "session_opened w ?name (svc_permissions (auth w)) (Reply (Redirect [session_cookie (new_session w ?name perms)] url))
          (with_new_session w (new_session w ?name perms))" if "perms = svc_permissions (auth w)" for perms url
        unfolding that by (rule session_openedI) simp_all
      then show ?thesis
        using True admin unfolding post
        by (auto simp: post_login_def login_attempt_def hp wp entitled_def Let_def with_new_session_def [THEN arg_cong [where f = db]])
    next
      case user: False
      have ent: "entitled w tn ?name ?pw name perms \<longleftrightarrow> ?name \<noteq> [] \<and> ?pw \<noteq> [] \<and>
          (\<exists>u role. may_log_in (env w) (db w) tn ?name ?pw u role \<and> name = user_email u \<and>
             perms = role_permissions role \<and> PermissionAdminRead \<in> set perms)" for name perms
        using user by (auto simp: entitled_def)
      have "answers (login tn r) w = answers (try_else (AuthenticateUser tn ?name ?pw)
              (\<lambda>_. login_refused ?next ?name ''invalid credentials'')
              (\<lambda>(user, role). let perms = dashboardPermissions (role_permissions role) in
                 if \<not> HasPermission perms PermissionAdminRead then login_refused ?next ?name ''forbidden''
                 else try_else (svc_IssueSession (us_email user) perms)
                   (\<lambda>_. answer internal_error)
                   (\<lambda>ses. redirect [session_cookie ses] ''/admin''))) w"
        using True user unfolding post
        by (intro ext) (auto simp: post_login_def login_attempt_def Let_def answers_try_else post_svc_Login)
      then show ?thesis
        by (simp only:) (rule answers_mono [OF answers_user_login [OF w]],
          use True ent in \<open>auto simp: unopened_def split: if_splits; blast\<close>)
    qed
  qed
qed

text \<open>
  C20: A login opens a session exactly for who is entitled to one: the configured administrator, or an active
  user of the tenant with the right password whose role is active and may read. The session carries that
  name and exactly those permissions, its identifier is the cookie the browser gets, and a later request
  with the cookie is made in its name until it expires. Every other attempt, a form that does not parse
  and a forged token included, opens none; no attempt changes a table.
\<close>

theorem login_decides:
  assumes w: "no_faults w" "account_schema (db w)" "tn \<noteq> []"
  shows "answers (login tn r) w (\<lambda>ans w'. db w' = db w \<and>
     (if login_attempt r \<and> (\<exists>name perms. entitled w tn (formField r ''username'') (FormValue r ''password'') name perms)
      then \<exists>name perms. entitled w tn (formField r ''username'') (FormValue r ''password'') name perms \<and>
        session_opened w name perms ans w'
      else session_granted ans = None \<and> auth w' = auth w))"
  using login_opens [OF w] .

section \<open>Where a login leads\<close>

lemma answers_try_any:
  "(\<And>e w'. answers (h e) w' Q) \<Longrightarrow> (\<And>x w'. answers (f x) w' Q) \<Longrightarrow> answers (try_else m h f) w Q"
  by (auto simp: answers_try_else post_def split: prod.splits sum.splits)

lemma answers_ifI: "(b \<Longrightarrow> answers h w Q) \<Longrightarrow> (\<not> b \<Longrightarrow> answers k w Q) \<Longrightarrow> answers (if b then h else k) w Q"
  by simp

lemma answers_case_prodI: "(\<And>x y. answers (f x y) w Q) \<Longrightarrow> answers (case p of (x, y) \<Rightarrow> f x y) w Q"
  by (simp split: prod.splits)

lemma safe_same_site: "safeAdminRedirectPath raw \<noteq> [] \<Longrightarrow> same_site (safeAdminRedirectPath raw)"
  by (auto simp: safeAdminRedirectPath_def same_site_def Let_def split: if_splits)

lemma admin_location [simp]: "location ''/admin'' = ''/admin''"
  by code_simp

lemma loginRedirect_location: "location (loginRedirectURL nextPath) = loginRedirectURL nextPath"
proof (cases "nextPath = []")
  case True
  then show ?thesis by (simp add: loginRedirectURL_def)
next
  case False
  have "\<forall>c \<in> set (''next='' @ QueryEscape nextPath). query_char c"
    using QueryEscape_query [of nextPath] by (auto simp: query_char_def byte_def)
  moreover have "url_parses ''/admin/login''" by code_simp
  ultimately have "location (''/admin/login'' @ CHR ''?'' # ''next='' @ QueryEscape nextPath) =
      location ''/admin/login'' @ CHR ''?'' # ''next='' @ QueryEscape nextPath"
    by (intro location_query) simp_all
  with False show ?thesis by (simp add: loginRedirectURL_def)
qed

definition leads_on :: "web_request \<Rightarrow> view reply \<Rightarrow> bool" where
  "leads_on r ans \<longleftrightarrow> (\<forall>cookies loc. ans = Reply (Redirect cookies loc) \<longrightarrow>
     (if session_granted ans = None then prefix ''/admin/login'' loc
      else loc = ''/admin'' \<or> (let next = safeAdminRedirectPath (FormValue r ''next'') in next \<noteq> [] \<and> loc = location next)))"

lemma leads_on_refused: "answers (login_refused nextPath username msg) w (\<lambda>ans w'. leads_on r ans)"
  by (simp add: login_refused_def hp leads_on_def session_granted_def loginRedirect_location)
    (simp add: loginRedirectURL_def)

lemma leads_on_login: "answers (login tn r) w (\<lambda>ans w'. leads_on r ans)"
proof -
  let ?next = "safeAdminRedirectPath (Query r ''next'')"
  have form: "answers (login_form r ?next) w (\<lambda>ans w'. leads_on r ans)"
    unfolding login_form_def by (rule answers_issueCSRFCookie) (simp add: hp leads_on_def split: prod.splits)
  have granted: "answers (redirect [session_cookie ses] url) w' (\<lambda>ans w'. leads_on r ans)"
    if "url = ''/admin'' \<or> (url = safeAdminRedirectPath (FormValue r ''next'') \<and> url \<noteq> [])" for ses url w'
    using that by (auto simp: hp leads_on_def session_granted_def session_cookie_def)
  have "answers (post_login tn r ?next) w (\<lambda>ans w'. leads_on r ans)"
    unfolding post_login_def Let_def
    by (intro answers_ifI leads_on_refused answers_try_any answers_case_prodI granted)
      (auto simp: answers_answer leads_on_def reply_defs)
  with form show ?thesis by (simp add: login_def Let_def hp leads_on_def reply_defs)
qed

text \<open>
  A login never redirects to another host by itself: the location starts with one slash. A refused
  attempt leads back to the login page; a granted one to the dashboard, or to the path the form asked for
  when that path starts with \<open>/admin\<close>. The path is cleaned only after that check, so one with dot segments
  leads out of the dashboard.
\<close>

theorem login_redirects:
  assumes "login tn r w = (Reply (Redirect cookies loc), w')"
  shows "same_site loc \<and>
    (if session_granted (Reply (Redirect cookies loc)) = None then prefix ''/admin/login'' loc
     else loc = ''/admin'' \<or> (let next = safeAdminRedirectPath (FormValue r ''next'') in next \<noteq> [] \<and> loc = location next))"
proof -
  have "leads_on r (Reply (Redirect cookies loc))"
    using leads_on_login [of tn r w] by (simp add: answers_def assms)
  then have lead: "if session_granted (Reply (Redirect cookies loc)) = None then prefix ''/admin/login'' loc
     else loc = ''/admin'' \<or> (let next = safeAdminRedirectPath (FormValue r ''next'') in next \<noteq> [] \<and> loc = location next)"
    by (simp add: leads_on_def)
  moreover have "same_site ''/admin''" by (simp add: same_site_def)
  moreover have "prefix ''/admin/login'' loc \<Longrightarrow> same_site loc" by (auto simp: same_site_def prefix_def)
  ultimately show ?thesis using safe_same_site location_same_site by (auto simp: Let_def split: if_splits)
qed

definition login_request :: "string \<Rightarrow> string \<Rightarrow> string \<Rightarrow> web_request" where
  "login_request username password next = \<lparr>base = \<lparr>req_method = ''POST'', req_cookie = None, req_secret = [],
       req_path = \<lambda>_. [], req_query = \<lambda>_. []\<rparr>,
     web_form = [''username'' \<mapsto> [username], ''password'' \<mapsto> [password], ''next'' \<mapsto> [next]],
     web_form_error = None, web_header = \<lambda>_. [], web_csrf = None, web_flash = None, web_upload = None\<rparr>"

text \<open>A browser that takes the backslash for a slash leaves the host after this login.\<close>

definition backslash_host :: string where
  "backslash_host = CHR 0x5C # ''evil.example''"

theorem login_redirects_witness:
  "\<exists>cookies w'. login ''t'' (login_request ''admin'' ''pw'' (''/admin/../'' @ backslash_host)) (world_of empty_database) =
       (Reply (Redirect cookies (''/'' @ backslash_host)), w') \<and>
     session_granted (Reply (Redirect cookies (''/'' @ backslash_host))) \<noteq> None"
proof -
  let ?r = "login_request ''admin'' ''pw'' (''/admin/../'' @ backslash_host)" and ?w = "world_of empty_database"
  have "case fst (login ''t'' ?r ?w) of Reply (Redirect cookies loc) \<Rightarrow>
      session_granted (Reply (Redirect cookies loc)) \<noteq> None \<and> loc \<noteq> ''/admin'' | _ \<Rightarrow> False" by code_simp
  then obtain cookies loc w' where run: "login ''t'' ?r ?w = (Reply (Redirect cookies loc), w')"
      "session_granted (Reply (Redirect cookies loc)) \<noteq> None" "loc \<noteq> ''/admin''"
    by (cases "login ''t'' ?r ?w") (auto split: reply.splits view.splits)
  have "location (safeAdminRedirectPath (FormValue ?r ''next'')) = ''/'' @ backslash_host" by code_simp
  with login_redirects [OF run(1)] run show ?thesis by (auto simp: Let_def)
qed

theorem login_decides_witness:
  "\<exists>sid. session_granted (fst (login ''t'' (login_request ''op@x.org'' ''secret'' []) (world_of account_database))) = Some sid \<and>
     session_granted (fst (login ''t'' (login_request ''op@x.org'' ''other'' []) (world_of account_database))) = None"
proof -
  let ?w = "world_of account_database" and ?u = "hd (users account_database)" and ?r = "hd (roles account_database)"
  have schema: "account_schema (db ?w)" by code_simp
  have trim: "TrimSpace ''op@x.org'' = ''op@x.org''" by code_simp
  have f: "formField (login_request ''op@x.org'' pw []) ''username'' = ''op@x.org''"
      "FormValue (login_request ''op@x.org'' pw []) ''password'' = pw"
      "login_attempt (login_request ''op@x.org'' pw [])" for pw
    by (simp_all add: formField_def FormValue_def login_request_def trim login_attempt_def hasCSRFCookie_def)
  have svc: "svc_username (auth ?w) = ''admin''" by (simp add: world_of_def NewService_def NewServiceWithPermissions_def)
  have "may_log_in (env ?w) (db ?w) ''t'' ''op@x.org'' ''secret'' ?u ?r"
    by (simp add: may_log_in_def account_database_def email_key_def by_id_def VerifyPassword_def sample_env_def)
  moreover have "PermissionAdminRead \<in> set (role_permissions ?r)"
    by (simp add: account_database_def PermissionAdminRead_def)
  ultimately have ok: "entitled ?w ''t'' ''op@x.org'' ''secret'' (user_email ?u) (role_permissions ?r)"
    using svc by (auto simp: entitled_def)
  have bad: "\<not> entitled ?w ''t'' ''op@x.org'' ''other'' name perms" for name perms
    using svc by (auto simp: entitled_def may_log_in_def account_database_def email_key_def by_id_def
        VerifyPassword_def sample_env_def)
  note decides = login_decides [OF _ schema, THEN answersD]
  let ?r = "login_request ''op@x.org'' ''secret'' []"
  have "login_attempt ?r \<and> (\<exists>name perms. entitled ?w ''t'' (formField ?r ''username'') (FormValue ?r ''password'') name perms)"
    unfolding f using ok f(3) by blast
  from decides [of "''t''" ?r, unfolded if_P [OF this]]
  have "\<exists>sid. session_granted (fst (login ''t'' ?r ?w)) = Some sid" by (auto simp: session_opened_def)
  moreover have "session_granted (fst (login ''t'' (login_request ''op@x.org'' ''other'' []) ?w)) = None"
    using decides [of "''t''" "login_request ''op@x.org'' ''other'' []"] bad by (auto simp: f)
  ultimately show ?thesis by blast
qed

text \<open>
  Signing out ends the session of the cookie. A browser with a token must show it; without one, any site
  can sign its user out.
\<close>

lemma logout_ends:
  "answers (logout r) w (\<lambda>ans w'. same_state w w' \<and>
     (if req_method (base r) = ''POST'' \<and> (hasCSRFCookie r \<longrightarrow> csrfTokenMatches r)
      then current_session (base r) w' = None \<and> DropSession \<in> set (cookies_of ans) else auth w' = auth w))"
  by (auto simp: logout_def hp redirect_def answers_def answer_def same_state_def Logout_def current_session_def
      sessionFromRequest_def auth_Authenticate_def method_not_allowed_def split: option.splits)

end
