(* ===== verification/Dashboard.thy ===== *)
theory Dashboard
  imports Web Commands Policies Downloads EnrollmentRoutes
begin

text \<open>
  The forms of the administration dashboard (\<open>dashboard_groups.go\<close>, \<open>dashboard_roles.go\<close>,
  \<open>dashboard_users.go\<close>, \<open>dashboard_commands.go\<close>, \<open>dashboard_policy.go\<close> and \<open>dashboard_device.go\<close> under
  \<open>admin/http\<close>): a form is checked, handed to the store, noted in the audit log and answered with a
  redirect that carries a message.
\<close>

section \<open>The dashboard\<close>

text \<open>
  The struct \<open>dashboard\<close> with its stores is the world; here are its settings, and the library functions
  its handlers call that are not modelled: the texts of driver errors, \<open>json.Unmarshal\<close> into a list of
  strings and into an object (\<open>None\<close> inside for null), \<open>time.ParseInLocation\<close> and \<open>time.Parse\<close> by layout, a time in JSON, \<open>url.Parse\<close>
  and \<open>URL.String\<close>, \<open>qrcode.Encode\<close>, the types of \<open>mime\<close> and of \<open>http.DetectContentType\<close>, and the commands
  of the plugins.
\<close>

record dashboard =
  TenantID :: string
  ServerPublicURL :: string
  driver_text :: "goerr \<Rightarrow> string"
  json_strings :: "string \<Rightarrow> string list option"
  json_object :: "string \<Rightarrow> obj option option"
  time_parse :: "string \<Rightarrow> string \<Rightarrow> int option"
  time_json :: "int \<Rightarrow> string"
  url_parse :: "string \<Rightarrow> url option"
  url_text :: "url \<Rightarrow> string"
  qr_encode :: "string \<Rightarrow> string option"
  type_by_extension :: "string \<Rightarrow> string"
  detect_content_type :: "string \<Rightarrow> string"
  plugin_command :: "session \<Rightarrow> string \<Rightarrow> bool"

definition form_error :: "dashboard \<Rightarrow> string \<Rightarrow> goerr \<Rightarrow> view handler" where
  "form_error d path e = redirectError path (error_text (driver_text d) e)"

definition page_error :: "dashboard \<Rightarrow> web_request \<Rightarrow> session \<Rightarrow> string \<Rightarrow> goerr \<Rightarrow> view handler" where
  "page_error d r ses title e = renderPageError r ses title (error_text (driver_text d) e)"

text \<open>The record of a detail page, under \<open>/admin/\<close> and the name of its kind.\<close>

definition item_path :: "string \<Rightarrow> string \<Rightarrow> string" where
  "item_path kind i = ''/admin/'' @ kind @ ''/'' @ i"

definition status_details :: "'a record_base_scheme \<Rightarrow> obj" where
  "status_details r = [(''status'', JStr (rec_status r))]"

section \<open>Groups\<close>

definition createGroup :: "dashboard \<Rightarrow> web_request \<Rightarrow> view handler" where
  "createGroup d r = requirePostWrite r ''Groups'' (
     if web_form_error r \<noteq> None then redirectError ''/admin/groups'' ''invalid form''
     else try_else (CreateGroup (TenantID d) (formField r ''name'')) (form_error d ''/admin/groups'') (\<lambda>g.
       recordAudit (TenantID d) r ''create'' ''groups'' (rec_id g) [(''name'', JStr (group_name g))]
         (redirectOK ''/admin/groups'' ''group created'')))"

definition updateGroup :: "dashboard \<Rightarrow> web_request \<Rightarrow> view handler" where
  "updateGroup d r = requirePostWrite r ''Groups'' (
     let i = PathValue r ''id'' in
     if web_form_error r \<noteq> None then redirectError (item_path ''groups'' i) ''invalid form''
     else try_else (UpdateGroup (TenantID d) i (formField r ''name'')) (form_error d (item_path ''groups'' i)) (\<lambda>g.
       recordAudit (TenantID d) r ''update'' ''groups'' (rec_id g) [(''name'', JStr (group_name g))]
         (redirectOK (item_path ''groups'' (rec_id g)) ''group updated'')))"

definition retireGroup :: "dashboard \<Rightarrow> web_request \<Rightarrow> view handler" where
  "retireGroup d r = requirePostWrite r ''Groups'' (
     try_else (RetireGroup (TenantID d) (PathValue r ''id'')) (form_error d ''/admin/groups'') (\<lambda>g.
       recordAudit (TenantID d) r ''retire'' ''groups'' (rec_id g) (status_details g)
         (redirectOK ''/admin/groups'' ''group retired'')))"

section \<open>Roles\<close>

text \<open>One value may be a JSON list of permissions.\<close>

definition roleUpsertFromForm :: "dashboard \<Rightarrow> web_request \<Rightarrow> goerr + role_upsert" where
  "roleUpsertFromForm d r =
     (case web_form_error r of
        Some msg \<Rightarrow> Inl (ErrText msg)
      | None \<Rightarrow>
          let values = (case web_form r ''permissions'' of None \<Rightarrow> [] | Some vs \<Rightarrow> vs);
              raw = formField r ''permissions'';
              upsert = (\<lambda>perms. \<lparr>ru_name = formField r ''name'', ru_permissions = perms\<rparr>)
          in if length values > 1 then Inr (upsert values)
             else if raw = [] then Inr (upsert [])
             else if prefix ''['' raw then
               (case json_strings d raw of None \<Rightarrow> Inl (ErrText ''invalid permissions json'') | Some ps \<Rightarrow> Inr (upsert ps))
             else Inr (upsert [raw]))"

definition role_details :: "role_row \<Rightarrow> obj" where
  "role_details x = [(''name'', JStr (role_name x)), (''permissions'', JArr (map JStr (role_permissions x)))]"

definition createRole :: "dashboard \<Rightarrow> web_request \<Rightarrow> view handler" where
  "createRole d r = requirePostWrite r ''Roles'' (
     case roleUpsertFromForm d r of
       Inl e \<Rightarrow> form_error d ''/admin/roles'' e
     | Inr req \<Rightarrow> try_else (CreateRole (TenantID d) req) (form_error d ''/admin/roles'') (\<lambda>x.
         recordAudit (TenantID d) r ''create'' ''roles'' (rec_id x) (role_details x)
           (redirectOK ''/admin/roles'' ''role created'')))"

definition updateRole :: "dashboard \<Rightarrow> web_request \<Rightarrow> view handler" where
  "updateRole d r = requirePostWrite r ''Roles'' (
     let path = item_path ''roles'' (PathValue r ''id'') in
     case roleUpsertFromForm d r of
       Inl e \<Rightarrow> form_error d path e
     | Inr req \<Rightarrow> try_else (UpdateRole (TenantID d) (PathValue r ''id'') req) (form_error d path) (\<lambda>x.
         if rec_status x \<noteq> ''active'' then redirectError path ''conflict''
         else recordAudit (TenantID d) r ''update'' ''roles'' (rec_id x) (role_details x)
           (redirectOK (item_path ''roles'' (rec_id x)) ''role updated'')))"

definition retireRole :: "dashboard \<Rightarrow> web_request \<Rightarrow> view handler" where
  "retireRole d r = requirePostWrite r ''Roles'' (
     try_else (RetireRole (TenantID d) (PathValue r ''id'')) (form_error d (item_path ''roles'' (PathValue r ''id''))) (\<lambda>x.
       recordAudit (TenantID d) r ''retire'' ''roles'' (rec_id x) (status_details x)
         (redirectOK ''/admin/roles'' ''role retired'')))"

section \<open>Users\<close>

definition user_details :: "user \<Rightarrow> obj" where
  "user_details u = [(''email'', JStr (us_email u)), (''roleId'', JStr (us_role_id u))]"

definition user_from_form :: "web_request \<Rightarrow> string \<Rightarrow> user_upsert" where
  "user_from_form r hash =
     \<lparr>uu_email = formField r ''email'', uu_password_hash = hash, uu_role_id = formField r ''roleId''\<rparr>"

definition createUser :: "dashboard \<Rightarrow> web_request \<Rightarrow> view handler" where
  "createUser d r = requirePostWrite r ''Users'' (
     if web_form_error r \<noteq> None then redirectError ''/admin/users'' ''invalid form''
     else try_else (HashPassword (FormValue r ''password'')) (form_error d ''/admin/users'') (\<lambda>hash.
       try_else (CreateUser (TenantID d) (user_from_form r hash)) (form_error d ''/admin/users'') (\<lambda>u.
       recordAudit (TenantID d) r ''create'' ''users'' (rec_id u) (user_details u)
         (redirectOK ''/admin/users'' ''user created''))))"

definition updateUser :: "dashboard \<Rightarrow> web_request \<Rightarrow> view handler" where
  "updateUser d r = requirePostWrite r ''Users'' (
     let i = PathValue r ''id''; path = item_path ''users'' i in
     if web_form_error r \<noteq> None then redirectError path ''invalid form''
     else try_else (HashPassword (FormValue r ''password'')) (form_error d path) (\<lambda>hash.
       try_else (UpdateUser (TenantID d) i (user_from_form r hash)) (form_error d path) (\<lambda>u.
       if rec_status u \<noteq> ''active'' then redirectError path ''conflict''
       else recordAudit (TenantID d) r ''update'' ''users'' (rec_id u) (user_details u)
         (redirectOK (item_path ''users'' (rec_id u)) ''user updated''))))"

definition retireUser :: "dashboard \<Rightarrow> web_request \<Rightarrow> view handler" where
  "retireUser d r = requirePostWrite r ''Users'' (
     try_else (RetireUser (TenantID d) (PathValue r ''id'')) (form_error d (item_path ''users'' (PathValue r ''id''))) (\<lambda>u.
       recordAudit (TenantID d) r ''retire'' ''users'' (rec_id u) (status_details u)
         (redirectOK ''/admin/users'' ''user retired'')))"

section \<open>Commands\<close>

definition isAllowedCommandType :: "dashboard \<Rightarrow> session \<Rightarrow> string \<Rightarrow> bool" where
  "isAllowedCommandType d ses raw =
     (let commandType = TrimSpace raw in
      if commandType = [] then False
      else if IsBuiltinType commandType then True
      else plugin_command d ses commandType)"

text \<open>The expiry in one of three layouts, tried in this order.\<close>

definition parse_expiry :: "dashboard \<Rightarrow> string \<Rightarrow> int option" where
  "parse_expiry d raw =
     (case time_parse d ''2006-01-02T15:04'' raw of
        Some t \<Rightarrow> Some t
      | None \<Rightarrow> (case time_parse d ''2006-01-02T15:04:05'' raw of
            Some t \<Rightarrow> Some t
          | None \<Rightarrow> time_parse d ''2006-01-02T15:04:05Z07:00'' raw))"

definition form_payload :: "dashboard \<Rightarrow> string \<Rightarrow> goerr + obj option" where
  "form_payload d raw =
     (if raw = [] then Inr None
      else case json_object d raw of None \<Rightarrow> Inl (ErrText ''invalid payload json'') | Some p \<Rightarrow> Inr p)"

definition form_expiry :: "dashboard \<Rightarrow> string \<Rightarrow> goerr + int option" where
  "form_expiry d raw =
     (if raw = [] then Inr None
      else case parse_expiry d raw of None \<Rightarrow> Inl (ErrText ''invalid expiry'') | Some t \<Rightarrow> Inr (Some t))"

definition commandUpsertFromForm :: "dashboard \<Rightarrow> (string \<Rightarrow> bool) \<Rightarrow> web_request \<Rightarrow> goerr + command_upsert" where
  "commandUpsertFromForm d allowType r =
     (case web_form_error r of
        Some msg \<Rightarrow> Inl (ErrText msg)
      | None \<Rightarrow>
          let commandType = formField r ''type''; rawTarget = formField r ''targetType'';
              targetType = (if rawTarget = [] then TargetDevice else rawTarget)
          in if commandType = [] then Inl (ErrText ''command type is required'')
             else if \<not> allowType commandType then Inl (ErrText ''unsupported command type'')
             else case form_payload d (formField r ''payload'') of
                 Inl e \<Rightarrow> Inl e
               | Inr payload \<Rightarrow> (case form_expiry d (formField r ''expiresAt'') of
                     Inl e \<Rightarrow> Inl e
                   | Inr expires \<Rightarrow>
                       if targetType \<noteq> TargetDevice \<and> targetType \<noteq> TargetGroup
                       then Inl (ErrText ''broadcast commands are disabled'')
                       else Inr \<lparr>cu_type = commandType, cu_payload = payload, cu_expires = expires,
                              cu_target = \<lparr>tg_type = targetType, tg_device = formField r ''targetDeviceId'',
                                tg_group = formField r ''targetGroupId''\<rparr>\<rparr>))"

definition command_details :: "command_row \<Rightarrow> obj" where
  "command_details c = [(''type'', JStr (cmd_type c)), (''status'', JStr (cmd_status c)), (''deviceId'', JStr (cmd_device c))]"

fun record_commands :: "string \<Rightarrow> web_request \<Rightarrow> command_row list \<Rightarrow> view handler \<Rightarrow> view handler" where
  "record_commands tn r [] h = h"
| "record_commands tn r (c # cs) h =
     recordAudit tn r ''create'' ''commands'' (cmd_id c) (command_details c) (record_commands tn r cs h)"

definition createCommand :: "dashboard \<Rightarrow> web_request \<Rightarrow> view handler" where
  "createCommand d r = requirePostWrite r ''Commands'' (web_session r (\<lambda>ses.
     case commandUpsertFromForm d (isAllowedCommandType d ses) r of
       Inl e \<Rightarrow> form_error d ''/admin/commands'' e
     | Inr req \<Rightarrow> try_else (Enqueue (TenantID d) req) (form_error d ''/admin/commands'') (\<lambda>created.
         record_commands (TenantID d) r created
           (redirectOK ''/admin/commands'' (FormatInt (int (length created)) @ '' command(s) queued'')))))"

section \<open>Policies\<close>

text \<open>\<open>strings.Split\<close> at line feeds.\<close>

fun split_lines :: "string \<Rightarrow> string list" where
  "split_lines [] = [[]]"
| "split_lines (c # cs) =
     (if c = CHR 0x0A then [] # split_lines cs
      else case split_lines cs of [] \<Rightarrow> [[c]] | line # rest \<Rightarrow> (c # line) # rest)"

definition splitFormValues :: "string list \<Rightarrow> string list" where
  "splitFormValues values = filter (\<lambda>v. v \<noteq> []) (map TrimSpace values)"

definition splitLines :: "string \<Rightarrow> string list" where
  "splitLines value = filter (\<lambda>line. line \<noteq> []) (map TrimSpace (split_lines value))"

text \<open>The restrictions a form can set; the dashboard never sets a hash.\<close>

definition form_restrictions :: "web_request \<Rightarrow> restrictions_payload" where
  "form_restrictions r =
     \<lparr>rp_allow = splitLines (FormValue r ''allowPackages''), rp_block = splitLines (FormValue r ''blockPackages''),
      rp_suspend = splitLines (FormValue r ''suspendPackages''),
      rp_keep_screen_on = hasFormField r ''kioskKeepScreenOn'',
      rp_stay_awake = hasFormField r ''kioskStayAwakeWhilePluggedIn'',
      rp_unlock_on_boot = hasFormField r ''kioskUnlockOnBoot'',
      rp_passcode = formField r ''kioskExitPasscode'', rp_passcode_hash = []\<rparr>"

definition form_passcode_configured :: "json \<Rightarrow> bool" where
  "form_passcode_configured raw =
     (if raw = JNull then False
      else case decode_restrictions raw of (p, ok) \<Rightarrow> if \<not> ok then False else TrimSpace (rp_passcode p) \<noteq> [])"

definition policyUpsertFromForm :: "web_request \<Rightarrow> policy_row option \<Rightarrow> goerr + policy_upsert" where
  "policyUpsertFromForm r existing =
     (case web_form_error r of
        Some msg \<Rightarrow> Inl (ErrText msg)
      | None \<Rightarrow>
          let raw = encode_restrictions (form_restrictions r); kiosk = hasFormField r ''kioskMode''
          in if kiosk \<and> \<not> form_passcode_configured raw \<and>
                (case existing of None \<Rightarrow> True | Some p \<Rightarrow> \<not> pol_kiosk_mode p)
             then Inl (ErrText ''kiosk policies require restrictions.kioskExitPasscode'')
             else Inr \<lparr>pu_name = formField r ''name'', pu_version = 0, pu_kiosk_mode = kiosk,
                    pu_kiosk_app = formField r ''kioskAppPackage'', pu_restrictions = Some raw\<rparr>)"

definition policy_details :: "policy_row \<Rightarrow> obj" where
  "policy_details p = [(''name'', JStr (pol_name p)), (''version'', JNum (FormatInt (pol_version p)))]"

definition createPolicy :: "dashboard \<Rightarrow> web_request \<Rightarrow> view handler" where
  "createPolicy d r = requirePostWrite r ''Policies'' (
     case policyUpsertFromForm r None of
       Inl e \<Rightarrow> form_error d ''/admin/policies'' e
     | Inr req \<Rightarrow> try_else (CreatePolicy (TenantID d) req) (form_error d ''/admin/policies'') (\<lambda>p.
         recordAudit (TenantID d) r ''create'' ''policies'' (rec_id p) (policy_details p)
           (redirectOK ''/admin/policies'' ''policy created'')))"

definition updatePolicy :: "dashboard \<Rightarrow> web_request \<Rightarrow> view handler" where
  "updatePolicy d r = requirePostWrite r ''Policies'' (
     let i = PathValue r ''id''; path = item_path ''policies'' i in
     try_else (GetPolicy (TenantID d) i) (form_error d path) (\<lambda>existing.
     case policyUpsertFromForm r (Some existing) of
       Inl e \<Rightarrow> form_error d path e
     | Inr req \<Rightarrow> try_else (UpdatePolicy (TenantID d) i req) (form_error d path) (\<lambda>p.
         recordAudit (TenantID d) r ''update'' ''policies'' (rec_id p) (policy_details p)
           (redirectOK (item_path ''policies'' (rec_id p)) ''policy updated''))))"

definition retirePolicy :: "dashboard \<Rightarrow> web_request \<Rightarrow> view handler" where
  "retirePolicy d r = requirePostWrite r ''Policies'' (
     try_else (RetirePolicy (TenantID d) (PathValue r ''id'')) (form_error d (item_path ''policies'' (PathValue r ''id''))) (\<lambda>p.
       recordAudit (TenantID d) r ''retire'' ''policies'' (rec_id p) (status_details p)
         (redirectOK (item_path ''policies'' (rec_id p)) ''policy retired'')))"

text \<open>
  The switches of the policy's page: what is bound is unbound, and the other way round. The three
  handlers are the same around another kind of binding.
\<close>

definition toggle_binding ::
  "dashboard \<Rightarrow> (string \<Rightarrow> binding_row action) \<Rightarrow> (string \<Rightarrow> unit action) \<Rightarrow> (string \<Rightarrow> binding_row action) \<Rightarrow>
     string \<Rightarrow> string \<Rightarrow> string \<Rightarrow> web_request \<Rightarrow> view handler" where
  "toggle_binding d get remove add key label resource r = requirePostWrite r ''Policy Detail'' (
     let pid = PathValue r ''id''; item = PathValue r key; path = item_path ''policies'' pid;
         finish = (\<lambda>active. recordAudit (TenantID d) r ''update'' resource (pid @ '':'' @ item)
           [(''policyId'', JStr pid), (key, JStr item), (''enabled'', JBool (\<not> active))]
           (redirectOK path (label @ (if active then '' disabled'' else '' enabled''))));
         enable = try_else (add item) (form_error d path) (\<lambda>_. finish False)
     in if web_form_error r \<noteq> None then redirectError path ''invalid form''
        else try_else (get item)
          (\<lambda>e. if e \<noteq> ErrNotFound then form_error d path e else enable)
          (\<lambda>b. if rec_status b = ''active''
               then try_else (remove item) (form_error d path) (\<lambda>_. finish True)
               else enable))"

definition togglePolicyApp :: "dashboard \<Rightarrow> web_request \<Rightarrow> view handler" where
  "togglePolicyApp d r = toggle_binding d (GetPolicyApp (TenantID d) (PathValue r ''id''))
     (RemovePolicyApp (TenantID d) (PathValue r ''id'')) (AddPolicyApp (TenantID d) (PathValue r ''id''))
     ''appId'' ''app'' ''policy_apps'' r"

definition togglePolicyCertificate :: "dashboard \<Rightarrow> web_request \<Rightarrow> view handler" where
  "togglePolicyCertificate d r = toggle_binding d (GetPolicyCertificate (TenantID d) (PathValue r ''id''))
     (RemovePolicyCertificate (TenantID d) (PathValue r ''id'')) (AddPolicyCertificate (TenantID d) (PathValue r ''id''))
     ''certificateId'' ''certificate'' ''policy_certificates'' r"

definition togglePolicyManagedFile :: "dashboard \<Rightarrow> web_request \<Rightarrow> view handler" where
  "togglePolicyManagedFile d r = toggle_binding d (GetPolicyManagedFile (TenantID d) (PathValue r ''id''))
     (RemovePolicyManagedFile (TenantID d) (PathValue r ''id'')) (AddPolicyManagedFile (TenantID d) (PathValue r ''id''))
     ''managedFileId'' ''managed file'' ''policy_managed_files'' r"

section \<open>Devices\<close>

definition hashPlainValue :: "(string \<Rightarrow> string) \<Rightarrow> string \<Rightarrow> string" where
  "hashPlainValue sha value = (if TrimSpace value = [] then [] else HashToken sha (TrimSpace value))"

definition deviceUpsertFromForm :: "(string \<Rightarrow> string) \<Rightarrow> web_request \<Rightarrow> goerr + device_upsert" where
  "deviceUpsertFromForm sha r =
     (case web_form_error r of
        Some msg \<Rightarrow> Inl (ErrText msg)
      | None \<Rightarrow> Inr \<lparr>du_name = formField r ''name'', du_secret_hash = hashPlainValue sha (FormValue r ''deviceSecret''),
          du_policy_id = formField r ''policyId'',
          du_group_ids = splitFormValues (case web_form r ''groupIds'' of None \<Rightarrow> [] | Some vs \<Rightarrow> vs)\<rparr>)"

definition firstPolicyID :: "string option \<Rightarrow> string" where
  "firstPolicyID p = (case p of None \<Rightarrow> [] | Some i \<Rightarrow> TrimSpace i)"

definition device_details :: "device \<Rightarrow> obj" where
  "device_details v = [(''name'', JStr (dv_name v)), (''deviceId'', JStr (rec_id v)),
     (''policyId'', JStr (firstPolicyID (dv_policy_id v)))]"

text \<open>A device without a secret gets the hash of a secret nobody is shown.\<close>

definition given_secret :: "(string \<Rightarrow> string) \<Rightarrow> string \<Rightarrow> string action" where
  "given_secret sha hash =
     (if TrimSpace hash = [] then bindE NewTokenSecret (\<lambda>secret. returnE (HashToken sha secret)) else returnE hash)"

definition createDevice :: "dashboard \<Rightarrow> web_request \<Rightarrow> view handler" where
  "createDevice d r = requirePostWrite r ''Devices'' (
     try_else (asks sha256) (form_error d ''/admin/devices'') (\<lambda>sha.
     case deviceUpsertFromForm sha r of
       Inl e \<Rightarrow> form_error d ''/admin/devices'' e
     | Inr req \<Rightarrow>
         if TrimSpace (du_policy_id req) = [] then redirectError ''/admin/devices'' ''policy is required''
         else try_else (given_secret sha (du_secret_hash req)) (form_error d ''/admin/devices'') (\<lambda>hash.
           try_else (CreateDevice (TenantID d) (req\<lparr>du_secret_hash := hash\<rparr>)) (form_error d ''/admin/devices'') (\<lambda>v.
           recordAudit (TenantID d) r ''create'' ''devices'' (rec_id v)
             (device_details v @ [(''groupIds'', JArr (map JStr (du_group_ids req)))])
             (redirectOK ''/admin/devices'' ''device created'')))))"

definition updateDevice :: "dashboard \<Rightarrow> web_request \<Rightarrow> view handler" where
  "updateDevice d r = requirePostWrite r ''Devices'' (
     let i = PathValue r ''id''; path = item_path ''devices'' i in
     try_else (asks sha256) (form_error d path) (\<lambda>sha.
     case deviceUpsertFromForm sha r of
       Inl e \<Rightarrow> form_error d path e
     | Inr req \<Rightarrow>
         if TrimSpace (du_policy_id req) = [] then redirectError path ''policy is required''
         else if TrimSpace (du_secret_hash req) \<noteq> [] then redirectError path ''device secret rotation is disabled''
         else try_else (GetDevice (TenantID d) i) (form_error d path) (\<lambda>found.
           if rec_status found = StatusRetired \<or> rec_status found = StatusWiped then redirectError path ''conflict''
           else try_else (UpdateDevice (TenantID d) i req) (form_error d path) (\<lambda>v.
             recordAudit (TenantID d) r ''update'' ''devices'' (rec_id v) (device_details v)
               (redirectOK (item_path ''devices'' (rec_id v)) ''device updated'')))))"

definition retireDevice :: "dashboard \<Rightarrow> web_request \<Rightarrow> view handler" where
  "retireDevice d r = requirePostWrite r ''Devices'' (
     try_else (RetireDevice (TenantID d) (PathValue r ''id'')) (form_error d ''/admin/devices'') (\<lambda>v.
       recordAudit (TenantID d) r ''retire'' ''devices'' (rec_id v) (status_details v)
         (redirectOK ''/admin/devices'' ''device retired'')))"

section \<open>The QR code of a pending device\<close>

record qr_state =
  qs_server :: string
  qs_component :: string
  qs_package_url :: string
  qs_checksum :: string
  qs_device :: string

definition deviceEnrollmentTTL :: int where "deviceEnrollmentTTL = 2 * 60 * 60 * 1000000"

definition valid_url :: "dashboard \<Rightarrow> string \<Rightarrow> string option" where
  "valid_url d value = (case url_parse d value of
      None \<Rightarrow> None
    | Some u \<Rightarrow> if url_scheme u = [] \<or> url_host u = [] then None else Some (url_text d u))"

definition normalizedPublicServerURL :: "dashboard \<Rightarrow> string \<Rightarrow> goerr + string" where
  "normalizedPublicServerURL d raw =
     (let value = TrimSpace raw in
      if value = [] then Inl (ErrText ''server public url is required'')
      else case valid_url d value of
          None \<Rightarrow> Inl (ErrText ''invalid server public url'')
        | Some text \<Rightarrow> Inr (trim_right CHR ''/'' text))"

text \<open>The agent's newest version is that of \<open>Downloads\<close>: the dashboard has a copy of the function.\<close>

definition no_agent :: string where
  "no_agent = ''agent managed app '' @ CHR 0x22 # SeedAgentAppPackage @ CHR 0x22 # '' must have a latest published APK version''"

definition deviceEnrollmentQRState :: "dashboard \<Rightarrow> string \<Rightarrow> qr_state action" where
  "deviceEnrollmentQRState d deviceID =
     (case normalizedPublicServerURL d (ServerPublicURL d) of
        Inl e \<Rightarrow> throwE e
      | Inr serverURL \<Rightarrow>
          bindE (handleE (latestPublishedAgentAppVersion (TenantID d))
             (\<lambda>e. throwE (if e = ErrNotFound then ErrText no_agent else e))) (\<lambda>(item, latest).
          returnE \<lparr>qs_server = serverURL, qs_component = app_package item @ ''/.AdminReceiver'',
            qs_package_url = trim_right CHR ''/'' serverURL @ ''/api/v1/enrollment/agent.apk'',
            qs_checksum = ver_checksum latest, qs_device = deviceID\<rparr>))"

definition buildEnrollmentQRPayload :: "dashboard \<Rightarrow> qr_state \<Rightarrow> string \<Rightarrow> goerr + json" where
  "buildEnrollmentQRPayload d state token =
     (let serverURL = TrimSpace (qs_server state); packageURL = TrimSpace (qs_package_url state);
          checksum = TrimSpace (qs_checksum state); deviceID = TrimSpace (qs_device state) in
      if serverURL = [] \<or> packageURL = [] \<or> checksum = [] \<or> deviceID = []
      then Inl (ErrText ''server url, package url, package checksum, and device id are required'')
      else case valid_url d serverURL of
          None \<Rightarrow> Inl (ErrText ''invalid server url'')
        | Some text \<Rightarrow> Inr (JObj
            [(provisioning ''DEVICE_ADMIN_COMPONENT_NAME'',
                JStr (firstNonEmpty [TrimSpace (qs_component state), default_component])),
             (provisioning ''DEVICE_ADMIN_PACKAGE_DOWNLOAD_LOCATION'', JStr packageURL),
             (provisioning ''DEVICE_ADMIN_PACKAGE_CHECKSUM'', JStr checksum),
             (provisioning ''LEAVE_ALL_SYSTEM_APPS_ENABLED'', JBool True),
             (provisioning ''ADMIN_EXTRAS_BUNDLE'', JObj
                [(''com.xmdm.BASE_URL'', JStr text), (''com.xmdm.ENROLLMENT_TOKEN'', JStr token),
                 (''com.xmdm.DEVICE_ID'', JStr deviceID)])]))"

text \<open>The token is issued before the payload is built; it lives for two hours of the server's clock.\<close>

definition generateEnrollmentQR :: "dashboard \<Rightarrow> qr_state \<Rightarrow> (issued_token \<times> string) action" where
  "generateEnrollmentQR d state =
     bindE now (\<lambda>t.
     bindE (IssueToken (TenantID d) (t + deviceEnrollmentTTL)) (\<lambda>issued.
     case buildEnrollmentQRPayload d state (it_secret issued) of
       Inl e \<Rightarrow> throwE e
     | Inr payload \<Rightarrow> (case qr_encode d (marshal payload) of
         None \<Rightarrow> throwE (ErrText ''content too long to encode'')
       | Some png \<Rightarrow> returnE (issued, marshal payload))))"

definition containsPolicyID :: "policy_row list \<Rightarrow> string \<Rightarrow> bool" where
  "containsPolicyID items i \<longleftrightarrow> list_ex (\<lambda>p. TrimSpace (rec_id p) = TrimSpace i) items"

definition loadPoliciesForSelect :: "string \<Rightarrow> string \<Rightarrow> policy_row list action" where
  "loadPoliciesForSelect tn raw =
     bindE (ListActivePolicies tn) (\<lambda>items.
     let selected = TrimSpace raw in
     if selected = [] \<or> containsPolicyID items selected then returnE items
     else elseE (GetPolicy tn selected)
       (\<lambda>e. if e = ErrNotFound then returnE items else throwE e)
       (\<lambda>found. returnE (found # items)))"

definition loadDeviceDetail :: "string \<Rightarrow> string \<Rightarrow> (device \<times> policy_row list \<times> group_row list) action" where
  "loadDeviceDetail tn i =
     bindE (GetDevice tn i) (\<lambda>found.
     bindE (loadPoliciesForSelect tn (firstPolicyID (dv_policy_id found))) (\<lambda>ps.
     bindE (ListActiveGroups tn) (\<lambda>gs. returnE (found, ps, gs))))"

definition deviceEnrollmentQR :: "dashboard \<Rightarrow> web_request \<Rightarrow> view handler" where
  "deviceEnrollmentQR d r = requirePostWrite r ''Device Detail'' (web_session r (\<lambda>ses.
     let failed = page_error d r ses ''Device Detail'' in
     try_else (loadDeviceDetail (TenantID d) (PathValue r ''id'')) failed (\<lambda>(found, ps, gs).
     if rec_status found \<noteq> StatusPending then failed (ErrText ''device must be pending'')
     else try_else (deviceEnrollmentQRState d (firstNonEmpty [rec_id found, dv_name found])) failed (\<lambda>state.
       try_else (generateEnrollmentQR d state) failed (\<lambda>(issued, payload).
       recordAudit (TenantID d) r ''create'' ''enrollment_tokens'' (tk_id (it_token issued))
         [(''expiresAt'', JStr (time_json d (tk_expires (it_token issued)))),
          (''deviceId'', JStr (firstNonEmpty [rec_id found, dv_name found]))]
         (render_callout r ses ''Device Detail'' ''QR generated'' [] payload))))))"

end
