(* ===== verification/DashboardAssets.thy ===== *)
theory DashboardAssets
  imports Dashboard AssetRoutes
begin

text \<open>
  The uploads and downloads of the dashboard (\<open>dashboard_certificates.go\<close>, \<open>dashboard_managed_files.go\<close> and
  \<open>dashboard_app.go\<close> under \<open>admin/http\<close>): the file of a form is put into the object store under a fresh key,
  recorded, and taken out again when a later step fails.
\<close>

section \<open>Names\<close>

text \<open>\<open>filepath.Base\<close> and \<open>filepath.Ext\<close>.\<close>

definition Base :: "string \<Rightarrow> string" where
  "Base path =
     (if path = [] then ''.''
      else let p = trim_right CHR ''/'' path; base = rev (takeWhile (\<lambda>c. c \<noteq> CHR ''/'') (rev p))
           in if base = [] then ''/'' else base)"

definition Ext :: "string \<Rightarrow> string" where
  "Ext path =
     (let base = rev (takeWhile (\<lambda>c. c \<noteq> CHR ''/'') (rev path)) in
      if CHR ''.'' \<in> set base then CHR ''.'' # rev (takeWhile (\<lambda>c. c \<noteq> CHR ''.'') (rev base)) else [])"

definition underscored :: "char set \<Rightarrow> string \<Rightarrow> string" where
  "underscored cs s = map (\<lambda>c. if c \<in> cs then CHR ''_'' else c) s"

abbreviation slashes :: "char set" where "slashes \<equiv> {CHR ''/'', CHR 0x5C}"

definition certificateStorageKey :: "string \<Rightarrow> string \<Rightarrow> string action" where
  "certificateStorageKey name filename =
     (let b0 = TrimSpace (Base filename); b1 = (if b0 = [] \<or> b0 = ''.'' then TrimSpace name else b0);
          b2 = (if b1 = [] then ''certificate'' else b1)
      in bindE NewString (\<lambda>u. returnE (''artifacts/certificates/'' @ u @ ''/'' @ underscored slashes b2)))"

definition managed_base :: "string \<Rightarrow> string \<Rightarrow> string" where
  "managed_base path filename =
     (let b0 = TrimSpace (Base filename); b1 = (if b0 = [] \<or> b0 = ''.'' then TrimSpace (Base path) else b0);
          b2 = (if b1 = [] \<or> b1 = ''.'' then ''managed-file'' else b1)
      in underscored slashes b2)"

definition managedFileName :: "string \<Rightarrow> string \<Rightarrow> string action" where
  "managedFileName path filename =
     bindE (asks sha256) (\<lambda>sha. bindE NewString (\<lambda>u.
     returnE (''managed-'' @ managed_base path filename @ ''-'' @ take 8 (SHA256Base64URL sha path) @ ''-'' @ take 8 u)))"

definition managedFileStorageKey :: "string \<Rightarrow> string \<Rightarrow> string action" where
  "managedFileStorageKey path filename =
     bindE NewString (\<lambda>u. returnE (''artifacts/managed-files/'' @ u @ ''/'' @ managed_base path filename))"

definition sanitizeArtifactName :: "string \<Rightarrow> string" where
  "sanitizeArtifactName value =
     (let v = underscored (slashes \<union> {CHR '' ''}) (Base (TrimSpace value))
      in if v = ''.'' \<or> v = [] then ''artifact.apk'' else v)"

definition detected_type :: "dashboard \<Rightarrow> string \<Rightarrow> string" where
  "detected_type d content =
     (if detect_content_type d content \<noteq> [] then detect_content_type d content else ''application/octet-stream'')"

definition certificateMimeType :: "dashboard \<Rightarrow> string \<Rightarrow> string \<Rightarrow> string" where
  "certificateMimeType d filename content =
     (let ext = ToLower (Ext filename) in
      if ext = ''.pem'' then ''application/x-pem-file''
      else if ext = ''.cer'' \<or> ext = ''.crt'' \<or> ext = ''.der'' then ''application/x-x509-ca-cert''
      else if ext = ''.p12'' \<or> ext = ''.pfx'' then ''application/x-pkcs12''
      else if ext \<noteq> [] \<and> type_by_extension d ext \<noteq> [] then type_by_extension d ext
      else detected_type d content)"

definition managedFileMimeType :: "dashboard \<Rightarrow> string \<Rightarrow> string \<Rightarrow> string" where
  "managedFileMimeType d filename content =
     (let ext = ToLower (Ext filename) in
      if ext \<noteq> [] \<and> type_by_extension d ext \<noteq> [] then type_by_extension d ext else detected_type d content)"

section \<open>The uploaded file\<close>

definition uploadedContent :: "web_request \<Rightarrow> string action" where
  "uploadedContent r =
     (case web_upload r of
        None \<Rightarrow> throwE (ErrText ''file is required'')
      | Some (_, Inl msg) \<Rightarrow> throwE (ErrText msg)
      | Some (_, Inr content) \<Rightarrow> if content = [] then throwE (ErrText ''file is empty'') else returnE content)"

definition uploadedFileName :: "web_request \<Rightarrow> string" where
  "uploadedFileName r = (case web_upload r of None \<Rightarrow> [] | Some (name, _) \<Rightarrow> TrimSpace name)"

definition parsed_form :: "web_request \<Rightarrow> unit action" where
  "parsed_form r = (case web_form_error r of Some msg \<Rightarrow> throwE (ErrText msg) | None \<Rightarrow> returnE ())"

definition certificateUpsertFromMultipart :: "dashboard \<Rightarrow> web_request \<Rightarrow> (asset_upsert \<times> string) action" where
  "certificateUpsertFromMultipart d r =
     bindE (parsed_form r) (\<lambda>_.
     bindE (uploadedContent r) (\<lambda>content.
     let name = formField r ''name''; filename = uploadedFileName r in
     if name = [] then throwE (ErrText ''name is required'')
     else bindE (certificateStorageKey name filename) (\<lambda>key. bindE (asks sha256) (\<lambda>sha.
       returnE (\<lparr>su_name = name, su_storage_key = key, su_checksum = SHA256Base64URL sha content,
         su_size = int (length content), su_mime = certificateMimeType d filename content\<rparr>, content)))))"

definition managedFileUpsertFromMultipart ::
  "dashboard \<Rightarrow> web_request \<Rightarrow> (asset_upsert \<times> managed_upsert \<times> string) action" where
  "managedFileUpsertFromMultipart d r =
     bindE (parsed_form r) (\<lambda>_.
     bindE (uploadedContent r) (\<lambda>content.
     let path = formField r ''path''; filename = uploadedFileName r in
     if path = [] then throwE (ErrText ''path is required'')
     else bindE (managedFileName path filename) (\<lambda>name. bindE (managedFileStorageKey path filename) (\<lambda>key.
       bindE (asks sha256) (\<lambda>sha.
       returnE (\<lparr>su_name = name, su_storage_key = key, su_checksum = SHA256Base64URL sha content,
           su_size = int (length content), su_mime = managedFileMimeType d filename content\<rparr>,
         \<lparr>mu_file_id = [], mu_path = path, mu_replace = hasFormField r ''replaceVariables''\<rparr>, content))))))"

section \<open>Certificates and managed files\<close>

text \<open>A call whose error is ignored.\<close>

definition ignoring :: "'b action \<Rightarrow> view handler \<Rightarrow> view handler" where
  "ignoring m h = try_else m (\<lambda>_. h) (\<lambda>_. h)"

definition uploaded_details :: "certificate_view \<Rightarrow> obj" where
  "uploaded_details c = [(''name'', JStr (cert_name (cv_row c))), (''checksum'', JStr (cert_checksum (cv_row c))),
     (''artifactId'', JStr (cert_artifact_id (cv_row c)))]"

definition createCertificate :: "dashboard \<Rightarrow> web_request \<Rightarrow> view handler" where
  "createCertificate d r = requirePostWrite r ''Certificates'' (
     let failed = form_error d ''/admin/certificates'' in
     try_else (certificateUpsertFromMultipart d r) failed (\<lambda>(req, content).
     try_else (asks sha256) failed (\<lambda>sha.
     if content \<noteq> [] \<and> SHA256Base64URL sha content \<noteq> su_checksum req then redirectError ''/admin/certificates'' ''checksum mismatch''
     else try_else (store_content (su_storage_key req) content) failed (\<lambda>_.
       try_else (CreateCertificate (TenantID d) req) (\<lambda>e. ignoring (object_Delete (su_storage_key req)) (failed e)) (\<lambda>c.
       recordAudit (TenantID d) r ''create'' ''certificates'' (rec_id (cv_row c)) (uploaded_details c)
         (redirectOK ''/admin/certificates'' ''certificate uploaded''))))))"

definition retireCertificate :: "dashboard \<Rightarrow> web_request \<Rightarrow> view handler" where
  "retireCertificate d r = requirePostWrite r ''Certificates'' (
     try_else (RetireCertificate (TenantID d) (PathValue r ''id'')) (form_error d ''/admin/certificates'') (\<lambda>c.
       recordAudit (TenantID d) r ''retire'' ''certificates'' (rec_id (cv_row c)) (status_details (cv_row c))
         (redirectOK ''/admin/certificates'' ''certificate retired'')))"

definition managed_details :: "managed_view \<Rightarrow> file_view \<Rightarrow> obj" where
  "managed_details m f = [(''fileId'', JStr (mf_file_id (mv_row m))), (''path'', JStr (mf_path (mv_row m))),
     (''sourceName'', JStr (fv_name f)), (''replaceVariables'', JBool (mf_replace (mv_row m)))]"

definition createManagedFile :: "dashboard \<Rightarrow> web_request \<Rightarrow> view handler" where
  "createManagedFile d r = requirePostWrite r ''Managed Files'' (
     let failed = form_error d ''/admin/managed-files'' in
     try_else (managedFileUpsertFromMultipart d r) failed (\<lambda>(fileReq, bindingReq, content).
     try_else (store_content (su_storage_key fileReq) content) failed (\<lambda>_.
     try_else (CreateFile (TenantID d) fileReq) (\<lambda>e. ignoring (object_Delete (su_storage_key fileReq)) (failed e)) (\<lambda>f.
     try_else (CreateManagedFile (TenantID d) (bindingReq\<lparr>mu_file_id := fb_id f\<rparr>))
       (\<lambda>e. ignoring (RetireFile (TenantID d) (fb_id f)) (ignoring (object_Delete (su_storage_key fileReq)) (failed e))) (\<lambda>m.
     recordAudit (TenantID d) r ''create'' ''managed_files'' (rec_id (mv_row m)) (managed_details m f)
       (redirectOK ''/admin/managed-files'' ''managed file uploaded''))))))"

definition retireManagedFile :: "dashboard \<Rightarrow> web_request \<Rightarrow> view handler" where
  "retireManagedFile d r = requirePostWrite r ''Managed Files'' (
     try_else (RetireManagedFile (TenantID d) (PathValue r ''id'')) (form_error d ''/admin/managed-files'') (\<lambda>m.
       recordAudit (TenantID d) r ''retire'' ''managed_files'' (rec_id (mv_row m)) (status_details (mv_row m))
         (redirectOK ''/admin/managed-files'' ''managed file retired'')))"

section \<open>Apps\<close>

record app_upload =
  up_version_name :: string
  up_version_code :: int
  up_file :: asset_upsert

definition apk_type :: string where "apk_type = ''application/vnd.android.package-archive''"

text \<open>The file of a version is named after the package and the version's code.\<close>

definition apk_name :: "string \<Rightarrow> int \<Rightarrow> string" where
  "apk_name package code = sanitizeArtifactName (package @ ''-'' @ FormatInt code @ ''.apk'')"

definition app_upload_of :: "web_request \<Rightarrow> string \<Rightarrow> int \<Rightarrow> string \<Rightarrow> app_upload action" where
  "app_upload_of r package code content =
     bindE (asks sha256) (\<lambda>sha.
     let rawName = formField r ''versionName''; fileName = apk_name package code in
     bindE NewString (\<lambda>u.
     returnE \<lparr>up_version_name = (if rawName = [] then CHR ''v'' # FormatInt code else rawName), up_version_code = code,
       up_file = \<lparr>su_name = fileName, su_storage_key = ''artifacts/apps/'' @ u @ ''/'' @ fileName,
         su_checksum = SHA256Base64URL sha content, su_size = int (length content), su_mime = apk_type\<rparr>\<rparr>))"

definition form_version_code :: "web_request \<Rightarrow> int action" where
  "form_version_code r =
     (case Atoi (formField r ''versionCode'') of None \<Rightarrow> throwE (ErrText ''invalid version code'') | Some n \<Rightarrow> returnE n)"

definition app_from_form :: "web_request \<Rightarrow> app_upsert" where
  "app_from_form r = \<lparr>au_package = formField r ''packageName'', au_name = formField r ''name''\<rparr>"

definition managedAppUpsertFromMultipart :: "web_request \<Rightarrow> (app_upsert \<times> app_upload \<times> string) action" where
  "managedAppUpsertFromMultipart r =
     bindE (parsed_form r) (\<lambda>_.
     bindE (form_version_code r) (\<lambda>code.
     let app = app_from_form r in
     if au_package app = [] \<or> au_name app = [] then throwE (ErrText ''invalid form'')
     else bindE (uploadedContent r) (\<lambda>content.
       bindE (app_upload_of r (au_package app) code content) (\<lambda>up. returnE (app, up, content)))))"

definition managedAppVersionPublishFromMultipart :: "web_request \<Rightarrow> app_row \<Rightarrow> (app_upload \<times> string) action" where
  "managedAppVersionPublishFromMultipart r app =
     bindE (parsed_form r) (\<lambda>_.
     bindE (form_version_code r) (\<lambda>code.
     bindE (uploadedContent r) (\<lambda>content.
     bindE (app_upload_of r (app_package app) code content) (\<lambda>up. returnE (up, content)))))"

text \<open>The app to add the version to, the version if it is there already, and whether the app was.\<close>

definition findManagedAppForCreate ::
  "string \<Rightarrow> app_upsert \<Rightarrow> int \<Rightarrow> string \<Rightarrow> (app_row \<times> version_row option \<times> bool) action" where
  "findManagedAppForCreate tn req code cksum =
     (let create = bindE (CreateApp tn req) (\<lambda>app. returnE (app, None, False)) in
      elseE (GetAppByPackageName tn (au_package req))
        (\<lambda>e. if e \<noteq> ErrNotFound then throwE e else create)
        (\<lambda>item.
          if rec_id item = [] then create
          else if rec_status item \<noteq> ''active'' then throwE (ErrText ''app package already exists'')
          else elseE (GetVersionByCode tn (rec_id item) code)
            (\<lambda>e. if e = ErrNotFound then returnE (item, None, True) else throwE e)
            (\<lambda>v. if ver_checksum v \<noteq> cksum then throwE (ErrText ''app version already exists with different content'')
                 else returnE (item, Some v, True))))"

definition findManagedAppVersionForPublish :: "string \<Rightarrow> string \<Rightarrow> int \<Rightarrow> string \<Rightarrow> version_row option action" where
  "findManagedAppVersionForPublish tn a code cksum =
     elseE (GetVersionByCode tn a code)
       (\<lambda>e. if e = ErrNotFound then returnE None else throwE e)
       (\<lambda>v. if ver_status v \<noteq> ''published'' then returnE None
            else if ver_checksum v \<noteq> cksum then throwE (ErrText ''app version already exists with different content'')
            else returnE (Some v))"

definition published_upsert :: "app_upload \<Rightarrow> file_view \<Rightarrow> version_upsert" where
  "published_upsert up f = \<lparr>vu_name = up_version_name up, vu_code = up_version_code up,
     vu_artifact = Some (fv_artifact_id f), vu_checksum = fv_checksum f, vu_publish = True\<rparr>"

definition optional_string :: "string option \<Rightarrow> json" where
  "optional_string v = (case v of None \<Rightarrow> JNull | Some s \<Rightarrow> JStr s)"

definition version_entries :: "version_row \<Rightarrow> obj" where
  "version_entries v = [(''versionName'', JStr (ver_name v)), (''versionCode'', JNum (FormatInt (ver_code v)))]"

definition app_details :: "app_row \<Rightarrow> obj" where
  "app_details a = [(''packageName'', JStr (app_package a)), (''name'', JStr (app_name a))]"

definition createApp :: "dashboard \<Rightarrow> web_request \<Rightarrow> view handler" where
  "createApp d r = requirePostWrite r ''Apps'' (
     let tn = TenantID d; failed = form_error d ''/admin/apps'' in
     try_else (managedAppUpsertFromMultipart r) failed (\<lambda>(req, up, content).
     let key = su_storage_key (up_file up) in
     try_else (findManagedAppForCreate tn req (up_version_code up) (su_checksum (up_file up))) failed (\<lambda>(app, existing, reused).
     case existing of
       Some v \<Rightarrow> recordAudit tn r ''create'' ''apps'' (rec_id app)
         (app_details app @ [(''versionId'', JStr (ver_id v))] @ version_entries v @ [(''artifactId'', optional_string (ver_artifact v))])
         (redirectOK (item_path ''apps'' (rec_id app)) ''managed app already up to date'')
     | None \<Rightarrow>
         try_else (store_content key content) failed (\<lambda>_.
         try_else (CreateFile tn (up_file up)) (\<lambda>e. ignoring (object_Delete key) (failed e)) (\<lambda>f.
         try_else (CreateVersion tn (rec_id app) (published_upsert up f))
           (\<lambda>e. ignoring (RetireFile tn (fb_id f)) (ignoring (object_Delete key)
              (if \<not> reused then ignoring (RetireApp tn (rec_id app)) (failed e) else failed e)))
           (\<lambda>v. recordAudit tn r ''create'' ''apps'' (rec_id app)
              (app_details app @ [(''versionId'', JStr (ver_id v))] @ version_entries v @
               [(''artifactId'', JStr (fv_artifact_id f)), (''fileName'', JStr (fv_name f))])
              (redirectOK (item_path ''apps'' (rec_id app)) ''managed app created'')))))))"

definition updateApp :: "dashboard \<Rightarrow> web_request \<Rightarrow> view handler" where
  "updateApp d r = requirePostWrite r ''Apps'' (
     let path = item_path ''apps'' (PathValue r ''id'') in
     if web_form_error r \<noteq> None then redirectError path ''invalid form''
     else try_else (UpdateApp (TenantID d) (PathValue r ''id'') (app_from_form r)) (form_error d path) (\<lambda>a.
       recordAudit (TenantID d) r ''update'' ''apps'' (rec_id a) (app_details a)
         (redirectOK (item_path ''apps'' (rec_id a)) ''app updated'')))"

definition retireApp :: "dashboard \<Rightarrow> web_request \<Rightarrow> view handler" where
  "retireApp d r = requirePostWrite r ''Apps'' (
     try_else (RetireApp (TenantID d) (PathValue r ''id'')) (form_error d (item_path ''apps'' (PathValue r ''id''))) (\<lambda>a.
       recordAudit (TenantID d) r ''retire'' ''apps'' (rec_id a) (status_details a)
         (redirectOK (item_path ''apps'' (rec_id a)) ''app retired'')))"

definition createAppVersion :: "dashboard \<Rightarrow> web_request \<Rightarrow> view handler" where
  "createAppVersion d r = requirePostWrite r ''Apps'' (
     if web_form_error r \<noteq> None then redirectError ''/admin/apps'' ''invalid form''
     else case Atoi (formField r ''versionCode'') of
         None \<Rightarrow> redirectError ''/admin/apps'' ''invalid version code''
       | Some code \<Rightarrow>
           let artifactID = formField r ''artifactId'';
               req = \<lparr>vu_name = formField r ''versionName'', vu_code = code,
                 vu_artifact = (if artifactID \<noteq> [] then Some artifactID else None),
                 vu_checksum = formField r ''checksum'', vu_publish = True\<rparr>
           in try_else (CreateVersion (TenantID d) (PathValue r ''id'') req)
             (form_error d (item_path ''apps'' (PathValue r ''id''))) (\<lambda>v.
             recordAudit (TenantID d) r ''create'' ''app_versions'' (ver_id v)
               ([(''appId'', JStr (ver_app v))] @ version_entries v @ [(''status'', JStr (ver_status v))])
               (redirectOK (item_path ''apps'' (ver_app v)) ''app version created'')))"

definition publishAppVersion :: "dashboard \<Rightarrow> web_request \<Rightarrow> view handler" where
  "publishAppVersion d r = requirePostWrite r ''Apps'' (
     let tn = TenantID d; i = PathValue r ''id'' in
     try_else (GetApp tn i) (form_error d (item_path ''apps'' i)) (\<lambda>app.
     if rec_status app \<noteq> ''active'' then redirectError (item_path ''apps'' i) ''app is not active''
     else let path = item_path ''apps'' (rec_id app); failed = form_error d path in
       try_else (managedAppVersionPublishFromMultipart r app) failed (\<lambda>(up, content).
       let key = su_storage_key (up_file up) in
       try_else (findManagedAppVersionForPublish tn (rec_id app) (up_version_code up) (su_checksum (up_file up))) failed (\<lambda>existing.
       case existing of
         Some v \<Rightarrow> recordAudit tn r ''create'' ''app_versions'' (ver_id v)
           ([(''appId'', JStr (ver_app v))] @ version_entries v @ [(''artifactId'', optional_string (ver_artifact v))])
           (redirectOK path ''app version already up to date'')
       | None \<Rightarrow>
           try_else (store_content key content) failed (\<lambda>_.
           try_else (CreateFile tn (up_file up)) (\<lambda>e. ignoring (object_Delete key) (failed e)) (\<lambda>f.
           try_else (CreateVersion tn (rec_id app) (published_upsert up f))
             (\<lambda>e. ignoring (RetireFile tn (fb_id f)) (ignoring (object_Delete key) (failed e)))
             (\<lambda>v. recordAudit tn r ''create'' ''app_versions'' (ver_id v)
                ([(''appId'', JStr (ver_app v))] @ app_details app @ version_entries v @
                 [(''status'', JStr (ver_status v)), (''fileName'', JStr (fv_name f)), (''artifactId'', JStr (fv_artifact_id f))])
                (redirectOK path ''app version published''))))))))"

section \<open>Downloads\<close>

text \<open>What is answered once the artifact is found: its content, under the first name that is not empty.\<close>

definition send_artifact ::
  "(goerr \<Rightarrow> view handler) \<Rightarrow> string \<Rightarrow> string \<Rightarrow> string \<Rightarrow> view handler" where
  "send_artifact failed key mime name =
     try_else (object_Get key) failed (\<lambda>content. answer (Reply (Download mime name content)))"

definition downloadCertificate :: "dashboard \<Rightarrow> web_request \<Rightarrow> view handler" where
  "downloadCertificate d r = requireRead r ''Certificate Detail'' (\<lambda>ses.
     if req_method (base r) \<noteq> ''GET'' then answer method_not_allowed
     else let failed = page_error d r ses ''Certificate Detail'' in
       try_else (GetCertificate (TenantID d) (PathValue r ''id'')) failed (\<lambda>c.
       case cv_artifact c of
         None \<Rightarrow> answer http_not_found
       | Some a \<Rightarrow> send_artifact failed (a_storage_key a) (a_mime a)
           (if cert_name (cv_row c) = [] then rec_id (cv_row c) else cert_name (cv_row c))))"

definition downloadManagedFile :: "dashboard \<Rightarrow> web_request \<Rightarrow> view handler" where
  "downloadManagedFile d r = requireRead r ''Managed File Detail'' (\<lambda>ses.
     if req_method (base r) \<noteq> ''GET'' then answer method_not_allowed
     else let failed = page_error d r ses ''Managed File Detail'' in
       try_else (GetManagedFile (TenantID d) (PathValue r ''id'')) failed (\<lambda>m.
       case mv_file m of
         None \<Rightarrow> answer http_not_found
       | Some f \<Rightarrow> (case fv_artifact f of
           None \<Rightarrow> answer http_not_found
         | Some a \<Rightarrow>
             if rec_status (mv_row m) \<noteq> ''active'' then answer http_not_found
             else send_artifact failed (a_storage_key a) (a_mime a)
               (if fv_name f \<noteq> [] then fv_name f else if mf_path (mv_row m) \<noteq> [] then mf_path (mv_row m)
                else rec_id (mv_row m)))))"

definition loadAppDetail ::
  "string \<Rightarrow> string \<Rightarrow> web_request \<Rightarrow> (app_row \<times> version_row list \<times> version_row option) action" where
  "loadAppDetail tn i r =
     bindE (GetApp tn i) (\<lambda>found.
     bindE (ListVersions tn (rec_id found)
       (snd (listPaginationParamsForKeys r ''versionsPage'' ''versionsLimit'' DefaultLimit))) (\<lambda>vs.
     elseE (GetLatestPublishedVersion tn (rec_id found))
       (\<lambda>e. if e = ErrNotFound then returnE (found, vs, None) else throwE e)
       (\<lambda>latest. returnE (found, vs, Some latest))))"

definition apk_download_name :: "app_row \<Rightarrow> version_row \<Rightarrow> string" where
  "apk_download_name a v =
     (if app_package a \<noteq> [] then app_package a else if app_name a \<noteq> [] then app_name a else rec_id a) @
     (if ver_name v \<noteq> [] then CHR ''-'' # ver_name v else []) @ ''.apk''"

definition downloadApp :: "dashboard \<Rightarrow> web_request \<Rightarrow> view handler" where
  "downloadApp d r = requireRead r ''App Detail'' (\<lambda>ses.
     if req_method (base r) \<noteq> ''GET'' then answer method_not_allowed
     else let failed = page_error d r ses ''App Detail'' in
       try_else (loadAppDetail (TenantID d) (PathValue r ''id'') r) failed (\<lambda>(found, vs, newest).
       case newest of
         None \<Rightarrow> answer http_not_found
       | Some v \<Rightarrow>
           try_else (GetVersion (TenantID d) (rec_id found) (ver_id v)) failed (\<lambda>vv.
           case vv_artifact vv of
             None \<Rightarrow> answer http_not_found
           | Some a \<Rightarrow> send_artifact failed (art_storage_key a) (art_mime a)
               (apk_download_name found (vv_version vv)))))"

section \<open>Guards\<close>

text \<open>
  A switch of a policy is a form as well.
\<close>

lemma guarded_toggle:
  assumes "\<And>r. h r = toggle_binding d (get r) (remove r) (add r) key label resource r"
  shows "web_guarded h"
  by (rule web_guardedI, rule trans [OF assms], rule toggle_binding_def)


end
