(* ===== verification/DashboardFlows.thy ===== *)
theory DashboardFlows
  imports Login DashboardAssets
begin

text \<open>
  What the forms of the dashboard lead to: a user created in a form signs in, the code shown for a
  pending device enrols it, and what a failed upload leaves behind.
\<close>

section \<open>The audit log\<close>

text \<open>
  \<open>after_audit\<close>: nothing but the audit log, the clock and the generator differ, and at most an expired
  session is gone.
\<close>

definition same_account_service :: "auth_service \<Rightarrow> auth_service \<Rightarrow> bool" where
  "same_account_service s s' \<longleftrightarrow> svc_username s' = svc_username s \<and> svc_password s' = svc_password s \<and>
     svc_permissions s' = svc_permissions s \<and> svc_ttl s' = svc_ttl s"

definition after_audit :: "world \<Rightarrow> world \<Rightarrow> bool" where
  "after_audit w w' \<longleftrightarrow> (db w' = db w \<or> (\<exists>e. db w' = audit_events_update (\<lambda>es. es @ [e]) (db w))) \<and>
     env w' = env w \<and> objects w' = objects w \<and> same_account_service (auth w) (auth w')"

lemma sessionFromRequest_service:
  "same_account_service (auth w) (auth (snd (sessionFromRequest q w)))"
  by (auto simp: sessionFromRequest_def auth_Authenticate_def same_account_service_def split: prod.splits option.splits)

lemma frames_auth_Record: "frames auth (Record tn actor act resource i details)"
  unfolding Record_def by (intro frames_intros)

lemma same_service_refl [simp]: "same_account_service s s"
  by (simp add: same_account_service_def)

lemma answers_recordAudit:
  assumes "\<And>w'. after_audit w w' \<Longrightarrow> answers h w' Q"
  shows "answers (recordAudit tn r act resource i details h) w Q"
proof (cases "sessionFromRequest (base r) w")
  case (Pair s w1)
  have w1: "db w1 = db w" "env w1 = env w" "objects w1 = objects w" "same_account_service (auth w) (auth w1)"
    using sessionFromRequest_world [of "base r" w] sessionFromRequest_service [of w "base r"] Pair by simp_all
  show ?thesis
  proof (cases s)
    case None
    then have "answers h w1 Q" using w1 by (intro assms) (simp add: after_audit_def)
    then show ?thesis by (simp add: answers_def recordAudit_def Pair None)
  next
    case (Some ses)
    let ?m = "Record tn (ses_username ses) act resource i details"
    have "post ?m w1 (\<lambda>_ w'. after_audit w w') (\<lambda>_ w'. after_audit w w')"
      by (rule post_mono [OF post_conj [OF post_Record frames_post [OF frames_auth_Record]]])
        (use w1 in \<open>auto simp: after_audit_def\<close>)
    then have "answers (try_else ?m (\<lambda>_. h) (\<lambda>_. h)) w1 Q"
      unfolding answers_try_else by (rule post_mono) (rule assms, assumption)+
    then show ?thesis by (simp add: answers_def recordAudit_def Pair Some)
  qed
qed

text \<open>The locations of the messages on a list page.\<close>

lemma message_location:
  assumes "url_parses p" "CHR ''?'' \<notin> set p" "CHR ''#'' \<notin> set p" "location p = p"
  shows "location (p @ ''?ok='' @ QueryEscape msg) = p @ ''?ok='' @ QueryEscape msg"
    "location (p @ ''?error='' @ QueryEscape msg) = p @ ''?error='' @ QueryEscape msg"
proof -
  have ok: "\<forall>c \<in> set (''ok='' @ QueryEscape msg). query_char c"
    and er: "\<forall>c \<in> set (''error='' @ QueryEscape msg). query_char c"
    using QueryEscape_query [of msg] by (auto simp: query_char_def byte_def)
  show "location (p @ ''?ok='' @ QueryEscape msg) = p @ ''?ok='' @ QueryEscape msg"
    using location_query [OF assms(1-3) ok] assms(4) by simp
  show "location (p @ ''?error='' @ QueryEscape msg) = p @ ''?error='' @ QueryEscape msg"
    using location_query [OF assms(1-3) er] assms(4) by simp
qed

section \<open>A user created in a form signs in\<close>

definition user_created :: "view reply" where
  "user_created = Reply (Redirect [] ''/admin/users?ok=user+created'')"

lemma user_messages:
  "answers (redirectOK ''/admin/users'' ''user created'') w Q = Q user_created w"
  "answers (redirectError ''/admin/users'' msg) w (\<lambda>ans w'. ans = user_created \<longrightarrow> P w')"
proof -
  have p: "url_parses ''/admin/users''" "location ''/admin/users'' = ''/admin/users''" by code_simp+
  have "location (''/admin/users'' @ ''?ok='' @ QueryEscape ''user created'') = ''/admin/users?ok=user+created''"
    by code_simp
  then show "answers (redirectOK ''/admin/users'' ''user created'') w Q = Q user_created w"
    by (simp only: redirectOK_def answers_redirect user_created_def)
  have "location (''/admin/users'' @ ''?error='' @ QueryEscape (safeErrorText msg)) \<noteq> ''/admin/users?ok=user+created''"
    using message_location(2) [OF p(1) _ _ p(2), of "safeErrorText msg"] by simp
  then show "answers (redirectError ''/admin/users'' msg) w (\<lambda>ans w'. ans = user_created \<longrightarrow> P w')"
    by (simp only: redirectError_def answers_redirect user_created_def) simp
qed

text \<open>A user was added with the values of the form and a hash of its password.\<close>

definition user_added :: "dashboard \<Rightarrow> web_request \<Rightarrow> world \<Rightarrow> world \<Rightarrow> bool" where
  "user_added d r w w' \<longleftrightarrow> (\<exists>h n u. bcrypt_gen (env w) n (FormValue r ''password'') = Some h \<and>
     rec_tenant u = TenantID d \<and> rec_status u = ''active'' \<and> user_email u = formField r ''email'' \<and>
     user_password_hash u = h \<and> user_role_id u = formField r ''roleId'' \<and>
     users (db w') = users (db w) @ [u] \<and> roles (db w') = roles (db w) \<and>
     formField r ''email'' \<noteq> [] \<and> FormValue r ''password'' \<noteq> []) \<and>
   account_schema (db w') \<and> env w' = env w \<and> same_account_service (auth w) (auth w')"

lemma frames_HashPassword: "frames auth (HashPassword pw)" "frames auth (CreateUser tn req)"
  unfolding CreateUser_def HashPassword_def
  by (simp add: frames_def returnE_def split: option.splits) (intro frames_intros)

lemma account_schema_audit [simp]: "account_schema (audit_events_update f d) = account_schema d"
  by (simp add: account_schema_def)

lemma user_added_intro:
  assumes w1: "db w1 = db w" "env w1 = env w" "txn w1 = None" "same_account_service (auth w) (auth w1)"
    and schema: "account_schema (db w)"
    and hash: "HashPassword (FormValue r ''password'') w1 = (Inr h, w2)"
    and made: "CreateUser (TenantID d) (user_from_form r h) w2 = (Inr us, w3)"
    and audit: "after_audit w3 w'"
  shows "user_added d r w w'"
proof -
  let ?req = "user_from_form r h"
  have nonempty: "h \<noteq> []" "formField r ''email'' \<noteq> []"
    using made by (auto simp: CreateUser_def throwE_def user_from_form_def)
  then have pw: "FormValue r ''password'' \<noteq> []" using hash by (auto simp: HashPassword_def returnE_def)
  have w2: "bcrypt_gen (env w1) (rand_no w1) (FormValue r ''password'') = Some h" "db w2 = db w1" "env w2 = env w1" "txn w2 = txn w1"
    using HashPassword_Inr [OF hash pw] by simp_all
  obtain u where u: "rec_tenant u = TenantID d" "rec_status u = ''active''" "user_email u = uu_email ?req"
      "user_password_hash u = uu_password_hash ?req" "user_role_id u = uu_role_id ?req"
      "db w3 = users_update (\<lambda>rs. rs @ [u]) (db w2)" "env w3 = env w2"
    using post_Inr [OF post_CreateUser made] w2(4) w1(3) by auto
  have "holds account_schema (snd (CreateUser (TenantID d) ?req w2))"
    by (rule keepsD [OF schema_account_ops(4)]) (simp add: holds_def w2 w1 schema)
  then have s3: "account_schema (db w3)" by (simp add: made holds_def)
  have "auth w3 = auth w1"
    using framesD [OF frames_HashPassword(1), of "FormValue r ''password''" w1]
      framesD [OF frames_HashPassword(2), of "TenantID d" ?req w2] by (simp add: hash made)
  moreover have "same_account_service (auth w) (auth w')"
    using w1(4) audit calculation by (simp add: after_audit_def same_account_service_def)
  moreover have "bcrypt_gen (env w) (rand_no w1) (FormValue r ''password'') = Some h" using w2(1) w1(2) by simp
  moreover have "users (db w') = users (db w) @ [u]" "roles (db w') = roles (db w)" "account_schema (db w')" "env w' = env w"
    using audit u(6,7) w2 w1 s3 by (auto simp: after_audit_def)
  ultimately show ?thesis
    unfolding user_added_def using u nonempty pw by (auto simp: user_from_form_def)
qed

lemma createUser_adds:
  assumes "may_write r w" "txn w = None" "account_schema (db w)"
  shows "answers (createUser d r) w (\<lambda>ans w'. ans = user_created \<longrightarrow> user_added d r w w')"
proof -
  let ?w1 = "snd (sessionFromRequest (base r) w)" and ?P = "\<lambda>ans w'. ans = user_created \<longrightarrow> user_added d r w w'"
  have w1: "db ?w1 = db w" "env ?w1 = env w" "txn ?w1 = None" "same_account_service (auth w) (auth ?w1)"
    using assms(2) sessionFromRequest_service [of w "base r"] by simp_all
  have er: "answers (form_error d ''/admin/users'' e) w' ?P" for e w'
    unfolding form_error_def by (rule user_messages(2))
  have made: "answers (recordAudit (TenantID d) r ''create'' ''users'' (rec_id us) (user_details us)
      (redirectOK ''/admin/users'' ''user created'')) w3 ?P"
    if "HashPassword (FormValue r ''password'') ?w1 = (Inr h, w2)"
      "CreateUser (TenantID d) (user_from_form r h) w2 = (Inr us, w3)" for h w2 us w3
    by (rule answers_recordAudit)
      (use user_added_intro [OF w1 assms(3) that] in \<open>simp add: user_messages(1)\<close>)
  have "answers (try_else (CreateUser (TenantID d) (user_from_form r h)) (form_error d ''/admin/users'') (\<lambda>u.
       recordAudit (TenantID d) r ''create'' ''users'' (rec_id u) (user_details u)
         (redirectOK ''/admin/users'' ''user created''))) w2 ?P"
    if "HashPassword (FormValue r ''password'') ?w1 = (Inr h, w2)" for h w2
    unfolding answers_try_else post_def
    by (auto split: prod.splits sum.splits intro: er made [OF that])
  then show ?thesis
    unfolding createUser_def answers_requirePostWrite [OF assms(1)] answers_if answers_try_else post_def
    by (auto split: prod.splits sum.splits intro: er user_messages(2))
qed


definition plain_dashboard :: dashboard where
  "plain_dashboard = \<lparr>TenantID = ''t'', ServerPublicURL = ''https://mdm.example'', driver_text = \<lambda>_. ''database error'',
     json_strings = \<lambda>_. None, json_object = \<lambda>_. None, time_parse = \<lambda>_ _. None, time_json = \<lambda>_. [],
     url_parse = \<lambda>s. Some \<lparr>url_scheme = ''https'', url_host = s, url_path = [], url_fragment = [], url_raw_fragment = [],
       url_rest = []\<rparr>,
     url_text = url_host, qr_encode = Some, type_by_extension = \<lambda>_. [], detect_content_type = \<lambda>_. [],
     plugin_command = \<lambda>_ _. False\<rparr>"

definition dashboard_request :: "(string \<rightharpoonup> string list) \<Rightarrow> (string \<times> (string + string)) option \<Rightarrow> string \<Rightarrow> web_request" where
  "dashboard_request form upload i = \<lparr>base = (operator_request ''POST'')\<lparr>req_path := \<lambda>p. if p = ''id'' then i else []\<rparr>,
     web_form = form(''csrfToken'' \<mapsto> [''c'']), web_form_error = None, web_header = \<lambda>_. [], web_csrf = Some ''c'',
     web_flash = None, web_upload = upload\<rparr>"

definition user_form :: web_request where
  "user_form = dashboard_request [''email'' \<mapsto> [''new@x.org''], ''password'' \<mapsto> [''pw''], ''roleId'' \<mapsto> [''ro'']] None []"

definition desk :: "database \<Rightarrow> world" where "desk tables = operator_world tables []"

lemma desk_may_write: "may_write (dashboard_request form upload i) (desk d)"
proof -
  have "TrimSpace ''c'' = ''c''" by code_simp
  then have "csrfTokenMatches (dashboard_request form upload i)"
    by (simp add: dashboard_request_def csrfTokenMatches_def csrf_presented_def formField_def FormValue_def)
  moreover have "current_session (base (dashboard_request form upload i)) (desk d) =
      Some \<lparr>ses_id = ''sid'', ses_username = ''admin'', ses_permissions = AllPermissions, ses_expires = 3600000000\<rparr>"
    by (simp add: current_session_def sessionFromRequest_def dashboard_request_def operator_request_def desk_def
        operator_world_def auth_Authenticate_def IssueSession_def NewService_def NewServiceWithPermissions_def
        sample_env_def Let_def)
  ultimately show ?thesis
    by (simp add: may_write_def AllPermissions_def) (simp add: dashboard_request_def operator_request_def)
qed

lemma desk_simps [simp]:
  "txn (desk d) = None" "db (desk d) = d" "env (desk d) = sample_env" "no_faults (desk d)"
  by (simp_all add: desk_def)


section \<open>The code shown for a pending device enrols it\<close>

text \<open>Reading rows for a page.\<close>

definition only_looked :: "world \<Rightarrow> world \<Rightarrow> bool" where
  "only_looked w w' \<longleftrightarrow> db w' = db w \<and> env w' = env w \<and> txn w' = txn w"

definition looks :: "'a action \<Rightarrow> bool" where
  "looks m \<longleftrightarrow> (\<forall>w. post m w (\<lambda>_ w'. only_looked w w') (\<lambda>_ w'. only_looked w w'))"

lemma looksI: "reads m \<Longrightarrow> frames env m \<Longrightarrow> looks m"
  unfolding looks_def
proof
  fix w assume "reads m" "frames env m"
  then have "post m w (\<lambda>_ w'. txn w' = txn w \<and> db w' = db w) (\<lambda>_ w'. txn w' = txn w \<and> db w' = db w)"
    by (simp add: reads_def)
  from post_conj [OF this frames_post [OF \<open>frames env m\<close>]]
  show "post m w (\<lambda>_ w'. only_looked w w') (\<lambda>_ w'. only_looked w w')"
    by (rule post_mono) (simp_all add: only_looked_def)
qed

lemma looks_post:
  "looks m \<Longrightarrow> (\<And>x w'. only_looked w w' \<Longrightarrow> Q x w') \<Longrightarrow> (\<And>e w'. only_looked w w' \<Longrightarrow> E e w') \<Longrightarrow> post m w Q E"
  unfolding looks_def by (erule allE, erule post_mono)

lemma looks_next: "looks m \<Longrightarrow> only_looked w w1 \<Longrightarrow> post m w1 (\<lambda>_. only_looked w) (\<lambda>_. only_looked w)"
  by (erule looks_post) (simp_all add: only_looked_def)

lemma looks_bindE: "looks m \<Longrightarrow> (\<And>x. looks (f x)) \<Longrightarrow> looks (bindE m f)"
  unfolding looks_def [of "bindE m f"] post_bindE by (auto intro: looks_post looks_next)

lemma looks_elseE: "looks m \<Longrightarrow> (\<And>e. looks (h e)) \<Longrightarrow> (\<And>x. looks (f x)) \<Longrightarrow> looks (elseE m h f)"
  unfolding looks_def [of "elseE m h f"] post_elseE by (auto intro: looks_post looks_next)

lemma looks_no_rows_as: "looks m \<Longrightarrow> looks (no_rows_as e m)"
  by (simp add: looks_def wp)

lemma looks_if: "looks m \<Longrightarrow> looks n \<Longrightarrow> looks (if b then m else n)"
  by simp

lemma looks_basic: "looks (returnE x)" "looks (throwE e)" "looks (query f)" "looks (query_row q)"
  by (rule looksI; intro keeps_intros frames_intros)+

lemmas looks_simple = looks_basic looks_no_rows_as looks_if

lemma looks_policies: "looks (loadPoliciesForSelect tn i)"
  unfolding loadPoliciesForSelect_def ListActivePolicies_def GetPolicy_def get_by_id_def Let_def
  by (intro looks_bindE looks_elseE looks_simple)

lemma looks_groups: "looks (ListActiveGroups tn)"
  unfolding ListActiveGroups_def by (rule looks_simple)

lemma looks_agent: "looks (latestPublishedAgentAppVersion tn)"
  unfolding latestPublishedAgentAppVersion_def GetAppByPackageName_def GetLatestPublishedVersion_def
  by (intro looks_bindE looks_simple)

text \<open>
  The page that a detail loads, and the code: \<open>enrolment_code\<close> says that a token was issued whose
  secret and device are in the code that is shown.
\<close>

definition shows_device :: "database \<Rightarrow> string \<Rightarrow> string \<Rightarrow> device \<Rightarrow> bool" where
  "shows_device d tn i v \<longleftrightarrow> (\<exists>r \<in> set (devices d). by_id tn i r \<and> rec_id v = i \<and> rec_status v = rec_status r)"

lemma device_view_of:
  assumes "map (device_view d) (filter (by_id tn i) (devices d)) = v # vs"
  shows "shows_device d tn i v"
proof -
  from assms obtain r rs where r: "filter (by_id tn i) (devices d) = r # rs" "v = device_view d r" by auto
  have "r \<in> set (devices d) \<and> by_id tn i r" using filter_single_mem [OF r(1)] .
  moreover have "rec_id v = rec_id r" "rec_status v = rec_status r" unfolding r(2) by (simp_all add: device_view_def scanDevice_def)
  ultimately show ?thesis unfolding shows_device_def by (intro bexI [of _ r]) (simp_all add: by_id_def)
qed

lemma post_GetDevice:
  "post (GetDevice tn i) w (\<lambda>v w'. only_looked w w' \<and> shows_device (db w) tn i v) (\<lambda>_ w'. only_looked w w')"
proof (cases "map (device_view (db w)) (filter (by_id tn i) (devices (db w)))")
  case (Cons v vs)
  then show ?thesis using device_view_of [OF Cons] unfolding GetDevice_def by (simp add: wp Cons only_looked_def)
qed (simp add: GetDevice_def wp only_looked_def)

lemma post_loadDeviceDetail:
  "post (loadDeviceDetail tn i) w
     (\<lambda>(v, _) w'. only_looked w w' \<and> shows_device (db w) tn i v) (\<lambda>_ w'. only_looked w w')"
proof -
  have "post (bindE (loadPoliciesForSelect tn p) (\<lambda>ps. bindE (ListActiveGroups tn) (\<lambda>gs. returnE (v, ps, gs)))) w1
      (\<lambda>(v, _) w'. only_looked w w' \<and> shows_device (db w) tn i v) (\<lambda>_ w'. only_looked w w')"
    if "only_looked w w1" "shows_device (db w) tn i v" for p v w1
    unfolding post_bindE
    by (rule looks_post [OF looks_policies], rule looks_post [OF looks_groups])
      (use that in \<open>simp_all add: wp only_looked_def\<close>)
  then show ?thesis
    unfolding loadDeviceDetail_def post_bindE [where m = "GetDevice tn i"]
    by (intro post_mono [OF post_GetDevice]) blast+
qed

definition enrolment_code :: "dashboard \<Rightarrow> string \<Rightarrow> world \<Rightarrow> world \<Rightarrow> string \<Rightarrow> bool" where
  "enrolment_code d i w w' payload \<longleftrightarrow> (\<exists>state secret j n m raw k.
     buildEnrollmentQRPayload d state secret = Inr j \<and> payload = marshal j \<and> qs_device state = i \<and>
     rand_src (env w) m = Some raw \<and> secret = EncodeToString raw \<and>
     tok_tenant k = TenantID d \<and> tok_hash k = HashToken (sha256 (env w)) secret \<and> tok_status k = ''issued'' \<and>
     tok_expires k = clock_src (env w) n + deviceEnrollmentTTL \<and>
     fresh tok_id (tok_id k) (enrollment_tokens (db w)) \<and>
     fresh (\<lambda>r. (tok_tenant r, tok_hash r)) (TenantID d, tok_hash k) (enrollment_tokens (db w)) \<and>
     enrollment_tokens (db w') = enrollment_tokens (db w) @ [k]) \<and>
   (\<exists>v \<in> set (devices (db w)). by_id (TenantID d) i v \<and> rec_status v = ''pending'') \<and>
   device_schema (db w') = device_schema (db w) \<and> devices (db w') = devices (db w) \<and> env w' = env w"

lemma post_state:
  "post (deviceEnrollmentQRState d i) w (\<lambda>s w'. only_looked w w' \<and> qs_device s = i) (\<lambda>_ w'. only_looked w w')"
  unfolding deviceEnrollmentQRState_def
  by (cases "normalizedPublicServerURL d (ServerPublicURL d)")
    (auto simp: wp only_looked_def split: prod.splits intro!: looks_post [OF looks_agent])

lemma frames_env_IssueToken: "frames env (IssueToken tn e)"
proof -
  have "frames env NewTokenSecret" by (simp add: frames_def NewTokenSecret_def split: option.splits)
  then show ?thesis unfolding IssueToken_def insert_token_def by (intro frames_intros)
qed

lemma post_generate:
  assumes "qs_device state = i" "\<exists>v \<in> set (devices (db w)). by_id (TenantID d) i v \<and> rec_status v = ''pending''"
  shows "post (generateEnrollmentQR d state) w (\<lambda>(_, payload) w'. enrolment_code d i w w' payload) (\<lambda>_ _. True)"
proof -
  have issue: "post (IssueToken (TenantID d) (clock_src (env w) n + deviceEnrollmentTTL)) w1
      (\<lambda>issued w'. \<forall>j. buildEnrollmentQRPayload d state (it_secret issued) = Inr j \<longrightarrow> enrolment_code d i w w' (marshal j))
      (\<lambda>_ _. True)" if w1: "db w1 = db w" "env w1 = env w" for n w1
  proof (rule post_mono [OF post_conj [OF post_IssueToken frames_post [OF frames_env_IssueToken]]], elim conjE exE, goal_cases)
    case (1 issued w' raw)
    obtain k :: token_row where k: "issued = \<lparr>it_token = scanToken k, it_secret = EncodeToString raw\<rparr>"
        "db w' = enrollment_tokens_update (\<lambda>rs. rs @ [k]) (db w1)"
        "tok_tenant k = TenantID d" "tok_hash k = HashToken (sha256 (env w1)) (EncodeToString raw)"
        "tok_status k = ''issued''" "tok_expires k = clock_src (env w) n + deviceEnrollmentTTL"
        "fresh tok_id (tok_id k) (enrollment_tokens (db w1))"
        "fresh (\<lambda>r. (tok_tenant r, tok_hash r)) (TenantID d, tok_hash k) (enrollment_tokens (db w1))"
      using 1 by (simp add: Let_def)
    have "enrolment_code d i w w' (marshal j)" if "buildEnrollmentQRPayload d state (it_secret issued) = Inr j" for j
      unfolding enrolment_code_def
      by (intro conjI, rule exI [of _ state], rule exI [of _ "it_secret issued"], rule exI [of _ j], rule exI [of _ n],
          rule exI [of _ "rand_no w1"], rule exI [of _ raw], rule exI [of _ k])
        (use that k 1 w1 assms in \<open>simp_all add: device_schema_def\<close>)
    then show ?case by blast
  qed simp
  show ?thesis
    unfolding generateEnrollmentQR_def post_bindE post_now
    by (rule post_mono [OF issue]) (auto simp: wp split: sum.splits option.splits)
qed

lemma device_schema_audit: "device_schema (audit_events_update f d) = device_schema d"
proof -
  have "policy_ref_ok tn p (audit_events_update f d) = policy_ref_ok tn p d" for tn p
    by (simp add: policy_ref_ok_def split: option.split)
  then show ?thesis by (simp add: device_schema_def)
qed

lemma enrolment_code_later:
  assumes "enrolment_code d i w1 w2 p" "only_looked w w1" "after_audit w2 w3" "same_but_random w3 w4"
  shows "enrolment_code d i w w4 p"
proof -
  have "db w4 = db w3" "env w4 = env w3" using same_but_random_state [OF assms(4)] by (simp_all add: same_state_def)
  moreover have "env w3 = env w2" using assms(3) by (simp add: after_audit_def)
  moreover have "db w3 = db w2 \<or> (\<exists>e. db w3 = audit_events_update (\<lambda>es. es @ [e]) (db w2))"
    using assms(3) by (simp add: after_audit_def)
  then have "enrollment_tokens (db w3) = enrollment_tokens (db w2) \<and> devices (db w3) = devices (db w2) \<and>
      device_schema (db w3) = device_schema (db w2)"
    by (rule disjE) (simp, erule exE, simp add: device_schema_audit)
  ultimately have "enrollment_tokens (db w4) = enrollment_tokens (db w2)" "devices (db w4) = devices (db w2)"
      "device_schema (db w4) = device_schema (db w2)" "env w4 = env w2" by simp_all
  moreover have "db w1 = db w" "env w1 = env w" using assms(2) by (simp_all add: only_looked_def)
  ultimately show ?thesis using assms(1) unfolding enrolment_code_def by (simp only:)
qed

lemma answers_for_session:
  assumes "\<And>ses w'. only_looked w w' \<Longrightarrow> answers (f ses) w' Q" "\<And>w'. only_looked w w' \<Longrightarrow> Q (Reply (Redirect [] (location ''/admin/login''))) w'"
  shows "answers (web_session r f) w Q"
proof (cases "sessionFromRequest (base r) w")
  case (Pair s w1)
  then have "only_looked w w1" using sessionFromRequest_world [of "base r" w] by (simp add: only_looked_def)
  then show ?thesis
    using assms answers_redirect [of "[]" "''/admin/login''" w1 Q]
    by (cases s) (simp_all add: web_session_def answers_def Pair)
qed

text \<open>Pages without a code.\<close>

definition shows_code :: "view reply \<Rightarrow> string \<Rightarrow> bool" where
  "shows_code ans payload \<longleftrightarrow> payload \<noteq> [] \<and>
     (\<exists>cookies title user wr tok fl err. ans = Reply (HtmlPage cookies title user wr tok fl err payload))"

lemma no_code_page:
  "answers (renderForSession r ses title flash err) w (\<lambda>ans w'. \<forall>p. shows_code ans p \<longrightarrow> Q p w')"
  unfolding renderForSession_def by (rule answers_render_callout) (simp add: shows_code_def)

lemma deviceEnrollmentQR_code:
  assumes "TrimSpace (PathValue r ''id'') \<noteq> []"
  shows "answers (deviceEnrollmentQR d r) w (\<lambda>ans w'. \<forall>p. shows_code ans p \<longrightarrow> enrolment_code d (PathValue r ''id'') w w' p)"
    (is "answers _ w ?Q")
proof -
  let ?i = "PathValue r ''id''"
  have no: "answers (page_error d r ses title e) w' ?Q" "answers (renderForSession r ses title [] msg) w' ?Q" for ses title e w' msg
    unfolding page_error_def renderPageError_def by (rule no_code_page)+
  have shown: "answers (recordAudit (TenantID d) r a b c det (render_callout r ses title flash err p)) w2 ?Q"
    if "only_looked w w1" "enrolment_code d ?i w1 w2 p" for w1 w2 p a b c det ses title flash err
    by (rule answers_recordAudit, rule answers_render_callout)
      (use enrolment_code_later [OF that(2,1)] in \<open>auto simp: shows_code_def\<close>)
  have made: "answers (try_else (generateEnrollmentQR d state) (page_error d r ses title) (\<lambda>(issued, payload).
      recordAudit (TenantID d) r a b (c issued) (det issued) (render_callout r ses title flash err payload))) w1 ?Q"
    if "only_looked w w1" "qs_device state = ?i" "shows_device (db w) (TenantID d) ?i v" "rec_status v = ''pending''"
    for w1 state ses title a b c det flash err v
    unfolding answers_try_else
    by (rule post_mono [OF post_generate]) (use that shown no in \<open>auto simp: shows_device_def only_looked_def\<close>)
  have found: "answers (try_else (loadDeviceDetail (TenantID d) ?i) (page_error d r ses title) (\<lambda>(found, ps, gs).
      if rec_status found \<noteq> StatusPending then page_error d r ses title (ErrText ''device must be pending'')
      else try_else (deviceEnrollmentQRState d (firstNonEmpty [rec_id found, dv_name found])) (page_error d r ses title) (\<lambda>state.
        try_else (generateEnrollmentQR d state) (page_error d r ses title) (\<lambda>(issued, payload).
        recordAudit (TenantID d) r a b (c issued) (det issued found) (render_callout r ses title flash err payload))))) w1 ?Q"
    if "only_looked w w1" for w1 ses title a b c det flash err
    unfolding answers_try_else [where m = "loadDeviceDetail (TenantID d) ?i"]
  proof (rule post_mono [OF post_loadDeviceDetail], goal_cases)
    case (1 x w2)
    then obtain v ps gs where x: "x = (v, ps, gs)" and v: "shows_device (db w1) (TenantID d) ?i v" and w2: "only_looked w1 w2"
      by (cases x) auto
    have w2': "only_looked w w2" and db: "db w1 = db w" using that w2 by (simp_all add: only_looked_def)
    have i: "firstNonEmpty [rec_id v, dv_name v] = ?i" using v assms by (auto simp: shows_device_def firstNonEmpty.simps)
    show ?case
    proof (cases "rec_status v = StatusPending")
      case True
      have "answers (try_else (deviceEnrollmentQRState d ?i) (page_error d r ses title) (\<lambda>state.
        try_else (generateEnrollmentQR d state) (page_error d r ses title) (\<lambda>(issued, payload).
        recordAudit (TenantID d) r a b (c issued) (det issued v) (render_callout r ses title flash err payload)))) w2 ?Q"
        unfolding answers_try_else [where m = "deviceEnrollmentQRState d ?i"]
      proof (rule post_mono [OF post_state], goal_cases)
        case (1 state w3)
        then show ?case using made [of w3 state v] w2' v db True by (simp add: only_looked_def StatusPending_def)
      qed (rule no)
      then show ?thesis using True i by (simp only: x prod.case) simp
    next
      case False
      then show ?thesis unfolding x prod.case by (simp only: if_True not_False_eq_True) (rule no)
    qed
  qed (rule no)
  show ?thesis
    unfolding deviceEnrollmentQR_def Let_def requirePostWrite_def
  proof (rule answers_ifI, goal_cases)
    case 1
    show ?case by (simp add: hp shows_code_def reply_defs)
  next
    case 2
    show ?case
      by (rule answers_for_session, rule answers_ifI, rule no, rule answers_ifI, rule no, rule answers_for_session)
        (rule found, simp add: only_looked_def, simp_all add: shows_code_def)
  qed
qed



definition agent_version :: version_row where
  "agent_version = \<lparr>ver_id = ''ve'', ver_tenant = ''t'', ver_app = ''a'', ver_status = ''published'', ver_name = ''1.0'',
     ver_code = 1, ver_artifact = Some ''ar'', ver_checksum = ''sum'', ver_published = Some 1, ver_created = 1\<rparr>"

definition qr_database :: database where
  "qr_database = enroll_database\<lparr>apps := [(sample_app ''a'' True)\<lparr>app_package := SeedAgentAppPackage\<rparr>],
     app_versions := [agent_version]\<rparr>"


section \<open>A failed publication blocks its version\<close>

text \<open>The files and the versions in a world; handlers that report an error do not change them.\<close>

definition stock :: "world \<Rightarrow> version_row list \<times> file_row list" where
  "stock w = (app_versions (db w), files (db w))"

lemma stock_form_error: "answers (form_error d path e) w (\<lambda>_ w'. stock w' = stock w)"
  by (simp add: form_error_def redirectError_def answers_redirect)

lemma stock_redirects:
  "answers (redirectError path msg) w (\<lambda>_ w'. stock w' = stock w)"
  "answers (redirectOK path msg) w (\<lambda>_ w'. stock w' = stock w)"
  by (simp_all add: redirectError_def redirectOK_def answers_redirect)

lemma stock_audited:
  "(\<And>w. answers h w (\<lambda>_ w'. stock w' = stock w)) \<Longrightarrow>
    answers (recordAudit tn r act res i details h) w (\<lambda>_ w'. stock w' = stock w)"
  by (rule answers_recordAudit, erule_tac meta_allE, erule answers_mono) (auto simp: after_audit_def stock_def)

lemma stock_page: "answers (renderForSession r ses title flash err) w (\<lambda>_ w'. stock w' = stock w)"
  unfolding renderForSession_def
  by (rule answers_render_callout) (drule same_but_random_state(1), simp add: same_state_def stock_def)

lemma post_publish_form:
  "post (managedAppVersionPublishFromMultipart r app) w
     (\<lambda>(up, _) w'. db w' = db w \<and> txn w' = txn w \<and>
        (\<exists>code. Atoi (formField r ''versionCode'') = Some code \<and> su_name (up_file up) = apk_name (app_package app) code))
     (\<lambda>_ w'. db w' = db w)"
  unfolding managedAppVersionPublishFromMultipart_def parsed_form_def form_version_code_def uploadedContent_def
    app_upload_of_def
  by (auto simp: wp Let_def split: option.splits sum.splits prod.splits)

lemma post_find_published:
  "post (findManagedAppVersionForPublish tn a code cksum) w
     (\<lambda>_ w'. db w' = db w \<and> txn w' = txn w) (\<lambda>_ w'. db w' = db w)"
  unfolding findManagedAppVersionForPublish_def GetVersionByCode_def
  by (auto simp: wp split: list.splits)

lemma CreateFile_refused:
  assumes "txn w = None" "f \<in> set (files (db w))" "file_key f = (tn, su_name req)"
  shows "post (CreateFile tn req) w (\<lambda>_ _. False) (\<lambda>_ w'. db w' = db w)"
  by (rule post_mono [OF post_CreateFile [OF assms(1)]])
    (use assms(2,3) in \<open>auto simp: file_assets.created_def fresh_def, metis image_eqI\<close>)

text \<open>
  A version whose file name was used before is never published: file names are unique in a tenant,
  the name of an uploaded package is made of the app's package and the version code, and a failed
  publication retires the file it has created and leaves its name taken. So when any file of the
  tenant, also a retired one, has that name, publishing that code of that app adds neither a version
  nor a file, whatever the form says otherwise.
\<close>

theorem used_name_blocks_publication:
  assumes "txn w = None" "distinct (map rec_id (apps (db w)))"
    and "app \<in> set (apps (db w))" "by_id (TenantID d) (PathValue r ''id'') app"
    and "Atoi (formField r ''versionCode'') = Some code"
    and "f \<in> set (files (db w))" "rec_tenant f = TenantID d" "file_name f = apk_name (app_package app) code"
  shows "app_versions (db (snd (publishAppVersion d r w))) = app_versions (db w) \<and>
    files (db (snd (publishAppVersion d r w))) = files (db w)"
proof -
  let ?tn = "TenantID d" and ?i = "PathValue r ''id''" and ?Q = "\<lambda>_ w'. stock w' = stock w"
  have same: "answers h w1 ?Q" if "db w1 = db w" "answers h w1 (\<lambda>_ w'. stock w' = stock w1)" for h :: "view handler" and w1
    by (rule answers_mono [OF that(2)]) (use that(1) in \<open>simp add: stock_def\<close>)
  have refused: "answers (try_else (store_content key content) (form_error d path) (\<lambda>_.
      try_else (CreateFile ?tn req) (\<lambda>e. ignoring (object_Delete key) (form_error d path e)) g)) w1 ?Q"
    if "db w1 = db w" "txn w1 = None" "su_name req = file_name f" for key content path req g w1
    unfolding answers_try_else [where m = "store_content key content"]
  proof (rule post_mono [OF post_store_content], goal_cases)
    case (1 u w2)
    then have "db w2 = db w" "txn w2 = None" using that by simp_all
    moreover have "file_key f = (?tn, su_name req)" using that(3) assms(7) by (simp add: file_key_def)
    ultimately have "post (CreateFile ?tn req) w2 (\<lambda>_ _. False) (\<lambda>_ w'. db w' = db w)"
      using CreateFile_refused [of w2 f ?tn req] assms(6) by simp
    then show ?case
      unfolding answers_try_else [where m = "CreateFile ?tn req"]
      by (rule post_mono)
        (auto simp: ignoring_def object_Delete_def answers_try_else wp intro!: same [OF _ stock_form_error])
  next
    case (2 e w2)
    then show ?case using that(1) by (intro same [OF _ stock_form_error]) simp
  qed
  have main: "answers (try_else (GetApp ?tn ?i) (form_error d p) (\<lambda>app. k app)) w1 ?Q"
    if "\<And>w1. db w1 = db w \<Longrightarrow> txn w1 = None \<Longrightarrow> answers (k app) w1 ?Q" "db w1 = db w" "txn w1 = None" for p k w1
  proof -
    have "filter (by_id ?tn ?i) (apps (db w)) = [app]" by (rule apps_t.by_id_single [OF assms(2-4)])
    then show ?thesis
      unfolding answers_try_else GetApp_def get_by_id_def
      by (auto simp: wp that intro!: that(1) same [OF _ stock_form_error])
  qed
  have publish: "answers (if rec_status app \<noteq> ''active'' then redirectError q msg
      else try_else (managedAppVersionPublishFromMultipart r app) (form_error d path) (\<lambda>(up, content).
        try_else (findManagedAppVersionForPublish ?tn (rec_id app) (up_version_code up) (su_checksum (up_file up)))
          (form_error d path) (\<lambda>existing. case existing of
            Some v \<Rightarrow> recordAudit ?tn r a b (c v) (det v) (redirectOK path ok)
          | None \<Rightarrow> try_else (store_content (su_storage_key (up_file up)) content) (form_error d path) (\<lambda>_.
              try_else (CreateFile ?tn (up_file up))
                (\<lambda>e. ignoring (object_Delete (su_storage_key (up_file up))) (form_error d path e)) (g up))))) w1 ?Q" (is "answers (if _ then _ else ?h) _ _")
    if "db w1 = db w" "txn w1 = None" for q msg path a b c det ok g w1
  proof (rule answers_ifI)
    show "answers (redirectError q msg) w1 ?Q" by (rule same [OF that(1) stock_redirects(1)])
    show "answers ?h w1 ?Q"
      unfolding answers_try_else [where m = "managedAppVersionPublishFromMultipart r app"]
    proof (rule post_mono [OF post_publish_form], goal_cases)
      case (1 x w2)
      obtain up content where x: "x = (up, content)" by (cases x)
      then have w2: "db w2 = db w" "txn w2 = None" "su_name (up_file up) = file_name f" using 1 that assms(5,8) by auto
      show ?case
        unfolding x prod.case answers_try_else [where m = "findManagedAppVersionForPublish _ _ _ _"]
        by (rule post_mono [OF post_find_published])
          (use w2 in \<open>auto intro!: refused same [OF _ stock_form_error] same [OF _ stock_audited [OF stock_redirects(2)]] split: option.splits\<close>)
    next
      case (2 e w2)
      then show ?case using that(1) by (intro same [OF _ stock_form_error]) simp
    qed
  qed
  have "answers (publishAppVersion d r) w ?Q"
    unfolding publishAppVersion_def requirePostWrite_def Let_def
  proof (rule answers_ifI, goal_cases)
    case 2
    have login: "?Q x w'" if "only_looked w w'" for x and w' :: world using that by (simp add: stock_def only_looked_def)
    have k: "db w1 = db w" "txn w1 = None" if "only_looked w w1" for w1 using that assms(1) by (simp_all add: only_looked_def)
    show ?case
      by (rule answers_for_session, rule answers_ifI, rule same [OF k(1) stock_page], assumption, rule answers_ifI,
          rule same [OF k(1) stock_page], assumption, rule main, rule publish, assumption+, rule k, assumption, rule k,
          assumption, rule login)
  qed (simp add: hp)
  from answersD [OF this] show ?thesis by (simp add: stock_def)
qed

text \<open>The statement that inserts the version fails once; the same form is refused from then on.\<close>

definition publish_form :: web_request where
  "publish_form = dashboard_request [''versionName'' \<mapsto> [''2.0''], ''versionCode'' \<mapsto> [''2'']]
     (Some (''app.apk'', Inr ''data'')) ''a''"

definition shaky_desk :: world where
  "shaky_desk = (desk qr_database)\<lparr>env := sample_env\<lparr>sql_fault := \<lambda>n. n = 8\<rparr>\<rparr>"

definition name_burnt :: "database \<Rightarrow> bool" where
  "name_burnt d \<longleftrightarrow> map (\<lambda>a. (rec_tenant a, rec_id a, app_package a)) (apps d) = [(''t'', ''a'', ''com.xmdm.launcher'')] \<and>
     map ver_name (app_versions d) = [''1.0''] \<and>
     map (\<lambda>f. (rec_tenant f, file_name f)) (files d) = [(''t'', apk_name ''com.xmdm.launcher'' 2)]"

theorem used_name_blocks_publication_witness:
  "let w = (snd (publishAppVersion plain_dashboard publish_form shaky_desk))\<lparr>txn := None\<rparr> in
     map ver_name (app_versions (db w)) = [''1.0''] \<and>
     app_versions (db (snd (publishAppVersion plain_dashboard publish_form w))) = app_versions (db w)"
proof -
  let ?w = "(snd (publishAppVersion plain_dashboard publish_form shaky_desk))\<lparr>txn := None\<rparr>"
  have "name_burnt (db ?w)" by code_simp
  then obtain a f where a: "apps (db ?w) = [a]" "rec_tenant a = ''t''" "rec_id a = ''a''" "app_package a = ''com.xmdm.launcher''"
      and f: "files (db ?w) = [f]" "rec_tenant f = ''t''" "file_name f = apk_name ''com.xmdm.launcher'' 2"
      and vs: "map ver_name (app_versions (db ?w)) = [''1.0'']"
    unfolding name_burnt_def map_eq_Cons_conv by auto
  have form: "Atoi (formField publish_form ''versionCode'') = Some 2" "PathValue publish_form ''id'' = ''a''"
      "TenantID plain_dashboard = ''t''"
    by code_simp+
  have mem: "a \<in> set (apps (db ?w))" "f \<in> set (files (db ?w))" using a f by simp_all
  have name: "file_name f = apk_name (app_package a) 2" using a f by simp
  have "by_id (TenantID plain_dashboard) (PathValue publish_form ''id'') a" using a form by (simp add: by_id_def)
  from used_name_blocks_publication [of ?w, OF _ _ mem(1) this form(1) mem(2) _ name] show ?thesis
    using a(1) f(2) vs form(3) by (simp only: Let_def) simp
qed

end
