(* ===== verification/Mqtt.thy ===== *)
theory Mqtt
  imports Commands Json "HOL-Library.Word" "HOL-Library.Signed_Division"
begin

text \<open>
  The MQTT client of the server: the packets of \<open>push/mqtt.go\<close>, which \<open>mqttdynsec/client.go\<close> has a copy of,
  and the exchange that publishes a command with QoS 1. A connection is the bytes that arrive on it
  before its deadline; a read beyond them fails. The outcome of dialling, of setting a deadline and of
  each write is an argument.
\<close>

unbundle bit_operations_syntax

section \<open>Bytes\<close>

type_synonym u8 = "8 word"
type_synonym u16 = "16 word"

definition bytes :: "string \<Rightarrow> u8 list" where
  "bytes s = map (\<lambda>c. word_of_nat (byte c)) s"

definition text_of :: "u8 list \<Rightarrow> string" where
  "text_of bs = map (\<lambda>b. char_of (unat b)) bs"

text \<open>\<open>binary.BigEndian\<close> on two bytes.\<close>

definition be16 :: "u16 \<Rightarrow> u8 list" where
  "be16 w = [ucast (drop_bit 8 w), ucast w]"

definition from_be16 :: "u8 \<Rightarrow> u8 \<Rightarrow> u16" where
  "from_be16 a b = push_bit 8 (ucast a) OR ucast b"

section \<open>Packets\<close>

definition encodeString :: "string \<Rightarrow> u8 list" where
  "encodeString value = be16 (word_of_nat (length value)) @ bytes value"

function remaining_digits :: "int \<Rightarrow> u8 list" where
  "remaining_digits n =
     (let digit = word_of_int (n mod 128) :: u8 in
      if n div 128 > 0 then (digit OR 0x80) # remaining_digits (n div 128) else [digit])"
  by auto
termination by (relation "measure nat") auto

declare remaining_digits.simps [simp del]

definition encodeRemainingLength :: "int \<Rightarrow> u8 list" where
  "encodeRemainingLength n = (if n < 0 then [0] else remaining_digits n)"

text \<open>A packet is a header, the length of the rest and the rest.\<close>

definition packet :: "u8 \<Rightarrow> u8 list \<Rightarrow> u8 list" where
  "packet header body = header # encodeRemainingLength (int (length body)) @ body"

text \<open>Durations are nanoseconds.\<close>

record mqtt_config =
  mq_address :: string
  mq_client_id :: string
  mq_username :: string
  mq_password :: string
  mq_keep_alive :: int
  mq_dial_timeout :: int

definition second :: int where "second = 1000000000"

definition connect_flags :: "mqtt_config \<Rightarrow> u8" where
  "connect_flags cfg = 0x02 OR (if mq_username cfg \<noteq> [] then 0x80 else 0) OR (if mq_password cfg \<noteq> [] then 0x40 else 0)"

definition connectPacket :: "mqtt_config \<Rightarrow> u8 list" where
  "connectPacket cfg =
     (let keepAlive = word_of_int (mq_keep_alive cfg sdiv second) :: u16;
          body = encodeString ''MQTT'' @ [4] @ [connect_flags cfg] @ be16 keepAlive;
          payload = encodeString (mq_client_id cfg) @
            (if mq_username cfg \<noteq> [] then encodeString (mq_username cfg) else []) @
            (if mq_password cfg \<noteq> [] then encodeString (mq_password cfg) else [])
      in packet 0x10 (body @ payload))"

definition publishPacket :: "string \<Rightarrow> u8 list \<Rightarrow> u8 \<Rightarrow> u16 \<Rightarrow> u8 list" where
  "publishPacket topic payload qos packetID =
     packet (0x30 OR push_bit 1 (qos AND 0x03))
       (encodeString topic @ (if qos > 0 then be16 packetID else []) @ payload)"

definition subscribePacket :: "string \<Rightarrow> u16 \<Rightarrow> u8 list" where
  "subscribePacket topic packetID = packet 0x82 (be16 packetID @ encodeString topic @ [0x00])"

definition readPacketID :: "u8 list \<Rightarrow> u16" where
  "readPacketID data = (case data of a # b # _ \<Rightarrow> from_be16 a b | _ \<Rightarrow> 0)"

text \<open>At most four bytes are decoded, so the sum stays far from the limits of an \<open>int\<close>.\<close>

definition decodeRemainingLength :: "u8 list \<Rightarrow> int" where
  "decodeRemainingLength encoded =
     snd (foldl (\<lambda>(multiplier, value) b. (multiplier * 128, value + uint (b AND 127) * multiplier)) (1, 0) encoded)"

fun remainingLengthBytes :: "u8 list \<Rightarrow> nat" where
  "remainingLengthBytes [] = 0"
| "remainingLengthBytes (b # bs) = (if b AND 0x80 = 0 then 1 else Suc (remainingLengthBytes bs))"

text \<open>The string, and where it ends.\<close>

definition readMQTTString :: "u8 list \<Rightarrow> nat \<Rightarrow> goerr + (string \<times> nat)" where
  "readMQTTString data offset =
     (case drop offset data of
        a # b # rest \<Rightarrow>
          (let len = unat (from_be16 a b) in
           if length rest < len then Inl (ErrText ''mqtt string truncated'')
           else Inr (text_of (take len rest), offset + 2 + len))
      | _ \<Rightarrow> Inl (ErrText ''mqtt string length truncated''))"

section \<open>Connections\<close>

text \<open>
  \<open>dials\<close> holds, for each attempt to connect, the bytes that will arrive, or \<open>None\<close> when it fails; \<open>io_ok\<close>
  says which of the other calls succeed; \<open>sent\<close> is every packet written so far.
\<close>

record net =
  dials :: "u8 list option list"
  io_ok :: "nat \<Rightarrow> bool"
  io_no :: nat
  unread :: "u8 list"
  sent :: "u8 list list"

definition ErrIO :: goerr where "ErrIO = ErrText ''i/o error''"

definition dialMQTT :: "(net, unit) act" where
  "dialMQTT = (\<lambda>s. case dials s of
      Some arriving # ds \<Rightarrow> (Inr (), s\<lparr>dials := ds, unread := arriving\<rparr>)
    | None # ds \<Rightarrow> (Inl ErrIO, s\<lparr>dials := ds\<rparr>)
    | [] \<Rightarrow> (Inl ErrIO, s))"

definition io_call :: "(net \<Rightarrow> net) \<Rightarrow> (net, unit) act" where
  "io_call f = (\<lambda>s. let s' = s\<lparr>io_no := Suc (io_no s)\<rparr> in
     if io_ok s (io_no s) then (Inr (), f s') else (Inl ErrIO, s'))"

definition SetDeadline :: "(net, unit) act" where "SetDeadline = io_call (\<lambda>s. s)"

definition writePacket :: "u8 list \<Rightarrow> (net, unit) act" where
  "writePacket data = io_call (\<lambda>s. s\<lparr>sent := sent s @ [data]\<rparr>)"

definition ReadFull :: "nat \<Rightarrow> (net, u8 list) act" where
  "ReadFull n = (\<lambda>s. if n \<le> length (unread s)
     then (Inr (take n (unread s)), s\<lparr>unread := drop n (unread s)\<rparr>) else (Inl ErrIO, s\<lparr>unread := []\<rparr>))"

fun read_length :: "nat \<Rightarrow> u8 list \<Rightarrow> (net, u8 list) act" where
  "read_length 0 encoded = throwE (ErrText ''mqtt remaining length too large'')"
| "read_length (Suc n) encoded = bindE (ReadFull 1) (\<lambda>b.
     if hd b AND 0x80 = 0 then returnE (encoded @ b) else read_length n (encoded @ b))"

definition readRemainingLength :: "(net, u8 list) act" where
  "readRemainingLength = read_length 4 []"

definition readPacket :: "(net, u8 list) act" where
  "readPacket =
     bindE (ReadFull 1) (\<lambda>header.
     bindE readRemainingLength (\<lambda>remaining.
     bindE (ReadFull (nat (decodeRemainingLength remaining))) (\<lambda>body.
     returnE (header @ remaining @ body))))"

section \<open>Publishing\<close>

definition connection_accepted :: "u8 list \<Rightarrow> bool" where
  "connection_accepted connack \<longleftrightarrow> \<not> (length connack < 4 \<or> connack ! 0 \<noteq> 0x20 \<or> connack ! 3 \<noteq> 0x00)"

definition publishQoS1 :: "mqtt_config \<Rightarrow> string \<Rightarrow> u8 list \<Rightarrow> (net, unit) act" where
  "publishQoS1 cfg topic payload =
     bindE dialMQTT (\<lambda>_.
     bindE SetDeadline (\<lambda>_.
     bindE (writePacket (connectPacket cfg)) (\<lambda>_.
     bindE readPacket (\<lambda>connack.
     if \<not> connection_accepted connack then throwE (ErrText ''mqtt connection rejected'')
     else bindE SetDeadline (\<lambda>_.
     bindE (writePacket (publishPacket topic payload 1 1)) (\<lambda>_.
     bindE readPacket (\<lambda>puback.
     if length puback < 4 \<or> puback ! 0 \<noteq> 0x40 \<or> puback ! 1 \<noteq> 0x02 \<or> readPacketID (drop 2 puback) \<noteq> 1
     then throwE (ErrText ''mqtt publish not acknowledged'')
     else writePacket [0xE0, 0x00])))))))"

section \<open>The publisher\<close>

definition NewMQTTPublisher :: "mqtt_config \<Rightarrow> goerr + mqtt_config" where
  "NewMQTTPublisher cfg =
     (if TrimSpace (mq_address cfg) = [] then Inl (ErrText ''missing mqtt address'')
      else Inr (cfg\<lparr>mq_client_id := (if TrimSpace (mq_client_id cfg) = [] then ''xmdm-server'' else mq_client_id cfg),
        mq_dial_timeout := (if mq_dial_timeout cfg \<le> 0 then 5 * second else mq_dial_timeout cfg),
        mq_keep_alive := (if mq_keep_alive cfg \<le> 0 then 30 * second else mq_keep_alive cfg)\<rparr>))"

text \<open>\<open>json.Marshal\<close> of a \<open>CommandMessage\<close>: the fields in their order, empty ones left out.\<close>

definition message_text :: "(int \<Rightarrow> string) \<Rightarrow> command_message \<Rightarrow> string" where
  "message_text time_json m = CHR ''{'' # joined '','' (
     [quote ''type'' @ '':'' @ quote (msg_type m)] @
     (if msg_command_id m = [] then [] else [quote ''commandId'' @ '':'' @ quote (msg_command_id m)]) @
     (if msg_tenant m = [] then [] else [quote ''tenantId'' @ '':'' @ quote (msg_tenant m)]) @
     (if msg_device m = [] then [] else [quote ''deviceId'' @ '':'' @ quote (msg_device m)]) @
     (if msg_payload m = [] then [] else [quote ''payload'' @ '':'' @ marshal (JObj (msg_payload m))]) @
     [quote ''createdAt'' @ '':'' @ quote (time_json (msg_created m))]) @ ''}''"

definition mqtt_PublishCommand :: "(int \<Rightarrow> string) \<Rightarrow> mqtt_config \<Rightarrow> string \<Rightarrow> command_message \<Rightarrow> (net, unit) act" where
  "mqtt_PublishCommand time_json cfg deviceID m =
     (if TrimSpace deviceID = [] then throwE (ErrText ''missing device id'')
      else if TrimSpace (msg_type m) = [] then throwE (ErrText ''missing command type'')
      else publishQoS1 cfg (deviceCommandTopic deviceID) (bytes (message_text time_json m)))"

definition health_message :: string where
  "health_message = CHR ''{'' # quote ''type'' @ '':'' @ quote ''health-check'' @ ''}''"

definition HealthCheck :: "mqtt_config \<Rightarrow> (net, unit) act" where
  "HealthCheck cfg = publishQoS1 cfg (deviceCommandTopic ''__health__'') (bytes health_message)"

section \<open>What is written can be read\<close>

lemma from_be16_be16 [simp]: "from_be16 (ucast (drop_bit 8 w)) (ucast w) = w"
  unfolding from_be16_def by (rule bit_word_eqI) (auto simp: bit_simps)

lemma text_of_bytes [simp]: "text_of (bytes s) = s"
proof -
  have "char_of (unat (word_of_nat (of_char c) :: u8)) = c" for c
    by (simp add: unat_of_nat)
  then show ?thesis by (simp add: text_of_def bytes_def byte_def map_idI)
qed

lemma length_bytes [simp]: "length (bytes s) = length s"
  by (simp add: bytes_def)

lemma length_encodeString [simp]: "length (encodeString s) = 2 + length s"
  by (simp add: encodeString_def be16_def)

lemma readMQTTString_encoded:
  assumes "length topic < 65536"
  shows "readMQTTString (pre @ encodeString topic @ payload) (length pre) = Inr (topic, length pre + 2 + length topic)"
  using assms by (simp add: readMQTTString_def encodeString_def be16_def unat_of_nat Let_def)

text \<open>The digits of a length.\<close>

lemma digit_bits:
  fixes d :: int
  assumes "0 \<le> d" "d < 128"
  shows "uint ((word_of_int d OR 0x80) AND 127 :: u8) = d" "(word_of_int d OR 0x80) AND 0x80 \<noteq> (0 :: u8)"
    "uint (word_of_int d AND 127 :: u8) = d" "word_of_int d AND 0x80 = (0 :: u8)"
proof -
  have d: "uint (word_of_int d :: u8) = d" using assms by (simp add: uint_word_of_int)
  have "d AND 127 = d" using assms take_bit_eq_mask [of 7 d] by (simp add: mask_eq_exp_minus_1 take_bit_int_eq_self)
  then show low: "uint (word_of_int d AND 127 :: u8) = d" unfolding uint_and d by simp
  then show "uint ((word_of_int d OR 0x80) AND 127 :: u8) = d" by (simp add: word_ao_dist)
  have "\<not> bit d 7" using assms by (simp add: bit_iff_odd)
  then have "d AND 128 = 0" using and_exp_eq_0_iff_not_bit [of d 7] by simp
  then have high: "uint (word_of_int d AND 0x80 :: u8) = 0" unfolding uint_and d by simp
  then show "word_of_int d AND 0x80 = (0 :: u8)" by (simp only: uint_0_iff)
  then show "(word_of_int d OR 0x80) AND 0x80 \<noteq> (0 :: u8)" by (simp add: word_ao_dist)
qed

fun length_value :: "u8 list \<Rightarrow> int" where
  "length_value [] = 0"
| "length_value (b # bs) = uint (b AND 127) + 128 * length_value bs"

lemma decodeRemainingLength_value: "decodeRemainingLength bs = length_value bs"
proof -
  have "snd (foldl (\<lambda>(m, v) b. (m * 128, v + uint (b AND 127) * m)) (m, v) bs) = v + m * length_value bs" for m v
    by (induction bs arbitrary: m v) (simp_all add: algebra_simps)
  then show ?thesis by (simp add: decodeRemainingLength_def)
qed

lemma length_value_digits: "0 \<le> n \<Longrightarrow> length_value (remaining_digits n) = n"
proof (induction n rule: remaining_digits.induct)
  case (1 n)
  show ?case
  proof (cases "n div 128 > 0")
    case True
    then show ?thesis using 1 digit_bits [of "n mod 128"]
      by (subst remaining_digits.simps) (simp add: Let_def)
  next
    case False
    then have "n < 128" by simp
    then show ?thesis using 1(2) digit_bits [of n] by (subst remaining_digits.simps) (simp add: Let_def)
  qed
qed

lemma div_less_128: "n div 128 < m \<longleftrightarrow> n < 128 * (m :: int)"
proof -
  have "n = 128 * (n div 128) + n mod 128" "0 \<le> n mod 128" "n mod 128 < 128" by simp_all
  then show ?thesis by linarith
qed

lemma length_digits: "0 \<le> n \<Longrightarrow> length (remaining_digits n) \<le> Suc k \<longleftrightarrow> n < 128 ^ Suc k"
proof (induction k arbitrary: n)
  case 0
  have "length (remaining_digits m) > 0" for m by (subst remaining_digits.simps) (simp add: Let_def)
  then have "0 < n div 128 \<Longrightarrow> \<not> length (remaining_digits n) \<le> 1"
    by (subst remaining_digits.simps) (auto simp: Let_def)
  moreover have "\<not> 0 < n div 128 \<Longrightarrow> length (remaining_digits n) = 1"
    by (subst remaining_digits.simps) (simp add: Let_def)
  moreover have "0 < n div 128 \<longleftrightarrow> \<not> n < 128" using 0 by presburger
  ultimately show ?case by auto
next
  case (Suc k)
  have IH: "length (remaining_digits (n div 128)) \<le> Suc k \<longleftrightarrow> n div 128 < 128 ^ Suc k" using Suc by simp
  show ?case
  proof (cases "0 < n div 128")
    case True
    then have "length (remaining_digits n) = Suc (length (remaining_digits (n div 128)))"
      by (subst remaining_digits.simps) (simp add: Let_def)
    then show ?thesis using IH unfolding power_Suc [of _ "Suc k"] div_less_128 by simp
  next
    case False
    then have "length (remaining_digits n) = 1" by (subst remaining_digits.simps) (simp add: Let_def)
    moreover have "n < 128" using False by simp
    moreover have "(128 :: int) \<le> 128 ^ Suc (Suc k)" by (rule self_le_power) simp_all
    ultimately show ?thesis by linarith
  qed
qed

text \<open>Reading what has arrived.\<close>

lemma ReadFull_at: "unread s = xs @ ys \<Longrightarrow> n = length xs \<Longrightarrow> ReadFull n s = (Inr xs, s\<lparr>unread := ys\<rparr>)"
  by (simp add: ReadFull_def)

lemma read_length_digits:
  assumes "0 \<le> n" "unread s = remaining_digits n @ rest"
  shows "read_length k encoded s =
    (if length (remaining_digits n) \<le> k then (Inr (encoded @ remaining_digits n), s\<lparr>unread := rest\<rparr>)
     else (Inl (ErrText ''mqtt remaining length too large''), s\<lparr>unread := drop k (remaining_digits n) @ rest\<rparr>))"
  using assms
proof (induction n arbitrary: s k encoded rule: remaining_digits.induct)
  case (1 n)
  show ?case
  proof (cases k)
    case 0
    then show ?thesis using 1(3) by (subst remaining_digits.simps) (auto simp: throwE_def Let_def)
  next
    case (Suc j)
    show ?thesis
    proof (cases "n div 128 > 0")
      case True
      let ?d = "word_of_int (n mod 128) OR 0x80 :: u8" and ?ds = "remaining_digits (n div 128)"
      have ds: "remaining_digits n = ?d # ?ds" using True by (subst remaining_digits.simps) (simp add: Let_def)
      then have "ReadFull 1 s = (Inr [?d], s\<lparr>unread := ?ds @ rest\<rparr>)" using 1(3) by (intro ReadFull_at) simp_all
      moreover have "?d AND 0x80 \<noteq> 0" using digit_bits [of "n mod 128"] by simp
      moreover have "read_length j (encoded @ [?d]) (s\<lparr>unread := ?ds @ rest\<rparr>) =
        (if length ?ds \<le> j then (Inr ((encoded @ [?d]) @ ?ds), s\<lparr>unread := ?ds @ rest\<rparr>\<lparr>unread := rest\<rparr>)
         else (Inl (ErrText ''mqtt remaining length too large''), s\<lparr>unread := ?ds @ rest\<rparr>\<lparr>unread := drop j ?ds @ rest\<rparr>))"
        by (rule 1(1) [OF refl True]) (use 1(2) in simp_all)
      ultimately show ?thesis unfolding ds Suc by (simp add: bindE_def)
    next
      case False
      then have n: "n < 128" "n mod 128 = n" using 1(2) by simp_all
      let ?d = "word_of_int n :: u8"
      have ds: "remaining_digits n = [?d]" using False n by (subst remaining_digits.simps) (simp add: Let_def)
      then have "ReadFull 1 s = (Inr [?d], s\<lparr>unread := rest\<rparr>)" using 1(3) by (intro ReadFull_at) simp_all
      moreover have "?d AND 0x80 = 0" using digit_bits [of n] n(1) 1(2) by simp
      ultimately show ?thesis unfolding ds Suc by (simp add: bindE_def returnE_def)
    qed
  qed
qed

definition max_length :: int where "max_length = 268435456"

lemma readPacket_packet:
  assumes "unread s = packet h body @ rest" "int (length body) < max_length"
  shows "readPacket s = (Inr (packet h body), s\<lparr>unread := rest\<rparr>)"
proof -
  let ?n = "int (length body)" and ?ds = "remaining_digits (int (length body))"
  have p: "packet h body = h # ?ds @ body" by (simp add: packet_def encodeRemainingLength_def)
  have "ReadFull 1 s = (Inr [h], s\<lparr>unread := ?ds @ body @ rest\<rparr>)" using assms(1) p by (intro ReadFull_at) simp_all
  moreover have "length ?ds \<le> 4"
    using length_digits [of ?n 3] assms(2) by (simp add: max_length_def)
  then have "readRemainingLength (s\<lparr>unread := ?ds @ body @ rest\<rparr>) = (Inr ?ds, s\<lparr>unread := body @ rest\<rparr>)"
    unfolding readRemainingLength_def
    using read_length_digits [of ?n "s\<lparr>unread := ?ds @ body @ rest\<rparr>" "body @ rest" 4 "[]"] by simp
  moreover have "nat (decodeRemainingLength ?ds) = length body"
    by (simp add: decodeRemainingLength_value length_value_digits)
  moreover have "ReadFull (length body) (s\<lparr>unread := body @ rest\<rparr>) = (Inr body, s\<lparr>unread := rest\<rparr>)"
    by (subst ReadFull_at [where ys = rest]) simp_all
  ultimately show ?thesis by (simp add: readPacket_def bindE_def returnE_def p)
qed

lemma readPacket_too_long:
  assumes "unread s = packet h body @ rest" "max_length \<le> int (length body)"
  shows "fst (readPacket s) = Inl (ErrText ''mqtt remaining length too large'')"
proof -
  let ?n = "int (length body)" and ?ds = "remaining_digits (int (length body))"
  have "ReadFull 1 s = (Inr [h], s\<lparr>unread := ?ds @ body @ rest\<rparr>)"
    using assms(1) by (intro ReadFull_at) (simp_all add: packet_def encodeRemainingLength_def)
  moreover have "\<not> length ?ds \<le> 4" using length_digits [of ?n 3] assms(2) by (simp add: max_length_def)
  then have "fst (readRemainingLength (s\<lparr>unread := ?ds @ body @ rest\<rparr>)) = Inl (ErrText ''mqtt remaining length too large'')"
    unfolding readRemainingLength_def
    using read_length_digits [of ?n "s\<lparr>unread := ?ds @ body @ rest\<rparr>" "body @ rest" 4 "[]"] by simp
  ultimately show ?thesis by (auto simp: readPacket_def bindE_def split: prod.splits sum.splits)
qed

text \<open>The bytes of the length are skipped, and the topic is read where it was written.\<close>

lemma remainingLengthBytes_digits:
  "0 \<le> n \<Longrightarrow> remainingLengthBytes (remaining_digits n @ rest) = length (remaining_digits n)"
proof (induction n rule: remaining_digits.induct)
  case (1 n)
  show ?case
  proof (cases "n div 128 > 0")
    case True
    then have "remaining_digits n = (word_of_int (n mod 128) OR 0x80) # remaining_digits (n div 128)"
      by (subst remaining_digits.simps) (simp add: Let_def)
    then show ?thesis using 1 True digit_bits [of "n mod 128"] by simp
  next
    case False
    then have "remaining_digits n = [word_of_int n]" using 1(2)
      by (subst remaining_digits.simps) (simp add: Let_def)
    then show ?thesis using False 1(2) digit_bits [of n] by simp
  qed
qed

lemma packet_body_at: "drop (1 + remainingLengthBytes (tl (packet h body))) (packet h body) = body"
  by (simp add: packet_def encodeRemainingLength_def remainingLengthBytes_digits)

lemma readMQTTString_packet:
  assumes "length topic < 65536" "p = packet h (encodeString topic @ rest)"
  shows "\<exists>next. readMQTTString p (1 + remainingLengthBytes (tl p)) = Inr (topic, next) \<and> drop next p = rest"
proof -
  let ?ds = "h # remaining_digits (int (length (encodeString topic @ rest)))"
  have p: "p = ?ds @ encodeString topic @ rest" using assms(2) by (simp add: packet_def encodeRemainingLength_def)
  have at: "1 + remainingLengthBytes (tl p) = length ?ds"
    unfolding assms(2) by (simp add: packet_def encodeRemainingLength_def remainingLengthBytes_digits)
  have "readMQTTString p (length ?ds) = Inr (topic, length ?ds + 2 + length topic)"
    unfolding p by (rule readMQTTString_encoded [OF assms(1)])
  moreover have "drop (length ?ds + 2 + length topic) p = rest"
    unfolding p using length_encodeString [of topic] by (simp del: length_encodeString add: add.assoc)
  ultimately show ?thesis unfolding at by blast
qed

text \<open>
  C37: A published packet is read back: with a topic of less than 64 KiB and a total below the 256 MiB
  that the length can encode, exactly the packet is taken from the stream, its first byte has the quality of
  service, and its topic and what follows it are found; a longer packet is refused by the reader.
\<close>

theorem publish_roundtrip:
  assumes "length topic < 65536" "unread s = publishPacket topic payload qos i @ rest"
  shows "let p = publishPacket topic payload qos i; n = 2 + length topic + (if qos > 0 then 2 else 0) + length payload in
    p ! 0 = 0x30 OR push_bit 1 (qos AND 0x03) \<and>
    (if int n < max_length
     then readPacket s = (Inr p, s\<lparr>unread := rest\<rparr>) \<and>
       (\<exists>next. readMQTTString p (1 + remainingLengthBytes (tl p)) = Inr (topic, next) \<and>
          drop next p = (if qos > 0 then be16 i else []) @ payload)
     else fst (readPacket s) = Inl (ErrText ''mqtt remaining length too large''))"
proof -
  let ?id = "if qos > 0 then be16 i else []" and ?h = "0x30 OR push_bit 1 (qos AND 0x03)"
  let ?body = "encodeString topic @ ?id @ payload"
  have p: "publishPacket topic payload qos i = packet ?h ?body" by (simp only: publishPacket_def)
  have n: "length ?body = 2 + length topic + (if qos > 0 then 2 else 0) + length payload" by (simp add: be16_def)
  show ?thesis
    unfolding Let_def p n [symmetric]
    using readPacket_packet [of s ?h ?body rest] readPacket_too_long [of s ?h ?body rest]
      readMQTTString_packet [OF assms(1) refl, of ?h "?id @ payload"] assms(2)[unfolded p]
    by (simp add: packet_def)
qed

theorem publish_roundtrip_witness:
  "let s = \<lparr>dials = [], io_ok = \<lambda>_. True, io_no = 0, unread = publishPacket ''devices/d/commands'' [1, 2, 3] 1 7 @ [0xE0, 0],
      sent = []\<rparr> in
    readPacket s = (Inr (publishPacket ''devices/d/commands'' [1, 2, 3] 1 7), s\<lparr>unread := [0xE0, 0]\<rparr>)"
  using publish_roundtrip [where s = "\<lparr>dials = [], io_ok = \<lambda>_. True, io_no = 0,
      unread = publishPacket ''devices/d/commands'' [1, 2, 3] 1 7 @ [0xE0, 0], sent = []\<rparr>" and rest = "[0xE0, 0]",
      of "''devices/d/commands''" "[1, 2, 3]" 1 7]
  by (simp add: max_length_def Let_def)

section \<open>A published command is acknowledged\<close>

definition io_fine :: "net \<Rightarrow> bool" where
  "io_fine s \<longleftrightarrow> (\<forall>n. io_ok s n)"

definition wrote :: "net \<Rightarrow> u8 list list \<Rightarrow> net \<Rightarrow> bool" where
  "wrote s ps s' \<longleftrightarrow> sent s' = sent s @ ps \<and> io_ok s' = io_ok s"

lemma SetDeadline_fine: "io_fine s \<Longrightarrow> SetDeadline s = (Inr (), s\<lparr>io_no := Suc (io_no s)\<rparr>)"
  by (simp add: SetDeadline_def io_call_def io_fine_def)

lemma writePacket_fine:
  "io_fine s \<Longrightarrow> writePacket p s = (Inr (), s\<lparr>io_no := Suc (io_no s), sent := sent s @ [p]\<rparr>)"
  by (simp add: writePacket_def io_call_def io_fine_def)

lemma io_fine_simps [simp]:
  "io_fine (s\<lparr>dials := ds\<rparr>) = io_fine s" "io_fine (s\<lparr>io_no := n\<rparr>) = io_fine s" "io_fine (s\<lparr>unread := bs\<rparr>) = io_fine s"
  "io_fine (s\<lparr>sent := ps\<rparr>) = io_fine s"
  by (simp_all add: io_fine_def)

definition acknowledged :: "u8 list \<Rightarrow> bool" where
  "acknowledged puback \<longleftrightarrow> 4 \<le> length puback \<and> puback ! 0 = 0x40 \<and> puback ! 1 = 0x02 \<and> readPacketID (drop 2 puback) = 1"

text \<open>
  What publishing a command does once the broker can be reached: the first packet it answers decides
  whether the command is published at all, the second whether the call succeeds, and it does exactly when the
  connection is accepted and packet 1 acknowledged. What is written is the connection request, then the
  command, then the disconnection, up to the point of failure.
\<close>

theorem publishQoS1_exact:
  assumes "io_fine s" "dials s = Some (packet h1 b1 @ packet h2 b2 @ rest) # ds"
    and "int (length b1) < max_length" "int (length b2) < max_length"
  shows "let out = publishQoS1 cfg topic payload s; c = connectPacket cfg; p = publishPacket topic payload 1 1 in
    if \<not> connection_accepted (packet h1 b1)
    then fst out = Inl (ErrText ''mqtt connection rejected'') \<and> sent (snd out) = sent s @ [c]
    else if \<not> acknowledged (packet h2 b2)
    then fst out = Inl (ErrText ''mqtt publish not acknowledged'') \<and> sent (snd out) = sent s @ [c, p]
    else fst out = Inr () \<and> sent (snd out) = sent s @ [c, p, [0xE0, 0x00]]"
proof -
  let ?s1 = "s\<lparr>dials := ds, unread := packet h1 b1 @ packet h2 b2 @ rest\<rparr>"
  have d: "dialMQTT s = (Inr (), ?s1)" using assms(2) by (simp add: dialMQTT_def)
  have r1: "readPacket t = (Inr (packet h1 b1), t\<lparr>unread := packet h2 b2 @ rest\<rparr>)"
    if "unread t = packet h1 b1 @ packet h2 b2 @ rest" for t by (rule readPacket_packet [OF that assms(3)])
  have r2: "readPacket t = (Inr (packet h2 b2), t\<lparr>unread := rest\<rparr>)" if "unread t = packet h2 b2 @ rest" for t
    by (rule readPacket_packet [OF that assms(4)])
  show ?thesis
    using assms(1) unfolding publishQoS1_def bindE_def Let_def acknowledged_def
    by (simp add: d r1 r2 SetDeadline_fine writePacket_fine throwE_def)
qed

definition sample_mqtt :: mqtt_config where
  "sample_mqtt = \<lparr>mq_address = ''mqtt:1883'', mq_client_id = ''xmdm-server'', mq_username = ''u'', mq_password = ''p'',
     mq_keep_alive = 30 * second, mq_dial_timeout = 5 * second\<rparr>"

definition broker_sends :: "u8 list \<Rightarrow> net" where
  "broker_sends bs = \<lparr>dials = [Some bs], io_ok = \<lambda>_. True, io_no = 0, unread = [], sent = []\<rparr>"

theorem publishQoS1_exact_witness:
  "fst (publishQoS1 sample_mqtt ''t'' [] (broker_sends [0x20, 2, 0, 0, 0x40, 2, 0, 1])) = Inr () \<and>
   fst (publishQoS1 sample_mqtt ''t'' [] (broker_sends [0x20, 2, 0, 5, 0x40, 2, 0, 1])) = Inl (ErrText ''mqtt connection rejected'')"
proof -
  have p: "packet h [a, b] = [h, 2, a, b]" for h a b
    by (simp add: packet_def encodeRemainingLength_def remaining_digits.simps Let_def)
  have d: "dials (broker_sends [0x20, 2, 0, x, 0x40, 2, 0, 1]) = Some (packet 0x20 [0, x] @ packet 0x40 [0, 1] @ []) # []" for x
    by (simp add: broker_sends_def p)
  have fine: "io_fine (broker_sends bs)" for bs by (simp add: broker_sends_def io_fine_def)
  have id: "readPacketID [0, 1] = 1" by (simp add: readPacketID_def from_be16_def)
  from publishQoS1_exact [OF fine d, of 0 sample_mqtt "''t''" "[]"] publishQoS1_exact [OF fine d, of 5 sample_mqtt "''t''" "[]"]
  show ?thesis by (simp add: p Let_def connection_accepted_def acknowledged_def max_length_def id)
qed

end
