(* ===== verification/Dynsec.thy ===== *)
theory Dynsec
  imports Mqtt
begin

text \<open>
  The client of the broker's dynamic security plugin, \<open>mqttdynsec/client.go\<close>: each command opens a connection,
  subscribes to the topic of the responses, publishes the command and waits for its response. The
  accounts of devices and of the server are sequences of such commands.
\<close>

section \<open>One command\<close>

definition controlRequestTopic :: string where
  "controlRequestTopic = ''$CONTROL/dynamic-security/v1''"

definition controlResponseTopic :: string where
  "controlResponseTopic = ''$CONTROL/dynamic-security/v1/response''"

definition New :: "mqtt_config \<Rightarrow> goerr + mqtt_config" where
  "New cfg =
     (if TrimSpace (mq_address cfg) = [] then Inl (ErrText ''missing mqtt address'')
      else Inr (cfg\<lparr>mq_client_id := (if TrimSpace (mq_client_id cfg) = [] then ''xmdm-dynsec'' else mq_client_id cfg),
        mq_dial_timeout := (if mq_dial_timeout cfg \<le> 0 then 5 * second else mq_dial_timeout cfg),
        mq_keep_alive := (if mq_keep_alive cfg \<le> 0 then 30 * second else mq_keep_alive cfg)\<rparr>))"

text \<open>The packet of the plain publication, without an identifier.\<close>

definition publishPlain :: "string \<Rightarrow> u8 list \<Rightarrow> u8 list" where
  "publishPlain topic payload = packet 0x30 (encodeString topic @ payload)"

text \<open>\<open>strings.Contains\<close>; the letters of the needles and of the broker's messages are ASCII.\<close>

fun occurs_in :: "string \<Rightarrow> string \<Rightarrow> bool" where
  "occurs_in needle [] = (needle = [])"
| "occurs_in needle (c # cs) = (take (length needle) (c # cs) = needle \<or> occurs_in needle cs)"

definition containsAny :: "string \<Rightarrow> string list \<Rightarrow> bool" where
  "containsAny value needles = list_ex (\<lambda>n. n \<noteq> [] \<and> occurs_in (ToLower n) (ToLower value)) needles"

text \<open>
  A response is the list of pairs of a command and its error; \<open>unmarshal\<close> is \<open>json.Unmarshal\<close> into
  \<open>dynsecResponse\<close>.
\<close>

type_synonym unmarshal = "u8 list \<Rightarrow> goerr + (string \<times> string) list"

definition verdict :: "unmarshal \<Rightarrow> string list \<Rightarrow> u8 list \<Rightarrow> goerr + unit" where
  "verdict unmarshal tolerated body =
     (case unmarshal body of
        Inl e \<Rightarrow> Inl e
      | Inr [] \<Rightarrow> Inl (ErrText ''missing dynsec response'')
      | Inr ((command, err) # _) \<Rightarrow>
          if err = [] \<or> containsAny err tolerated then Inr ()
          else Inl (ErrText (''dynsec command '' @ command @ '' failed: '' @ err)))"

text \<open>The loop that waits for the response; \<open>None\<close> is a loop that does not end.\<close>

partial_function (option) awaitResponse ::
  "unmarshal \<Rightarrow> string list \<Rightarrow> net \<Rightarrow> ((goerr + unit) \<times> net) option" where
  "awaitResponse unmarshal tolerated s =
     (case readPacket s of
        (Inl e, s') \<Rightarrow> Some (Inl e, s')
      | (Inr p, s') \<Rightarrow>
          if p = [] then awaitResponse unmarshal tolerated s'
          else if p ! 0 AND 0xF0 \<noteq> 0x30 then awaitResponse unmarshal tolerated s'
          else (case readMQTTString p (1 + remainingLengthBytes (tl p)) of
              Inl e \<Rightarrow> Some (Inl e, s')
            | Inr (topic, next) \<Rightarrow>
                if topic \<noteq> controlResponseTopic then awaitResponse unmarshal tolerated s'
                else Some (verdict unmarshal tolerated (drop next p), s')))"

text \<open>The loop always ends (\<open>awaitResponse_returns\<close>), so the call has a result.\<close>

definition await :: "unmarshal \<Rightarrow> string list \<Rightarrow> (net, unit) act" where
  "await unmarshal tolerated s = the (awaitResponse unmarshal tolerated s)"

definition request_text :: "obj \<Rightarrow> string" where
  "request_text command = marshal (JObj [(''commands'', JArr [JObj command])])"

definition runCommand :: "unmarshal \<Rightarrow> mqtt_config \<Rightarrow> obj \<Rightarrow> string list \<Rightarrow> (net, unit) act" where
  "runCommand unmarshal cfg command tolerated =
     bindE dialMQTT (\<lambda>_.
     bindE SetDeadline (\<lambda>_.
     bindE (writePacket (connectPacket cfg)) (\<lambda>_.
     bindE readPacket (\<lambda>connack.
     if \<not> connection_accepted connack then throwE (ErrText ''mqtt connection rejected'')
     else bindE (writePacket (subscribePacket controlResponseTopic 1)) (\<lambda>_.
     bindE readPacket (\<lambda>_.
     bindE (writePacket (publishPlain controlRequestTopic (bytes (request_text command)))) (\<lambda>_.
     await unmarshal tolerated)))))))"

section \<open>Roles and accounts\<close>

text \<open>An access rule: its type and its topic. Every rule allows, with priority 100.\<close>

definition addRoleACL :: "string \<Rightarrow> string \<times> string \<Rightarrow> obj" where
  "addRoleACL roleName acl = [(''command'', JStr ''addRoleACL''), (''rolename'', JStr roleName), (''acltype'', JStr (fst acl)),
     (''topic'', JStr (snd acl)), (''allow'', JBool True), (''priority'', JNum ''100'')]"

definition role_command :: "string \<Rightarrow> obj" where
  "role_command roleName = [(''command'', JStr ''createRole''), (''rolename'', JStr roleName)]"

fun add_acls :: "unmarshal \<Rightarrow> mqtt_config \<Rightarrow> string \<Rightarrow> (string \<times> string) list \<Rightarrow> (net, unit) act" where
  "add_acls unmarshal cfg roleName [] = returnE ()"
| "add_acls unmarshal cfg roleName (acl # acls) =
     bindE (runCommand unmarshal cfg (addRoleACL roleName acl) [''already exists'']) (\<lambda>_. add_acls unmarshal cfg roleName acls)"

definition ensureRole :: "unmarshal \<Rightarrow> mqtt_config \<Rightarrow> string \<Rightarrow> (string \<times> string) list \<Rightarrow> (net, unit) act" where
  "ensureRole unmarshal cfg roleName acls =
     bindE (runCommand unmarshal cfg (role_command roleName) [''already exists'']) (\<lambda>_. add_acls unmarshal cfg roleName acls)"

definition client_command :: "string \<Rightarrow> string \<Rightarrow> string \<Rightarrow> string \<Rightarrow> obj" where
  "client_command command username password role =
     [(''command'', JStr command), (''username'', JStr username), (''password'', JStr password), (''clientid'', JStr username),
      (''roles'', JArr [JObj [(''rolename'', JStr role), (''priority'', JNum ''100'')]])]"

definition device_role :: string where "device_role = ''xmdm-device-command''"

definition server_role :: string where "server_role = ''xmdm-server-publisher''"

text \<open>The topic is built from the identifier as it is, without the trimming of \<open>deviceCommandTopic\<close>.\<close>

definition command_topic :: "string \<Rightarrow> string" where
  "command_topic deviceID = ''devices/'' @ deviceID @ ''/commands''"

definition UpsertDevice :: "unmarshal \<Rightarrow> mqtt_config \<Rightarrow> string \<Rightarrow> string \<Rightarrow> (net, unit) act" where
  "UpsertDevice unmarshal cfg deviceID deviceSecret =
     (if TrimSpace deviceID = [] \<or> TrimSpace deviceSecret = [] then throwE (ErrText ''missing device credentials'')
      else bindE (ensureRole unmarshal cfg device_role
             [(''subscribeLiteral'', command_topic deviceID), (''publishClientReceive'', command_topic deviceID)]) (\<lambda>_.
        bindE (runCommand unmarshal cfg (client_command ''createClient'' deviceID deviceSecret device_role) [''already exists'']) (\<lambda>_.
        runCommand unmarshal cfg (client_command ''modifyClient'' deviceID deviceSecret device_role) [])))"

definition EnsureServerPublisher :: "unmarshal \<Rightarrow> mqtt_config \<Rightarrow> string \<Rightarrow> string \<Rightarrow> (net, unit) act" where
  "EnsureServerPublisher unmarshal cfg username password =
     (if TrimSpace username = [] \<or> TrimSpace password = [] then throwE (ErrText ''missing server publisher credentials'')
      else bindE (ensureRole unmarshal cfg server_role [(''publishClientSend'', ''devices/+/commands'')]) (\<lambda>_.
        bindE (runCommand unmarshal cfg (client_command ''createClient'' username password server_role) [''already exists'']) (\<lambda>_.
        runCommand unmarshal cfg (client_command ''modifyClient'' username password server_role) [])))"

text \<open>Both commands are run; \<open>errors.Join\<close> puts their messages on lines of their own.\<close>

definition join_errors :: "(goerr + unit) list \<Rightarrow> goerr + unit" where
  "join_errors rs = (case concat (map (\<lambda>r. case r of Inl e \<Rightarrow> [e] | Inr _ \<Rightarrow> []) rs) of
      [] \<Rightarrow> Inr () | [e] \<Rightarrow> Inl e
    | es \<Rightarrow> Inl (ErrText (joined [CHR 0x0A] (map (\<lambda>e. case e of ErrText m \<Rightarrow> m | _ \<Rightarrow> []) es))))"

definition account_command :: "string \<Rightarrow> string \<Rightarrow> obj" where
  "account_command command username = [(''command'', JStr command), (''username'', JStr username)]"

definition DisableDevice :: "unmarshal \<Rightarrow> mqtt_config \<Rightarrow> string \<Rightarrow> (net, unit) act" where
  "DisableDevice unmarshal cfg deviceID =
     (if TrimSpace deviceID = [] then throwE (ErrText ''missing device id'')
      else (\<lambda>s.
        let (disabled, s1) = runCommand unmarshal cfg (account_command ''disableClient'' deviceID) [''not found''] s;
            (deleted, s2) = runCommand unmarshal cfg (account_command ''deleteClient'' deviceID) [''not found''] s1
        in (join_errors [disabled, deleted], s2)))"

section \<open>The wait for a response ends\<close>

text \<open>Reading a packet takes its bytes from what has arrived, and nothing else changes.\<close>

definition same_writes :: "net \<Rightarrow> net \<Rightarrow> bool" where
  "same_writes s s' \<longleftrightarrow> dials s' = dials s \<and> sent s' = sent s \<and> io_ok s' = io_ok s \<and> io_no s' = io_no s"

lemma same_writes_refl [simp]: "same_writes s s" and same_writes_trans: "same_writes s t \<Longrightarrow> same_writes t u \<Longrightarrow> same_writes s u"
  by (simp_all add: same_writes_def)

lemma post_ReadFull:
  "post (ReadFull n) s (\<lambda>bs s'. same_writes s s' \<and> length bs = n \<and> unread s = bs @ unread s') (\<lambda>_ s'. same_writes s s')"
  by (simp add: ReadFull_def post_def same_writes_def)

lemma post_read_length:
  "post (read_length k encoded) s
     (\<lambda>bs s'. same_writes s s' \<and> (\<exists>ds. bs = encoded @ ds \<and> unread s = ds @ unread s')) (\<lambda>_ s'. same_writes s s')"
proof (induction k arbitrary: s encoded)
  case 0
  show ?case by (simp add: wp)
next
  case (Suc k)
  show ?case
    unfolding read_length.simps post_bindE
  proof (rule post_mono [OF post_ReadFull], goal_cases)
    case (1 b s1)
    show ?case
    proof (cases "hd b AND 0x80 = 0")
      case False
      show ?thesis
        unfolding if_not_P [OF False]
        by (rule post_mono [OF Suc [of "encoded @ b" s1]]) (use 1 in \<open>auto intro: same_writes_trans\<close>)
    qed (use 1 in \<open>simp add: wp\<close>)
  qed
qed

lemma post_readPacket:
  "post readPacket s (\<lambda>p s'. same_writes s s' \<and> p \<noteq> [] \<and> unread s = p @ unread s') (\<lambda>_ s'. same_writes s s')"
  unfolding readPacket_def post_bindE readRemainingLength_def
proof (rule post_mono [OF post_ReadFull], goal_cases)
  case (1 h s1)
  then have h: "h \<noteq> []" by auto
  show ?case
  proof (rule post_mono [OF post_read_length], goal_cases)
    case (1 ds s2)
    show ?case
      by (rule post_mono [OF post_ReadFull])
        (use 1 \<open>same_writes s s1 \<and> _\<close> h in \<open>auto simp: wp intro: same_writes_trans\<close>)
  qed (use 1 in \<open>auto intro: same_writes_trans\<close>)
qed

lemma readPacket_takes:
  "readPacket s = (Inr p, s') \<Longrightarrow> same_writes s s' \<and> p \<noteq> [] \<and> unread s = p @ unread s'"
  "readPacket s = (Inl e, s') \<Longrightarrow> same_writes s s'"
  using post_readPacket [of s] by (simp_all add: post_def)

lemma unread_suffix: "readPacket s = (r, s') \<Longrightarrow> suffix (unread s') (unread s)"
proof -
  have full: "suffix (unread (snd (ReadFull n t))) (unread t)" for n t
    by (simp add: ReadFull_def suffix_drop)
  have trans: "suffix (unread (snd (bindE m f t))) (unread t)"
    if "\<And>t. suffix (unread (snd (m t))) (unread t)" "\<And>x t. suffix (unread (snd (f x t))) (unread t)"
    for m :: "(net, 'a) act" and f :: "'a \<Rightarrow> (net, 'b) act" and t
    using that(1) [of t] that(2) by (auto simp: bindE_def split: prod.splits sum.splits) (metis snd_conv suffix_order.trans)
  have ret: "suffix (unread (snd (returnE x t))) (unread t)" for x :: 'c and t by (simp add: returnE_def)
  have len: "suffix (unread (snd (read_length k encoded t))) (unread t)" for k encoded t
  proof (induction k arbitrary: encoded t)
    case (Suc k)
    show ?case unfolding read_length.simps by (rule trans [OF full]) (auto intro: Suc ret)
  qed (simp add: throwE_def)
  have "suffix (unread (snd (readPacket s))) (unread s)" for s
    unfolding readPacket_def readRemainingLength_def by (intro trans full len ret)
  then show "readPacket s = (r, s') \<Longrightarrow> suffix (unread s') (unread s)" by (metis snd_conv)
qed

lemma awaitResponse_ends:
  "\<exists>r s'. awaitResponse unmarshal tolerated s = Some (r, s') \<and> same_writes s s' \<and> suffix (unread s') (unread s)"
proof (induction "length (unread s)" arbitrary: s rule: less_induct)
  case less
  show ?case
  proof (cases "readPacket s")
    case (Pair r s1)
    show ?thesis
    proof (cases r)
      case (Inl e)
      have "suffix (unread s1) (unread s)" using unread_suffix [OF Pair] .
      then show ?thesis using Inl Pair readPacket_takes(2) by (subst awaitResponse.simps) simp
    next
      case (Inr p)
      then have p: "same_writes s s1" "length (unread s1) < length (unread s)" "suffix (unread s1) (unread s)"
        using Pair readPacket_takes(1) [of s p s1] by (auto simp: suffix_def)
      obtain r' s' where again: "awaitResponse unmarshal tolerated s1 = Some (r', s')" "same_writes s s'" "suffix (unread s') (unread s)"
        using less [OF p(2)] same_writes_trans [OF p(1)] suffix_order.trans [OF _ p(3)] by blast
      show ?thesis
        using Pair Inr again p by (subst awaitResponse.simps) (auto simp: Let_def split: sum.splits)
    qed
  qed
qed


lemma post_await: "post (await unmarshal tolerated) s (\<lambda>_ s'. same_writes s s') (\<lambda>_ s'. same_writes s s')"
proof -
  obtain r s' where "awaitResponse unmarshal tolerated s = Some (r, s')" "same_writes s s'" using awaitResponse_ends by blast
  then show ?thesis by (simp add: post_def await_def split: sum.split)
qed

section \<open>What is asked of the broker\<close>

text \<open>The commands among the packets written are the plain publications.\<close>

definition requests :: "net \<Rightarrow> u8 list list" where
  "requests s = filter (\<lambda>p. p ! 0 = 0x30) (sent s)"

definition request_packet :: "obj \<Rightarrow> u8 list" where
  "request_packet command = publishPlain controlRequestTopic (bytes (request_text command))"

lemma packet_header [simp]: "packet h body ! 0 = h"
  by (simp add: packet_def)

lemma post_io:
  "post SetDeadline s (\<lambda>_ s'. requests s' = requests s) (\<lambda>_ s'. requests s' = requests s)"
  "post (writePacket p) s (\<lambda>_ s'. requests s' = requests s @ (if p ! 0 = 0x30 then [p] else [])) (\<lambda>_ s'. requests s' = requests s)"
  "post dialMQTT s (\<lambda>_ s'. requests s' = requests s) (\<lambda>_ s'. requests s' = requests s)"
  by (simp_all add: post_def SetDeadline_def writePacket_def io_call_def dialMQTT_def requests_def Let_def
      split: list.splits option.splits)

lemma same_writes_requests: "same_writes s s' \<Longrightarrow> requests s' = requests s"
  by (simp add: same_writes_def requests_def)

lemma post_runCommand:
  "post (runCommand unmarshal cfg command tolerated) s
     (\<lambda>_ s'. requests s' = requests s @ [request_packet command])
     (\<lambda>_ s'. requests s' = requests s \<or> requests s' = requests s @ [request_packet command])"
proof -
  have heads: "connectPacket cfg ! 0 = 0x10" "subscribePacket t i ! 0 = 0x82" "publishPlain t b ! 0 = 0x30" for t b i
    by (simp_all add: connectPacket_def subscribePacket_def publishPlain_def Let_def)
  have rp: "post readPacket t (\<lambda>_ s'. requests s' = requests t) (\<lambda>_ s'. requests s' = requests t)" for t
    by (rule post_mono [OF post_readPacket]) (auto simp: same_writes_requests)
  have aw: "post (await unmarshal tolerated) t (\<lambda>_ s'. requests s' = requests t) (\<lambda>_ s'. requests s' = requests t)" for t
    by (rule post_mono [OF post_await]) (auto simp: same_writes_requests)
  show ?thesis
    unfolding runCommand_def post_bindE
  proof (rule post_mono [OF post_io(3)], rule post_mono [OF post_io(1)], rule post_mono [OF post_io(2)],
      rule post_mono [OF rp], goal_cases)
    case (1 u s1 u2 s2 u3 s3 connack s4)
    then have s4: "requests s4 = requests s" by (simp add: heads)
    show ?case
    proof (cases "connection_accepted connack")
      case True
      show ?thesis
        unfolding if_not_P [OF not_not [THEN iffD2, OF True]] post_bindE
        by (rule post_mono [OF post_io(2)], rule post_mono [OF rp], rule post_mono [OF post_io(2)], rule post_mono [OF aw])
          (simp_all add: s4 heads request_packet_def)
    qed (simp add: wp s4)
  qed (simp_all add: heads)
qed

text \<open>Commands run one after the other until one fails.\<close>

fun run_all :: "unmarshal \<Rightarrow> mqtt_config \<Rightarrow> (obj \<times> string list) list \<Rightarrow> (net, unit) act" where
  "run_all unmarshal cfg [] = returnE ()"
| "run_all unmarshal cfg ((command, tolerated) # cs) =
     bindE (runCommand unmarshal cfg command tolerated) (\<lambda>_. run_all unmarshal cfg cs)"

lemma bindE_nest: "bindE (bindE m f) g = bindE m (\<lambda>x. bindE (f x) g)"
  by (rule ext) (simp add: bindE_def split: prod.split sum.split)

lemma bindE_unit: "bindE m returnE = m"
  by (rule ext) (simp add: bindE_def returnE_def split: prod.split sum.split)

lemma run_all_append: "run_all u cfg (xs @ ys) = bindE (run_all u cfg xs) (\<lambda>_. run_all u cfg ys)"
proof (induction xs)
  case Nil
  show ?case by (simp add: fun_eq_iff bindE_def returnE_def)
next
  case (Cons x xs)
  then show ?case by (cases x) (simp add: bindE_nest)
qed

lemma add_acls_run: "add_acls u cfg role acls = run_all u cfg (map (\<lambda>acl. (addRoleACL role acl, [''already exists''])) acls)"
  by (induction acls) simp_all

text \<open>The commands that an account of a device, and that of the server, comes down to.\<close>

definition account_commands :: "string \<Rightarrow> (string \<times> string) list \<Rightarrow> string \<Rightarrow> string \<Rightarrow> (obj \<times> string list) list" where
  "account_commands role acls username password =
     (role_command role, [''already exists'']) # map (\<lambda>acl. (addRoleACL role acl, [''already exists''])) acls @
     [(client_command ''createClient'' username password role, [''already exists'']),
      (client_command ''modifyClient'' username password role, [])]"

definition device_acls :: "string \<Rightarrow> (string \<times> string) list" where
  "device_acls i = [(''subscribeLiteral'', command_topic i), (''publishClientReceive'', command_topic i)]"

lemma account_run:
  "run_all u cfg (account_commands role acls name pw) =
     bindE (ensureRole u cfg role acls) (\<lambda>_.
     bindE (runCommand u cfg (client_command ''createClient'' name pw role) [''already exists'']) (\<lambda>_.
     runCommand u cfg (client_command ''modifyClient'' name pw role) []))"
  by (simp add: account_commands_def ensureRole_def add_acls_run run_all_append bindE_nest bindE_unit)

lemma UpsertDevice_run:
  "UpsertDevice u cfg i secret = (if TrimSpace i = [] \<or> TrimSpace secret = [] then throwE (ErrText ''missing device credentials'')
     else run_all u cfg (account_commands device_role (device_acls i) i secret))"
  by (simp add: UpsertDevice_def account_run device_acls_def)

lemma EnsureServerPublisher_run:
  "EnsureServerPublisher u cfg name pw =
     (if TrimSpace name = [] \<or> TrimSpace pw = [] then throwE (ErrText ''missing server publisher credentials'')
      else run_all u cfg (account_commands server_role [(''publishClientSend'', ''devices/+/commands'')] name pw))"
  by (simp add: EnsureServerPublisher_def account_run)

definition asked :: "obj list \<Rightarrow> net \<Rightarrow> net \<Rightarrow> bool" where
  "asked cs s s' \<longleftrightarrow> requests s' = requests s @ map request_packet cs"

lemma asked_Nil [simp]: "asked [] s s"
  by (simp add: asked_def)

lemma post_run_all:
  "post (run_all u cfg cs) s (\<lambda>_ s'. asked (map fst cs) s s') (\<lambda>_ s'. \<exists>n. asked (take n (map fst cs)) s s')"
proof (induction cs arbitrary: s)
  case (Cons c cs)
  obtain command tolerated where c: "c = (command, tolerated)" by (cases c)
  show ?case
    unfolding c run_all.simps post_bindE
  proof (rule post_mono [OF post_runCommand], goal_cases)
    case (1 x s1)
    have first: "asked (command # ds) s s2" if "asked ds s1 s2" for ds s2 using that 1 by (simp add: asked_def)
    have part: "\<exists>m. asked (take m (command # map fst cs)) s s2" if "asked (take n (map fst cs)) s1 s2" for n s2
      using first [OF that] by (intro exI [of _ "Suc n"]) simp
    show ?case by (rule post_mono [OF Cons]) (use first part in auto)
  next
    case (2 e s1)
    then have "asked (take 0 (map fst ((command, tolerated) # cs))) s s1 \<or>
        asked (take 1 (map fst ((command, tolerated) # cs))) s s1" by (auto simp: asked_def)
    then show ?case by blast
  qed
qed (simp add: wp)

text \<open>
  Setting up the account of a device asks the broker, in this order, for the role of the devices,
  its two rules for the topic of this device, the account with the device's secret, and once more the
  account so that an old one gets the new secret. A call that succeeds has asked for all of it, a call that fails
  has asked for the first part of it; without an identifier or a secret nothing is asked.
\<close>

theorem UpsertDevice_asks:
  "let cs = [role_command device_role, addRoleACL device_role (''subscribeLiteral'', command_topic i),
        addRoleACL device_role (''publishClientReceive'', command_topic i),
        client_command ''createClient'' i secret device_role, client_command ''modifyClient'' i secret device_role];
       out = UpsertDevice u cfg i secret s in
   case fst out of
     Inr _ \<Rightarrow> TrimSpace i \<noteq> [] \<and> TrimSpace secret \<noteq> [] \<and> requests (snd out) = requests s @ map request_packet cs
   | Inl _ \<Rightarrow> \<exists>n. requests (snd out) = requests s @ map request_packet (take n cs) \<and>
       (TrimSpace i = [] \<or> TrimSpace secret = [] \<longrightarrow> n = 0)"
proof (cases "TrimSpace i = [] \<or> TrimSpace secret = []")
  case True
  then show ?thesis by (auto simp: UpsertDevice_run throwE_def Let_def intro: exI [of _ 0])
next
  case False
  let ?cs = "account_commands device_role (device_acls i) i secret"
  have cs: "map fst ?cs = [role_command device_role, addRoleACL device_role (''subscribeLiteral'', command_topic i),
        addRoleACL device_role (''publishClientReceive'', command_topic i),
        client_command ''createClient'' i secret device_role, client_command ''modifyClient'' i secret device_role]"
    by (simp add: account_commands_def device_acls_def)
  from False have up: "UpsertDevice u cfg i secret = run_all u cfg ?cs" by (simp add: UpsertDevice_run)
  show ?thesis
    unfolding Let_def cs [symmetric] up
    using post_run_all [of u cfg ?cs s] False
    by (cases "run_all u cfg ?cs s") (auto simp: post_def asked_def split: sum.splits)
qed

section \<open>The answer to a command\<close>

text \<open>Packets that are no responses: another type, or a publication on another topic.\<close>

definition no_response :: "u8 \<Rightarrow> u8 list \<Rightarrow> bool" where
  "no_response h body \<longleftrightarrow> int (length body) < max_length \<and>
     (h AND 0xF0 = 0x30 \<longrightarrow> (\<exists>topic payload. body = encodeString topic @ payload \<and> length topic < 65536 \<and>
        topic \<noteq> controlResponseTopic))"

lemma await_skips:
  assumes "unread s = packet h body @ rest" "no_response h body"
  shows "awaitResponse u tolerated s = awaitResponse u tolerated (s\<lparr>unread := rest\<rparr>)"
proof -
  have len: "int (length body) < max_length" using assms(2) by (simp add: no_response_def)
  note read = readPacket_packet [OF assms(1) len]
  have ne: "packet h body \<noteq> []" by (simp add: packet_def)
  show ?thesis
  proof (cases "h AND 0xF0 = 0x30")
    case True
    then obtain topic payload where t: "body = encodeString topic @ payload" "length topic < 65536" "topic \<noteq> controlResponseTopic"
      using assms(2) by (auto simp: no_response_def)
    obtain nx where "readMQTTString (packet h body) (1 + remainingLengthBytes (tl (packet h body))) = Inr (topic, nx)"
      using readMQTTString_packet [OF t(2), of "packet h body" h payload] t(1) by blast
    then show ?thesis using True t(3) by (subst awaitResponse.simps) (simp add: read ne)
  next
    case False
    then show ?thesis by (subst awaitResponse.simps) (simp add: read ne)
  qed
qed

lemma await_skips_all:
  "unread s = concat (map (\<lambda>(h, b). packet h b) ps) @ rest \<Longrightarrow> list_all (\<lambda>(h, b). no_response h b) ps \<Longrightarrow>
    awaitResponse u tolerated s = awaitResponse u tolerated (s\<lparr>unread := rest\<rparr>)"
proof (induction ps arbitrary: s)
  case Nil
  then have "s\<lparr>unread := rest\<rparr> = s" by simp
  then show ?case by simp
next
  case (Cons p ps)
  obtain h b where p: "p = (h, b)" by (cases p)
  have first: "unread s = packet h b @ concat (map (\<lambda>(h, b). packet h b) ps) @ rest" "no_response h b"
    using Cons.prems by (simp_all add: p)
  show ?case using Cons.IH [of "s\<lparr>unread := concat (map (\<lambda>(h, b). packet h b) ps) @ rest\<rparr>"] Cons.prems(2)
    by (simp add: await_skips [OF first])
qed

lemma await_verdict:
  assumes "unread s = publishPlain controlResponseTopic body @ rest" "int (length body) < 200000000"
  shows "await u tolerated s = (verdict u tolerated body, s\<lparr>unread := rest\<rparr>)"
proof -
  let ?p = "packet 0x30 (encodeString controlResponseTopic @ body)"
  have topic: "length controlResponseTopic = 37" by (simp add: controlResponseTopic_def)
  have read: "readPacket s = (Inr ?p, s\<lparr>unread := rest\<rparr>)"
    by (rule readPacket_packet) (use assms topic in \<open>simp_all add: publishPlain_def max_length_def\<close>)
  obtain nx where nx: "readMQTTString ?p (1 + remainingLengthBytes (tl ?p)) = Inr (controlResponseTopic, nx)" "drop nx ?p = body"
    using readMQTTString_packet [where p = ?p, OF _ refl] topic by auto
  have ne: "?p \<noteq> []" by (simp add: packet_def)
  have "awaitResponse u tolerated s = Some (verdict u tolerated body, s\<lparr>unread := rest\<rparr>)"
    by (subst awaitResponse.simps) (simp add: read nx [simplified] ne)
  then show ?thesis by (simp add: await_def)
qed

lemma runCommand_answers:
  assumes "io_fine s" "int (length b1) < max_length" "int (length b2) < max_length"
    and "dials s = Some (packet h1 b1 @ packet h2 b2 @ concat (map (\<lambda>(h, b). packet h b) ps) @
      publishPlain controlResponseTopic body @ rest) # ds"
    and "list_all (\<lambda>(h, b). no_response h b) ps" "int (length body) < 200000000"
  shows "let out = runCommand u cfg command tolerated s in
    if connection_accepted (packet h1 b1)
    then fst out = verdict u tolerated body \<and> dials (snd out) = ds \<and> io_ok (snd out) = io_ok s \<and>
      sent (snd out) = sent s @ [connectPacket cfg, subscribePacket controlResponseTopic 1, request_packet command]
    else fst out = Inl (ErrText ''mqtt connection rejected'') \<and> sent (snd out) = sent s @ [connectPacket cfg]"
proof -
  let ?r3 = "publishPlain controlResponseTopic body @ rest"
  let ?r2 = "concat (map (\<lambda>(h, b). packet h b) ps) @ ?r3"
  have d: "dialMQTT s = (Inr (), s\<lparr>dials := ds, unread := packet h1 b1 @ packet h2 b2 @ ?r2\<rparr>)"
    using assms(4) by (simp add: dialMQTT_def)
  have r1: "readPacket t = (Inr (packet h1 b1), t\<lparr>unread := packet h2 b2 @ ?r2\<rparr>)"
    if "unread t = packet h1 b1 @ packet h2 b2 @ ?r2" for t by (rule readPacket_packet [OF that assms(2)])
  have r2: "readPacket t = (Inr (packet h2 b2), t\<lparr>unread := ?r2\<rparr>)" if "unread t = packet h2 b2 @ ?r2" for t
    by (rule readPacket_packet [OF that assms(3)])
  have aw: "await u tolerated t = (verdict u tolerated body, t\<lparr>unread := rest\<rparr>)" if "unread t = ?r2" for t
  proof -
    have "await u tolerated t = await u tolerated (t\<lparr>unread := ?r3\<rparr>)"
      unfolding await_def by (simp add: await_skips_all [OF that assms(5)])
    then show ?thesis using await_verdict [of "t\<lparr>unread := ?r3\<rparr>" body rest] assms(6) by simp
  qed
  show ?thesis
    using assms(1) unfolding runCommand_def bindE_def Let_def request_packet_def
    by (simp add: d r1 r2 aw SetDeadline_fine writePacket_fine throwE_def)
qed

text \<open>
  C35: What a command comes back with: the broker accepts the connection, answers the subscription, sends
  whatever else it has, none of it a response, and then a response; the result is the verdict on that
  response, success when it has no error or a tolerated one. The three packets written are the connection, the
  subscription and the command; a connection that is not accepted gets no command.
\<close>

theorem runCommand_answered:
  assumes "io_fine s" "int (length b1) < max_length" "int (length b2) < max_length"
    and "dials s = Some (packet h1 b1 @ packet h2 b2 @ concat (map (\<lambda>(h, b). packet h b) ps) @
      publishPlain controlResponseTopic body @ rest) # ds"
    and "list_all (\<lambda>(h, b). no_response h b) ps" "int (length body) < 200000000"
  shows "let out = runCommand u cfg command tolerated s in
    if connection_accepted (packet h1 b1)
    then fst out = verdict u tolerated body \<and> dials (snd out) = ds \<and> io_ok (snd out) = io_ok s \<and>
      sent (snd out) = sent s @ [connectPacket cfg, subscribePacket controlResponseTopic 1, request_packet command]
    else fst out = Inl (ErrText ''mqtt connection rejected'') \<and> sent (snd out) = sent s @ [connectPacket cfg]"
  by (rule runCommand_answers [OF assms])

definition sample_response :: unmarshal where
  "sample_response body = (if body = [1] then Inr [(''createRole'', ''Role ALREADY EXISTS'')] else Inr [(''createRole'', '''')])"

definition answers_with :: "u8 list \<Rightarrow> u8 list" where
  "answers_with body = [0x20, 2, 0, 0, 0x90, 3, 0, 1, 0] @ publishPlain ''other'' [9] @ publishPlain controlResponseTopic body"

definition dynsec_net :: "nat \<Rightarrow> u8 \<Rightarrow> net" where
  "dynsec_net n b = \<lparr>dials = replicate n (Some (answers_with [b])), io_ok = \<lambda>_. True, io_no = 0, unread = [], sent = []\<rparr>"

lemma dynsec_net_simps [simp]: "io_fine (dynsec_net n b)" "sent (dynsec_net n b) = []"
  by (simp_all add: dynsec_net_def io_fine_def)

lemma sample_packets:
  "packet 0x20 [0, 0] = [0x20, 2, 0, 0]" "packet 0x90 [0, 1, 0] = [0x90, 3, 0, 1, 0]"
  by (simp_all add: packet_def encodeRemainingLength_def remaining_digits.simps Let_def)

lemma sample_frames:
  "answers_with b = packet 0x20 [0, 0] @ packet 0x90 [0, 1, 0] @
     concat (map (\<lambda>(h, b). packet h b) [(0x30, encodeString ''other'' @ [9])]) @ publishPlain controlResponseTopic b @ []"
  by (simp add: answers_with_def sample_packets publishPlain_def)

lemma sample_no_response: "list_all (\<lambda>(h, b). no_response h b) [(0x30, encodeString ''other'' @ [9])]"
proof -
  have "no_response 0x30 (encodeString ''other'' @ [9])"
    unfolding no_response_def max_length_def
    by (intro conjI impI exI [of _ "''other''"] exI [of _ "[9]"]) (simp_all add: controlResponseTopic_def)
  then show ?thesis by simp
qed

lemma sample_accepted: "connection_accepted (packet 0x20 [0, 0])"
  by (simp add: sample_packets connection_accepted_def)

theorem runCommand_answered_witness:
  "fst (runCommand sample_response sample_mqtt (role_command ''r'') [''already exists''] (dynsec_net 1 1)) = Inr () \<and>
   fst (runCommand sample_response sample_mqtt (role_command ''r'') [] (dynsec_net 1 1)) =
     Inl (ErrText ''dynsec command createRole failed: Role ALREADY EXISTS'')"
proof -
  have d: "dials (dynsec_net 1 1) = Some (answers_with [1]) # []" by (simp add: dynsec_net_def)
  have v: "verdict sample_response [''already exists''] [1] = Inr ()"
    "verdict sample_response [] [1] = Inl (ErrText ''dynsec command createRole failed: Role ALREADY EXISTS'')"
    by code_simp+
  note run = runCommand_answered [OF _ _ _ d [unfolded sample_frames] sample_no_response, where u = sample_response and
      cfg = sample_mqtt and command = "role_command ''r''"]
  from run [of "[''already exists'']"] run [of "[]"] show ?thesis
    by (simp add: sample_accepted v max_length_def Let_def)
qed

lemma sample_run_all:
  "io_fine s \<Longrightarrow> dials s = replicate (length cs + n) (Some (answers_with [2])) \<Longrightarrow>
    fst (run_all sample_response sample_mqtt cs s) = Inr () \<and>
    dials (snd (run_all sample_response sample_mqtt cs s)) = replicate n (Some (answers_with [2])) \<and>
    io_fine (snd (run_all sample_response sample_mqtt cs s))"
proof (induction cs arbitrary: s)
  case (Cons c cs)
  obtain command tolerated where c: "c = (command, tolerated)" by (cases c)
  let ?run = "runCommand sample_response sample_mqtt command tolerated s"
  have d: "dials s = Some (answers_with [2]) # replicate (length cs + n) (Some (answers_with [2]))"
    using Cons.prems(2) by simp
  have "verdict sample_response tolerated [2] = Inr ()" by (simp add: verdict_def sample_response_def)
  then have "fst ?run = Inr ()" "dials (snd ?run) = replicate (length cs + n) (Some (answers_with [2]))"
      "io_ok (snd ?run) = io_ok s"
    using runCommand_answers [OF Cons.prems(1) _ _ d [unfolded sample_frames] sample_no_response, of sample_response sample_mqtt
        command tolerated, folded sample_frames]
    by (simp_all add: sample_accepted max_length_def Let_def)
  moreover from this(3) have "io_fine (snd ?run)" using Cons.prems(1) by (simp add: io_fine_def)
  ultimately show ?case using Cons.IH [of "snd ?run"] by (cases ?run) (simp add: c bindE_def)
qed (simp add: returnE_def)

section \<open>Devices share a role\<close>

text \<open>
  How the plugin documents its rules: an account may subscribe to a topic when a role it was given has a
  rule of type \<open>subscribeLiteral\<close> for that topic.
\<close>

definition has_role :: "obj list \<Rightarrow> string \<Rightarrow> string \<Rightarrow> bool" where
  "has_role cs username role \<longleftrightarrow> (\<exists>pw. client_command ''createClient'' username pw role \<in> set cs \<or>
     client_command ''modifyClient'' username pw role \<in> set cs)"

definition may_subscribe :: "obj list \<Rightarrow> string \<Rightarrow> string \<Rightarrow> bool" where
  "may_subscribe cs username topic \<longleftrightarrow>
     (\<exists>role. has_role cs username role \<and> addRoleACL role (''subscribeLiteral'', topic) \<in> set cs)"

text \<open>
  C34: All devices share one role, and the rules for the topic of each are added to it: once two devices
  have been set up, each may subscribe to the commands of the other.
\<close>

theorem devices_share_topics:
  assumes "UpsertDevice u cfg d1 p1 s = (Inr (), s1)" "UpsertDevice u' cfg' d2 p2 s1 = (Inr (), s2)"
  shows "\<exists>cs. requests s2 = requests s @ map request_packet cs \<and>
    may_subscribe cs d2 (command_topic d1) \<and> may_subscribe cs d1 (command_topic d2)"
proof -
  let ?cs = "\<lambda>d p. map fst (account_commands device_role (device_acls d) d p)"
  have asks: "asked (?cs d p) t t'" if "UpsertDevice v c d p t = (Inr (), t')" for v c d p t t'
    using post_run_all [of v c "account_commands device_role (device_acls d) d p" t] that
    by (simp add: UpsertDevice_run throwE_def post_def split: if_splits)
  have "requests s2 = requests s @ map request_packet (?cs d1 p1 @ ?cs d2 p2)"
    using asks [OF assms(1)] asks [OF assms(2)] by (simp add: asked_def)
  moreover have "has_role (?cs d1 p1 @ ?cs d2 p2) d device_role" if "d = d1 \<or> d = d2" for d
    using that by (auto simp: has_role_def account_commands_def)
  moreover have "addRoleACL device_role (''subscribeLiteral'', command_topic d) \<in> set (?cs d1 p1 @ ?cs d2 p2)"
    if "d = d1 \<or> d = d2" for d
    using that by (auto simp: account_commands_def device_acls_def)
  ultimately show ?thesis unfolding may_subscribe_def by blast
qed

theorem devices_share_topics_witness:
  "\<exists>cs. requests (snd (UpsertDevice sample_response sample_mqtt ''d2'' ''s2''
       (snd (UpsertDevice sample_response sample_mqtt ''d1'' ''s1'' (dynsec_net 10 2))))) = map request_packet cs \<and>
     may_subscribe cs ''d2'' ''devices/d1/commands''"
proof -
  let ?s = "dynsec_net 10 2"
  let ?s1 = "snd (UpsertDevice sample_response sample_mqtt ''d1'' ''s1'' ?s)"
  let ?s2 = "snd (UpsertDevice sample_response sample_mqtt ''d2'' ''s2'' ?s1)"
  have given: "TrimSpace ''d1'' \<noteq> []" "TrimSpace ''s1'' \<noteq> []" "TrimSpace ''d2'' \<noteq> []" "TrimSpace ''s2'' \<noteq> []" by code_simp+
  let ?cs = "\<lambda>d p. account_commands device_role (device_acls d) d p"
  have five: "length (?cs d p) = 5" for d p by (simp add: account_commands_def device_acls_def)
  have "dials ?s = replicate (5 + 5) (Some (answers_with [2]))" by (simp add: dynsec_net_def)
  then have r1: "fst (UpsertDevice sample_response sample_mqtt ''d1'' ''s1'' ?s) = Inr ()"
      "dials ?s1 = replicate 5 (Some (answers_with [2]))" "io_fine ?s1"
    using sample_run_all [of ?s "?cs ''d1'' ''s1''" 5] given by (simp_all only: UpsertDevice_run five dynsec_net_simps) simp_all
  from r1(1) have 1: "UpsertDevice sample_response sample_mqtt ''d1'' ''s1'' ?s = (Inr (), ?s1)" by (simp add: prod_eq_iff)
  have "fst (UpsertDevice sample_response sample_mqtt ''d2'' ''s2'' ?s1) = Inr ()"
    using sample_run_all [of ?s1 "?cs ''d2'' ''s2''" 0] r1(2,3) given by (simp add: UpsertDevice_run five)
  then have 2: "UpsertDevice sample_response sample_mqtt ''d2'' ''s2'' ?s1 = (Inr (), ?s2)" by (simp add: prod_eq_iff)
  have "command_topic ''d1'' = ''devices/d1/commands''" "requests ?s = []"
    by (simp_all add: command_topic_def requests_def)
  with devices_share_topics [OF 1 2] show ?thesis by auto
qed

end
