(* ===== verification/RateLimit.thy ===== *)
theory RateLimit
  imports Complex_Main "HOL-Library.Sublist" Prelude
begin

text \<open>
  The limiter of \<open>httpx/rate_limit.go\<close>: a bucket of tokens for each rule and client. Times and durations are
  nanoseconds. The code keeps the tokens as a \<open>float64\<close>; here they are exact rationals, so that rounding
  is not modelled. The mutex makes each call of \<open>allow\<close> one step; the clock is read before it is taken, so
  that calls may come out of the order of their times.
\<close>

section \<open>Rules and buckets\<close>

record rate_rule =
  rl_name :: string
  rl_method :: string
  rl_prefix :: string
  rl_burst :: int
  rl_refill :: int
  rl_retry :: int

record bucket =
  bk_tokens :: rat
  bk_last :: int

type_synonym buckets = "string \<rightharpoonup> bucket"

text \<open>What the limiter reads of a request; \<open>rq_host\<close> is the host of \<open>net.SplitHostPort\<close>, if it succeeds.\<close>

record limited_request =
  rq_method :: string
  rq_path :: string
  rq_remote :: string
  rq_host :: "string option"

definition one_second :: int where "one_second = 1000000000"

text \<open>The zero \<open>time.Time\<close>, year 1, before any reading of the clock.\<close>

definition zero_clock :: int where "zero_clock = -62135596800000000000"

fun match_rule :: "limited_request \<Rightarrow> rate_rule list \<Rightarrow> rate_rule option \<Rightarrow> rate_rule option" where
  "match_rule r [] matched = matched"
| "match_rule r (rule # rules) matched =
     (if rl_method rule \<noteq> [] \<and> rl_method rule \<noteq> rq_method r then match_rule r rules matched
      else if rl_prefix rule \<noteq> [] \<and> \<not> prefix (rl_prefix rule) (rq_path r) then match_rule r rules matched
      else case matched of
          None \<Rightarrow> match_rule r rules (Some rule)
        | Some m \<Rightarrow> if length (rl_prefix rule) > length (rl_prefix m) then match_rule r rules (Some rule)
            else match_rule r rules matched)"

definition matchRule :: "rate_rule list \<Rightarrow> limited_request \<Rightarrow> rate_rule option" where
  "matchRule rules r = match_rule r rules None"

definition rateLimitKey :: "string \<Rightarrow> limited_request \<Rightarrow> string" where
  "rateLimitKey scope r =
     (let host = (case rq_host r of Some h \<Rightarrow> h | None \<Rightarrow> rq_remote r);
          s = (if scope = [] then rq_method r @ '' '' @ rq_path r else scope)
      in s @ ''|'' @ host)"

definition refill_interval :: "rate_rule \<Rightarrow> int" where
  "refill_interval rule = (if rl_refill rule \<le> 0 then one_second else rl_refill rule)"

text \<open>What time adds to a bucket.\<close>

definition refilled :: "rate_rule \<Rightarrow> int \<Rightarrow> bucket \<Rightarrow> bucket" where
  "refilled rule now b =
     (let b = (if bk_last b = zero_clock then b\<lparr>bk_last := now\<rparr> else b);
          elapsed = now - bk_last b
      in if elapsed > 0
         then let refill = of_int elapsed / of_int (refill_interval rule) in
           \<lparr>bk_tokens = (if refill > 0 then min (of_int (rl_burst rule)) (bk_tokens b + refill) else bk_tokens b),
            bk_last = now\<rparr>
         else b)"

definition allow_key :: "rate_rule \<Rightarrow> string \<Rightarrow> int \<Rightarrow> buckets \<Rightarrow> bool \<times> buckets" where
  "allow_key rule key now bs =
     (if rl_burst rule \<le> 0 then (True, bs)
      else case bs key of
          None \<Rightarrow> (True, bs(key \<mapsto> \<lparr>bk_tokens = of_int (rl_burst rule - 1), bk_last = now\<rparr>))
        | Some b \<Rightarrow>
            let b = refilled rule now b in
            if bk_tokens b < 1 then (False, bs(key \<mapsto> b))
            else (True, bs(key \<mapsto> b\<lparr>bk_tokens := bk_tokens b - 1\<rparr>)))"

definition allow :: "rate_rule \<Rightarrow> limited_request \<Rightarrow> int \<Rightarrow> buckets \<Rightarrow> bool \<times> buckets" where
  "allow rule r now bs = allow_key rule (rateLimitKey (rl_name rule) r) now bs"

text \<open>\<open>math.Ceil\<close> of the seconds, at least one.\<close>

definition strconvDurationSeconds :: "int \<Rightarrow> int" where
  "strconvDurationSeconds d = max 1 (- ((- d) div one_second))"

datatype limited = Passed | TooMany int

definition ServeHTTP :: "rate_rule list \<Rightarrow> limited_request \<Rightarrow> int \<Rightarrow> buckets \<Rightarrow> limited \<times> buckets" where
  "ServeHTTP rules r now bs =
     (case matchRule rules r of
        None \<Rightarrow> (Passed, bs)
      | Some rule \<Rightarrow>
          let (ok, bs') = allow rule r now bs;
              retryAfter = (if rl_retry rule \<le> 0 then one_second else rl_retry rule)
          in if ok then (Passed, bs') else (TooMany (strconvDurationSeconds retryAfter), bs'))"

section \<open>The rule that applies\<close>

definition applies :: "limited_request \<Rightarrow> rate_rule \<Rightarrow> bool" where
  "applies r rule \<longleftrightarrow> (rl_method rule = [] \<or> rl_method rule = rq_method r) \<and> prefix (rl_prefix rule) (rq_path r)"

lemma match_rule_best:
  "case match_rule r rules m of
     None \<Rightarrow> m = None \<and> (\<forall>x \<in> set rules. \<not> applies r x)
   | Some y \<Rightarrow> (m = Some y \<or> y \<in> set rules \<and> applies r y) \<and>
       (\<forall>x \<in> set rules \<union> set_option m. x \<in> set_option m \<or> applies r x \<longrightarrow> length (rl_prefix x) \<le> length (rl_prefix y))"
proof (induction rules arbitrary: m)
  case (Cons x rules)
  show ?case
  proof (cases "applies r x")
    case False
    then have "match_rule r (x # rules) m = match_rule r rules m" by (auto simp: applies_def)
    then show ?thesis using Cons [of m] False by (fastforce split: option.splits)
  next
    case True
    then have step: "match_rule r (x # rules) m = match_rule r rules
        (case m of None \<Rightarrow> Some x | Some y \<Rightarrow> if length (rl_prefix y) < length (rl_prefix x) then Some x else m)"
      by (auto simp: applies_def split: option.split)
    show ?thesis
      unfolding step
      using Cons [of "case m of None \<Rightarrow> Some x | Some y \<Rightarrow> if length (rl_prefix y) < length (rl_prefix x) then Some x else m"] True
      by (cases m) (fastforce split: option.splits if_splits)+
  qed
qed (auto split: option.split)

section \<open>How many requests pass\<close>

text \<open>A sequence of calls for the keys of one rule, and how many of those for \<open>key\<close> are let through.\<close>

fun admitted :: "rate_rule \<Rightarrow> string \<Rightarrow> (string \<times> int) list \<Rightarrow> buckets \<Rightarrow> nat" where
  "admitted rule key [] bs = 0"
| "admitted rule key ((k, t) # cs) bs =
     (let (ok, bs') = allow_key rule k t bs in (if ok \<and> k = key then 1 else 0) + admitted rule key cs bs')"

lemma allow_key_other: "k \<noteq> key \<Longrightarrow> snd (allow_key rule k t bs) key = bs key"
  by (simp add: allow_key_def Let_def split: option.split)

lemma refill_interval_pos: "0 < refill_interval rule"
  by (simp add: refill_interval_def one_second_def)

lemma refilled_bucket:
  assumes "bk_last b \<noteq> zero_clock"
  shows "bk_last (refilled rule now b) = max now (bk_last b)"
    "bk_tokens (refilled rule now b) \<le>
      bk_tokens b + of_int (bk_last (refilled rule now b) - bk_last b) / of_int (refill_interval rule)"
    "0 \<le> bk_tokens b \<Longrightarrow> 0 < rl_burst rule \<Longrightarrow> 0 \<le> bk_tokens (refilled rule now b)"
proof -
  have pos: "0 < (of_int (refill_interval rule) :: rat)" by (simp add: refill_interval_pos)
  have div: "0 < (of_int (now - bk_last b) :: rat) / of_int (refill_interval rule)" if "bk_last b < now"
    using that pos by (intro divide_pos_pos) simp_all
  show "bk_last (refilled rule now b) = max now (bk_last b)"
    using assms by (simp add: refilled_def Let_def)
  show "bk_tokens (refilled rule now b) \<le>
      bk_tokens b + of_int (bk_last (refilled rule now b) - bk_last b) / of_int (refill_interval rule)"
    using assms div by (cases "bk_last b < now") (simp_all add: refilled_def Let_def)
  show "0 \<le> bk_tokens (refilled rule now b)" if "0 \<le> bk_tokens b" "0 < rl_burst rule"
    using assms that div by (auto simp: refilled_def Let_def)
qed

text \<open>What passes is paid for by the tokens there were and the time since the bucket was last seen.\<close>

lemma admitted_paid:
  assumes "0 < rl_burst rule" "\<forall>(k, t) \<in> set cs. zero_clock < t \<and> t \<le> hi"
    and "bs key = Some b" "zero_clock < bk_last b" "bk_last b \<le> hi" "0 \<le> bk_tokens b"
  shows "of_nat (admitted rule key cs bs) \<le> bk_tokens b + of_int (hi - bk_last b) / of_int (refill_interval rule)"
  using assms(2-)
proof (induction cs arbitrary: bs b)
  case Nil
  have "0 \<le> (of_int (hi - bk_last b) :: rat) / of_int (refill_interval rule)"
    using Nil(4) refill_interval_pos [of rule] by (intro divide_nonneg_pos) simp_all
  then show ?case using Nil(5) by simp
next
  case (Cons c cs)
  obtain k t where c: "c = (k, t)" by (cases c)
  have t: "zero_clock < t" "t \<le> hi" "\<forall>(k, t) \<in> set cs. zero_clock < t \<and> t \<le> hi" using Cons.prems(1) c by auto
  show ?case
  proof (cases "k = key")
    case False
    then have "snd (allow_key rule k t bs) key = Some b" using Cons.prems(2) by (simp add: allow_key_other)
    then have "of_nat (admitted rule key cs (snd (allow_key rule k t bs))) \<le>
        bk_tokens b + of_int (hi - bk_last b) / of_int (refill_interval rule)"
      by (intro Cons.IH t(3) Cons.prems(3-5))
    then show ?thesis using False by (simp add: c split_beta)
  next
    case True
    let ?b = "refilled rule t b" and ?I = "of_int (refill_interval rule) :: rat"
    have nz: "bk_last b \<noteq> zero_clock" using Cons.prems(3) by simp
    note re = refilled_bucket [OF nz, where rule = rule and now = t]
    have last: "zero_clock < bk_last ?b" "bk_last ?b \<le> hi" using re(1) t Cons.prems(3,4) by (simp_all add: max_def)
    have paid: "bk_tokens ?b + of_int (hi - bk_last ?b) / ?I \<le> bk_tokens b + of_int (hi - bk_last b) / ?I"
      using re(2) by (simp add: diff_divide_distrib)
    show ?thesis
    proof (cases "bk_tokens ?b < 1")
      case no: True
      then have a: "allow_key rule key t bs = (False, bs(key \<mapsto> ?b))"
        using assms(1) Cons.prems(2) True by (simp add: allow_key_def Let_def)
      have "of_nat (admitted rule key cs (bs(key \<mapsto> ?b))) \<le> bk_tokens ?b + of_int (hi - bk_last ?b) / ?I"
        by (rule Cons.IH [OF t(3) _ last re(3)]) (use assms(1) Cons.prems(5) in simp_all)
      then show ?thesis using paid True by (simp add: c a)
    next
      case yes: False
      let ?b' = "?b\<lparr>bk_tokens := bk_tokens ?b - 1\<rparr>"
      have a: "allow_key rule key t bs = (True, bs(key \<mapsto> ?b'))"
        using assms(1) Cons.prems(2) True yes by (simp add: allow_key_def Let_def)
      have "of_nat (admitted rule key cs (bs(key \<mapsto> ?b'))) \<le> bk_tokens ?b' + of_int (hi - bk_last ?b') / ?I"
        by (rule Cons.IH [OF t(3)]) (use last yes in simp_all)
      then show ?thesis using paid True by (simp add: c a)
    qed
  qed
qed


text \<open>The rules of \<open>api/v1/router.go\<close>.\<close>

definition defaultRateLimitRules :: "rate_rule list" where
  "defaultRateLimitRules =
     [\<lparr>rl_name = ''admin-login'', rl_method = ''POST'', rl_prefix = ''/admin/login'', rl_burst = 100,
       rl_refill = 10 * one_second, rl_retry = 10 * one_second\<rparr>,
      \<lparr>rl_name = ''admin-command-create'', rl_method = ''POST'', rl_prefix = ''/admin/commands/create'', rl_burst = 100,
       rl_refill = 10 * one_second, rl_retry = 10 * one_second\<rparr>,
      \<lparr>rl_name = ''enrollment'', rl_method = ''POST'', rl_prefix = ''/api/v1/enrollment'', rl_burst = 20,
       rl_refill = 2 * one_second, rl_retry = 2 * one_second\<rparr>]"


end
