(* ===== verification/Plugins.thy ===== *)
theory Plugins
  imports Dashboard
begin

text \<open>
  \<open>plugins/manager.go\<close>: the plugins that the server is built with, the commands and the actions on a device they
  add to the dashboard, and the permissions they know. A manager is \<open>None\<close> when there is none. The
  normalisation of a plugin writes into the caller's slice of actions before it copies it; the value
  kept is what the model has.
\<close>

section \<open>Plugins\<close>

record route_spec =
  rt_method :: string
  rt_path :: string

record device_action =
  da_plugin :: string
  da_action :: string
  da_label :: string
  da_href :: string
  da_permission :: string
  da_enabled :: bool
  da_reason :: string

record command_type =
  ct_type :: string
  ct_label :: string
  ct_scope :: string
  ct_schema :: string
  ct_permission :: string

record plugin =
  pl_id :: string
  pl_name :: string
  pl_description :: string
  pl_enabled :: bool
  pl_permissions :: "string list"
  pl_routes :: "route_spec list"
  pl_actions :: "device_action list"
  pl_commands :: "command_type list"

record plugin_manager =
  pm_enabled :: bool
  pm_plugins :: "plugin list"

definition clonePlugin :: "plugin \<Rightarrow> plugin" where
  "clonePlugin def = def\<lparr>pl_actions := map (\<lambda>a. if TrimSpace (da_plugin a) = [] then a\<lparr>da_plugin := pl_id def\<rparr> else a)
     (pl_actions def)\<rparr>"

text \<open>The map from identifiers to plugins: a later plugin replaces an earlier one of the same identifier.\<close>

fun plugins_by_id :: "plugin list \<Rightarrow> (string \<times> plugin) list \<Rightarrow> (string \<times> plugin) list" where
  "plugins_by_id [] m = m"
| "plugins_by_id (def # defs) m =
     (let i = TrimSpace (pl_id def) in
      if i = [] then plugins_by_id defs m
      else plugins_by_id defs (AList.update i (clonePlugin (def\<lparr>pl_id := i\<rparr>)) m))"

definition normalizePlugins :: "plugin list \<Rightarrow> plugin list" where
  "normalizePlugins defs =
     (let m = plugins_by_id defs [] in map (\<lambda>i. the (map_of m i)) (sort (map fst m)))"

definition Disabled :: "plugin_manager" where
  "Disabled = \<lparr>pm_enabled = False, pm_plugins = []\<rparr>"

definition new_manager :: "plugin list \<Rightarrow> plugin_manager" where
  "new_manager defs = \<lparr>pm_enabled = True, pm_plugins = normalizePlugins defs\<rparr>"

section \<open>What a session may use\<close>

definition holds_permission :: "session \<Rightarrow> string \<Rightarrow> bool" where
  "holds_permission ses raw \<longleftrightarrow> TrimSpace raw = [] \<or> HasPermission (ses_permissions ses) (TrimSpace raw)"

text \<open>\<open>strings.ReplaceAll\<close> of a text that is not empty, and \<open>url.PathEscape\<close>.\<close>

function ReplaceAll :: "string \<Rightarrow> string \<Rightarrow> string \<Rightarrow> string" where
  "ReplaceAll old new [] = []"
| "ReplaceAll old new (c # s) =
     (if old \<noteq> [] \<and> prefix old (c # s) then new @ ReplaceAll old new (drop (length old) (c # s))
      else c # ReplaceAll old new s)"
  by pat_completeness auto
termination by (relation "measure (\<lambda>(old, new, s). length s)") auto

definition path_plain :: "char \<Rightarrow> bool" where
  "path_plain c \<longleftrightarrow> between 48 57 c \<or> between 65 90 c \<or> between 97 122 c \<or> c \<in> set ''-_.~$&+=:@''"

definition PathEscape :: "string \<Rightarrow> string" where
  "PathEscape s = concat (map (\<lambda>c. if path_plain c then [c]
     else [CHR ''%'', upper_hex (byte c div 16), upper_hex (byte c mod 16)]) s)"

definition resolveDeviceActionHref :: "string \<Rightarrow> string \<Rightarrow> string" where
  "resolveDeviceActionHref href deviceID =
     (if TrimSpace href = [] then []
      else let escaped = PathEscape deviceID in
        ReplaceAll ''{deviceId}'' escaped (ReplaceAll ''{{deviceId}}'' escaped href))"

definition DeviceActionsFor :: "plugin_manager option \<Rightarrow> session option \<Rightarrow> string \<Rightarrow> device_action list" where
  "DeviceActionsFor pm ses deviceID =
     (case (pm, ses) of
        (Some m, Some s) \<Rightarrow>
          if \<not> pm_enabled m then []
          else concat (map (\<lambda>p. if \<not> pl_enabled p then []
            else map (\<lambda>a. a\<lparr>da_plugin := pl_id p, da_href := resolveDeviceActionHref (da_href a) deviceID, da_enabled := True\<rparr>)
              (filter (\<lambda>a. da_enabled a \<and> holds_permission s (da_permission a) \<and> TrimSpace (da_href a) \<noteq> []) (pl_actions p)))
            (pm_plugins m))
      | _ \<Rightarrow> [])"

definition offered :: "command_type \<Rightarrow> command_type" where
  "offered c = (let t = TrimSpace (ct_type c) in
     c\<lparr>ct_type := t, ct_label := (if TrimSpace (ct_label c) = [] then t else ct_label c)\<rparr>)"

definition CommandTypesFor :: "plugin_manager option \<Rightarrow> session option \<Rightarrow> command_type list" where
  "CommandTypesFor pm ses =
     (case (pm, ses) of
        (Some m, Some s) \<Rightarrow>
          if \<not> pm_enabled m then []
          else concat (map (\<lambda>p. if \<not> pl_enabled p then []
            else map offered (filter (\<lambda>c. TrimSpace (ct_type c) \<noteq> [] \<and> holds_permission s (ct_permission c)) (pl_commands p)))
            (pm_plugins m))
      | _ \<Rightarrow> [])"

definition SupportsCommandType :: "plugin_manager option \<Rightarrow> session option \<Rightarrow> string \<Rightarrow> command_type option" where
  "SupportsCommandType pm ses raw =
     (let t = TrimSpace raw in
      if t = [] then None else find (\<lambda>spec. ct_type spec = t) (CommandTypesFor pm ses))"

text \<open>The dashboard with its manager.\<close>

definition with_plugins :: "plugin_manager option \<Rightarrow> dashboard \<Rightarrow> dashboard" where
  "with_plugins pm d = d\<lparr>plugin_command := \<lambda>ses t. SupportsCommandType pm (Some ses) t \<noteq> None\<rparr>"

section \<open>Permissions\<close>

definition plugin_permissions :: "plugin \<Rightarrow> string list" where
  "plugin_permissions p = filter (\<lambda>s. s \<noteq> []) (map TrimSpace
     (pl_permissions p @ map da_permission (pl_actions p) @ map ct_permission (pl_commands p)))"

definition permissionCatalog :: "plugin list \<Rightarrow> permission list" where
  "permissionCatalog ps = sort (remdups (AllPermissions @ concat (map plugin_permissions ps)))"

definition PermissionCatalog :: "plugin_manager option \<Rightarrow> permission list" where
  "PermissionCatalog pm = (case pm of None \<Rightarrow> AllPermissions | Some m \<Rightarrow> permissionCatalog (pm_plugins m))"

section \<open>The catalog endpoint\<close>

text \<open>The route exists only when the manager is enabled; the permission is looked at before the method.\<close>

definition get_plugins :: "plugin_manager option \<Rightarrow> request \<Rightarrow> plugin list handler" where
  "get_plugins pm r =
     (case pm of
        None \<Rightarrow> answer http_not_found
      | Some m \<Rightarrow> if \<not> pm_enabled m then answer http_not_found
          else with_session r (\<lambda>ses. permitted ses PermissionAdminRead (
            if req_method r \<noteq> ''GET'' then answer method_not_allowed else answer (Reply (pm_plugins m)))))"

section \<open>What the manager keeps\<close>

lemma plugins_by_id_map:
  "map_of (plugins_by_id defs m) i = (case find (\<lambda>d. TrimSpace (pl_id d) = i \<and> i \<noteq> []) (rev defs) of
     Some d \<Rightarrow> Some (clonePlugin (d\<lparr>pl_id := i\<rparr>)) | None \<Rightarrow> map_of m i)"
proof (induction defs arbitrary: m)
  case (Cons d defs)
  have find_snoc: "find P (xs @ [x]) = (case find P xs of None \<Rightarrow> if P x then Some x else None | Some y \<Rightarrow> Some y)"
    for P :: "plugin \<Rightarrow> bool" and xs x by (induction xs) auto
  show ?case
    by (cases "find (\<lambda>d. TrimSpace (pl_id d) = i \<and> i \<noteq> []) (rev defs)") (auto simp: find_snoc Cons Let_def update_conv')
qed simp

lemma plugins_by_id_distinct: "distinct (map fst m) \<Longrightarrow> distinct (map fst (plugins_by_id defs m))"
  by (induction defs m rule: plugins_by_id.induct) (simp_all add: Let_def distinct_update)

lemma find_last:
  "find P (rev xs) = Some d \<longleftrightarrow> (\<exists>as bs. xs = as @ d # bs \<and> P d \<and> (\<forall>b \<in> set bs. \<not> P b))"
proof (induction xs rule: rev_induct)
  case (snoc x xs)
  have "(\<exists>as bs. xs @ [x] = as @ d # bs \<and> P d \<and> (\<forall>b \<in> set bs. \<not> P b)) \<longleftrightarrow>
      (x = d \<and> P d) \<or> (\<not> P x \<and> (\<exists>as bs. xs = as @ d # bs \<and> P d \<and> (\<forall>b \<in> set bs. \<not> P b)))" (is "?l \<longleftrightarrow> ?r")
  proof
    assume ?l
    then obtain as bs where l: "xs @ [x] = as @ d # bs" "P d" "\<forall>b \<in> set bs. \<not> P b" by blast
    then show ?r by (cases bs rule: rev_cases) auto
  next
    assume ?r
    then show ?l
    proof (elim disjE conjE exE)
      fix as bs assume "\<not> P x" "xs = as @ d # bs" "P d" "\<forall>b \<in> set bs. \<not> P b"
      then show ?l by (intro exI [of _ as] exI [of _ "bs @ [x]"]) auto
    qed (intro exI [of _ xs] exI [of _ "[]"], simp)
  qed
  then show ?case using snoc by auto
qed simp

text \<open>
  The plugins of a manager are in the order of their identifiers, each identifier once and none
  empty, and they are exactly the definitions given: for each trimmed identifier the last definition that has it.
\<close>

theorem normalizePlugins_last:
  "sorted_wrt (<) (map pl_id (normalizePlugins defs)) \<and>
   (p \<in> set (normalizePlugins defs) \<longleftrightarrow>
     (\<exists>xs d ys. defs = xs @ d # ys \<and> TrimSpace (pl_id d) \<noteq> [] \<and> p = clonePlugin (d\<lparr>pl_id := TrimSpace (pl_id d)\<rparr>) \<and>
        (\<forall>y \<in> set ys. TrimSpace (pl_id y) \<noteq> TrimSpace (pl_id d))))"
proof -
  let ?m = "plugins_by_id defs []" and ?P = "\<lambda>i d. TrimSpace (pl_id d) = i \<and> i \<noteq> []"
  have at: "map_of ?m i = map_option (\<lambda>d. clonePlugin (d\<lparr>pl_id := i\<rparr>)) (find (?P i) (rev defs))" for i
    by (simp add: plugins_by_id_map split: option.split)
  have dist: "distinct (map fst ?m)" by (simp add: plugins_by_id_distinct)
  have id: "pl_id (the (map_of ?m i)) = i" if "i \<in> fst ` set ?m" for i
  proof -
    from that obtain q where "map_of ?m i = Some q" by (auto simp: weak_map_of_SomeI dest: weak_map_of_SomeI)
    then show ?thesis by (auto simp: at clonePlugin_def)
  qed
  have ids: "map pl_id (normalizePlugins defs) = sort (map fst ?m)"
    using id by (auto simp: normalizePlugins_def Let_def intro!: map_idI)
  have "sorted_wrt (<) (map pl_id (normalizePlugins defs))"
    unfolding ids using dist by (simp add: strict_sorted_iff)
  moreover have "p \<in> set (normalizePlugins defs) \<longleftrightarrow> (\<exists>i. map_of ?m i = Some p)"
    by (auto simp: normalizePlugins_def Let_def dist intro!: rev_image_eqI dest: map_of_SomeD)
  moreover have "(\<exists>i. map_of ?m i = Some p) \<longleftrightarrow>
      (\<exists>xs d ys. defs = xs @ d # ys \<and> TrimSpace (pl_id d) \<noteq> [] \<and> p = clonePlugin (d\<lparr>pl_id := TrimSpace (pl_id d)\<rparr>) \<and>
        (\<forall>y \<in> set ys. TrimSpace (pl_id y) \<noteq> TrimSpace (pl_id d)))"
    (is "?l \<longleftrightarrow> ?r")
  proof
    assume ?r
    then obtain xs d ys where d: "defs = xs @ d # ys" "TrimSpace (pl_id d) \<noteq> []"
        "p = clonePlugin (d\<lparr>pl_id := TrimSpace (pl_id d)\<rparr>)" "\<forall>y \<in> set ys. TrimSpace (pl_id y) \<noteq> TrimSpace (pl_id d)" by blast
    then have "find (?P (TrimSpace (pl_id d))) (rev defs) = Some d"
      unfolding find_last by (intro exI [of _ xs] exI [of _ ys]) auto
    then show ?l using d(3) by (intro exI [of _ "TrimSpace (pl_id d)"]) (simp add: at)
  qed (auto simp: at find_last)
  ultimately show ?thesis by blast
qed

text \<open>
  The commands that the form accepts are the built-in ones and those that an enabled plugin of an
  enabled manager declares with a permission that the session holds, or none.
\<close>

theorem plugin_commands_allowed:
  "isAllowedCommandType (with_plugins pm d) ses raw \<longleftrightarrow> TrimSpace raw \<noteq> [] \<and> (IsBuiltinType (TrimSpace raw) \<or>
    (\<exists>m p c. pm = Some m \<and> pm_enabled m \<and> p \<in> set (pm_plugins m) \<and> pl_enabled p \<and> c \<in> set (pl_commands p) \<and>
       TrimSpace (ct_type c) = TrimSpace raw \<and> (TrimSpace (ct_permission c) = [] \<or>
       TrimSpace (ct_permission c) \<in> set (ses_permissions ses))))"
proof -
  have "SupportsCommandType pm (Some ses) (TrimSpace raw) \<noteq> None \<longleftrightarrow> TrimSpace raw \<noteq> [] \<and>
    (\<exists>spec \<in> set (CommandTypesFor pm (Some ses)). ct_type spec = TrimSpace raw)"
    using find_None_iff [of "\<lambda>spec. ct_type spec = TrimSpace raw" "CommandTypesFor pm (Some ses)"]
    by (auto simp: SupportsCommandType_def Let_def)
  also have "\<dots> \<longleftrightarrow> TrimSpace raw \<noteq> [] \<and>
    (\<exists>m p c. pm = Some m \<and> pm_enabled m \<and> p \<in> set (pm_plugins m) \<and> pl_enabled p \<and> c \<in> set (pl_commands p) \<and>
       TrimSpace (ct_type c) = TrimSpace raw \<and> holds_permission ses (ct_permission c))"
    by (fastforce simp: CommandTypesFor_def offered_def Let_def split: option.splits if_splits)
  finally show ?thesis
    unfolding isAllowedCommandType_def Let_def with_plugins_def holds_permission_def HasPermission_iff by auto
qed

lemma permissionCatalog_set:
  "sorted_wrt (<) (permissionCatalog ps) \<and>
   set (permissionCatalog ps) = set AllPermissions \<union> (\<Union>p \<in> set ps. set (plugin_permissions p))"
  by (simp add: permissionCatalog_def strict_sorted_iff)

end
