(* ===== verification/Markup.thy ===== *)
theory Markup
  imports Web Enrollment Snapshot
begin

text \<open>
  The pieces the pages of the dashboard are put together from (\<open>admin/http/dashboard.go\<close>): escaping,
  panels, tables, badges and the links that turn the pages of a listing, as the strings the code writes.
  A scanner for HTML tags says what it means that such a piece is sound: whatever the data, it leaves
  no element, tag or attribute open and closes none it has not opened.
\<close>

section \<open>A scanner for tags\<close>

text \<open>
  Where the scanner is: in text, after \<open><\<close>, in the name of a tag, between its attributes, in a
  quoted value, after the slash of a tag without content, in an end tag, or lost. The second component of
  its state is the stack of open elements. In text and in values \<open>>\<close> is taken as an error too.
\<close>

datatype lexer = InText | TagStart | TagName string | InTag string | InValue string
  | TagSlash string | EndTag string | Lost

type_synonym scan_state = "lexer \<times> string list"

definition is_void :: "string \<Rightarrow> bool" where
  "is_void n \<longleftrightarrow> n \<in> set [''area'', ''base'', ''br'', ''col'', ''embed'', ''hr'', ''img'', ''input'', ''link'',
     ''meta'', ''source'', ''track'', ''wbr'']"

definition open_tag :: "string \<Rightarrow> string list \<Rightarrow> scan_state" where
  "open_tag n stk = (InText, if is_void n then stk else n # stk)"

fun close_tag :: "string \<Rightarrow> string list \<Rightarrow> scan_state" where
  "close_tag n [] = (Lost, [])"
| "close_tag n (m # stk) = (if m = n then (InText, stk) else (Lost, m # stk))"

fun scan_char :: "char \<Rightarrow> scan_state \<Rightarrow> scan_state" where
  "scan_char c (InText, stk) =
     (if c = CHR ''<'' then (TagStart, stk) else if c = CHR ''>'' then (Lost, stk) else (InText, stk))"
| "scan_char c (TagStart, stk) =
     (if c = CHR ''/'' then (EndTag [], stk)
      else if CHR ''a'' \<le> c \<and> c \<le> CHR ''z'' then (TagName [c], stk) else (Lost, stk))"
| "scan_char c (TagName n, stk) =
     (if c = CHR ''>'' then open_tag n stk else if c = CHR '' '' then (InTag n, stk)
      else if c = CHR ''/'' then (TagSlash n, stk)
      else if c = CHR ''<'' \<or> c = CHR 0x22 then (Lost, stk) else (TagName (n @ [c]), stk))"
| "scan_char c (InTag n, stk) =
     (if c = CHR ''>'' then open_tag n stk else if c = CHR 0x22 then (InValue n, stk)
      else if c = CHR ''/'' then (TagSlash n, stk) else if c = CHR ''<'' then (Lost, stk) else (InTag n, stk))"
| "scan_char c (InValue n, stk) =
     (if c = CHR 0x22 then (InTag n, stk) else if c = CHR ''<'' \<or> c = CHR ''>'' then (Lost, stk) else (InValue n, stk))"
| "scan_char c (TagSlash n, stk) = (if c = CHR ''>'' then (InText, stk) else (Lost, stk))"
| "scan_char c (EndTag n, stk) = (if c = CHR ''>'' then close_tag n stk else (EndTag (n @ [c]), stk))"
| "scan_char c (Lost, stk) = (Lost, stk)"

fun scan :: "string \<Rightarrow> scan_state \<Rightarrow> scan_state" where
  "scan [] st = st"
| "scan (c # s) st = scan s (scan_char c st)"

text \<open>A sound piece of a page, and text that can stand in the content or in a quoted value.\<close>

definition well_nested :: "string \<Rightarrow> bool" where
  "well_nested s \<longleftrightarrow> scan s (InText, []) = (InText, [])"

definition plain_text :: "string \<Rightarrow> bool" where
  "plain_text s \<longleftrightarrow> (\<forall>c \<in> set s. c \<notin> {CHR ''<'', CHR ''>'', CHR 0x22})"

lemma scan_append [simp]: "scan (s @ t) st = scan t (scan s st)"
  by (induction s arbitrary: st) auto

lemma scan_plain [simp]:
  "plain_text s \<Longrightarrow> scan s (InText, stk) = (InText, stk)"
  "plain_text s \<Longrightarrow> scan s (InValue n, stk) = (InValue n, stk)"
  by (induction s) (auto simp: plain_text_def)

text \<open>What is open before a sound piece stays open: the stack below is not looked at.\<close>

lemma scan_Lost [simp]: "scan s (Lost, stk) = (Lost, stk)"
  by (induction s) auto

lemma scan_char_frame:
  assumes "scan_char c (l, stk) = (l', stk')" "l' \<noteq> Lost"
  shows "scan_char c (l, stk @ below) = (l', stk' @ below)"
proof (cases l)
  case (EndTag n)
  with assms show ?thesis by (cases stk) (auto split: if_splits)
qed (use assms in \<open>auto simp: open_tag_def split: if_splits\<close>)

lemma scan_frame:
  "scan s (l, stk) = (l', stk') \<Longrightarrow> l' \<noteq> Lost \<Longrightarrow> scan s (l, stk @ below) = (l', stk' @ below)"
proof (induction s arbitrary: l stk)
  case (Cons c s)
  obtain m mid where mid: "scan_char c (l, stk) = (m, mid)" by force
  with Cons.prems have "m \<noteq> Lost" by auto
  with mid Cons show ?case by (simp add: scan_char_frame)
qed simp

lemma scan_well_nested [simp]: "well_nested s \<Longrightarrow> scan s (InText, stk) = (InText, stk)"
  using scan_frame [of s InText "[]" InText "[]" stk] by (simp add: well_nested_def)

lemma well_nested_append: "well_nested s \<Longrightarrow> well_nested t \<Longrightarrow> well_nested (s @ t)"
  by (simp add: well_nested_def)

lemma well_nested_concat: "(\<And>s. s \<in> set ss \<Longrightarrow> well_nested s) \<Longrightarrow> well_nested (concat ss)"
  by (induction ss) (auto simp: well_nested_def intro: well_nested_append)

lemma well_nested_concat_map [simp]:
  "(\<And>x. x \<in> set xs \<Longrightarrow> well_nested (f x)) \<Longrightarrow> well_nested (concat (map f xs))"
  by (rule well_nested_concat) auto

lemma well_nested_plain [simp]: "plain_text s \<Longrightarrow> well_nested s"
  by (simp add: well_nested_def)

lemma plain_text_simps [simp]:
  "plain_text []" "plain_text (c # s) \<longleftrightarrow> c \<notin> {CHR ''<'', CHR ''>'', CHR 0x22} \<and> plain_text s"
  "plain_text (s @ t) \<longleftrightarrow> plain_text s \<and> plain_text t"
  by (auto simp: plain_text_def)

lemmas tags = open_tag_def is_void_def well_nested_def

section \<open>Escaping\<close>

text \<open>\<open>template.HTMLEscapeString\<close>; \<open>esc\<close> and \<open>escAttr\<close> are both this function.\<close>

definition esc_char :: "char \<Rightarrow> string" where
  "esc_char c =
     (if c = CHR 0x00 then [CHR 0xEF, CHR 0xBF, CHR 0xBD]
      else if c = CHR 0x22 then ''&#34;''
      else if c = CHR 0x27 then ''&#39;''
      else if c = CHR ''&'' then ''&amp;''
      else if c = CHR ''<'' then ''&lt;''
      else if c = CHR ''>'' then ''&gt;''
      else [c])"

definition esc :: "string \<Rightarrow> string" where
  "esc v = concat (map esc_char v)"

definition escAttr :: "string \<Rightarrow> string" where
  "escAttr v = concat (map esc_char v)"

lemma plain_esc_char: "plain_text (esc_char c)"
  by (simp add: esc_char_def)

lemma plain_esc [simp]: "plain_text (esc v)" "plain_text (escAttr v)"
  by (induction v) (simp_all add: esc_def escAttr_def plain_esc_char)

section \<open>Times\<close>

definition em_dash :: string where
  "em_dash = [CHR 0xE2, CHR 0x80, CHR 0x94]"

definition middle_dot :: string where
  "middle_dot = [CHR 0xC2, CHR 0xB7]"

text \<open>
  The formatting of an instant in the server's time zone is an argument: \<open>local_time\<close> stands for
  \<open>t.Local().Format("02 Jan 2006, 15:04:05")\<close>.
\<close>

definition formatDashboardTime :: "(int \<Rightarrow> string) \<Rightarrow> int \<Rightarrow> string" where
  "formatDashboardTime local_time t = (if t = zero_time then em_dash else local_time t)"

section \<open>Panels, tables and badges\<close>

definition panelSectionHTML :: "string \<Rightarrow> string \<Rightarrow> string \<Rightarrow> string" where
  \<open>panelSectionHTML cls title body =
     ''<section class="panel'' @ (if TrimSpace cls \<noteq> [] then '' '' @ escAttr cls else []) @ ''">'' @
     (if TrimSpace title \<noteq> [] then ''<h2>'' @ esc title @ ''</h2>'' else []) @ body @ ''</section>''\<close>

definition collapsiblePanelHTML :: "string \<Rightarrow> bool \<Rightarrow> string \<Rightarrow> string" where
  \<open>collapsiblePanelHTML title opened body =
     ''<details class="panel"'' @ (if opened then '' open'' else []) @
     ''><summary><span class="panel-summary-title">'' @ esc title @
     ''</span></summary><div class="panel-body">'' @ body @ ''</div></details>''\<close>

definition panelMessageHTML :: "string \<Rightarrow> string \<Rightarrow> string" where
  \<open>panelMessageHTML title message = panelSectionHTML [] title (''<p class="muted">'' @ esc message @ ''</p>'')\<close>

definition detailsPanelHTML :: "string \<Rightarrow> string \<Rightarrow> string" where
  "detailsPanelHTML title body = panelSectionHTML [] title body"

definition tableHTML :: "string \<Rightarrow> string list \<Rightarrow> string \<Rightarrow> string" where
  \<open>tableHTML cls headers rows =
     ''<table'' @ (if TrimSpace cls \<noteq> [] then '' class="'' @ escAttr cls @ ''"'' else []) @ ''><thead><tr>'' @
     concat (map (\<lambda>h. ''<th>'' @ esc h @ ''</th>'') headers) @ ''</tr></thead><tbody>'' @ rows @
     ''</tbody></table>''\<close>

definition tableRowHTML :: "string list \<Rightarrow> string" where
  \<open>tableRowHTML cells = ''<tr>'' @ concat (map (\<lambda>cell. ''<td>'' @ cell @ ''</td>'') cells) @ ''</tr>''\<close>

definition boolBadge :: "bool \<Rightarrow> string \<Rightarrow> string \<Rightarrow> string" where
  \<open>boolBadge enabled enabledLabel disabledLabel =
     ''<span class="'' @ (if enabled then ''status-pill status-enabled'' else ''status-pill status-disabled'') @ ''">'' @
     esc (if enabled then enabledLabel else disabledLabel) @ ''</span>''\<close>

definition badge_class :: "string \<Rightarrow> string" where
  "badge_class st =
     (if st = ''pending'' then '' status-pending''
      else if st = ''active'' then '' status-active''
      else if st = ''enrolled'' then '' status-enrolled''
      else if st = ''issued'' then '' status-issued''
      else if st = ''consumed'' then '' status-consumed''
      else if st = ''expired'' then '' status-expired''
      else if st = ''revoked'' then '' status-retired''
      else if st = ''retired'' then '' status-retired''
      else [])"

definition statusBadge :: "string \<Rightarrow> string" where
  \<open>statusBadge st = ''<span class="'' @ ''status-pill'' @ badge_class st @ ''">'' @ esc st @ ''</span>''\<close>

definition summaryTextItem :: "string \<Rightarrow> string \<Rightarrow> string" where
  \<open>summaryTextItem label value =
     ''<div class="policy-summary-item"><div class="policy-summary-label">'' @ esc label @
     ''</div><div class="policy-summary-value">'' @ esc value @ ''</div></div>''\<close>

definition summaryHTMLItem :: "string \<Rightarrow> string \<Rightarrow> string" where
  \<open>summaryHTMLItem label value =
     ''<div class="policy-summary-item"><div class="policy-summary-label">'' @ esc label @
     ''</div><div class="policy-summary-value">'' @ value @ ''</div></div>''\<close>

definition summaryWideHTMLItem :: "string \<Rightarrow> string \<Rightarrow> string \<Rightarrow> string" where
  \<open>summaryWideHTMLItem label value valueClass =
     ''<div class="'' @ ''policy-summary-item policy-summary-wide'' @
     (if TrimSpace valueClass \<noteq> [] then '' '' @ escAttr valueClass else []) @
     ''"><div class="policy-summary-label">'' @ esc label @
     ''</div><div class="policy-summary-value">'' @ value @ ''</div></div>''\<close>

definition valueOrPillHTML :: "string \<Rightarrow> string \<Rightarrow> string" where
  \<open>valueOrPillHTML value cls =
     (if TrimSpace cls = [] then esc value else ''<span class="'' @ cls @ ''">'' @ esc value @ ''</span>'')\<close>

text \<open>A link to the page of a record, as the tables show it.\<close>

definition record_link :: "string \<Rightarrow> string \<Rightarrow> string \<Rightarrow> string" where
  \<open>record_link kind i label = ''<a href="/admin/'' @ kind @ ''/'' @ escAttr i @ ''">'' @ esc label @ ''</a>''\<close>

section \<open>Turning pages\<close>

text \<open>The URL of the request: its escaped path, and its query as \<open>url.Values\<close>, each key once.\<close>

record page_url =
  page_path :: string
  url_query :: "(string \<times> string list) list"

text \<open>\<open>Values.Del\<close>, \<open>Set\<close> and \<open>Encode\<close>.\<close>

definition del_key :: "string \<Rightarrow> (string \<times> string list) list \<Rightarrow> (string \<times> string list) list" where
  "del_key k q = filter (\<lambda>kv. fst kv \<noteq> k) q"

definition set_key :: "string \<Rightarrow> string \<Rightarrow> (string \<times> string list) list \<Rightarrow> (string \<times> string list) list" where
  "set_key k v q = (k, [v]) # del_key k q"

definition Encode :: "(string \<times> string list) list \<Rightarrow> string" where
  "Encode q = joined ''&'' (concat (map (\<lambda>(k, vs). map (\<lambda>v. QueryEscape k @ ''='' @ QueryEscape v) vs) (sort_key fst q)))"

definition url_string :: "page_url \<Rightarrow> (string \<times> string list) list \<Rightarrow> string" where
  "url_string u q = page_path u @ (if Encode q = [] then [] else ''?'' @ Encode q)"

definition with_limit :: "string \<Rightarrow> int \<Rightarrow> (string \<times> string list) list \<Rightarrow> (string \<times> string list) list" where
  "with_limit limitKey limit q = (if limit > 0 then set_key limitKey (FormatInt limit) q else q)"

definition prev_query :: "string \<Rightarrow> string \<Rightarrow> int \<Rightarrow> int \<Rightarrow> (string \<times> string list) list \<Rightarrow> (string \<times> string list) list" where
  "prev_query pageKey limitKey page limit q =
     with_limit limitKey limit (if page - 1 \<le> 1 then del_key pageKey q else set_key pageKey (FormatInt (page - 1)) q)"

definition next_query :: "string \<Rightarrow> string \<Rightarrow> int \<Rightarrow> int \<Rightarrow> (string \<times> string list) list \<Rightarrow> (string \<times> string list) list" where
  "next_query pageKey limitKey page limit q =
     with_limit limitKey limit (set_key pageKey (FormatInt (wrap64 (page + 1))) q)"

definition pagerHTMLForKeys :: "page_url \<Rightarrow> string \<Rightarrow> string \<Rightarrow> int \<Rightarrow> int \<Rightarrow> bool \<Rightarrow> string" where
  \<open>pagerHTMLForKeys u pageKey limitKey page limit hasNext =
     (if page \<le> 1 \<and> \<not> hasNext then []
      else ''<nav class="pager">'' @
        (if page > 1
         then ''<a href="'' @ escAttr (url_string u (prev_query pageKey limitKey page limit (url_query u))) @ ''">Previous</a>''
         else ''<span class="pager-disabled">Previous</span>'') @
        ''<span>Page '' @ FormatInt page @ ''</span>'' @
        (if hasNext
         then ''<a href="'' @ escAttr (url_string u (next_query pageKey limitKey page limit (url_query u))) @ ''">Next</a>''
         else ''<span class="pager-disabled">Next</span>'') @
        ''</nav>'')\<close>

definition pagerHTML :: "page_url \<Rightarrow> int \<Rightarrow> int \<Rightarrow> bool \<Rightarrow> string" where
  "pagerHTML u page limit hasNext = pagerHTMLForKeys u ''page'' ''limit'' page limit hasNext"

definition withPager :: "string \<Rightarrow> string \<Rightarrow> string" where
  "withPager content pager = (if TrimSpace pager = [] then content else content @ pager)"

section \<open>The pieces are sound\<close>

lemma plain_digit: "n < 10 \<Longrightarrow> plain_text [hex_digit n]"
proof -
  assume "n < 10"
  then have "hex_digit n \<in> set ''0123456789abcdef''" unfolding hex_digit_def by (intro nth_mem) simp
  moreover have "plain_text ''0123456789abcdef''" by simp
  ultimately have "hex_digit n \<notin> {CHR ''<'', CHR ''>'', CHR 0x22}" unfolding plain_text_def by (rule bspec [rotated])
  then show ?thesis by (simp only: plain_text_simps simp_thms)
qed

lemma plain_format_nat: "plain_text (format_nat n)"
proof (induction n rule: format_nat.induct)
  case (1 n)
  have "plain_text (format_nat (n div 10))" if "\<not> n < 10" using 1 that by simp
  with plain_digit [of n] plain_digit [of "n mod 10"] show ?case by (subst format_nat.simps) auto
qed

lemma plain_FormatInt [simp]: "plain_text (FormatInt i)"
  by (simp add: FormatInt_def plain_format_nat)

named_theorems pieces

lemma panelSectionHTML_sound [pieces]: "well_nested body \<Longrightarrow> well_nested (panelSectionHTML cls title body)"
  by (simp add: panelSectionHTML_def tags)

lemma collapsiblePanelHTML_sound [pieces]: "well_nested body \<Longrightarrow> well_nested (collapsiblePanelHTML title opened body)"
  by (simp add: collapsiblePanelHTML_def tags)

lemma panelMessageHTML_sound [pieces]: "well_nested (panelMessageHTML title message)"
  unfolding panelMessageHTML_def by (rule panelSectionHTML_sound) (simp add: tags)

lemma detailsPanelHTML_sound [pieces]: "well_nested body \<Longrightarrow> well_nested (detailsPanelHTML title body)"
  unfolding detailsPanelHTML_def by (rule panelSectionHTML_sound)

lemma tableHTML_sound [pieces]:
  assumes "well_nested rows"
  shows "well_nested (tableHTML cls headers rows)"
proof -
  have "well_nested (concat (map (\<lambda>h. ''<th>'' @ esc h @ ''</th>'') headers))"
    by (rule well_nested_concat_map) (simp add: tags)
  from scan_well_nested [OF this] scan_well_nested [OF assms] show ?thesis by (simp add: tableHTML_def tags del: scan_well_nested)
qed

lemma tableRowHTML_sound [pieces]:
  assumes "\<And>c. c \<in> set cells \<Longrightarrow> well_nested c"
  shows "well_nested (tableRowHTML cells)"
proof -
  have "well_nested (concat (map (\<lambda>c. ''<td>'' @ c @ ''</td>'') cells))"
    by (rule well_nested_concat_map) (use assms in \<open>simp add: open_tag_def is_void_def well_nested_def [of "_ @ _"] well_nested_def [of "_ # _"]\<close>)
  from scan_well_nested [OF this] show ?thesis by (simp add: tableRowHTML_def tags del: scan_well_nested)
qed

lemma boolBadge_sound [pieces]: "well_nested (boolBadge enabled l m)"
  by (simp add: boolBadge_def tags)

lemma plain_badge_class [simp]: "plain_text (badge_class st)"
  by (simp add: badge_class_def)

lemma statusBadge_sound [pieces]: "well_nested (statusBadge st)"
  by (simp add: statusBadge_def tags)

lemma summaryTextItem_sound [pieces]: "well_nested (summaryTextItem label value)"
  by (simp add: summaryTextItem_def tags)

lemma summaryHTMLItem_sound [pieces]: "well_nested value \<Longrightarrow> well_nested (summaryHTMLItem label value)"
  by (simp add: summaryHTMLItem_def tags)

lemma summaryWideHTMLItem_sound [pieces]: "well_nested value \<Longrightarrow> well_nested (summaryWideHTMLItem label value cls)"
  by (simp add: summaryWideHTMLItem_def tags)

lemma valueOrPillHTML_sound [pieces]: "plain_text cls \<Longrightarrow> well_nested (valueOrPillHTML value cls)"
  by (simp add: valueOrPillHTML_def tags)

lemma record_link_sound [pieces]: "plain_text kind \<Longrightarrow> well_nested (record_link kind i label)"
  by (simp add: record_link_def tags)

lemma pagerHTMLForKeys_sound [pieces]: "well_nested (pagerHTMLForKeys u pk lk page limit hasNext)"
  by (simp add: pagerHTMLForKeys_def tags)

lemma pagerHTML_sound [pieces]: "well_nested (pagerHTML u page limit hasNext)"
  unfolding pagerHTML_def by (rule pagerHTMLForKeys_sound)

lemma withPager_sound [pieces]: "well_nested content \<Longrightarrow> well_nested pager \<Longrightarrow> well_nested (withPager content pager)"
  by (simp add: withPager_def well_nested_append)

end
