(* ===== verification/Structured.thy ===== *)
theory Structured
  imports Markup
begin

text \<open>
  How the dashboard shows a record or a JSON document as nested tables (\<open>structuredData\<close> and what it
  calls, \<open>admin/http/dashboard.go\<close>). The code walks over a Go value by reflection; the datatype below
  holds what reflection sees of it.
\<close>

section \<open>Values\<close>

text \<open>
  A pointer or interface that is not nil is its target; nil is \<open>VNil\<close>. A field of a struct has its name
  and whether it is embedded; the types shown have exported fields only. Nil maps, slices and raw messages
  are \<open>None\<close>. A float is the text \<open>FormatFloat(x, 'f', -1, 64)\<close> gives for it.
\<close>

datatype gvalue = VNil | VTime int | VRaw "string option" | VBool bool | VString string | VInt int | VFloat string
  | VStruct "(string \<times> bool \<times> gvalue) list"
  | VMap "(string \<times> gvalue) list option"
  | VSlice "gvalue list option"

text \<open>What is outside: the time zone, \<open>json.Unmarshal\<close> into \<open>any\<close>, the text of a float, and \<open>json.MarshalIndent\<close>.\<close>

record formats =
  local_time :: "int \<Rightarrow> string"
  decode_json :: "string \<Rightarrow> json option"
  decimal_text :: "string \<Rightarrow> string"
  marshal_indent :: "gvalue \<Rightarrow> string option"

fun decoded :: "formats \<Rightarrow> json \<Rightarrow> gvalue" where
  "decoded fm JNull = VNil"
| "decoded fm (JBool b) = VBool b"
| "decoded fm (JNum n) = VFloat (decimal_text fm n)"
| "decoded fm (JStr s) = VString s"
| "decoded fm (JArr xs) = VSlice (Some (map (decoded fm) xs))"
| "decoded fm (JObj kvs) = VMap (Some (map (\<lambda>kv. (fst kv, decoded fm (snd kv))) kvs))"

fun isZeroValue :: "gvalue \<Rightarrow> bool" where
  "isZeroValue VNil = True"
| "isZeroValue (VTime t) = (t = zero_time)"
| "isZeroValue (VRaw r) = (r = None)"
| "isZeroValue (VBool b) = (\<not> b)"
| "isZeroValue (VString s) = (s = [])"
| "isZeroValue (VInt i) = (i = 0)"
| "isZeroValue (VFloat s) = (s = ''0'')"
| "isZeroValue (VStruct fs) = (\<forall>f \<in> set fs. isZeroValue (snd (snd f)))"
| "isZeroValue (VMap m) = (m = None)"
| "isZeroValue (VSlice xs) = (xs = None)"

definition isScalarKind :: "gvalue \<Rightarrow> bool" where
  "isScalarKind v = (case v of VBool _ \<Rightarrow> True | VString _ \<Rightarrow> True | VInt _ \<Rightarrow> True | VFloat _ \<Rightarrow> True | _ \<Rightarrow> False)"

definition shouldFlattenStructuredField :: "string \<Rightarrow> bool \<Rightarrow> gvalue \<Rightarrow> bool" where
  "shouldFlattenStructuredField fname embedded v =
     (case v of
        VStruct _ \<Rightarrow> embedded \<or> ToLower (TrimSpace fname) \<in> {''recordbase'', ''record'', ''base'', ''model''}
      | _ \<Rightarrow> False)"

section \<open>Labels\<close>

definition is_upper :: "char \<Rightarrow> bool" where
  "is_upper c \<longleftrightarrow> between 65 90 c"

fun label_words :: "string \<Rightarrow> char \<Rightarrow> string \<Rightarrow> string list" where
  "label_words cur prev [] = [cur]"
| "label_words cur prev (c # cs) =
     (if is_upper c \<and> \<not> is_upper prev then cur # label_words [c] c cs else label_words (cur @ [c]) c cs)"

definition fieldLabel :: "string \<Rightarrow> string" where
  "fieldLabel n = (if TrimSpace n = [] then ''Field'' else joined '' '' (label_words [hd n] (hd n) (tl n)))"

section \<open>Rendering\<close>

definition TrimSuffix :: "string \<Rightarrow> string \<Rightarrow> string" where
  "TrimSuffix s suf = (if suffix suf s then take (length s - length suf) s else s)"

definition TrimPrefix :: "string \<Rightarrow> string \<Rightarrow> string" where
  "TrimPrefix s pre = (if prefix pre s then drop (length pre) s else s)"

definition muted_dash :: string where
  \<open>muted_dash = ''<span class="structured-muted">'' @ em_dash @ ''</span>''\<close>

definition scalar_span :: "string \<Rightarrow> string" where
  \<open>scalar_span t = ''<span class="structured-scalar">'' @ t @ ''</span>''\<close>

definition key_row :: "string \<Rightarrow> string \<Rightarrow> string" where
  \<open>key_row k cell = ''<tr><th class="structured-key">'' @ esc k @ ''</th><td>'' @ cell @ ''</td></tr>''\<close>

definition key_table :: "string list \<Rightarrow> string" where
  \<open>key_table rows = ''<table class="structured-table"><tbody>'' @ concat rows @ ''</tbody></table>''\<close>

definition pill :: "string \<Rightarrow> string" where
  \<open>pill cell = ''<span class="structured-pill">'' @
     TrimPrefix (TrimSuffix cell ''</span>'') ''<span class="structured-scalar">'' @ ''</span>''\<close>

definition record_rows :: "string list \<Rightarrow> string" where
  \<open>record_rows cells =
     ''<table class="structured-table"><thead><tr><th class="structured-key">#</th><th>Record</th></tr></thead><tbody>'' @
     concat (map (\<lambda>(i, cell). ''<tr><td>'' @ FormatInt (int i + 1) @ ''</td><td>'' @ cell @ ''</td></tr>'')
       (zip [0..<length cells] cells)) @ ''</tbody></table>''\<close>

text \<open>
  \<open>renderStructuredValue\<close> and, for a struct, \<open>structuredStructRows\<close> with the labels that have been shown.
  The argument \<open>raw\<close> renders a \<open>json.RawMessage\<close>.
\<close>

fun render_value :: "formats \<Rightarrow> (string option \<Rightarrow> string) \<Rightarrow> gvalue \<Rightarrow> string"
and structuredStructRows ::
  "formats \<Rightarrow> (string option \<Rightarrow> string) \<Rightarrow> (string \<times> bool \<times> gvalue) list \<Rightarrow> string list \<Rightarrow> string list \<times> string list"
where
  "render_value fm raw VNil = muted_dash"
| "render_value fm raw (VTime t) = scalar_span (esc (formatDashboardTime (local_time fm) t))"
| "render_value fm raw (VRaw r) = raw r"
| "render_value fm raw (VBool b) = boolBadge b ''true'' ''false''"
| "render_value fm raw (VString s) = (if TrimSpace s = [] then muted_dash else scalar_span (esc s))"
| "render_value fm raw (VInt i) = scalar_span (FormatInt i)"
| "render_value fm raw (VFloat s) = scalar_span s"
| \<open>render_value fm raw (VStruct fs) =
     (case structuredStructRows fm raw fs [] of
        ([], _) \<Rightarrow> ''<div class="structured-empty">No details available.</div>''
      | (rows, _) \<Rightarrow> key_table rows)\<close>
| \<open>render_value fm raw (VMap m) =
     (case m of
        None \<Rightarrow> ''<div class="structured-empty">No values.</div>''
      | Some kvs \<Rightarrow> if kvs = [] then ''<div class="structured-empty">No values.</div>''
          else key_table (map (\<lambda>(k, cell). key_row k cell)
            (sort_key fst (map (\<lambda>kv. (fst kv, render_value fm raw (snd kv))) kvs))))\<close>
| \<open>render_value fm raw (VSlice xs) =
     (case xs of
        None \<Rightarrow> ''<div class="structured-empty">No records found.</div>''
      | Some vs \<Rightarrow> let cells = map (render_value fm raw) vs in
          if vs = [] then ''<div class="structured-empty">No records found.</div>''
          else if isScalarKind (hd vs)
          then ''<div class="structured-list">'' @ concat (map pill cells) @ ''</div>''
          else record_rows cells)\<close>
| "structuredStructRows fm raw [] seen = ([], seen)"
| "structuredStructRows fm raw ((fname, embedded, v) # fs) seen =
     (if isZeroValue v then structuredStructRows fm raw fs seen
      else if shouldFlattenStructuredField fname embedded v
      then (case v of
          VStruct gs \<Rightarrow>
            let (inner, seen1) = structuredStructRows fm raw gs seen;
                (outer, seen2) = structuredStructRows fm raw fs seen1
            in (inner @ outer, seen2)
        | _ \<Rightarrow> structuredStructRows fm raw fs seen)
      else if fieldLabel fname \<in> set seen then structuredStructRows fm raw fs seen
      else let (rows, seen1) = structuredStructRows fm raw fs (fieldLabel fname # seen)
           in (key_row (fieldLabel fname) (render_value fm raw v) # rows, seen1))"

text \<open>A JSON document is decoded and shown; it holds no raw messages itself.\<close>

definition render_decoded :: "formats \<Rightarrow> gvalue \<Rightarrow> string" where
  "render_decoded fm v = render_value fm (\<lambda>_. []) v"

definition renderStructuredJSON :: "formats \<Rightarrow> string option \<Rightarrow> string" where
  \<open>renderStructuredJSON fm r =
     (let trimmed = TrimSpace (case r of None \<Rightarrow> [] | Some s \<Rightarrow> s) in
      if trimmed = [] \<or> trimmed = ''null'' then muted_dash
      else case decode_json fm trimmed of
          None \<Rightarrow> ''<code>'' @ esc trimmed @ ''</code>''
        | Some j \<Rightarrow> render_decoded fm (decoded fm j))\<close>

definition renderStructuredValue :: "formats \<Rightarrow> gvalue \<Rightarrow> string" where
  "renderStructuredValue fm v = render_value fm (renderStructuredJSON fm) v"

definition structuredData :: "formats \<Rightarrow> gvalue \<Rightarrow> string" where
  \<open>structuredData fm v = ''<div class="structured-data">'' @ renderStructuredValue fm v @ ''</div>''\<close>

definition shown_json :: "formats \<Rightarrow> gvalue \<Rightarrow> string option" where
  "shown_json fm v = (case marshal_indent fm v of None \<Rightarrow> None
     | Some data \<Rightarrow> if data = [] \<or> data = ''null'' then None else Some data)"

definition rawDataJSON :: "formats \<Rightarrow> gvalue \<Rightarrow> string option" where
  "rawDataJSON fm v = (case v of
      VRaw r \<Rightarrow>
        let trimmed = TrimSpace (case r of None \<Rightarrow> [] | Some s \<Rightarrow> s) in
        if trimmed = [] \<or> trimmed = ''null'' then None
        else (case decode_json fm trimmed of
            None \<Rightarrow> Some trimmed
          | Some j \<Rightarrow> (case shown_json fm (decoded fm j) of None \<Rightarrow> Some trimmed | Some data \<Rightarrow> Some data))
    | _ \<Rightarrow> shown_json fm v)"

definition rawDataDetails :: "formats \<Rightarrow> string \<Rightarrow> gvalue \<Rightarrow> string" where
  \<open>rawDataDetails fm label v = (case rawDataJSON fm v of
      None \<Rightarrow> []
    | Some data \<Rightarrow>
        ''<details class="raw-data"><summary><span class="raw-data-header"><span>'' @
        esc (if TrimSpace label = [] then ''Raw data'' else label) @
        ''</span></span></summary><button type="button" class="button raw-copy" onclick="copyRawData(this)">Copy</button><pre class="qr-json">'' @
        esc data @ ''</pre></details>'')\<close>

definition structuredDataWithRaw :: "formats \<Rightarrow> gvalue \<Rightarrow> string" where
  "structuredDataWithRaw fm v = structuredData fm v @ rawDataDetails fm ''Raw data'' v"

definition pre :: "formats \<Rightarrow> gvalue \<Rightarrow> string" where
  "pre fm v = structuredDataWithRaw fm v"

definition preStructuredOnly :: "formats \<Rightarrow> gvalue \<Rightarrow> string" where
  "preStructuredOnly fm v = structuredData fm v"

section \<open>Which lists come out sound\<close>

text \<open>
  A list whose first element is a scalar is shown as pills: the end tag of each rendered element is cut
  off and the pill closed instead. This fits the span of a scalar, but the badge of a boolean and the dash of
  an empty element have another start tag, which stays.
\<close>

definition pill_fits :: "gvalue \<Rightarrow> bool" where
  "pill_fits v = (case v of VString s \<Rightarrow> TrimSpace s \<noteq> [] | VInt _ \<Rightarrow> True | VFloat _ \<Rightarrow> True | _ \<Rightarrow> False)"

definition pills_fit :: "gvalue list \<Rightarrow> bool" where
  "pills_fit vs \<longleftrightarrow> (vs \<noteq> [] \<and> isScalarKind (hd vs) \<longrightarrow> list_all pill_fits vs)"

fun regular :: "gvalue \<Rightarrow> bool" where
  "regular (VStruct fs) = (\<forall>f \<in> set fs. regular (snd (snd f)))"
| "regular (VMap (Some kvs)) = (\<forall>kv \<in> set kvs. regular (snd kv))"
| "regular (VSlice (Some vs)) = (pills_fit vs \<and> (\<forall>v \<in> set vs. regular v))"
| "regular _ = True"

definition sound_formats :: "formats \<Rightarrow> bool" where
  "sound_formats fm \<longleftrightarrow> (\<forall>n. plain_text (decimal_text fm n))"

text \<open>Floats that stand in the value itself are texts of the same form.\<close>

fun plain_floats :: "gvalue \<Rightarrow> bool" where
  "plain_floats (VFloat s) = plain_text s"
| "plain_floats (VStruct fs) = (\<forall>f \<in> set fs. plain_floats (snd (snd f)))"
| "plain_floats (VMap (Some kvs)) = (\<forall>kv \<in> set kvs. plain_floats (snd kv))"
| "plain_floats (VSlice (Some vs)) = (\<forall>v \<in> set vs. plain_floats v)"
| "plain_floats _ = True"

lemma decoded_plain: "sound_formats fm \<Longrightarrow> plain_floats (decoded fm j)"
  by (induction j) (auto simp: sound_formats_def)

lemma muted_dash_sound [pieces]: "well_nested muted_dash"
  by (simp add: muted_dash_def em_dash_def tags)

lemma scalar_span_sound [pieces]: "plain_text t \<Longrightarrow> well_nested (scalar_span t)"
  by (simp add: scalar_span_def tags)

lemma key_row_sound [pieces]: "well_nested cell \<Longrightarrow> well_nested (key_row k cell)"
  by (simp add: key_row_def tags)

lemma key_table_sound [pieces]:
  assumes "\<And>r. r \<in> set rows \<Longrightarrow> well_nested r"
  shows "well_nested (key_table rows)"
  using scan_well_nested [OF well_nested_concat [OF assms]] by (simp add: key_table_def tags del: scan_well_nested)

lemma pill_scalar: "pill (scalar_span t) = ''<span class=\"structured-pill\">'' @ t @ ''</span>''"
  by (simp add: pill_def scalar_span_def TrimSuffix_def TrimPrefix_def suffix_def prefix_def)

lemma pill_sound: "plain_text t \<Longrightarrow> well_nested (pill (scalar_span t))"
  by (simp add: pill_scalar tags)

lemma record_rows_sound [pieces]:
  assumes "\<And>c. c \<in> set cells \<Longrightarrow> well_nested c"
  shows "well_nested (record_rows cells)"
proof -
  have "well_nested (''<tr><td>'' @ FormatInt (int i + 1) @ ''</td><td>'' @ c @ ''</td></tr>'')"
    if "c \<in> set cells" for i c
    using assms [OF that] by (simp add: open_tag_def is_void_def well_nested_def [of "_ # _"])
  then have "well_nested (concat (map (\<lambda>(i, cell). ''<tr><td>'' @ FormatInt (int i + 1) @ ''</td><td>'' @ cell @ ''</td></tr>'')
      (zip [0..<length cells] cells)))"
    by (intro well_nested_concat_map) (auto dest: set_zip_rightD simp del: append.simps)
  from scan_well_nested [OF this] show ?thesis by (simp add: record_rows_def tags del: scan_well_nested)
qed

lemma render_sound_aux:
  "(\<forall>r. well_nested (raw r)) \<Longrightarrow> regular v \<Longrightarrow> plain_floats v \<Longrightarrow> well_nested (render_value fm raw v)"
  "(\<forall>r. well_nested (raw r)) \<Longrightarrow> \<forall>f \<in> set fs. regular (snd (snd f)) \<and> plain_floats (snd (snd f)) \<Longrightarrow>
     \<forall>r \<in> set (fst (structuredStructRows fm raw fs seen)). well_nested r"
proof (induction fm raw v and fm raw fs seen rule: render_value_structuredStructRows.induct)
  case (8 fm raw fs)
  then have rows: "\<forall>r \<in> set (fst (structuredStructRows fm raw fs [])). well_nested r" by simp
  obtain rs seen where rs: "structuredStructRows fm raw fs [] = (rs, seen)" by force
  show ?case
  proof (cases rs)
    case Nil
    with rs show ?thesis by (simp add: tags)
  next
    case (Cons r rs')
    with rs rows have "well_nested (key_table (r # rs'))" by (intro key_table_sound) auto
    with rs Cons show ?thesis by simp
  qed
next
  case (9 fm raw m)
  show ?case
  proof (cases m)
    case None
    then show ?thesis by (simp add: tags)
  next
    case (Some kvs)
    have cell: "well_nested (render_value fm raw (snd kv))" if "kv \<in> set kvs" for kv
    proof -
      from that have "kvs \<noteq> []" by auto
      with 9 Some that show ?thesis by (cases kv) auto
    qed
    have "well_nested (key_table (map (\<lambda>(k, c). key_row k c)
        (sort_key fst (map (\<lambda>kv. (fst kv, render_value fm raw (snd kv))) kvs))))"
      by (rule key_table_sound) (auto intro: key_row_sound cell)
    with Some show ?thesis by (simp add: tags)
  qed
next
  case (10 fm raw xs)
  show ?case
  proof (cases xs)
    case None
    then show ?thesis by (simp add: tags)
  next
    case (Some vs)
    have cell: "well_nested (render_value fm raw v)" if "v \<in> set vs" for v using 10 Some that by auto
    show ?thesis
    proof (cases "vs \<noteq> [] \<and> isScalarKind (hd vs)")
      case True
      have "well_nested (pill (render_value fm raw v))" if "v \<in> set vs" for v
      proof -
        have "pill_fits v" "plain_floats v" using 10 Some True that by (auto simp: pills_fit_def list_all_iff)
        then show ?thesis by (cases v) (auto simp: pill_fits_def intro: pill_sound)
      qed
      then have "well_nested (concat (map pill (map (render_value fm raw) vs)))"
        by (intro well_nested_concat_map) auto
      from scan_well_nested [OF this] True Some show ?thesis by (simp add: tags del: scan_well_nested)
    next
      case False
      have "well_nested (record_rows (map (render_value fm raw) vs))"
        by (rule record_rows_sound) (auto intro: cell)
      with False Some show ?thesis by (cases vs) (simp_all add: tags)
    qed
  qed
next
  case (12 fm raw n e v fs seen)
  note IH = 12(1) 12(9) 12(10) 12(11) 12(13) 12(14)
  have raw: "\<forall>r. well_nested (raw r)" by (fact 12)
  have v: "regular v" "plain_floats v" and fs: "\<forall>f \<in> set fs. regular (snd (snd f)) \<and> plain_floats (snd (snd f))"
    using 12 by simp_all
  show ?case
  proof (cases "isZeroValue v")
    case True
    with IH(1) [OF True raw fs] show ?thesis by simp
  next
    case zero: False
    show ?thesis
    proof (cases "shouldFlattenStructuredField n e v")
      case True
      then obtain gs where gs: "v = VStruct gs" by (auto simp: shouldFlattenStructuredField_def split: gvalue.splits)
      obtain inner seen1 where inner: "structuredStructRows fm raw gs seen = (inner, seen1)" by force
      obtain outer seen2 where outer: "structuredStructRows fm raw fs seen1 = (outer, seen2)" by force
      from v gs have "\<forall>f \<in> set gs. regular (snd (snd f)) \<and> plain_floats (snd (snd f))" by simp
      with IH(2) [OF zero True gs raw] IH(3) [OF zero True gs inner [symmetric] refl raw fs] inner outer
      have "\<forall>r \<in> set inner. well_nested r" "\<forall>r \<in> set outer. well_nested r" by simp_all
      with zero True gs inner outer show ?thesis by auto
    next
      case flat: False
      show ?thesis
      proof (cases "fieldLabel n \<in> set seen")
        case True
        with IH(5) [OF zero flat True raw fs] zero flat show ?thesis by simp
      next
        case False
        obtain rows seen1 where rows: "structuredStructRows fm raw fs (fieldLabel n # seen) = (rows, seen1)" by force
        from IH(6) [OF zero flat False raw fs] rows have "\<forall>r \<in> set rows. well_nested r" by simp
        moreover have "well_nested (render_value fm raw v)" using 12(15) zero flat False raw v rows by simp
        ultimately show ?thesis using zero flat False rows by (auto intro: key_row_sound)
      qed
    qed
  qed
qed (auto intro: pieces)

lemma render_sound: "(\<And>r. well_nested (raw r)) \<Longrightarrow> regular v \<Longrightarrow> plain_floats v \<Longrightarrow> well_nested (render_value fm raw v)"
  by (rule render_sound_aux(1)) simp_all

lemma renderStructuredJSON_sound:
  assumes "sound_formats fm" "\<And>s j. decode_json fm s = Some j \<Longrightarrow> regular (decoded fm j)"
  shows "well_nested (renderStructuredJSON fm r)"
proof -
  have "well_nested (render_decoded fm (decoded fm j))" if "decode_json fm s = Some j" for s j
    unfolding render_decoded_def
    by (rule render_sound) (simp_all add: decoded_plain [OF assms(1)] assms(2) [OF that])
  moreover have "well_nested (''<code>'' @ esc s @ ''</code>'')" for s by (simp add: tags)
  ultimately show ?thesis
    by (auto simp: renderStructuredJSON_def Let_def muted_dash_sound simp del: append.simps split: option.split)
qed

lemma structuredData_sound [pieces]:
  assumes "sound_formats fm" "\<And>s j. decode_json fm s = Some j \<Longrightarrow> regular (decoded fm j)"
    "regular v" "plain_floats v"
  shows "well_nested (structuredData fm v)"
proof -
  have "well_nested (renderStructuredValue fm v)"
    unfolding renderStructuredValue_def by (intro render_sound renderStructuredJSON_sound assms)
  from scan_well_nested [OF this] show ?thesis by (simp add: structuredData_def tags del: scan_well_nested)
qed

lemma rawDataDetails_sound [pieces]: "well_nested (rawDataDetails fm label v)"
  by (simp add: rawDataDetails_def tags split: option.split)

section \<open>Properties\<close>



end
