(* ===== verification/Forms.thy ===== *)
theory Forms
  imports Structured Plugins
begin

text \<open>
  The forms of the dashboard (\<open>admin/http/dashboard*.go\<close>): the data a page hands to the template, the
  options its selections offer, and what a browser submits for a form nobody has edited.
\<close>

section \<open>Data\<close>

record option_data =
  op_value :: string
  op_label :: string

record field_data =
  fd_name :: string
  fd_label :: string
  fd_type :: string
  fd_value :: string
  fd_values :: "string list"
  fd_placeholder :: string
  fd_required :: bool
  fd_options :: "option_data list"

record form_data =
  fm_title :: string
  fm_action :: string
  fm_enctype :: string
  fm_fields :: "field_data list"
  fm_help :: string
  fm_after :: string
  fm_submit :: string
  fm_danger :: bool

text \<open>Of \<open>pageData\<close>, what a page sets itself; \<open>renderForSession\<close> adds the rest.\<close>

record page_data =
  pd_title :: string
  pd_subtitle :: string
  pd_flash :: string
  pd_error :: string
  pd_callout :: string
  pd_overview :: string
  pd_forms :: "form_data list"
  pd_items :: string

text \<open>Composite literals leave the fields they do not name at their zero value.\<close>

definition plain_field :: "string \<Rightarrow> string \<Rightarrow> string \<Rightarrow> field_data" where
  "plain_field n l t = \<lparr>fd_name = n, fd_label = l, fd_type = t, fd_value = [], fd_values = [], fd_placeholder = [],
     fd_required = False, fd_options = []\<rparr>"

definition form :: "string \<Rightarrow> string \<Rightarrow> field_data list \<Rightarrow> string \<Rightarrow> form_data" where
  "form title act fs submit = \<lparr>fm_title = title, fm_action = act, fm_enctype = [], fm_fields = fs,
     fm_help = [], fm_after = [], fm_submit = submit, fm_danger = False\<rparr>"

definition danger_form :: "string \<Rightarrow> string \<Rightarrow> string \<Rightarrow> form_data" where
  "danger_form title act submit = (form title act [] submit)\<lparr>fm_danger := True\<rparr>"

definition page_with :: "string \<Rightarrow> string \<Rightarrow> string \<Rightarrow> page_data" where
  "page_with title subtitle items = \<lparr>pd_title = title, pd_subtitle = subtitle, pd_flash = [], pd_error = [],
     pd_callout = [], pd_overview = [], pd_forms = [], pd_items = items\<rparr>"

section \<open>Options\<close>

definition label_or :: "string \<Rightarrow> string \<Rightarrow> string" where
  "label_or n i = (if TrimSpace n = [] then i else n)"

definition marked_inactive :: "string \<Rightarrow> string \<Rightarrow> string" where
  "marked_inactive label st = (if st \<noteq> ''active'' then label @ '' ('' @ st @ '')'' else label)"

definition allPolicyOptions :: "policy_row list \<Rightarrow> option_data list" where
  "allPolicyOptions items = map (\<lambda>p. \<lparr>op_value = rec_id p,
     op_label = marked_inactive (label_or (pol_name p) (rec_id p)) (rec_status p)\<rparr>) items"

definition allRoleOptions :: "role_row list \<Rightarrow> option_data list" where
  "allRoleOptions items = map (\<lambda>r. \<lparr>op_value = rec_id r,
     op_label = marked_inactive (label_or (role_name r) (rec_id r)) (rec_status r)\<rparr>) items"

definition activeGroupOptions :: "group_row list \<Rightarrow> option_data list" where
  "activeGroupOptions items = map (\<lambda>g. \<lparr>op_value = rec_id g, op_label = label_or (group_name g) (rec_id g)\<rparr>)
     (filter (\<lambda>g. rec_status g = ''active'') items)"

definition commandGroupOptions :: "group_row list \<Rightarrow> option_data list" where
  "commandGroupOptions items = map (\<lambda>g. \<lparr>op_value = rec_id g, op_label = label_or (group_name g) (rec_id g)\<rparr>)
     (filter (\<lambda>g. rec_status g = ''active'') items)"

definition commandDeviceOptions :: "device list \<Rightarrow> option_data list" where
  "commandDeviceOptions items = map (\<lambda>v. \<lparr>op_value = rec_id v, op_label = label_or (dv_name v) (rec_id v)\<rparr>)
     (filter (\<lambda>v. rec_status v = StatusActive \<or> rec_status v = StatusEnrolled) items)"

definition allPermissionOptions :: "permission list \<Rightarrow> option_data list" where
  "allPermissionOptions perms = map (\<lambda>p. \<lparr>op_value = p, op_label = p\<rparr>) perms"

text \<open>The types a session may send: the built-in ones, then those of the plugins, each once.\<close>

fun unseen_options :: "string list \<Rightarrow> (string \<times> string) list \<Rightarrow> option_data list \<times> string list" where
  "unseen_options taken [] = ([], taken)"
| "unseen_options taken ((t, l) # specs) =
     (if t \<in> set taken then unseen_options taken specs
      else let (opts, taken1) = unseen_options (t # taken) specs in (\<lparr>op_value = t, op_label = l\<rparr> # opts, taken1))"

definition commandTypeOptions :: "session option \<Rightarrow> plugin_manager option \<Rightarrow> option_data list" where
  "commandTypeOptions ses pm =
     (let (builtin, taken) = unseen_options [] (map (\<lambda>s. (ts_type s, ts_label s)) BuiltinTypes);
          specs = (if pm \<noteq> None \<and> ses \<noteq> None then CommandTypesFor pm ses else []);
          (extra, _) = unseen_options taken (map (\<lambda>c. (ct_type c, label_or (ct_label c) (ct_type c))) specs)
      in builtin @ extra)"

section \<open>Fields\<close>

definition commandFields :: "session option \<Rightarrow> plugin_manager option \<Rightarrow> device list \<Rightarrow> group_row list \<Rightarrow> field_data list" where
  "commandFields ses pm devs grps =
     [(plain_field ''type'' ''Command'' ''select'')\<lparr>fd_value := ''ping'', fd_required := True, fd_options := commandTypeOptions ses pm\<rparr>,
      (plain_field ''targetType'' ''Target type'' ''select'')\<lparr>fd_value := TargetDevice, fd_required := True,
         fd_options := [\<lparr>op_value = TargetDevice, op_label = ''Device''\<rparr>, \<lparr>op_value = TargetGroup, op_label = ''Group''\<rparr>]\<rparr>,
      (plain_field ''targetDeviceId'' ''Device'' ''select'')\<lparr>fd_placeholder := ''Select device'', fd_options := commandDeviceOptions devs\<rparr>,
      (plain_field ''targetGroupId'' ''Group'' ''select'')\<lparr>fd_placeholder := ''Select group'', fd_options := commandGroupOptions grps\<rparr>,
      (plain_field ''payload'' ''Payload JSON'' ''textarea'')\<lparr>fd_value := ''{}''\<rparr>,
      plain_field ''expiresAt'' ''Expires at'' ''datetime-local'']"

record restriction_form =
  rf_allow :: string
  rf_block :: string
  rf_suspend :: string
  rf_keep_screen_on :: bool
  rf_stay_awake :: bool
  rf_unlock_on_boot :: bool
  rf_passcode :: string

text \<open>What the stored restrictions decode to, whether or not there was an error.\<close>

definition policyRestrictionFormData :: "json \<Rightarrow> restriction_form" where
  "policyRestrictionFormData raw =
     (let rp = (if raw = JNull then no_restrictions else fst (decode_restrictions raw)) in
      \<lparr>rf_allow = joined [CHR 0x0A] (rp_allow rp), rf_block = joined [CHR 0x0A] (rp_block rp),
       rf_suspend = joined [CHR 0x0A] (rp_suspend rp), rf_keep_screen_on = rp_keep_screen_on rp,
       rf_stay_awake = rp_stay_awake rp, rf_unlock_on_boot = rp_unlock_on_boot rp,
       rf_passcode = TrimSpace (rp_passcode rp)\<rparr>)"

definition boolValue :: "bool \<Rightarrow> string" where
  "boolValue v = (if v then ''on'' else [])"

definition per_line :: "string list \<Rightarrow> string" where
  "per_line examples = joined [CHR 0x0A] (''One package per line'' # examples)"

definition policyFields :: "string \<Rightarrow> bool \<Rightarrow> string \<Rightarrow> json \<Rightarrow> field_data list" where
  "policyFields name kiosk app raw =
     (let rf = policyRestrictionFormData raw in
     [(plain_field ''name'' ''Name'' ''text'')\<lparr>fd_value := name, fd_placeholder := ''default-policy'', fd_required := True\<rparr>,
      (plain_field ''kioskAppPackage'' ''Kiosk app package'' ''text'')\<lparr>fd_value := app, fd_placeholder := ''com.android.chrome''\<rparr>,
      (plain_field ''kioskMode'' ''Enable kiosk mode'' ''checkbox'')\<lparr>fd_value := boolValue kiosk\<rparr>,
      (plain_field ''kioskExitPasscode'' ''Kiosk exit passcode'' ''text'')\<lparr>fd_value := rf_passcode rf, fd_placeholder := ''1234''\<rparr>,
      (plain_field ''allowPackages'' ''Allow packages'' ''textarea'')\<lparr>fd_value := rf_allow rf,
         fd_placeholder := per_line [''com.android.chrome'', ''com.android.settings'']\<rparr>,
      (plain_field ''blockPackages'' ''Block packages'' ''textarea'')\<lparr>fd_value := rf_block rf,
         fd_placeholder := per_line [''com.android.camera'', ''com.android.phone'']\<rparr>,
      (plain_field ''suspendPackages'' ''Suspend packages'' ''textarea'')\<lparr>fd_value := rf_suspend rf,
         fd_placeholder := per_line [''com.android.music'', ''com.example.social'']\<rparr>,
      (plain_field ''kioskKeepScreenOn'' ''Keep screen on'' ''checkbox'')\<lparr>fd_value := boolValue (rf_keep_screen_on rf)\<rparr>,
      (plain_field ''kioskStayAwakeWhilePluggedIn'' ''Stay awake while plugged in'' ''checkbox'')\<lparr>fd_value := boolValue (rf_stay_awake rf)\<rparr>,
      (plain_field ''kioskUnlockOnBoot'' ''Unlock on boot'' ''checkbox'')\<lparr>fd_value := boolValue (rf_unlock_on_boot rf)\<rparr>])"

definition certificateUploadForm :: "string \<Rightarrow> form_data" where
  "certificateUploadForm act = (form ''Upload certificate'' act
     [(plain_field ''name'' ''Name'' ''text'')\<lparr>fd_placeholder := ''Root CA'', fd_required := True\<rparr>,
      (plain_field ''file'' ''File'' ''file'')\<lparr>fd_required := True\<rparr>] ''Upload certificate'')\<lparr>fm_enctype := ''multipart/form-data''\<rparr>"

definition managedAppForm :: "string \<Rightarrow> form_data" where
  "managedAppForm act = (form ''Create managed app'' act
     [(plain_field ''packageName'' ''Package name'' ''text'')\<lparr>fd_placeholder := ''com.example.app'', fd_required := True\<rparr>,
      (plain_field ''name'' ''App name'' ''text'')\<lparr>fd_placeholder := ''Example App'', fd_required := True\<rparr>,
      (plain_field ''versionCode'' ''Version code'' ''number'')\<lparr>fd_placeholder := ''100'', fd_required := True\<rparr>,
      (plain_field ''file'' ''APK file'' ''file'')\<lparr>fd_required := True\<rparr>] ''Create managed app'')\<lparr>fm_enctype := ''multipart/form-data'',
     fm_help := ''Upload the APK once. The dashboard derives the artifact storage key, checksum, and file record on the server, then creates the app and publishes its first version in one step.''\<rparr>"

definition publishAppVersionForm :: "string \<Rightarrow> form_data" where
  "publishAppVersionForm act = (form ''Publish new version'' act
     [(plain_field ''versionCode'' ''Version code'' ''number'')\<lparr>fd_placeholder := ''100'', fd_required := True\<rparr>,
      (plain_field ''file'' ''APK file'' ''file'')\<lparr>fd_required := True\<rparr>] ''Publish version'')\<lparr>fm_enctype := ''multipart/form-data'',
     fm_help := ''Upload a new APK for this app. The package name and app name come from the existing app record, so only the version code and file are needed.''\<rparr>"

definition managed_file_form :: form_data where
  "managed_file_form = (form ''Upload managed file'' ''/admin/managed-files/create''
     [(plain_field ''path'' ''Device path'' ''text'')\<lparr>fd_placeholder := ''/sdcard/xmdm/device-config.txt'', fd_required := True\<rparr>,
      (plain_field ''replaceVariables'' ''Replace variables'' ''checkbox'')\<lparr>fd_value := ''on''\<rparr>,
      (plain_field ''file'' ''File'' ''file'')\<lparr>fd_required := True\<rparr>] ''Upload managed file'')\<lparr>fm_enctype := ''multipart/form-data''\<rparr>"

definition deviceEnrollmentQRForm :: "string \<Rightarrow> form_data" where
  "deviceEnrollmentQRForm i = form ''Generate enrollment QR'' (''/admin/devices/'' @ i @ ''/enrollment/qr'') [] ''Generate QR''"

section \<open>What a browser submits\<close>

text \<open>
  The fields as the template writes them, and the entry list of the form by the HTML standard, when nobody
  has touched it: line feeds are stripped from a text input and become CRLF in a text area (whose first line
  feed the parser drops), a checkbox counts when it is checked, and a select gives the option that is
  marked, or the first that can be chosen.
\<close>

definition CR :: char where "CR = CHR 0x0D"
definition LF :: char where "LF = CHR 0x0A"

fun crlf :: "string \<Rightarrow> string" where
  "crlf [] = []"
| "crlf (c # s) =
     (if c = LF then CR # LF # crlf s
      else if c = CR then (if s \<noteq> [] \<and> hd s = LF then crlf s else CR # LF # crlf s)
      else c # crlf s)"

definition containsString :: "string list \<Rightarrow> string \<Rightarrow> bool" where
  "containsString items value \<longleftrightarrow> list_ex (\<lambda>item. TrimSpace item = TrimSpace value) items"

definition checked :: "field_data \<Rightarrow> string list" where
  "checked f = filter (containsString (fd_values f)) (map op_value (fd_options f))"

definition area_text :: "string \<Rightarrow> string" where
  "area_text v = crlf (if v \<noteq> [] \<and> hd v = LF then tl v else v)"

definition submits :: "field_data \<Rightarrow> string list option" where
  "submits f =
     (if fd_type f = ''checkbox'' then (if fd_value f \<noteq> [] then Some [''on''] else None)
      else if fd_type f = ''multiselect'' then (if checked f = [] then None else Some (checked f))
      else if fd_type f = ''textarea''
      then Some [area_text (fd_value f)]
      else if fd_type f = ''select''
      then (if fd_value f \<in> op_value ` set (fd_options f) then Some [fd_value f]
            else if fd_placeholder f \<noteq> [] \<and> fd_value f = [] then None
            else if fd_options f = [] then None else Some [op_value (hd (fd_options f))])
      else Some [filter (\<lambda>c. c \<noteq> LF \<and> c \<noteq> CR) (fd_value f)])"

definition untouched_form :: "field_data list \<Rightarrow> web_request \<Rightarrow> bool" where
  "untouched_form fs r \<longleftrightarrow> web_form_error r = None \<and> (\<forall>f \<in> set fs. web_form r (fd_name f) = submits f)"

section \<open>Lines\<close>

definition tidy_line :: "string \<Rightarrow> bool" where
  "tidy_line l \<longleftrightarrow> TrimSpace l = l \<and> l \<noteq> [] \<and> LF \<notin> set l \<and> CR \<notin> set l"

lemma crlf_append: "LF \<notin> set l \<Longrightarrow> CR \<notin> set l \<Longrightarrow> crlf (l @ s) = l @ crlf s"
  by (induction l) auto

lemma CR_LF [simp]: "CR \<noteq> LF" "LF \<noteq> CR"
  by (simp_all add: CR_def LF_def)

lemma split_lines_append: "LF \<notin> set l \<Longrightarrow> split_lines (l @ LF # s) = l # split_lines s"
  by (induction l) (auto simp: LF_def)

lemma split_lines_single: "LF \<notin> set l \<Longrightarrow> split_lines l = [l]"
  by (induction l) (auto simp: LF_def)

lemma white_CR: "w \<in> set white_runes \<Longrightarrow> CR \<in> set w \<Longrightarrow> w = [CR]"
proof -
  have "\<forall>w \<in> set white_runes. CR \<in> set w \<longrightarrow> w = [CR]" by code_simp
  then show "w \<in> set white_runes \<Longrightarrow> CR \<in> set w \<Longrightarrow> w = [CR]" by blast
qed

lemma white_CR_mem: "[CR] \<in> set white_runes"
  by code_simp

lemma trimmed_ends:
  assumes "TrimSpace l = l"
  shows "strip_front white_runes l = l" "strip_front (map rev white_runes) (rev l) = rev l"
proof -
  let ?t = "strip_front white_runes l" and ?u = "strip_front (map rev white_runes) (rev (strip_front white_runes l))"
  have suf: "suffix ?t l" "suffix ?u (rev ?t)" by (rule strip_front_suffix)+
  then have "length ?t \<le> length l" "length ?u \<le> length (rev ?t)" by (auto dest: suffix_length_le)
  moreover have "rev ?u = l" using assms by (simp add: TrimSpace_def)
  then have "length ?u = length l" by (metis length_rev)
  ultimately have "length ?t = length l" by simp
  with suf(1) show t: "?t = l" by (metis same_length_different suffix_def suffix_order.refl append_self_conv2 length_append add_cancel_right_left length_0_conv)
  from \<open>rev ?u = l\<close> show "strip_front (map rev white_runes) (rev l) = rev l" unfolding t by (metis rev_rev_ident)
qed

lemma trim_CR:
  assumes "TrimSpace l = l" "l \<noteq> []"
  shows "TrimSpace (l @ [CR]) = l"
proof -
  have fixed: "strip_front white_runes l = l" "strip_front (map rev white_runes) (rev l) = rev l"
    using trimmed_ends [OF assms(1)] by simp_all
  have "strip_front white_runes (l @ [CR]) = l @ [CR]"
  proof (rule strip_front_None, intro ballI impI notI)
    fix w assume w: "w \<in> set white_runes" "w \<noteq> []" "prefix w (l @ [CR])"
    have "\<not> prefix w l" using strip_front_result [OF w(1,2), of l] fixed(1) by simp
    with w(3) have "w = l @ [CR]" by (auto simp: prefix_append prefix_Cons)
    with white_CR [OF w(1)] assms(2) show False by auto
  qed
  moreover have "strip_front (map rev white_runes) (CR # rev l) = rev l"
  proof -
    let ?P = "\<lambda>w. w \<noteq> [] \<and> prefix w (CR # rev l)"
    have only: "v = [CR]" if "v \<in> set (map rev white_runes)" "?P v" for v
    proof -
      from that(1) obtain w where w: "w \<in> set white_runes" "v = rev w" by auto
      from that(2) have "CR \<in> set v" by (cases v) auto
      with w(2) have "CR \<in> set w" by simp
      with white_CR w show ?thesis by fastforce
    qed
    have "?P [CR]" "[CR] \<in> set (map rev white_runes)" using white_CR_mem by (auto intro: rev_image_eqI)
    then have "List.find ?P (map rev white_runes) \<noteq> None" unfolding find_None_iff by blast
    then obtain v where v: "List.find ?P (map rev white_runes) = Some v" by blast
    then obtain i where i: "i < length (map rev white_runes)" "?P (map rev white_runes ! i)" "v = map rev white_runes ! i"
      unfolding find_Some_iff by blast
    have "?P v" unfolding i(3) by (rule i(2))
    moreover have "v \<in> set (map rev white_runes)" unfolding i(3) by (rule nth_mem [OF i(1)])
    ultimately have "v = [CR]" using only by blast
    with strip_front_Some [OF v] fixed(2) show ?thesis by simp
  qed
  ultimately show ?thesis by (simp add: TrimSpace_def)
qed

lemma lines_of_area:
  "list_all tidy_line ls \<Longrightarrow> splitLines (crlf (joined [LF] ls)) = ls"
proof (induction ls rule: induct_list012)
  case (3 x y zs)
  from 3(3) have x: "TrimSpace x = x" "x \<noteq> []" "LF \<notin> set x" "CR \<notin> set x" by (auto simp: tidy_line_def)
  have "splitLines (crlf (joined [LF] (x # y # zs))) = splitLines ((x @ [CR]) @ LF # crlf (joined [LF] (y # zs)))"
    using x by (simp add: crlf_append)
  also have "\<dots> = x # splitLines (crlf (joined [LF] (y # zs)))"
    unfolding splitLines_def using x by (subst split_lines_append) (simp_all add: trim_CR)
  finally show ?case using 3 by simp
next
  case (2 x)
  then have x: "TrimSpace x = x" "x \<noteq> []" "LF \<notin> set x" "CR \<notin> set x" by (auto simp: tidy_line_def)
  from crlf_append [OF x(3,4), of "[]"] show ?case using x by (simp add: splitLines_def split_lines_single)
qed (simp add: splitLines_def)

section \<open>The form of a policy\<close>

text \<open>
  A policy whose texts are trimmed, on one line each, and whose lists hold one package per entry: what the
  forms of the dashboard store.
\<close>

definition tidy_text :: "string \<Rightarrow> bool" where
  "tidy_text s \<longleftrightarrow> TrimSpace s = s \<and> LF \<notin> set s \<and> CR \<notin> set s"

definition tidy_policy :: "policy_row \<Rightarrow> restrictions_payload \<Rightarrow> bool" where
  "tidy_policy p rp \<longleftrightarrow> tidy_text (pol_name p) \<and> tidy_text (pol_kiosk_app p) \<and>
     fst (decode_restrictions (pol_restrictions p)) = rp \<and> pol_restrictions p \<noteq> JNull \<and>
     list_all tidy_line (rp_allow rp) \<and> list_all tidy_line (rp_block rp) \<and> list_all tidy_line (rp_suspend rp) \<and>
     tidy_text (rp_passcode rp) \<and> TrimSpace (rp_passcode_hash rp) = rp_passcode_hash rp"

definition policy_form :: "policy_row \<Rightarrow> field_data list" where
  "policy_form p = policyFields (pol_name p) (pol_kiosk_mode p) (pol_kiosk_app p) (pol_restrictions p)"

lemma filter_tidy: "tidy_text s \<Longrightarrow> filter (\<lambda>c. c \<noteq> LF \<and> c \<noteq> CR) s = s"
  by (auto simp: tidy_text_def filter_id_conv)

lemma area_text_tidy: "list_all tidy_line ls \<Longrightarrow> area_text (joined [LF] ls) = crlf (joined [LF] ls)"
proof (cases ls)
  case (Cons x xs)
  assume "list_all tidy_line ls"
  with Cons have "x \<noteq> []" "LF \<notin> set x" by (auto simp: tidy_line_def)
  with Cons show ?thesis by (cases x; cases xs) (auto simp: area_text_def)
qed (simp add: area_text_def)

lemma untouched_restrictions:
  assumes "tidy_policy p rp" "untouched_form (policy_form p) r"
  shows "form_restrictions r = rp\<lparr>rp_passcode_hash := []\<rparr>"
    and "formField r ''name'' = pol_name p" "formField r ''kioskAppPackage'' = pol_kiosk_app p"
    and "hasFormField r ''kioskMode'' = pol_kiosk_mode p" "web_form_error r = None"
proof -
  let ?rf = "policyRestrictionFormData (pol_restrictions p)"
  have rp: "rp = fst (decode_restrictions (pol_restrictions p))" "pol_restrictions p \<noteq> JNull"
    using assms(1) by (simp_all add: tidy_policy_def)
  then have rf: "rf_allow ?rf = joined [LF] (rp_allow rp)" "rf_block ?rf = joined [LF] (rp_block rp)"
      "rf_suspend ?rf = joined [LF] (rp_suspend rp)" "rf_keep_screen_on ?rf = rp_keep_screen_on rp"
      "rf_stay_awake ?rf = rp_stay_awake rp" "rf_unlock_on_boot ?rf = rp_unlock_on_boot rp"
      "rf_passcode ?rf = TrimSpace (rp_passcode rp)"
    by (simp_all add: policyRestrictionFormData_def LF_def Let_def)
  have sub: "\<forall>f \<in> set (policy_form p). web_form r (fd_name f) = submits f" "web_form_error r = None"
    using assms(2) by (simp_all add: untouched_form_def)
  have form: "web_form r ''name'' = Some [filter (\<lambda>c. c \<noteq> LF \<and> c \<noteq> CR) (pol_name p)]"
      "web_form r ''kioskAppPackage'' = Some [filter (\<lambda>c. c \<noteq> LF \<and> c \<noteq> CR) (pol_kiosk_app p)]"
      "web_form r ''kioskMode'' = (if pol_kiosk_mode p then Some [''on''] else None)"
      "web_form r ''kioskExitPasscode'' = Some [filter (\<lambda>c. c \<noteq> LF \<and> c \<noteq> CR) (TrimSpace (rp_passcode rp))]"
      "web_form r ''allowPackages'' = Some [crlf (joined [LF] (rp_allow rp))]"
      "web_form r ''blockPackages'' = Some [crlf (joined [LF] (rp_block rp))]"
      "web_form r ''suspendPackages'' = Some [crlf (joined [LF] (rp_suspend rp))]"
      "web_form r ''kioskKeepScreenOn'' = (if rp_keep_screen_on rp then Some [''on''] else None)"
      "web_form r ''kioskStayAwakeWhilePluggedIn'' = (if rp_stay_awake rp then Some [''on''] else None)"
      "web_form r ''kioskUnlockOnBoot'' = (if rp_unlock_on_boot rp then Some [''on''] else None)"
    using sub(1) assms(1)
    by (simp_all add: policy_form_def policyFields_def Let_def rf plain_field_def submits_def boolValue_def tidy_policy_def area_text_tidy)
  have tidy: "tidy_text (pol_name p)" "tidy_text (pol_kiosk_app p)" "tidy_text (rp_passcode rp)"
      "list_all tidy_line (rp_allow rp)" "list_all tidy_line (rp_block rp)" "list_all tidy_line (rp_suspend rp)"
    using assms(1) by (simp_all add: tidy_policy_def)
  then have trim: "TrimSpace (pol_name p) = pol_name p" "TrimSpace (pol_kiosk_app p) = pol_kiosk_app p"
      "TrimSpace (rp_passcode rp) = rp_passcode rp" by (simp_all add: tidy_text_def)
  show "form_restrictions r = rp\<lparr>rp_passcode_hash := []\<rparr>"
    by (simp add: form_restrictions_def FormValue_def hasFormField_def formField_def form lines_of_area tidy trim filter_tidy)
  show "formField r ''name'' = pol_name p" "formField r ''kioskAppPackage'' = pol_kiosk_app p"
    by (simp_all add: formField_def FormValue_def form tidy trim filter_tidy)
  show "hasFormField r ''kioskMode'' = pol_kiosk_mode p" by (simp add: hasFormField_def form)
  show "web_form_error r = None" by (fact sub(2))
qed
text \<open>An update goes through when no statement fails, the version fits and no other policy has the new name and version.\<close>

definition next_version_free :: "database \<Rightarrow> policy_row \<Rightarrow> string \<Rightarrow> bool" where
  "next_version_free d p name \<longleftrightarrow> pol_version p < 2147483647 \<and>
     (\<forall>s \<in> set (policies d). rec_id s \<noteq> rec_id p \<longrightarrow> version_key s \<noteq> (rec_tenant p, name, pol_version p + 1))"

lemma UpdatePolicy_succeeds:
  assumes "no_faults w" "distinct (map rec_id (policies (db w)))" "p \<in> set (policies (db w))"
    "next_version_free (db w) p (pu_name req)" "pu_name req \<noteq> []"
  shows "\<exists>p'. fst (UpdatePolicy (rec_tenant p) (rec_id p) req w) = Inr p'"
proof -
  have p: "by_id (rec_tenant p) (rec_id p) p" by (simp add: by_id_def)
  have one: "filter (by_id (rec_tenant p) (rec_id p)) (policies (db w)) = [p]"
    using assms(2,3) p by (rule policies_t.by_id_single)
  have only: "s = p" if "s \<in> set (policies (db w))" "by_id (rec_tenant p) (rec_id p) s" for s
    using distinct_key_unique [OF assms(2) that(1) assms(3)] that(2) by (simp add: by_id_def)
  have range: "list_ex (\<lambda>r. by_id (rec_tenant p) (rec_id p) r \<and> P r) (policies (db w)) \<longleftrightarrow> P p" for P
    unfolding list_ex_iff using assms(3) p only by blast
  have free: "\<not> list_ex (\<lambda>s. rec_id s \<noteq> rec_id p \<and> version_key s = (rec_tenant p, pu_name req, pol_version p + 1)) (policies (db w))"
    "\<not> 2147483647 < pol_version p + 1"
    using assms(4) by (auto simp: next_version_free_def list_ex_iff)
  have ex: "list_ex (by_id (rec_tenant p) (rec_id p)) (policies (db w))" using assms(3) p by (auto simp: list_ex_iff)
  have stmt: "case update_policy (rec_tenant p) (rec_id p) req j t pg (db w) of
      Inl e \<Rightarrow> False | Inr (rs, d) \<Rightarrow> (case rs of [] \<Rightarrow> False | r # rs' \<Rightarrow> True)" for j t pg
    unfolding update_policy_def update_rows_def range if_not_P [OF free(1)] if_not_P [OF free(2)]
    by (simp add: ex returning_single [OF one])
  have "post (UpdatePolicy (rec_tenant p) (rec_id p) req) w (\<lambda>_ _. True) (\<lambda>_ _. False)"
    using assms(1,5) stmt by (auto simp: UpdatePolicy_def wp one Let_def)
  then show ?thesis by (auto simp: post_def split: prod.splits sum.splits)
qed

text \<open>
  C24: Saving the form of a policy without editing it keeps the policy. What a browser submits for
  the fields of the page is accepted, and storing it leaves everything but the version and the time
  of the update, and restrictions that decode to the same payload; the store accepts it when no statement
  fails and the next version is free. One thing can get lost: the form has no field for the hash of an exit
  passcode, which is kept only for a policy in kiosk mode that has no passcode besides.
\<close>

theorem untouched_policy_form:
  assumes "p \<in> set (policies (db w))" "distinct (map rec_id (policies (db w)))"
    and "tidy_policy p rp" "untouched_form (policy_form p) r"
  shows "\<exists>u. policyUpsertFromForm r (Some p) = Inr u \<and>
    (no_faults w \<and> pol_name p \<noteq> [] \<and> next_version_free (db w) p (pol_name p) \<longrightarrow>
      (\<exists>p'. fst (UpdatePolicy (rec_tenant p) (rec_id p) u w) = Inr p')) \<and>
    (\<forall>p'. fst (UpdatePolicy (rec_tenant p) (rec_id p) u w) = Inr p' \<longrightarrow>
      p' = p\<lparr>pol_version := pol_version p + 1, updated_at := updated_at p', pol_restrictions := pol_restrictions p'\<rparr> \<and>
      decode_restrictions (pol_restrictions p') =
        (if pol_kiosk_mode p \<and> rp_passcode rp = [] then rp else rp\<lparr>rp_passcode_hash := []\<rparr>, True))"
proof -
  note form = untouched_restrictions [OF assms(3,4)]
  let ?j = "encode_restrictions (rp\<lparr>rp_passcode_hash := []\<rparr>)"
  let ?u = "\<lparr>pu_name = pol_name p, pu_version = 0, pu_kiosk_mode = pol_kiosk_mode p, pu_kiosk_app = pol_kiosk_app p,
     pu_restrictions = Some ?j\<rparr>"
  have u: "policyUpsertFromForm r (Some p) = Inr ?u"
    by (simp add: policyUpsertFromForm_def form Let_def)
  have rp: "fst (decode_restrictions (pol_restrictions p)) = rp" "TrimSpace (rp_passcode rp) = rp_passcode rp"
    "TrimSpace (rp_passcode_hash rp) = rp_passcode_hash rp"
    using assms(3) by (simp_all add: tidy_policy_def tidy_text_def)
  have obj: "given_restrictions (Some ?j) = ?j"
    by (simp add: given_restrictions_def encode_restrictions_def)
  have stored: "decode_restrictions (if pol_kiosk_mode p \<and> pol_kiosk_mode p \<and> \<not> kioskExitPasscodeConfigured ?j
      then mergeKioskExitPasscode (pol_restrictions p) ?j else ?j)
    = (if pol_kiosk_mode p \<and> rp_passcode rp = [] then rp else rp\<lparr>rp_passcode_hash := []\<rparr>, True)"
    by (simp add: configured_encode mergeKioskExitPasscode_def decode_encode_restrictions rp Let_def)
  have kept: "p' = p\<lparr>pol_version := pol_version p + 1, updated_at := updated_at p', pol_restrictions := pol_restrictions p'\<rparr> \<and>
      decode_restrictions (pol_restrictions p') =
        (if pol_kiosk_mode p \<and> rp_passcode rp = [] then rp else rp\<lparr>rp_passcode_hash := []\<rparr>, True)"
    if "fst (UpdatePolicy (rec_tenant p) (rec_id p) ?u w) = Inr p'" for p'
  proof -
    from post_fst_Inr [OF post_UpdatePolicy [OF assms(2)] that] obtain r0 restrictions t
      where r0: "r0 \<in> set (policies (db w))" "by_id (rec_tenant p) (rec_id p) r0"
        and j: "restrictions = (let given = given_restrictions (pu_restrictions ?u)
           in if pu_kiosk_mode ?u \<and> pol_kiosk_mode r0 \<and> \<not> kioskExitPasscodeConfigured given
              then mergeKioskExitPasscode (pol_restrictions r0) given else given)"
        and p': "p' = r0\<lparr>pol_name := pu_name ?u, pol_version := pol_version r0 + 1, pol_kiosk_mode := pu_kiosk_mode ?u,
           pol_kiosk_app := pu_kiosk_app ?u, pol_restrictions := restrictions, updated_at := t\<rparr>"
      by blast
    have "r0 = p" using distinct_key_unique [OF assms(2) r0(1) assms(1)] r0(2) by (simp add: by_id_def)
    then have s: "pol_restrictions p' = (if pol_kiosk_mode p \<and> pol_kiosk_mode p \<and> \<not> kioskExitPasscodeConfigured ?j
        then mergeKioskExitPasscode (pol_restrictions p) ?j else ?j)"
      unfolding p' j by (simp add: obj Let_def)
    from p' \<open>r0 = p\<close> have
      "p' = p\<lparr>pol_version := pol_version p + 1, updated_at := updated_at p', pol_restrictions := pol_restrictions p'\<rparr>" by simp
    moreover have "decode_restrictions (pol_restrictions p') =
        (if pol_kiosk_mode p \<and> rp_passcode rp = [] then rp else rp\<lparr>rp_passcode_hash := []\<rparr>, True)"
      unfolding s by (rule stored)
    ultimately show ?thesis by blast
  qed
  have "\<exists>p'. fst (UpdatePolicy (rec_tenant p) (rec_id p) ?u w) = Inr p'"
    if "no_faults w \<and> pol_name p \<noteq> [] \<and> next_version_free (db w) p (pol_name p)"
    using UpdatePolicy_succeeds [OF _ assms(2,1), of ?u] that by simp
  with u kept show ?thesis by blast
qed

text \<open>The request of a browser in which the form of a page is submitted as it is.\<close>

definition submission :: "field_data list \<Rightarrow> web_request \<Rightarrow> web_request" where
  "submission fs r = r\<lparr>web_form_error := None,
     web_form := \<lambda>n. case List.find (\<lambda>f. fd_name f = n) fs of None \<Rightarrow> None | Some f \<Rightarrow> submits f\<rparr>"

lemma find_by_name: "distinct (map fd_name fs) \<Longrightarrow> f \<in> set fs \<Longrightarrow> List.find (\<lambda>g. fd_name g = fd_name f) fs = Some f"
  by (induction fs) (auto simp: rev_image_eqI)

lemma untouched_submission: "distinct (map fd_name fs) \<Longrightarrow> untouched_form fs (submission fs r)"
  by (auto simp: untouched_form_def submission_def find_by_name)

lemma policy_form_names: "distinct (map fd_name (policy_form p))"
  by (simp add: policy_form_def policyFields_def Let_def plain_field_def)

theorem untouched_policy_form_witness:
  "\<forall>r. \<exists>u p'. policyUpsertFromForm (submission (policy_form (sample_policy ''p'' kiosk_restrictions)) r) (Some (sample_policy ''p'' kiosk_restrictions)) = Inr u \<and>
     fst (UpdatePolicy ''t'' ''p'' u (world_of policy_database)) = Inr p' \<and> pol_version p' = 2"
proof
  fix r
  let ?w = "world_of policy_database" and ?rp = "fst (decode_restrictions kiosk_restrictions)"
    and ?p = "sample_policy ''p'' kiosk_restrictions"
  have mem: "?p \<in> set (policies (db ?w))" "distinct (map rec_id (policies (db ?w)))"
    by (simp_all add: policy_database_def)
  have "tidy_policy ?p ?rp" by code_simp
  from untouched_policy_form [OF mem this untouched_submission [OF policy_form_names], of r]
  obtain u where u: "policyUpsertFromForm (submission (policy_form ?p) r) (Some ?p) = Inr u"
    and ok: "no_faults ?w \<and> pol_name ?p \<noteq> [] \<and> next_version_free (db ?w) ?p (pol_name ?p) \<longrightarrow>
      (\<exists>p'. fst (UpdatePolicy (rec_tenant ?p) (rec_id ?p) u ?w) = Inr p')"
    and eq: "\<forall>p'. fst (UpdatePolicy (rec_tenant ?p) (rec_id ?p) u ?w) = Inr p' \<longrightarrow>
      p' = ?p\<lparr>pol_version := pol_version ?p + 1, updated_at := updated_at p', pol_restrictions := pol_restrictions p'\<rparr> \<and>
      decode_restrictions (pol_restrictions p') =
        (if pol_kiosk_mode ?p \<and> rp_passcode ?rp = [] then ?rp else ?rp\<lparr>rp_passcode_hash := []\<rparr>, True)"
    by blast
  have "next_version_free (db ?w) ?p (pol_name ?p)" "pol_name ?p \<noteq> []"
    by (simp_all add: next_version_free_def policy_database_def sample_policy_def)
  moreover have "no_faults ?w" by (simp add: no_faults_def sample_env_def)
  ultimately obtain p' where p': "fst (UpdatePolicy (rec_tenant ?p) (rec_id ?p) u ?w) = Inr p'"
    using ok by blast
  with eq have "p' = ?p\<lparr>pol_version := pol_version ?p + 1, updated_at := updated_at p', pol_restrictions := pol_restrictions p'\<rparr>"
    by blast
  from arg_cong [OF this, of pol_version] have "pol_version p' = pol_version ?p + 1" by simp
  with u p' show "\<exists>u p'. policyUpsertFromForm (submission (policy_form ?p) r) (Some ?p) = Inr u \<and>
      fst (UpdatePolicy ''t'' ''p'' u ?w) = Inr p' \<and> pol_version p' = 2"
    by (auto simp: sample_policy_def)
qed

section \<open>The types of commands\<close>

lemma unseen_options_new:
  "t \<notin> set taken \<Longrightarrow> unseen_options taken ((t, l) # specs) =
     (\<lparr>op_value = t, op_label = l\<rparr> # fst (unseen_options (t # taken) specs), snd (unseen_options (t # taken) specs))"
  by (simp add: Let_def split_beta)

lemma unseen_options_values:
  "op_value ` set (fst (unseen_options taken specs)) = fst ` set specs - set taken"
  "set (snd (unseen_options taken specs)) = set taken \<union> fst ` set specs"
  "distinct (map op_value (fst (unseen_options taken specs)))"
proof (induction taken specs rule: unseen_options.induct)
  case (2 taken t l specs)
  note IH = 2
  case 1
  show ?case
  proof (cases "t \<in> set taken")
    case False
    show ?thesis unfolding unseen_options_new [OF False] using IH(4-6) [OF False] False by auto
  qed (use IH(1-3) in auto)
next
  case (2 taken t l specs)
  note IH = 2
  case 2
  show ?case
  proof (cases "t \<in> set taken")
    case False
    show ?thesis unfolding unseen_options_new [OF False] using IH(4-6) [OF False] False by auto
  qed (use IH(1-3) in auto)
next
  case (2 taken t l specs)
  note IH = 2
  case 3
  show ?case
  proof (cases "t \<in> set taken")
    case False
    have "t \<notin> op_value ` set (fst (unseen_options (t # taken) specs))" using IH(4) [OF False] by simp
    then show ?thesis unfolding unseen_options_new [OF False] using IH(6) [OF False] False by auto
  qed (use IH(1-3) in auto)
qed simp_all

lemma CommandTypesFor_trimmed: "c \<in> set (CommandTypesFor pm ses) \<Longrightarrow> TrimSpace (ct_type c) = ct_type c \<and> ct_type c \<noteq> []"
  by (auto simp: CommandTypesFor_def offered_def Let_def split: option.splits if_splits)

lemma builtin_types: "fst ` set (map (\<lambda>s. (ts_type s, ts_label s)) BuiltinTypes) = {t. IsBuiltinType t \<and> TrimSpace t = t}"
proof -
  have "\<forall>s \<in> set builtinTypes. TrimSpace (ts_type s) = ts_type s \<and> ts_type s \<noteq> []" by code_simp
  then have "t \<in> ts_type ` set builtinTypes \<longleftrightarrow> IsBuiltinType t \<and> TrimSpace t = t" for t
    unfolding IsBuiltinType_def Let_def list_ex_iff by (metis (no_types, lifting) image_iff)
  then show ?thesis by (simp add: BuiltinTypes_def image_image) blast
qed

text \<open>
  C27: The page for commands offers what its handler accepts: the types a session can choose are, each
  once, exactly the trimmed texts that the check of the form lets through for that session and the plugins of the
  server.
\<close>

theorem command_types_agree:
  "op_value ` set (commandTypeOptions (Some ses) pm) =
     {t. TrimSpace t = t \<and> isAllowedCommandType (with_plugins pm d) ses t} \<and>
   distinct (map op_value (commandTypeOptions (Some ses) pm))"
proof -
  let ?b = "map (\<lambda>s. (ts_type s, ts_label s)) BuiltinTypes"
  let ?x = "map (\<lambda>c. (ct_type c, label_or (ct_label c) (ct_type c))) (CommandTypesFor pm (Some ses))"
  obtain bs tb where b: "unseen_options [] ?b = (bs, tb)" by force
  obtain xs tx where x: "unseen_options tb ?x = (xs, tx)" by force
  have none: "CommandTypesFor None (Some ses) = []" by (simp add: CommandTypesFor_def)
  have opts: "commandTypeOptions (Some ses) pm = bs @ xs"
    using b x none by (cases pm) (simp_all add: commandTypeOptions_def)
  note vb = unseen_options_values [of "[]" ?b, unfolded b] and vx = unseen_options_values [of tb ?x, unfolded x]
  have sets: "op_value ` set bs = fst ` set ?b" "op_value ` set xs = fst ` set ?x - fst ` set ?b"
    using vb(1,2) vx(1) by simp_all
  have "op_value ` set (commandTypeOptions (Some ses) pm) = fst ` set ?b \<union> fst ` set ?x"
    unfolding opts set_append image_Un sets by (rule Un_Diff_cancel)
  also have "\<dots> = {t. IsBuiltinType t \<and> TrimSpace t = t} \<union> ct_type ` set (CommandTypesFor pm (Some ses))"
    unfolding builtin_types by force
  also have "\<dots> = {t. TrimSpace t = t \<and> isAllowedCommandType (with_plugins pm d) ses t}"
  proof -
    have found: "SupportsCommandType pm (Some ses) t \<noteq> None \<longleftrightarrow> t \<in> ct_type ` set (CommandTypesFor pm (Some ses))"
      if "TrimSpace t = t" "t \<noteq> []" for t
      using that find_None_iff [of "\<lambda>spec. ct_type spec = t" "CommandTypesFor pm (Some ses)"]
      by (auto simp: SupportsCommandType_def)
    have "(IsBuiltinType t \<and> TrimSpace t = t) \<or> t \<in> ct_type ` set (CommandTypesFor pm (Some ses)) \<longleftrightarrow>
        TrimSpace t = t \<and> isAllowedCommandType (with_plugins pm d) ses t" for t
    proof (cases "TrimSpace t = t \<and> t \<noteq> []")
      case True
      with found [of t] show ?thesis by (simp add: isAllowedCommandType_def with_plugins_def Let_def)
    next
      case False
      then have "t \<notin> ct_type ` set (CommandTypesFor pm (Some ses))" using CommandTypesFor_trimmed by blast
      with False show ?thesis by (auto simp: isAllowedCommandType_def IsBuiltinType_def Let_def)
    qed
    then show ?thesis by blast
  qed
  finally have "op_value ` set (commandTypeOptions (Some ses) pm) =
     {t. TrimSpace t = t \<and> isAllowedCommandType (with_plugins pm d) ses t}" .
  moreover have "distinct (map op_value (commandTypeOptions (Some ses) pm))"
    unfolding opts map_append distinct_append using vb(3) vx(3) sets by (simp add: disjoint_eq_subset_Compl)
  ultimately show ?thesis by blast
qed

end
