(* ===== verification/Listings.thy ===== *)
theory Listings
  imports Forms Ingest
begin

text \<open>
  The tables and summaries of the dashboard's pages (\<open>admin/http/dashboard_*.go\<close>), row by row as the code
  writes them.
\<close>

section \<open>Tables\<close>

text \<open>\<open>lt\<close> formats an instant in the server's time zone.\<close>

type_synonym clock_text = "int \<Rightarrow> string"

definition time_cell :: "clock_text \<Rightarrow> int \<Rightarrow> string" where
  "time_cell lt t = esc (formatDashboardTime lt t)"

text \<open>A map from identifiers to records: a later record replaces an earlier one.\<close>

definition by_ids :: "'a record_base_scheme list \<Rightarrow> string \<Rightarrow> 'a record_base_scheme option" where
  "by_ids items = map_of (rev (map (\<lambda>x. (rec_id x, x)) items))"

definition groupsTable :: "clock_text \<Rightarrow> group_row list \<Rightarrow> string" where
  "groupsTable lt items = tableHTML [] [''Created'', ''ID'', ''Name'', ''Status''] (concat (map (\<lambda>g. tableRowHTML
     [time_cell lt (created_at g), esc (rec_id g), record_link ''groups'' (rec_id g) (label_or (group_name g) (rec_id g)),
      statusBadge (rec_status g)]) items))"

definition rolesTable :: "clock_text \<Rightarrow> role_row list \<Rightarrow> string" where
  "rolesTable lt items = tableHTML [] [''Created'', ''ID'', ''Name'', ''Permissions'', ''Status''] (concat (map (\<lambda>r.
     let perms = joined '', '' (role_permissions r) in tableRowHTML
     [time_cell lt (created_at r), esc (rec_id r), record_link ''roles'' (rec_id r) (role_name r),
      esc (if perms = [] then em_dash else perms), statusBadge (rec_status r)]) items))"

definition role_label :: "(string \<Rightarrow> role_row option) \<Rightarrow> string \<Rightarrow> string" where
  "role_label rs i = (case rs i of None \<Rightarrow> i
     | Some r \<Rightarrow> marked_inactive (label_or (role_name r) (rec_id r)) (rec_status r))"

definition usersTable :: "clock_text \<Rightarrow> user list \<Rightarrow> (string \<Rightarrow> role_row option) \<Rightarrow> string" where
  "usersTable lt items rs = tableHTML [] [''Created'', ''ID'', ''Email'', ''Role'', ''Status''] (concat (map (\<lambda>u. tableRowHTML
     [time_cell lt (created_at u), esc (rec_id u), record_link ''users'' (rec_id u) (us_email u),
      esc (role_label rs (us_role_id u)), statusBadge (rec_status u)]) items))"

definition auditTable :: "formats \<Rightarrow> audit_row list \<Rightarrow> string" where
  \<open>auditTable fm items =
     ''<table class="audit-table"><colgroup><col class="audit-created" style="width:16%"><col class="audit-actor" style="width:9%"><col class="audit-action" style="width:10%"><col class="audit-resource" style="width:15%"><col class="audit-details" style="width:46%"></colgroup><thead><tr><th class="audit-created">Created</th><th class="audit-actor">Actor</th><th class="audit-action">Action</th><th class="audit-resource">Resource</th><th class="audit-details">Details</th></tr></thead><tbody>'' @
     concat (map (\<lambda>e. ''<tr>'' @
       ''<td class="audit-created">'' @ time_cell (local_time fm) (evt_created e) @ ''</td>'' @
       ''<td class="audit-actor">'' @ esc (evt_actor e) @ ''</td>'' @
       ''<td class="audit-action">'' @ esc (evt_action e) @ ''</td>'' @
       ''<td class="audit-resource">'' @ esc (evt_resource_type e @ ''/'' @ evt_resource_id e) @ ''</td>'' @
       ''<td class="audit-details">'' @ pre fm (decoded fm (JObj (evt_details e))) @ ''</td>'' @
       ''</tr>'') items) @ ''</tbody></table>''\<close>

definition policiesTable :: "clock_text \<Rightarrow> policy_row list \<Rightarrow> string" where
  "policiesTable lt items = tableHTML [] [''Created'', ''ID'', ''Name'', ''Kiosk'', ''Status''] (concat (map (\<lambda>p. tableRowHTML
     [time_cell lt (created_at p), esc (rec_id p), record_link ''policies'' (rec_id p) (pol_name p),
      boolBadge (pol_kiosk_mode p) ''enabled'' ''disabled'', statusBadge (rec_status p)]) items))"

definition storage_or :: "artifact option \<Rightarrow> string \<Rightarrow> string" where
  "storage_or a i = (case a of None \<Rightarrow> i | Some x \<Rightarrow> if TrimSpace (a_storage_key x) \<noteq> [] then a_storage_key x else i)"

definition certificatesTable :: "clock_text \<Rightarrow> certificate_view list \<Rightarrow> string" where
  "certificatesTable lt items = tableHTML [] [''Created'', ''ID'', ''Name'', ''Artifact'', ''Status''] (concat (map (\<lambda>v.
     let c = cv_row v in tableRowHTML
     [time_cell lt (created_at c), esc (rec_id c), record_link ''certificates'' (rec_id c) (cert_name c),
      esc (storage_or (cv_artifact v) (cert_artifact_id c)), statusBadge (rec_status c)]) items))"

definition file_label :: "managed_view \<Rightarrow> string" where
  "file_label v = (case mv_file v of None \<Rightarrow> mf_file_id (mv_row v)
     | Some f \<Rightarrow> if TrimSpace (fv_name f) \<noteq> [] then fv_name f else mf_file_id (mv_row v))"

definition managedFilesTable :: "clock_text \<Rightarrow> managed_view list \<Rightarrow> string" where
  "managedFilesTable lt items = tableHTML [] [''Created'', ''ID'', ''Path'', ''File'', ''Template'', ''Status''] (concat (map (\<lambda>v.
     let m = mv_row v in tableRowHTML
     [time_cell lt (created_at m), esc (rec_id m), record_link ''managed-files'' (rec_id m) (label_or (mf_path m) (rec_id m)),
      esc (file_label v), boolBadge (mf_replace m) ''enabled'' ''disabled'', statusBadge (rec_status m)]) items))"

text \<open>
  \<open>appLatestPublishedVersion\<close>: of the published versions the one published last; one with a
  time of publication counts as later than one without.
\<close>

definition supersedes :: "version_row \<Rightarrow> version_row \<Rightarrow> bool" where
  "supersedes v latest = (case (ver_published v, ver_published latest) of
      (Some s, Some t) \<Rightarrow> s > t
    | (Some _, None) \<Rightarrow> True
    | (None, Some _) \<Rightarrow> False
    | (None, None) \<Rightarrow> ver_created v > ver_created latest)"

fun latest_version :: "version_row option \<Rightarrow> version_row list \<Rightarrow> version_row option" where
  "latest_version latest [] = latest"
| "latest_version latest (v # vs) =
     (if ver_status v \<noteq> ''published'' then latest_version latest vs
      else case latest of
          None \<Rightarrow> latest_version (Some v) vs
        | Some l \<Rightarrow> latest_version (Some (if supersedes v l then v else l)) vs)"

definition appLatestPublishedVersion :: "version_row list \<Rightarrow> version_row option" where
  "appLatestPublishedVersion items = latest_version None items"

definition appVersionLabel :: "clock_text \<Rightarrow> version_row option \<Rightarrow> string" where
  "appVersionLabel lt item = (case item of None \<Rightarrow> em_dash
     | Some v \<Rightarrow>
         let published = (case ver_published v of Some t \<Rightarrow> if t \<noteq> zero_time then t else ver_created v | None \<Rightarrow> ver_created v)
         in ver_name v @ '' (#'' @ FormatInt (ver_code v) @ '') '' @ middle_dot @ '' '' @ formatDashboardTime lt published)"

definition owned_mark :: string where
  \<open>owned_mark = ''<span class="status-pill status-enabled">'' @ [CHR 0xE2, CHR 0x9C, CHR 0x93] @ ''</span>''\<close>

definition appsTable :: "clock_text \<Rightarrow> app_row list \<Rightarrow> (string \<Rightarrow> version_row list) \<Rightarrow> string" where
  \<open>appsTable lt items versions = tableHTML [] [''Created'', ''Name'', ''Package'', ''System owned'', ''Latest published'', ''Status''] (concat (map (\<lambda>a. tableRowHTML
     [time_cell lt (created_at a), record_link ''apps'' (rec_id a) (app_name a), esc (app_package a),
      (if app_system_owned a then owned_mark else []),
      esc (appVersionLabel lt (appLatestPublishedVersion (versions (rec_id a)))), statusBadge (rec_status a)]) items))\<close>

definition time_or_dash :: "clock_text \<Rightarrow> int option \<Rightarrow> string" where
  "time_or_dash lt t = (case t of None \<Rightarrow> em_dash | Some x \<Rightarrow> formatDashboardTime lt x)"

definition code_text :: "string \<Rightarrow> string" where
  "code_text v = ''<code>'' @ esc v @ ''</code>''"

definition appVersionsTable :: "clock_text \<Rightarrow> version_row list \<Rightarrow> string" where
  \<open>appVersionsTable lt items = tableHTML [] [''Created'', ''ID'', ''Name'', ''Code'', ''Status'', ''Published'', ''Artifact''] (concat (map (\<lambda>v. tableRowHTML
     [time_cell lt (ver_created v), esc (ver_id v), esc (ver_name v), esc (FormatInt (ver_code v)), statusBadge (ver_status v),
      esc (time_or_dash lt (ver_published v)),
      code_text (case ver_artifact v of None \<Rightarrow> ver_checksum v | Some a \<Rightarrow> if TrimSpace a \<noteq> [] then a else ver_checksum v)]) items))\<close>

definition device_link :: "(string \<Rightarrow> device option) \<Rightarrow> string \<Rightarrow> string" where
  "device_link devs i = (case devs i of None \<Rightarrow> esc i
     | Some v \<Rightarrow> record_link ''devices'' (rec_id v) (label_or (dv_name v) (rec_id v)))"

definition commandsTable :: "clock_text \<Rightarrow> command_row list \<Rightarrow> (string \<Rightarrow> device option) \<Rightarrow> string" where
  "commandsTable lt items devs = tableHTML [] [''Created'', ''ID'', ''Type'', ''Device'', ''Status'', ''Expires''] (concat (map (\<lambda>c. tableRowHTML
     [time_cell lt (cmd_created c), record_link ''commands'' (cmd_id c) (cmd_id c), esc (cmd_type c), device_link devs (cmd_device c),
      statusBadge (cmd_status c), esc (time_or_dash lt (cmd_expires c))]) items))"

section \<open>Records as reflection sees them\<close>

definition ptr_time :: "int option \<Rightarrow> gvalue" where
  "ptr_time t = (case t of None \<Rightarrow> VNil | Some x \<Rightarrow> VTime x)"

definition ptr_string :: "string option \<Rightarrow> gvalue" where
  "ptr_string s = (case s of None \<Rightarrow> VNil | Some x \<Rightarrow> VString x)"

definition value_field :: "string \<Rightarrow> gvalue \<Rightarrow> string \<times> bool \<times> gvalue" where
  "value_field n v = (n, False, v)"

definition base_field :: "'a record_base_scheme \<Rightarrow> string \<times> bool \<times> gvalue" where
  "base_field r = (''RecordBase'', True, VStruct
     [value_field ''ID'' (VString (rec_id r)), value_field ''TenantID'' (VString (rec_tenant r)),
      value_field ''Status'' (VString (rec_status r)), value_field ''CreatedAt'' (VTime (created_at r)),
      value_field ''UpdatedAt'' (VTime (updated_at r)), value_field ''DeletedAt'' (ptr_time (deleted_at r))])"

definition file_base_field :: "'a file_base_scheme \<Rightarrow> string \<times> bool \<times> gvalue" where
  "file_base_field r = (''RecordBase'', True, VStruct
     [value_field ''ID'' (VString (fb_id r)), value_field ''TenantID'' (VString (fb_tenant r)),
      value_field ''Status'' (VString (fb_status r)), value_field ''UpdatedAt'' (VTime (fb_updated r)),
      value_field ''DeletedAt'' (ptr_time (fb_deleted r))])"

definition group_value :: "group_row \<Rightarrow> gvalue" where
  "group_value g = VStruct [base_field g, value_field ''Name'' (VString (group_name g))]"

definition role_value :: "role_row \<Rightarrow> gvalue" where
  "role_value r = VStruct [base_field r, value_field ''Name'' (VString (role_name r)),
     value_field ''Permissions'' (VSlice (Some (map VString (role_permissions r))))]"

definition user_value :: "user \<Rightarrow> gvalue" where
  "user_value u = VStruct [base_field u, value_field ''Email'' (VString (us_email u)), value_field ''RoleID'' (VString (us_role_id u))]"

definition obj_value :: "formats \<Rightarrow> obj \<Rightarrow> gvalue" where
  "obj_value fm j = decoded fm (JObj j)"

definition device_value :: "formats \<Rightarrow> device \<Rightarrow> gvalue" where
  "device_value fm v = VStruct [base_field v, value_field ''Name'' (VString (dv_name v)),
     value_field ''PolicyID'' (ptr_string (dv_policy_id v)),
     value_field ''GroupIDs'' (VSlice (if dv_group_ids v = [] then None else Some (map VString (dv_group_ids v)))),
     value_field ''BootstrapExtras'' (case dv_extras v of None \<Rightarrow> VMap None | Some j \<Rightarrow> obj_value fm j)]"

text \<open>\<open>stored\<close> is the text of a \<open>jsonb\<close> column.\<close>

definition policy_value :: "(json \<Rightarrow> string) \<Rightarrow> policy_row \<Rightarrow> gvalue" where
  "policy_value stored p = VStruct [base_field p, value_field ''Name'' (VString (pol_name p)),
     value_field ''Version'' (VInt (pol_version p)), value_field ''KioskMode'' (VBool (pol_kiosk_mode p)),
     value_field ''KioskAppPackage'' (VString (pol_kiosk_app p)),
     value_field ''Restrictions'' (VRaw (Some (stored (pol_restrictions p))))]"

definition app_value :: "app_row \<Rightarrow> gvalue" where
  "app_value a = VStruct [base_field a, value_field ''PackageName'' (VString (app_package a)),
     value_field ''Name'' (VString (app_name a)), value_field ''SystemOwned'' (VBool (app_system_owned a))]"

definition version_value :: "version_row \<Rightarrow> gvalue" where
  "version_value v = VStruct [value_field ''ID'' (VString (ver_id v)), value_field ''TenantID'' (VString (ver_tenant v)),
     value_field ''AppID'' (VString (ver_app v)), value_field ''Status'' (VString (ver_status v)),
     value_field ''VersionName'' (VString (ver_name v)), value_field ''VersionCode'' (VInt (ver_code v)),
     value_field ''ArtifactID'' (ptr_string (ver_artifact v)), value_field ''Artifact'' VNil,
     value_field ''Checksum'' (VString (ver_checksum v)), value_field ''PublishedAt'' (ptr_time (ver_published v)),
     value_field ''CreatedAt'' (VTime (ver_created v))]"

definition artifact_value :: "artifact \<Rightarrow> gvalue" where
  "artifact_value a = VStruct [file_base_field a, value_field ''StorageKey'' (VString (a_storage_key a)),
     value_field ''Checksum'' (VString (a_checksum a)), value_field ''SizeBytes'' (VInt (a_size a)),
     value_field ''MimeType'' (VString (a_mime a))]"

definition ptr_artifact :: "artifact option \<Rightarrow> gvalue" where
  "ptr_artifact a = (case a of None \<Rightarrow> VNil | Some x \<Rightarrow> artifact_value x)"

definition certificate_value :: "certificate_view \<Rightarrow> gvalue" where
  "certificate_value v = (let c = cv_row v in VStruct [base_field c, value_field ''Name'' (VString (cert_name c)),
     value_field ''ArtifactID'' (VString (cert_artifact_id c)), value_field ''Checksum'' (VString (cert_checksum c)),
     value_field ''Artifact'' (ptr_artifact (cv_artifact v))])"

definition file_value :: "file_view \<Rightarrow> gvalue" where
  "file_value f = VStruct [file_base_field f, value_field ''Name'' (VString (fv_name f)),
     value_field ''ArtifactID'' (VString (fv_artifact_id f)), value_field ''Checksum'' (VString (fv_checksum f)),
     value_field ''MimeType'' (VString (fv_mime f)), value_field ''Artifact'' (ptr_artifact (fv_artifact f))]"

definition managed_value :: "managed_view \<Rightarrow> gvalue" where
  "managed_value v = (let m = mv_row v in VStruct [base_field m, value_field ''FileID'' (VString (mf_file_id m)),
     value_field ''Path'' (VString (mf_path m)), value_field ''ReplaceVariables'' (VBool (mf_replace m)),
     value_field ''File'' (case mv_file v of None \<Rightarrow> VNil | Some f \<Rightarrow> file_value f)])"

definition command_value :: "formats \<Rightarrow> command_row \<Rightarrow> gvalue" where
  "command_value fm c = VStruct [value_field ''ID'' (VString (cmd_id c)), value_field ''Type'' (VString (cmd_type c)),
     value_field ''Payload'' (obj_value fm (cmd_payload c)), value_field ''Status'' (VString (cmd_status c)),
     value_field ''ExpiresAt'' (ptr_time (cmd_expires c)), value_field ''AckedAt'' (ptr_time (cmd_acked c)),
     value_field ''Result'' (obj_value fm (cmd_result c)), value_field ''DeviceID'' (VString (cmd_device c)),
     value_field ''TenantID'' (VString (cmd_tenant c)), value_field ''CreatedAt'' (VTime (cmd_created c)),
     value_field ''UpdatedAt'' (VTime (cmd_updated c))]"

section \<open>Summaries\<close>

definition restrictionPackageList :: "string list \<Rightarrow> string" where
  \<open>restrictionPackageList items =
     (if items = [] then ''<span class="structured-muted">None</span>''
      else ''<div class="structured-list">'' @
        concat (map (\<lambda>item. if TrimSpace item = [] then [] else ''<span class="structured-pill">'' @ esc item @ ''</span>'') items) @
        ''</div>'')\<close>

text \<open>The payload of the dashboard has no field for the hash of the passcode: its key is skipped.\<close>

definition dashboard_restrictions :: "json \<Rightarrow> restrictions_payload \<times> bool" where
  "dashboard_restrictions raw = decode_restrictions (case raw of
      JObj kvs \<Rightarrow> JObj (filter (\<lambda>kv. ToLower (fst kv) \<noteq> ''kioskexitpasscodehash'') kvs) | j \<Rightarrow> j)"

definition renderPolicyRestrictions :: "formats \<Rightarrow> (json \<Rightarrow> string) \<Rightarrow> json \<Rightarrow> string" where
  \<open>renderPolicyRestrictions fm stored raw =
     (if raw = JNull then ''<span class="structured-muted">No restrictions stored.</span>''
      else case dashboard_restrictions raw of (rp, ok) \<Rightarrow>
        if \<not> ok then renderStructuredJSON fm (Some (stored raw))
        else ''<div class="policy-summary">'' @
          summaryHTMLItem ''Allow packages'' (restrictionPackageList (rp_allow rp)) @
          summaryHTMLItem ''Block packages'' (restrictionPackageList (rp_block rp)) @
          summaryHTMLItem ''Suspend packages'' (restrictionPackageList (rp_suspend rp)) @
          summaryHTMLItem ''Keep screen on'' (boolBadge (rp_keep_screen_on rp) ''enabled'' ''disabled'') @
          summaryHTMLItem ''Stay awake while plugged in'' (boolBadge (rp_stay_awake rp) ''enabled'' ''disabled'') @
          summaryHTMLItem ''Unlock on boot'' (boolBadge (rp_unlock_on_boot rp) ''enabled'' ''disabled'') @
          summaryHTMLItem ''Exit passcode configured'' (boolBadge (TrimSpace (rp_passcode rp) \<noteq> []) ''yes'' ''no'') @
          ''</div>'')\<close>

definition policySummary :: "formats \<Rightarrow> (json \<Rightarrow> string) \<Rightarrow> policy_row \<Rightarrow> string" where
  \<open>policySummary fm stored p =
     ''<section class="panel"><h2 class="section-heading"><span>Current policy</span><span class="section-heading-meta">'' @
     esc (rec_status p) @ '' '' @ middle_dot @ '' v'' @ FormatInt (pol_version p) @ ''</span></h2>'' @
     ''<div class="policy-summary">'' @
     summaryTextItem ''Created'' (formatDashboardTime (local_time fm) (created_at p)) @
     summaryTextItem ''Updated'' (formatDashboardTime (local_time fm) (updated_at p)) @
     summaryTextItem ''ID'' (rec_id p) @
     summaryTextItem ''Name'' (pol_name p) @
     summaryTextItem ''Version'' (FormatInt (pol_version p)) @
     summaryHTMLItem ''Kiosk mode'' (boolBadge (pol_kiosk_mode p) ''enabled'' ''disabled'') @
     summaryTextItem ''Kiosk app package'' (if TrimSpace (pol_kiosk_app p) = [] then em_dash else pol_kiosk_app p) @
     summaryHTMLItem ''Status'' (statusBadge (rec_status p)) @
     summaryWideHTMLItem ''Stored restrictions'' (renderPolicyRestrictions fm stored (pol_restrictions p)) ''policy-restrictions-value'' @
     ''</div>'' @ rawDataDetails fm ''Raw policy data'' (policy_value stored p) @ ''</section>''\<close>

definition download_button :: "string \<Rightarrow> string \<Rightarrow> string \<Rightarrow> string" where
  \<open>download_button kind i label = ''<a class="button btn-primary" href="/admin/'' @ kind @ ''/'' @ escAttr i @ ''/download">'' @ label @ ''</a>''\<close>

definition appSummary :: "formats \<Rightarrow> app_row \<Rightarrow> version_row option \<Rightarrow> string" where
  \<open>appSummary fm a latest =
     ''<div class="policy-summary">'' @
     summaryTextItem ''Created'' (formatDashboardTime (local_time fm) (created_at a)) @
     summaryTextItem ''Updated'' (formatDashboardTime (local_time fm) (updated_at a)) @
     summaryTextItem ''ID'' (rec_id a) @
     summaryTextItem ''Name'' (app_name a) @
     summaryTextItem ''Package'' (app_package a) @
     summaryHTMLItem ''Locked'' (boolBadge (app_system_owned a) ''system-owned'' ''editable'') @
     (case latest of None \<Rightarrow> [] | Some v \<Rightarrow> if ver_artifact v \<noteq> None
        then summaryHTMLItem ''Download'' (download_button ''apps'' (rec_id a) ''Download latest APK'') else []) @
     summaryHTMLItem ''Status'' (statusBadge (rec_status a)) @
     ''</div>'' @ rawDataDetails fm ''Raw app data'' (app_value a) @
     (case latest of None \<Rightarrow> [] | Some v \<Rightarrow> rawDataDetails fm ''Raw latest version data'' (version_value v))\<close>

definition certificate_summary :: "formats \<Rightarrow> certificate_view \<Rightarrow> string" where
  \<open>certificate_summary fm v = (let c = cv_row v in
     ''<div class="policy-summary">'' @
     summaryTextItem ''Created'' (formatDashboardTime (local_time fm) (created_at c)) @
     summaryTextItem ''Updated'' (formatDashboardTime (local_time fm) (updated_at c)) @
     summaryTextItem ''ID'' (rec_id c) @
     summaryTextItem ''Name'' (cert_name c) @
     summaryTextItem ''Artifact'' (cert_artifact_id c) @
     summaryTextItem ''Checksum'' (cert_checksum c) @
     (case cv_artifact v of None \<Rightarrow> [] | Some a \<Rightarrow>
        summaryHTMLItem ''Download'' (download_button ''certificates'' (rec_id c) ''Download certificate'') @
        summaryTextItem ''Storage key'' (a_storage_key a) @
        summaryTextItem ''Size'' (FormatInt (a_size a)) @
        summaryTextItem ''MIME'' (a_mime a)) @
     summaryHTMLItem ''Status'' (statusBadge (rec_status c)) @
     ''</div>'' @ rawDataDetails fm ''Raw certificate data'' (certificate_value v))\<close>

definition managed_file_summary :: "formats \<Rightarrow> managed_view \<Rightarrow> string" where
  \<open>managed_file_summary fm v = (let m = mv_row v in
     ''<div class="policy-summary">'' @
     summaryTextItem ''Created'' (formatDashboardTime (local_time fm) (created_at m)) @
     summaryTextItem ''Updated'' (formatDashboardTime (local_time fm) (updated_at m)) @
     summaryTextItem ''ID'' (rec_id m) @
     summaryTextItem ''Path'' (mf_path m) @
     summaryTextItem ''File ID'' (mf_file_id m) @
     (case mv_file v of None \<Rightarrow> [] | Some f \<Rightarrow>
        summaryTextItem ''Source file'' (fv_name f) @
        summaryTextItem ''Artifact'' (fv_artifact_id f) @
        summaryTextItem ''Checksum'' (fv_checksum f) @
        summaryTextItem ''MIME'' (fv_mime f) @
        summaryHTMLItem ''Download'' (download_button ''managed-files'' (rec_id m) ''Download file'')) @
     summaryHTMLItem ''Template'' (boolBadge (mf_replace m) ''enabled'' ''disabled'') @
     summaryHTMLItem ''Status'' (statusBadge (rec_status m)) @
     ''</div>'' @ rawDataDetails fm ''Raw managed file data'' (managed_value v))\<close>

text \<open>
  \<open>commandTransportSource\<close>. The device of a command is the zero record when it is not found.
\<close>

definition commandTransportSource :: "command_row \<Rightarrow> string" where
  "commandTransportSource c =
     (let nested = (case map_of (cmd_result c) ''details'' of
          Some (JObj details) \<Rightarrow> (case map_of details ''transportSource'' of Some (JStr raw) \<Rightarrow> TrimSpace raw | _ \<Rightarrow> [])
        | _ \<Rightarrow> []) in
      case map_of (cmd_result c) ''transportSource'' of
        Some (JStr raw) \<Rightarrow> if TrimSpace raw \<noteq> [] then TrimSpace raw else nested
      | _ \<Rightarrow> nested)"

definition commandSummary :: "formats \<Rightarrow> command_row \<Rightarrow> device option \<Rightarrow> string" where
  \<open>commandSummary fm c dev =
     (let lt = local_time fm in panelSectionHTML [] ''Current command'' (
     ''<div class="policy-summary">'' @
     summaryTextItem ''Created'' (formatDashboardTime lt (cmd_created c)) @
     summaryTextItem ''Updated'' (formatDashboardTime lt (cmd_updated c)) @
     summaryTextItem ''ID'' (cmd_id c) @
     summaryTextItem ''Type'' (cmd_type c) @
     summaryHTMLItem ''Device'' (case dev of
         Some v \<Rightarrow> if rec_id v \<noteq> [] then record_link ''devices'' (rec_id v) (label_or (dv_name v) (rec_id v)) else cmd_device c
       | None \<Rightarrow> cmd_device c) @
     summaryHTMLItem ''Status'' (statusBadge (cmd_status c)) @
     summaryTextItem ''Expires'' (time_or_dash lt (cmd_expires c)) @
     summaryTextItem ''Acked'' (time_or_dash lt (cmd_acked c)) @
     (if commandTransportSource c \<noteq> [] then summaryTextItem ''Transport'' (commandTransportSource c) else []) @
     summaryWideHTMLItem ''Payload'' (preStructuredOnly fm (obj_value fm (cmd_payload c))) [] @
     (if cmd_result c \<noteq> [] then summaryWideHTMLItem ''Result'' (preStructuredOnly fm (obj_value fm (cmd_result c))) []
      else summaryTextItem ''Result'' em_dash) @
     ''</div>'' @ rawDataDetails fm ''Raw command data'' (command_value fm c)))\<close>

definition pluginDeviceActionsSection :: "device_action list \<Rightarrow> string" where
  \<open>pluginDeviceActionsSection actions =
     (if actions = [] then []
      else ''<details class="panel"><summary><span class="panel-summary-title">Plugin actions</span></summary><div class="panel-body"><div class="policy-summary">'' @
        concat (map (\<lambda>a.
          let title = (if TrimSpace (da_plugin a) \<noteq> [] then da_plugin a @ '' / '' @ da_action a else da_action a) in
          summaryHTMLItem ''Action'' (''<a class="button btn-primary" href="'' @ escAttr (da_href a) @ ''" title="'' @
            escAttr title @ ''">'' @ esc (da_label a) @ ''</a>'')) actions) @
        ''</div></div></details>'')\<close>

section \<open>What a policy assigns\<close>

definition policyAppToggleForm :: "string \<Rightarrow> string \<Rightarrow> bool \<Rightarrow> string" where
  \<open>policyAppToggleForm act csrf enabled =
     ''<form class="inline" method="post" action="'' @ escAttr act @ ''"><input type="hidden" name="csrfToken" value="'' @
     escAttr csrf @ ''"><button type="submit"'' @ (if enabled then '' class="danger"'' else []) @ ''>'' @
     esc (if enabled then ''Disable'' else ''Enable'') @ ''</button></form>''\<close>

text \<open>The maps of the assignments' states: an absent key reads as false.\<close>

definition appAssignmentStatusByID :: "binding_row list \<Rightarrow> string \<Rightarrow> bool" where
  "appAssignmentStatusByID bs i =
     (map_of (rev (map (\<lambda>b. (bind_item b, rec_status b = ''active'')) bs)) i = Some True)"

text \<open>
  The three sections differ in the columns: \<open>cells\<close> gives those of an item before its state. Items that are
  not active are left out, after the page has been cut.
\<close>

definition assigned_row :: "(string \<Rightarrow> bool) \<Rightarrow> (string \<Rightarrow> string) \<Rightarrow> string \<Rightarrow> bool \<Rightarrow> ('a \<Rightarrow> string) \<Rightarrow> ('a \<Rightarrow> string list) \<Rightarrow> 'a \<Rightarrow> string" where
  "assigned_row assigned act csrf writable ident cells x = tableRowHTML (cells x @
     [boolBadge (assigned (ident x)) ''enabled'' ''disabled'',
      if writable then policyAppToggleForm (act (ident x)) csrf (assigned (ident x)) else []])"

definition assigned_heading :: "string \<Rightarrow> nat \<Rightarrow> nat \<Rightarrow> string" where
  \<open>assigned_heading title enabled active =
     ''<section class="panel policy-detail-section"><h2 class="section-heading"><span>'' @ title @
     ''</span><span class="section-heading-meta">'' @
     esc (FormatInt (int enabled) @ '' enabled / '' @ FormatInt (int active) @ '' available'') @ ''</span></h2>''\<close>

definition no_rows :: "string \<Rightarrow> string \<Rightarrow> string" where
  \<open>no_rows cols message = ''<tr><td colspan="'' @ cols @ ''" class="muted">'' @ message @ ''</td></tr>''\<close>

definition policyManagedAppsSummary ::
  "web_request \<Rightarrow> page_url \<Rightarrow> string \<Rightarrow> app_row list \<Rightarrow> binding_row list \<Rightarrow> string \<Rightarrow> bool \<Rightarrow> string" where
  "policyManagedAppsSummary r u policyID items bs csrf writable =
     (let assigned = appAssignmentStatusByID bs;
          (page, params) = listPaginationParamsForKeys r ''policyAppsPage'' ''policyAppsLimit'' DefaultLimit;
          limit = wrap64 (pg_limit params - 1);
          (pageItems, hasNext) = paginateItems items limit;
          active = filter (\<lambda>a. rec_status a = ''active'') pageItems;
          rows = concat (map (assigned_row assigned (\<lambda>i. ''/admin/policies/'' @ policyID @ ''/apps/'' @ i @ ''/toggle'') csrf writable rec_id
            (\<lambda>a. [record_link ''apps'' (rec_id a) (label_or (app_name a) (app_package a)), esc (app_package a), statusBadge (rec_status a)])) active)
      in assigned_heading ''Managed apps'' (length (filter (\<lambda>a. assigned (rec_id a)) active)) (length active) @
         tableHTML [] [''Name'', ''Package'', ''Status'', ''Policy state'', ''Action'']
           (if active = [] then no_rows ''5'' ''No active managed apps on this page.'' else rows) @
         pagerHTMLForKeys u ''policyAppsPage'' ''policyAppsLimit'' page limit hasNext @ ''</section>'')"

definition policyManagedCertificatesSummary ::
  "web_request \<Rightarrow> page_url \<Rightarrow> string \<Rightarrow> certificate_view list \<Rightarrow> binding_row list \<Rightarrow> string \<Rightarrow> bool \<Rightarrow> string" where
  "policyManagedCertificatesSummary r u policyID items bs csrf writable =
     (let assigned = appAssignmentStatusByID bs;
          (page, params) = listPaginationParamsForKeys r ''policyCertificatesPage'' ''policyCertificatesLimit'' DefaultLimit;
          limit = wrap64 (pg_limit params - 1);
          (pageItems, hasNext) = paginateItems items limit;
          active = filter (\<lambda>v. rec_status (cv_row v) = ''active'') pageItems;
          rows = concat (map (assigned_row assigned (\<lambda>i. ''/admin/policies/'' @ policyID @ ''/certificates/'' @ i @ ''/toggle'') csrf writable (\<lambda>v. rec_id (cv_row v))
            (\<lambda>v. let c = cv_row v in [record_link ''certificates'' (rec_id c) (label_or (cert_name c) (rec_id c)),
               esc (storage_or (cv_artifact v) (cert_artifact_id c)), statusBadge (rec_status c)])) active)
      in assigned_heading ''Managed certificates'' (length (filter (\<lambda>v. assigned (rec_id (cv_row v))) active)) (length active) @
         tableHTML [] [''Name'', ''Artifact'', ''Status'', ''Policy state'', ''Action'']
           (if active = [] then no_rows ''5'' ''No active managed certificates on this page.'' else rows) @
         pagerHTMLForKeys u ''policyCertificatesPage'' ''policyCertificatesLimit'' page limit hasNext @ ''</section>'')"

definition policyManagedFilesSummary ::
  "web_request \<Rightarrow> page_url \<Rightarrow> string \<Rightarrow> managed_view list \<Rightarrow> binding_row list \<Rightarrow> string \<Rightarrow> bool \<Rightarrow> string" where
  "policyManagedFilesSummary r u policyID items bs csrf writable =
     (let assigned = appAssignmentStatusByID bs;
          (page, params) = listPaginationParamsForKeys r ''policyManagedFilesPage'' ''policyManagedFilesLimit'' DefaultLimit;
          limit = wrap64 (pg_limit params - 1);
          (pageItems, hasNext) = paginateItems items limit;
          active = filter (\<lambda>v. rec_status (mv_row v) = ''active'') pageItems;
          rows = concat (map (assigned_row assigned (\<lambda>i. ''/admin/policies/'' @ policyID @ ''/managed-files/'' @ i @ ''/toggle'') csrf writable (\<lambda>v. rec_id (mv_row v))
            (\<lambda>v. let m = mv_row v in [record_link ''managed-files'' (rec_id m) (label_or (mf_path m) (rec_id m)),
               esc (file_label v), boolBadge (mf_replace m) ''enabled'' ''disabled'', statusBadge (rec_status m)])) active)
      in assigned_heading ''Managed files'' (length (filter (\<lambda>v. assigned (rec_id (mv_row v))) active)) (length active) @
         tableHTML [] [''Path'', ''File'', ''Template'', ''Status'', ''Policy state'', ''Action'']
           (if active = [] then no_rows ''6'' ''No active managed files on this page.'' else rows) @
         pagerHTMLForKeys u ''policyManagedFilesPage'' ''policyManagedFilesLimit'' page limit hasNext @ ''</section>'')"

section \<open>The tables and summaries are sound\<close>

lemma time_cell_sound [pieces]: "well_nested (time_cell lt t)"
  by (simp add: time_cell_def)

lemma esc_sound [pieces]: "well_nested (esc v)"
  by simp

lemma empty_sound [pieces]: "well_nested []"
  by simp

lemma device_link_sound [pieces]: "well_nested (device_link devs i)"
  by (simp add: device_link_def record_link_sound split: option.split)

lemma owned_mark_sound [pieces]: "well_nested owned_mark"
  by (simp add: owned_mark_def tags)

lemma code_text_sound [pieces]: "well_nested (code_text v)"
  by (simp add: code_text_def tags)

lemma rows_sound: "(\<And>x c. x \<in> set xs \<Longrightarrow> c \<in> set (cells x) \<Longrightarrow> well_nested c) \<Longrightarrow>
    well_nested (tableHTML cls headers (concat (map (\<lambda>x. tableRowHTML (cells x)) xs)))"
  by (intro tableHTML_sound well_nested_concat_map tableRowHTML_sound)

lemmas table_defs = groupsTable_def rolesTable_def usersTable_def policiesTable_def certificatesTable_def
  managedFilesTable_def appsTable_def appVersionsTable_def commandsTable_def

lemma cells_sound:
  assumes "\<And>x. list_all well_nested (cells x)"
  shows "well_nested (tableHTML cls headers (concat (map (\<lambda>x. tableRowHTML (cells x)) xs)))"
  by (rule rows_sound) (use assms in \<open>auto simp: list_all_iff\<close>)

lemma tables_sound:
  "well_nested (groupsTable lt gs)" "well_nested (rolesTable lt rs)" "well_nested (usersTable lt us role)"
  "well_nested (policiesTable lt ps)" "well_nested (certificatesTable lt cs)" "well_nested (managedFilesTable lt ms)"
  "well_nested (appsTable lt as versions)" "well_nested (appVersionsTable lt vs)" "well_nested (commandsTable lt cmds devs)"
  unfolding table_defs Let_def
  by (rule cells_sound, simp add: list.pred_inject pieces)+

lemmas item_tags = well_nested_def [of "_ # _"] well_nested_def [of "_ @ _"] open_tag_def is_void_def

lemma download_button_sound [pieces]:
  "plain_text kind \<Longrightarrow> plain_text label \<Longrightarrow> well_nested (download_button kind i label)"
  by (simp add: download_button_def tags)

lemma summaries_sound:
  "well_nested (appSummary fm a latest)" "well_nested (certificate_summary fm c)" "well_nested (managed_file_summary fm m)"
  by (simp_all add: appSummary_def certificate_summary_def managed_file_summary_def Let_def item_tags pieces
      split: option.split)

lemma policyAppToggleForm_sound [pieces]: "well_nested (policyAppToggleForm act csrf enabled)"
  by (simp add: policyAppToggleForm_def tags)

lemma pluginDeviceActionsSection_sound [pieces]: "well_nested (pluginDeviceActionsSection actions)"
proof -
  have "well_nested (concat (map (\<lambda>a.
      let title = (if TrimSpace (da_plugin a) \<noteq> [] then da_plugin a @ '' / '' @ da_action a else da_action a) in
      summaryHTMLItem ''Action'' (''<a class=\"button btn-primary\" href=\"'' @ escAttr (da_href a) @ ''\" title=\"'' @
        escAttr title @ ''\">'' @ esc (da_label a) @ ''</a>'')) actions))"
    unfolding Let_def by (intro well_nested_concat_map summaryHTMLItem_sound) (simp add: tags)
  from scan_well_nested [OF this] show ?thesis by (simp add: pluginDeviceActionsSection_def tags del: scan_well_nested)
qed

lemma assigned_row_sound:
  "list_all well_nested (cells x) \<Longrightarrow> well_nested (assigned_row assigned act csrf writable ident cells x)"
  unfolding assigned_row_def
  by (rule tableRowHTML_sound) (auto simp: list_all_iff pieces split: if_splits)

lemma no_rows_sound: "plain_text cols \<Longrightarrow> plain_text message \<Longrightarrow> well_nested (no_rows cols message)"
  by (simp add: no_rows_def tags)

lemma assigned_section_sound:
  assumes "well_nested rows" "well_nested pager" "plain_text title"
  shows "well_nested (assigned_heading title n k @ tableHTML [] headers rows @ pager @ ''</section>'')"
  using scan_well_nested [OF tableHTML_sound [OF assms(1)], of "[]" headers] assms(2,3)
  by (simp add: assigned_heading_def tags tableHTML_sound assms(1))

lemma assignments_sound:
  "well_nested (policyManagedAppsSummary r u i as bs csrf writable)"
  "well_nested (policyManagedCertificatesSummary r u i cs bs csrf writable)"
  "well_nested (policyManagedFilesSummary r u i ms bs csrf writable)"
  unfolding policyManagedAppsSummary_def policyManagedCertificatesSummary_def policyManagedFilesSummary_def Let_def case_prod_unfold
  by (rule assigned_section_sound; (simp add: no_rows_sound pieces)?;
      intro impI well_nested_concat_map assigned_row_sound; simp add: list.pred_inject pieces)+

lemma restrictionPackageList_sound [pieces]: "well_nested (restrictionPackageList items)"
proof -
  have "well_nested (concat (map (\<lambda>item. if TrimSpace item = [] then [] else ''<span class=\"structured-pill\">'' @ esc item @ ''</span>'') items))"
    by (rule well_nested_concat_map) (simp add: item_tags)
  from scan_well_nested [OF this] show ?thesis by (simp add: restrictionPackageList_def tags del: scan_well_nested)
qed

lemma auditTable_sound:
  assumes "sound_formats fm" "\<And>s j. decode_json fm s = Some j \<Longrightarrow> regular (decoded fm j)"
    and "\<And>e. e \<in> set items \<Longrightarrow> regular (decoded fm (JObj (evt_details e)))"
  shows "well_nested (auditTable fm items)"
proof -
  have "well_nested (pre fm (decoded fm (JObj (evt_details e))))" if "e \<in> set items" for e
    unfolding pre_def structuredDataWithRaw_def
    by (intro well_nested_append structuredData_sound rawDataDetails_sound assms that decoded_plain)
  then have "well_nested (concat (map (\<lambda>e. ''<tr>'' @
       ''<td class=\"audit-created\">'' @ time_cell (local_time fm) (evt_created e) @ ''</td>'' @
       ''<td class=\"audit-actor\">'' @ esc (evt_actor e) @ ''</td>'' @
       ''<td class=\"audit-action\">'' @ esc (evt_action e) @ ''</td>'' @
       ''<td class=\"audit-resource\">'' @ esc (evt_resource_type e @ ''/'' @ evt_resource_id e) @ ''</td>'' @
       ''<td class=\"audit-details\">'' @ pre fm (decoded fm (JObj (evt_details e))) @ ''</td>'' @
       ''</tr>'') items))"
    by (intro well_nested_concat_map) (simp add: item_tags time_cell_sound)
  from scan_well_nested [OF this] show ?thesis by (simp add: auditTable_def tags del: scan_well_nested)
qed

lemma renderPolicyRestrictions_sound [pieces]:
  assumes "sound_formats fm" "\<And>s j. decode_json fm s = Some j \<Longrightarrow> regular (decoded fm j)"
  shows "well_nested (renderPolicyRestrictions fm stored raw)"
  using renderStructuredJSON_sound [OF assms]
  by (auto simp: renderPolicyRestrictions_def item_tags pieces split: prod.split)

lemma commandSummary_sound:
  assumes "sound_formats fm" "\<And>s j. decode_json fm s = Some j \<Longrightarrow> regular (decoded fm j)"
    and "regular (obj_value fm (cmd_payload c))" "regular (obj_value fm (cmd_result c))" "plain_text (cmd_device c)"
  shows "well_nested (commandSummary fm c dev)"
proof -
  have "well_nested (preStructuredOnly fm (obj_value fm (cmd_payload c)))" "well_nested (preStructuredOnly fm (obj_value fm (cmd_result c)))"
    unfolding preStructuredOnly_def obj_value_def
    by (intro structuredData_sound assms(3,4) [unfolded obj_value_def] assms(1,2) decoded_plain; assumption?)+
  then show ?thesis unfolding commandSummary_def Let_def
    by (intro panelSectionHTML_sound) (simp add: item_tags pieces assms(5) split: option.split)
qed

lemma policySummary_sound:
  assumes "sound_formats fm" "\<And>s j. decode_json fm s = Some j \<Longrightarrow> regular (decoded fm j)"
  shows "well_nested (policySummary fm stored p)"
  using renderPolicyRestrictions_sound [OF assms]
  by (simp add: policySummary_def middle_dot_def item_tags pieces)

section \<open>Properties\<close>


end
