(* ===== verification/DeviceList.thy ===== *)
theory DeviceList
  imports Listings
begin

text \<open>
  The list of devices: the filtered query of the store (\<open>ListDevicesByFilter\<close> of \<open>device/postgres/store.go\<close>) and the
  table the dashboard shows of it (\<open>admin/http/dashboard_device.go\<close>), which marks a low battery and a
  report that is a day old.
\<close>

section \<open>Levels of a battery\<close>

text \<open>
  Whether the decimal number a text denotes, with a sign, a fraction and an exponent where it has them, is
  at most \<open>bound\<close>: \<open>(level)::numeric <= bound\<close>. A text that is no number is not.
\<close>

definition decimal_le :: "string \<Rightarrow> int \<Rightarrow> bool" where
  "decimal_le s bound =
     (let neg = prefix ''-'' s; t = (if neg then tl s else s);
          mantissa = takeWhile (\<lambda>c. c \<noteq> CHR ''e'' \<and> c \<noteq> CHR ''E'') t;
          ex = drop (length mantissa) t;
          whole = before (CHR ''.'') mantissa; fraction = drop (Suc (length whole)) mantissa in
      case (if whole = [] then None else digits_val 0 (whole @ fraction), if ex = [] then Some 0 else Atoi (tl ex)) of
        (Some n, Some x) \<Rightarrow>
          let m = (if neg then - n else n); k = x - int (length fraction) in
          if k \<ge> 0 then m * 10 ^ nat k \<le> bound else m \<le> bound * 10 ^ nat (- k)
      | _ \<Rightarrow> False)"

text \<open>The expression \<open>^[0-9]+(\.[0-9]+)?$\<close>.\<close>

definition digits :: "string \<Rightarrow> bool" where
  "digits s \<longleftrightarrow> s \<noteq> [] \<and> list_all (between 48 57) s"

definition plain_decimal :: "string \<Rightarrow> bool" where
  "plain_decimal s \<longleftrightarrow> digits (before (CHR ''.'') s) \<and> (from_char (CHR ''.'') s = [] \<or> digits (tl (from_char (CHR ''.'') s)))"

section \<open>The query\<close>

datatype health_filter = HealthFilterAll | HealthFilterLowBattery | HealthFilterStale

definition filter_text :: "health_filter \<Rightarrow> string" where
  "filter_text f = (case f of HealthFilterAll \<Rightarrow> [] | HealthFilterLowBattery \<Rightarrow> ''low'' | HealthFilterStale \<Rightarrow> ''stale'')"

record device_list_filter =
  df_health :: health_filter
  df_name :: string

definition lowBatteryThresholdPercent :: int where
  "lowBatteryThresholdPercent = 20"

definition staleOnlineThreshold :: int where
  "staleOnlineThreshold = 24 * 3600 * 1000000"

text \<open>The newest record of a device, and whether its level is a number at most the threshold.\<close>

definition latest_info :: "database \<Rightarrow> string \<Rightarrow> string \<Rightarrow> info_row option" where
  "latest_info d tn i = (case newest_infos (filter (\<lambda>r. info_tenant r = tn \<and> info_device r = i) (device_info d)) of
      [] \<Rightarrow> None | r # _ \<Rightarrow> Some r)"

definition battery_level :: "obj \<Rightarrow> json option" where
  "battery_level payload = (case map_of payload ''battery'' of Some (JObj b) \<Rightarrow> map_of b ''level'' | _ \<Rightarrow> None)"

definition level_low :: "obj \<Rightarrow> bool" where
  "level_low payload = (case battery_level payload of
      Some (JNum n) \<Rightarrow> decimal_le n lowBatteryThresholdPercent
    | Some (JStr s) \<Rightarrow> plain_decimal s \<and> decimal_le s lowBatteryThresholdPercent
    | _ \<Rightarrow> False)"

definition filter_admits :: "database \<Rightarrow> string \<Rightarrow> device_list_filter \<Rightarrow> int \<Rightarrow> device_row \<Rightarrow> bool" where
  "filter_admits d tn f t r \<longleftrightarrow>
     (let q = TrimSpace (df_name f) in q = [] \<or> contains_like q (dev_name r)) \<and>
     (df_health f = HealthFilterLowBattery \<longrightarrow>
        (case latest_info d tn (rec_id r) of None \<Rightarrow> False | Some l \<Rightarrow> level_low (info_payload l))) \<and>
     (df_health f = HealthFilterStale \<longrightarrow>
        (case latest_info d tn (rec_id r) of None \<Rightarrow> True | Some l \<Rightarrow> info_observed l \<le> t - staleOnlineThreshold))"

definition ListDevicesByFilter :: "string \<Rightarrow> page_params \<Rightarrow> device_list_filter \<Rightarrow> device list action" where
  "ListDevicesByFilter tn page f =
     bindE now (\<lambda>t. query (\<lambda>d. map (device_view d)
       (paged page (newest_first (filter (\<lambda>r. in_tenant tn r \<and> filter_admits d tn f t r) (devices d))))))"

section \<open>The table\<close>

text \<open>
  \<open>float_level\<close> stands for \<open>strconv.ParseFloat\<close>: of a text that is a number, how \<open>FormatFloat\<close>
  writes its \<open>float64\<close>, and whether that is at most the threshold.
\<close>

type_synonym float_level = "string \<Rightarrow> (string \<times> bool) option"

definition parseBatteryLevel :: "float_level \<Rightarrow> json \<Rightarrow> (string \<times> bool) option" where
  "parseBatteryLevel fl v = (case v of
      JNum n \<Rightarrow> fl n
    | JStr s \<Rightarrow> if TrimSpace s = [] then None else fl (TrimSpace s)
    | _ \<Rightarrow> None)"

definition batteryLevelInfo :: "float_level \<Rightarrow> obj \<Rightarrow> string \<times> string" where
  "batteryLevelInfo fl payload = (case battery_level payload of
      None \<Rightarrow> (''Unknown'', [])
    | Some level \<Rightarrow> (case parseBatteryLevel fl level of
        None \<Rightarrow> (''Unknown'', [])
      | Some (label, low) \<Rightarrow> (label @ ''%'', if low then ''status-pill status-low'' else [])))"

definition lastOnlineInfo :: "clock_text \<Rightarrow> int \<Rightarrow> int \<Rightarrow> string \<times> string" where
  "lastOnlineInfo lt t observed =
     (if observed = zero_time then (''No device info'', [])
      else (formatDashboardTime lt observed, if t - observed > staleOnlineThreshold then ''status-pill status-stale'' else []))"

definition policy_label :: "(string \<Rightarrow> policy_row option) \<Rightarrow> string option \<Rightarrow> string" where
  "policy_label ps p = (let i = (case p of None \<Rightarrow> [] | Some i \<Rightarrow> i) in
     case ps i of None \<Rightarrow> i | Some rec \<Rightarrow> marked_inactive (pol_name rec) (rec_status rec))"

text \<open>\<open>t\<close> is the reading of the clock for a row; \<open>infos\<close> the newest records by device.\<close>

definition device_cells ::
  "clock_text \<Rightarrow> float_level \<Rightarrow> int \<Rightarrow> (string \<Rightarrow> policy_row option) \<Rightarrow> (string \<Rightarrow> info_record option) \<Rightarrow> device \<Rightarrow> string list" where
  "device_cells lt fl t ps infos v =
     [time_cell lt (created_at v), record_link ''devices'' (rec_id v) (label_or (dv_name v) (rec_id v)), statusBadge (rec_status v),
      (case infos (rec_id v) of None \<Rightarrow> esc ''Unknown''
       | Some r \<Rightarrow> (case batteryLevelInfo fl (ir_payload r) of (value, cls) \<Rightarrow> valueOrPillHTML value cls)),
      (case infos (rec_id v) of None \<Rightarrow> esc ''No device info''
       | Some r \<Rightarrow> (case lastOnlineInfo lt t (ir_observed r) of (value, cls) \<Rightarrow> valueOrPillHTML value cls)),
      esc (policy_label ps (dv_policy_id v))]"

definition devicesTable ::
  "clock_text \<Rightarrow> float_level \<Rightarrow> int list \<Rightarrow> device list \<Rightarrow> policy_row list \<Rightarrow> (string \<Rightarrow> info_record option) \<Rightarrow> bool \<Rightarrow> string" where
  "devicesTable lt fl clock items pols infos includeTelemetryColumns =
     (let ps = by_ids pols in
      if includeTelemetryColumns
      then tableHTML [] [''Created'', ''Name'', ''Status'', ''Battery'', ''Last report'', ''Policy'']
        (concat (map (\<lambda>(t, v). tableRowHTML (device_cells lt fl t ps infos v)) (zip clock items)))
      else tableHTML [] [''Created'', ''ID'', ''Name'', ''Policy'', ''Status''] (concat (map (\<lambda>v. tableRowHTML
        [time_cell lt (created_at v), esc (rec_id v), record_link ''devices'' (rec_id v) (label_or (dv_name v) (rec_id v)),
         esc (policy_label ps (dv_policy_id v)), statusBadge (rec_status v)]) items)))"

section \<open>The filter bar\<close>

definition deviceHealthFilterFromRequest :: "web_request \<Rightarrow> health_filter" where
  "deviceHealthFilterFromRequest r =
     (let v = TrimSpace (ToLower (Query r ''health'')) in
      if v \<in> {''low'', ''low-battery'', ''battery-low''} then HealthFilterLowBattery
      else if v \<in> {''stale'', ''stale-online'', ''online-stale''} then HealthFilterStale
      else HealthFilterAll)"

definition queryString :: "(string \<times> string list) list \<Rightarrow> string" where
  "queryString q = (if q = [] then [] else ''?'' @ Encode q)"

text \<open>\<open>raw_path\<close> is the decoded path of the request.\<close>

definition deviceFilterURL :: "string \<Rightarrow> page_url \<Rightarrow> health_filter \<Rightarrow> string" where
  "deviceFilterURL raw_path u value = raw_path @ queryString (del_key ''page''
     (if value = HealthFilterAll then del_key ''health'' (url_query u) else set_key ''health'' (filter_text value) (url_query u)))"

definition renderDeviceFilterLink :: "string \<Rightarrow> page_url \<Rightarrow> string \<Rightarrow> health_filter \<Rightarrow> health_filter \<Rightarrow> string" where
  \<open>renderDeviceFilterLink raw_path u label value active =
     ''<a class="'' @ ''device-filter-link'' @ (if value = active then '' device-filter-link-active'' else []) @ ''" href="'' @
     escAttr (deviceFilterURL raw_path u value) @ ''">'' @ esc label @ ''</a>''\<close>

definition deviceFilterBarHTML :: "string \<Rightarrow> page_url \<Rightarrow> health_filter \<Rightarrow> string \<Rightarrow> string" where
  \<open>deviceFilterBarHTML raw_path u active searchQuery =
     ''<div class="device-filter-bar">'' @ ''<form class="device-search-form" method="get" action="'' @ escAttr raw_path @ ''">'' @
     ''<label class="device-search-label" for="device-search">Search</label>'' @
     ''<input id="device-search" name="search" type="search" value="'' @ escAttr searchQuery @ ''" placeholder="Search name">'' @
     (if active \<noteq> HealthFilterAll
      then ''<input type="hidden" name="health" value="'' @ escAttr (filter_text active) @ ''">'' else []) @
     ''<button type="submit" class="device-search-submit">Search</button>'' @ ''</form>'' @
     ''<span class="device-filter-label">Filter</span>'' @
     renderDeviceFilterLink raw_path u ''All'' HealthFilterAll active @
     renderDeviceFilterLink raw_path u ''Low battery'' HealthFilterLowBattery active @
     renderDeviceFilterLink raw_path u ''Stale report'' HealthFilterStale active @ ''</div>''\<close>


section \<open>The pieces are sound\<close>

lemma renderDeviceFilterLink_sound [pieces]: "well_nested (renderDeviceFilterLink raw u label value active)"
  by (simp add: renderDeviceFilterLink_def tags)

lemma deviceFilterBarHTML_sound [pieces]: "well_nested (deviceFilterBarHTML raw u active q)"
  by (simp add: deviceFilterBarHTML_def item_tags pieces)

lemma device_cells_sound: "list_all well_nested (device_cells lt fl t ps infos v)"
  by (auto simp: device_cells_def batteryLevelInfo_def lastOnlineInfo_def pieces list.pred_inject
      split: option.split prod.split)

lemma devicesTable_sound [pieces]: "well_nested (devicesTable lt fl clock items pols infos full)"
proof (cases full)
  case True
  have "well_nested (tableRowHTML (device_cells lt fl t ps infos v))" for t ps v
    by (rule tableRowHTML_sound) (use device_cells_sound [of lt fl t ps infos v] in \<open>simp add: list_all_iff\<close>)
  then have "well_nested (concat (map (\<lambda>(t, v). tableRowHTML (device_cells lt fl t ps infos v)) (zip clock items)))" for ps
    by (intro well_nested_concat_map) auto
  with True show ?thesis by (simp add: devicesTable_def Let_def tableHTML_sound)
next
  case False
  then show ?thesis unfolding devicesTable_def Let_def
    by (simp, intro cells_sound) (simp add: list.pred_inject pieces)
qed

section \<open>Searching by name\<close>

text \<open>A pattern of ordinary characters is looked for as it is; \<open>%\<close>, \<open>_\<close> and the backslash are not ordinary.\<close>

definition ordinary :: "string \<Rightarrow> bool" where
  "ordinary q \<longleftrightarrow> (\<forall>c \<in> set q. c \<noteq> CHR 0x25 \<and> c \<noteq> CHR ''_'' \<and> c \<noteq> CHR 0x5C)"

lemma like_percent [simp]: "like [CHR 0x25] s"
  by (induction s) simp_all

lemma like_prefix: "ordinary q \<Longrightarrow> like (q @ [CHR 0x25]) s \<longleftrightarrow> prefix q s"
proof (induction q arbitrary: s)
  case (Cons c q)
  then show ?case by (cases s; cases "q @ [CHR 0x25]") (auto simp: ordinary_def)
qed simp

lemma like_anywhere: "like (CHR 0x25 # p) s \<longleftrightarrow> (\<exists>t. suffix t s \<and> like p t)"
  by (induction s) (auto simp: suffix_Cons)

lemma lower_char_special:
  assumes "lower_char c = x" "x \<in> {CHR 0x25, CHR ''_'', CHR 0x5C}"
  shows "c = x"
proof (rule ccontr)
  assume "c \<noteq> x"
  with assms(1) have c: "CHR ''A'' \<le> c" "c \<le> CHR ''Z''" and x: "x = char_of (of_char c + 32 :: nat)"
    unfolding lower_char_def by (auto split: if_splits)
  from c have "65 \<le> (of_char c :: nat)" "(of_char c :: nat) \<le> 90" by (simp_all add: less_eq_char_def)
  with x have "97 \<le> (of_char x :: nat)" by simp
  with assms(2) show False by auto
qed

lemma ordinary_ToLower: "ordinary q \<Longrightarrow> ordinary (ToLower q)"
  unfolding ordinary_def ToLower_def by (metis imageE insertI1 insertI2 list.set_map lower_char_special)

lemma contains_like_sublist:
  assumes "ordinary q"
  shows "contains_like q s \<longleftrightarrow> sublist (ToLower q) (ToLower s)"
proof -
  have "contains_like q s \<longleftrightarrow> (\<exists>t. suffix t (ToLower s) \<and> prefix (ToLower q) t)"
    unfolding contains_like_def like_anywhere like_prefix [OF ordinary_ToLower [OF assms]] ..
  also have "\<dots> \<longleftrightarrow> sublist (ToLower q) (ToLower s)"
    unfolding sublist_def prefix_def suffix_def by auto
  finally show ?thesis .
qed

text \<open>An underscore matches any character, a percent sign any text.\<close>

lemma lower_special [simp]: "lower_char (CHR ''_'') = CHR ''_''" "lower_char (CHR 0x25) = CHR 0x25"
  by code_simp+

lemma like_underscore: "s \<noteq> [] \<Longrightarrow> like (CHR 0x25 # ''_'' @ [CHR 0x25]) s"
  by (cases s) auto

lemma wildcards: "s \<noteq> [] \<Longrightarrow> contains_like ''_'' s" "contains_like [CHR 0x25] s"
  using like_underscore [of "ToLower s"] like_percent
  by (simp_all add: contains_like_def ToLower_def like_anywhere exI [of _ "[]"])

section \<open>The marks in the table\<close>

text \<open>The map of the newest records gives a device the record the filter has looked at.\<close>

lemma map_of_latest:
  "map_of (concat (map (\<lambda>j. case f j of [] \<Rightarrow> [] | r # _ \<Rightarrow> [(j, g r)]) ids)) i =
     (if i \<in> set ids then (case f i of [] \<Rightarrow> None | r # _ \<Rightarrow> Some (g r)) else None)"
  by (induction ids) (auto split: list.splits)

lemma map_of_latest_by:
  assumes "i \<in> set ids"
  shows "map_of (latest_by ids (filter (\<lambda>r. info_tenant r = tn \<and> has_key rec_id (info_device r) ds) rs)) i =
    (if has_key rec_id i ds then map_option scan_info (latest_info (d\<lparr>device_info := rs\<rparr>) tn i) else None)"
proof -
  have "filter (\<lambda>r. info_device r = i) (filter (\<lambda>r. info_tenant r = tn \<and> has_key rec_id (info_device r) ds) rs) =
      (if has_key rec_id i ds then filter (\<lambda>r. info_tenant r = tn \<and> info_device r = i) rs else [])"
    by (induction rs) auto
  with assms show ?thesis
    by (simp add: latest_by_def map_of_latest latest_info_def newest_infos_def split: list.split)
qed

lemma plain_decimal_chars:
  assumes "plain_decimal s" "c \<in> set s"
  shows "between 46 57 c"
proof -
  let ?b = "before (CHR ''.'') s" and ?f = "from_char (CHR ''.'') s"
  have "s = ?b @ ?f" by (simp add: before_def from_char_def)
  with assms(2) have "c \<in> set ?b \<or> c \<in> set ?f" by (metis Un_iff set_append)
  moreover have "?f = [] \<or> ?f = CHR ''.'' # tl ?f" using from_char_cases [of "CHR ''.''" s] by auto
  then have "c \<in> set ?f \<Longrightarrow> c = CHR ''.'' \<or> (?f \<noteq> [] \<and> c \<in> set (tl ?f))" by (metis list.set_cases list.set_sel(2) list.sel(3) empty_iff empty_set set_ConsD)
  moreover have "between 46 57 x" if "between 48 57 x" for x
    using that by (auto simp: between_def byte_def)
  ultimately show ?thesis using assms(1)
    by (auto simp: plain_decimal_def digits_def list_all_iff) (simp add: between_def byte_def)
qed

lemma plain_decimal_trim:
  assumes "plain_decimal s"
  shows "TrimSpace s = s" "s \<noteq> []"
proof -
  have "list_all (\<lambda>w. list_ex (\<lambda>c. \<not> between 46 57 c) w) white_runes" by code_simp
  then have "\<forall>w \<in> set white_runes. \<not> set w \<subseteq> set s"
    using plain_decimal_chars [OF assms] by (fastforce simp: list_all_iff list_ex_iff)
  then show "TrimSpace s = s" by (rule TrimSpace_plain)
  show "s \<noteq> []" using assms by (auto simp: plain_decimal_def digits_def before_def)
qed

lemma low_is_marked:
  assumes "level_low payload" and "\<And>n. decimal_le n 20 \<Longrightarrow> \<exists>label. fl n = Some (label, True)"
  shows "snd (batteryLevelInfo fl payload) = ''status-pill status-low''"
proof -
  have "\<exists>label. fl n = Some (label, True)" if "decimal_le n lowBatteryThresholdPercent" for n
    using assms(2) that by (simp add: lowBatteryThresholdPercent_def)
  then show ?thesis using assms(1) plain_decimal_trim
    by (fastforce simp: level_low_def batteryLevelInfo_def parseBatteryLevel_def split: option.splits json.splits)
qed

section \<open>Properties\<close>

lemma device_view_base [simp]: "rec_id (device_view d r) = rec_id r" "dv_name (device_view d r) = dev_name r"
  by (simp_all add: device_view_def scanDevice_def)


definition low_database :: "json \<Rightarrow> database" where
  "low_database level = empty_database\<lparr>devices := [sample_device ''d'' ''active'' []],
     device_info := [\<lparr>info_id = ''i'', info_tenant = ''t'', info_device = ''d'', info_observed = 900,
       info_payload = [(''battery'', JObj [(''level'', level)])], info_created = 900\<rparr>]\<rparr>"


text \<open>
  The query and the table read texts differently: a level sent as the text \<open>" 7"\<close> is marked as low, but the
  filter does not list the device; and a single underscore lists every device that has a name.
\<close>

lemma filter_differs_from_mark:
  "\<not> level_low [(''battery'', JObj [(''level'', JStr '' 7'')])]"
  "fl ''7'' = Some (label, True) \<Longrightarrow>
     snd (batteryLevelInfo fl [(''battery'', JObj [(''level'', JStr '' 7'')])]) = ''status-pill status-low''"
proof -
  show "\<not> level_low [(''battery'', JObj [(''level'', JStr '' 7'')])]" by code_simp
  have "TrimSpace '' 7'' = ''7''" by code_simp
  then show "fl ''7'' = Some (label, True) \<Longrightarrow>
      snd (batteryLevelInfo fl [(''battery'', JObj [(''level'', JStr '' 7'')])]) = ''status-pill status-low''"
    by (simp add: batteryLevelInfo_def battery_level_def parseBatteryLevel_def)
qed

end
