(* ===== verification/Pages.thy ===== *)
theory Pages
  imports DeviceList DashboardAssets
begin

text \<open>
  The pages of the dashboard that list and show records (the handlers of \<open>admin/http/dashboard_*.go\<close> that only
  read): what each loads, in the order of the code, and what it hands to the template. The pages themselves
  are those of \<open>Forms\<close> and \<open>Listings\<close>; the answer keeps of them what \<open>Web\<close> keeps of every page.
\<close>

section \<open>The site\<close>

text \<open>
  The dashboard with what its pages need besides: the formats, the readings of levels, the texts of \<open>jsonb\<close>
  columns, the plugins and the runtime of the server. A request for a page has an address.
\<close>

record site =
  st_dash :: dashboard
  st_formats :: formats
  st_float :: float_level
  st_stored :: "json \<Rightarrow> string"
  st_plugins :: "plugin_manager option"
  st_runtime :: runtime_snapshot

record page_request =
  pr_req :: web_request
  pr_url :: page_url
  pr_raw_path :: string

abbreviation tenant_of :: "site \<Rightarrow> string" where "tenant_of s \<equiv> TenantID (st_dash s)"
abbreviation clock_of :: "site \<Rightarrow> clock_text" where "clock_of s \<equiv> local_time (st_formats s)"

definition shown_page :: "site \<Rightarrow> page_request \<Rightarrow> session \<Rightarrow> string \<Rightarrow> page_data action \<Rightarrow> view handler" where
  "shown_page s q ses title load = try_else load (page_error (st_dash s) (pr_req q) ses title)
     (\<lambda>pd. renderForSession (pr_req q) ses (pd_title pd) (pd_flash pd) (pd_error pd))"

definition list_page :: "site \<Rightarrow> page_request \<Rightarrow> string \<Rightarrow> (session \<Rightarrow> page_data action) \<Rightarrow> view handler" where
  "list_page s q title load = requireRead (pr_req q) title (\<lambda>ses. shown_page s q ses title (load ses))"

definition detail_page :: "site \<Rightarrow> page_request \<Rightarrow> string \<Rightarrow> (session \<Rightarrow> page_data action) \<Rightarrow> view handler" where
  "detail_page s q title load = requireRead (pr_req q) title (\<lambda>ses.
     if req_method (base (pr_req q)) \<noteq> ''GET'' then answer method_not_allowed
     else shown_page s q ses title (load ses))"

definition with_forms :: "form_data list \<Rightarrow> page_data \<Rightarrow> page_data" where
  "with_forms fs pd = pd\<lparr>pd_forms := fs\<rparr>"

section \<open>A page of a list\<close>

text \<open>
  The handlers ask the store for one row more than the page shows, to see whether there is a next page.
\<close>

definition cut_page :: "'a list \<Rightarrow> int \<Rightarrow> 'a list \<times> bool" where
  "cut_page items limit = (let hasNext = int (length items) > limit
     in (if hasNext then take (nat limit) items else items, hasNext))"

definition listed :: "page_request \<Rightarrow> (page_params \<Rightarrow> 'a list action) \<Rightarrow> ('a list \<Rightarrow> (string \<Rightarrow> string) \<Rightarrow> 'b action) \<Rightarrow> 'b action" where
  "listed q get f =
     (let (page, params) = listPaginationParams (pr_req q) DefaultLimit;
          limit = wrap64 (pg_limit params - 1) in
      bindE (get params) (\<lambda>items. let (rows, hasNext) = cut_page items limit in
        f rows (\<lambda>content. withPager content (pagerHTML (pr_url q) page limit hasNext))))"

text \<open>A call whose error is dropped.\<close>

definition attempt :: "'a action \<Rightarrow> 'a option action" where
  "attempt m = elseE m (\<lambda>_. returnE None) (\<lambda>x. returnE (Some x))"

text \<open>A loop that leaves out what is not found.\<close>

fun found_of :: "('i \<Rightarrow> 'a action) \<Rightarrow> 'i list \<Rightarrow> 'a list action" where
  "found_of get [] = returnE []"
| "found_of get (k # ks) = elseE (get k)
     (\<lambda>e. if e = ErrNotFound then found_of get ks else throwE e)
     (\<lambda>x. bindE (found_of get ks) (\<lambda>xs. returnE (x # xs)))"

section \<open>Groups, policies and devices\<close>

definition policyIDsForDevices :: "device list \<Rightarrow> string list" where
  "policyIDsForDevices items = unique_loop {} (concat (map (\<lambda>v. case dv_policy_id v of None \<Rightarrow> [] | Some i \<Rightarrow> [i]) items))"

definition loadPoliciesForDevices :: "string \<Rightarrow> device list \<Rightarrow> policy_row list action" where
  "loadPoliciesForDevices tn items = found_of (GetPolicy tn) (policyIDsForDevices items)"

definition latestDeviceInfoByDeviceIDs :: "string \<Rightarrow> device list \<Rightarrow> (string \<Rightarrow> info_record option) action" where
  "latestDeviceInfoByDeviceIDs tn items =
     (let ids = map rec_id (filter (\<lambda>v. TrimSpace (rec_id v) \<noteq> []) items) in
      if ids = [] then returnE (\<lambda>_. None)
      else bindE (ListLatestByDeviceIDs tn ids) (\<lambda>latest. returnE (map_of latest)))"

text \<open>The table reads the clock for each device that has reported.\<close>

definition row_clock :: "(string \<Rightarrow> info_record option) \<Rightarrow> device \<Rightarrow> int action" where
  "row_clock infos v = (case infos (rec_id v) of
      None \<Rightarrow> returnE 0 | Some r \<Rightarrow> if ir_observed r = zero_time then returnE 0 else now)"

definition devices_table :: "site \<Rightarrow> device list \<Rightarrow> policy_row list \<Rightarrow> (string \<Rightarrow> info_record option) \<Rightarrow> string action" where
  "devices_table s items pols infos = bindE (mapE (row_clock infos) items) (\<lambda>clock.
     returnE (devicesTable (clock_of s) (st_float s) clock items pols infos True))"

definition groups_page :: "site \<Rightarrow> page_request \<Rightarrow> session \<Rightarrow> page_data action" where
  "groups_page s q ses = listed q (ListGroups (tenant_of s)) (\<lambda>items paged.
     returnE (with_forms [form ''Create group'' ''/admin/groups/create''
         [(plain_field ''name'' ''Name'' ''text'')\<lparr>fd_placeholder := ''Field Devices'', fd_required := True\<rparr>] ''Create group'']
       (page_with ''Groups'' ''Define device cohorts and inspect the devices assigned to each cohort.''
         (paged (groupsTable (clock_of s) items)))))"

definition loadGroupDetail :: "string \<Rightarrow> string \<Rightarrow> page_params \<Rightarrow> (group_row \<times> device list \<times> policy_row list) action" where
  "loadGroupDetail tn i page =
     bindE (GetGroup tn i) (\<lambda>found.
     bindE (ListGroupDevices tn (rec_id found) page) (\<lambda>devs.
     bindE (loadPoliciesForDevices tn devs) (\<lambda>pols. returnE (found, devs, pols))))"

definition group_forms :: "group_row \<Rightarrow> form_data list" where
  "group_forms g =
     [form ''Update group'' (''/admin/groups/'' @ rec_id g @ ''/update'')
        [(plain_field ''name'' ''Name'' ''text'')\<lparr>fd_value := group_name g, fd_placeholder := ''Field Devices'', fd_required := True\<rparr>]
        ''Update group'',
      danger_form ''Retire group'' (''/admin/groups/'' @ rec_id g @ ''/retire'') ''Retire group'']"

definition groupDetailPageData ::
  "site \<Rightarrow> page_request \<Rightarrow> session \<Rightarrow> group_row \<Rightarrow> device list \<Rightarrow> policy_row list \<Rightarrow> page_data action" where
  "groupDetailPageData s q ses found devs pols =
     (let body = panelSectionHTML [] ''Current group'' (pre (st_formats s) (group_value found));
          subtitle = ''Review the cohort, then update or retire it from this page.'';
          (page, params) = listPaginationParamsForKeys (pr_req q) ''memberDevicesPage'' ''memberDevicesLimit'' DefaultLimit;
          limit = wrap64 (pg_limit params - 1);
          (items, hasNext) = paginateItems devs limit;
          finish = (\<lambda>members. returnE (with_forms
            (if canWrite ses \<and> rec_status found \<noteq> ''retired'' then group_forms found else [])
            (page_with ''Group Detail'' subtitle (body @ members))))
      in if devs = [] then finish (panelMessageHTML ''Member devices'' ''No devices are linked to this group.'')
         else elseE (latestDeviceInfoByDeviceIDs (tenant_of s) items)
           (\<lambda>e. returnE ((page_with ''Group Detail'' subtitle [])\<lparr>pd_error := error_text (driver_text (st_dash s)) e\<rparr>))
           (\<lambda>infos. bindE (devices_table s items pols infos) (\<lambda>table.
              finish (panelSectionHTML [] ''Member devices'' (withPager table
                (pagerHTMLForKeys (pr_url q) ''memberDevicesPage'' ''memberDevicesLimit'' page limit hasNext))))))"

definition group_page :: "site \<Rightarrow> page_request \<Rightarrow> session \<Rightarrow> page_data action" where
  "group_page s q ses = bindE (loadGroupDetail (tenant_of s) (PathValue (pr_req q) ''id'')
       (snd (listPaginationParamsForKeys (pr_req q) ''memberDevicesPage'' ''memberDevicesLimit'' DefaultLimit)))
     (\<lambda>(found, devs, pols). groupDetailPageData s q ses found devs pols)"

definition devices_page :: "site \<Rightarrow> page_request \<Rightarrow> session \<Rightarrow> page_data action" where
  "devices_page s q ses =
     (let health = deviceHealthFilterFromRequest (pr_req q); searchQuery = TrimSpace (Query (pr_req q) ''search'');
          tn = tenant_of s in
      listed q (\<lambda>params. ListDevicesByFilter tn params \<lparr>df_health = health, df_name = searchQuery\<rparr>) (\<lambda>items paged.
        bindE (loadPoliciesForDevices tn items) (\<lambda>pols.
        bindE (loadPoliciesForSelect tn []) (\<lambda>options.
        bindE (ListActiveGroups tn) (\<lambda>grps.
        bindE (latestDeviceInfoByDeviceIDs tn items) (\<lambda>infos.
        bindE (devices_table s items pols infos) (\<lambda>table.
        returnE (with_forms [form ''Create device'' ''/admin/devices/create''
            [(plain_field ''name'' ''Display name'' ''text'')\<lparr>fd_placeholder := ''warehouse-tablet-001'', fd_required := True\<rparr>,
             (plain_field ''policyId'' ''Policy'' ''select'')\<lparr>fd_placeholder := ''Select a policy'', fd_options := allPolicyOptions options, fd_required := True\<rparr>,
             (plain_field ''groupIds'' ''Groups'' ''multiselect'')\<lparr>fd_placeholder := ''Select one or more groups'', fd_options := activeGroupOptions grps\<rparr>]
            ''Create device'']
          (page_with ''Devices'' ''Track enrolled, pending, and retired devices, then update policy or group assignments.''
            (paged (deviceFilterBarHTML (pr_raw_path q) (pr_url q) health searchQuery @ table)))))))))))"

section \<open>Roles and users\<close>

definition permissionCatalog_of :: "plugin_manager option \<Rightarrow> permission list" where
  "permissionCatalog_of pm = (if pm \<noteq> None \<and> PermissionCatalog pm \<noteq> [] then PermissionCatalog pm else AllPermissions)"

definition permissions_field :: "site \<Rightarrow> string list \<Rightarrow> field_data" where
  "permissions_field s values = (plain_field ''permissions'' ''Permissions'' ''multiselect'')
     \<lparr>fd_values := values, fd_options := allPermissionOptions (permissionCatalog_of (st_plugins s))\<rparr>"

definition roles_page :: "site \<Rightarrow> page_request \<Rightarrow> session \<Rightarrow> page_data action" where
  "roles_page s q ses = listed q (ListRoles (tenant_of s)) (\<lambda>items paged.
     returnE (with_forms (if canWrite ses then [form ''Create role'' ''/admin/roles/create''
          [(plain_field ''name'' ''Name'' ''text'')\<lparr>fd_placeholder := ''operators'', fd_required := True\<rparr>, permissions_field s []]
          ''Create role''] else [])
       (page_with ''Roles'' ''Define the permission bundles available to operators.'' (paged (rolesTable (clock_of s) items)))))"

definition role_page :: "site \<Rightarrow> page_request \<Rightarrow> session \<Rightarrow> page_data action" where
  "role_page s q ses = bindE (GetRole (tenant_of s) (PathValue (pr_req q) ''id'')) (\<lambda>found.
     returnE (with_forms (if canWrite ses \<and> rec_status found = ''active''
         then [form ''Update role'' (''/admin/roles/'' @ rec_id found @ ''/update'')
             [(plain_field ''name'' ''Name'' ''text'')\<lparr>fd_value := role_name found, fd_placeholder := ''operators'', fd_required := True\<rparr>,
              permissions_field s (role_permissions found)] ''Update role'',
           danger_form ''Retire role'' (''/admin/roles/'' @ rec_id found @ ''/retire'') ''Retire role''] else [])
       (page_with ''Role Detail'' ''Edit the permission bundle or retire it from active use.''
         (panelSectionHTML [] ''Current role'' (pre (st_formats s) (role_value found))))))"

definition containsRoleID :: "role_row list \<Rightarrow> string \<Rightarrow> bool" where
  "containsRoleID items i \<longleftrightarrow> list_ex (\<lambda>r. TrimSpace (rec_id r) = TrimSpace i) items"

definition loadRolesForSelect :: "string \<Rightarrow> string \<Rightarrow> role_row list action" where
  "loadRolesForSelect tn raw =
     bindE (ListActiveRoles tn) (\<lambda>items.
     let selected = TrimSpace raw in
     if selected = [] \<or> containsRoleID items selected then returnE items
     else elseE (GetRole tn selected)
       (\<lambda>e. if e = ErrNotFound then returnE items else throwE e)
       (\<lambda>found. returnE (found # items)))"

definition roleIDsForUsers :: "user list \<Rightarrow> string list" where
  "roleIDsForUsers items = unique_loop {} (map us_role_id items)"

definition loadRolesForUsers :: "string \<Rightarrow> user list \<Rightarrow> role_row list action" where
  "loadRolesForUsers tn items = found_of (GetRole tn) (roleIDsForUsers items)"

definition role_select :: "string \<Rightarrow> role_row list \<Rightarrow> field_data" where
  "role_select value items = (plain_field ''roleId'' ''Role'' ''select'')
     \<lparr>fd_value := value, fd_placeholder := ''Select a role'', fd_options := allRoleOptions items, fd_required := True\<rparr>"

definition users_page :: "site \<Rightarrow> page_request \<Rightarrow> session \<Rightarrow> page_data action" where
  "users_page s q ses = listed q (ListUsers (tenant_of s)) (\<lambda>items paged.
     bindE (loadRolesForUsers (tenant_of s) items) (\<lambda>rs.
     bindE (loadRolesForSelect (tenant_of s) []) (\<lambda>options.
     returnE (with_forms (if canWrite ses then [form ''Create user'' ''/admin/users/create''
          [(plain_field ''email'' ''Email'' ''email'')\<lparr>fd_placeholder := ''operator@example.com'', fd_required := True\<rparr>,
           (plain_field ''password'' ''Password'' ''password'')\<lparr>fd_placeholder := ''password'', fd_required := True\<rparr>,
           role_select [] options] ''Create user''] else [])
       (page_with ''Users'' ''Manage operator accounts and role bindings.'' (paged (usersTable (clock_of s) items (by_ids rs))))))))"

definition user_page :: "site \<Rightarrow> page_request \<Rightarrow> session \<Rightarrow> page_data action" where
  "user_page s q ses = bindE (GetUser (tenant_of s) (PathValue (pr_req q) ''id'')) (\<lambda>found.
     bindE (loadRolesForSelect (tenant_of s) (us_role_id found)) (\<lambda>rs.
     returnE (with_forms (if canWrite ses \<and> rec_status found = ''active''
         then [form ''Update user'' (''/admin/users/'' @ rec_id found @ ''/update'')
             [(plain_field ''email'' ''Email'' ''email'')\<lparr>fd_value := us_email found, fd_placeholder := ''operator@example.com'', fd_required := True\<rparr>,
              (plain_field ''password'' ''Password'' ''password'')\<lparr>fd_placeholder := ''leave blank to keep the current password''\<rparr>,
              role_select (us_role_id found) rs] ''Update user'',
           danger_form ''Retire user'' (''/admin/users/'' @ rec_id found @ ''/retire'') ''Retire user''] else [])
       (page_with ''User Detail'' ''Edit the operator account or retire it from the active roster.''
         (panelSectionHTML [] ''Current user'' (pre (st_formats s) (user_value found)))))))"

section \<open>Assets, commands, policies, audit\<close>

definition certificates_page :: "site \<Rightarrow> page_request \<Rightarrow> session \<Rightarrow> page_data action" where
  "certificates_page s q ses = listed q (ListCertificates (tenant_of s)) (\<lambda>items paged.
     returnE (with_forms [certificateUploadForm ''/admin/certificates/create'']
       (page_with ''Certificates'' ''Upload certificate artifacts for policy distribution.'' (paged (certificatesTable (clock_of s) items)))))"

definition certificateDetailPageData :: "formats \<Rightarrow> session \<Rightarrow> certificate_view \<Rightarrow> page_data" where
  "certificateDetailPageData fm ses v = (let c = cv_row v in
     with_forms (if canWrite ses \<and> rec_status c \<noteq> ''retired''
         then [danger_form ''Retire certificate'' (''/admin/certificates/'' @ rec_id c @ ''/retire'') ''Retire certificate''] else [])
       (page_with ''Certificate Detail'' ''Review the certificate artifact or retire it from active use.''
         (panelSectionHTML [] ''Current certificate'' (certificate_summary fm v))))"

definition certificate_page :: "site \<Rightarrow> page_request \<Rightarrow> session \<Rightarrow> page_data action" where
  "certificate_page s q ses = bindE (GetCertificate (tenant_of s) (PathValue (pr_req q) ''id''))
     (\<lambda>found. returnE (certificateDetailPageData (st_formats s) ses found))"

definition managed_files_page :: "site \<Rightarrow> page_request \<Rightarrow> session \<Rightarrow> page_data action" where
  "managed_files_page s q ses = listed q (ListManagedFiles (tenant_of s)) (\<lambda>items paged.
     returnE (with_forms [managed_file_form]
       (page_with ''Managed Files'' ''Upload device-side files and keep them ready for policy binding.'' (paged (managedFilesTable (clock_of s) items)))))"

definition managedFileDetailPageData :: "formats \<Rightarrow> session \<Rightarrow> managed_view \<Rightarrow> page_data" where
  "managedFileDetailPageData fm ses v = (let m = mv_row v in
     with_forms (if canWrite ses \<and> rec_status m \<noteq> ''retired''
         then [danger_form ''Retire managed file'' (''/admin/managed-files/'' @ rec_id m @ ''/retire'') ''Retire managed file''] else [])
       (page_with ''Managed File Detail'' ''Review the managed file binding or retire it from active use.''
         (panelSectionHTML [] ''Current managed file'' (managed_file_summary fm v))))"

definition managed_file_page :: "site \<Rightarrow> page_request \<Rightarrow> session \<Rightarrow> page_data action" where
  "managed_file_page s q ses = bindE (GetManagedFile (tenant_of s) (PathValue (pr_req q) ''id''))
     (\<lambda>found. returnE (managedFileDetailPageData (st_formats s) ses found))"

text \<open>The newest published version of each app; an app whose version cannot be read is shown without.\<close>

definition latest_versions :: "string \<Rightarrow> app_row list \<Rightarrow> (string \<Rightarrow> version_row list) action" where
  "latest_versions tn items = bindE (mapE (\<lambda>a. attempt (GetLatestPublishedVersion tn (rec_id a))) items) (\<lambda>vs.
     returnE (\<lambda>i. case map_of (rev (concat (map (\<lambda>(a, v). case v of None \<Rightarrow> [] | Some x \<Rightarrow> [(rec_id a, [x])]) (zip items vs)))) i of
        None \<Rightarrow> [] | Some xs \<Rightarrow> xs))"

definition apps_page :: "site \<Rightarrow> page_request \<Rightarrow> session \<Rightarrow> page_data action" where
  "apps_page s q ses = listed q (ListApps (tenant_of s)) (\<lambda>items paged.
     bindE (latest_versions (tenant_of s) items) (\<lambda>versions.
     returnE (with_forms [managedAppForm ''/admin/apps/create'']
       (page_with ''Apps'' ''Manage approved APKs and their published versions.'' (paged (appsTable (clock_of s) items versions))))))"

definition app_edit_forms :: "app_row \<Rightarrow> form_data list" where
  "app_edit_forms a =
     [form ''Update app'' (''/admin/apps/'' @ rec_id a @ ''/update'')
        [(plain_field ''packageName'' ''Package name'' ''text'')\<lparr>fd_value := app_package a, fd_placeholder := ''com.example.app'', fd_required := True\<rparr>,
         (plain_field ''name'' ''App name'' ''text'')\<lparr>fd_value := app_name a, fd_placeholder := ''Example App'', fd_required := True\<rparr>]
        ''Update app'',
      danger_form ''Retire app'' (''/admin/apps/'' @ rec_id a @ ''/retire'') ''Retire app'']"

definition appDetailPageData ::
  "formats \<Rightarrow> page_request \<Rightarrow> session \<Rightarrow> app_row \<Rightarrow> version_row list \<Rightarrow> version_row option \<Rightarrow> page_data" where
  "appDetailPageData fm q ses a versions latest =
     (let (page, params) = listPaginationParamsForKeys (pr_req q) ''versionsPage'' ''versionsLimit'' DefaultLimit;
          limit = wrap64 (pg_limit params - 1);
          (items, hasNext) = paginateItems versions limit;
          body = panelSectionHTML [] ''Current app'' (appSummary fm a latest) @
            (if versions = [] then [] else panelSectionHTML [] ''Versions'' (withPager (appVersionsTable (local_time fm) items)
               (pagerHTMLForKeys (pr_url q) ''versionsPage'' ''versionsLimit'' page limit hasNext)))
      in (with_forms (if canWrite ses \<and> rec_status a \<noteq> ''retired''
           then publishAppVersionForm (''/admin/apps/'' @ rec_id a @ ''/versions/publish'') #
             (if app_system_owned a then [] else app_edit_forms a) else [])
         (page_with ''App Detail'' ''Manage app versions and, for non-seeded apps, the app metadata.'' body))
        \<lparr>pd_callout := (if app_system_owned a then panelMessageHTML ''Seeded app'' ''This app is system-owned. Use the Publish new version flow below to add APK releases. The app metadata and lifecycle are locked.'' else [])\<rparr>)"

definition app_page :: "site \<Rightarrow> page_request \<Rightarrow> session \<Rightarrow> page_data action" where
  "app_page s q ses = bindE (loadAppDetail (tenant_of s) (PathValue (pr_req q) ''id'') (pr_req q))
     (\<lambda>(a, versions, latest). returnE (appDetailPageData (st_formats s) q ses a versions latest))"

definition audit_page :: "site \<Rightarrow> page_request \<Rightarrow> session \<Rightarrow> page_data action" where
  "audit_page s q ses = listed q (audit_List (tenant_of s)) (\<lambda>items paged.
     returnE (page_with ''Audit'' ''Review operator and system activity.'' (paged (auditTable (st_formats s) items))))"

definition commands_page :: "site \<Rightarrow> page_request \<Rightarrow> session \<Rightarrow> page_data action" where
  "commands_page s q ses =
     bindE (ListActiveDevices (tenant_of s)) (\<lambda>devs.
     bindE (ListActiveGroups (tenant_of s)) (\<lambda>grps.
     listed q (ListRecent (tenant_of s)) (\<lambda>items paged.
     returnE (with_forms [form ''Send command'' ''/admin/commands/create'' (commandFields (Some ses) (st_plugins s) devs grps) ''Send command'']
       (page_with ''Commands'' ''Send commands to individual devices or device groups. Expired commands are shown as terminal records and never replay as fresh work.''
         (paged (commandsTable (clock_of s) items (by_ids devs))))))))"

text \<open>The page of a command answers what is not found with a status of its own.\<close>

definition command_page :: "site \<Rightarrow> page_request \<Rightarrow> view handler" where
  "command_page s q = requireRead (pr_req q) ''Commands'' (\<lambda>ses.
     let failed = page_error (st_dash s) (pr_req q) ses ''Commands'' in
     try_else (commands_Get (tenant_of s) (TrimSpace (PathValue (pr_req q) ''id'')))
       (\<lambda>e. if e = ErrNotFound then answer (Reply (ErrorPage 404 ''Commands'' ''not found'')) else failed e) (\<lambda>found.
     try_else (elseE (GetDevice (tenant_of s) (cmd_device found))
         (\<lambda>e. if e = ErrNotFound then returnE None else throwE e) (\<lambda>dev. returnE (Some dev))) failed (\<lambda>dev.
       let pd = page_with ''Command Detail'' ''Inspect the queued command row, payload, delivery state, and device acknowledgement result.''
         (commandSummary (st_formats s) found dev)
       in renderForSession (pr_req q) ses (pd_title pd) (pd_flash pd) (pd_error pd))))"

definition policies_page :: "site \<Rightarrow> page_request \<Rightarrow> session \<Rightarrow> page_data action" where
  "policies_page s q ses = listed q (ListPolicies (tenant_of s)) (\<lambda>items paged.
     returnE (with_forms [form ''Create policy'' ''/admin/policies/create'' (policyFields [] False [] JNull) ''Create policy'']
       (page_with ''Policies'' ''Define kiosk behavior and package rules before devices enroll.'' (paged (policiesTable (clock_of s) items)))))"

definition policyDetailPageData ::
  "site \<Rightarrow> page_request \<Rightarrow> session \<Rightarrow> string \<Rightarrow> policy_row \<Rightarrow> app_row list \<Rightarrow> binding_row list \<Rightarrow>
   certificate_view list \<Rightarrow> binding_row list \<Rightarrow> managed_view list \<Rightarrow> binding_row list \<Rightarrow> page_data" where
  "policyDetailPageData s q ses csrf found as abnd cs cbnd ms mbnd =
     (let writable = canWrite ses \<and> rec_status found \<noteq> ''retired''; r = pr_req q; u = pr_url q; i = rec_id found;
          managedApps = policyManagedAppsSummary r u i as abnd csrf writable;
          managedCertificates = policyManagedCertificatesSummary r u i cs cbnd csrf writable;
          managedFileBindings = policyManagedFilesSummary r u i ms mbnd csrf writable
      in with_forms (if writable
           then [form ''Update policy'' (''/admin/policies/'' @ i @ ''/update'') (policy_form found) ''Update policy'',
                 danger_form ''Retire policy'' (''/admin/policies/'' @ i @ ''/retire'') ''Retire policy''] else [])
         (page_with ''Policy Detail'' ''Edit the policy definition, enable managed apps, managed files, and certificates, or retire it from active use.''
           (policySummary (st_formats s) (st_stored s) found @ managedApps @ managedFileBindings @ managedCertificates)))"

definition csrfToken :: "web_request \<Rightarrow> string" where
  "csrfToken r = (case web_csrf r of None \<Rightarrow> [] | Some c \<Rightarrow> c)"

definition policy_page :: "site \<Rightarrow> page_request \<Rightarrow> session \<Rightarrow> page_data action" where
  "policy_page s q ses =
     (let tn = tenant_of s; params = (\<lambda>pageKey limitKey. snd (listPaginationParamsForKeys (pr_req q) pageKey limitKey DefaultLimit)) in
     bindE (GetPolicy tn (PathValue (pr_req q) ''id'')) (\<lambda>found.
     bindE (ListApps tn (params ''policyAppsPage'' ''policyAppsLimit'')) (\<lambda>as.
     bindE (found_of (\<lambda>a. GetPolicyApp tn (rec_id found) (rec_id a)) as) (\<lambda>abnd.
     bindE (ListCertificates tn (params ''policyCertificatesPage'' ''policyCertificatesLimit'')) (\<lambda>cs.
     bindE (found_of (\<lambda>v. GetPolicyCertificate tn (rec_id found) (rec_id (cv_row v))) cs) (\<lambda>cbnd.
     bindE (ListManagedFiles tn (params ''policyManagedFilesPage'' ''policyManagedFilesLimit'')) (\<lambda>ms.
     bindE (found_of (\<lambda>v. GetPolicyManagedFile tn (rec_id found) (rec_id (mv_row v))) ms) (\<lambda>mbnd.
     returnE (policyDetailPageData s q ses (csrfToken (pr_req q)) found as abnd cs cbnd ms mbnd)))))))))"

section \<open>The page of a device\<close>

text \<open>
  The configuration of a device as the preview shows it: without its signature. Lists of packages
  that are empty count as absent.
\<close>

definition packages_value :: "string list \<Rightarrow> gvalue" where
  "packages_value xs = VSlice (if xs = [] then None else Some (map VString xs))"

definition restrictions_value :: "policy_restrictions \<Rightarrow> gvalue" where
  "restrictions_value p = VStruct
     [value_field ''AllowPackages'' (packages_value (pr_allow p)), value_field ''BlockPackages'' (packages_value (pr_block p)),
      value_field ''SuspendPackages'' (packages_value (pr_suspend p)), value_field ''KioskKeepScreenOn'' (VBool (pr_keep_screen_on p)),
      value_field ''KioskStayAwakeWhilePluggedIn'' (VBool (pr_stay_awake p)), value_field ''KioskUnlockOnBoot'' (VBool (pr_unlock_on_boot p)),
      value_field ''KioskExitPasscodeHash'' (VString (pr_passcode_hash p))]"

definition preview_value :: "config_snapshot \<Rightarrow> gvalue" where
  "preview_value c = (let rt = cfg_runtime c; p = cfg_policy c in VStruct
     [value_field ''Version'' (VString (cfg_version c)),
      value_field ''Runtime'' (VStruct [value_field ''MqttAddress'' (VString (rt_mqtt_address rt)),
        value_field ''CommandPollIntervalMs'' (VInt (rt_poll_interval rt)), value_field ''ConfigSyncIntervalMs'' (VInt (rt_sync_interval rt))]),
      value_field ''Device'' (VStruct [value_field ''DeviceID'' (VString (cfg_device c))]),
      value_field ''Policy'' (VStruct [value_field ''Name'' (VString (sp_name p)), value_field ''Version'' (VInt (sp_version p)),
        value_field ''KioskMode'' (VBool (sp_kiosk_mode p)), value_field ''KioskAppPackage'' (VString (sp_kiosk_app p)),
        value_field ''Restrictions'' (restrictions_value (sp_restrictions p))]),
      value_field ''Apps'' (VSlice (Some (map (\<lambda>a. VStruct
        [value_field ''AppID'' (VString (sa_app_id a)), value_field ''PackageName'' (VString (sa_package a)),
         value_field ''Name'' (VString (sa_name a)), value_field ''VersionID'' (VString (sa_version_id a)),
         value_field ''VersionName'' (VString (sa_version_name a)), value_field ''VersionCode'' (VInt (sa_version_code a)),
         value_field ''ArtifactID'' (VString (sa_artifact_id a)), value_field ''Checksum'' (VString (sa_checksum a)),
         value_field ''DownloadPath'' (VString (sa_path a))]) (cfg_apps c)))),
      value_field ''Files'' (VSlice (Some (map (\<lambda>f. VStruct
        [value_field ''FileID'' (VString (sf_file_id f)), value_field ''Name'' (VString (sf_name f)), value_field ''Path'' (VString (sf_path f)),
         value_field ''DownloadPath'' (VString (sf_download f)), value_field ''Checksum'' (VString (sf_checksum f)),
         value_field ''MimeType'' (VString (sf_mime f)), value_field ''Description'' (VString (sf_description f)),
         value_field ''Remove'' (VBool (sf_remove f)), value_field ''ReplaceVariables'' (VBool (sf_replace f))]) (cfg_files c)))),
      value_field ''Certificates'' (VSlice (Some (map (\<lambda>x. VStruct
        [value_field ''ID'' (VString (sc_id x)), value_field ''Name'' (VString (sc_name x)), value_field ''ArtifactID'' (VString (sc_artifact_id x)),
         value_field ''Checksum'' (VString (sc_checksum x)), value_field ''DownloadPath'' (VString (sc_path x))]) (cfg_certificates c))))])"

definition muted_paragraph :: "string \<Rightarrow> string" where
  \<open>muted_paragraph t = ''<p class="muted">'' @ t @ ''</p>''\<close>

definition deviceConfigPreviewBody :: "site \<Rightarrow> device \<Rightarrow> string action" where
  "deviceConfigPreviewBody s found =
     (if firstPolicyID (dv_policy_id found) = [] then returnE []
      else elseE (BuildConfigSnapshot (tenant_of s) (firstNonEmpty [rec_id found, dv_name found]) (dv_policy_id found)
            (dv_extras found) (st_runtime s))
        (\<lambda>e. returnE (muted_paragraph (''Preview unavailable: '' @ esc (error_text (driver_text (st_dash s)) e))))
        (\<lambda>c. returnE (pre (st_formats s) (preview_value c))))"

definition log_value :: "formats \<Rightarrow> log_record \<Rightarrow> gvalue" where
  "log_value fm l = VStruct [value_field ''ID'' (VString (lr_id l)), value_field ''TenantID'' (VString (lr_tenant l)),
     value_field ''DeviceID'' (VString (lr_device l)), value_field ''ObservedAt'' (VTime (lr_observed l)),
     value_field ''Source'' (VString (lr_source l)), value_field ''Level'' (VString (lr_level l)),
     value_field ''Message'' (VString (lr_message l)), value_field ''Payload'' (obj_value fm (lr_payload l))]"

definition info_value :: "formats \<Rightarrow> info_record \<Rightarrow> gvalue" where
  "info_value fm l = VStruct [value_field ''ID'' (VString (ir_id l)), value_field ''TenantID'' (VString (ir_tenant l)),
     value_field ''DeviceID'' (VString (ir_device l)), value_field ''ObservedAt'' (VTime (ir_observed l)),
     value_field ''Payload'' (obj_value fm (ir_payload l))]"

text \<open>A panel with one page of records; it is left out when the records cannot be read.\<close>

definition records_panel ::
  "site \<Rightarrow> page_request \<Rightarrow> string \<Rightarrow> string \<Rightarrow> string \<Rightarrow> (page_params \<Rightarrow> 'a list action) \<Rightarrow> ('a \<Rightarrow> gvalue) \<Rightarrow> string action" where
  "records_panel s q title pageKey limitKey get val =
     (let (page, params) = listPaginationParamsForKeys (pr_req q) pageKey limitKey DefaultLimit;
          limit = wrap64 (pg_limit params - 1) in
      elseE (get params) (\<lambda>_. returnE []) (\<lambda>rows.
        let (items, hasNext) = paginateItems rows limit in
        returnE (collapsiblePanelHTML title False (withPager (pre (st_formats s) (VSlice (Some (map val items))))
          (pagerHTMLForKeys (pr_url q) pageKey limitKey page limit hasNext)))))"

text \<open>The summary of the policy: its element is opened and not closed.\<close>

definition active_policy_summary :: "formats \<Rightarrow> policy_row \<Rightarrow> string" where
  \<open>active_policy_summary fm p =
     ''<div class="policy-summary">'' @
     summaryTextItem ''Created'' (formatDashboardTime (local_time fm) (created_at p)) @
     summaryTextItem ''ID'' (rec_id p) @
     ''<div class="policy-summary-item"><div class="policy-summary-label">Name</div><div class="policy-summary-value"><a href="/admin/policies/'' @
     escAttr (rec_id p) @ ''">'' @ esc (label_or (pol_name p) (rec_id p)) @ ''</a></div></div>'' @
     summaryTextItem ''Version'' (FormatInt (pol_version p)) @
     summaryHTMLItem ''Kiosk mode'' (boolBadge (pol_kiosk_mode p) ''enabled'' ''disabled'') @
     summaryHTMLItem ''Status'' (statusBadge (rec_status p))\<close>

definition active_policy_panel :: "site \<Rightarrow> device \<Rightarrow> policy_row list \<Rightarrow> string action" where
  "active_policy_panel s found pols =
     (let i = firstPolicyID (dv_policy_id found); panel = collapsiblePanelHTML ''Active policy'' False in
      if i = [] then returnE (panel (muted_paragraph ''No policy linked.''))
      else bindE (case by_ids pols i of Some p \<Rightarrow> returnE (Some p) | None \<Rightarrow> attempt (GetPolicy (tenant_of s) i)) (\<lambda>p.
        returnE (panel (case p of Some p \<Rightarrow> active_policy_summary (st_formats s) p | None \<Rightarrow> muted_paragraph (esc i)))))"

definition group_label :: "site \<Rightarrow> (string \<Rightarrow> group_row option) \<Rightarrow> string \<Rightarrow> string action" where
  "group_label s gs i = (case gs i of
      Some g \<Rightarrow> if TrimSpace (group_name g) \<noteq> [] then returnE (group_name g)
        else elseE (GetGroup (tenant_of s) i) (\<lambda>_. returnE i) (\<lambda>x. returnE (label_or (group_name x) i))
    | None \<Rightarrow> elseE (GetGroup (tenant_of s) i) (\<lambda>_. returnE i) (\<lambda>x. returnE (label_or (group_name x) i)))"

definition assigned_groups_panel :: "site \<Rightarrow> device \<Rightarrow> group_row list \<Rightarrow> string action" where
  \<open>assigned_groups_panel s found grps =
     (let panel = collapsiblePanelHTML ''Assigned groups'' False in
      if dv_group_ids found = [] then returnE (panel (muted_paragraph ''No groups linked.''))
      else bindE (mapE (group_label s (by_ids grps)) (dv_group_ids found)) (\<lambda>labels.
        returnE (panel (''<div class="policy-summary">'' @ concat (map (summaryTextItem ''Group'') labels)))))\<close>

text \<open>The options of the selections, with those of the device that are not offered any more.\<close>

fun add_options :: "option_data list \<Rightarrow> string list \<Rightarrow> option_data list" where
  "add_options opts [] = opts"
| "add_options opts (v # vs) =
     add_options (if v \<in> op_value ` set opts then opts else opts @ [\<lparr>op_value = v, op_label = v\<rparr>]) vs"

definition device_forms :: "device \<Rightarrow> policy_row list \<Rightarrow> group_row list \<Rightarrow> form_data list" where
  "device_forms found pols grps =
     (let i = (case dv_policy_id found of None \<Rightarrow> [] | Some i \<Rightarrow> i) in
     [form ''Update device'' (''/admin/devices/'' @ rec_id found @ ''/update'')
        [(plain_field ''name'' ''Display name'' ''text'')\<lparr>fd_value := dv_name found, fd_placeholder := ''warehouse-tablet-001'', fd_required := True\<rparr>,
         (plain_field ''policyId'' ''Policy'' ''select'')\<lparr>fd_value := i, fd_placeholder := ''Select a policy'',
            fd_options := add_options (allPolicyOptions pols) (if i = [] then [] else [i]), fd_required := True\<rparr>,
         (plain_field ''groupIds'' ''Groups'' ''multiselect'')\<lparr>fd_values := dv_group_ids found, fd_placeholder := ''Select one or more groups'',
            fd_options := add_options (activeGroupOptions grps) (dv_group_ids found)\<rparr>] ''Update device'',
      danger_form ''Retire device'' (''/admin/devices/'' @ rec_id found @ ''/retire'') ''Retire device''])"

definition deviceDetailPageData ::
  "site \<Rightarrow> page_request \<Rightarrow> session \<Rightarrow> device \<Rightarrow> policy_row list \<Rightarrow> group_row list \<Rightarrow> string \<Rightarrow> page_data action" where
  "deviceDetailPageData s q ses found pols grps callout =
     (let fm = st_formats s; tn = tenant_of s; key = firstNonEmpty [rec_id found, dv_name found] in
     bindE (active_policy_panel s found pols) (\<lambda>policyPanel.
     bindE (assigned_groups_panel s found grps) (\<lambda>groupPanel.
     bindE (deviceConfigPreviewBody s found) (\<lambda>preview.
     bindE (records_panel s q ''Recent logs'' ''logsPage'' ''logsLimit''
       (\<lambda>p. logs_Search tn \<lparr>lf_device = key, lf_source = [], lf_level = [], lf_query = [], lf_since = None, lf_until = None,
          lf_limit = pg_limit p, lf_offset = pg_offset p, lf_page = p\<rparr>) (log_value fm)) (\<lambda>logs.
     bindE (records_panel s q ''Recent device info'' ''deviceInfoPage'' ''deviceInfoLimit''
       (\<lambda>p. deviceinfo_Search tn \<lparr>if_device = key, if_query = [], if_since = None, if_until = None,
          if_limit = pg_limit p, if_offset = pg_offset p, if_page = p\<rparr>) (info_value fm)) (\<lambda>infos.
     bindE (records_panel s q ''Pending commands'' ''commandsPage'' ''commandsLimit''
       (ListPending tn (rec_id found)) (command_value fm)) (\<lambda>cmds.
     let writable = canWrite ses;
         edit = (if writable \<and> rec_status found \<noteq> StatusRetired \<and> rec_status found \<noteq> StatusWiped
                 then device_forms found pols grps else []);
         qr = (if writable \<and> rec_status found = StatusPending
               then [(deviceEnrollmentQRForm (rec_id found))\<lparr>fm_after := callout\<rparr>] else [])
     in returnE (with_forms (edit @ qr) (page_with ''Device Detail'' ''Edit the device label or retire it from active use.''
          (panelSectionHTML [] ''Current device'' (pre fm (device_value fm found)) @ policyPanel @ groupPanel @
           collapsiblePanelHTML ''Config preview'' False preview @ logs @ infos @ cmds @
           pluginDeviceActionsSection (DeviceActionsFor (st_plugins s) (Some ses) (rec_id found))))))))))))"

definition device_page :: "site \<Rightarrow> page_request \<Rightarrow> session \<Rightarrow> page_data action" where
  "device_page s q ses = bindE (loadDeviceDetail (tenant_of s) (PathValue (pr_req q) ''id'')) (\<lambda>(found, pols, grps).
     deviceDetailPageData s q ses found pols grps [])"

section \<open>Pages only read\<close>

text \<open>
  What reading leaves alone: any part \<open>g\<close> of the world in which the counters of the environment do not count.
  The listing of pending commands is the one call of a page that can write; a page that makes it is covered where
  \<open>g\<close> is not affected by it.
\<close>

lemmas store_reads = ListGroups_def GetGroup_def ListGroupDevices_def ListActiveGroups_def GetPolicy_def ListActivePolicies_def
  ListPolicies_def ListRoles_def ListActiveRoles_def GetRole_def ListUsers_def GetUser_def ListCertificates_def GetCertificate_def
  ListManagedFiles_def GetManagedFile_def ListApps_def GetApp_def GetLatestPublishedVersion_def ListVersions_def audit_List_def
  ListRecent_def commands_Get_def ListActiveDevices_def GetDevice_def ListDevicesByFilter_def ListLatestByDeviceIDs_def
  logs_Search_def deviceinfo_Search_def GetPolicyApp_def GetPolicyCertificate_def GetPolicyManagedFile_def get_binding_def get_by_id_def

locale read_frame =
  fixes g :: "world \<Rightarrow> 'x"
  assumes counters: "g (w\<lparr>ticks := n\<rparr>) = g w" "g (w\<lparr>uuid_no := n\<rparr>) = g w" "g (w\<lparr>rand_no := n\<rparr>) = g w"
    "g (w\<lparr>stmts := n\<rparr>) = g w" "g (w\<lparr>object_no := n\<rparr>) = g w" "g (w\<lparr>map_no := n\<rparr>) = g w" "g (w\<lparr>auth := a\<rparr>) = g w"
begin

lemma read_basic [frames_intros]:
  "frames g now" "frames g NewString" "frames g NewTokenSecret"
  "frames g (query f)" "frames g (scan_first xs)"
  by (simp_all add: frames_def now_def NewString_def NewTokenSecret_def query_def scan_first_def returnE_def throwE_def tick_stmt_def
      counters split: option.split list.split)

lemma read_query_row [frames_intros]: "frames g (query_row f)"
  unfolding query_row_def by (intro frames_intros)

lemma read_object_Get [frames_intros]: "frames g (object_Get key)"
proof -
  have "frames g (object_call (\<lambda>os. os))"
    by (simp add: frames_def object_call_def counters)
  moreover have "frames g (\<lambda>w. case map_of (objects w) key of
      None \<Rightarrow> (Inl (ErrText ''object store''), w) | Some content \<Rightarrow> (Inr content, w))"
    by (simp add: frames_def split: option.split)
  ultimately show ?thesis unfolding object_Get_def by (intro frames_intros)
qed

lemma read_attempt [frames_intros]: "frames g m \<Longrightarrow> frames g (attempt m)"
  unfolding attempt_def by (intro frames_intros)

lemma read_found_of [frames_intros]: "(\<And>k. frames g (get k)) \<Longrightarrow> frames g (found_of get ks)"
  by (induction ks) (simp_all add: frames_intros)

lemma read_listed [frames_intros]:
  "(\<And>p. frames g (get p)) \<Longrightarrow> (\<And>rows paged. frames g (f rows paged)) \<Longrightarrow> frames g (listed q get f)"
  unfolding listed_def Let_def by (intro frames_intros)

lemma read_reads [frames_intros]:
  "frames g (ListGroups tn p)" "frames g (GetGroup tn i)" "frames g (ListGroupDevices tn i p)"
  "frames g (ListActiveGroups tn)" "frames g (GetPolicy tn i)" "frames g (ListActivePolicies tn)"
  "frames g (ListPolicies tn p)" "frames g (ListRoles tn p)" "frames g (ListActiveRoles tn)" "frames g (GetRole tn i)"
  "frames g (ListUsers tn p)" "frames g (GetUser tn i)" "frames g (ListCertificates tn p)" "frames g (GetCertificate tn i)"
  "frames g (ListManagedFiles tn p)" "frames g (GetManagedFile tn i)" "frames g (ListApps tn p)" "frames g (GetApp tn i)"
  "frames g (GetLatestPublishedVersion tn i)" "frames g (ListVersions tn i p)" "frames g (audit_List tn p)"
  "frames g (ListRecent tn p)" "frames g (commands_Get tn i)" "frames g (ListActiveDevices tn)" "frames g (GetDevice tn i)"
  "frames g (ListDevicesByFilter tn p f)" "frames g (ListLatestByDeviceIDs tn is)"
  "frames g (logs_Search tn lf)" "frames g (deviceinfo_Search tn df)" "frames g (GetPolicyApp tn i j)"
  "frames g (GetPolicyCertificate tn i j)" "frames g (GetPolicyManagedFile tn i j)"
  unfolding store_reads Let_def by (intro frames_intros)+


lemma read_collect: "(\<And>x. frames g (f x)) \<Longrightarrow> frames g (collect f xs)"
  unfolding collect_def by (intro frames_intros)

lemma read_or_continue: "frames g m \<Longrightarrow> (\<And>x. frames g (f x)) \<Longrightarrow> frames g (or_continue m f)"
  unfolding or_continue_def by (intro frames_intros)

lemma read_render: "frames g (render i c ex)"
  by (simp add: render_def frames_def counters)

lemma read_config [frames_intros]: "frames g (BuildConfigSnapshot tn i pid ex rt)"
  unfolding BuildConfigSnapshot_def listPublishedPolicyApps_def listPolicyManagedFiles_def listPolicyCertificates_def
    devicePolicySnapshot_def ListActivePolicyCertificates_def ListActivePolicyApps_def ListActivePolicyManagedFiles_def
    list_active_bindings_def renderedManagedFileContent_def Let_def
  by (intro frames_intros read_collect read_or_continue read_render)

lemma read_helpers [frames_intros]:
  "frames g (loadPoliciesForSelect tn i)" "frames g (loadRolesForSelect tn i)" "frames g (loadPoliciesForDevices tn vs)"
  "frames g (loadRolesForUsers tn us)" "frames g (latestDeviceInfoByDeviceIDs tn vs)" "frames g (devices_table s vs ps infos)"
  "frames g (latest_versions tn as)" "frames g (loadAppDetail tn i r)" "frames g (loadDeviceDetail tn i)"
  unfolding loadPoliciesForSelect_def loadRolesForSelect_def loadPoliciesForDevices_def loadRolesForUsers_def
    latestDeviceInfoByDeviceIDs_def devices_table_def row_clock_def latest_versions_def loadAppDetail_def loadDeviceDetail_def Let_def
  by (intro frames_intros)+

lemma read_pages:
  "frames g (groups_page s q ses)" "frames g (group_page s q ses)" "frames g (devices_page s q ses)"
  "frames g (roles_page s q ses)" "frames g (role_page s q ses)" "frames g (users_page s q ses)" "frames g (user_page s q ses)"
  "frames g (certificates_page s q ses)" "frames g (certificate_page s q ses)" "frames g (managed_files_page s q ses)"
  "frames g (managed_file_page s q ses)" "frames g (apps_page s q ses)" "frames g (app_page s q ses)" "frames g (audit_page s q ses)"
  "frames g (commands_page s q ses)" "frames g (policies_page s q ses)" "frames g (policy_page s q ses)"
  unfolding groups_page_def group_page_def loadGroupDetail_def groupDetailPageData_def devices_page_def roles_page_def role_page_def
    users_page_def user_page_def certificates_page_def certificate_page_def managed_files_page_def managed_file_page_def
    apps_page_def app_page_def audit_page_def commands_page_def policies_page_def policy_page_def Let_def
  by (intro frames_intros)+

text \<open>Handlers: the session, the cookie of a page and the answer are no part of \<open>g\<close>.\<close>

lemma read_session: "g (snd (sessionFromRequest r w)) = g w"
  by (simp add: sessionFromRequest_def counters split: option.split prod.split)

definition quiet :: "'a handler \<Rightarrow> bool" where
  "quiet h \<longleftrightarrow> (\<forall>w. g (snd (h w)) = g w)"

lemma quiet_answer: "quiet (answer x)"
  by (simp add: quiet_def answer_def)

lemma quiet_try_else:
  assumes "frames g m" "\<And>e. quiet (h e)" "\<And>x. quiet (f x)"
  shows "quiet (try_else m h f)"
proof -
  have "g (snd (try_else m h f w)) = g w" for w
    using framesD [OF assms(1), of w] assms(2,3)
    by (cases "m w") (auto simp: try_else_def quiet_def split: sum.split)
  then show ?thesis by (simp add: quiet_def)
qed

lemma quiet_render: "quiet (renderForSession r ses title flash err)"
  unfolding renderForSession_def render_callout_def issueCSRFCookie_def newCSRFCookieToken_def
  by (auto split: option.split intro!: quiet_try_else quiet_answer frames_intros)

lemma quiet_error: "quiet (page_error d r ses title e)"
  unfolding page_error_def renderPageError_def by (rule quiet_render)

lemma quiet_web_session:
  assumes "\<And>ses. quiet (f ses)"
  shows "quiet (web_session r f)"
proof -
  have "g (snd (web_session r f w)) = g w" for w
  proof -
    obtain ses w' where S: "sessionFromRequest (base r) w = (ses, w')" by force
    then have "g w' = g w" using read_session [of "base r" w] by simp
    with S assms show ?thesis
      by (cases ses) (simp_all add: web_session_def quiet_def redirect_def answer_def)
  qed
  then show ?thesis by (simp add: quiet_def)
qed

lemma quiet_requireRead: "(\<And>ses. quiet (f ses)) \<Longrightarrow> quiet (requireRead r title f)"
  unfolding requireRead_def by (intro quiet_web_session) (simp add: quiet_render)

lemma quiet_pages:
  "(\<And>ses. frames g (load ses)) \<Longrightarrow> quiet (list_page s q title load)"
  "(\<And>ses. frames g (load ses)) \<Longrightarrow> quiet (detail_page s q title load)"
  unfolding list_page_def detail_page_def shown_page_def
  by (auto intro!: quiet_requireRead quiet_try_else quiet_render quiet_error quiet_answer)

lemma quiet_command: "quiet (command_page s q)"
  unfolding command_page_def Let_def
  by (intro quiet_requireRead quiet_try_else quiet_render frames_intros) (auto intro: quiet_answer quiet_error)

end

locale device_frame = read_frame +
  assumes pending: "frames g (ListPending tn i p)"
begin

lemma read_device: "frames g (device_page s q ses)"
  unfolding device_page_def deviceDetailPageData_def active_policy_panel_def assigned_groups_panel_def group_label_def
    deviceConfigPreviewBody_def records_panel_def Let_def
  by (intro frames_intros pending)

end

text \<open>
  A page leaves the database, the objects, the outbox and the broker's clients as they are. What a page of a
  device can change is the state of commands that are due: \<open>but_expiry\<close> is the database with neither the state nor the time
  of the last change of the commands that are pending or expired.
\<close>

definition unexpired :: "command_row \<Rightarrow> command_row" where
  "unexpired c = (if pending_status (cmd_status c) \<or> cmd_status c = StatusExpired then c\<lparr>cmd_status := [], cmd_updated := 0\<rparr> else c)"

definition but_expiry :: "database \<Rightarrow> database" where
  "but_expiry d = d\<lparr>commands := map unexpired (commands d)\<rparr>"

interpretation lasting_r: read_frame "\<lambda>w. (db w, txn w, objects w, outbox w, prov_log w, env w)"
  by unfold_locales simp_all

interpretation expiring_r: read_frame "\<lambda>w. (but_expiry (db w), txn w, objects w, outbox w, prov_log w, env w)"
  by unfold_locales simp_all

lemma unexpired_expired: "due t c \<Longrightarrow> unexpired (set_expired t c) = unexpired c"
  by (cases c) (simp add: unexpired_def set_expired_def due_def)

lemma but_expiry_expire:
  "but_expiry (commands_update (upd_where (\<lambda>c. q c \<and> due t c) (set_expired t)) d) = but_expiry d"
proof -
  have "map unexpired (upd_where (\<lambda>c. q c \<and> due t c) (set_expired t) cs) = map unexpired cs" for cs
    by (induction cs) (simp_all add: upd_where_def unexpired_expired)
  then show ?thesis by (simp add: but_expiry_def)
qed

lemma expiry_frame:
  "frames (\<lambda>w. (but_expiry (db w), txn w, objects w, outbox w, prov_log w, env w))
     (exec (update_rows commands commands_update no_check (\<lambda>c. q c \<and> due t c) (set_expired t)))"
  by (simp add: frames_def exec_def update_rows_def no_check_def tick_stmt_def but_expiry_expire)

lemma pending_expires:
  "frames (\<lambda>w. (but_expiry (db w), txn w, objects w, outbox w, prov_log w, env w)) (ListPending tn i p)"
proof -
  have "frames (\<lambda>w. (but_expiry (db w), txn w, objects w, outbox w, prov_log w, env w)) (expireDueCommands tn i)"
    unfolding expireDueCommands_def by (intro frames_intros expiry_frame)
  then show ?thesis unfolding ListPending_def by (intro frames_intros)
qed

interpretation expiring_d: device_frame "\<lambda>w. (but_expiry (db w), txn w, objects w, outbox w, prov_log w, env w)"
  by unfold_locales (rule pending_expires)

section \<open>Panels left open\<close>

text \<open>
  The panels for the policy and the groups of a device open an element for the summary and do not close it: the
  end tag of the panel closes that element, and the end tag after it does not fit.
\<close>

lemma device_panels_left_open:
  "\<not> well_nested (collapsiblePanelHTML ''Active policy'' False (active_policy_summary fm p))"
  "\<not> well_nested (collapsiblePanelHTML ''Assigned groups'' False (''<div class=\"policy-summary\">'' @ concat (map (summaryTextItem ''Group'') labels)))"
proof -
  have "well_nested (concat (map (summaryTextItem ''Group'') labels))"
    by (intro well_nested_concat_map summaryTextItem_sound)
  then show "\<not> well_nested (collapsiblePanelHTML ''Assigned groups'' False (''<div class=\"policy-summary\">'' @ concat (map (summaryTextItem ''Group'') labels)))"
    by (simp add: collapsiblePanelHTML_def item_tags)
  show "\<not> well_nested (collapsiblePanelHTML ''Active policy'' False (active_policy_summary fm p))"
    by (simp add: collapsiblePanelHTML_def active_policy_summary_def item_tags pieces)
qed

section \<open>Turning the pages\<close>

lemma digit_val_hex: "n < 10 \<Longrightarrow> digit_val (hex_digit n) = Some (int n)"
proof -
  have "\<forall>n < 10. digit_val (hex_digit n) = Some (int n)" by code_simp
  then show "n < 10 \<Longrightarrow> digit_val (hex_digit n) = Some (int n)" by blast
qed

lemma digits_val_append: "digits_val acc (s @ t) = (case digits_val acc s of None \<Rightarrow> None | Some a \<Rightarrow> digits_val a t)"
  by (induction s arbitrary: acc) (auto split: option.split)

lemma digits_val_format: "digits_val 0 (format_nat n) = Some (int n)"
proof (induction n rule: format_nat.induct)
  case (1 n)
  show ?case
  proof (cases "n < 10")
    case True
    then show ?thesis by (subst format_nat.simps) (simp add: digit_val_hex)
  next
    case False
    have "digits_val 0 (format_nat n) = digits_val (int (n div 10)) [hex_digit (n mod 10)]"
      using False 1 by (subst format_nat.simps) (simp add: digits_val_append)
    also have "\<dots> = Some (int (n div 10) * 10 + int (n mod 10))" by (simp add: digit_val_hex)
    also have "int (n div 10) * 10 + int (n mod 10) = int n"
      by (metis div_mult_mod_eq of_nat_add of_nat_mult of_nat_numeral)
    finally show ?thesis .
  qed
qed

lemma format_nat_digits: "list_all (between 48 57) (format_nat n) \<and> format_nat n \<noteq> []"
proof (induction n rule: format_nat.induct)
  case (1 n)
  have "\<forall>n < 10. between 48 57 (hex_digit n)" by code_simp
  then have "between 48 57 (hex_digit n)" if "n < 10" for n using that by blast
  from this [of n] this [of "n mod 10"] 1 show ?case by (subst (1 2) format_nat.simps) auto
qed

lemma Atoi_FormatInt:
  assumes "0 \<le> i" "is_int64 i"
  shows "Atoi (FormatInt i) = Some i" "TrimSpace (FormatInt i) = FormatInt i" "FormatInt i \<noteq> []"
proof -
  have f: "FormatInt i = format_nat (nat i)" using assms(1) by (simp add: FormatInt_def)
  obtain c cs where c: "format_nat (nat i) = c # cs" "between 48 57 c"
    using format_nat_digits [of "nat i"] by (cases "format_nat (nat i)") auto
  then have "c \<noteq> CHR ''-''" "c \<noteq> CHR ''+''" by (auto simp: between_def byte_def)
  with c f assms digits_val_format [of "nat i"] show "Atoi (FormatInt i) = Some i"
    by (simp add: Atoi_def Let_def)
  have "plain_decimal (format_nat (nat i))"
  proof -
    have "\<forall>x \<in> set (format_nat (nat i)). x \<noteq> CHR ''.''"
      using format_nat_digits [of "nat i"] by (auto simp: list_all_iff between_def byte_def)
    then have "before (CHR ''.'') (format_nat (nat i)) = format_nat (nat i)" "from_char (CHR ''.'') (format_nat (nat i)) = []"
      by (simp_all add: before_def from_char_def takeWhile_eq_all_conv dropWhile_eq_Nil_conv)
    with format_nat_digits [of "nat i"] show ?thesis by (simp add: plain_decimal_def digits_def)
  qed
  with f plain_decimal_trim show "TrimSpace (FormatInt i) = FormatInt i" "FormatInt i \<noteq> []" by simp_all
qed


text \<open>\<open>Values.Get\<close>; the parameters a handler sees are those of the address of its request.\<close>

definition first_value :: "string \<Rightarrow> (string \<times> string list) list \<Rightarrow> string" where
  "first_value k q = (case map_of q k of Some (v # _) \<Rightarrow> v | _ \<Rightarrow> [])"

definition addressed :: "page_request \<Rightarrow> bool" where
  "addressed q \<longleftrightarrow> (\<forall>k. Query (pr_req q) k = first_value k (url_query (pr_url q)))"

text \<open>The request of a browser that follows the link to the next page.\<close>

definition follows_next :: "page_request \<Rightarrow> int \<Rightarrow> int \<Rightarrow> page_request \<Rightarrow> bool" where
  "follows_next q k limit q' \<longleftrightarrow> addressed q' \<and>
     url_query (pr_url q') = next_query ''page'' ''limit'' k limit (url_query (pr_url q))"

lemma next_values:
  assumes "is_int64 (k + 1)" "limit > 0"
  shows "first_value ''page'' (next_query ''page'' ''limit'' k limit qs) = FormatInt (k + 1)"
    "first_value ''limit'' (next_query ''page'' ''limit'' k limit qs) = FormatInt limit"
  using assms by (simp_all add: next_query_def with_limit_def set_key_def del_key_def first_value_def wrap64_id)

lemma list_params:
  assumes "listPaginationParams r DefaultLimit = (k, p)"
  shows "1 \<le> k" "1 \<le> pg_limit p - 1" "pg_limit p - 1 \<le> 100" "wrap64 (pg_limit p - 1) = pg_limit p - 1"
    "pg_offset p = Offset k (pg_limit p - 1)"
proof -
  define L where "L = pg_limit (Normalize \<lparr>pg_limit = queryLimitForKey r ''limit'' DefaultLimit, pg_offset = 0\<rparr> DefaultLimit 100)"
  have L: "1 \<le> L" "L \<le> 100" unfolding L_def using Normalize_bounds by simp_all
  have p: "k = queryPageForKey r ''page'' 1" "p = \<lparr>pg_limit = wrap64 (L + 1), pg_offset = Offset k L\<rparr>"
    using assms by (auto simp: listPaginationParams_def listPaginationParamsForKeys_def paginationLimitCap_def L_def Let_def)
  have "wrap64 (L + 1) = L + 1" using L by (intro wrap64_id) (simp add: is_int64_def)
  with p L show "1 \<le> pg_limit p - 1" "pg_limit p - 1 \<le> 100" "pg_offset p = Offset k (pg_limit p - 1)" by simp_all
  then show "wrap64 (pg_limit p - 1) = pg_limit p - 1" by (intro wrap64_id) (simp add: is_int64_def)
  show "1 \<le> k" using p(1) by (auto simp: queryPageForKey_def Let_def split: option.split if_splits)
qed

lemma cut_full_page:
  assumes "1 \<le> L" "L \<le> 99" "1 \<le> k" "is_int64 k" "is_int64 ((k - 1) * L)"
  shows "cut_page (paged \<lparr>pg_limit = L + 1, pg_offset = Offset k L\<rparr> rs) L =
    (take (nat L) (drop (nat ((k - 1) * L)) rs), int (length rs) > k * L)"
proof -
  define start where "start = nat ((k - 1) * L)"
  have off: "Offset k L = (k - 1) * L" "0 \<le> (k - 1) * L" using assms by (simp_all add: Offset_exact)
  with assms have items: "paged \<lparr>pg_limit = L + 1, pg_offset = Offset k L\<rparr> rs = take (Suc (nat L)) (drop start rs)"
    by (simp add: paged_def Normalize_id page_rows_def start_def nat_add_distrib)
  have "int start = (k - 1) * L" using off by (simp add: start_def)
  then have "int (length rs) > k * L \<longleftrightarrow> length rs > start + nat L"
    using assms by (simp add: algebra_simps) linarith
  then show ?thesis unfolding items cut_page_def Let_def start_def [symmetric] using assms(1)
    by (auto simp: min_def)
qed

lemma list_shapes:
  "ListGroups tn = (\<lambda>p. query (\<lambda>d. map (\<lambda>x. x) (paged p (newest_first (filter (in_tenant tn) (groups d))))))"
  "ListRoles tn = (\<lambda>p. query (\<lambda>d. map (\<lambda>x. x) (paged p (newest_first (filter (in_tenant tn) (roles d))))))"
  "ListUsers tn = (\<lambda>p. query (\<lambda>d. map scanUser (paged p (newest_first (filter (in_tenant tn) (users d))))))"
  "ListPolicies tn = (\<lambda>p. query (\<lambda>d. map (\<lambda>x. x) (paged p (newest_first (filter (in_tenant tn) (policies d))))))"
  "ListApps tn = (\<lambda>p. query (\<lambda>d. map (\<lambda>x. x) (paged p (newest_first (filter (in_tenant tn) (apps d))))))"
  "ListCertificates tn = (\<lambda>p. query (\<lambda>d. map (\<lambda>x. x) (paged p (concat (map (cert_join d) (newest_first (filter (in_tenant tn) (certificates d))))))))"
  "ListManagedFiles tn = (\<lambda>p. query (\<lambda>d. map (\<lambda>x. x) (paged p (concat (map (managed_join d) (newest_first (filter (in_tenant tn) (managed_files d))))))))"
  "audit_List tn = (\<lambda>p. query (\<lambda>d. map (\<lambda>x. x) (paged p (newest_events (filter (\<lambda>e. evt_tenant e = tn) (audit_events d))))))"
  "tn \<noteq> [] \<Longrightarrow> ListRecent tn = (\<lambda>p. query (\<lambda>d. map (\<lambda>x. x) (paged p (newest_commands (filter (\<lambda>c. cmd_tenant c = tn) (commands d))))))"
  by (simp_all add: fun_eq_iff ListGroups_def ListRoles_def ListUsers_def ListPolicies_def ListApps_def
      ListCertificates_def ListManagedFiles_def audit_List_def ListRecent_def)


definition page_address :: "(string \<times> string list) list \<Rightarrow> page_request" where
  "page_address qs = \<lparr>pr_req = \<lparr>base = \<lparr>req_method = ''GET'', req_cookie = None, req_secret = [], req_path = \<lambda>_. [],
       req_query = \<lambda>k. first_value k qs\<rparr>, web_form = \<lambda>_. None, web_form_error = None, web_header = \<lambda>_. [],
     web_csrf = None, web_flash = None, web_upload = None\<rparr>,
     pr_url = \<lparr>page_path = ''/admin/groups'', url_query = qs\<rparr>, pr_raw_path = ''/admin/groups''\<rparr>"


end
