(* ===== verification/Charts.thy ===== *)
theory Charts
  imports Listings Samples
begin

text \<open>
  The charts of the overview page (\<open>admin/http/dashboard_overview.go\<close>): the counts they show, computed from the
  records of the stores as the code computes them.
\<close>

section \<open>Charts\<close>

record overview_chart =
  ch_title :: string
  ch_labels :: "string list"
  ch_values :: "int list"
  ch_total :: int
  ch_empty :: string

definition empty_chart :: "string \<Rightarrow> string \<Rightarrow> overview_chart" where
  "empty_chart title note = \<lparr>ch_title = title, ch_labels = [], ch_values = [], ch_total = 0, ch_empty = note\<rparr>"

definition hours :: "int \<Rightarrow> int" where
  "hours n = n * 3600000000"

section \<open>Charts of counts\<close>

text \<open>\<open>strings.Fields\<close>.\<close>

function split_white :: "string \<Rightarrow> string \<Rightarrow> string list" where
  "split_white cur [] = (if cur = [] then [] else [cur])"
| "split_white cur (c # s) =
     (case List.find (\<lambda>w. w \<noteq> [] \<and> prefix w (c # s)) white_runes of
        None \<Rightarrow> split_white (cur @ [c]) s
      | Some w \<Rightarrow> (if cur = [] then [] else [cur]) @ split_white [] (drop (length w) (c # s)))"
  by pat_completeness auto
termination
proof (relation "measure (\<lambda>(cur, s). length s)", goal_cases)
  case (3 cur c s w)
  then have "w \<noteq> []" by (auto simp: find_Some_iff)
  then show ?case by (cases w) auto
qed simp_all

definition Fields :: "string \<Rightarrow> string list" where
  "Fields s = split_white [] s"

text \<open>
  The first byte of a word in upper case. \<open>strings.ToUpper\<close> of a byte that is no character by itself is the
  replacement character.
\<close>

definition upper_first :: "string \<Rightarrow> string" where
  "upper_first part = (case part of [] \<Rightarrow> []
     | c # cs \<Rightarrow> (if byte c < 128 then [upper_char c] else [CHR 0xEF, CHR 0xBF, CHR 0xBD]) @ cs)"

definition titleCaseLabel :: "string \<Rightarrow> string" where
  "titleCaseLabel label = (let label = TrimSpace (map (\<lambda>c. if c = CHR ''_'' then CHR '' '' else c) label) in
     if label = [] then ''Unknown'' else joined '' '' (map upper_first (Fields label)))"

text \<open>The counts are a Go map: the entries in the order in which the loop happens to meet them.\<close>

definition chartFromCounts :: "string \<Rightarrow> (string \<times> int) list \<Rightarrow> int \<Rightarrow> string \<Rightarrow> overview_chart" where
  "chartFromCounts title counts limit note =
     (if counts = [] then empty_chart title note
      else let pairs = sort_key (\<lambda>(l, n). (- n, l)) (map (\<lambda>(l, n). (titleCaseLabel l, n)) (filter (\<lambda>(l, n). n > 0) counts));
               shown = (if limit > 0 \<and> int (length pairs) > limit
                 then take (nat (limit - 1)) pairs @ [(''Other'', sum_list (map snd (drop (nat (limit - 1)) pairs)))]
                 else pairs)
           in \<lparr>ch_title = title, ch_labels = map fst shown, ch_values = map snd shown,
               ch_total = sum_list (map snd shown), ch_empty = note\<rparr>)"

definition buildDeviceStatusChart :: "status_counts \<Rightarrow> overview_chart" where
  "buildDeviceStatusChart c =
     (let chart = empty_chart ''Device status distribution'' ''No devices enrolled yet.'' in
      if n_pending c + n_enrolled c + n_active c + n_locked c + n_suspended c + n_retired c + n_wiped c = 0 then chart
      else chartFromCounts (ch_title chart)
        [(''pending'', n_pending c), (''enrolled'', n_enrolled c), (''active'', n_active c), (''locked'', n_locked c),
         (''suspended'', n_suspended c), (''retired'', n_retired c), (''wiped'', n_wiped c)] 8 (ch_empty chart))"

section \<open>What devices have reported\<close>

text \<open>
  The code reads the records by reflection, by the names of their fields; the model passes the values of those fields
  that the type of the record has.
\<close>

text \<open>The first of some keys of a payload with a text that is not blank.\<close>

fun firstPayloadString :: "obj \<Rightarrow> string list \<Rightarrow> string" where
  "firstPayloadString p [] = []"
| "firstPayloadString p (k # ks) = (case map_of p k of
     Some (JStr s) \<Rightarrow> if TrimSpace s \<noteq> [] then TrimSpace s else firstPayloadString p ks
   | _ \<Rightarrow> firstPayloadString p ks)"

text \<open>The first of some times that is set, and the first of some texts that is not empty once trimmed.\<close>

fun firstTimeField :: "int list \<Rightarrow> int option" where
  "firstTimeField [] = None"
| "firstTimeField (t # ts) = (if t \<noteq> zero_time then Some t else firstTimeField ts)"

fun firstStringField :: "string list \<Rightarrow> string" where
  "firstStringField [] = []"
| "firstStringField (s # ss) = (if TrimSpace s \<noteq> [] then TrimSpace s else firstStringField ss)"

definition note_seen :: "int \<Rightarrow> string \<Rightarrow> (string \<Rightarrow> int option) \<Rightarrow> string \<Rightarrow> int option" where
  "note_seen t key m = (let k = TrimSpace key in
     if k = [] then m else if (case m k of None \<Rightarrow> True | Some u \<Rightarrow> t > u) then m(k \<mapsto> t) else m)"

fun latest_seen :: "(string \<Rightarrow> int option) \<Rightarrow> info_record list \<Rightarrow> string \<Rightarrow> int option" where
  "latest_seen m [] = m"
| "latest_seen m (r # rs) = (case firstTimeField [ir_observed r] of
     None \<Rightarrow> latest_seen m rs
   | Some t \<Rightarrow> latest_seen (note_seen t (firstPayloadString (ir_payload r)
         [''deviceId'', ''deviceID'', ''deviceRecordId'', ''deviceRecordID'', ''serialNumber''])
       (note_seen t (firstStringField [ir_device r]) m)) rs)"

definition latestDeviceInfoByDevice :: "info_record list \<Rightarrow> string \<Rightarrow> int option" where
  "latestDeviceInfoByDevice records = latest_seen Map.empty records"

definition device_key :: "device \<Rightarrow> string" where
  "device_key v = TrimSpace (firstNonEmpty [rec_id v, rec_id v, dv_name v])"

definition weeks_label :: string where
  "weeks_label = ''2'' @ [CHR 0xE2, CHR 0x80, CHR 0x93] @ ''7 days''"

definition freshness_label :: "(string \<Rightarrow> int option) \<Rightarrow> int \<Rightarrow> device \<Rightarrow> string" where
  "freshness_label latest t v =
     (if device_key v = [] then ''No report''
      else case latest (device_key v) of None \<Rightarrow> ''No report''
      | Some u \<Rightarrow> if t - u \<le> hours 24 then ''Last 24h'' else if t - u \<le> hours 168 then weeks_label else ''Stale 8+d'')"

definition freshness_labels :: "string list" where
  "freshness_labels = [''Last 24h'', weeks_label, ''Stale 8+d'', ''No report'']"

text \<open>\<open>counts[label]++\<close>.\<close>

fun count_label :: "string \<Rightarrow> (string \<times> int) list \<Rightarrow> (string \<times> int) list" where
  "count_label l [] = [(l, 1)]"
| "count_label l ((k, n) # cs) = (if k = l then (k, n + 1) # cs else (k, n) # count_label l cs)"

fun append_counts :: "(string \<times> int) list \<Rightarrow> string list \<Rightarrow> overview_chart \<Rightarrow> overview_chart" where
  "append_counts counts [] c = c"
| "append_counts counts (l # ls) c = (let n = (case map_of counts l of None \<Rightarrow> 0 | Some n \<Rightarrow> n) in
     append_counts counts ls (if n \<le> 0 then c
       else c\<lparr>ch_labels := ch_labels c @ [l], ch_values := ch_values c @ [n], ch_total := ch_total c + n\<rparr>))"

definition buildDeviceInfoFreshnessChart :: "device list \<Rightarrow> info_record list \<Rightarrow> int \<Rightarrow> overview_chart" where
  "buildDeviceInfoFreshnessChart devs records t =
     (let chart = empty_chart ''Device-info freshness'' ''No device-info freshness data available.'' in
      if devs = [] then chart
      else let latest = latestDeviceInfoByDevice records;
               counts = fold (\<lambda>v. count_label (freshness_label latest t v)) devs (map (\<lambda>l. (l, 0)) freshness_labels)
           in append_counts counts freshness_labels chart)"

definition countStaleActiveDevices :: "device list \<Rightarrow> info_record list \<Rightarrow> int \<Rightarrow> int \<Rightarrow> int" where
  "countStaleActiveDevices devs records t threshold =
     (let latest = latestDeviceInfoByDevice records in
      int (length (filter (\<lambda>v. rec_status v = StatusActive \<and>
        (case latest (device_key v) of None \<Rightarrow> True | Some u \<Rightarrow> t - u > threshold)) devs)))"

section \<open>Models\<close>

definition info_key :: "info_record \<Rightarrow> string" where
  "info_key r = TrimSpace (if firstStringField [ir_device r] \<noteq> [] then firstStringField [ir_device r]
     else firstPayloadString (ir_payload r) [''deviceId'', ''deviceID'', ''deviceRecordId'', ''deviceRecordID''])"

fun latest_models :: "(string \<Rightarrow> (int \<times> string) option) \<Rightarrow> info_record list \<Rightarrow> string \<Rightarrow> (int \<times> string) option" where
  "latest_models m [] = m"
| "latest_models m (r # rs) = (case firstTimeField [ir_observed r] of
     None \<Rightarrow> latest_models m rs
   | Some t \<Rightarrow> let model = firstPayloadString (ir_payload r) [''model'', ''Model'', ''deviceModel'', ''DeviceModel''];
         k = info_key r in
       if k = [] then latest_models m rs
       else latest_models (if (case m k of None \<Rightarrow> True | Some (u, _) \<Rightarrow> t > u) then m(k \<mapsto> (t, model)) else m) rs)"

definition latestDeviceInfoModelByDevice :: "info_record list \<Rightarrow> string \<Rightarrow> string option" where
  "latestDeviceInfoModelByDevice records k = map_option snd (latest_models Map.empty records k)"

definition model_label :: "(string \<Rightarrow> string option) \<Rightarrow> device \<Rightarrow> string" where
  "model_label models v = (case models (device_key v) of None \<Rightarrow> ''Unknown''
     | Some l \<Rightarrow> if TrimSpace l = [] then ''Unknown'' else l)"

definition buildDeviceModelChart :: "device list \<Rightarrow> info_record list \<Rightarrow> int \<Rightarrow> overview_chart" where
  "buildDeviceModelChart devs records limit =
     (let chart = empty_chart ''Device model breakdown'' ''No device-info model data available.'' in
      if devs = [] then chart
      else let models = latestDeviceInfoModelByDevice records;
               counts = fold (\<lambda>v. if device_key v = [] then id else count_label (model_label models v)) devs []
           in chartFromCounts (ch_title chart) counts limit (ch_empty chart))"

section \<open>Charts of days\<close>

text \<open>
  The calendar of the server's time zone is an argument: the midnight that starts a window of so many days up to
  an instant, and the label of a day of the window. The number of a day is the elapsed time divided by 24 hours.
\<close>

record calendar =
  window_start :: "int \<Rightarrow> int \<Rightarrow> int"
  day_label :: "int \<Rightarrow> int \<Rightarrow> nat \<Rightarrow> string"

definition day_index :: "int \<Rightarrow> int \<Rightarrow> nat" where
  "day_index start t = nat ((t - start) div hours 24)"

definition window_days :: "int \<Rightarrow> int" where
  "window_days days = (if days \<le> 0 then 7 else days)"

definition days_chart :: "calendar \<Rightarrow> int \<Rightarrow> int \<Rightarrow> string \<Rightarrow> string \<Rightarrow> overview_chart" where
  "days_chart cal t days title note = (let n = nat (window_days days) in
     \<lparr>ch_title = title, ch_labels = map (day_label cal t (window_days days)) [0..<n],
      ch_values = replicate n 0, ch_total = 0, ch_empty = note\<rparr>)"

definition add_day :: "nat \<Rightarrow> overview_chart \<Rightarrow> overview_chart" where
  "add_day i c = (if i < length (ch_values c)
     then c\<lparr>ch_values := (ch_values c)[i := ch_values c ! i + 1], ch_total := ch_total c + 1\<rparr> else c)"

fun count_days :: "int \<Rightarrow> int \<Rightarrow> int option list \<Rightarrow> overview_chart \<Rightarrow> overview_chart" where
  "count_days start t [] c = c"
| "count_days start t (None # xs) c = count_days start t xs c"
| "count_days start t (Some x # xs) c =
     count_days start t xs (if x < start \<or> x > t then c else add_day (day_index start x) c)"

definition buildOverviewChart :: "calendar \<Rightarrow> audit_row list \<Rightarrow> int \<Rightarrow> int \<Rightarrow> overview_chart" where
  "buildOverviewChart cal events t days = count_days (window_start cal t (window_days days)) t
     (map (\<lambda>e. Some (evt_created e)) events)
     (days_chart cal t days ''Audit activity, last 7 days'' ''No audit activity in the last 7 days.'')"

definition buildCommandDeliveryTrendChart :: "calendar \<Rightarrow> command_row list \<Rightarrow> int \<Rightarrow> int \<Rightarrow> overview_chart" where
  "buildCommandDeliveryTrendChart cal items t days = count_days (window_start cal t (window_days days)) t
     (map (\<lambda>c. firstTimeField [cmd_updated c, cmd_created c]) items)
     (days_chart cal t days ''Command delivery volume'' ''No command activity in the last 7 days.'')"

text \<open>No page shows this one.\<close>

definition buildStatusTimelineChart :: "calendar \<Rightarrow> info_record list \<Rightarrow> int \<Rightarrow> int \<Rightarrow> string \<Rightarrow> string \<Rightarrow> overview_chart" where
  "buildStatusTimelineChart cal items t days title note = count_days (window_start cal t (window_days days)) t
     (map (\<lambda>r. firstTimeField [ir_observed r]) items) (days_chart cal t days title note)"

text \<open>Each device counts once a day.\<close>

fun count_devices :: "int \<Rightarrow> int \<Rightarrow> (nat \<times> string) set \<Rightarrow> info_record list \<Rightarrow> overview_chart \<Rightarrow> overview_chart" where
  "count_devices start t met [] c = c"
| "count_devices start t met (r # rs) c = (case firstTimeField [ir_observed r] of
     None \<Rightarrow> count_devices start t met rs c
   | Some x \<Rightarrow> if x < start \<or> x > t then count_devices start t met rs c
       else if info_key r = [] then count_devices start t met rs c
       else let i = day_index start x in
         if i < length (ch_values c) \<and> (i, info_key r) \<notin> met
         then count_devices start t (insert (i, info_key r) met) rs (add_day i c)
         else count_devices start t met rs c)"

definition buildUniqueDeviceActivityChart :: "calendar \<Rightarrow> info_record list \<Rightarrow> int \<Rightarrow> int \<Rightarrow> overview_chart" where
  "buildUniqueDeviceActivityChart cal records t days = count_devices (window_start cal t (window_days days)) t {} records
     (days_chart cal t days ''Device activity timeline'' ''No device-info reports in the last 7 days.'')"

section \<open>Counts are shown in an order of their own\<close>

text \<open>A word that begins with a letter outside ASCII loses it.\<close>

lemma title_garbles: "titleCaseLabel [CHR 0xC3, CHR 0xA9, CHR ''t''] = [CHR 0xEF, CHR 0xBF, CHR 0xBD, CHR 0xA9, CHR ''t'']"
  by code_simp

lemma sort_pairs_order:
  assumes "mset xs = mset ys" "inj_on f (set xs)"
  shows "sort_key f xs = sort_key f ys"
  using assms by (intro sort_key_inj_key_eq) (simp_all add: sorted_sort_key)

lemma sum_take_drop: "sum_list (take n xs) + sum_list (drop n xs) = sum_list (xs :: int list)"
  by (metis append_take_drop_id sum_list_append)

lemma shown_pairs:
  fixes counts :: "(string \<times> int) list"
  defines "ps \<equiv> sort_key (\<lambda>(l, n). (- n, l)) (map (\<lambda>(l, n). (titleCaseLabel l, n)) (filter (\<lambda>(l, n). n > 0) counts))"
  shows "sum_list (map snd ps) = sum_list (map snd (filter (\<lambda>(l, n). n > 0) counts))"
    "p \<in> set ps \<Longrightarrow> snd p > 0"
    "sorted_wrt (\<ge>) (map snd ps)"
proof -
  let ?key = "\<lambda>(l :: string, n :: int). (- n, l)"
  have "sum_list (map snd ps) = sum_mset (image_mset snd (mset ps))" by (metis mset_map sum_mset_sum_list)
  also have "\<dots> = sum_list (map snd (filter (\<lambda>(l, n). n > 0) counts))"
    unfolding ps_def by (simp add: case_prod_unfold image_mset.compositionality comp_def flip: sum_mset_sum_list)
  finally show "sum_list (map snd ps) = sum_list (map snd (filter (\<lambda>(l, n). n > 0) counts))" .
  show "p \<in> set ps \<Longrightarrow> snd p > 0" by (auto simp: ps_def)
  have "sorted (map ?key ps)" unfolding ps_def by (rule sorted_sort_key)
  then show "sorted_wrt (\<ge>) (map snd ps)"
    by (simp add: sorted_wrt_map case_prod_unfold) (erule sorted_wrt_mono_rel [rotated], auto)
qed

text \<open>
  A chart of counts shows the counts. It depends on the counts only and not on the order in which the loop over
  the map happens to meet them; its bars add up to the positive counts and to the total; there are never more of
  them than asked for, because the smallest are shown as one; and all but that one are in descending order.
\<close>

theorem chart_of_counts:
  "(\<forall>counts'. mset counts' = mset counts \<longrightarrow> chartFromCounts title counts' limit note = chartFromCounts title counts limit note) \<and>
   ch_total (chartFromCounts title counts limit note) = sum_list (map snd (filter (\<lambda>(l, n). n > 0) counts)) \<and>
   sum_list (ch_values (chartFromCounts title counts limit note)) = ch_total (chartFromCounts title counts limit note) \<and>
   length (ch_labels (chartFromCounts title counts limit note)) = length (ch_values (chartFromCounts title counts limit note)) \<and>
   (limit > 0 \<longrightarrow> int (length (ch_values (chartFromCounts title counts limit note))) \<le> limit) \<and>
   list_all (\<lambda>n. n > 0) (ch_values (chartFromCounts title counts limit note)) \<and>
   sorted_wrt (\<ge>) (if limit > 0 then take (nat (limit - 1)) (ch_values (chartFromCounts title counts limit note))
     else ch_values (chartFromCounts title counts limit note))"
proof -
  let ?key = "\<lambda>(l :: string, n :: int). (- n, l)"
  define ps where "ps = sort_key ?key (map (\<lambda>(l, n). (titleCaseLabel l, n)) (filter (\<lambda>(l, n). n > 0) counts))"
  define m where "m = nat (limit - 1)"
  define shown where "shown = (if limit > 0 \<and> int (length ps) > limit
      then take m ps @ [(''Other'', sum_list (map snd (drop m ps)))] else ps)"
  note sp = shown_pairs [where counts = counts, folded ps_def]
  have chart: "chartFromCounts title counts limit note = \<lparr>ch_title = title, ch_labels = map fst shown, ch_values = map snd shown,
      ch_total = sum_list (map snd shown), ch_empty = note\<rparr>"
    by (cases counts) (simp_all add: chartFromCounts_def empty_chart_def shown_def ps_def m_def Let_def)
  have same: "chartFromCounts title counts' limit note = chartFromCounts title counts limit note" if m: "mset counts' = mset counts" for counts'
  proof -
    have "inj_on ?key A" for A by (auto simp: inj_on_def)
    then have "sort_key ?key (map (\<lambda>(l, n). (titleCaseLabel l, n)) (filter (\<lambda>(l, n). n > 0) counts')) =
        sort_key ?key (map (\<lambda>(l, n). (titleCaseLabel l, n)) (filter (\<lambda>(l, n). n > 0) counts))"
      by (intro sort_pairs_order) (simp_all add: m)
    moreover have "counts' = [] \<longleftrightarrow> counts = []" using m by (metis mset_zero_iff)
    ultimately show ?thesis by (simp add: chartFromCounts_def)
  qed
  have total: "sum_list (map snd shown) = sum_list (map snd ps)"
    by (simp add: shown_def sum_take_drop flip: take_map drop_map)
  have rest: "sum_list (map snd (drop m ps)) > 0" if "limit > 0" "int (length ps) > limit"
  proof -
    have "length ps > m" using that by (simp add: m_def)
    then have "drop m ps = ps ! m # drop (Suc m) ps" by (simp add: Cons_nth_drop_Suc)
    moreover have "0 \<le> sum_list (map snd (drop (Suc m) ps))"
      by (rule sum_list_nonneg) (use sp(2) in_set_dropD in \<open>fastforce intro: less_imp_le\<close>)
    moreover have "snd (ps ! m) > 0" using sp(2) \<open>length ps > m\<close> by simp
    ultimately show ?thesis by simp
  qed
  have "list_all (\<lambda>n. n > 0) (map snd shown)"
    using rest sp(2) by (auto simp: shown_def list_all_iff dest: in_set_takeD)
  moreover have "limit > 0 \<longrightarrow> int (length (map snd shown)) \<le> limit"
  proof (cases "limit > 0 \<and> int (length ps) > limit")
    case True
    then have "m \<le> length ps" unfolding m_def by linarith
    with True have "length (map snd shown) = Suc m" by (simp add: shown_def min_absorb2)
    with True show ?thesis by (simp add: m_def)
  qed (auto simp: shown_def)
  moreover have "sorted_wrt (\<ge>) (if limit > 0 then take m (map snd shown) else map snd shown)"
  proof (cases "limit > 0 \<and> int (length ps) > limit")
    case True
    then have "m \<le> length ps" unfolding m_def by linarith
    with True have "take m (map snd shown) = take m (map snd ps)" by (simp add: shown_def take_map min_absorb2)
    with True sp(3) show ?thesis by (simp add: sorted_wrt_take)
  next
    case False
    then show ?thesis using sp(3) by (auto simp: shown_def sorted_wrt_take)
  qed
  ultimately show ?thesis using same total sp(1) by (simp add: chart flip: m_def split: if_splits)
qed

theorem chart_of_counts_witness:
  "(let c = chartFromCounts ''Models'' [(''pixel_4'', 1), (''tab'', 3), (''x1'', 2)] 2 ''none'' in
     ch_labels c = [''Tab'', ''Other''] \<and> ch_values c = [3, 3] \<and> ch_total c = 6 \<and>
     chartFromCounts ''Models'' [(''x1'', 2), (''tab'', 3), (''pixel_4'', 1)] 2 ''none'' = c)"
proof -
  have "mset [(''x1'', 2 :: int), (''tab'', 3), (''pixel_4'', 1)] = mset [(''pixel_4'', 1), (''tab'', 3), (''x1'', 2)]" by simp
  with chart_of_counts [of "[(''pixel_4'', 1), (''tab'', 3), (''x1'', 2)]" "''Models''" 2 "''none''"]
  have "chartFromCounts ''Models'' [(''x1'', 2), (''tab'', 3), (''pixel_4'', 1)] 2 ''none'' =
      chartFromCounts ''Models'' [(''pixel_4'', 1), (''tab'', 3), (''x1'', 2)] 2 ''none''" by blast
  moreover have "(let c = chartFromCounts ''Models'' [(''pixel_4'', 1), (''tab'', 3), (''x1'', 2)] 2 ''none'' in
     ch_labels c = [''Tab'', ''Other''] \<and> ch_values c = [3, 3] \<and> ch_total c = 6)" by code_simp
  ultimately show ?thesis by (simp add: Let_def)
qed

section \<open>Every device is fresh or not\<close>

lemma TrimSpace_fields: "TrimSpace (firstStringField ss) = firstStringField ss" "TrimSpace (firstPayloadString p ks) = firstPayloadString p ks"
proof -
  show "TrimSpace (firstStringField ss) = firstStringField ss" by (induction ss) simp_all
  show "TrimSpace (firstPayloadString p ks) = firstPayloadString p ks"
    by (induction ks) (simp_all split: option.split json.split)
qed

text \<open>The identifiers a record counts for, and the latest of the records that count for one.\<close>

definition info_names :: "info_record \<Rightarrow> string list" where
  "info_names r = [firstStringField [ir_device r], firstPayloadString (ir_payload r)
     [''deviceId'', ''deviceID'', ''deviceRecordId'', ''deviceRecordID'', ''serialNumber'']]"

definition newest_time :: "int list \<Rightarrow> int option" where
  "newest_time ts = (if ts = [] then None else Some (Max (set ts)))"

lemma newest_time_snoc: "newest_time (ts @ [t]) = Some (case newest_time ts of None \<Rightarrow> t | Some u \<Rightarrow> max u t)"
  by (simp add: newest_time_def max.commute)

definition report_times :: "string \<Rightarrow> info_record list \<Rightarrow> int list" where
  "report_times k rs = map ir_observed (filter (\<lambda>r. ir_observed r \<noteq> zero_time \<and> k \<in> set (info_names r)) rs)"

lemma note_seen_at:
  assumes "TrimSpace key = key"
  shows "note_seen t key m k = (if k = key \<and> k \<noteq> [] then Some (case m k of None \<Rightarrow> t | Some u \<Rightarrow> max u t) else m k)"
  using assms by (auto simp: note_seen_def Let_def split: option.split)

lemma latest_seen_newest:
  assumes "\<And>k. k \<noteq> [] \<Longrightarrow> m k = newest_time (report_times k qs)" "m [] = None"
  shows "latest_seen m rs k = (if k = [] then None else newest_time (report_times k (qs @ rs)))"
  using assms
proof (induction rs arbitrary: m qs)
  case (Cons r rs)
  obtain a b where ab: "info_names r = [a, b]" by (simp add: info_names_def del: firstPayloadString.simps firstStringField.simps)
  then have trim: "TrimSpace a = a" "TrimSpace b = b" by (auto simp: info_names_def TrimSpace_fields simp del: firstPayloadString.simps firstStringField.simps)
  let ?t = "ir_observed r"
  let ?m = "if ?t = zero_time then m else note_seen ?t b (note_seen ?t a m)"
  have step: "latest_seen m (r # rs) = latest_seen ?m rs"
    using ab by (simp add: info_names_def del: firstPayloadString.simps firstStringField.simps)
  have times: "report_times k (qs @ [r]) = report_times k qs @ (if ?t \<noteq> zero_time \<and> (k = a \<or> k = b) then [?t] else [])" for k
    by (simp add: report_times_def ab)
  have "?m k = newest_time (report_times k (qs @ [r]))" if "k \<noteq> []" for k
    using that Cons.prems(1) [OF that] unfolding times
    by (cases "newest_time (report_times k qs)") (auto simp: note_seen_at trim newest_time_snoc)
  moreover have "?m [] = None" using Cons.prems(2) by (simp add: note_seen_at trim)
  ultimately show ?case using Cons.IH [of ?m "qs @ [r]"] unfolding step by simp
qed simp

lemma latest_newest:
  "latestDeviceInfoByDevice records k = (if k = [] then None else newest_time (report_times k records))"
  using latest_seen_newest [of Map.empty "[]" records k]
  by (simp add: latestDeviceInfoByDevice_def report_times_def newest_time_def)

lemma map_of_count_label:
  "map_of (count_label l cs) k = (if k = l then Some (case map_of cs l of None \<Rightarrow> 1 | Some n \<Rightarrow> n + 1) else map_of cs k)"
  by (induction cs rule: count_label.induct) auto

lemma map_of_counts:
  assumes "map_of cs k = Some n"
  shows "map_of (fold (\<lambda>v. count_label (f v)) vs cs) k = Some (n + int (length (filter (\<lambda>v. f v = k) vs)))"
  using assms by (induction vs arbitrary: cs n) (simp_all add: map_of_count_label)

lemma append_counts_result:
  "append_counts counts ls c = c\<lparr>
     ch_labels := ch_labels c @ filter (\<lambda>l. (case map_of counts l of None \<Rightarrow> 0 | Some n \<Rightarrow> n) > 0) ls,
     ch_values := ch_values c @ map (\<lambda>l. case map_of counts l of None \<Rightarrow> 0 | Some n \<Rightarrow> n)
       (filter (\<lambda>l. (case map_of counts l of None \<Rightarrow> 0 | Some n \<Rightarrow> n) > 0) ls),
     ch_total := ch_total c + sum_list (map (\<lambda>l. case map_of counts l of None \<Rightarrow> 0 | Some n \<Rightarrow> n)
       (filter (\<lambda>l. (case map_of counts l of None \<Rightarrow> 0 | Some n \<Rightarrow> n) > 0) ls))\<rparr>"
  by (induction ls arbitrary: c) (simp_all add: Let_def)

lemma count_partition:
  assumes "distinct ls" "\<And>v. v \<in> set vs \<Longrightarrow> f v \<in> set ls"
  shows "sum_list (map (\<lambda>l. int (length (filter (\<lambda>v. f v = l) vs))) ls) = int (length vs)"
  using assms(2)
proof (induction vs)
  case (Cons v vs)
  have "sum_list (map (\<lambda>l. int (length (filter (\<lambda>v. f v = l) (v # vs)))) ls) =
      sum_list (map (\<lambda>l. (if f v = l then 1 else 0) + int (length (filter (\<lambda>v. f v = l) vs))) ls)"
    by (intro arg_cong [where f = sum_list] map_cong) simp_all
  also have "\<dots> = sum_list (map (\<lambda>l. if f v = l then 1 else 0) ls) + int (length vs)"
    using Cons by (simp add: sum_list_addf)
  also have "sum_list (map (\<lambda>l. if f v = l then 1 else 0) ls) = (1 :: int)"
  proof -
    have "sum_list (map (\<lambda>l. if f v = l then 1 else 0) ls) = (\<Sum>l\<in>set ls. if f v = l then 1 else (0 :: int))"
      using assms(1) by (simp add: sum_list_distinct_conv_sum_set)
    then show ?thesis using Cons.prems [of v] by simp
  qed
  finally show ?case by simp
qed simp

lemma sum_list_positive: "(\<And>l. g l \<ge> 0) \<Longrightarrow> sum_list (map g (filter (\<lambda>l. g l > 0) ls)) = sum_list (map g ls)" for g :: "'a \<Rightarrow> int"
  by (induction ls) (auto simp: order_antisym not_less)

lemma freshness_label_in: "freshness_label latest t v \<in> set freshness_labels"
  by (simp add: freshness_label_def freshness_labels_def split: option.split)

lemma freshness_chart:
  fixes devs records t
  defines "chart \<equiv> buildDeviceInfoFreshnessChart devs records t"
    and "number \<equiv> (\<lambda>l. int (length (filter (\<lambda>v. freshness_label (\<lambda>k. newest_time (report_times k records)) t v = l) devs)))"
  shows "ch_total chart = int (length devs) \<and>
    ch_labels chart = filter (\<lambda>l. number l > 0) freshness_labels \<and> ch_values chart = map number (ch_labels chart) \<and>
    sum_list (ch_values chart) = ch_total chart"
proof (cases "devs = []")
  case True
  then show ?thesis by (simp add: chart_def number_def buildDeviceInfoFreshnessChart_def empty_chart_def freshness_labels_def)
next
  case False
  let ?L = "latestDeviceInfoByDevice records"
  define counts where "counts = fold (\<lambda>v. count_label (freshness_label ?L t v)) devs (map (\<lambda>l. (l, 0)) freshness_labels)"
  have same: "freshness_label ?L t v = freshness_label (\<lambda>k. newest_time (report_times k records)) t v" for v
    by (simp add: freshness_label_def latest_newest)
  have c: "map_of counts l = Some (number l)" if "l \<in> set freshness_labels" for l
  proof -
    have "map_of (map (\<lambda>l. (l, 0 :: int)) freshness_labels) l = Some 0" using that by (simp add: map_of_map_restrict restrict_map_def)
    from map_of_counts [OF this, of "freshness_label ?L t" devs] show ?thesis by (simp add: counts_def number_def same)
  qed
  have chart: "chart = append_counts counts freshness_labels (empty_chart ''Device-info freshness'' ''No device-info freshness data available.'')"
    using False by (simp add: chart_def buildDeviceInfoFreshnessChart_def empty_chart_def counts_def Let_def)
  have fl: "filter (\<lambda>l. (case map_of counts l of None \<Rightarrow> 0 | Some n \<Rightarrow> n) > 0) freshness_labels = filter (\<lambda>l. number l > 0) freshness_labels"
    by (rule filter_cong) (simp_all add: c)
  have vs: "map (\<lambda>l. case map_of counts l of None \<Rightarrow> 0 | Some n \<Rightarrow> n) (filter (\<lambda>l. number l > 0) freshness_labels) =
      map number (filter (\<lambda>l. number l > 0) freshness_labels)"
    by (rule map_cong) (auto simp: c)
  have "sum_list (map number (filter (\<lambda>l. number l > 0) freshness_labels)) = sum_list (map number freshness_labels)"
    by (rule sum_list_positive) (simp add: number_def)
  also have "\<dots> = int (length devs)" unfolding number_def
    by (rule count_partition) (simp_all add: freshness_label_in, simp add: freshness_labels_def weeks_label_def)
  finally show ?thesis unfolding chart append_counts_result fl vs by (simp add: empty_chart_def)
qed


section \<open>Events by day\<close>

text \<open>A timestamp falls into the window and on one of its days.\<close>

definition falls_on :: "int \<Rightarrow> int \<Rightarrow> nat \<Rightarrow> int \<Rightarrow> bool" where
  "falls_on start t i x \<longleftrightarrow> start \<le> x \<and> x \<le> t \<and> day_index start x = i"

lemma sum_list_bump: "i < length xs \<Longrightarrow> sum_list (xs[i := xs ! i + 1]) = sum_list xs + (1 :: int)"
  by (induction xs arbitrary: i) (auto split: nat.split)

lemma count_days_result:
  "ch_values (count_days start t xs c) =
     map (\<lambda>i. ch_values c ! i + int (length (filter (\<lambda>x. case x of None \<Rightarrow> False | Some x \<Rightarrow> falls_on start t i x) xs))) [0..<length (ch_values c)] \<and>
   ch_total (count_days start t xs c) - ch_total c = sum_list (ch_values (count_days start t xs c)) - sum_list (ch_values c) \<and>
   ch_labels (count_days start t xs c) = ch_labels c"
proof (induction start t xs c rule: count_days.induct)
  case (1 start t c)
  then show ?case by (simp add: map_nth)
next
  case (3 start t x xs c)
  define c' where "c' = (if x < start \<or> x > t then c else add_day (day_index start x) c)"
  have len: "length (ch_values c') = length (ch_values c)" "ch_labels c' = ch_labels c" by (simp_all add: c'_def add_day_def)
  have vals: "ch_values c' ! i = ch_values c ! i + (if falls_on start t i x then 1 else 0)" if "i < length (ch_values c)" for i
    using that by (auto simp: c'_def add_day_def falls_on_def nth_list_update)
  have tot: "ch_total c' - ch_total c = sum_list (ch_values c') - sum_list (ch_values c)"
    by (auto simp: c'_def add_day_def sum_list_bump)
  have IH: "ch_values (count_days start t xs c') =
     map (\<lambda>i. ch_values c' ! i + int (length (filter (\<lambda>x. case x of None \<Rightarrow> False | Some x \<Rightarrow> falls_on start t i x) xs))) [0..<length (ch_values c')]"
    "ch_total (count_days start t xs c') - ch_total c' = sum_list (ch_values (count_days start t xs c')) - sum_list (ch_values c')"
    "ch_labels (count_days start t xs c') = ch_labels c'"
    using 3 [folded c'_def] by simp_all
  have "ch_values (count_days start t xs c') = map (\<lambda>i. ch_values c ! i +
      int (length (filter (\<lambda>x. case x of None \<Rightarrow> False | Some x \<Rightarrow> falls_on start t i x) (Some x # xs)))) [0..<length (ch_values c)]"
    unfolding IH(1) len by (rule map_cong) (simp_all add: vals)
  with IH(2,3) tot len show ?case by (simp add: c'_def [symmetric])
qed simp

lemma count_days_total:
  "ch_total c \<le> ch_total (count_days start t xs c) \<and> ch_total (count_days start t xs c) \<le> ch_total c + int (length xs)"
proof (induction start t xs c rule: count_days.induct)
  case (3 start t x xs c)
  have "ch_total c \<le> ch_total (if x < start \<or> x > t then c else add_day (day_index start x) c) \<and>
      ch_total (if x < start \<or> x > t then c else add_day (day_index start x) c) \<le> ch_total c + 1"
    by (simp add: add_day_def)
  with 3 show ?case by simp
qed simp_all

lemma days_chart_shape: "length (ch_labels (days_chart cal t days title note)) = nat (window_days days)"
  "ch_values (days_chart cal t days title note) = replicate (nat (window_days days)) 0"
  "ch_total (days_chart cal t days title note) = 0"
  by (simp_all add: days_chart_def Let_def)

lemma day_counts:
  "ch_values (count_days start t xs (days_chart cal t days title note)) =
     map (\<lambda>i. int (length (filter (\<lambda>x. case x of None \<Rightarrow> False | Some x \<Rightarrow> falls_on start t i x) xs))) [0..<nat (window_days days)]"
  "ch_total (count_days start t xs (days_chart cal t days title note)) =
     sum_list (ch_values (count_days start t xs (days_chart cal t days title note)))"
  "length (ch_labels (count_days start t xs (days_chart cal t days title note))) = nat (window_days days)"
  using count_days_result [of start t xs "days_chart cal t days title note"]
  by (simp_all add: days_chart_shape sum_list_replicate del: upt_Suc cong: map_cong)

text \<open>The devices that count on a day.\<close>

definition reporters :: "int \<Rightarrow> int \<Rightarrow> nat \<Rightarrow> info_record list \<Rightarrow> string set" where
  "reporters start t i rs = info_key ` {r \<in> set rs. ir_observed r \<noteq> zero_time \<and> falls_on start t i (ir_observed r) \<and> info_key r \<noteq> []}"

lemma reporters_Cons: "reporters start t i (r # rs) = (if ir_observed r \<noteq> zero_time \<and> falls_on start t i (ir_observed r) \<and> info_key r \<noteq> []
     then insert (info_key r) (reporters start t i rs) else reporters start t i rs)"
  by (auto simp: reporters_def)

lemma count_devices_result:
  "ch_values (count_devices start t met rs c) =
     map (\<lambda>i. ch_values c ! i + int (card (reporters start t i rs - {k. (i, k) \<in> met}))) [0..<length (ch_values c)] \<and>
   ch_total (count_devices start t met rs c) - ch_total c = sum_list (ch_values (count_devices start t met rs c)) - sum_list (ch_values c) \<and>
   ch_labels (count_devices start t met rs c) = ch_labels c"
proof (induction rs arbitrary: met c)
  case Nil
  then show ?case by (simp add: reporters_def map_nth)
next
  case (Cons r rs)
  let ?x = "ir_observed r" and ?k = "info_key r" and ?n = "length (ch_values c)"
  let ?i = "day_index start ?x"
  have fin: "finite (reporters start t i rs)" for i by (simp add: reporters_def)
  show ?case
  proof (cases "?x \<noteq> zero_time \<and> start \<le> ?x \<and> ?x \<le> t \<and> ?k \<noteq> [] \<and> ?i < ?n \<and> (?i, ?k) \<notin> met")
    case True
    let ?c = "add_day ?i c" and ?met = "insert (?i, ?k) met"
    have step: "count_devices start t met (r # rs) c = count_devices start t ?met rs ?c"
      using True by (simp add: Let_def)
    have c: "length (ch_values ?c) = ?n" "ch_labels ?c = ch_labels c" "ch_total ?c - ch_total c = sum_list (ch_values ?c) - sum_list (ch_values c)"
      using True by (simp_all add: add_day_def sum_list_bump)
    have "ch_values ?c ! i + int (card (reporters start t i rs - {k. (i, k) \<in> ?met})) =
        ch_values c ! i + int (card (reporters start t i (r # rs) - {k. (i, k) \<in> met}))" if "i < ?n" for i
    proof (cases "i = ?i")
      case here: True
      then have "reporters start t i (r # rs) - {k. (i, k) \<in> met} = insert ?k (reporters start t i rs - {k. (i, k) \<in> ?met})"
        using True by (auto simp: reporters_Cons falls_on_def)
      moreover have "card (insert ?k (reporters start t i rs - {k. (i, k) \<in> ?met})) = Suc (card (reporters start t i rs - {k. (i, k) \<in> ?met}))"
        using fin here by (intro card_insert_disjoint) simp_all
      ultimately show ?thesis using True here by (simp add: add_day_def)
    next
      case False
      then have "reporters start t i (r # rs) = reporters start t i rs" "{k. (i, k) \<in> ?met} = {k. (i, k) \<in> met}"
        by (auto simp: reporters_Cons falls_on_def)
      then show ?thesis using True False by (simp add: add_day_def)
    qed
    then have "map (\<lambda>i. ch_values ?c ! i + int (card (reporters start t i rs - {k. (i, k) \<in> ?met}))) [0..<?n] =
        map (\<lambda>i. ch_values c ! i + int (card (reporters start t i (r # rs) - {k. (i, k) \<in> met}))) [0..<?n]"
      by (intro map_cong) auto
    moreover have "ch_values (count_devices start t ?met rs ?c) =
        map (\<lambda>i. ch_values ?c ! i + int (card (reporters start t i rs - {k. (i, k) \<in> ?met}))) [0..<?n]"
      by (rule conjunct1 [OF Cons [of ?met ?c, unfolded c(1)]])
    ultimately have "ch_values (count_devices start t ?met rs ?c) =
        map (\<lambda>i. ch_values c ! i + int (card (reporters start t i (r # rs) - {k. (i, k) \<in> met}))) [0..<?n]" by (simp only:)
    moreover note conjunct2 [OF Cons [of ?met ?c]]
    ultimately show ?thesis using c unfolding step by simp
  next
    case False
    then have step: "count_devices start t met (r # rs) c = count_devices start t met rs c"
      by (auto simp: Let_def)
    have "reporters start t i (r # rs) - {k. (i, k) \<in> met} = reporters start t i rs - {k. (i, k) \<in> met}" if "i < ?n" for i
      using False that by (auto simp: reporters_Cons falls_on_def)
    then show ?thesis using Cons [of met c] unfolding step by (simp cong: map_cong)
  qed
qed

text \<open>
  The charts of days count what happened on each day of the window: the events of the audit log, the
  commands by their last change, and for device reports the different devices. Nothing before the first midnight or
  after the present instant counts, and the totals are the sums of the bars.
\<close>

theorem days_counted:
  fixes cal t days
  defines "start \<equiv> window_start cal t (window_days days)" and "n \<equiv> nat (window_days days)"
  shows "ch_values (buildOverviewChart cal events t days) =
      map (\<lambda>i. int (length (filter (\<lambda>e. falls_on start t i (evt_created e)) events))) [0..<n] \<and>
    ch_values (buildCommandDeliveryTrendChart cal cmds t days) =
      map (\<lambda>i. int (length (filter (\<lambda>c. case firstTimeField [cmd_updated c, cmd_created c] of None \<Rightarrow> False | Some x \<Rightarrow> falls_on start t i x) cmds))) [0..<n] \<and>
    ch_values (buildUniqueDeviceActivityChart cal records t days) =
      map (\<lambda>i. int (card (reporters start t i records))) [0..<n] \<and>
    list_all (\<lambda>c. ch_total c = sum_list (ch_values c) \<and> length (ch_labels c) = n)
      [buildOverviewChart cal events t days, buildCommandDeliveryTrendChart cal cmds t days, buildUniqueDeviceActivityChart cal records t days]"
proof -
  have "ch_values (buildUniqueDeviceActivityChart cal records t days) = map (\<lambda>i. int (card (reporters start t i records))) [0..<n] \<and>
      ch_total (buildUniqueDeviceActivityChart cal records t days) = sum_list (ch_values (buildUniqueDeviceActivityChart cal records t days)) \<and>
      length (ch_labels (buildUniqueDeviceActivityChart cal records t days)) = n"
    using count_devices_result [of start t "{}" records "days_chart cal t days ''Device activity timeline'' ''No device-info reports in the last 7 days.''"]
    by (simp add: buildUniqueDeviceActivityChart_def days_chart_shape sum_list_replicate start_def n_def cong: map_cong)
  then show ?thesis
    by (simp add: buildOverviewChart_def buildCommandDeliveryTrendChart_def day_counts start_def [symmetric] n_def [symmetric]
        filter_map comp_def)
qed



end
