(* ===== verification/Overview.thy ===== *)
theory Overview
  imports Pages Charts
begin

text \<open>
  The overview page of the dashboard (\<open>admin/http/dashboard_overview.go\<close>, \<open>dashboard_health.go\<close>): the numbers it
  shows, what it says needs attention, and its HTML as the code writes it. The charts are those of \<open>Charts\<close>.
\<close>

section \<open>Data\<close>

record overview_signal =
  sg_label :: string
  sg_value :: string
  sg_detail :: string
  sg_tone :: string
  sg_href :: string

record service_check =
  hc_label :: string
  hc_tone :: string

record overview_metric =
  mt_label :: string
  mt_value :: string
  mt_detail :: string

record overview_attention =
  at_title :: string
  at_detail :: string
  at_tone :: string
  at_href :: string

record command_counts =
  oc_sent :: int
  oc_acked :: int
  oc_failed :: int
  oc_total :: int

record content_counts =
  oa_apps :: int
  oa_files :: int
  oa_certs :: int

record overview_data =
  od_freshness :: string
  od_summary :: "string \<times> string \<times> string"
  od_can_write :: bool
  od_health :: "service_check list"
  od_signals :: "overview_signal list"
  od_metrics :: "overview_metric list"
  od_attention :: "overview_attention list"
  od_chart :: overview_chart
  od_status_chart :: overview_chart
  od_activity_chart :: overview_chart
  od_freshness_chart :: overview_chart
  od_command_chart :: overview_chart
  od_model_chart :: overview_chart
  od_commands :: command_counts
  od_content :: content_counts
  od_recent :: "audit_row list"

section \<open>Health of the services\<close>

text \<open>
  What a probe of a service comes to: the service is not configured, it answers, it fails, or it fails once the
  time for the probes is over. The probes run at the same time and write to places of their own.
\<close>

datatype probe = Absent | Answers | Fails | Fails_late

definition probe_tone :: "probe \<Rightarrow> string" where
  "probe_tone p = (case p of Fails \<Rightarrow> ''danger'' | Fails_late \<Rightarrow> ''warn'' | _ \<Rightarrow> ''good'')"

definition collectServiceHealthChecks :: "probe \<Rightarrow> probe \<Rightarrow> probe \<Rightarrow> service_check list" where
  "collectServiceHealthChecks database artifact_store push =
     map (\<lambda>(l, p). \<lparr>hc_label = l, hc_tone = probe_tone p\<rparr>)
       [(''PostgreSQL'', database), (''Object storage'', artifact_store), (''MQTT'', push)]"

section \<open>Texts\<close>

definition pluralSuffix :: "int \<Rightarrow> string" where
  "pluralSuffix n = (if n = 1 then [] else ''s'')"

definition signalToneClass :: "string \<Rightarrow> string" where
  "signalToneClass tone = (let t = ToLower (TrimSpace tone) in
     if t = ''good'' then ''tone-good'' else if t = ''warn'' then ''tone-warn''
     else if t = ''danger'' then ''tone-danger'' else ''tone-neutral'')"

definition segmentWidthPercent :: "int \<Rightarrow> int \<Rightarrow> int" where
  "segmentWidthPercent n whole = (if whole \<le> 0 then 0 else n * 100 div whole)"

text \<open>The first of the labels that mean a report of today, with its value.\<close>

fun recent_value :: "string list \<Rightarrow> int list \<Rightarrow> int" where
  "recent_value (l # ls) (v # vs) =
     (if ToLower (TrimSpace l) \<in> {''last 24h'', ''seen last 24h'', ''seen today''} then v else recent_value ls vs)"
| "recent_value _ _ = 0"

definition deviceInfoFreshnessMetric :: "overview_chart \<Rightarrow> int \<Rightarrow> overview_metric" where
  "deviceInfoFreshnessMetric c whole =
     (let n = recent_value (ch_labels c) (ch_values c) in
      \<lparr>mt_label = ''Device-info freshness'',
       mt_value = (if whole > 0 then FormatInt (n * 100 div whole) @ ''%'' else ''0%''),
       mt_detail = FormatInt n @ '' of '' @ FormatInt whole @ '' devices seen in the last 24 hours'' @
         (if n > 0 then '' '' @ middle_dot @ '' latest device-info report is current'' else [])\<rparr>)"

fun summary_tone :: "string \<Rightarrow> overview_attention list \<Rightarrow> string" where
  "summary_tone tone [] = tone"
| "summary_tone tone (a # as) = (let t = ToLower (TrimSpace (at_tone a)) in
     summary_tone (if t = ''danger'' then ''danger'' else if t = ''warn'' \<and> tone \<noteq> ''danger'' then ''warn'' else tone) as)"

definition overviewStatusSummary ::
  "overview_attention list \<Rightarrow> command_counts \<Rightarrow> int \<Rightarrow> int \<Rightarrow> int \<Rightarrow> int \<Rightarrow> int \<Rightarrow> int \<Rightarrow> string \<times> string \<times> string" where
  "overviewStatusSummary att oc active pending gone whole pols recent =
     (let tone = summary_tone ''good'' att;
          title = (if tone = ''warn'' then ''Fleet status: Review recommended''
            else if tone = ''danger'' then ''Fleet status: Attention required'' else ''Fleet status: Healthy'');
          parts = (if whole > 0 then [FormatInt active @ '' active'', FormatInt pending @ '' pending'', FormatInt gone @ '' retired/wiped''] else []) @
            (if pols > 0 then [FormatInt pols @ '' active policies''] else []) @
            (if oc_total oc > 0 then [FormatInt (oc_acked oc) @ ''/'' @ FormatInt (oc_total oc) @ '' commands acknowledged''] else []) @
            [FormatInt recent @ '' audit events in the last 24 hours'']
      in (title, joined '' - '' parts, tone))"

section \<open>HTML\<close>

definition div_of :: "string \<Rightarrow> string \<Rightarrow> string" where
  \<open>div_of cls body = ''<div class="'' @ cls @ ''">'' @ body @ ''</div>''\<close>

definition span_of :: "string \<Rightarrow> string \<Rightarrow> string" where
  \<open>span_of cls body = ''<span class="'' @ cls @ ''">'' @ body @ ''</span>''\<close>

definition heading_of :: "string \<Rightarrow> string" where
  "heading_of body = ''<h1>'' @ body @ ''</h1>''"

definition chart_empty_html :: "string \<Rightarrow> string \<Rightarrow> string" where
  "chart_empty_html title note = div_of ''chart-empty'' (''<strong>'' @ title @ ''</strong><small>'' @ note @ ''</small>'')"

text \<open>\<open>strings.TrimSuffix(value, "%")\<close>.\<close>

definition without_percent :: "string \<Rightarrow> string" where
  "without_percent v = (if v \<noteq> [] \<and> last v = CHR 0x25 then butlast v else v)"

definition spark_width :: "string \<Rightarrow> int \<Rightarrow> int" where
  "spark_width value n =
     (if CHR 0x25 \<in> set value then (if n < 0 then 0 else if n > 100 then 100 else n)
      else if n \<le> 0 then 0 else if n \<le> 2 then 18 else if n \<le> 5 then 32 else if n \<le> 12 then 58
      else if n \<le> 25 then 78 else 100)"

definition renderMetricSparkline :: "string \<Rightarrow> string" where
  \<open>renderMetricSparkline value = (case Atoi (TrimSpace (without_percent value)) of None \<Rightarrow> []
     | Some n \<Rightarrow> ''<div class="overview-metric-spark" aria-hidden="true"><span style="width:'' @ FormatInt (spark_width value n) @ ''%"></span></div>'')\<close>

text \<open>An element that is a link when there is an address.\<close>

definition linked :: "string \<Rightarrow> string \<Rightarrow> string \<Rightarrow> string \<Rightarrow> string" where
  \<open>linked cls tone href body =
     (if href \<noteq> [] then ''<a class="'' @ cls @ '' '' @ tone @ ''" href="'' @ escAttr href @ ''">'' @ body @ ''</a>''
      else ''<div class="'' @ cls @ '' '' @ tone @ ''">'' @ body @ ''</div>'')\<close>

definition bare_div :: "string \<Rightarrow> string" where
  "bare_div body = ''<div>'' @ body @ ''</div>''"

definition attention_item :: "overview_attention \<Rightarrow> string" where
  "attention_item a = linked ''attention-item'' (signalToneClass (at_tone a)) (at_href a)
     (span_of ''attention-dot'' [] @
      bare_div (div_of ''attention-title'' (esc (at_title a)) @ div_of ''attention-detail'' (esc (at_detail a))) @
      (if at_href a \<noteq> [] then span_of ''attention-arrow'' ''&rarr;'' else []))"

definition renderAttentionList :: "overview_attention list \<Rightarrow> string" where
  "renderAttentionList items = div_of ''attention-list''
     (if items = [] then div_of ''attention-item tone-good'' (span_of ''attention-dot'' [] @
        bare_div (div_of ''attention-title'' ''No immediate action required'' @
          div_of ''attention-detail'' ''Fleet health, command delivery, and policy coverage are within the expected range.''))
      else concat (map attention_item items))"

definition command_bar :: "int \<Rightarrow> string \<times> int \<times> string \<Rightarrow> string" where
  \<open>command_bar whole b = (case b of (label, n, cls) \<Rightarrow> div_of ''cmd-row''
     (div_of ''cmd-row-label'' (esc label) @
      ''<div class="cmd-track"><div class="cmd-fill '' @ cls @ ''" style="width:'' @ FormatInt (if whole > 0 then n * 100 div whole else 0) @ ''%"></div></div>'' @
      div_of ''cmd-row-count'' (FormatInt n)))\<close>

definition renderCommandBreakdown :: "command_counts \<Rightarrow> string" where
  "renderCommandBreakdown oc =
     (if oc_total oc = 0 then chart_empty_html ''No recent commands'' ''Commands sent to devices will appear here.''
      else let rate = (if oc_total oc > 0 then oc_acked oc * 100 div oc_total oc else 0);
               cls = (if rate < 50 then ''cmd-rate-danger'' else if rate < 80 then ''cmd-rate-warn'' else ''cmd-rate-good'');
               stat = (\<lambda>c v l. div_of ''cmd-stat'' (div_of c v @ div_of ''cmd-stat-label'' l))
        in div_of ''cmd-breakdown'' (concat (map (command_bar (oc_total oc))
             [(''Sent'', oc_sent oc, ''cmd-bar-sent''), (''Acked'', oc_acked oc, ''cmd-bar-acked''), (''Failed'', oc_failed oc, ''cmd-bar-failed'')])) @
           div_of ''cmd-summary''
             (stat (''cmd-stat-value '' @ cls) (FormatInt rate @ ''%'') ''ack rate'' @
              stat ''cmd-stat-value'' (FormatInt (oc_total oc)) ''total'' @
              stat ''cmd-stat-value cmd-rate-danger'' (FormatInt (oc_failed oc)) ''failed''))"

definition content_segment :: "int \<Rightarrow> string \<times> int \<times> string \<times> string \<times> string \<Rightarrow> string" where
  \<open>content_segment whole s = (case s of (label, n, cls, _) \<Rightarrow>
     if n = 0 then [] else ''<div class="comp-segment '' @ cls @ ''" style="width:'' @ FormatInt (segmentWidthPercent n whole) @
       ''%" title="'' @ esc label @ '': '' @ FormatInt n @ ''"></div>'')\<close>

definition content_legend :: "string \<times> int \<times> string \<times> string \<times> string \<Rightarrow> string" where
  \<open>content_legend s = (case s of (label, n, cls, href, noun) \<Rightarrow>
     ''<a class="comp-legend-item" href="'' @ escAttr href @ ''">'' @ span_of (''comp-dot '' @ cls) [] @
     span_of ''comp-name'' (esc label) @ span_of ''comp-count'' (FormatInt n) @
     span_of ''comp-pct'' (esc (FormatInt n @ '' '' @ noun @ pluralSuffix n)) @ ''</a>'')\<close>

definition content_segments :: "content_counts \<Rightarrow> (string \<times> int \<times> string \<times> string \<times> string) list" where
  "content_segments c =
     [(''Apps'', oa_apps c, ''comp-apps'', ''/admin/apps'', ''app''),
      (''Managed files'', oa_files c, ''comp-files'', ''/admin/managed-files'', ''file''),
      (''Certificates'', oa_certs c, ''comp-certs'', ''/admin/certificates'', ''cert'')]"

definition content_total :: "content_counts \<Rightarrow> int" where
  "content_total c = oa_apps c + oa_files c + oa_certs c"

definition renderContentComposition :: "content_counts \<Rightarrow> string" where
  "renderContentComposition c = div_of ''content-comp''
     (if content_total c = 0 then chart_empty_html ''No content configured''
        ''Active apps, managed files, and certificates will appear here once added.''
      else div_of ''comp-bar'' (concat (map (content_segment (content_total c)) (content_segments c))) @
        div_of ''comp-legend'' (concat (map content_legend (content_segments c))))"

definition activity_item :: "clock_text \<Rightarrow> audit_row \<Rightarrow> string" where
  "activity_item lt e =
     (let resource = evt_resource_type e @ (if TrimSpace (evt_resource_id e) \<noteq> [] then ''/'' @ evt_resource_id e else []);
          actor = firstNonEmpty [evt_actor e, ''system''] in
      div_of ''activity-item'' (div_of ''activity-time'' (esc (formatDashboardTime lt (evt_created e))) @
        div_of ''activity-main'' (div_of ''activity-action'' (esc (evt_action e)) @
          div_of ''activity-meta'' (esc actor @ '' on '' @ esc resource))))"

definition renderRecentActivity :: "clock_text \<Rightarrow> audit_row list \<Rightarrow> string" where
  "renderRecentActivity lt items =
     (if items = [] then chart_empty_html ''No recent activity'' ''Operator actions and system events will appear here once recorded.''
      else div_of ''activity-list'' (concat (map (activity_item lt) items)))"

text \<open>
  The coordinates of a chart are computed in floating point and written with one decimal: the expressions are
  kept as they are, and what \<open>%.1f\<close> makes of the value of one is an argument.
\<close>

datatype coord = Int_of int | Decimal string | Plus coord coord | Minus coord coord | Times coord coord | Over coord coord

definition svg_rect :: "(coord \<Rightarrow> string) \<Rightarrow> string \<Rightarrow> coord \<Rightarrow> coord \<Rightarrow> coord \<Rightarrow> coord \<Rightarrow> string \<Rightarrow> string" where
  \<open>svg_rect ft cls x y w h body = ''<rect class="'' @ cls @ ''" x="'' @ ft x @ ''" y="'' @ ft y @ ''" width="'' @ ft w @
     ''" height="'' @ ft h @ ''" rx="6">'' @ body @ ''</rect>''\<close>

definition svg_text :: "string \<Rightarrow> string \<Rightarrow> bool \<Rightarrow> string \<Rightarrow> string" where
  \<open>svg_text x y centred body = ''<text class="chart-axis" x="'' @ x @ ''" y="'' @ y @ ''"'' @
     (if centred then '' text-anchor="middle"'' else []) @ ''>'' @ body @ ''</text>''\<close>

definition svg_title :: "string \<Rightarrow> string" where
  "svg_title body = ''<title>'' @ body @ ''</title>''"

definition svg_of :: "string \<Rightarrow> string \<Rightarrow> string" where
  \<open>svg_of label body = ''<svg viewBox="0 0 720 220" role="img" aria-label="'' @ label @ ''">'' @ body @ ''</svg>''\<close>

definition gridline :: "(coord \<Rightarrow> string) \<Rightarrow> nat \<Rightarrow> string" where
  \<open>gridline ft i = (let y = Minus (Int_of 178) (Over (Times (Int_of 160) (Int_of (int i))) (Int_of 3)) in
     ''<line class="chart-gridline" x1="'' @ FormatInt 36 @ ''" x2="'' @ FormatInt 706 @ ''" y1="'' @ ft y @ ''" y2="'' @ ft y @ ''"></line>'')\<close>

definition chart_bar :: "(coord \<Rightarrow> string) \<Rightarrow> int \<Rightarrow> int \<Rightarrow> nat \<times> string \<times> int \<Rightarrow> string" where
  \<open>chart_bar ft n maxValue b = (case b of (i, label, v) \<Rightarrow>
     let cellWidth = Over (Int_of 670) (Int_of n);
         barWidth = Times cellWidth (Decimal ''0.68'');
         barGap = Over (Minus cellWidth barWidth) (Int_of 2);
         barHeight = Over (Times (Int_of 160) (Int_of v)) (Int_of maxValue);
         x = Plus (Plus (Int_of 36) (Times (Int_of (int i)) cellWidth)) barGap;
         y = Minus (Int_of 178) barHeight;
         mid = Plus x (Over barWidth (Int_of 2))
     in svg_rect ft ''chart-bar-bg'' x (Int_of 18) barWidth (Int_of 160) [] @
        svg_rect ft ''chart-bar'' x y barWidth barHeight (svg_title (esc label @ '': '' @ FormatInt v)) @
        (if v > 0 then svg_text (ft mid) (ft (Minus y (Int_of 4))) True (FormatInt v) else []) @
        svg_text (ft mid) (FormatInt 202) True (esc label))\<close>

definition chart_max :: "int list \<Rightarrow> int" where
  "chart_max vs = (let m = fold max vs 0 in if m = 0 then 1 else m)"

definition renderOverviewChart :: "(coord \<Rightarrow> string) \<Rightarrow> overview_chart \<Rightarrow> string" where
  \<open>renderOverviewChart ft c =
     (if ch_values c = [] \<or> ch_total c = 0
      then chart_empty_html (esc (if ch_empty c = [] then ''No activity in the selected window.'' else ch_empty c))
        ''Audit events will appear here as operators and systems make changes.''
      else let maxValue = chart_max (ch_values c) in
        svg_of (esc (ch_title c)) (concat (map (gridline ft) [0..<4]) @
          concat (map (chart_bar ft (int (length (ch_values c))) maxValue) (enumerate 0 (zip (ch_labels c) (ch_values c)))) @
          svg_text (FormatInt 4) (FormatInt 29) False (FormatInt maxValue) @
          svg_text (FormatInt 10) (FormatInt 182) False ''0''))\<close>

definition panel_header :: "string \<Rightarrow> string \<Rightarrow> string" where
  "panel_header title right = div_of ''overview-panel-header'' (span_of ''overview-panel-title'' title @ right)"

definition panel_link :: "string \<Rightarrow> string \<Rightarrow> string" where
  \<open>panel_link href label = ''<a class="overview-panel-link" href="'' @ href @ ''">'' @ label @ ''</a>''\<close>

definition renderOverviewChartPanel :: "(coord \<Rightarrow> string) \<Rightarrow> overview_chart \<Rightarrow> string \<Rightarrow> string \<Rightarrow> string \<Rightarrow> string" where
  "renderOverviewChartPanel ft c meta href linkLabel = div_of ''overview-panel''
     (panel_header (esc (ch_title c))
        (if href \<noteq> [] then panel_link (escAttr href) (esc linkLabel)
         else if ch_total c > 0 then span_of ''chart-total-badge'' (FormatInt (ch_total c) @ '' total'')
         else span_of ''overview-panel-meta'' (esc meta)) @
      div_of ''overview-chart'' (renderOverviewChart ft c))"

definition renderOverviewCommandPanel :: "command_counts \<Rightarrow> string" where
  "renderOverviewCommandPanel oc = div_of ''overview-panel''
     (panel_header ''Command delivery'' (panel_link ''/admin/commands'' ''View all'') @ renderCommandBreakdown oc)"

definition health_chip :: "service_check \<Rightarrow> string" where
  "health_chip h = div_of ''service-health-chip'' (div_of ''service-health-chip-top''
     (span_of (''service-health-dot '' @ signalToneClass (hc_tone h)) [] @ span_of ''service-health-chip-label'' (esc (hc_label h))))"

definition signal_card :: "overview_signal \<Rightarrow> string" where
  "signal_card s = linked ''health-item-wrap'' (signalToneClass (sg_tone s)) (sg_href s)
     (div_of ''health-item''
       (div_of ''health-row'' (span_of ''health-dot'' [] @ div_of ''health-label'' (esc (sg_label s)) @
          (if sg_href s \<noteq> [] then span_of ''health-nav-arrow'' ''&rarr;'' else [])) @
        div_of ''health-value'' (esc (sg_value s)) @ div_of ''health-detail'' (esc (sg_detail s))))"

definition metric_card :: "overview_metric \<Rightarrow> string" where
  "metric_card m = div_of ''overview-metric-card''
     (div_of ''overview-metric-label'' (esc (mt_label m)) @ div_of ''overview-metric-value'' (esc (mt_value m)) @
      div_of ''overview-metric-detail'' (esc (mt_detail m)) @ renderMetricSparkline (mt_value m))"

definition overview_hero :: "overview_data \<Rightarrow> string" where
  "overview_hero v = (case od_summary v of (title, detail, tone) \<Rightarrow> div_of ''overview-hero''
     (div_of ''overview-top''
       (div_of ''overview-title-block'' (div_of ''overview-kicker'' ''Control plane'' @ heading_of ''Fleet Overview'' @
          div_of ''overview-subtitle'' ''Monitor device readiness, policy coverage, content distribution, command delivery, and recent administrative activity.'' @
          div_of ''overview-freshness'' (esc (od_freshness v))) @
        div_of ''overview-actions'' (concat (map health_chip (od_health v)))) @
      div_of (''overview-status '' @ signalToneClass tone)
       (span_of ''overview-status-dot'' [] @ bare_div (div_of ''overview-status-title'' (esc title) @
        div_of ''overview-status-detail'' (esc detail))) @
      (if od_signals v = [] then [] else div_of ''health-strip'' (concat (map signal_card (od_signals v))))))"

definition renderOverviewDashboard :: "(coord \<Rightarrow> string) \<Rightarrow> clock_text \<Rightarrow> overview_data \<Rightarrow> string" where
  "renderOverviewDashboard ft lt v =
     overview_hero v @
     (if od_metrics v = [] then [] else div_of ''overview-metrics-grid'' (concat (map metric_card (od_metrics v)))) @
     div_of ''overview-panel''
       (panel_header ''Needs attention'' (span_of ''overview-panel-meta'' ''Operational priorities'') @ renderAttentionList (od_attention v)) @
     div_of ''overview-device-grid''
       (renderOverviewChartPanel ft (od_status_chart v) ''devices'' ''/admin/devices'' ''View devices'' @
        renderOverviewChartPanel ft (od_activity_chart v) ''Last 7 days'' ''/admin/devices'' ''View devices'' @
        renderOverviewChartPanel ft (od_freshness_chart v) ''freshness'' ''/admin/devices'' ''View devices'' @
        renderOverviewChartPanel ft (od_command_chart v) ''Last 7 days'' ''/admin/commands'' ''View commands'' @
        renderOverviewChartPanel ft (od_model_chart v) ''top models'' ''/admin/devices'' ''View devices'' @
        renderOverviewCommandPanel (od_commands v)) @
     div_of ''overview-bottom-row''
       (div_of ''overview-panel''
          (panel_header ''Content library'' (span_of ''overview-panel-meta'' (FormatInt (content_total (od_content v)) @ '' active items'')) @
           renderContentComposition (od_content v)) @
        div_of ''overview-panel''
          (panel_header ''Recent activity'' (panel_link ''/admin/audit'' ''View audit log'') @ renderRecentActivity lt (od_recent v)))"

section \<open>The page\<close>

text \<open>
  What the page needs besides the site: the calendar of the server, the outcomes of the probes of
  the database, the object store and the broker, and the formatting of coordinates.
\<close>

record overview_env =
  oe_calendar :: calendar
  oe_probes :: "probe \<times> probe \<times> probe"
  oe_coord :: "coord \<Rightarrow> string"

text \<open>What it loads, in the order of the code.\<close>

record overview_numbers =
  on_devices :: overview_stats
  on_active :: "device list"
  on_policies :: policy_stats
  on_content :: content_counts
  on_commands :: command_counts
  on_recent :: "command_row list"
  on_infos :: "info_record list"
  on_audit :: int
  on_events :: "audit_row list"
  on_statuses :: status_counts

definition overviewRecentActivityLimit :: int where
  "overviewRecentActivityLimit = 5"

text \<open>\<open>sort.SliceStable\<close>, newest first.\<close>

definition stable_newest :: "audit_row list \<Rightarrow> audit_row list" where
  "stable_newest items = sort_key (\<lambda>e. - evt_created e) items"

definition load_overview :: "string \<Rightarrow> int \<Rightarrow> overview_numbers action" where
  "load_overview tn t =
     bindE (GetOverviewStats tn) (\<lambda>stats.
     bindE (ListActiveDevices tn) (\<lambda>devs.
     bindE (policy_GetOverviewStats tn) (\<lambda>pols.
     bindE (apps_GetOverviewStats tn) (\<lambda>as.
     bindE (managedfiles_GetOverviewStats tn) (\<lambda>ms.
     bindE (certificates_GetOverviewStats tn) (\<lambda>cs.
     bindE (commands_GetOverviewStats tn) (\<lambda>cmds.
     bindE (ListRecent tn \<lparr>pg_limit = 50, pg_offset = 0\<rparr>) (\<lambda>recent.
     bindE (deviceinfo_Search tn \<lparr>if_device = [], if_query = [], if_since = None, if_until = None, if_limit = 0, if_offset = 0,
        if_page = \<lparr>pg_limit = 200, pg_offset = 0\<rparr>\<rparr>) (\<lambda>infos.
     bindE (CountSince tn (t - hours 24)) (\<lambda>day.
     bindE (audit_List tn \<lparr>pg_limit = overviewRecentActivityLimit, pg_offset = 0\<rparr>) (\<lambda>events.
     bindE (GetStatusCounts tn) (\<lambda>statuses. returnE
       \<lparr>on_devices = stats, on_active = devs, on_policies = pols,
        on_content = \<lparr>oa_apps = as_active as, oa_files = ms_active ms, oa_certs = cert_stats.cs_active cs\<rparr>,
        on_commands = \<lparr>oc_sent = cs_sent cmds, oc_acked = cs_acked cmds, oc_failed = cs_failed cmds, oc_total = command_stats.cs_total cmds\<rparr>,
        on_recent = recent, on_infos = infos, on_audit = day, on_events = stable_newest events, on_statuses = statuses\<rparr>))))))))))))"

definition overview_signals :: "overview_numbers \<Rightarrow> overview_signal list" where
  "overview_signals n =
     (let st = on_devices n; inactive = ov_total st - ov_active st; ps = on_policies n; c = on_content n; oc = on_commands n;
          card = (\<lambda>l v d tone href. \<lparr>sg_label = l, sg_value = v, sg_detail = d, sg_tone = tone, sg_href = href\<rparr>) in
     [card ''Device readiness'' (FormatInt (ov_active st))
        (if inactive > 0 then FormatInt (ov_active st) @ '' active, '' @ FormatInt inactive @ '' require review''
         else FormatInt (ov_active st) @ '' of '' @ FormatInt (ov_total st) @ '' devices active'')
        (if ov_total st = 0 then ''warn'' else if inactive > 0 then ''warn'' else ''good'') ''/admin/devices'',
      card ''Policy library'' (FormatInt (ps_active ps)) (FormatInt (ps_active ps) @ '' active, '' @ FormatInt (ps_retired ps) @ '' retired'')
        (if ps_active ps > 0 then ''good'' else if ps_total ps > 0 then ''warn'' else ''neutral'') ''/admin/policies'',
      card ''Content readiness'' (FormatInt (content_total c))
        (FormatInt (oa_apps c) @ '' apps, '' @ FormatInt (oa_files c) @ '' files, '' @ FormatInt (oa_certs c) @ '' certs'')
        (if content_total c > 0 then ''good'' else ''neutral'') ''/admin/apps'',
      card ''Command health'' (FormatInt (oc_total oc))
        (FormatInt (oc_acked oc) @ '' acknowledged, '' @ FormatInt (oc_sent oc) @ '' pending, '' @ FormatInt (oc_failed oc) @ '' failed'')
        (if oc_failed oc > 0 then ''danger'' else if oc_sent oc > 0 then ''warn'' else ''good'') ''/admin/commands'',
      card ''Audit activity'' (FormatInt (on_audit n)) ''events in the last 24 hours''
        (if on_audit n > 0 then ''good'' else ''neutral'') ''/admin/audit''])"

text \<open>\<open>stale\<close> is the number of active devices without a report of the last 72 hours.\<close>

definition overview_attentions :: "overview_numbers \<Rightarrow> int \<Rightarrow> overview_attention list" where
  "overview_attentions n stale =
     (let st = on_devices n; pending = ov_pending st; review = pending + stale; oc = on_commands n; ps = on_policies n;
          item = (\<lambda>title d tone href. [\<lparr>at_title = title, at_detail = d, at_tone = tone, at_href = href\<rparr>]) in
     (if ov_total st > 0 \<and> review > 0 then item ''Devices require review''
        (FormatInt review @ '' of '' @ FormatInt (ov_total st) @ '' devices need operator review: '' @
         (if stale > 0 then FormatInt pending @ '' pending enrollment, '' @ FormatInt stale @ '' active device'' @ pluralSuffix stale @
            '' stale for over 72 hours'' else FormatInt pending @ '' pending enrollment'') @ ''.'') ''warn'' ''/admin/devices'' else []) @
     (if pending > 0 then item ''Pending enrollment''
        (FormatInt pending @ '' device'' @ pluralSuffix pending @ '' awaiting enrollment or activation.'') ''warn'' ''/admin/devices'' else []) @
     (if ov_total st = 0 then item ''No devices enrolled'' ''Create or enroll the first device to activate fleet monitoring.'' ''warn'' ''/admin/devices'' else []) @
     (if oc_failed oc > 0 then item ''Failed commands''
        (FormatInt (oc_failed oc) @ '' recent command'' @ pluralSuffix (oc_failed oc) @ '' failed and should be investigated.'') ''danger'' ''/admin/commands'' else []) @
     (if oc_sent oc > 0 then item ''Commands pending acknowledgement''
        (FormatInt (oc_sent oc) @ '' command'' @ pluralSuffix (oc_sent oc) @ '' still waiting for device acknowledgement.'') ''warn'' ''/admin/commands'' else []) @
     (if ps_total ps = 0 then item ''No policies configured'' ''Create a policy before onboarding production devices.'' ''warn'' ''/admin/policies''
      else if ps_total ps > 0 \<and> ps_active ps = 0 then item ''No active policies''
        ''All policies are retired or inactive; devices may not receive the expected configuration.'' ''warn'' ''/admin/policies'' else []) @
     (if on_audit n = 0 then item ''No recent audit activity'' ''No operator or system events were recorded in the last 24 hours.'' ''neutral'' ''/admin/audit'' else []))"

definition overview_metrics :: "overview_numbers \<Rightarrow> overview_chart \<Rightarrow> overview_metric list" where
  "overview_metrics n freshness =
     (let oc = on_commands n; rate = (if oc_total oc > 0 then oc_acked oc * 100 div oc_total oc else 0) in
     [deviceInfoFreshnessMetric freshness (ov_total (on_devices n)),
      \<lparr>mt_label = ''Pending enrollment'', mt_value = FormatInt (ov_pending (on_devices n)), mt_detail = ''Devices waiting to become active''\<rparr>,
      \<lparr>mt_label = ''Command ack rate'', mt_value = FormatInt rate @ ''%'',
       mt_detail = FormatInt (oc_acked oc) @ '' of '' @ FormatInt (oc_total oc) @ '' recent commands acknowledged''\<rparr>,
      \<lparr>mt_label = ''Content items'', mt_value = FormatInt (content_total (on_content n)), mt_detail = ''Active apps, managed files, and certificates''\<rparr>])"

definition overview_of :: "site \<Rightarrow> overview_env \<Rightarrow> session \<Rightarrow> int \<Rightarrow> overview_numbers \<Rightarrow> overview_data" where
  "overview_of s e ses t n =
     (let cal = oe_calendar e; st = on_devices n; oc = on_commands n;
          trend = buildCommandDeliveryTrendChart cal (on_recent n) t 7;
          activity = buildUniqueDeviceActivityChart cal (on_infos n) t 7;
          freshness = buildDeviceInfoFreshnessChart (on_active n) (on_infos n) t;
          stale = countStaleActiveDevices (on_active n) (on_infos n) t (hours 72);
          models = buildDeviceModelChart (on_active n) (on_infos n) 6;
          att = overview_attentions n stale
      in \<lparr>od_freshness = ''Last updated '' @ formatDashboardTime (clock_of s) t,
          od_summary = overviewStatusSummary att oc (ov_active st) (ov_pending st) (ov_retired_or_wiped st) (ov_total st)
            (ps_active (on_policies n)) (on_audit n),
          od_can_write = canWrite ses,
          od_health = (case oe_probes e of (d, a, m) \<Rightarrow> collectServiceHealthChecks d a m),
          od_signals = overview_signals n, od_metrics = overview_metrics n freshness, od_attention = att,
          od_chart = buildOverviewChart cal (on_events n) t 7,
          od_status_chart = buildDeviceStatusChart (on_statuses n),
          od_activity_chart = (if ch_values activity = []
            then (buildOverviewChart cal [] t 7)\<lparr>ch_title := ''Device activity timeline'', ch_empty := ''No device-info reports in the last 7 days.''\<rparr>
            else activity),
          od_freshness_chart = (if ch_values freshness = []
            then empty_chart ''Device-info freshness'' ''No device-info freshness data available.'' else freshness),
          od_command_chart = (if ch_values trend = [] then buildCommandDeliveryTrendChart cal [] t 7 else trend),
          od_model_chart = (if ch_values models = []
            then empty_chart ''Device model breakdown'' ''No device-info model data available.'' else models),
          od_commands = oc, od_content = on_content n, od_recent = on_events n\<rparr>)"

definition overview_page :: "site \<Rightarrow> overview_env \<Rightarrow> session \<Rightarrow> page_data action" where
  "overview_page s e ses = bindE now (\<lambda>t. bindE (load_overview (tenant_of s) t) (\<lambda>n. returnE
     ((page_with ''Fleet Overview'' ''Monitor device readiness, policy coverage, content distribution, and recent activity.'' [])
       \<lparr>pd_overview := renderOverviewDashboard (oe_coord e) (clock_of s) (overview_of s e ses t n)\<rparr>)))"

definition overview :: "site \<Rightarrow> overview_env \<Rightarrow> page_request \<Rightarrow> view handler" where
  "overview s e q = detail_page s q ''Overview'' (overview_page s e)"

section \<open>Sound whatever the records hold\<close>

lemma div_of_sound [pieces]: "plain_text cls \<Longrightarrow> well_nested body \<Longrightarrow> well_nested (div_of cls body)"
  by (simp add: div_of_def tags)

lemma span_of_sound [pieces]: "plain_text cls \<Longrightarrow> well_nested body \<Longrightarrow> well_nested (span_of cls body)"
  by (simp add: span_of_def tags)

lemma plain_tone [simp]: "plain_text (signalToneClass t)"
  by (simp add: signalToneClass_def Let_def)

lemma chart_empty_sound [pieces]: "well_nested t \<Longrightarrow> well_nested n \<Longrightarrow> well_nested (chart_empty_html t n)"
  unfolding chart_empty_html_def by (rule div_of_sound) (simp_all add: tags)

lemma linked_sound [pieces]:
  "plain_text cls \<Longrightarrow> plain_text tone \<Longrightarrow> well_nested body \<Longrightarrow> well_nested (linked cls tone href body)"
  by (simp add: linked_def tags)

lemma sparkline_sound [pieces]: "well_nested (renderMetricSparkline v)"
  by (simp add: renderMetricSparkline_def tags split: option.split)

lemma panel_header_sound [pieces]: "well_nested t \<Longrightarrow> well_nested r \<Longrightarrow> well_nested (panel_header t r)"
  by (simp add: panel_header_def pieces well_nested_append)

lemma panel_link_sound [pieces]: "plain_text href \<Longrightarrow> well_nested l \<Longrightarrow> well_nested (panel_link href l)"
  by (simp add: panel_link_def tags)

lemma bare_div_sound [pieces]: "well_nested body \<Longrightarrow> well_nested (bare_div body)"
  by (simp add: bare_div_def tags)

lemma heading_sound [pieces]: "well_nested body \<Longrightarrow> well_nested (heading_of body)"
  by (simp add: heading_of_def tags)

lemma attention_sound [pieces]: "well_nested (renderAttentionList items)"
  by (simp add: renderAttentionList_def attention_item_def pieces well_nested_append)

lemma command_panel_sound [pieces]: "well_nested (renderOverviewCommandPanel oc)"
proof -
  have "well_nested (command_bar n (l, k, c))" if "plain_text c" for n l k c
    using that by (simp add: command_bar_def div_of_def tags)
  then show ?thesis
    by (simp add: renderOverviewCommandPanel_def renderCommandBreakdown_def Let_def pieces well_nested_append)
qed

lemma content_sound [pieces]: "well_nested (renderContentComposition c)"
proof -
  have "well_nested (content_segment n (l, k, cl, h))" "well_nested (content_legend (l, k, cl, h'))" if "plain_text cl" for n l k cl h h'
    using that by (auto simp: content_segment_def content_legend_def span_of_def tags split: prod.split)
  then show ?thesis
    by (simp add: renderContentComposition_def content_segments_def pieces well_nested_append)
qed

lemma activity_sound [pieces]: "well_nested (renderRecentActivity lt items)"
  by (simp add: renderRecentActivity_def activity_item_def Let_def pieces well_nested_append)

lemma hero_sound [pieces]: "well_nested (overview_hero v)"
  by (simp add: overview_hero_def health_chip_def signal_card_def pieces well_nested_append split: prod.split)

lemma metrics_sound [pieces]: "well_nested (metric_card m)"
  by (simp add: metric_card_def pieces well_nested_append)

text \<open>What \<open>%.1f\<close> writes is digits, a point, a sign, or one of \<open>NaN\<close> and \<open>Inf\<close>.\<close>

definition decimal_like :: "(coord \<Rightarrow> string) \<Rightarrow> bool" where
  "decimal_like ft \<longleftrightarrow> (\<forall>e. set (ft e) \<subseteq> set ''0123456789.-+NaInf'')"

lemma decimal_plain: "decimal_like ft \<Longrightarrow> plain_text (ft e)"
  by (fastforce simp: decimal_like_def plain_text_def)

lemma svg_rect_sound:
  "plain_text cls \<Longrightarrow> (\<And>e. plain_text (ft e)) \<Longrightarrow> well_nested body \<Longrightarrow> well_nested (svg_rect ft cls x y w h body)"
  by (simp add: svg_rect_def tags)

lemma svg_text_sound: "plain_text x \<Longrightarrow> plain_text y \<Longrightarrow> well_nested body \<Longrightarrow> well_nested (svg_text x y centred body)"
  by (simp add: svg_text_def tags)

lemma svg_title_sound: "well_nested body \<Longrightarrow> well_nested (svg_title body)"
  by (simp add: svg_title_def tags)

lemma svg_of_sound: "plain_text l \<Longrightarrow> well_nested body \<Longrightarrow> well_nested (svg_of l body)"
  by (simp add: svg_of_def tags)

lemma chart_sound:
  assumes "decimal_like ft"
  shows "well_nested (renderOverviewChart ft c)"
proof -
  note [simp] = decimal_plain [OF assms]
  have "well_nested (chart_bar ft n m b)" "well_nested (gridline ft i)" for n m b i
    by (simp_all add: chart_bar_def gridline_def Let_def svg_rect_sound svg_text_sound svg_title_sound well_nested_append split: prod.split)
      (simp add: tags)
  then show ?thesis
    by (simp add: renderOverviewChart_def Let_def pieces svg_of_sound svg_text_sound well_nested_append)
qed

text \<open>
  The overview page is sound whatever the records hold: for every content of the database, every outcome
  of the probes and every calendar, the HTML is well nested, with no tag, attribute or element left open, the names, models, actions and actors
  in it included.
\<close>

theorem overview_sound:
  assumes "decimal_like ft"
  shows "well_nested (renderOverviewDashboard ft lt v)"
  by (simp add: renderOverviewDashboard_def renderOverviewChartPanel_def pieces chart_sound [OF assms] well_nested_append)

theorem overview_sound_witness:
  "well_nested (renderOverviewDashboard (\<lambda>_. ''0.0'') (\<lambda>_. ''now'')
     \<lparr>od_freshness = ''Last updated now'', od_summary = (''Fleet status: Healthy'', ''1 active'', ''good''), od_can_write = True,
      od_health = collectServiceHealthChecks Answers Fails Absent, od_signals = [], od_metrics = [],
      od_attention = [\<lparr>at_title = ''<script>'', at_detail = ''</div>'', at_tone = ''warn'', at_href = ''/admin/devices''\<rparr>],
      od_chart = empty_chart [] [], od_status_chart = chartFromCounts ''Status'' [(''<b>'', 2)] 8 [], od_activity_chart = empty_chart [] [],
      od_freshness_chart = empty_chart [] [], od_command_chart = empty_chart [] [], od_model_chart = empty_chart [] [],
      od_commands = \<lparr>oc_sent = 1, oc_acked = 1, oc_failed = 0, oc_total = 2\<rparr>,
      od_content = \<lparr>oa_apps = 1, oa_files = 0, oa_certs = 0\<rparr>, od_recent = []\<rparr>)"
  by (rule overview_sound) (simp add: decimal_like_def)

section \<open>The figures fit together\<close>

lemma count_rows_bounds: "0 \<le> count_rows p rs" "count_rows p rs \<le> int (length rs)"
  by (simp_all add: count_rows_def)

lemma count_three:
  assumes "a \<noteq> b" "b \<noteq> c" "a \<noteq> c"
  shows "count_rows (\<lambda>r. f r = a) rs + count_rows (\<lambda>r. f r = b) rs + count_rows (\<lambda>r. f r = c) rs \<le> int (length rs)"
  using assms by (induction rs) (auto simp: count_rows_def)

lemma recent_value_bounds: "list_all (\<lambda>v. v \<ge> 0) vs \<Longrightarrow> 0 \<le> recent_value ls vs \<and> recent_value ls vs \<le> sum_list vs"
proof (induction ls vs rule: recent_value.induct)
  case (1 l ls v vs)
  then have "0 \<le> sum_list vs" by (intro sum_list_nonneg) (simp add: list_all_iff)
  with 1 show ?case by auto
qed (auto intro!: sum_list_nonneg simp: list_all_iff)

lemma percent_bounds: "0 \<le> k \<Longrightarrow> k \<le> n \<Longrightarrow> 0 < n \<Longrightarrow> 0 \<le> k * 100 div n \<and> k * 100 div n \<le> (100 :: int)"
  using zdiv_mono1 [of "k * 100" "n * 100" n] by (simp add: pos_imp_zdiv_nonneg_iff)

lemma loaded:
  "post (load_overview tn t) w (\<lambda>n _. 
     (0 \<le> oc_acked (on_commands n) \<and> 0 \<le> oc_sent (on_commands n) \<and> 0 \<le> oc_failed (on_commands n) \<and>
       oc_acked (on_commands n) + oc_sent (on_commands n) + oc_failed (on_commands n) \<le> oc_total (on_commands n) \<and> oc_total (on_commands n) \<le> 50) \<and>
     (on_active n = map (device_view (db w)) (oldest_first (filter (\<lambda>r. in_tenant tn r \<and> rec_status r \<in> {StatusActive, StatusEnrolled}) (devices (db w)))) \<and>
      ov_total (on_devices n) = int (length (filter (in_tenant tn) (devices (db w)))) \<and>
      ov_active (on_devices n) = count_rows (\<lambda>r. rec_status r = StatusActive) (filter (in_tenant tn) (devices (db w)))) \<and>
     length (on_events n) \<le> 5) (\<lambda>_ _. True)"
proof -
  let ?recent = "take 50 (newest_commands (filter (\<lambda>c. cmd_tenant c = tn) (commands (db w))))"
  have "StatusAcked \<noteq> StatusSent" "StatusSent \<noteq> StatusFailed" "StatusAcked \<noteq> StatusFailed" by code_simp+
  from count_three [OF this, of cmd_status ?recent]
  have "count_rows (\<lambda>c. cmd_status c = StatusAcked) ?recent + count_rows (\<lambda>c. cmd_status c = StatusSent) ?recent +
      count_rows (\<lambda>c. cmd_status c = StatusFailed) ?recent \<le> int (length ?recent)" .
  moreover have "length (stable_newest (paged \<lparr>pg_limit = overviewRecentActivityLimit, pg_offset = 0\<rparr> rs)) \<le> 5" for rs
    using length_paged [of "\<lparr>pg_limit = overviewRecentActivityLimit, pg_offset = 0\<rparr>" rs]
    by (simp add: stable_newest_def overviewRecentActivityLimit_def paged_def Normalize_id page_rows_def)
  ultimately show ?thesis
    by (simp add: load_overview_def GetOverviewStats_def ListActiveDevices_def policy_GetOverviewStats_def apps_GetOverviewStats_def
     managedfiles_GetOverviewStats_def certificates_GetOverviewStats_def commands_GetOverviewStats_def ListRecent_def deviceinfo_Search_def
     CountSince_def audit_List_def GetStatusCounts_def wp Let_def count_rows_bounds)
qed

lemma filter_sort_length: "length (filter p (sort_key k xs)) = length (filter p xs)"
  by (metis mset_filter mset_sort size_mset)

lemma active_listed:
  "length (map (device_view d) (oldest_first (filter (\<lambda>r. in_tenant tn r \<and> rec_status r \<in> S) rs))) \<le> length (filter (in_tenant tn) rs)"
proof -
  have "filter (\<lambda>r. in_tenant tn r \<and> rec_status r \<in> S) rs = filter (\<lambda>r. rec_status r \<in> S) (filter (in_tenant tn) rs)"
    by (simp add: conj_commute)
  then have "length (filter (\<lambda>r. in_tenant tn r \<and> rec_status r \<in> S) rs) \<le> length (filter (in_tenant tn) rs)"
    by (metis length_filter_le)
  then show ?thesis by (simp add: oldest_first_def)
qed

lemma stale_active:
  "countStaleActiveDevices (map (device_view d) (oldest_first (filter (\<lambda>r. in_tenant tn r \<and> rec_status r \<in> S) rs))) infos t threshold
    \<le> count_rows (\<lambda>r. rec_status r = StatusActive) (filter (in_tenant tn) rs)"
proof -
  have st: "rec_status (device_view d r) = rec_status r" for r by (simp add: device_view_def scanDevice_def)
  have "length (filter (\<lambda>v. rec_status v = StatusActive \<and> Q v) (map (device_view d) (oldest_first (filter (\<lambda>r. in_tenant tn r \<and> rec_status r \<in> S) rs)))) =
      length (filter (\<lambda>r. rec_status r = StatusActive \<and> Q (device_view d r) \<and> in_tenant tn r \<and> rec_status r \<in> S) rs)" for Q
    by (auto simp: filter_map oldest_first_def filter_sort_length comp_def st intro!: arg_cong [where f = length] filter_cong)
  moreover have "length (filter (\<lambda>r. rec_status r = StatusActive \<and> Q r \<and> in_tenant tn r \<and> rec_status r \<in> S) rs) \<le>
      length (filter (\<lambda>r. in_tenant tn r \<and> rec_status r = StatusActive) rs)" for Q
    by (induction rs) auto
  ultimately show ?thesis
    by (simp add: countStaleActiveDevices_def Let_def count_rows_def)
qed

lemma freshness_bars:
  "ch_total (buildDeviceInfoFreshnessChart devs infos t) = int (length devs)"
  "list_all (\<lambda>v. v \<ge> 0) (ch_values (buildDeviceInfoFreshnessChart devs infos t))"
  "sum_list (ch_values (buildDeviceInfoFreshnessChart devs infos t)) = ch_total (buildDeviceInfoFreshnessChart devs infos t)"
proof -
  note f = freshness_chart [of devs infos t]
  show "ch_total (buildDeviceInfoFreshnessChart devs infos t) = int (length devs)"
    "sum_list (ch_values (buildDeviceInfoFreshnessChart devs infos t)) = ch_total (buildDeviceInfoFreshnessChart devs infos t)"
    using f by blast+
  have "\<exists>g (ls :: string list). ch_values (buildDeviceInfoFreshnessChart devs infos t) = map (\<lambda>l. int (g l)) ls"
    by (rule exI, rule exI) (rule f [THEN conjunct2, THEN conjunct2, THEN conjunct1])
  then show "list_all (\<lambda>v. v \<ge> 0) (ch_values (buildDeviceInfoFreshnessChart devs infos t))" by (auto simp: list_all_iff)
qed

lemma audit_bars: "0 \<le> ch_total (buildOverviewChart cal es t days) \<and> ch_total (buildOverviewChart cal es t days) \<le> int (length es)"
  using count_days_total [of "days_chart cal t days ''Audit activity, last 7 days'' ''No audit activity in the last 7 days.''"
      "window_start cal t (window_days days)" t "map (\<lambda>e. Some (evt_created e)) es"]
  by (simp add: buildOverviewChart_def days_chart_shape)

text \<open>
  The figures of the overview fit together: the acknowledged, open and failed commands are among the recent
  ones, of which there are at most 50; the rates are percentages; no more active devices are fresh or stale than there
  are devices, or active devices; and the chart of the last seven days of audit activity never counts more than the five
  events that the page loads.
\<close>

theorem overview_figures:
  assumes "load_overview tn t w = (Inr n, w')"
  defines "oc \<equiv> on_commands n"
    and "freshness \<equiv> buildDeviceInfoFreshnessChart (on_active n) (on_infos n) t"
  shows "0 \<le> oc_acked oc \<and> 0 \<le> oc_sent oc \<and> 0 \<le> oc_failed oc \<and> oc_acked oc + oc_sent oc + oc_failed oc \<le> oc_total oc \<and> oc_total oc \<le> 50 \<and>
    segmentWidthPercent (oc_acked oc) (oc_total oc) \<in> {0..100} \<and>
    segmentWidthPercent (recent_value (ch_labels freshness) (ch_values freshness)) (ov_total (on_devices n)) \<in> {0..100} \<and>
    ch_total freshness \<le> ov_total (on_devices n) \<and>
    countStaleActiveDevices (on_active n) (on_infos n) t threshold \<in> {0..ov_active (on_devices n)} \<and>
    ch_total (buildOverviewChart cal (on_events n) t 7) \<in> {0..5}"
proof -
  let ?rs = "filter (in_tenant tn) (devices (db w))"
  have f: "fst (load_overview tn t w) = Inr n" using assms(1) by simp
  note facts = post_fst_Inr [OF loaded f]
  have c: "0 \<le> oc_acked oc" "0 \<le> oc_sent oc" "0 \<le> oc_failed oc" "oc_acked oc + oc_sent oc + oc_failed oc \<le> oc_total oc" "oc_total oc \<le> 50"
    unfolding oc_def using facts by blast+
  have act: "on_active n = map (device_view (db w)) (oldest_first (filter (\<lambda>r. in_tenant tn r \<and> rec_status r \<in> {StatusActive, StatusEnrolled}) (devices (db w))))"
    and tot: "ov_total (on_devices n) = int (length ?rs)" "ov_active (on_devices n) = count_rows (\<lambda>r. rec_status r = StatusActive) ?rs"
    and ev: "length (on_events n) \<le> 5"
    using facts by blast+
  have pct: "segmentWidthPercent a b \<in> {0..100}" if "0 \<le> a" "a \<le> b" for a b
    using percent_bounds [of a b] that by (simp add: segmentWidthPercent_def)
  have len: "length (on_active n) \<le> length ?rs" unfolding act by (rule active_listed)
  have total: "ch_total freshness = int (length (on_active n))" "list_all (\<lambda>v. v \<ge> 0) (ch_values freshness)"
      "sum_list (ch_values freshness) = ch_total freshness"
    unfolding freshness_def by (rule freshness_bars)+
  have rec: "0 \<le> recent_value (ch_labels freshness) (ch_values freshness)"
      "recent_value (ch_labels freshness) (ch_values freshness) \<le> ov_total (on_devices n)"
    using recent_value_bounds [OF total(2), of "ch_labels freshness"] total(1,3) len tot(1) by simp_all
  have "countStaleActiveDevices (on_active n) (on_infos n) t threshold \<le> ov_active (on_devices n)"
    unfolding act tot(2) by (rule stale_active)
  moreover have "countStaleActiveDevices (on_active n) (on_infos n) t threshold \<ge> 0"
    by (simp add: countStaleActiveDevices_def Let_def)
  moreover have "ch_total (buildOverviewChart cal (on_events n) t 7) \<in> {0..5}"
    using audit_bars [of cal "on_events n" t 7] ev by simp
  moreover have "segmentWidthPercent (oc_acked oc) (oc_total oc) \<in> {0..100}" using c by (intro pct) simp_all
  moreover have "segmentWidthPercent (recent_value (ch_labels freshness) (ch_values freshness)) (ov_total (on_devices n)) \<in> {0..100}"
    using rec by (rule pct)
  ultimately show ?thesis using c total(1) len tot(1) by simp
qed

theorem overview_figures_witness:
  "\<exists>n w'. load_overview ''t'' 5 (world_of (empty_database\<lparr>devices := [sample_device ''d'' StatusActive ''h'', sample_device ''e'' StatusRetired ''h''],
      commands := [sample_command ''c'' ''d'' StatusAcked None, sample_command ''x'' ''d'' StatusSent None]\<rparr>)) = (Inr n, w') \<and>
    oc_acked (on_commands n) = 1 \<and> oc_total (on_commands n) = 2 \<and> ov_total (on_devices n) = 2 \<and>
    segmentWidthPercent (oc_acked (on_commands n)) (oc_total (on_commands n)) \<in> {0..100} \<and>
    countStaleActiveDevices (on_active n) (on_infos n) 5 (hours 72) \<in> {0..ov_active (on_devices n)}"
proof -
  let ?w = "world_of (empty_database\<lparr>devices := [sample_device ''d'' StatusActive ''h'', sample_device ''e'' StatusRetired ''h''],
      commands := [sample_command ''c'' ''d'' StatusAcked None, sample_command ''x'' ''d'' StatusSent None]\<rparr>)"
  have "(case fst (load_overview ''t'' 5 ?w) of Inl _ \<Rightarrow> False
      | Inr n \<Rightarrow> oc_acked (on_commands n) = 1 \<and> oc_total (on_commands n) = 2 \<and> ov_total (on_devices n) = 2)" by code_simp
  then obtain n where n: "fst (load_overview ''t'' 5 ?w) = Inr n"
      "oc_acked (on_commands n) = 1" "oc_total (on_commands n) = 2" "ov_total (on_devices n) = 2"
    by (auto split: sum.splits)
  then have "load_overview ''t'' 5 ?w = (Inr n, snd (load_overview ''t'' 5 ?w))" by (metis prod.collapse)
  with overview_figures [OF this] n show ?thesis by blast
qed

end
