(* ===== verification/DashboardPages.thy ===== *)
theory DashboardPages
  imports Overview DashboardFlows
begin

text \<open>
  The pages of the dashboard and their addresses (\<open>RegisterDashboard\<close> in \<open>admin/http/dashboard.go\<close>): what showing a
  page can change.
\<close>

section \<open>The pages\<close>

text \<open>The patterns of the router for the pages that only show; the other routes are in \<open>Login\<close>, \<open>Dashboard\<close> and \<open>DashboardAssets\<close>.\<close>

definition dashboard_pages :: "site \<Rightarrow> overview_env \<Rightarrow> page_request \<Rightarrow> (string \<times> view handler) list" where
  "dashboard_pages s e q =
     [(''/admin'', overview s e q),
      (''/admin/users'', detail_page s q ''Users'' (users_page s q)),
      (''/admin/users/{id}'', detail_page s q ''User Detail'' (user_page s q)),
      (''/admin/roles'', list_page s q ''Roles'' (roles_page s q)),
      (''/admin/roles/{id}'', detail_page s q ''Role Detail'' (role_page s q)),
      (''/admin/groups'', list_page s q ''Groups'' (groups_page s q)),
      (''/admin/groups/{id}'', detail_page s q ''Group Detail'' (group_page s q)),
      (''/admin/policies'', list_page s q ''Policies'' (policies_page s q)),
      (''/admin/policies/{id}'', detail_page s q ''Policy Detail'' (policy_page s q)),
      (''/admin/devices'', list_page s q ''Devices'' (devices_page s q)),
      (''/admin/devices/{id}'', detail_page s q ''Device Detail'' (device_page s q)),
      (''/admin/apps'', list_page s q ''Apps'' (apps_page s q)),
      (''/admin/apps/{id}'', detail_page s q ''App Detail'' (app_page s q)),
      (''/admin/managed-files'', list_page s q ''Managed Files'' (managed_files_page s q)),
      (''/admin/managed-files/{id}'', detail_page s q ''Managed File Detail'' (managed_file_page s q)),
      (''/admin/certificates'', list_page s q ''Certificates'' (certificates_page s q)),
      (''/admin/certificates/{id}'', detail_page s q ''Certificate Detail'' (certificate_page s q)),
      (''/admin/commands'', list_page s q ''Commands'' (commands_page s q)),
      (''/admin/commands/{id}'', command_page s q),
      (''/admin/audit'', list_page s q ''Audit'' (audit_page s q))]"

context read_frame begin

lemma read_overview: "frames g (overview_page s e ses)"
  unfolding overview_page_def load_overview_def GetOverviewStats_def policy_GetOverviewStats_def apps_GetOverviewStats_def
    managedfiles_GetOverviewStats_def certificates_GetOverviewStats_def commands_GetOverviewStats_def CountSince_def
    GetStatusCounts_def Let_def
  by (intro frames_intros)

lemma quiet_overview: "quiet (overview s e q)"
  unfolding overview_def by (intro quiet_pages read_overview)

end

context device_frame begin

lemma quiet_all: "list_all (\<lambda>(path, h). quiet h) (dashboard_pages s e q)"
  by (simp add: dashboard_pages_def quiet_overview quiet_pages quiet_command read_pages read_device)

end

lemma lasting_pages: "list_all (\<lambda>(path, h). path = ''/admin/devices/{id}'' \<or> lasting_r.quiet h) (dashboard_pages s e q)"
  by (simp add: dashboard_pages_def lasting_r.quiet_overview lasting_r.quiet_pages lasting_r.quiet_command lasting_r.read_pages)


definition plain_site :: site where
  "plain_site = \<lparr>st_dash = plain_dashboard,
     st_formats = \<lparr>local_time = \<lambda>_. ''now'', decode_json = \<lambda>_. None, decimal_text = \<lambda>s. s, marshal_indent = \<lambda>_. None\<rparr>,
     st_float = \<lambda>_. None, st_stored = \<lambda>_. [], st_plugins = None,
     st_runtime = \<lparr>rt_mqtt_address = [], rt_poll_interval = 0, rt_sync_interval = 0\<rparr>\<rparr>"

definition plain_overview :: overview_env where
  "plain_overview = \<lparr>oe_calendar = \<lparr>window_start = \<lambda>t days. t - days * hours 24, day_label = \<lambda>_ _ _. ''day''\<rparr>,
     oe_probes = (Answers, Absent, Fails), oe_coord = \<lambda>_. ''0.0''\<rparr>"


end
