(* ===== verification/CommandTyping.thy ===== *)
theory CommandTyping
  imports Lifecycle
begin

text \<open>
  The type of the rows of the commands (\<open>commands/model.go\<close>), and that every operation of \<open>Lifecycle\<close> keeps it.
\<close>

text \<open>
  What a row of the commands may look like: one of five states, with the time of the acknowledgement set exactly in
  the two acknowledged ones, and a result only with it. (The code knows a sixth state, \<open>delivered\<close>, that no
  operation sets.)
\<close>

definition command_typed :: "command_row \<Rightarrow> bool" where
  "command_typed c \<longleftrightarrow> cmd_status c \<in> {StatusQueued, StatusSent, StatusAcked, StatusFailed, StatusExpired} \<and>
     (cmd_acked c \<noteq> None \<longleftrightarrow> cmd_status c \<in> {StatusAcked, StatusFailed}) \<and>
     (cmd_acked c = None \<longrightarrow> cmd_result c = [])"

definition commands_typed :: "database \<Rightarrow> bool" where
  "commands_typed d \<longleftrightarrow> list_all command_typed (commands d)"

section \<open>Statements\<close>

named_theorems typed_stmts \<open>statements that keep commands well-typed\<close>

lemma typed_same: "commands d' = commands d \<Longrightarrow> commands_typed d' = commands_typed d"
  by (simp add: commands_typed_def)

lemma typed_insert [typed_stmts]:
  "(\<And>f d. commands (put f d) = commands d) \<Longrightarrow> stmt_keeps commands_typed (insert_row put uniq refs mk)"
  by (auto simp: stmt_keeps_def insert_row_def insert_into_def commands_typed_def split: if_splits)

lemma typed_update [typed_stmts]:
  "(\<And>f d. commands (put f d) = commands d) \<Longrightarrow> stmt_keeps commands_typed (update_rows get put chk p f)"
  by (auto simp: stmt_keeps_def update_rows_def commands_typed_def split: option.splits if_splits)

lemma typed_delete [typed_stmts]:
  "(\<And>f d. commands (put f d) = commands d) \<Longrightarrow> stmt_keeps commands_typed (delete_rows get put p)"
  by (auto simp: stmt_keeps_def delete_rows_def commands_typed_def)

lemma typed_rewrite:
  assumes "\<And>c. command_typed c \<Longrightarrow> p c \<Longrightarrow> command_typed (f c)"
  shows "stmt_keeps commands_typed (update_rows commands commands_update chk p f)"
proof -
  have "list_all command_typed (upd_where p f cs)" if "list_all command_typed cs" for cs
    using that assms by (induction cs) (simp_all add: upd_where_def)
  then show ?thesis by (auto simp: stmt_keeps_def update_rows_def commands_typed_def split: option.splits if_splits)
qed

lemma typed_other [simp]:
  "commands (devices_update f1 d) = commands d" "commands (groups_update f2 d) = commands d"
  "commands (device_groups_update f3 d) = commands d" "commands (enrollment_tokens_update f4 d) = commands d"
  "commands (policies_update f5 d) = commands d" "commands (apps_update f6 d) = commands d"
  "commands (app_versions_update f7 d) = commands d" "commands (device_logs_update f8 d) = commands d"
  "commands (device_info_update f9 d) = commands d" "commands (device_telemetry_update f10 d) = commands d"
  by simp_all

section \<open>Operations\<close>

lemma typed_tokens [keeps_intros]:
  "keeps commands_typed (loadTokenByHashForUpdate tn h)" "keeps commands_typed (loadTokenByIDForUpdate tn i)"
  "keeps commands_typed (loadDeviceStatusByTenantAndDeviceIDForUpdate tn i)" "keeps commands_typed (updateToken k)"
  unfolding loadTokenByHashForUpdate_def loadTokenByIDForUpdate_def loadDeviceStatusByTenantAndDeviceIDForUpdate_def updateToken_def update_token_def
  by (intro keeps_intros typed_stmts; simp)+

lemma typed_tokens2 [keeps_intros]:
  "keeps commands_typed (expire_and_fail k t)"
  "keeps commands_typed (commit_or_disable i)"
  unfolding  expire_and_fail_def commit_or_disable_def
  by (intro keeps_intros typed_stmts; simp)+

lemma typed_inspectToken: "keeps commands_typed (inspectToken tn s c)"
  unfolding inspectToken_def Let_def by (intro keeps_intros typed_stmts)

lemma typed_RevokeToken: "keeps commands_typed (RevokeToken tn i)"
  unfolding RevokeToken_def Let_def by (intro keeps_intros typed_stmts)

lemma typed_BindDevice: "keeps commands_typed (BindDevice tn s i x)"
  unfolding BindDevice_def bind_device_row_def by (intro keeps_intros typed_stmts; simp)

lemma typed_IssueToken: "keeps commands_typed (IssueToken tn t)"
  unfolding IssueToken_def insert_token_def Let_def by (intro keeps_intros typed_stmts; simp)

lemma typed_ExpireTokens: "keeps commands_typed (ExpireTokens t)"
  unfolding ExpireTokens_def by (intro keeps_intros typed_stmts; simp)

lemma typed_case_option: "keeps P m \<Longrightarrow> (\<And>x. keeps P (f x)) \<Longrightarrow> keeps P (case y of None \<Rightarrow> m | Some x \<Rightarrow> f x)"
  by (cases y) simp_all

lemma typed_insert_log [typed_stmts]: "stmt_keeps commands_typed (insert_log r)"
  by (auto simp: stmt_keeps_def insert_log_def insert_row_def insert_into_def commands_typed_def split: if_splits)

lemma typed_insertLog [keeps_intros]: "keeps commands_typed (insertLog tn i t l e)"
  unfolding insertLog_def Let_def by (intro keeps_intros typed_stmts typed_case_option)

lemma typed_ingest [keeps_intros]:
  "keeps commands_typed (loadDeviceForSecret tn i s)" "keeps commands_typed (deviceinfo_loadDeviceForSecret tn i s)"
  "keeps commands_typed (telemetry_loadDeviceForSecret tn i s)" "keeps commands_typed (touch_device r t)"
  "keeps commands_typed (insertDeviceInfo tn i j t ireq)"
  unfolding loadDeviceForSecret_def deviceinfo_loadDeviceForSecret_def telemetry_loadDeviceForSecret_def touch_device_def
    insertDeviceInfo_def insert_info_def Let_def
  by (intro keeps_intros typed_stmts; simp)+

lemma typed_logs: "keeps commands_typed (logs_Upload tn i s lreq)" "keeps commands_typed (deviceinfo_Upload tn i s ireq)"
  unfolding logs_Upload_def deviceinfo_Upload_def by (intro keeps_intros typed_stmts)+

lemma typed_telemetry: "keeps commands_typed (telemetry_Upload tn i s treq)"
  by (cases "buildPayload treq") (auto simp: telemetry_Upload_def insert_info_def Let_def intro!: keeps_intros typed_stmts)

lemma typed_policies: "keeps commands_typed (CreatePolicy tn req)" "keeps commands_typed (UpdatePolicy tn i req)" "keeps commands_typed (RetirePolicy tn i)"
  unfolding CreatePolicy_def UpdatePolicy_def RetirePolicy_def insert_policy_def update_policy_def retire_by_id_def Let_def
  by (intro keeps_intros typed_stmts; simp)+

lemma typed_bindings:
  assumes "\<And>f d. commands (put f d) = commands d"
  shows "keeps commands_typed (add_binding get put items tn pid item)" "keeps commands_typed (remove_binding get put tn pid item)"
proof -
  have "stmt_keeps commands_typed (upsert_binding get put refs tn pid item i t)" for refs i t
    using assms by (auto simp: stmt_keeps_def upsert_binding_def insert_row_def insert_into_def commands_typed_def split: if_splits)
  then show "keeps commands_typed (add_binding get put items tn pid item)" unfolding add_binding_def by (intro keeps_intros)
  show "keeps commands_typed (remove_binding get put tn pid item)"
    unfolding remove_binding_def by (intro keeps_intros typed_stmts assms)
qed

lemma typed_expired: "command_typed c \<Longrightarrow> due t c \<Longrightarrow> command_typed (set_expired t' c)"
  by (auto simp: command_typed_def due_def set_expired_def pending_status_def command_statuses)

lemma typed_acked:
  "command_typed c \<Longrightarrow> st = StatusAcked \<or> st = StatusFailed \<Longrightarrow>
    command_typed (c\<lparr>cmd_status := st, cmd_acked := Some t, cmd_result := r, cmd_updated := t'\<rparr>)"
  by (auto simp: command_typed_def)

lemma typed_publish [keeps_intros]: "keeps commands_typed (publish_all cs)"
proof (induction cs)
  case (Cons c cs)
  then show ?case
    unfolding publish_all.simps markSent_def
    by (intro keeps_intros typed_rewrite) (auto simp: command_typed_def command_statuses StatusFailed_def)
qed (simp add: keeps_intros)

lemma typed_new: "stmt_keeps commands_typed (insert_command tn i dev req payload t)"
  by (auto simp: stmt_keeps_def insert_command_eq commands_typed_def command_typed_def command_statuses StatusFailed_def Let_def split: if_splits)

lemma typed_commands: "keeps commands_typed (Enqueue tn creq)" "keeps commands_typed (ListPending tn i page)" "keeps commands_typed (ExpireDueCommands tn)"
  "keeps commands_typed (Acknowledge tn i j areq)"
proof -
  show "keeps commands_typed (Enqueue tn creq)"
    unfolding Enqueue_def Let_def by (intro keeps_intros typed_new)
  show "keeps commands_typed (ListPending tn i page)"
    unfolding ListPending_def expireDueCommands_def by (intro keeps_intros typed_rewrite) (auto intro: typed_expired)
  show "keeps commands_typed (ExpireDueCommands tn)"
    unfolding ExpireDueCommands_def by (intro keeps_intros typed_rewrite) (auto intro: typed_expired)
  show "keeps commands_typed (Acknowledge tn i j areq)"
    unfolding Acknowledge_def expireDueCommand_def commandForDevice_def ack_update_def
    by (intro keeps_intros typed_rewrite) (auto intro: typed_expired typed_acked)
qed

lemma typed_apps: "keeps commands_typed (UpsertSystemOwnedApp tn up)" "keeps commands_typed (CreateApp tn up)" "keeps commands_typed (UpdateApp tn i up)"
  "keeps commands_typed (RetireApp tn i)"
  unfolding UpsertSystemOwnedApp_def CreateApp_def UpdateApp_def RetireApp_def insert_app_def update_app_def
  by (intro keeps_intros typed_stmts; simp)+

lemma typed_version: "keeps commands_typed (CreateVersion tn i ver)"
proof -
  have "keeps commands_typed (check_artifact tn ver)"
    unfolding check_artifact_def by (cases "vu_artifact ver") (auto intro!: keeps_intros)
  then show ?thesis unfolding CreateVersion_def insert_version_def
  by (intro keeps_intros typed_stmts; simp)
qed

lemma typed_device_ops:
  "keeps commands_typed (CreateDevice tn dreq)" "keeps commands_typed (UpdateDevice tn i dreq)"
  "keeps commands_typed (CreateGroup tn name)" "keeps commands_typed (UpdateGroup tn i name)" "keeps commands_typed (RetireGroup tn i)"
  unfolding device_ops group_ops insert_device_def insert_membership_def update_device_def delete_memberships_def
    insert_group_def retire_by_id_def Let_def
  by (intro keeps_intros typed_stmts; simp)+

lemma typed_retire: "keeps commands_typed (RetireDevice tn i)"
  unfolding RetireDevice_def
  by (intro keeps_intros) (auto simp: stmt_keeps_def commands_typed_def)

section \<open>Every step\<close>

lemma typed_step:
  assumes "store_step w w'" "holds commands_typed w"
  shows "holds commands_typed w'"
proof -
  have run: "holds commands_typed (snd (m w))" if "keeps commands_typed m" for m :: "'z action"
    using that assms(2) by (rule keepsD)
  have bind: "keeps commands_typed (AddPolicyApp tn i j)" "keeps commands_typed (RemovePolicyApp tn i j)"
    "keeps commands_typed (AddPolicyCertificate tn i j)" "keeps commands_typed (RemovePolicyCertificate tn i j)"
    "keeps commands_typed (AddPolicyManagedFile tn i j)" "keeps commands_typed (RemovePolicyManagedFile tn i j)" for tn i j
    unfolding AddPolicyApp_def RemovePolicyApp_def AddPolicyCertificate_def RemovePolicyCertificate_def
      AddPolicyManagedFile_def RemovePolicyManagedFile_def
    by (rule typed_bindings, simp)+
  note all = typed_device_ops typed_retire typed_inspectToken typed_RevokeToken typed_BindDevice typed_IssueToken typed_ExpireTokens
    typed_commands typed_logs typed_telemetry typed_policies bind typed_apps typed_version
  from assms(1) show ?thesis
    by cases (simp_all only: ValidateToken_def ConsumeToken_def all run)
qed

text \<open>
  C29: Commands stay well-typed: in every world that any sequence of store operations reaches, whichever of their
  statements fail, each command is queued, sent, acked, failed or expired, has a time of acknowledgement if and only if
  it is acked or failed, and no result before that.
\<close>

theorem commands_stay_typed:
  assumes "store_reach w0 w" "txn w0 = None" "commands_typed (db w0)"
  shows "commands_typed (db w)"
proof -
  have "holds commands_typed w"
    using assms(1)
  proof (induction rule: store_reach.induct)
    case start
    then show ?case using assms(2,3) by (simp add: holds_def)
  next
    case (step w w')
    then show ?case by (blast intro: typed_step)
  qed
  then show ?thesis by (simp add: holds_def)
qed

theorem commands_stay_typed_witness:
  "commands_typed (db (snd (Acknowledge ''t'' ''d'' ''c'' sample_ack
     (world_of (empty_database\<lparr>commands := [sample_command ''c'' ''d'' StatusSent None]\<rparr>)))))"
proof -
  let ?w = "world_of (empty_database\<lparr>commands := [sample_command ''c'' ''d'' StatusSent None]\<rparr>)"
  have reach: "store_reach ?w (snd (Acknowledge ''t'' ''d'' ''c'' sample_ack ?w))"
    by (rule store_reach.step [OF store_reach.start store_step.acknowledge])
  have typed: "commands_typed (db ?w)" by code_simp
  show ?thesis by (rule commands_stay_typed [OF reach _ typed]) (simp add: world_of_def)
qed

end
