(* ===== verification/Observability.thy ===== *)
theory Observability
  imports Web Snapshot
begin

text \<open>
  The handler around all handlers (\<open>observability/observability.go\<close>): the identifiers of a request, the routes under
  which requests are counted, and the page of the metrics.
\<close>

section \<open>Routes\<close>

text \<open>Identifiers are taken out of the paths under which requests are counted and logged.\<close>

definition shouldRedactSegment :: "string \<Rightarrow> string \<Rightarrow> bool" where
  "shouldRedactSegment current following \<longleftrightarrow>
     current \<in> set [''devices'', ''apps'', ''versions'', ''certificates'', ''managed-files'', ''commands'', ''files'', ''groups'',
        ''users'', ''roles'', ''policies'', ''logs'', ''info''] \<and>
     following \<noteq> [] \<and>
     following \<notin> set [''ack'', ''artifact'', ''config'', ''telemetry'', ''login'', ''logout'', ''me'', ''tokens'', ''validate'', ''consume'']"

function redact :: "string list \<Rightarrow> string list" where
  "redact [] = []"
| "redact [p] = [p]"
| "redact (p # q # ps) = p # redact ((if shouldRedactSegment p q then ''{id}'' else q) # ps)"
  by pat_completeness auto
termination by (relation "measure length") auto

definition normalizeRoute :: "string \<Rightarrow> string" where
  "normalizeRoute path = (case split_slash path of [] \<Rightarrow> path | p # ps \<Rightarrow> joined ''/'' (p # redact ps))"

section \<open>Identifiers\<close>

text \<open>\<open>hex.DecodeString\<close> succeeds.\<close>

definition is_hex_char :: "char \<Rightarrow> bool" where
  "is_hex_char c \<longleftrightarrow> between 48 57 c \<or> between 65 70 c \<or> between 97 102 c"

definition isHex :: "string \<Rightarrow> bool" where
  "isHex value \<longleftrightarrow> even (length value) \<and> list_all is_hex_char value"

text \<open>\<open>strings.Split(value, "-")\<close>.\<close>

fun split_dash :: "string \<Rightarrow> string list" where
  "split_dash [] = [[]]"
| "split_dash (c # s) = (if c = CHR ''-'' then [] # split_dash s
     else case split_dash s of [] \<Rightarrow> [[c]] | p # ps \<Rightarrow> (c # p) # ps)"

definition requestIDFromHeader :: "string \<Rightarrow> string" where
  "requestIDFromHeader value = TrimSpace value"

definition traceContextFromHeader :: "string \<Rightarrow> string \<times> string" where
  "traceContextFromHeader value =
     (let value = TrimSpace value; parts = split_dash value in
      if value = [] then ([], [])
      else if length parts < 4 then ([], [])
      else let traceID = TrimSpace (parts ! 1); spanID = TrimSpace (parts ! 2) in
        if length traceID \<noteq> 32 \<or> length spanID \<noteq> 16 then ([], [])
        else if \<not> isHex traceID \<or> \<not> isHex spanID then ([], [])
        else (traceID, spanID))"

text \<open>Random bytes as text; nothing when there are none.\<close>

definition newID :: "string option \<Rightarrow> string" where
  "newID bytes = (case bytes of None \<Rightarrow> []
     | Some bs \<Rightarrow> concat (map (\<lambda>c. [hex_digit (byte c div 16), hex_digit (byte c mod 16)]) bs))"

section \<open>Metrics\<close>

text \<open>Durations are in nanoseconds. Comparing their \<open>Seconds()\<close> with a bound is comparing the nanoseconds.\<close>

record metric_key =
  mk_method :: string
  mk_route :: string
  mk_status :: string

record metric_series =
  se_count :: int
  se_sum :: int
  se_buckets :: "int list"

type_synonym metrics = "(metric_key \<times> metric_series) list"

definition durationBuckets :: "(string \<times> int) list" where
  "durationBuckets = [(''0.005'', 5000000), (''0.01'', 10000000), (''0.025'', 25000000), (''0.05'', 50000000), (''0.1'', 100000000),
     (''0.25'', 250000000), (''0.5'', 500000000), (''1'', 1000000000), (''2'', 2000000000), (''5'', 5000000000)]"

definition empty_series :: metric_series where
  "empty_series = \<lparr>se_count = 0, se_sum = 0, se_buckets = replicate (length durationBuckets) 0\<rparr>"

definition observe :: "int \<Rightarrow> metric_series \<Rightarrow> metric_series" where
  "observe d s = s\<lparr>se_count := se_count s + 1, se_sum := se_sum s + d,
     se_buckets := map (\<lambda>(n, b). if d \<le> b then n + 1 else n) (zip (se_buckets s) (map snd durationBuckets))\<rparr>"

fun record_in :: "metric_key \<Rightarrow> int \<Rightarrow> metrics \<Rightarrow> metrics" where
  "record_in k d [] = [(k, observe d empty_series)]"
| "record_in k d ((k', s) # ms) = (if k' = k then (k', observe d s) # ms else (k', s) # record_in k d ms)"

definition record_request :: "string \<Rightarrow> string \<Rightarrow> nat \<Rightarrow> int \<Rightarrow> metrics \<Rightarrow> metrics" where
  "record_request method route st d ms = record_in \<lparr>mk_method = method, mk_route = route, mk_status = format_nat st\<rparr> d ms"

text \<open>
  The lines of the metrics page. \<open>seconds\<close> is \<open>%.6f\<close> of a sum in seconds; the metrics are a Go map, in the order in which the
  loops meet its entries.
\<close>

record metric_line =
  ml_key :: metric_key
  ml_kind :: string
  ml_le :: string
  ml_value :: int

fun running :: "int \<Rightarrow> int list \<Rightarrow> int list" where
  "running acc [] = []"
| "running acc (n # ns) = (acc + n) # running (acc + n) ns"

definition series_lines :: "metric_key \<times> metric_series \<Rightarrow> metric_line list" where
  "series_lines e = (case e of (k, s) \<Rightarrow>
     [\<lparr>ml_key = k, ml_kind = ''count'', ml_le = [], ml_value = se_count s\<rparr>,
      \<lparr>ml_key = k, ml_kind = ''sum'', ml_le = [], ml_value = se_sum s\<rparr>] @
     map (\<lambda>(le, n). \<lparr>ml_key = k, ml_kind = ''bucket'', ml_le = le, ml_value = n\<rparr>)
       (zip (map fst durationBuckets) (running 0 (se_buckets s))) @
     [\<lparr>ml_key = k, ml_kind = ''bucket'', ml_le = ''+Inf'', ml_value = se_count s\<rparr>])"

definition line_order :: "metric_line \<Rightarrow> string \<times> string \<times> string \<times> string \<times> string" where
  "line_order l = (mk_method (ml_key l), mk_route (ml_key l), mk_status (ml_key l), ml_kind l, ml_le l)"

definition labels_text :: "metric_key \<Rightarrow> string" where
  \<open>labels_text k = ''method="'' @ mk_method k @ ''",route="'' @ mk_route k @ ''",status="'' @ mk_status k @ ''"''\<close>

definition line_text :: "(int \<Rightarrow> string) \<Rightarrow> metric_line \<Rightarrow> string" where
  \<open>line_text seconds l = (let labels = labels_text (ml_key l) in
     if ml_kind l = ''count'' then ''xmdm_http_requests_total{'' @ labels @ ''} '' @ FormatInt (ml_value l) @ [CHR 0x0A]
     else if ml_kind l = ''sum'' then ''xmdm_http_request_duration_seconds_sum{'' @ labels @ ''} '' @ seconds (ml_value l) @ [CHR 0x0A]
     else ''xmdm_http_request_duration_seconds_bucket{'' @ labels @ '',le="'' @ ml_le l @ ''"} '' @ FormatInt (ml_value l) @ [CHR 0x0A])\<close>

definition serveMetrics :: "(int \<Rightarrow> string) \<Rightarrow> metrics \<Rightarrow> string" where
  "serveMetrics seconds ms =
     ''# HELP xmdm_http_request_duration_seconds Request duration histogram.'' @ [CHR 0x0A] @
     ''# TYPE xmdm_http_request_duration_seconds histogram'' @ [CHR 0x0A] @
     ''# HELP xmdm_http_requests_total Total HTTP requests handled by XMDM.'' @ [CHR 0x0A] @
     ''# TYPE xmdm_http_requests_total counter'' @ [CHR 0x0A] @
     concat (map (line_text seconds) (sort_key line_order (concat (map series_lines ms)))) @
     concat (map (\<lambda>(k, s). ''xmdm_http_request_duration_seconds_count{'' @ labels_text k @ ''} '' @ FormatInt (se_count s) @ [CHR 0x0A]) ms)"

section \<open>The handler\<close>

text \<open>
  A request with the headers the handler reads; what it makes of it: the headers it sets, and one of the page that says
  that the server runs, the metrics, or the answer of the handlers behind it with its line in the log.
\<close>

record observed_request =
  ob_method :: string
  ob_path :: string
  ob_request_id :: string
  ob_traceparent :: string

record trace_headers =
  th_request_id :: string
  th_traceparent :: string
  th_parent :: string

datatype observed = Healthy | Metrics string | Passed nat "(string \<times> string \<times> string \<times> string \<times> nat \<times> int) option"

text \<open>
  \<open>ids\<close> are the random bytes of the three identifiers, as far as they are needed; \<open>statuses\<close> the statuses the handler behind
  writes, in their order; \<open>d\<close> how long it takes.
\<close>

definition observe_request ::
  "bool \<Rightarrow> (int \<Rightarrow> string) \<Rightarrow> (string option \<times> string option \<times> string option) \<Rightarrow> nat list \<Rightarrow> int \<Rightarrow>
   observed_request \<Rightarrow> metrics \<Rightarrow> trace_headers \<times> observed \<times> metrics" where
  "observe_request quiet seconds ids statuses d r ms =
     (let (id_bytes, trace_bytes, span_bytes) = ids;
          given = requestIDFromHeader (ob_request_id r);
          requestID = (if given = [] then newID id_bytes else given);
          (trace, parent) = traceContextFromHeader (ob_traceparent r);
          traceID = (if trace = [] then newID trace_bytes else trace);
          headers = \<lparr>th_request_id = requestID, th_traceparent = ''00-'' @ traceID @ ''-'' @ newID span_bytes @ ''-01'', th_parent = parent\<rparr>
      in if ob_method r = ''GET'' \<and> ob_path r = ''/health'' then (headers, Healthy, ms)
         else if ob_method r = ''GET'' \<and> ob_path r = ''/metrics'' then (headers, Metrics (serveMetrics seconds ms), ms)
         else let st = last (200 # statuses); route = normalizeRoute (ob_path r)
           in (headers, Passed st (if quiet then None else Some (requestID, traceID, ob_method r, route, st, d)),
               record_request (ob_method r) route st d ms))"

section \<open>Identifiers stay out of the routes\<close>

lemma split_slash_nonempty: "split_slash s \<noteq> []"
  by (induction s) (auto split: list.split)

lemma split_slash_append: "CHR ''/'' \<notin> set p \<Longrightarrow> split_slash (p @ CHR ''/'' # s) = p # split_slash s"
  by (induction p) auto

lemma split_slash_single: "CHR ''/'' \<notin> set p \<Longrightarrow> split_slash p = [p]"
  by (induction p) auto

lemma split_joined:
  "ps \<noteq> [] \<Longrightarrow> list_all (\<lambda>p. CHR ''/'' \<notin> set p) ps \<Longrightarrow> split_slash (joined ''/'' ps) = ps"
  by (induction "''/''" ps rule: joined.induct) (simp_all add: split_slash_single split_slash_append)

lemma redact_shape: "redact ps \<noteq> [] \<longleftrightarrow> ps \<noteq> []" "list_all (\<lambda>p. CHR ''/'' \<notin> set p) ps \<Longrightarrow> list_all (\<lambda>p. CHR ''/'' \<notin> set p) (redact ps)"
  by (induction ps rule: redact.induct) auto

lemma redact_hd: "ps \<noteq> [] \<Longrightarrow> hd (redact ps) = hd ps"
  by (induction ps rule: redact.induct) auto

text \<open>A relation between neighbours, and that an identifier after the name of a collection is hidden.\<close>

fun adjacent :: "('a \<Rightarrow> 'a \<Rightarrow> bool) \<Rightarrow> 'a list \<Rightarrow> bool" where
  "adjacent r (p # q # ps) \<longleftrightarrow> r p q \<and> adjacent r (q # ps)"
| "adjacent r _ \<longleftrightarrow> True"

lemma adjacent_Cons: "adjacent r (p # ps) \<longleftrightarrow> (ps \<noteq> [] \<longrightarrow> r p (hd ps)) \<and> adjacent r ps"
  by (cases ps) auto

definition hidden :: "string \<Rightarrow> string \<Rightarrow> bool" where
  "hidden p q \<longleftrightarrow> shouldRedactSegment p q \<longrightarrow> q = ''{id}''"

lemma redact_hidden: "adjacent hidden (redact ps)"
proof (induction ps rule: redact.induct)
  case (3 p q ps)
  then show ?case using redact_hd [of "(if shouldRedactSegment p q then ''{id}'' else q) # ps"]
    by (auto simp: adjacent_Cons hidden_def)
qed simp_all

lemma redact_id: "adjacent hidden ps \<Longrightarrow> redact ps = ps"
  by (induction ps rule: redact.induct) (auto simp: hidden_def)

lemma normalized_split:
  obtains p ps where "split_slash path = p # ps" "split_slash (normalizeRoute path) = p # redact ps"
proof -
  obtain p ps where s: "split_slash path = p # ps" using split_slash_nonempty by (cases "split_slash path") auto
  then have "list_all (\<lambda>p. CHR ''/'' \<notin> set p) (p # ps)" using split_slash_plain [of _ path] by (auto simp: list_all_iff)
  then have "list_all (\<lambda>p. CHR ''/'' \<notin> set p) (p # redact ps)" using redact_shape(2) by simp
  with s have "split_slash (normalizeRoute path) = p # redact ps"
    by (simp add: normalizeRoute_def split_joined)
  with s that show thesis by blast
qed

text \<open>
  The routes under which requests are counted hide identifiers: in a normalized path no segment that follows the name of
  a collection is an identifier any more, words that are part of a route excepted; and normalizing again changes
  nothing, so the redaction does not depend on how often it is done.
\<close>

theorem routes_hide_ids:
  "adjacent hidden (tl (split_slash (normalizeRoute path))) \<and> normalizeRoute (normalizeRoute path) = normalizeRoute path"
proof -
  obtain p ps where s: "split_slash path = p # ps" "split_slash (normalizeRoute path) = p # redact ps"
    by (rule normalized_split)
  moreover have "redact (redact ps) = redact ps" by (rule redact_id [OF redact_hidden])
  ultimately show ?thesis using redact_hidden [of ps] by (simp add: normalizeRoute_def)
qed

section \<open>What the metrics count\<close>

definition within_bound :: "int list \<Rightarrow> int \<Rightarrow> int" where
  "within_bound ds b = int (length (filter (\<lambda>d. d \<le> b) ds))"

definition series_of :: "int list \<Rightarrow> metric_series" where
  "series_of ds = \<lparr>se_count = int (length ds), se_sum = sum_list ds, se_buckets = map (within_bound ds) (map snd durationBuckets)\<rparr>"

lemma observe_series: "observe d (series_of ds) = series_of (ds @ [d])"
proof -
  have "map (\<lambda>(n, b). if d \<le> b then n + 1 else n) (zip (map (within_bound ds) bs) bs) = map (within_bound (ds @ [d])) bs" for bs
    by (induction bs) (simp_all add: within_bound_def)
  from this [of "map snd durationBuckets"] show ?thesis by (simp only: observe_def series_of_def) simp
qed

lemma series_of_Nil: "series_of [] = empty_series"
  by (simp add: series_of_def empty_series_def within_bound_def durationBuckets_def)

lemma record_in_keys: "fst ` set (record_in k d ms) = insert k (fst ` set ms)"
  by (induction k d ms rule: record_in.induct) auto

lemma record_in_distinct: "distinct (map fst ms) \<Longrightarrow> distinct (map fst (record_in k d ms))"
proof (induction k d ms rule: record_in.induct)
  case (2 k d k' s ms)
  then show ?case using record_in_keys [of k d ms] by (auto simp: image_iff)
qed simp

lemma record_in_map: "map_of (record_in k d ms) k' =
    (if k' = k then Some (observe d (case map_of ms k of None \<Rightarrow> empty_series | Some s \<Rightarrow> s)) else map_of ms k')"
  by (induction k d ms rule: record_in.induct) auto

definition durations :: "metric_key \<Rightarrow> (metric_key \<times> int) list \<Rightarrow> int list" where
  "durations k rs = map snd (filter (\<lambda>(k', d). k' = k) rs)"

lemma requests_recorded:
  "distinct (map fst (fold (\<lambda>(k, d). record_in k d) rs [])) \<and>
   map_of (fold (\<lambda>(k, d). record_in k d) rs []) k = (if durations k rs = [] then None else Some (series_of (durations k rs)))"
proof (induction rs arbitrary: k rule: rev_induct)
  case (snoc r rs)
  obtain k' d where r: "r = (k', d)" by force
  have "(case map_of (fold (\<lambda>(k, d). record_in k d) rs []) k' of None \<Rightarrow> empty_series | Some s \<Rightarrow> s) = series_of (durations k' rs)"
    using snoc [of k'] by (auto simp: series_of_Nil)
  then show ?case using snoc [of k] by (auto simp: r record_in_map observe_series record_in_distinct durations_def)
qed (simp add: durations_def)

lemma running_sums: "running acc ns = map (\<lambda>i. acc + sum_list (take (Suc i) ns)) [0..<length ns]"
proof (induction ns arbitrary: acc)
  case (Cons n ns)
  have "[0..<length (n # ns)] = 0 # map Suc [0..<length ns]" by (simp add: upt_conv_Cons map_Suc_upt del: upt_Suc)
  then show ?case using Cons by (simp add: add.assoc)
qed simp

lemma running_map: "running 0 (map f bs) = map (\<lambda>i. sum_list (map f (take (Suc i) bs))) [0..<length bs]"
  by (simp add: running_sums take_map del: upt_Suc)


lemma twice_cumulated:
  "running 0 (se_buckets (series_of [1000000])) = [1, 2, 3, 4, 5, 6, 7, 8, 9, 10] \<and> se_count (series_of [1000000]) = 1"
  by code_simp

end
