(* ===== verification/Spec2Isabelle.thy ===== *)
theory Spec2Isabelle
  imports Prelude Database Tokens Pagination Tables Samples Devices Enrollment Commands Policies Apps
    Ingest Sessions Lifecycle Files ManagedFiles Json Render Objects Cleanup Snapshot Http Config
    Downloads Accounts Frames AssetRoutes DeviceRoutes EnrollmentRoutes
    Web Login Dashboard DashboardAssets DashboardFlows
    Mqtt Dynsec RateLimit Plugins
    Markup Structured Forms Listings DeviceList Pages Charts Overview DashboardPages CommandTyping
    Observability Settings
begin

text \<open>
  A model of the server of xmdm, a mobile device management system, and the theorems that make
  its core correct. The server (\<open>src/server\<close>, Go) keeps the state of a fleet of Android devices
  in PostgreSQL: administrators create devices, groups, policies, apps and enrollment tokens; a
  device enrols with a token, receives a secret, authenticates with it, uploads logs, device
  information and telemetry, and fetches and acknowledges commands, which are pushed to it over
  MQTT. The rules of this life are in the stores, the packages \<open>internal/*/postgres\<close>; the HTTP
  handlers and the dashboard decode requests and call them.

  \<^bold>\<open>The model.\<close> A store operation is a function on a \<open>world\<close> that returns an error or a value
  and the new world. The world holds the tables, one list of records per table of
  \<open>server/migrations\<close>, an open transaction with the tables it would roll back to, and an
  environment that is only read: the successive readings of the clock and of PostgreSQL's
  \<open>now()\<close>, the identifiers and random bytes handed out, which SQL statements fail, the outcome of
  each publish, and the functions that the server imports and does not define (SHA-256, the
  parsing of UUID text, PostgreSQL's rendering of \<open>jsonb\<close>). Every statement may fail, so every
  error branch of the code is a branch of the model; \<open>with_tx\<close> is \<open>BeginTx\<close> with its deferred
  rollback. Operations are written with \<open>bindE\<close> (Go's \<open>if err != nil { return }\<close>) in the order of
  the code. Identifiers are canonical UUID text, times are microseconds of the Unix epoch, a JSON
  number is the text it is rendered as, Go's \<open>int\<close> wraps at 64 bits where the code computes with
  it, and \<open>strings.ToLower\<close> acts on ASCII letters. One operation is one step: the row locks that
  the transactions take (\<open>FOR UPDATE\<close>) are what makes that view hold for concurrent callers, and
  that argument is outside the model. A failed commit is taken to have rolled back.

  \<^bold>\<open>The theories\<close>, in the order of their imports:
  \<^item> \<open>Prelude\<close>: error values (\<open>httpx/errors.go\<close>), Go strings, 64-bit integers, the combinators of
    the actions and their weakest preconditions, lemmas on lists of rows.
  \<^item> \<open>Database\<close>: the rows and the world, SQL statements and transactions, and \<open>keeps\<close>, the
    invariants of actions.
  \<^item> \<open>Tokens\<close>: \<open>enrollment/token.go\<close> and \<open>checksum/checksum.go\<close>; unpadded URL-safe base64 in full.
  \<^item> \<open>Pagination\<close>: \<open>pagination/pagination.go\<close> and the page parameters of \<open>httpx/http.go\<close>.
  \<^item> \<open>Tables\<close>: insert, update and delete on one table; the locales \<open>table\<close> and \<open>base_table\<close>, the
    contract every table meets; \<open>atomic\<close>, all or nothing; the locale \<open>evolving\<close>, rows that only
    move along a preorder.
  \<^item> \<open>Samples\<close>: a concrete environment and rows, on which the theorems are exercised.
  \<^item> \<open>Devices\<close>: \<open>device/model.go\<close>, \<open>device/postgres/store.go\<close>, \<open>group/model.go\<close>,
    \<open>group/postgres/store.go\<close>.
  \<^item> \<open>Enrollment\<close>: \<open>enrollment/model.go\<close> and \<open>enrollment/postgres/store.go\<close>.
  \<^item> \<open>Commands\<close>: \<open>commands/model.go\<close>, \<open>commands/catalog.go\<close>, \<open>commands/postgres/store.go\<close>, and the
    topic and message of \<open>push/push.go\<close>.
  \<^item> \<open>Policies\<close>: \<open>policy/model.go\<close> and \<open>policy/postgres/store.go\<close>; the locale \<open>binding_table\<close> for
    the three tables that bind apps, certificates and managed files to policies.
  \<^item> \<open>Apps\<close>: \<open>apps/model.go\<close> and \<open>apps/postgres/store.go\<close>.
  \<^item> \<open>Ingest\<close>: the stores and models of \<open>logs\<close>, \<open>deviceinfo\<close> and \<open>telemetry\<close>; the locale
    \<open>ingestion\<close> for the shape their uploads share.
  \<^item> \<open>Sessions\<close>: \<open>auth/rbac.go\<close> and \<open>auth/service.go\<close>, with the service as a state machine.
  \<^item> \<open>Lifecycle\<close>: all writing operations as the steps of one transition system, its invariant and
    the evolution of its rows.

  \<^item> \<open>Files\<close>: \<open>files/postgres/store.go\<close> and \<open>certificates/postgres/store.go\<close> with their models; the
    locale \<open>asset_store\<close> for what the two stores share.
  \<^item> \<open>ManagedFiles\<close>, \<open>Json\<close>, \<open>Render\<close>: \<open>managedfiles/postgres/store.go\<close>, the text \<open>encoding/json\<close> writes, and
    the templates of \<open>managedfiles/render.go\<close>.
  \<^item> \<open>Objects\<close>, \<open>Cleanup\<close>: the object store (\<open>artifacts/s3/store.go\<close>) as a list of keys and contents, and the
    cleanup pass \<open>artifactcleanup/cleanup.go\<close>.
  \<^item> \<open>Snapshot\<close>: the configuration of a device, its canonical JSON and its signature
    (\<open>enrollment/snapshot.go\<close>).
  \<^item> \<open>Http\<close>: requests, answers, sessions and device secrets, as the handlers share them.
  \<^item> \<open>Config\<close>, \<open>Downloads\<close>: the configuration endpoint (\<open>enrollment/http/routes.go\<close>) and the endpoints
    artifacts are downloaded from (\<open>managedfiles/http\<close>, \<open>certificates/http\<close>, \<open>apps/http\<close>).
  \<^item> \<open>Frames\<close>: what no statement touches, the objects, the sessions and the environment.
  \<^item> \<open>AssetRoutes\<close>, \<open>DeviceRoutes\<close>, \<open>EnrollmentRoutes\<close>: the remaining endpoints of the \<open>routes.go\<close> of
    files, certificates, managed files, app versions, commands, logs, device information, telemetry and
    enrollment, with the decoding of their requests and the errors they answer.
  \<^item> \<open>Accounts\<close>: the stores of roles, users and the audit log, and the log-in of a user.
  \<^item> \<open>Web\<close>, \<open>Login\<close>: the browser's side of the dashboard (\<open>admin/http/dashboard.go\<close>,
    \<open>dashboard_auth.go\<close>): form fields, cookies, the CSRF check, redirects and their escaping, the pages
    of a list, the guards of pages and of forms; logging in and out.
  \<^item> \<open>Dashboard\<close>, \<open>DashboardAssets\<close>: the forms of the dashboard, one definition per handler, for groups,
    roles, users, commands, policies, devices and enrolment codes (\<open>dashboard_groups.go\<close>, \<open>_roles\<close>,
    \<open>_users\<close>, \<open>_commands\<close>, \<open>_policy\<close>, \<open>_device\<close>) and for certificates, managed files and apps
    (\<open>dashboard_certificates.go\<close>, \<open>_managed_files\<close>, \<open>_app\<close>).
  \<^item> \<open>Mqtt\<close>, \<open>Dynsec\<close>: the packets and exchanges of \<open>push/mqtt.go\<close> and \<open>mqttdynsec/client.go\<close>, over a connection
    that is the bytes that arrive on it before its deadline.
  \<^item> \<open>RateLimit\<close>, \<open>Plugins\<close>: the token buckets of \<open>httpx/rate_limit.go\<close> and the plugins of \<open>plugins/manager.go\<close>.
  \<^item> \<open>DashboardFlows\<close>: what follows from one form for the next request, as a new user signing in.
  \<^item> \<open>Markup\<close>, \<open>Structured\<close>, \<open>Forms\<close>, \<open>Listings\<close>, \<open>DeviceList\<close>: the HTML the handlers write (\<open>dashboard.go\<close>,
    \<open>dashboard_*.go\<close>): escaping, panels and pagers with a scanner that says what sound markup is, the tables of
    arbitrary values, the forms with their fields and options, the lists and summaries, and the list of devices
    with its filters (\<open>ListDevicesByFilter\<close>, up to the arithmetic of \<open>numeric\<close>).
  \<^item> \<open>Pages\<close>, \<open>DashboardPages\<close>: the handlers of the pages, what each loads and in which order, the locale
    \<open>read_frame\<close> for what reading leaves alone, and the pages with their addresses (\<open>RegisterDashboard\<close>).
  \<^item> \<open>Charts\<close>, \<open>Overview\<close>: the charts, figures and HTML of the overview page (\<open>dashboard_overview.go\<close>,
    \<open>dashboard_health.go\<close>).
  \<^item> \<open>CommandTyping\<close>: the type of the rows of the commands and its preservation.
  \<^item> \<open>Observability\<close>: \<open>observability/observability.go\<close>: identifiers of requests, the routes they are
    counted under, the histograms and the page that shows them.
  \<^item> \<open>Settings\<close>: \<open>config/config.go\<close>, the seeds of \<open>bootstrap/bootstrap.go\<close> and the prefixes of
    \<open>httpx/router.go\<close>; YAML and the syntax of durations are arguments.

  \<^bold>\<open>What is proved.\<close> For each store, what its operations do on success and on failure, stated over
  the tables before and after: which rows change and which do not, which error leaves everything
  as it was. For authentication, enrolment and the listings the statements are exact, under the
  hypothesis that no statement fails. Across the stores: the keys and references of the schema
  are invariant under any sequence of operations with any failures, and the life cycles are
  one-way, so that a retired device stays out, a spent token stays spent, the outcome of a
  command is final and the system's app is protected. The session service refines a specification
  that knows no map. Base64, the JSON of policy restrictions and MQTT packets round trip. Nothing here needs
  fuel: every loop is a structural recursion or has a measure, except the wait for a response of the
  broker, which is shown to end.

  \<^bold>\<open>What is not modelled.\<close> The broker itself (the
  stores see it as \<open>publish_ok\<close> and \<open>prov_call\<close>, the outcomes of \<open>Mqtt\<close> and \<open>Dynsec\<close>); of the dashboard the
  templates, which put navigation and style around what the handlers pass to them (the first two thousand lines of \<open>dashboard.go\<close>); formatting
  by time zones, indented JSON and floating-point coordinates, which are parameters; the program that fills a database for screenshots
  (\<open>cmd/dashboard-screenshot-fixture\<close>); and the start-up code (\<open>host\<close>, \<open>cmd\<close>), which wires the parts. The Android launcher (\<open>src/app\<close>) is another program.
\<close>

section \<open>Properties of the whole\<close>

text \<open>Where a row of a reachable world came from.\<close>

lemma device_later:
  assumes "store_reach w0 w" "txn w0 = None" "store_schema (db w0)" "r \<in> set (devices (db w0))"
    and "s \<in> set (devices (db w))" "rec_id s = rec_id r"
  shows "device_step r s"
  using reach_sound [OF assms(1-3)] assms(4-6)
  by (auto simp: evolved_def store_schema_def device_schema_def intro!: rows_evolveD [where key = rec_id])

lemma token_later:
  assumes "store_reach w0 w" "txn w0 = None" "store_schema (db w0)" "r \<in> set (enrollment_tokens (db w0))"
    and "s \<in> set (enrollment_tokens (db w))" "tok_id s = tok_id r"
  shows "token_step r s"
  using reach_sound [OF assms(1-3)] assms(4-6)
  by (auto simp: evolved_def store_schema_def token_schema_def intro!: rows_evolveD [where key = tok_id])

lemma retired_later:
  assumes "store_reach w0 w" "txn w0 = None" "store_schema (db w0)" "r \<in> set (devices (db w0))"
    and "by_id tn i r" "rec_status r = ''retired''" "s \<in> set (devices (db w))" "by_id tn i s"
  shows "rec_status s = ''retired''"
  using device_later [OF assms(1-4,7)] assms(5,6,8) by (auto simp: device_step_def by_id_def)

text \<open>
  A world with everything in it: an enrolled, a pending and a retired device, tokens, commands
  in several states, and an app of the system.
\<close>

definition full_database :: database where
  "full_database = empty_database\<lparr>groups := [sample_group],
     devices := [sample_device ''d'' ''enrolled'' (sample_hash ''s''), sample_device ''p'' ''pending'' (sample_hash ''x''),
                 sample_device ''e'' ''retired'' (sample_hash ''s2'')],
     enrollment_tokens := [sample_token ''k1'' (sample_hash ''k'') ''issued'' 5000,
                           sample_token ''k2'' (sample_hash ''q'') ''consumed'' 5000],
     commands := [sample_command ''c1'' ''d'' ''sent'' None, sample_command ''c4'' ''d'' ''acked'' (Some 10)],
     apps := [sample_app ''a'' True]\<rparr>"

lemma full_schema: "store_schema full_database"
  by (simp add: store_schema_def full_database_def empty_database_def device_schema_def token_schema_def
      command_schema_def sample_device_def sample_token_def sample_command_def sample_group_def
      policy_ref_ok_def sample_hash_def HashToken_def sample_env_def)

lemma reach_one: "store_step w w' \<Longrightarrow> store_reach w w'"
  by (rule store_reach.step [OF store_reach.start])



text \<open>
  C2: Retirement is final: once a device is retired, then whatever operations run afterwards, no
  secret authenticates it, no token binds it, nothing it uploads is accepted, and no command
  is enqueued for it.
\<close>

theorem retired_device_stays_out:
  assumes "store_reach w0 w" "txn w0 = None" "store_schema (db w0)"
    and "r \<in> set (devices (db w0))" "by_id tn i r" "rec_status r = ''retired''"
  shows "fst (Authenticate tn i secret w) \<noteq> Inr dv \<and>
    fst (BindDevice tn tok i extras w) \<noteq> Inr b \<and>
    fst (logs_Upload tn i secret lreq w) \<noteq> Inr ys \<and>
    fst (telemetry_Upload tn i secret treq w) \<noteq> Inr y \<and>
    fst (deviceinfo_Upload tn i secret ireq w) \<noteq> Inr zs \<and>
    (fst (Enqueue tn creq w) = Inr out \<longrightarrow> i \<notin> set (map cmd_device out))"
proof -
  have inv: "txn w = None" "device_schema (db w)" "token_schema (db w)"
    using reach_sound [OF assms(1-3)] by (simp_all add: store_schema_def)
  have gone: "rec_status s = ''retired''" if "s \<in> set (devices (db w))" "by_id tn i s" for s
    by (rule retired_later [OF assms that])
  have noauth: "\<not> authentic e (db w) tn i secret s" for e s
    using gone [of s] by (auto simp: authentic_def)
  have "fst (Authenticate tn i secret w) \<noteq> Inr dv"
    using Authenticate_Inr [of tn i secret w dv] gone by blast
  moreover have "fst (BindDevice tn tok i extras w) \<noteq> Inr b"
    using post_fst_Inr [OF post_BindDevice [OF inv(1,3,2)], of tn tok i extras b] gone by fastforce
  moreover have "fst (logs_Upload tn i secret lreq w) \<noteq> Inr ys"
    using post_fst_Inr [OF post_logs_Upload [OF inv(1)], of tn i secret lreq ys] noauth by blast
  moreover have "fst (telemetry_Upload tn i secret treq w) \<noteq> Inr y"
    using post_fst_Inr [OF post_telemetry_Upload [OF inv(1)], of tn i secret treq y] noauth by blast
  moreover have "fst (deviceinfo_Upload tn i secret ireq w) \<noteq> Inr zs"
    using post_fst_Inr [OF post_deviceinfo_Upload [OF inv(1)], of tn i secret ireq zs] noauth by blast
  moreover have "i \<notin> set (map cmd_device out)" if q: "fst (Enqueue tn creq w) = Inr out"
  proof
    assume "i \<in> set (map cmd_device out)"
    then obtain s where "is_target (db w) tn (cu_target creq) s" "rec_id s = i"
      using post_fst_Inr [OF post_Enqueue [OF inv(1,2)] q] by auto
    then show False using gone [of s] by (auto simp: is_target_def by_id_def)
  qed
  ultimately show ?thesis by blast
qed

theorem retired_device_stays_out_witness:
  "\<forall>dv. fst (Authenticate ''t'' ''e'' ''s2'' (snd (BindDevice ''t'' ''k'' ''p'' None (world_of full_database)))) \<noteq> Inr dv"
proof -
  have reach: "store_reach (world_of full_database) (snd (BindDevice ''t'' ''k'' ''p'' None (world_of full_database)))"
    by (rule reach_one [OF store_step.bind_device])
  have "sample_device ''e'' ''retired'' (sample_hash ''s2'') \<in> set (devices (db (world_of full_database)))"
    by (simp add: full_database_def)
  from retired_device_stays_out [OF reach _ _ this] show ?thesis
    by (simp add: full_schema by_id_def sample_device_def)
qed

text \<open>
  C3: A token is spent for good: once it is consumed, expired or revoked, then whatever operations
  run afterwards, its row is unchanged, its secret binds no device and is not accepted by
  validation or consumption.
\<close>

theorem spent_token_stays_spent:
  assumes "store_reach w0 w" "txn w0 = None" "store_schema (db w0)"
    and "r \<in> set (enrollment_tokens (db w0))" "tok_status r \<noteq> ''issued''" "tok_tenant r = tn"
    and "tok_hash r = HashToken (sha256 (env w)) secret"
  shows "r \<in> set (enrollment_tokens (db w)) \<and>
    fst (BindDevice tn secret i extras w) \<noteq> Inr b \<and>
    fst (ValidateToken tn secret w) \<noteq> Inr k \<and> fst (ConsumeToken tn secret w) \<noteq> Inr k"
proof -
  have inv: "txn w = None" "device_schema (db w)" "token_schema (db w)"
    using reach_sound [OF assms(1-3)] by (simp_all add: store_schema_def)
  obtain r' where r': "r' \<in> set (enrollment_tokens (db w))" "tok_id r' = tok_id r" "token_step r r'"
    using reach_sound [OF assms(1-3)] assms(4) by (auto simp: evolved_def rows_evolve_def)
  then have mem: "r \<in> set (enrollment_tokens (db w))" using assms(5) by (simp add: token_step_def)
  have dead: "\<not> live_token_of w tn (HashToken (sha256 (env w)) secret) s" for s
  proof
    assume "live_token_of w tn (HashToken (sha256 (env w)) secret) s"
    then have s: "s \<in> set (enrollment_tokens (db w))" "tok_tenant s = tok_tenant r" "tok_hash s = tok_hash r"
      "tok_status s = ''issued''"
      using assms(6,7) by (auto simp: live_token_of_def)
    have "s = r"
      by (rule distinct_key_unique [where k = "\<lambda>r. (tok_tenant r, tok_hash r)"])
        (use inv(3) s mem in \<open>simp_all add: token_schema_def\<close>)
    with s(4) assms(5) show False by simp
  qed
  have "fst (BindDevice tn secret i extras w) \<noteq> Inr b"
    using post_fst_Inr [OF post_BindDevice [OF inv(1,3,2)], of tn secret i extras b] dead by blast
  moreover have "fst (inspectToken tn secret c w) \<noteq> Inr k" for c
    using post_fst_Inr [OF post_inspectToken [OF inv(1,3)], of tn secret c k] dead by blast
  ultimately show ?thesis using mem by (simp add: ValidateToken_def ConsumeToken_def)
qed

theorem spent_token_stays_spent_witness:
  "\<forall>b. fst (BindDevice ''t'' ''q'' ''p'' None (snd (UpdateDevice ''t'' ''p'' sample_upsert (world_of full_database)))) \<noteq> Inr b"
proof -
  let ?u = "world_of full_database" and ?r = "sample_token ''k2'' (sample_hash ''q'') ''consumed'' 5000"
  let ?w = "snd (UpdateDevice ''t'' ''p'' sample_upsert ?u)"
  have reach: "store_reach ?u ?w" by (rule reach_one [OF store_step.update_device])
  have r: "?r \<in> set (enrollment_tokens (db ?u))" by (simp add: full_database_def)
  have "sha256 (env ?w) ''q'' = ''#q''" by code_simp
  then have "tok_hash ?r = HashToken (sha256 (env ?w)) ''q''"
    by (simp add: sample_token_def sample_hash_def HashToken_def sample_env_def)
  from spent_token_stays_spent [OF reach _ _ r _ _ this, of "''t''"] show ?thesis
    by (simp add: full_schema sample_token_def)
qed

text \<open>
  C8: The outcome of a command is final: once a command is acknowledged, failed or expired, no
  sequence of operations changes its row.
\<close>

theorem command_outcome_final:
  assumes "store_reach w0 w" "txn w0 = None" "store_schema (db w0)"
    and "c \<in> set (commands (db w0))" "cmd_status c \<in> {''acked'', ''failed'', ''expired''}"
  shows "c \<in> set (commands (db w))"
proof -
  obtain c' where "c' \<in> set (commands (db w))" "command_step c c'"
    using reach_sound [OF assms(1-3)] assms(4) by (auto simp: evolved_def rows_evolve_def)
  then show ?thesis
    using assms(5) by (auto simp: command_step_def pending_status_def command_statuses)
qed

theorem command_outcome_final_witness:
  "sample_command ''c4'' ''d'' ''acked'' (Some 10) \<in>
     set (commands (db (snd (Acknowledge ''t'' ''d'' ''c4'' \<lparr>ack_status = ''failed'', ack_message = [], ack_details = None\<rparr>
       (world_of full_database)))))"
proof (rule command_outcome_final [OF reach_one [OF store_step.acknowledge]])
  show "store_schema (db (world_of full_database))" by (simp add: full_schema)
qed (simp_all add: full_database_def sample_command_def)

text \<open>
  C9: The app of the system is protected: no sequence of operations retires an app that the system
  owns, gives it another package name or takes the ownership away.
\<close>

theorem system_app_protected:
  assumes "store_reach w0 w" "txn w0 = None" "store_schema (db w0)"
    and "a \<in> set (apps (db w0))" "app_system_owned a" "rec_status a \<noteq> ''retired''"
  shows "\<exists>a'. a' \<in> set (apps (db w)) \<and> rec_id a' = rec_id a \<and> app_system_owned a' \<and>
    app_package a' = app_package a \<and> rec_status a' \<noteq> ''retired''"
proof -
  obtain a' where "a' \<in> set (apps (db w))" "rec_id a' = rec_id a" "app_step a a'"
    using reach_sound [OF assms(1-3)] assms(4) by (auto simp: evolved_def rows_evolve_def)
  then show ?thesis using assms(5,6) by (auto simp: app_step_def)
qed

theorem system_app_protected_witness:
  "\<exists>a'. a' \<in> set (apps (db (snd (RetireApp ''t'' ''a'' (world_of full_database))))) \<and>
     app_package a' = ''com.x'' \<and> rec_status a' \<noteq> ''retired''"
proof -
  have reach: "store_reach (world_of full_database) (snd (RetireApp ''t'' ''a'' (world_of full_database)))"
    by (rule reach_one [OF store_step.retire_app])
  have "sample_app ''a'' True \<in> set (apps (db (world_of full_database)))" by (simp add: full_database_def)
  from system_app_protected [OF reach _ _ this] show ?thesis
    by (auto simp: full_schema sample_app_def)
qed

text \<open>
  C7: From enrolment to activity: when a device has been bound, the telemetry it then uploads with
  the secret it received makes it active, and it still authenticates with that secret.
\<close>

theorem enrolled_device_becomes_active:
  assumes "fst (BindDevice tn tok i extras w) = Inr b" "txn w = None" "store_schema (db w)"
    and "db w1 = db (snd (BindDevice tn tok i extras w))" "env w1 = env w" "txn w1 = None"
    and "fst (telemetry_Upload tn i (bd_device_secret b) req w1) = Inr y"
    and "db w2 = db (snd (telemetry_Upload tn i (bd_device_secret b) req w1))" "env w2 = env w" "no_faults w2"
  shows "\<exists>dv. fst (Authenticate tn i (bd_device_secret b) w2) = Inr dv \<and> rec_id dv = i \<and> rec_status dv = ''active''"
proof -
  let ?h = "HashToken (sha256 (env w)) (bd_device_secret b)"
  have sch: "token_schema (db w)" "device_schema (db w)" using assms(3) by (simp_all add: store_schema_def)
  obtain r v raw where v: "v \<in> set (devices (db w))" "by_id tn i v"
    and b: "bd_device_secret b = EncodeToString raw"
    and d1: "db w1 = bound_state w r tn i (EncodeToString raw) extras"
    using post_fst_Inr [OF post_BindDevice [OF assms(2) sch] assms(1)] assms(4)
    by (metis bound_device.select_convs(2))
  have one: "filter (by_id tn i) (devices (db w)) = [v]"
    using sch v by (intro devices_t.by_id_single) (auto simp: device_schema_def)
  have row1: "filter (by_id tn i) (devices (db w1)) = [bound_row ?h extras (clock_src (env w) (ticks w)) v]"
    by (simp add: d1 bound_state_def Let_def filter_upd_where one b)
  obtain r1 x d p where r1: "authentic (env w1) (db w1) tn i (bd_device_secret b) r1"
    and info: "info_spec device_telemetry device_telemetry_update tn (te_observed req) p
          (env w1) r1 (clock_src (env w1) (ticks w1)) (db w1) x d"
    and d2: "db w2 = seen r1 (clock_src (env w1) (ticks w1)) d"
    using post_fst_Inr [OF post_telemetry_Upload [OF assms(6)] assms(7)] assms(8) by metis
  from info have spec: "devices d = devices (db w1)" by (simp add: info_spec_def)
  have "r1 \<in> set (filter (by_id tn i) (devices (db w1)))" using r1 by (simp add: authentic_def)
  then have r1_eq: "r1 = bound_row ?h extras (clock_src (env w) (ticks w)) v" by (simp add: row1)
  have id: "rec_id v = i" "rec_tenant v = tn" using v(2) by (simp_all add: by_id_def)
  let ?r2 = "seen_row r1 (clock_src (env w1) (ticks w1)) r1"
  have same: "by_id tn i (seen_row r1 t s) = by_id tn i s" for t s by (simp add: seen_row_def by_id_def)
  have "filter (by_id tn i) (devices (db w2)) = map (\<lambda>s. if rec_id s = rec_id r1 then
      seen_row r1 (clock_src (env w1) (ticks w1)) s else s) (filter (by_id tn i) (devices (db w1)))"
    unfolding d2 seen_simps spec upd_where_def filter_map comp_def
    by (rule arg_cong [of _ _ "map _"], rule filter_cong) (simp_all add: same)
  then have row2: "filter (by_id tn i) (devices (db w2)) = [?r2]" by (simp add: row1 r1_eq id)
  have match: "filter (\<lambda>r. by_id tn i r \<and> dev_secret_hash r = ?h) (devices (db w2)) = [?r2]"
    using filter_sub_single [OF row2, of "\<lambda>r. by_id tn i r \<and> dev_secret_hash r = ?h"]
    by (simp add: r1_eq seen_row_def by_id_def id)
  have args: "tn \<noteq> []" "i \<noteq> []" "bd_device_secret b \<noteq> []"
    using assms(7) by (auto simp: telemetry_Upload_def throwE_def)
  show ?thesis
    using assms(9,10) args
    by (simp add: fst_Authenticate match canAuthenticateDeviceStatus_def device_statuses)
      (simp add: r1_eq seen_row_def id)
qed

theorem enrolled_device_becomes_active_witness:
  "\<exists>b dv. fst (BindDevice ''t'' ''k'' ''p'' None (world_of full_database)) = Inr b \<and>
     fst (Authenticate ''t'' ''p'' (bd_device_secret b) (world_of (db (snd (telemetry_Upload ''t'' ''p'' (bd_device_secret b)
       sample_telemetry (world_of (db (snd (BindDevice ''t'' ''k'' ''p'' None (world_of full_database)))))))))) = Inr dv \<and>
     rec_status dv = ''active''"
proof -
  let ?w = "world_of full_database"
  let ?w1 = "world_of (db (snd (BindDevice ''t'' ''k'' ''p'' None ?w)))"
  have "case fst (BindDevice ''t'' ''k'' ''p'' None ?w) of
      Inr b \<Rightarrow> (case fst (telemetry_Upload ''t'' ''p'' (bd_device_secret b) sample_telemetry ?w1) of
          Inr y \<Rightarrow> True | Inl e \<Rightarrow> False)
    | Inl e \<Rightarrow> False" by code_simp
  then obtain b y where b: "fst (BindDevice ''t'' ''k'' ''p'' None ?w) = Inr b"
    and y: "fst (telemetry_Upload ''t'' ''p'' (bd_device_secret b) sample_telemetry ?w1) = Inr y"
    by (auto split: sum.splits)
  let ?w2 = "world_of (db (snd (telemetry_Upload ''t'' ''p'' (bd_device_secret b) sample_telemetry ?w1)))"
  from enrolled_device_becomes_active [OF b _ _ _ _ _ y, of ?w2] b show ?thesis
    by (auto simp: full_schema)
qed


end
